(* ===== verification/Prelude.thy ===== *)
theory Prelude
  imports Main "HOL-Library.Multiset" "HOL-Library.Char_ord" "HOL-Library.List_Lexorder"
begin

text \<open>
  Shared vocabulary of the development: the theorem collections the component proofs use and
  generic facts on lists and options.

  \<^item> \<open>py_eval\<close>: defining equations of the Python-level helpers, unfolded by the
    functional proofs;
  \<^item> \<open>tx_eval\<close>: how the transaction primitives run on a session;
  \<^item> \<open>frame_intro\<close>: introduction rules by which a handler is shown to stay inside a
    frame relation (see theory \<open>Session\<close>).
\<close>

named_theorems py_eval
named_theorems tx_eval
named_theorems frame_intro

subsection \<open>Lists and options\<close>

text \<open>The first element of a query result, as \<open>.first()\<close> returns it.\<close>

definition first_of :: "'a list \<Rightarrow> 'a option" where
  "first_of xs = (case xs of [] \<Rightarrow> None | x # _ \<Rightarrow> Some x)"

lemma first_of_simps [simp]:
  "first_of [] = None"
  "first_of (x # xs) = Some x"
  by (simp_all add: first_of_def)

lemma first_of_eq_None [simp]: "first_of xs = None \<longleftrightarrow> xs = []"
  by (cases xs) simp_all

lemma first_of_Some_in: "first_of xs = Some x \<Longrightarrow> x \<in> set xs"
  by (cases xs) simp_all

lemma first_of_filter: "first_of (filter P xs) = find P xs"
  by (induction xs) simp_all

lemma all_map_if:
  "(\<And>x. x \<in> set xs \<Longrightarrow> P x \<Longrightarrow> Q (f x)) \<Longrightarrow> (\<And>x. x \<in> set xs \<Longrightarrow> \<not> P x \<Longrightarrow> Q x) \<Longrightarrow>
    \<forall>y \<in> set (map (\<lambda>x. if P x then f x else x) xs). Q y"
  by auto

lemma find_sat: "find P xs = Some x \<Longrightarrow> x \<in> set xs \<and> P x"
  by (induction xs) (auto split: if_splits)

text \<open>\<open>max(...)\<close> over a column, with the SQL convention that it is NULL on no rows.\<close>

definition max_of :: "int list \<Rightarrow> int option" where
  "max_of xs = (if xs = [] then None else Some (Max (set xs)))"

lemma max_of_None [simp]: "max_of xs = None \<longleftrightarrow> xs = []"
  by (simp add: max_of_def)

lemma max_of_ge: "max_of xs = Some m \<Longrightarrow> x \<in> set xs \<Longrightarrow> x \<le> m"
  by (auto simp: max_of_def split: if_splits)

lemma max_of_in: "max_of xs = Some m \<Longrightarrow> m \<in> set xs"
  by (auto simp: max_of_def split: if_splits)

text \<open>The next number of a per-task sequence: \<open>int(current or 0) + 1\<close>.\<close>

definition next_seq :: "int list \<Rightarrow> int" where
  "next_seq xs = (case max_of xs of None \<Rightarrow> 1 | Some m \<Rightarrow> m + 1)"

lemma next_seq_Nil [simp]: "next_seq [] = 1"
  by (simp add: next_seq_def max_of_def)

lemma next_seq_fresh: "next_seq xs \<notin> set xs"
proof (cases "max_of xs")
  case (Some m)
  then show ?thesis using max_of_ge [OF Some, of "m + 1"] by (auto simp: next_seq_def)
qed simp

lemma next_seq_greater: "x \<in> set xs \<Longrightarrow> x < next_seq xs"
  by (cases "max_of xs") (force simp: next_seq_def dest: max_of_ge)+

text \<open>A log numbered without gaps stays so.\<close>

lemma next_seq_gapless:
  assumes "xs = map int [1..<Suc n]"
  shows "next_seq xs = int n + 1"
proof (cases "max_of xs")
  case None
  then have "xs = []" by simp
  with assms have "n = 0" by (cases n) simp_all
  with \<open>xs = []\<close> show ?thesis by simp
next
  case (Some m)
  then have m: "m \<in> set xs" by (rule max_of_in)
  with assms have "0 < n" by auto
  then have "int n \<in> set xs" using assms by auto
  then have "int n \<le> m" by (rule max_of_ge [OF Some])
  with m assms Some show ?thesis by (auto simp: next_seq_def)
qed

subsection \<open>Association lists as Python dicts\<close>

text \<open>\<open>d[k] = v\<close> keeps the position of an existing key and appends a new one.\<close>

fun dset :: "string \<Rightarrow> 'v \<Rightarrow> (string \<times> 'v) list \<Rightarrow> (string \<times> 'v) list" where
  "dset k v [] = [(k, v)]"
| "dset k v ((k', v') # ps) = (if k' = k then (k, v) # ps else (k', v') # dset k v ps)"

lemma map_of_dset: "map_of (dset k v d) = (map_of d)(k \<mapsto> v)"
  by (induction d) auto

text \<open>\<open>d.update(e)\<close>.\<close>

definition dupdate :: "(string \<times> 'v) list \<Rightarrow> (string \<times> 'v) list \<Rightarrow> (string \<times> 'v) list" where
  "dupdate d e = fold (\<lambda>(k, v) acc. dset k v acc) e d"

lemma map_of_dupdate: "distinct (map fst e) \<Longrightarrow> map_of (dupdate d e) = map_of d ++ map_of e"
  unfolding dupdate_def
proof (induction e arbitrary: d)
  case (Cons p e)
  obtain k v where p: "p = (k, v)" by (cases p)
  from Cons.prems p have "map_of e k = None" by (simp add: map_of_eq_None_iff)
  then have "map_of (dset k v d) ++ map_of e = map_of d ++ map_of (p # e)"
    by (auto simp: p map_of_dset fun_eq_iff map_add_def split: option.splits)
  moreover have "map_of (fold (\<lambda>(k, v). dset k v) e (dset k v d)) = map_of (dset k v d) ++ map_of e"
    using Cons by simp
  ultimately show ?case by (simp only: p fold_Cons comp_apply split)
qed simp

end
