(* ===== verification/Json.thy ===== *)
theory Json
  imports Prelude
begin

text \<open>
  JSON values as the service passes them around (command payloads, contract contents, plan
  nodes, results) and the parts of Python's \<open>dict\<close>, truth value, \<open>str\<close> and \<open>int\<close> that the
  service applies to them; \<open>domain/hashing.py\<close>, and the module-level helpers of
  \<open>application/service.py\<close> on JSON data.

  Strings are UTF-8 byte sequences, so \<open>length\<close> is the encoded size and the byte-wise order is
  the code point order Python sorts keys by. Numbers are Python's unbounded integers. The
  SHA-256 digest of \<open>hashlib\<close> is a parameter \<open>sha\<close> of the definitions that hash.
\<close>

datatype json =
    JNull
  | JBool bool
  | JInt int
  | JStr string
  | JList "json list"
  | JObj "(string \<times> json) list"

type_synonym dict = "(string \<times> json) list"

subsection \<open>Python's view of a value\<close>

fun truthy :: "json \<Rightarrow> bool" where
  "truthy JNull = False"
| "truthy (JBool b) = b"
| "truthy (JInt i) = (i \<noteq> 0)"
| "truthy (JStr s) = (s \<noteq> [])"
| "truthy (JList xs) = (xs \<noteq> [])"
| "truthy (JObj ps) = (ps \<noteq> [])"

text \<open>\<open>d.get(k)\<close>, \<open>k in d\<close> and \<open>a or b\<close>.\<close>

definition dget :: "dict \<Rightarrow> string \<Rightarrow> json" where
  "dget d k = (case map_of d k of None \<Rightarrow> JNull | Some v \<Rightarrow> v)"

definition dhas :: "dict \<Rightarrow> string \<Rightarrow> bool" where
  "dhas d k \<longleftrightarrow> map_of d k \<noteq> None"

definition jor :: "json \<Rightarrow> json \<Rightarrow> json" where
  "jor a b = (if truthy a then a else b)"

text \<open>The items of a list value and the entries of a dict value; empty for other values.\<close>

fun items :: "json \<Rightarrow> json list" where
  "items (JList xs) = xs"
| "items _ = []"

fun entries :: "json \<Rightarrow> dict" where
  "entries (JObj ps) = ps"
| "entries _ = []"

definition is_obj :: "json \<Rightarrow> bool" where
  "is_obj j = (case j of JObj _ \<Rightarrow> True | _ \<Rightarrow> False)"

definition is_list :: "json \<Rightarrow> bool" where
  "is_list j = (case j of JList _ \<Rightarrow> True | _ \<Rightarrow> False)"

text \<open>\<open>v.get(k)\<close> on a dict value.\<close>

definition jget :: "json \<Rightarrow> string \<Rightarrow> json" where
  "jget j k = dget (entries j) k"

lemma dget_simps [simp]:
  "dget [] k = JNull"
  "dget ((k', v) # d) k = (if k' = k then v else dget d k)"
  by (simp_all add: dget_def)

lemma jor_simps [simp]:
  "truthy a \<Longrightarrow> jor a b = a"
  "\<not> truthy a \<Longrightarrow> jor a b = b"
  by (simp_all add: jor_def)

lemma is_obj_simps [simp]:
  "is_obj (JObj ps)" "\<not> is_obj JNull" "\<not> is_obj (JBool b)" "\<not> is_obj (JInt i)"
  "\<not> is_obj (JStr s)" "\<not> is_obj (JList xs)"
  by (simp_all add: is_obj_def)

subsection \<open>Printing\<close>

fun show_nat :: "nat \<Rightarrow> string" where
  "show_nat n = (if n < 10 then [char_of (48 + n)] else show_nat (n div 10) @ [char_of (48 + n mod 10)])"

declare show_nat.simps [simp del]

definition show_int :: "int \<Rightarrow> string" where
  "show_int i = (if i < 0 then ''-'' @ show_nat (nat (- i)) else show_nat (nat i))"

definition hex_digit :: "nat \<Rightarrow> char" where
  "hex_digit n = (if n < 10 then char_of (48 + n) else char_of (87 + n))"

text \<open>String escapes of \<open>json.dumps(..., ensure_ascii=False)\<close>.\<close>

definition esc_char :: "char \<Rightarrow> string" where
  "esc_char c =
    (let n = of_char c :: nat in
     if n = 34 then [char_of (92::nat), c]
     else if n = 92 then [c, c]
     else if n = 10 then [char_of (92::nat), CHR ''n'']
     else if n = 13 then [char_of (92::nat), CHR ''r'']
     else if n = 9 then [char_of (92::nat), CHR ''t'']
     else if n = 8 then [char_of (92::nat), CHR ''b'']
     else if n = 12 then [char_of (92::nat), CHR ''f'']
     else if n < 32 then [char_of (92::nat)] @ ''u00'' @ [hex_digit (n div 16), hex_digit (n mod 16)]
     else [c])"

definition quote_str :: "string \<Rightarrow> string" where
  "quote_str s = [char_of (34::nat)] @ concat (map esc_char s) @ [char_of (34::nat)]"

fun join :: "string \<Rightarrow> string list \<Rightarrow> string" where
  "join sep [] = []"
| "join sep [x] = x"
| "join sep (x # y # ys) = x @ sep @ join sep (y # ys)"

text \<open>\<open>canonical_json\<close>: keys sorted, no spaces.\<close>

fun canonical_json :: "json \<Rightarrow> string" where
  "canonical_json JNull = ''null''"
| "canonical_json (JBool b) = (if b then ''true'' else ''false'')"
| "canonical_json (JInt i) = show_int i"
| "canonical_json (JStr s) = quote_str s"
| "canonical_json (JList xs) = ''['' @ join '','' (map canonical_json xs) @ '']''"
| "canonical_json (JObj ps) =
     ''{'' @ join '','' (map (\<lambda>(k, t). quote_str k @ '':'' @ t)
       (sort_key fst (map (\<lambda>p. (fst p, canonical_json (snd p))) ps))) @ ''}''"

definition content_hash :: "(string \<Rightarrow> string) \<Rightarrow> json \<Rightarrow> string" where
  "content_hash sha v = sha (canonical_json v)"

definition payload_hash :: "(string \<Rightarrow> string) \<Rightarrow> json \<Rightarrow> string" where
  "payload_hash sha v = content_hash sha v"

text \<open>
  \<open>str(v)\<close>. Containers print as their JSON text; the service applies \<open>str\<close> to
  identifiers, labels and digests only.
\<close>

fun py_str :: "json \<Rightarrow> string" where
  "py_str JNull = ''None''"
| "py_str (JBool b) = (if b then ''True'' else ''False'')"
| "py_str (JInt i) = show_int i"
| "py_str (JStr s) = s"
| "py_str (JList xs) = canonical_json (JList xs)"
| "py_str (JObj ps) = canonical_json (JObj ps)"

subsection \<open>Reading integers\<close>

definition is_space :: "char \<Rightarrow> bool" where
  "is_space c \<longleftrightarrow> c = CHR '' '' \<or> (9 \<le> (of_char c :: nat) \<and> (of_char c :: nat) \<le> 13)
     \<or> (28 \<le> (of_char c :: nat) \<and> (of_char c :: nat) \<le> 31)"

definition strip :: "string \<Rightarrow> string" where
  "strip s = rev (dropWhile is_space (rev (dropWhile is_space s)))"

definition is_digit :: "char \<Rightarrow> bool" where
  "is_digit c \<longleftrightarrow> 48 \<le> (of_char c :: nat) \<and> (of_char c :: nat) \<le> 57"

text \<open>Decimal digits with single underscores between them, as \<open>int(str)\<close> accepts.\<close>

fun parse_digits :: "bool \<Rightarrow> nat \<Rightarrow> string \<Rightarrow> nat option" where
  "parse_digits after acc [] = (if after then Some acc else None)"
| "parse_digits after acc (c # cs) =
     (if is_digit c then parse_digits True (10 * acc + (of_char c - 48)) cs
      else if c = CHR ''_'' \<and> after then parse_digits False acc cs
      else None)"

fun parse_int :: "string \<Rightarrow> int option" where
  "parse_int [] = None"
| "parse_int (c # cs) =
     (if c = CHR ''-'' then map_option (\<lambda>n. - int n) (parse_digits False 0 cs)
      else if c = CHR ''+'' then map_option int (parse_digits False 0 cs)
      else map_option int (parse_digits False 0 (c # cs)))"

text \<open>\<open>int(v)\<close>; \<open>None\<close> where Python raises \<open>TypeError\<close> or \<open>ValueError\<close>.\<close>

fun py_int :: "json \<Rightarrow> int option" where
  "py_int (JInt i) = Some i"
| "py_int (JBool b) = Some (if b then 1 else 0)"
| "py_int (JStr s) = parse_int (strip s)"
| "py_int _ = None"

subsection \<open>Helpers of the service module\<close>

text \<open>\<open>_int_or\<close>: an optional positive integer budget; junk falls back.\<close>

definition int_or :: "json \<Rightarrow> int \<Rightarrow> int" where
  "int_or value fallback =
    (case py_int value of None \<Rightarrow> fallback | Some parsed \<Rightarrow> if parsed > 0 then parsed else fallback)"

text \<open>\<open>_json_list\<close> on a parsed column: a list, or a list under a key, dicts only.\<close>

definition json_list :: "json \<Rightarrow> string option \<Rightarrow> json list" where
  "json_list raw key =
    (let parsed = (case key of None \<Rightarrow> raw | Some k \<Rightarrow> if is_obj raw then jget raw k else JNull)
     in filter is_obj (items parsed))"

definition starts_with :: "string \<Rightarrow> string \<Rightarrow> bool" where
  "starts_with p s \<longleftrightarrow> take (length p) s = p"

lemma starts_with_iff: "starts_with p s \<longleftrightarrow> s = p @ drop (length p) s"
  unfolding starts_with_def by (metis append_take_drop_id append_eq_conv_conj)

definition looks_like_relative_path :: "string \<Rightarrow> bool" where
  "looks_like_relative_path ref =
    (if ref = [] \<or> (\<exists>p \<in> set [''artifact://'', ''task:'', ''contract:'', ''plan:'', ''run:'', ''msg:''].
        starts_with p ref)
     then False else \<not> starts_with ''/'' ref)"

subsection \<open>Facts\<close>

lemma int_or_pos: "0 < fallback \<Longrightarrow> 0 < int_or v fallback"
  by (auto simp: int_or_def split: option.splits)

lemma json_list_objs: "x \<in> set (json_list raw key) \<Longrightarrow> is_obj x"
  by (auto simp: json_list_def Let_def)

text \<open>Two lists with the same entries and distinct keys sort to the same list.\<close>

lemma sort_key_unique:
  assumes "mset xs = mset ys" and "distinct (map f xs)"
  shows "sort_key f xs = sort_key f ys"
proof (rule properties_for_sort_key [symmetric])
  from assms(1) show "mset (sort_key f xs) = mset ys" by simp
  show "sorted (map f (sort_key f xs))" by simp
  fix k assume "k \<in> set (sort_key f xs)"
  have d: "distinct (map f ys)" using assms by (metis distinct_map mset_eq_imp_distinct_iff mset_eq_setD)
  have one: "filter (\<lambda>x. f k = f x) zs = [k]" if "distinct (map f zs)" "k \<in> set zs" for zs
    using that by (induction zs) (auto simp: filter_empty_conv image_iff)
  from \<open>k \<in> set (sort_key f xs)\<close> have "k \<in> set xs" "k \<in> set ys"
    using assms(1) by (auto dest: mset_eq_setD)
  moreover have "distinct (map f (sort_key f xs))"
    using assms(2) by (metis distinct_map distinct_sort mset_eq_setD mset_sort)
  ultimately show "filter (\<lambda>x. f k = f x) (sort_key f xs) = filter (\<lambda>x. f k = f x) ys"
    using one [OF _ \<open>k \<in> set (sort_key f xs)\<close>] one [OF d] by simp
qed

text \<open>
  The digest of a payload does not depend on the order in which its keys were written.
\<close>

lemma canonical_json_key_order:
  assumes "mset ps = mset qs" and "distinct (map fst ps)"
  shows "canonical_json (JObj ps) = canonical_json (JObj qs)"
proof -
  let ?g = "\<lambda>p. (fst p, canonical_json (snd p))"
  have "mset (map ?g ps) = mset (map ?g qs)" using assms(1) by (metis mset_map)
  moreover have "distinct (map fst (map ?g ps))" using assms(2) by (simp add: comp_def)
  ultimately have "sort_key fst (map ?g ps) = sort_key fst (map ?g qs)" by (rule sort_key_unique)
  then show ?thesis by simp
qed

end
