(* ===== verification/Domain.thy ===== *)
theory Domain
  imports Json
begin

text \<open>
  \<open>domain/enums.py\<close>, \<open>domain/errors.py\<close>, \<open>domain/defaults.py\<close> and \<open>domain/types.py\<close>: the
  enumerations, the error values, the system defaults, and the caller's identity. Enumerations
  are datatypes; \<open>*_str\<close> gives the text of a \<open>StrEnum\<close> member where the code puts it into JSON.
\<close>

subsection \<open>Enumerations\<close>

datatype ActorType = HUMAN | USER_AGENT | INTERNAL

datatype TaskState = NEW | WAITING_HUMAN | PLANNING | EXECUTING | VERIFYING | PAUSING | PAUSED
  | CANCELLING | COMPLETED | T_FAILED | ABORTED

datatype ContractStatus = DRAFT | PENDING_APPROVAL | C_ACTIVE | C_SUPERSEDED | C_REJECTED

datatype DecisionKind = CONTRACT_APPROVAL | CONTRACT_DELTA | SIDE_EFFECT_APPROVAL
  | FINAL_ACCEPTANCE | CLARIFICATION | RESOURCE_LIMIT

datatype DecisionStatus = D_PENDING | D_APPROVED | D_REJECTED | D_EXPIRED | D_SUPERSEDED

datatype GateLifecycle = OPEN | APPROVED_PENDING_APPLY | RESOLVED

datatype PlanStatus = P_PROPOSED | P_ACTIVE | P_SUPERSEDED | P_REJECTED

datatype WorkUnitStatus = W_PENDING | W_RUNNING | W_BLOCKED | W_DONE | W_FAILED | W_CANCELLED

datatype AgentRunStatus = R_CREATED | R_RUNNING | R_SUCCEEDED | R_FAILED | R_TIMED_OUT
  | R_CANCELLED | R_LOST

datatype AssignmentKind = PLAN | EXECUTE

datatype SideEffectState = E_PROPOSED | E_WAITING_APPROVAL | E_AUTHORIZED | E_DISPATCHING
  | E_SUCCEEDED | E_FAILED_CONFIRMED | E_UNKNOWN | E_CANCELLED

datatype WorkspaceState = READY | LOCKED | QUARANTINED | ARCHIVED

datatype DependencyPredicate = DONE | VERDICT_PASS

datatype OutboxStatus = O_PENDING | O_IN_FLIGHT | O_ACKED | O_DEAD

fun task_state_str :: "TaskState \<Rightarrow> string" where
  "task_state_str NEW = ''NEW''"
| "task_state_str WAITING_HUMAN = ''WAITING_HUMAN''"
| "task_state_str PLANNING = ''PLANNING''"
| "task_state_str EXECUTING = ''EXECUTING''"
| "task_state_str VERIFYING = ''VERIFYING''"
| "task_state_str PAUSING = ''PAUSING''"
| "task_state_str PAUSED = ''PAUSED''"
| "task_state_str CANCELLING = ''CANCELLING''"
| "task_state_str COMPLETED = ''COMPLETED''"
| "task_state_str T_FAILED = ''FAILED''"
| "task_state_str ABORTED = ''ABORTED''"

fun decision_status_str :: "DecisionStatus \<Rightarrow> string" where
  "decision_status_str D_PENDING = ''PENDING''"
| "decision_status_str D_APPROVED = ''APPROVED''"
| "decision_status_str D_REJECTED = ''REJECTED''"
| "decision_status_str D_EXPIRED = ''EXPIRED''"
| "decision_status_str D_SUPERSEDED = ''SUPERSEDED''"

fun run_status_str :: "AgentRunStatus \<Rightarrow> string" where
  "run_status_str R_CREATED = ''CREATED''"
| "run_status_str R_RUNNING = ''RUNNING''"
| "run_status_str R_SUCCEEDED = ''SUCCEEDED''"
| "run_status_str R_FAILED = ''FAILED''"
| "run_status_str R_TIMED_OUT = ''TIMED_OUT''"
| "run_status_str R_CANCELLED = ''CANCELLED''"
| "run_status_str R_LOST = ''LOST''"

fun effect_state_str :: "SideEffectState \<Rightarrow> string" where
  "effect_state_str E_PROPOSED = ''PROPOSED''"
| "effect_state_str E_WAITING_APPROVAL = ''WAITING_APPROVAL''"
| "effect_state_str E_AUTHORIZED = ''AUTHORIZED''"
| "effect_state_str E_DISPATCHING = ''DISPATCHING''"
| "effect_state_str E_SUCCEEDED = ''SUCCEEDED''"
| "effect_state_str E_FAILED_CONFIRMED = ''FAILED_CONFIRMED''"
| "effect_state_str E_UNKNOWN = ''UNKNOWN''"
| "effect_state_str E_CANCELLED = ''CANCELLED''"

fun workspace_state_str :: "WorkspaceState \<Rightarrow> string" where
  "workspace_state_str READY = ''READY''"
| "workspace_state_str LOCKED = ''LOCKED''"
| "workspace_state_str QUARANTINED = ''QUARANTINED''"
| "workspace_state_str ARCHIVED = ''ARCHIVED''"

fun kind_str :: "AssignmentKind \<Rightarrow> string" where
  "kind_str PLAN = ''PLAN''"
| "kind_str EXECUTE = ''EXECUTE''"

fun actor_str :: "ActorType \<Rightarrow> string" where
  "actor_str HUMAN = ''HUMAN''"
| "actor_str USER_AGENT = ''USER_AGENT''"
| "actor_str INTERNAL = ''INTERNAL''"

fun parse_predicate :: "string \<Rightarrow> DependencyPredicate option" where
  "parse_predicate s =
     (if s = ''DONE'' then Some DONE else if s = ''VERDICT_PASS'' then Some VERDICT_PASS else None)"

text \<open>\<open>WaitingReason\<close>: stored in free-text reason columns, so its members are their texts.\<close>

definition WR_CONTRACT_APPROVAL :: string where
  "WR_CONTRACT_APPROVAL = ''contract_approval''"

definition WR_CONTRACT_DELTA :: string where
  "WR_CONTRACT_DELTA = ''contract_delta''"

definition WR_SIDE_EFFECT_APPROVAL :: string where
  "WR_SIDE_EFFECT_APPROVAL = ''side_effect_approval''"

definition WR_FINAL_ACCEPTANCE :: string where
  "WR_FINAL_ACCEPTANCE = ''final_acceptance''"

definition WR_RESOURCE_LIMIT :: string where
  "WR_RESOURCE_LIMIT = ''resource_limit''"

definition WR_EXECUTION_BLOCKED :: string where
  "WR_EXECUTION_BLOCKED = ''execution_blocked''"

definition WR_EXECUTION_UNCERTAIN :: string where
  "WR_EXECUTION_UNCERTAIN = ''execution_uncertain''"

subsection \<open>Errors\<close>

text \<open>
  The exception classes of \<open>domain/errors.py\<close> with their machine-readable code, the Python
  exceptions a malformed payload or a broken constraint raises, and the injected failures of
  the executor. \<open>ValueError\<close> stands for the \<open>ValueError\<close>, \<open>TypeError\<close> or \<open>AttributeError\<close> of an
  operation on a value of the wrong shape. Human-readable messages are not modelled.
\<close>

datatype exn =
    InvalidTransitionError string
  | AuthorizationError string
  | PreconditionError string
  | ConflictError string
  | IdempotencyConflictError string
  | NotFoundError string
  | KeyError string
  | ValueError
  | AssertionError
  | IntegrityError
  | OSError
  | RuntimeError string

fun is_domain_error :: "exn \<Rightarrow> bool" where
  "is_domain_error (InvalidTransitionError _) = True"
| "is_domain_error (AuthorizationError _) = True"
| "is_domain_error (PreconditionError _) = True"
| "is_domain_error (ConflictError _) = True"
| "is_domain_error (IdempotencyConflictError _) = True"
| "is_domain_error (NotFoundError _) = True"
| "is_domain_error _ = False"

fun error_code :: "exn \<Rightarrow> string" where
  "error_code (InvalidTransitionError c) = c"
| "error_code (AuthorizationError c) = c"
| "error_code (PreconditionError c) = c"
| "error_code (ConflictError c) = c"
| "error_code (IdempotencyConflictError c) = c"
| "error_code (NotFoundError c) = c"
| "error_code (RuntimeError m) = m"
| "error_code _ = []"

text \<open>The codes the classes carry when the raise names none.\<close>

definition not_found :: exn where
  "not_found = NotFoundError ''not_found''"

definition denied :: exn where
  "denied = AuthorizationError ''authorization_denied''"

subsection \<open>Defaults\<close>

record SystemDefaults =
  global_run_concurrency :: int
  per_task_run_concurrency :: int
  max_work_unit_attempts :: int
  max_run_model_turns :: int
  max_task_model_calls :: int
  max_plan_revisions :: int
  max_work_units_per_task :: int
  lease_seconds :: int
  run_wall_timeout_seconds :: int
  retry_backoff_seconds :: "int list"
  decision_ttl_hours :: int
  side_effect_approval_ttl_minutes :: int
  context_max_materialized_bytes :: int

definition DEFAULTS :: SystemDefaults where
  "DEFAULTS = \<lparr>
     global_run_concurrency = 4,
     per_task_run_concurrency = 2,
     max_work_unit_attempts = 3,
     max_run_model_turns = 30,
     max_task_model_calls = 200,
     max_plan_revisions = 10,
     max_work_units_per_task = 30,
     lease_seconds = 30,
     run_wall_timeout_seconds = 1800,
     retry_backoff_seconds = [2, 5],
     decision_ttl_hours = 24,
     side_effect_approval_ttl_minutes = 15,
     context_max_materialized_bytes = 262144\<rparr>"

lemma DEFAULTS_simps [simp]:
  "global_run_concurrency DEFAULTS = 4"
  "per_task_run_concurrency DEFAULTS = 2"
  "max_work_unit_attempts DEFAULTS = 3"
  "max_run_model_turns DEFAULTS = 30"
  "max_task_model_calls DEFAULTS = 200"
  "max_plan_revisions DEFAULTS = 10"
  "max_work_units_per_task DEFAULTS = 30"
  "lease_seconds DEFAULTS = 30"
  "run_wall_timeout_seconds DEFAULTS = 1800"
  "retry_backoff_seconds DEFAULTS = [2, 5]"
  "decision_ttl_hours DEFAULTS = 24"
  "side_effect_approval_ttl_minutes DEFAULTS = 15"
  "context_max_materialized_bytes DEFAULTS = 262144"
  by (simp_all add: DEFAULTS_def)

subsection \<open>Identity and results\<close>

record AuthContext =
  principal_id :: string
  actor_id :: string
  actor_type :: ActorType
  auth_context_id :: string
  scopes :: "string list"
  bound_task_id :: "string option"
  bound_run_id :: "string option"
  bound_fencing_epoch :: "int option"
  bound_grant_epoch :: "int option"

definition is_human :: "AuthContext \<Rightarrow> bool" where
  "is_human auth \<longleftrightarrow> actor_type auth = HUMAN"

definition has_scope :: "AuthContext \<Rightarrow> string \<Rightarrow> bool" where
  "has_scope auth scope \<longleftrightarrow> scope \<in> set (scopes auth) \<or> is_human auth"

record CommandResult =
  cr_ok :: bool
  cr_data :: dict
  cr_error_code :: "string option"
  cr_replayed :: bool

definition success :: "dict \<Rightarrow> CommandResult" where
  "success data = \<lparr>cr_ok = True, cr_data = data, cr_error_code = None, cr_replayed = False\<rparr>"

definition success_replayed :: "dict \<Rightarrow> CommandResult" where
  "success_replayed data = \<lparr>cr_ok = True, cr_data = data, cr_error_code = None, cr_replayed = True\<rparr>"

definition failure :: "string \<Rightarrow> dict \<Rightarrow> CommandResult" where
  "failure code data = \<lparr>cr_ok = False, cr_data = data, cr_error_code = Some code, cr_replayed = False\<rparr>"

lemma success_simps [simp]:
  "cr_ok (success d)" "cr_data (success d) = d" "cr_error_code (success d) = None"
  "\<not> cr_replayed (success d)"
  "cr_ok (success_replayed d)" "cr_data (success_replayed d) = d"
  "cr_error_code (success_replayed d) = None" "cr_replayed (success_replayed d)"
  "\<not> cr_ok (failure c d)" "cr_data (failure c d) = d" "cr_error_code (failure c d) = Some c"
  "\<not> cr_replayed (failure c d)"
  by (simp_all add: success_def success_replayed_def failure_def)

end
