(* ===== verification/Execution.thy ===== *)
theory Execution
  imports Domain
begin

text \<open>
  \<open>domain/execution.py\<close>: the closed tool catalogue, the frozen execution contract of a Run and
  the resolution of a permission ceiling into granted and unknown tools.
\<close>

definition M1_TOOL_CATALOG :: "string list" where
  "M1_TOOL_CATALOG = [''fs.read'', ''fs.write'', ''fs.list'', ''shell.run'', ''artifact.publish'']"

definition M1_MUTATING_TOOLS :: "string list" where
  "M1_MUTATING_TOOLS = [''fs.write'', ''shell.run'', ''artifact.publish'']"

record RunExecutionSpec =
  xs_run_id :: string
  xs_task_id :: string
  xs_work_unit_id :: "string option"
  xs_assignment_kind :: string
  xs_profile_id :: string
  xs_profile_version :: int
  xs_contract_version :: int
  xs_plan_version :: "int option"
  xs_context_manifest_id :: "string option"
  xs_context_manifest_hash :: "string option"
  xs_workspace_id :: "string option"
  xs_workspace_path :: "string option"
  xs_workspace_isolation :: string
  xs_granted_tools :: "string list"
  xs_permission_ceiling :: dict
  xs_granted_permissions :: dict
  xs_principal_id :: string
  xs_agent_instance_id :: string
  xs_grant_epoch :: int
  xs_fencing_epoch :: int
  xs_revoke_epoch :: int
  xs_model_call_limit :: int
  xs_max_turns :: int
  xs_wall_timeout_seconds :: int
  xs_objective :: string
  xs_work_type :: string
  xs_goal_label :: string
  xs_context_policy :: string
  xs_input_refs :: "string list"
  xs_expected_outputs :: "string list"
  xs_acceptance_criteria :: "json list"
  xs_metadata :: dict

definition jopt :: "string option \<Rightarrow> json" where
  "jopt v = (case v of None \<Rightarrow> JNull | Some s \<Rightarrow> JStr s)"

definition jint_opt :: "int option \<Rightarrow> json" where
  "jint_opt v = (case v of None \<Rightarrow> JNull | Some i \<Rightarrow> JInt i)"

definition jstrs :: "string list \<Rightarrow> json" where
  "jstrs xs = JList (map JStr xs)"

text \<open>\<open>asdict(spec)\<close>.\<close>

definition spec_dict :: "RunExecutionSpec \<Rightarrow> json" where
  "spec_dict x = JObj [
    (''run_id'', JStr (xs_run_id x)),
    (''task_id'', JStr (xs_task_id x)),
    (''work_unit_id'', jopt (xs_work_unit_id x)),
    (''assignment_kind'', JStr (xs_assignment_kind x)),
    (''profile_id'', JStr (xs_profile_id x)),
    (''profile_version'', JInt (xs_profile_version x)),
    (''contract_version'', JInt (xs_contract_version x)),
    (''plan_version'', jint_opt (xs_plan_version x)),
    (''context_manifest_id'', jopt (xs_context_manifest_id x)),
    (''context_manifest_hash'', jopt (xs_context_manifest_hash x)),
    (''workspace_id'', jopt (xs_workspace_id x)),
    (''workspace_path'', jopt (xs_workspace_path x)),
    (''workspace_isolation'', JStr (xs_workspace_isolation x)),
    (''granted_tools'', jstrs (xs_granted_tools x)),
    (''permission_ceiling'', JObj (xs_permission_ceiling x)),
    (''granted_permissions'', JObj (xs_granted_permissions x)),
    (''principal_id'', JStr (xs_principal_id x)),
    (''agent_instance_id'', JStr (xs_agent_instance_id x)),
    (''grant_epoch'', JInt (xs_grant_epoch x)),
    (''fencing_epoch'', JInt (xs_fencing_epoch x)),
    (''revoke_epoch'', JInt (xs_revoke_epoch x)),
    (''model_call_limit'', JInt (xs_model_call_limit x)),
    (''max_turns'', JInt (xs_max_turns x)),
    (''wall_timeout_seconds'', JInt (xs_wall_timeout_seconds x)),
    (''objective'', JStr (xs_objective x)),
    (''work_type'', JStr (xs_work_type x)),
    (''goal_label'', JStr (xs_goal_label x)),
    (''context_policy'', JStr (xs_context_policy x)),
    (''input_refs'', jstrs (xs_input_refs x)),
    (''expected_outputs'', jstrs (xs_expected_outputs x)),
    (''acceptance_criteria'', JList (xs_acceptance_criteria x)),
    (''metadata'', JObj (xs_metadata x))]"

definition spec_hash :: "(string \<Rightarrow> string) \<Rightarrow> RunExecutionSpec \<Rightarrow> string" where
  "spec_hash sha x = content_hash sha (spec_dict x)"

subsection \<open>Permission ceilings\<close>

text \<open>\<open>list(v)\<close>: \<open>None\<close> where Python raises \<open>TypeError\<close>.\<close>

fun py_list :: "json \<Rightarrow> json list option" where
  "py_list (JList xs) = Some xs"
| "py_list (JObj ps) = Some (map (JStr \<circ> fst) ps)"
| "py_list (JStr s) = Some (map (\<lambda>c. JStr [c]) s)"
| "py_list _ = None"

fun requested_tools :: "json \<Rightarrow> json list option" where
  "requested_tools JNull = Some []"
| "requested_tools (JObj ps) = py_list (jor (dget ps ''tools'') (JList []))"
| "requested_tools (JList xs) = Some xs"
| "requested_tools (JStr s) = Some [JStr s]"
| "requested_tools _ = Some []"

fun split_tools :: "string list \<Rightarrow> string list \<Rightarrow> json list \<Rightarrow> string list \<times> string list" where
  "split_tools granted unknown [] = (granted, unknown)"
| "split_tools granted unknown (name # names) =
     (let tool = py_str name in
      if tool \<in> set M1_TOOL_CATALOG
      then split_tools (if tool \<in> set granted then granted else granted @ [tool]) unknown names
      else split_tools granted (unknown @ [tool]) names)"

definition normalize_ceiling_tools :: "json \<Rightarrow> exn + (string list \<times> string list)" where
  "normalize_ceiling_tools permission_ceiling =
    (case requested_tools permission_ceiling of
       None \<Rightarrow> Inl ValueError
     | Some requested \<Rightarrow>
        (let (granted, unknown) = split_tools [] [] requested
         in Inr (if ''fs.read'' \<in> set granted then granted else ''fs.read'' # granted, unknown)))"

lemma split_tools_result:
  assumes "split_tools g u names = (g', u')" and "distinct g"
  shows "distinct g' \<and> set g' = set g \<union> (py_str ` set names \<inter> set M1_TOOL_CATALOG)
    \<and> u' = u @ filter (\<lambda>t. t \<notin> set M1_TOOL_CATALOG) (map py_str names)"
  using assms
proof (induction g u names rule: split_tools.induct)
  case (2 granted unknown name names)
  show ?case
  proof (cases "py_str name \<in> set M1_TOOL_CATALOG")
    case True
    have "distinct (if py_str name \<in> set granted then granted else granted @ [py_str name])"
      using "2.prems"(2) by simp
    with 2 True show ?thesis by (auto simp: Let_def split: if_splits)
  next
    case False
    with 2 show ?thesis by (auto simp: Let_def)
  qed
qed simp

text \<open>
  A permission ceiling never grants more than the closed catalogue: the granted tools are
  the requested catalogue names, once each, plus the always-available \<open>fs.read\<close>, and every
  other requested name is reported as unknown, in order.
\<close>

theorem normalize_ceiling_tools_closed:
  assumes "normalize_ceiling_tools ceiling = Inr (granted, unknown)"
    and "requested_tools ceiling = Some requested"
  shows "distinct granted
    \<and> set granted = {''fs.read''} \<union> (py_str ` set requested \<inter> set M1_TOOL_CATALOG)
    \<and> set granted \<subseteq> set M1_TOOL_CATALOG
    \<and> unknown = filter (\<lambda>t. t \<notin> set M1_TOOL_CATALOG) (map py_str requested)"
proof -
  obtain g u where split: "split_tools [] [] requested = (g, u)" by (cases "split_tools [] [] requested")
  have "''fs.read'' \<in> set M1_TOOL_CATALOG" by (simp add: M1_TOOL_CATALOG_def)
  with assms split split_tools_result [OF split] show ?thesis
    by (auto simp: normalize_ceiling_tools_def split: if_splits)
qed

theorem normalize_ceiling_tools_closed_witness:
  "set [''fs.read'', ''shell.run''] \<subseteq> set M1_TOOL_CATALOG"
proof -
  have "normalize_ceiling_tools (JObj [(''tools'', JList [JStr ''shell.run'', JStr ''net.any''])])
      = Inr ([''fs.read'', ''shell.run''], [''net.any''])" by code_simp
  moreover have "requested_tools (JObj [(''tools'', JList [JStr ''shell.run'', JStr ''net.any''])])
      = Some [JStr ''shell.run'', JStr ''net.any'']" by code_simp
  ultimately show ?thesis by (blast dest: normalize_ceiling_tools_closed)
qed

end
