(* ===== verification/Tables.thy ===== *)
theory Tables
  imports Execution
begin

text \<open>
  \<open>persistence/models.py\<close>: one record per table, one field per column (the table's short name
  before the column's). Surrogate autoincrement keys are left out: every table that has one is
  addressed by its unique columns only. Timestamps are seconds as integers; a \<open>*_json\<close> column
  holds the JSON value whose canonical text the code stores and parses back.
\<close>

record TaskRow =
  tk_task_id :: string
  tk_principal_id :: string
  tk_intent_ref :: "string option"
  tk_title :: string
  tk_state :: TaskState
  tk_state_reason :: "string option"
  tk_state_revision :: int
  tk_contract_version :: "int option"
  tk_plan_version :: "int option"
  tk_active_planner_session_id :: "string option"
  tk_resume_point :: "string option"
  tk_final_result_refs :: "string option"
  tk_cancel_intent :: bool
  tk_pause_intent :: bool
  tk_revoke_epoch :: int
  tk_model_calls_used :: int
  tk_model_call_limit :: int
  tk_create_idempotency_key :: "string option"
  tk_created_at :: int
  tk_updated_at :: int

record ContractRow =
  ct_task_id :: string
  ct_contract_version :: int
  ct_supersedes_version :: "int option"
  ct_content_hash :: string
  ct_content_json :: json
  ct_status :: ContractStatus
  ct_approved_by :: "string option"
  ct_approved_at :: "int option"
  ct_created_at :: int

record ActiveContractMarker =
  acm_task_id :: string
  acm_contract_version :: int

record ExplanationRow =
  xp_explanation_id :: string
  xp_task_id :: string
  xp_contract_version :: int
  xp_content_hash :: string
  xp_content_json :: json
  xp_created_at :: int

record DecisionRow =
  de_decision_id :: string
  de_task_id :: string
  de_decision_kind :: DecisionKind
  de_target_ref :: string
  de_target_version :: int
  de_target_hash :: string
  de_contract_version :: "int option"
  de_explanation_ref :: "string option"
  de_explanation_hash :: "string option"
  de_parameters_hash :: "string option"
  de_result_snapshot_ref :: "string option"
  de_status :: DecisionStatus
  de_choice :: "string option"
  de_decided_by_actor :: "string option"
  de_decided_by_principal :: "string option"
  de_decided_at :: "int option"
  de_created_at :: int
  de_expires_at :: int
  de_gate_lifecycle :: GateLifecycle
  de_payload_json :: "json option"

record GateRow =
  ga_gate_id :: string
  ga_task_id :: string
  ga_decision_id :: string
  ga_reason :: string
  ga_lifecycle :: GateLifecycle
  ga_created_at :: int
  ga_resolved_at :: "int option"

record PlanRow =
  pl_task_id :: string
  pl_plan_version :: int
  pl_base_plan_version :: "int option"
  pl_contract_version :: int
  pl_content_hash :: string
  pl_nodes_json :: json
  pl_edges_json :: json
  pl_status :: PlanStatus
  pl_created_at :: int

record ActivePlanMarker =
  apm_task_id :: string
  apm_plan_version :: int

record WorkUnitSpecRow =
  wsp_work_unit_id :: string
  wsp_spec_version :: int
  wsp_task_id :: string
  wsp_objective :: string
  wsp_work_type :: string
  wsp_content_hash :: string
  wsp_content_json :: json
  wsp_created_at :: int

record WorkUnitExecutionRow =
  wu_work_unit_id :: string
  wu_task_id :: string
  wu_spec_version :: int
  wu_status :: WorkUnitStatus
  wu_active_run_id :: "string option"
  wu_attempt_count :: int
  wu_next_retry_at :: "int option"
  wu_selected_result_ref :: "string option"
  wu_blocked_reason :: "string option"
  wu_selected_verdict :: "string option"
  wu_verified_artifact_hash :: "string option"

record PlannerSessionRow =
  ps_planner_session_id :: string
  ps_task_id :: string
  ps_generation :: int
  ps_active_run_id :: "string option"
  ps_checkpoint_ref :: "string option"
  ps_checkpoint_version :: int
  ps_last_consumed_message_seq :: int
  ps_status :: string

record AgentRunRow =
  ar_run_id :: string
  ar_task_id :: string
  ar_assignment_kind :: AssignmentKind
  ar_planner_session_id :: "string option"
  ar_work_unit_id :: "string option"
  ar_work_unit_spec_version :: "int option"
  ar_attempt_no :: int
  ar_agent_instance_id :: "string option"
  ar_profile_id :: string
  ar_profile_version :: int
  ar_contract_version :: int
  ar_plan_version :: "int option"
  ar_context_manifest_id :: "string option"
  ar_workspace_id :: "string option"
  ar_status :: AgentRunStatus
  ar_terminal_reason :: "string option"
  ar_fencing_epoch :: int
  ar_grant_epoch :: int
  ar_lease_expires_at :: "int option"
  ar_last_heartbeat_at :: "int option"
  ar_started_at :: "int option"
  ar_finished_at :: "int option"
  ar_resumed_from_run_id :: "string option"
  ar_result_ref :: "string option"
  ar_result_json :: "json option"
  ar_error_class :: "string option"
  ar_late_arrival :: bool
  ar_sandbox_container_id :: "string option"
  ar_sandbox_exit_unconfirmed :: bool

record ActiveExecuteRunMarker =
  aem_work_unit_id :: string
  aem_run_id :: string

record ActivePlanRunMarker =
  aprm_planner_session_id :: string
  aprm_run_id :: string

record WorkspaceRow =
  ws_workspace_id :: string
  ws_task_id :: string
  ws_work_unit_id :: string
  ws_kind :: string
  ws_state :: WorkspaceState
  ws_owner_run_id :: "string option"
  ws_fencing_epoch :: int
  ws_writer_alive :: bool

record ContextManifestRow =
  cm_context_manifest_id :: string
  cm_task_id :: string
  cm_run_id :: string
  cm_contract_version :: int
  cm_plan_version :: "int option"
  cm_content_json :: json
  cm_manifest_hash :: string
  cm_created_at :: int

record SideEffectRow =
  se_effect_id :: string
  se_task_id :: string
  se_logical_action_key :: string
  se_origin_work_unit_id :: "string option"
  se_request_run_id :: "string option"
  se_action_type :: string
  se_target_ref :: string
  se_parameters_hash :: string
  se_action_digest :: string
  se_parameters_json :: json
  se_contract_version :: int
  se_authorization_ref :: "string option"
  se_expires_at :: "int option"
  se_external_idempotency_key :: string
  se_provider_operation_id :: "string option"
  se_state :: SideEffectState
  se_dispatch_attempts :: int
  se_receipt_json :: "json option"
  se_last_error :: "string option"
  se_supports_idempotent_query :: bool
  se_created_at :: int

record EventRow =
  ev_task_id :: string
  ev_sequence_no :: int
  ev_event_type :: string
  ev_actor_id :: "string option"
  ev_payload_json :: json
  ev_occurred_at :: int
  ev_received_at :: int

record InboxRow =
  ib_actor_id :: string
  ib_message_id :: string
  ib_principal_id :: string
  ib_task_id :: "string option"
  ib_operation_type :: string
  ib_idempotency_key :: string
  ib_payload_hash :: string
  ib_result_json :: json
  ib_created_at :: int

record OutboxRow =
  ob_outbox_id :: string
  ob_task_id :: string
  ob_command_type :: string
  ob_payload_json :: json
  ob_status :: OutboxStatus
  ob_revoke_epoch :: int
  ob_created_at :: int
  ob_leased_until :: "int option"
  ob_acked_at :: "int option"

record IdempotencyRow =
  ik_principal_id :: string
  ik_task_id :: string
  ik_operation_type :: string
  ik_idempotency_key :: string
  ik_payload_hash :: string
  ik_result_json :: json
  ik_created_at :: int

record ResultSnapshotRow =
  rs_result_snapshot_id :: string
  rs_task_id :: string
  rs_contract_version :: int
  rs_plan_version :: "int option"
  rs_content_hash :: string
  rs_content_json :: json
  rs_created_at :: int

record ArtifactRow =
  af_task_id :: string
  af_artifact_hash :: string
  af_work_unit_id :: "string option"
  af_run_id :: "string option"
  af_result_ref :: "string option"
  af_verdict :: "string option"
  af_artifact_uri :: "string option"
  af_size_bytes :: "int option"
  af_mime_type :: "string option"
  af_source_path :: "string option"
  af_created_at :: int

record AcceptanceEvidenceRow =
  ae_evidence_id :: string
  ae_task_id :: string
  ae_criterion_id :: string
  ae_artifact_hash :: string
  ae_work_unit_id :: "string option"
  ae_run_id :: "string option"
  ae_result_ref :: "string option"
  ae_verdict :: string
  ae_sequence_no :: int
  ae_created_at :: int

record AgentProfileRow =
  apr_profile_id :: string
  apr_profile_version :: int
  apr_content_json :: json
  apr_created_at :: int

record RunInputRow =
  ri_run_id :: string
  ri_task_id :: string
  ri_workspace_id :: "string option"
  ri_workspace_path :: "string option"
  ri_profile_id :: string
  ri_profile_version :: int
  ri_granted_tools_json :: json
  ri_permission_ceiling_json :: json
  ri_context_manifest_id :: "string option"
  ri_spec_json :: json
  ri_spec_hash :: string
  ri_created_at :: int

record ToolInvocationRow =
  ti_invocation_id :: string
  ti_task_id :: string
  ti_run_id :: string
  ti_work_unit_id :: "string option"
  ti_sequence_no :: int
  ti_tool_name :: string
  ti_parameters_json :: json
  ti_parameters_hash :: string
  ti_decision :: string
  ti_deny_reason :: "string option"
  ti_grant_epoch :: int
  ti_fencing_epoch :: int
  ti_outcome :: "string option"
  ti_result_json :: "json option"
  ti_created_at :: int
  ti_finished_at :: "int option"

record ContextAppendRow =
  ca_append_id :: string
  ca_task_id :: string
  ca_run_id :: string
  ca_sequence_no :: int
  ca_reason :: string
  ca_authorized_ref :: string
  ca_version :: "string option"
  ca_content_hash :: "string option"
  ca_grant_ref :: "string option"
  ca_materialized_hash :: "string option"
  ca_created_at :: int

record TaskMessageRow =
  tm_task_id :: string
  tm_sequence_no :: int
  tm_sender_run_id :: "string option"
  tm_sender_actor :: "string option"
  tm_kind :: string
  tm_body_json :: json
  tm_created_at :: int

end
