(* ===== verification/Session.thy ===== *)
theory Session
  imports Tables
begin

text \<open>
  The database session of \<open>persistence/session.py\<close> and \<open>make_session_factory\<close> of
  \<open>persistence/models.py\<close>, and the transactions that run on it.

  The session factory turns autoflush off. A session therefore has two layers: what the
  database holds (the last flush) and the objects in memory. The \<open>WHERE\<close> clause of a query is
  evaluated on the database layer, but the rows it returns are the objects in memory; a row
  that was added and not flushed is not found by a query or by primary key; a row that was
  deleted and not flushed still is. A table is a list of cells, one per row, each with both
  layers. Flushing checks the unique constraints of the schema and copies memory to database.

  A transaction is a state transformer that returns a value or an exception. \<open>run_tx\<close> is
  \<open>SerialSessionExecutor.run\<close>: commit on success, roll back on an exception. Rows come back in
  insertion order where the query gives no order. Foreign keys are not modelled.
\<close>

subsection \<open>Tables with two layers\<close>

datatype 'r cell = Cell (stored: "'r option") (live: 'r) (dropped: bool)

type_synonym 'r tbl = "'r cell list"

definition t_rows :: "'r tbl \<Rightarrow> 'r list" where
  "t_rows t = map live t"

text \<open>\<open>session.get\<close>: by primary key, among rows the database knows.\<close>

definition t_get :: "('r \<Rightarrow> 'k) \<Rightarrow> 'k \<Rightarrow> 'r tbl \<Rightarrow> 'r option" where
  "t_get key k t = map_option live (find (\<lambda>c. stored c \<noteq> None \<and> key (live c) = k) t)"

text \<open>A row object already in hand, read through its key.\<close>

definition t_peek :: "('r \<Rightarrow> 'k) \<Rightarrow> 'k \<Rightarrow> 'r tbl \<Rightarrow> 'r option" where
  "t_peek key k t = map_option live (find (\<lambda>c. key (live c) = k) t)"

text \<open>\<open>session.scalars(select(...).where(P))\<close>.\<close>

definition matches :: "('r \<Rightarrow> bool) \<Rightarrow> 'r cell \<Rightarrow> bool" where
  "matches P c \<longleftrightarrow> (case stored c of None \<Rightarrow> False | Some r \<Rightarrow> P r)"

definition t_select :: "('r \<Rightarrow> bool) \<Rightarrow> 'r tbl \<Rightarrow> 'r list" where
  "t_select P t = map live (filter (matches P) t)"

text \<open>The column values a query of database values sees (aggregates).\<close>

definition t_stored :: "('r \<Rightarrow> bool) \<Rightarrow> 'r tbl \<Rightarrow> 'r list" where
  "t_stored P t = filter P (List.map_filter stored t)"

definition set_live :: "('r \<Rightarrow> 'r) \<Rightarrow> 'r cell \<Rightarrow> 'r cell" where
  "set_live f c = Cell (stored c) (f (live c)) (dropped c)"

text \<open>Assigning to an attribute of a row object: the first row of that key.\<close>

fun t_upd :: "('r \<Rightarrow> 'k) \<Rightarrow> 'k \<Rightarrow> ('r \<Rightarrow> 'r) \<Rightarrow> 'r tbl \<Rightarrow> 'r tbl" where
  "t_upd key k f [] = []"
| "t_upd key k f (c # cs) = (if key (live c) = k then set_live f c # cs else c # t_upd key k f cs)"

text \<open>A loop over a query that assigns attributes of each row it returns.\<close>

definition t_upd_where :: "('r \<Rightarrow> bool) \<Rightarrow> ('r \<Rightarrow> 'r) \<Rightarrow> 'r tbl \<Rightarrow> 'r tbl" where
  "t_upd_where P f t = map (\<lambda>c. if matches P c then set_live f c else c) t"

definition t_add :: "'r \<Rightarrow> 'r tbl \<Rightarrow> 'r tbl" where
  "t_add r t = t @ [Cell None r False]"

text \<open>\<open>session.delete\<close> of the row found by primary key.\<close>

definition t_drop :: "('r \<Rightarrow> 'k) \<Rightarrow> 'k \<Rightarrow> 'r tbl \<Rightarrow> 'r tbl" where
  "t_drop key k t =
    map (\<lambda>c. if stored c \<noteq> None \<and> key (live c) = k then Cell (stored c) (live c) True else c) t"

definition t_flush :: "'r tbl \<Rightarrow> 'r tbl" where
  "t_flush t = map (\<lambda>c. Cell (Some (live c)) (live c) False) (filter (\<lambda>c. \<not> dropped c) t)"

definition t_clean :: "'r tbl \<Rightarrow> bool" where
  "t_clean t \<longleftrightarrow> list_all (\<lambda>c. stored c = Some (live c) \<and> \<not> dropped c) t"

text \<open>The values of a unique constraint's columns over the rows a flush would leave.\<close>

definition t_keys :: "('r \<Rightarrow> 'k) \<Rightarrow> 'r tbl \<Rightarrow> 'k list" where
  "t_keys key t = map (key \<circ> live) (filter (\<lambda>c. \<not> dropped c) t)"

text \<open>A table of committed rows, as a transaction finds it.\<close>

definition t_of :: "'r list \<Rightarrow> 'r tbl" where
  "t_of rs = map (\<lambda>r. Cell (Some r) r False) rs"

subsection \<open>Laws of a table\<close>

lemma t_clean_flush [simp]: "t_clean (t_flush t)"
  by (simp add: t_clean_def t_flush_def list_all_iff)

lemma t_clean_of [simp]: "t_clean (t_of rs)"
  by (simp add: t_clean_def t_of_def list_all_iff)

lemma t_flush_clean: "t_clean t \<Longrightarrow> t_flush t = t"
  by (induction t) (auto simp: t_clean_def t_flush_def intro: cell.expand)

lemma t_rows_of [simp]: "t_rows (t_of rs) = rs"
  by (simp add: t_rows_def t_of_def comp_def)

lemma t_clean_eq_of: "t_clean t \<Longrightarrow> t = t_of (t_rows t)"
  by (induction t) (auto simp: t_clean_def t_of_def t_rows_def intro: cell.expand)

text \<open>On a clean table the two layers agree.\<close>

lemma t_select_clean: "t_clean t \<Longrightarrow> t_select P t = filter P (t_rows t)"
  by (induction t) (auto simp: t_clean_def t_select_def t_rows_def matches_def)

lemma t_stored_clean: "t_clean t \<Longrightarrow> t_stored P t = filter P (t_rows t)"
  by (induction t) (auto simp: t_clean_def t_stored_def t_rows_def List.map_filter_simps)

lemma t_get_clean: "t_clean t \<Longrightarrow> t_get key k t = find (\<lambda>r. key r = k) (t_rows t)"
  by (induction t) (auto simp: t_clean_def t_get_def t_rows_def)

lemma t_get_in: "t_get key k t = Some r \<Longrightarrow> r \<in> set (t_rows t) \<and> key r = k"
  by (auto simp: t_get_def t_rows_def find_Some_iff)

lemma t_peek_in: "t_peek key k t = Some r \<Longrightarrow> r \<in> set (t_rows t) \<and> key r = k"
  by (auto simp: t_peek_def t_rows_def find_Some_iff)

lemma t_select_in: "r \<in> set (t_select P t) \<Longrightarrow> r \<in> set (t_rows t)"
  by (auto simp: t_select_def t_rows_def)

lemma t_rows_add [simp]: "t_rows (t_add r t) = t_rows t @ [r]"
  by (simp add: t_rows_def t_add_def)

lemma t_select_empty: "t_clean t \<Longrightarrow> t_select P t = [] \<longleftrightarrow> (\<forall>r \<in> set (t_rows t). \<not> P r)"
  by (auto simp: t_select_clean filter_empty_conv)

lemma t_get_replaced:
  "key r = k \<Longrightarrow> t_clean t \<Longrightarrow> t_get key k (t_flush (t_add r (t_drop key k t))) = Some r"
  by (induction t) (auto simp: t_get_def t_flush_def t_add_def t_drop_def t_clean_def)

lemma t_get_added:
  "key r = k \<Longrightarrow> t_get key k t = None \<Longrightarrow> t_clean t \<Longrightarrow> t_get key k (t_flush (t_add r t)) = Some r"
  by (induction t) (auto simp: t_get_def t_flush_def t_add_def t_clean_def)

lemma t_peek_flush: "list_all (\<lambda>c. \<not> dropped c) t \<Longrightarrow> t_peek key k (t_flush t) = t_peek key k t"
  by (induction t) (auto simp: t_peek_def t_flush_def)

lemma t_upd_kept: "list_all (\<lambda>c. \<not> dropped c) t \<Longrightarrow> list_all (\<lambda>c. \<not> dropped c) (t_upd key k f t)"
  by (induction t) (auto simp: set_live_def)

lemma t_clean_kept: "t_clean t \<Longrightarrow> list_all (\<lambda>c. \<not> dropped c) t"
  by (auto simp: t_clean_def list_all_iff)

lemma t_rows_flush: "list_all (\<lambda>c. \<not> dropped c) t \<Longrightarrow> t_rows (t_flush t) = t_rows t"
  by (induction t) (auto simp: t_rows_def t_flush_def)

lemma t_upd_where_kept:
  "list_all (\<lambda>c. \<not> dropped c) t \<Longrightarrow> list_all (\<lambda>c. \<not> dropped c) (t_upd_where P f t)"
  by (induction t) (auto simp: t_upd_where_def set_live_def)

lemma t_rows_upd_where:
  "t_clean t \<Longrightarrow> t_rows (t_upd_where P f t) = map (\<lambda>r. if P r then f r else r) (t_rows t)"
  by (induction t) (auto simp: t_rows_def t_upd_where_def t_clean_def matches_def set_live_def)

lemma t_keys_upd: "(\<And>r. key' (f r) = key' r) \<Longrightarrow> t_keys key' (t_upd key k f t) = t_keys key' t"
  by (induction t) (auto simp: t_keys_def set_live_def)

lemma t_add_kept [simp]: "list_all (\<lambda>c. \<not> dropped c) (t_add r t) = list_all (\<lambda>c. \<not> dropped c) t"
  by (simp add: t_add_def)

lemmas t_kept = t_clean_kept t_upd_kept t_upd_where_kept

text \<open>What the client of a table relies on: an update by key is seen through that key only.\<close>

locale keyed_store =
  fixes get :: "'k \<Rightarrow> 't \<Rightarrow> 'r option"
    and upd :: "'k \<Rightarrow> ('r \<Rightarrow> 'r) \<Rightarrow> 't \<Rightarrow> 't"
    and same_key :: "('r \<Rightarrow> 'r) \<Rightarrow> bool"
  assumes get_upd_same: "same_key f \<Longrightarrow> get k (upd k f t) = map_option f (get k t)"
    and get_upd_other: "same_key f \<Longrightarrow> k' \<noteq> k \<Longrightarrow> get k' (upd k f t) = get k' t"
begin

lemma get_upd: "same_key f \<Longrightarrow> get k' (upd k f t) = (if k' = k then map_option f (get k t) else get k' t)"
  by (simp add: get_upd_same get_upd_other)

lemma get_upd_twice:
  "same_key f \<Longrightarrow> same_key g \<Longrightarrow> get k (upd k g (upd k f t)) = map_option (g \<circ> f) (get k t)"
  by (simp add: get_upd_same option.map_comp)

end

lemma t_peek_Cons [simp]:
  "t_peek key k (c # t) = (if key (live c) = k then Some (live c) else t_peek key k t)"
  by (simp add: t_peek_def)

lemma t_get_Cons:
  "t_get key k (c # t) = (if stored c \<noteq> None \<and> key (live c) = k then Some (live c) else t_get key k t)"
  by (simp add: t_get_def)

lemma t_peek_upd:
  "(\<And>r. key (f r) = key r) \<Longrightarrow>
    t_peek key k' (t_upd key k f t) = (if k' = k then map_option f (t_peek key k t) else t_peek key k' t)"
  by (induction t) (auto simp: set_live_def t_peek_def)

lemma t_peek_add:
  "t_peek key k (t_add r t) = (case t_peek key k t of None \<Rightarrow> if key r = k then Some r else None | Some x \<Rightarrow> Some x)"
  by (induction t) (auto simp: t_peek_def t_add_def)

lemma t_get_upd_other:
  "(\<And>r. key (f r) = key r) \<Longrightarrow> k' \<noteq> k \<Longrightarrow> t_get key k' (t_upd key k f t) = t_get key k' t"
  by (induction t) (auto simp: t_get_def set_live_def)

interpretation by_peek: keyed_store "t_peek key" "t_upd key" "\<lambda>f. \<forall>r. key (f r) = key r"
  for key :: "'r \<Rightarrow> 'k"
  by unfold_locales (simp_all add: t_peek_upd)

text \<open>\<open>t_get\<close> finds what \<open>t_peek\<close> finds when the database knows every row.\<close>

lemma t_peek_clean: "t_clean t \<Longrightarrow> t_peek key k t = t_get key k t"
  by (induction t) (auto simp: t_clean_def t_get_def t_peek_def)

subsection \<open>Keys\<close>

definition contract_key :: "ContractRow \<Rightarrow> string \<times> int" where
  "contract_key r = (ct_task_id r, ct_contract_version r)"

definition plan_key :: "PlanRow \<Rightarrow> string \<times> int" where
  "plan_key r = (pl_task_id r, pl_plan_version r)"

definition wu_spec_key :: "WorkUnitSpecRow \<Rightarrow> string \<times> int" where
  "wu_spec_key r = (wsp_work_unit_id r, wsp_spec_version r)"

definition event_key :: "EventRow \<Rightarrow> string \<times> int" where
  "event_key r = (ev_task_id r, ev_sequence_no r)"

definition inbox_key :: "InboxRow \<Rightarrow> string \<times> string" where
  "inbox_key r = (ib_actor_id r, ib_message_id r)"

definition idem_key :: "IdempotencyRow \<Rightarrow> string \<times> string \<times> string \<times> string" where
  "idem_key r = (ik_principal_id r, ik_task_id r, ik_operation_type r, ik_idempotency_key r)"

definition artifact_key :: "ArtifactRow \<Rightarrow> string \<times> string" where
  "artifact_key r = (af_task_id r, af_artifact_hash r)"

definition profile_key :: "AgentProfileRow \<Rightarrow> string \<times> int" where
  "profile_key r = (apr_profile_id r, apr_profile_version r)"

definition message_key :: "TaskMessageRow \<Rightarrow> string \<times> int" where
  "message_key r = (tm_task_id r, tm_sequence_no r)"

subsection \<open>The session\<close>

record sess =
  tasks :: "TaskRow tbl"
  contracts :: "ContractRow tbl"
  contract_markers :: "ActiveContractMarker tbl"
  explanations :: "ExplanationRow tbl"
  decisions :: "DecisionRow tbl"
  gates :: "GateRow tbl"
  plans :: "PlanRow tbl"
  plan_markers :: "ActivePlanMarker tbl"
  wu_specs :: "WorkUnitSpecRow tbl"
  wus :: "WorkUnitExecutionRow tbl"
  planner_sessions :: "PlannerSessionRow tbl"
  runs :: "AgentRunRow tbl"
  exec_markers :: "ActiveExecuteRunMarker tbl"
  plan_run_markers :: "ActivePlanRunMarker tbl"
  workspaces :: "WorkspaceRow tbl"
  manifests :: "ContextManifestRow tbl"
  effects :: "SideEffectRow tbl"
  events :: "EventRow tbl"
  inbox :: "InboxRow tbl"
  outbox :: "OutboxRow tbl"
  idem :: "IdempotencyRow tbl"
  snapshots :: "ResultSnapshotRow tbl"
  artifacts :: "ArtifactRow tbl"
  evidence :: "AcceptanceEvidenceRow tbl"
  profiles :: "AgentProfileRow tbl"
  run_inputs :: "RunInputRow tbl"
  tool_invocations :: "ToolInvocationRow tbl"
  context_appends :: "ContextAppendRow tbl"
  messages :: "TaskMessageRow tbl"
  clock_now :: int
  uid :: nat
  wake_requested :: bool
  crash_before_commit :: bool
  crash_after_commit :: bool

text \<open>
  The unique constraints and primary keys; a constraint over a nullable column does not count
  rows where it is NULL.
\<close>

definition constraints_ok :: "sess \<Rightarrow> bool" where
  "constraints_ok s \<longleftrightarrow>
    distinct (t_keys tk_task_id (tasks s))
    \<and> distinct (t_keys contract_key (contracts s))
    \<and> distinct (t_keys acm_task_id (contract_markers s))
    \<and> distinct (t_keys xp_explanation_id (explanations s))
    \<and> distinct (t_keys de_decision_id (decisions s))
    \<and> distinct (t_keys ga_gate_id (gates s))
    \<and> distinct (t_keys plan_key (plans s))
    \<and> distinct (t_keys apm_task_id (plan_markers s))
    \<and> distinct (t_keys wu_spec_key (wu_specs s))
    \<and> distinct (t_keys wu_work_unit_id (wus s))
    \<and> distinct (t_keys ps_planner_session_id (planner_sessions s))
    \<and> distinct (t_keys ar_run_id (runs s))
    \<and> distinct (t_keys aem_work_unit_id (exec_markers s))
    \<and> distinct (t_keys aprm_planner_session_id (plan_run_markers s))
    \<and> distinct (t_keys ws_workspace_id (workspaces s))
    \<and> distinct (t_keys cm_context_manifest_id (manifests s))
    \<and> distinct (t_keys se_effect_id (effects s))
    \<and> distinct (t_keys event_key (events s))
    \<and> distinct (t_keys inbox_key (inbox s))
    \<and> distinct (t_keys ob_outbox_id (outbox s))
    \<and> distinct (t_keys idem_key (idem s))
    \<and> distinct (t_keys rs_result_snapshot_id (snapshots s))
    \<and> distinct (t_keys artifact_key (artifacts s))
    \<and> distinct (t_keys ae_evidence_id (evidence s))
    \<and> distinct (t_keys profile_key (profiles s))
    \<and> distinct (t_keys ri_run_id (run_inputs s))
    \<and> distinct (t_keys ti_invocation_id (tool_invocations s))
    \<and> distinct (t_keys ca_append_id (context_appends s))
    \<and> distinct (t_keys message_key (messages s))
    \<and> distinct (map (\<lambda>r. (tk_principal_id r, tk_create_idempotency_key r))
         (filter (\<lambda>r. tk_create_idempotency_key r \<noteq> None) (t_keys (\<lambda>r. r) (tasks s))))
    \<and> distinct (t_keys cm_run_id (manifests s))
    \<and> distinct (t_keys (\<lambda>r. (se_task_id r, se_logical_action_key r)) (effects s))
    \<and> distinct (map (\<lambda>r. (ib_principal_id r, ib_task_id r, ib_operation_type r, ib_idempotency_key r))
         (filter (\<lambda>r. ib_task_id r \<noteq> None) (t_keys (\<lambda>r. r) (inbox s))))
    \<and> distinct (map (\<lambda>r. (ae_task_id r, ae_run_id r, ae_criterion_id r))
         (filter (\<lambda>r. ae_run_id r \<noteq> None) (t_keys (\<lambda>r. r) (evidence s))))
    \<and> distinct (t_keys (\<lambda>r. (ti_task_id r, ti_run_id r, ti_sequence_no r)) (tool_invocations s))
    \<and> distinct (t_keys (\<lambda>r. (ca_task_id r, ca_run_id r, ca_sequence_no r)) (context_appends s))"

definition flush_all :: "sess \<Rightarrow> sess" where
  "flush_all s = s\<lparr>
    tasks := t_flush (tasks s),
    contracts := t_flush (contracts s),
    contract_markers := t_flush (contract_markers s),
    explanations := t_flush (explanations s),
    decisions := t_flush (decisions s),
    gates := t_flush (gates s),
    plans := t_flush (plans s),
    plan_markers := t_flush (plan_markers s),
    wu_specs := t_flush (wu_specs s),
    wus := t_flush (wus s),
    planner_sessions := t_flush (planner_sessions s),
    runs := t_flush (runs s),
    exec_markers := t_flush (exec_markers s),
    plan_run_markers := t_flush (plan_run_markers s),
    workspaces := t_flush (workspaces s),
    manifests := t_flush (manifests s),
    effects := t_flush (effects s),
    events := t_flush (events s),
    inbox := t_flush (inbox s),
    outbox := t_flush (outbox s),
    idem := t_flush (idem s),
    snapshots := t_flush (snapshots s),
    artifacts := t_flush (artifacts s),
    evidence := t_flush (evidence s),
    profiles := t_flush (profiles s),
    run_inputs := t_flush (run_inputs s),
    tool_invocations := t_flush (tool_invocations s),
    context_appends := t_flush (context_appends s),
    messages := t_flush (messages s)\<rparr>"

definition clean :: "sess \<Rightarrow> bool" where
  "clean s \<longleftrightarrow>
    t_clean (tasks s)
    \<and> t_clean (contracts s)
    \<and> t_clean (contract_markers s)
    \<and> t_clean (explanations s)
    \<and> t_clean (decisions s)
    \<and> t_clean (gates s)
    \<and> t_clean (plans s)
    \<and> t_clean (plan_markers s)
    \<and> t_clean (wu_specs s)
    \<and> t_clean (wus s)
    \<and> t_clean (planner_sessions s)
    \<and> t_clean (runs s)
    \<and> t_clean (exec_markers s)
    \<and> t_clean (plan_run_markers s)
    \<and> t_clean (workspaces s)
    \<and> t_clean (manifests s)
    \<and> t_clean (effects s)
    \<and> t_clean (events s)
    \<and> t_clean (inbox s)
    \<and> t_clean (outbox s)
    \<and> t_clean (idem s)
    \<and> t_clean (snapshots s)
    \<and> t_clean (artifacts s)
    \<and> t_clean (evidence s)
    \<and> t_clean (profiles s)
    \<and> t_clean (run_inputs s)
    \<and> t_clean (tool_invocations s)
    \<and> t_clean (context_appends s)
    \<and> t_clean (messages s)"

text \<open>The empty database.\<close>

definition init_sess :: sess where
  "init_sess = \<lparr>
    tasks = [],
    contracts = [],
    contract_markers = [],
    explanations = [],
    decisions = [],
    gates = [],
    plans = [],
    plan_markers = [],
    wu_specs = [],
    wus = [],
    planner_sessions = [],
    runs = [],
    exec_markers = [],
    plan_run_markers = [],
    workspaces = [],
    manifests = [],
    effects = [],
    events = [],
    inbox = [],
    outbox = [],
    idem = [],
    snapshots = [],
    artifacts = [],
    evidence = [],
    profiles = [],
    run_inputs = [],
    tool_invocations = [],
    context_appends = [],
    messages = [],
    clock_now = 0, uid = 0, wake_requested = False,
    crash_before_commit = False, crash_after_commit = False\<rparr>"

lemma flush_all_fields [simp]:
  "clock_now (flush_all s) = clock_now s" "uid (flush_all s) = uid s"
  "wake_requested (flush_all s) = wake_requested s"
  "crash_before_commit (flush_all s) = crash_before_commit s"
  "crash_after_commit (flush_all s) = crash_after_commit s"
  by (simp_all add: flush_all_def)

lemma clean_flush_all: "clean (flush_all s)"
  by (simp add: clean_def flush_all_def)

lemma clean_init: "clean init_sess"
  by (simp add: clean_def init_sess_def t_clean_def)

lemma flush_all_clean: "clean s \<Longrightarrow> flush_all s = s"
  by (simp add: clean_def flush_all_def t_flush_clean)

subsection \<open>Transactions\<close>

type_synonym 'a tx = "sess \<Rightarrow> (exn + 'a) \<times> sess"

definition ret :: "'a \<Rightarrow> 'a tx" where
  "ret x = (\<lambda>s. (Inr x, s))"

definition raise :: "exn \<Rightarrow> 'a tx" where
  "raise e = (\<lambda>s. (Inl e, s))"

definition andthen :: "'a tx \<Rightarrow> ('a \<Rightarrow> 'b tx) \<Rightarrow> 'b tx" where
  "andthen m f = (\<lambda>s. case m s of (Inl e, s') \<Rightarrow> (Inl e, s') | (Inr x, s') \<Rightarrow> f x s')"

definition seq :: "unit tx \<Rightarrow> 'b tx \<Rightarrow> 'b tx" where
  "seq m k = andthen m (\<lambda>_. k)"

definition gets :: "(sess \<Rightarrow> 'a) \<Rightarrow> 'a tx" where
  "gets f = (\<lambda>s. (Inr (f s), s))"

definition modify :: "(sess \<Rightarrow> sess) \<Rightarrow> unit tx" where
  "modify f = (\<lambda>s. (Inr (), f s))"

definition lift_exn :: "exn + 'a \<Rightarrow> 'a tx" where
  "lift_exn r = (\<lambda>s. (r, s))"

text \<open>\<open>if not b: raise e\<close> and \<open>if b: m\<close>.\<close>

definition ensure :: "bool \<Rightarrow> exn \<Rightarrow> unit tx" where
  "ensure b e = (if b then ret () else raise e)"

definition only_if :: "bool \<Rightarrow> unit tx \<Rightarrow> unit tx" where
  "only_if b m = (if b then m else ret ())"

text \<open>\<open>try: m except e: h e\<close>; the writes of \<open>m\<close> stay.\<close>

definition handle :: "'a tx \<Rightarrow> (exn \<Rightarrow> 'a tx) \<Rightarrow> 'a tx" where
  "handle m h = (\<lambda>s. case m s of (Inl e, s') \<Rightarrow> h e s' | (Inr x, s') \<Rightarrow> (Inr x, s'))"

fun each :: "'a list \<Rightarrow> ('a \<Rightarrow> unit tx) \<Rightarrow> unit tx" where
  "each [] body = ret ()"
| "each (x # xs) body = seq (body x) (each xs body)"

text \<open>Loops that collect a value per element, and loops that accumulate one.\<close>

fun collect :: "'a list \<Rightarrow> ('a \<Rightarrow> 'b tx) \<Rightarrow> 'b list tx" where
  "collect [] body = ret []"
| "collect (x # xs) body =
     andthen (body x) (\<lambda>y. andthen (collect xs body) (\<lambda>ys. ret (y # ys)))"

fun accumulate :: "'a list \<Rightarrow> 'b \<Rightarrow> ('b \<Rightarrow> 'a \<Rightarrow> 'b tx) \<Rightarrow> 'b tx" where
  "accumulate [] acc body = ret acc"
| "accumulate (x # xs) acc body = andthen (body acc x) (\<lambda>acc'. accumulate xs acc' body)"

text \<open>A Python value that must be there: \<open>assert x is not None\<close>, \<open>.one()\<close>.\<close>

definition the_or :: "exn \<Rightarrow> 'a option \<Rightarrow> 'a tx" where
  "the_or e v = (case v of None \<Rightarrow> raise e | Some x \<Rightarrow> ret x)"

definition flush :: "unit tx" where
  "flush = (\<lambda>s. if constraints_ok s then (Inr (), flush_all s) else (Inl IntegrityError, s))"

definition now :: "int tx" where
  "now = gets clock_now"

text \<open>
  The world outside the repository's own modules that a transaction asks: the digest of
  \<open>hashlib\<close>, the random part of \<open>uuid4\<close>, the agent adapter's \<open>inspect\<close> (process alive, writer
  alive), \<open>start\<close> and \<open>stop\<close> (an answer, or the exception they raise), the external adapter's
  \<open>query\<close> and \<open>dispatch\<close>, the configured workspace root with the sizes and the
  contents of the files under it (\<open>ws_read\<close>: bytes; \<open>OSError\<close>: no such file; another error: the safe path reader refused), the
  artifact store (\<open>None\<close>: not configured), and the sandbox's container probe.
\<close>

record env =
  sha :: "string \<Rightarrow> string"
  hex16 :: "nat \<Rightarrow> string"
  agent_alive :: "string \<Rightarrow> bool"
  agent_writer :: "string \<Rightarrow> bool"
  agent_start :: "json \<Rightarrow> exn + json"
  agent_stop :: "string \<Rightarrow> string \<Rightarrow> exn + json"
  ext_query :: "string \<Rightarrow> string \<Rightarrow> json"
  ext_dispatch :: "json \<Rightarrow> exn + json"
  workspace_root :: "string option"
  file_size :: "string \<Rightarrow> string \<Rightarrow> int option"
  ws_dir :: "string \<Rightarrow> bool"
  ws_read :: "string \<Rightarrow> string \<Rightarrow> int option \<Rightarrow> exn + string"
  store_get :: "(string \<Rightarrow> string option) option"
  container_running :: "string \<Rightarrow> bool"

definition new_id :: "env \<Rightarrow> string \<Rightarrow> string tx" where
  "new_id E prefix = (\<lambda>s. (Inr (prefix @ ''_'' @ hex16 E (uid s)), s\<lparr>uid := Suc (uid s)\<rparr>))"

text \<open>
  \<open>SerialSessionExecutor.run\<close>. What is not in the database (random ids already drawn, the
  service's wake flag, the crash flags) is not rolled back.
\<close>

definition rollback :: "sess \<Rightarrow> sess \<Rightarrow> sess" where
  "rollback s s' = s\<lparr>uid := uid s', wake_requested := wake_requested s'\<rparr>"

definition run_tx :: "'a tx \<Rightarrow> sess \<Rightarrow> (exn + 'a) \<times> sess" where
  "run_tx m s =
    (case m s of
       (Inl e, s') \<Rightarrow> (Inl e, rollback s s')
     | (Inr x, s') \<Rightarrow>
        (if crash_before_commit s' then
           (Inl (RuntimeError ''injected_crash_before_commit''),
            (rollback s s')\<lparr>crash_before_commit := False\<rparr>)
         else case flush s' of
           (Inl e, _) \<Rightarrow> (Inl e, rollback s s')
         | (Inr _, s'') \<Rightarrow>
            (if crash_after_commit s'' then
               (Inl (RuntimeError ''injected_crash_after_commit''), s''\<lparr>crash_after_commit := False\<rparr>)
             else (Inr x, s''))))"

subsection \<open>How transactions run\<close>

lemma run_result: "fst (m s) = r \<Longrightarrow> m s = (r, snd (m s))"
  by (cases "m s") simp

lemma tx_simps [simp, tx_eval]:
  "ret x s = (Inr x, s)"
  "raise e s = (Inl e, s)"
  "gets f s = (Inr (f s), s)"
  "modify g s = (Inr (), g s)"
  "lift_exn r s = (r, s)"
  "now s = (Inr (clock_now s), s)"
  by (simp_all add: ret_def raise_def gets_def modify_def lift_exn_def now_def)

lemma andthen_simps [simp, tx_eval]:
  "m s = (Inl e, s') \<Longrightarrow> andthen m f s = (Inl e, s')"
  "m s = (Inr x, s') \<Longrightarrow> andthen m f s = f x s'"
  by (simp_all add: andthen_def)

lemma seq_simps [simp, tx_eval]:
  "m s = (Inl e, s') \<Longrightarrow> seq m k s = (Inl e, s')"
  "m s = (Inr u, s') \<Longrightarrow> seq m k s = k s'"
  by (simp_all add: seq_def)

lemma ensure_simps [simp, tx_eval]:
  "b \<Longrightarrow> ensure b e s = (Inr (), s)"
  "\<not> b \<Longrightarrow> ensure b e s = (Inl e, s)"
  by (simp_all add: ensure_def)

lemma only_if_simps [simp, tx_eval]:
  "b \<Longrightarrow> only_if b m = m"
  "\<not> b \<Longrightarrow> only_if b m s = (Inr (), s)"
  by (simp_all add: only_if_def)

lemma the_or_simps [simp, tx_eval]:
  "the_or e None s = (Inl e, s)"
  "the_or e (Some x) s = (Inr x, s)"
  by (simp_all add: the_or_def)

lemma new_id_simp [simp, tx_eval]:
  "new_id E p s = (Inr (p @ ''_'' @ hex16 E (uid s)), s\<lparr>uid := Suc (uid s)\<rparr>)"
  by (simp add: new_id_def)

text \<open>Inversion: a transaction that returns has returned at every step.\<close>

lemma andthen_Inr_iff:
  "andthen m f s = (Inr y, t) \<longleftrightarrow> (\<exists>x s'. m s = (Inr x, s') \<and> f x s' = (Inr y, t))"
  by (auto simp: andthen_def split: prod.splits sum.splits)

lemma seq_Inr_iff: "seq m k s = (Inr y, t) \<longleftrightarrow> (\<exists>s'. m s = (Inr (), s') \<and> k s' = (Inr y, t))"
  by (auto simp: seq_def andthen_Inr_iff)

lemma ensure_Inr_iff [simp]: "ensure b e s = (Inr u, t) \<longleftrightarrow> b \<and> t = s"
  by (auto simp: ensure_def)

lemma the_or_Inr_iff [simp]: "the_or e v s = (Inr x, t) \<longleftrightarrow> v = Some x \<and> t = s"
  by (auto simp: the_or_def split: option.splits)

lemma lift_exn_Inr_iff [simp]: "lift_exn r s = (Inr x, t) \<longleftrightarrow> r = Inr x \<and> t = s"
  by (auto simp: lift_exn_def)

lemma flush_Inr_iff: "flush s = (Inr u, t) \<longleftrightarrow> constraints_ok s \<and> t = flush_all s"
  by (auto simp: flush_def)

lemmas tx_inv = andthen_Inr_iff seq_Inr_iff flush_Inr_iff

subsection \<open>Frames\<close>

text \<open>
  A frame is a preorder on sessions. A transaction keeps a frame if, returning or raising, it
  ends in a session that the frame relates to the start. Frames compose along the
  transaction's structure, so a handler keeps a frame when its primitive writes do.
\<close>

definition keeps :: "(sess \<Rightarrow> sess \<Rightarrow> bool) \<Rightarrow> 'a tx \<Rightarrow> bool" where
  "keeps R m \<longleftrightarrow> (\<forall>s. R s (snd (m s)))"

locale frame =
  fixes R :: "sess \<Rightarrow> sess \<Rightarrow> bool"
  assumes R_refl: "R s s" and R_trans: "R s t \<Longrightarrow> R t u \<Longrightarrow> R s u"
begin

lemma keeps_id: "(\<And>s. snd (m s) = s) \<Longrightarrow> keeps R m"
  by (simp add: keeps_def R_refl)

lemma keeps_readonly: "keeps (=) m \<Longrightarrow> keeps R m"
  unfolding keeps_def using R_refl by metis

lemma keeps_modify: "(\<And>s. R s (f s)) \<Longrightarrow> keeps R (modify f)"
  by (simp add: keeps_def modify_def)

lemma keepsD: "keeps R m \<Longrightarrow> m s = (r, t) \<Longrightarrow> R s t"
  unfolding keeps_def by (metis snd_conv)

lemma keeps_andthen:
  assumes "keeps R m" and "\<And>x. keeps R (f x)"
  shows "keeps R (andthen m f)"
  unfolding keeps_def
proof
  fix s
  obtain r s' where m: "m s = (r, s')" by (cases "m s")
  with assms(1) have "R s s'" by (metis keeps_def snd_conv)
  with assms(2) m show "R s (snd (andthen m f s))"
    by (cases r) (auto simp: andthen_def keeps_def intro: R_trans)
qed

lemma keeps_seq: "keeps R m \<Longrightarrow> keeps R k \<Longrightarrow> keeps R (seq m k)"
  by (simp add: seq_def keeps_andthen)

lemma keeps_handle:
  assumes "keeps R m" and "\<And>e. keeps R (h e)"
  shows "keeps R (handle m h)"
  unfolding keeps_def
proof
  fix s
  obtain r s' where m: "m s = (r, s')" by (cases "m s")
  with assms(1) have "R s s'" by (metis keeps_def snd_conv)
  with assms(2) m show "R s (snd (handle m h s))"
    by (cases r) (auto simp: handle_def keeps_def intro: R_trans)
qed

lemma keeps_each: "(\<And>x. keeps R (body x)) \<Longrightarrow> keeps R (each xs body)"
  by (induction xs) (auto intro: keeps_id keeps_seq)

lemma keeps_ret: "keeps R (ret x)"
  by (simp add: keeps_id)

lemma keeps_collect: "(\<And>x. keeps R (body x)) \<Longrightarrow> keeps R (collect xs body)"
  by (induction xs) (auto intro: keeps_ret keeps_andthen simp del: tx_simps)

lemma keeps_accumulate: "(\<And>acc x. keeps R (body acc x)) \<Longrightarrow> keeps R (accumulate xs acc body)"
  by (induction xs arbitrary: acc) (auto intro: keeps_ret keeps_andthen simp del: tx_simps)

lemma keeps_only_if: "keeps R m \<Longrightarrow> keeps R (only_if b m)"
  by (simp add: only_if_def keeps_id)

lemma keeps_if: "keeps R a \<Longrightarrow> keeps R b \<Longrightarrow> keeps R (if c then a else b)"
  by simp

lemma keeps_option: "keeps R a \<Longrightarrow> (\<And>x. keeps R (f x)) \<Longrightarrow> keeps R (case v of None \<Rightarrow> a | Some x \<Rightarrow> f x)"
  by (cases v) simp_all

lemma keeps_sum:
  "(\<And>x. keeps R (f x)) \<Longrightarrow> (\<And>x. keeps R (g x)) \<Longrightarrow> keeps R (case v of Inl x \<Rightarrow> f x | Inr x \<Rightarrow> g x)"
  by (cases v) simp_all

lemma keeps_prod: "(\<And>x y. keeps R (f x y)) \<Longrightarrow> keeps R (case v of (x, y) \<Rightarrow> f x y)"
  by (cases v) simp

lemma keeps_let: "(\<And>x. keeps R (f x)) \<Longrightarrow> keeps R (let x = v in f x)"
  by (simp add: Let_def)

lemma keeps_pure:
  "keeps R (ret x)" "keeps R (raise e)" "keeps R (gets g)" "keeps R (lift_exn r)" "keeps R now"
  "keeps R (ensure b e)" "keeps R (the_or e v)"
  by (auto intro!: keeps_id simp: ensure_def the_or_def split: option.splits)

lemmas keeps_struct =
  keeps_pure keeps_andthen keeps_seq keeps_handle keeps_each keeps_collect keeps_accumulate keeps_only_if keeps_if keeps_option
  keeps_sum keeps_prod keeps_let

end

text \<open>Transactions that only read keep the equality of sessions.\<close>

interpretation readonly: frame "(=)"
  by unfold_locales simp_all

lemma readonly_iff: "keeps (=) m \<Longrightarrow> m s = (r, t) \<longleftrightarrow> fst (m s) = r \<and> t = s"
proof -
  assume "keeps (=) m"
  then have "snd (m s) = s" unfolding keeps_def by (intro sym [where s = s]) blast
  then show ?thesis by (cases "m s") auto
qed

lemma readonlyD: "keeps (=) m \<Longrightarrow> m s = (r, t) \<Longrightarrow> t = s"
  by (metis keeps_def snd_conv)

text \<open>Transactions that read, and may flush.\<close>

definition flushed :: "sess \<Rightarrow> sess \<Rightarrow> bool" where
  "flushed s t \<longleftrightarrow> t = s \<or> t = flush_all s"

interpretation flushes: frame flushed
  by unfold_locales (auto simp: flushed_def flush_all_clean clean_flush_all)

lemma flushed_flush: "keeps flushed flush"
  by (simp add: keeps_def flushed_def flush_def)

lemma flushed_cleanD: "flushed s t \<Longrightarrow> clean s \<Longrightarrow> t = s"
  by (auto simp: flushed_def flush_all_clean)

subsection \<open>Committed states\<close>

text \<open>Two sessions over the same tables.\<close>

definition same_db :: "sess \<Rightarrow> sess \<Rightarrow> bool" where
  "same_db s t \<longleftrightarrow>
    tasks t = tasks s
    \<and> contracts t = contracts s
    \<and> contract_markers t = contract_markers s
    \<and> explanations t = explanations s
    \<and> decisions t = decisions s
    \<and> gates t = gates s
    \<and> plans t = plans s
    \<and> plan_markers t = plan_markers s
    \<and> wu_specs t = wu_specs s
    \<and> wus t = wus s
    \<and> planner_sessions t = planner_sessions s
    \<and> runs t = runs s
    \<and> exec_markers t = exec_markers s
    \<and> plan_run_markers t = plan_run_markers s
    \<and> workspaces t = workspaces s
    \<and> manifests t = manifests s
    \<and> effects t = effects s
    \<and> events t = events s
    \<and> inbox t = inbox s
    \<and> outbox t = outbox s
    \<and> idem t = idem s
    \<and> snapshots t = snapshots s
    \<and> artifacts t = artifacts s
    \<and> evidence t = evidence s
    \<and> profiles t = profiles s
    \<and> run_inputs t = run_inputs s
    \<and> tool_invocations t = tool_invocations s
    \<and> context_appends t = context_appends s
    \<and> messages t = messages s"

lemma same_db_rollback [simp]:
  "same_db s (rollback s s')" "same_db s ((rollback s s')\<lparr>crash_before_commit := c\<rparr>)"
  by (simp_all add: same_db_def rollback_def)

lemma run_tx_error_rolls_back:
  assumes "run_tx m s = (Inl e, t)" and "e \<noteq> RuntimeError ''injected_crash_after_commit''"
  shows "same_db s t"
  using assms unfolding run_tx_def
  by (auto split: prod.splits sum.splits if_splits)

lemma clean_uid [simp]:
  "clean (s\<lparr>uid := u\<rparr>) = clean s" "clean (s\<lparr>wake_requested := w\<rparr>) = clean s"
  "clean (s\<lparr>crash_before_commit := c\<rparr>) = clean s" "clean (s\<lparr>crash_after_commit := c\<rparr>) = clean s"
  by (simp_all add: clean_def)

text \<open>A transaction that returns has run its body and written what the body left, which met the constraints.\<close>

lemma run_tx_Inr:
  "run_tx m s = (Inr x, t) \<Longrightarrow> \<exists>s'. m s = (Inr x, s') \<and> constraints_ok s' \<and> t = flush_all s'"
  by (auto simp: run_tx_def flush_def split: prod.splits sum.splits if_splits)

lemma run_tx_clean: "clean s \<Longrightarrow> clean (snd (run_tx m s))"
  by (auto simp: run_tx_def rollback_def flush_def clean_flush_all split: prod.splits sum.splits)

end
