(* ===== verification/Transitions.thy ===== *)
theory Transitions
  imports Domain
begin

text \<open>
  \<open>domain/transitions.py\<close>: the four transition tables, the lookup that raises on a missing
  edge, and the terminal-state predicates. The lemmas compute, from the tables themselves,
  which states can be left and which can still end.
\<close>

subsection \<open>Tables\<close>

type_synonym 'q table = "(('q \<times> string) \<times> 'q) list"

definition TASK_TRANSITIONS :: "TaskState table" where
  "TASK_TRANSITIONS = [
    ((NEW, ''clarification''), WAITING_HUMAN),
    ((NEW, ''contract.submitted''), WAITING_HUMAN),
    ((WAITING_HUMAN, ''contract.submitted''), WAITING_HUMAN),
    ((WAITING_HUMAN, ''contract.approved''), PLANNING),
    ((WAITING_HUMAN, ''contract.approved_simple''), EXECUTING),
    ((WAITING_HUMAN, ''clarification.answered''), NEW),
    ((WAITING_HUMAN, ''decision.resolved''), EXECUTING),
    ((WAITING_HUMAN, ''decision.resolved_waiting''), WAITING_HUMAN),
    ((PLANNING, ''plan.activated''), EXECUTING),
    ((EXECUTING, ''plan.activated''), EXECUTING),
    ((VERIFYING, ''plan.activated''), EXECUTING),
    ((WAITING_HUMAN, ''blocking_gate.opened''), WAITING_HUMAN),
    ((PLANNING, ''blocking_gate.opened''), WAITING_HUMAN),
    ((EXECUTING, ''blocking_gate.opened''), WAITING_HUMAN),
    ((VERIFYING, ''blocking_gate.opened''), WAITING_HUMAN),
    ((EXECUTING, ''required_outputs.ready''), VERIFYING),
    ((VERIFYING, ''verification.failed''), EXECUTING),
    ((EXECUTING, ''acceptance.ready''), WAITING_HUMAN),
    ((VERIFYING, ''acceptance.ready''), WAITING_HUMAN),
    ((PLANNING, ''acceptance.ready''), WAITING_HUMAN),
    ((WAITING_HUMAN, ''final.accepted''), COMPLETED),
    ((NEW, ''pause.requested''), PAUSING),
    ((WAITING_HUMAN, ''pause.requested''), PAUSING),
    ((PLANNING, ''pause.requested''), PAUSING),
    ((EXECUTING, ''pause.requested''), PAUSING),
    ((VERIFYING, ''pause.requested''), PAUSING),
    ((PAUSING, ''runtime.quiescent''), PAUSED),
    ((PAUSED, ''resume.requested''), WAITING_HUMAN),
    ((PAUSED, ''resume.requested_runnable''), EXECUTING),
    ((NEW, ''cancel.requested''), CANCELLING),
    ((WAITING_HUMAN, ''cancel.requested''), CANCELLING),
    ((PLANNING, ''cancel.requested''), CANCELLING),
    ((EXECUTING, ''cancel.requested''), CANCELLING),
    ((VERIFYING, ''cancel.requested''), CANCELLING),
    ((PAUSING, ''cancel.requested''), CANCELLING),
    ((PAUSED, ''cancel.requested''), CANCELLING),
    ((CANCELLING, ''cancellation.settled''), ABORTED),
    ((NEW, ''task.failed''), T_FAILED),
    ((WAITING_HUMAN, ''task.failed''), T_FAILED),
    ((PLANNING, ''task.failed''), T_FAILED),
    ((EXECUTING, ''task.failed''), T_FAILED),
    ((VERIFYING, ''task.failed''), T_FAILED),
    ((PAUSING, ''task.failed''), T_FAILED),
    ((PAUSED, ''task.failed''), T_FAILED)]"

definition TERMINAL_TASK_STATES :: "TaskState list" where
  "TERMINAL_TASK_STATES = [COMPLETED, T_FAILED, ABORTED]"

definition DISPATCHABLE_TASK_STATES :: "TaskState list" where
  "DISPATCHABLE_TASK_STATES = [PLANNING, EXECUTING, VERIFYING]"

definition WORK_UNIT_TRANSITIONS :: "WorkUnitStatus table" where
  "WORK_UNIT_TRANSITIONS = [
    ((W_PENDING, ''run.started''), W_RUNNING),
    ((W_RUNNING, ''run.retryable_failed''), W_PENDING),
    ((W_RUNNING, ''run.blocked''), W_BLOCKED),
    ((W_RUNNING, ''run.completed''), W_DONE),
    ((W_BLOCKED, ''block.cleared''), W_PENDING),
    ((W_PENDING, ''unit.failed''), W_FAILED),
    ((W_RUNNING, ''unit.failed''), W_FAILED),
    ((W_BLOCKED, ''unit.failed''), W_FAILED),
    ((W_PENDING, ''unit.cancelled''), W_CANCELLED),
    ((W_RUNNING, ''unit.cancelled''), W_CANCELLED),
    ((W_BLOCKED, ''unit.cancelled''), W_CANCELLED)]"

definition TERMINAL_WORK_UNIT :: "WorkUnitStatus list" where
  "TERMINAL_WORK_UNIT = [W_DONE, W_FAILED, W_CANCELLED]"

definition RUN_TRANSITIONS :: "AgentRunStatus table" where
  "RUN_TRANSITIONS = [
    ((R_CREATED, ''start''), R_RUNNING),
    ((R_CREATED, ''fail''), R_FAILED),
    ((R_CREATED, ''cancel''), R_CANCELLED),
    ((R_RUNNING, ''succeed''), R_SUCCEEDED),
    ((R_RUNNING, ''fail''), R_FAILED),
    ((R_RUNNING, ''timeout''), R_TIMED_OUT),
    ((R_RUNNING, ''cancel''), R_CANCELLED),
    ((R_RUNNING, ''lost''), R_LOST)]"

definition TERMINAL_RUN :: "AgentRunStatus list" where
  "TERMINAL_RUN = [R_SUCCEEDED, R_FAILED, R_TIMED_OUT, R_CANCELLED, R_LOST]"

definition SIDE_EFFECT_TRANSITIONS :: "SideEffectState table" where
  "SIDE_EFFECT_TRANSITIONS = [
    ((E_PROPOSED, ''request_approval''), E_WAITING_APPROVAL),
    ((E_PROPOSED, ''preauthorize''), E_AUTHORIZED),
    ((E_WAITING_APPROVAL, ''approve''), E_AUTHORIZED),
    ((E_WAITING_APPROVAL, ''reject''), E_CANCELLED),
    ((E_AUTHORIZED, ''claim_dispatch''), E_DISPATCHING),
    ((E_AUTHORIZED, ''cancel''), E_CANCELLED),
    ((E_DISPATCHING, ''succeed''), E_SUCCEEDED),
    ((E_DISPATCHING, ''fail_confirmed''), E_FAILED_CONFIRMED),
    ((E_DISPATCHING, ''uncertain''), E_UNKNOWN),
    ((E_PROPOSED, ''cancel''), E_CANCELLED),
    ((E_WAITING_APPROVAL, ''cancel''), E_CANCELLED)]"

subsection \<open>Lookup\<close>

definition transition :: "'q table \<Rightarrow> 'q \<Rightarrow> string \<Rightarrow> exn + 'q" where
  "transition table current event =
    (case map_of table (current, event) of
       None \<Rightarrow> Inl (InvalidTransitionError ''invalid_transition'')
     | Some q \<Rightarrow> Inr q)"

definition transition_task :: "TaskState \<Rightarrow> string \<Rightarrow> exn + TaskState" where
  "transition_task = transition TASK_TRANSITIONS"

definition transition_work_unit :: "WorkUnitStatus \<Rightarrow> string \<Rightarrow> exn + WorkUnitStatus" where
  "transition_work_unit = transition WORK_UNIT_TRANSITIONS"

definition transition_run :: "AgentRunStatus \<Rightarrow> string \<Rightarrow> exn + AgentRunStatus" where
  "transition_run = transition RUN_TRANSITIONS"

definition transition_side_effect :: "SideEffectState \<Rightarrow> string \<Rightarrow> exn + SideEffectState" where
  "transition_side_effect = transition SIDE_EFFECT_TRANSITIONS"

definition can_dispatch_business_run :: "TaskState \<Rightarrow> bool" where
  "can_dispatch_business_run state \<longleftrightarrow> state \<in> set DISPATCHABLE_TASK_STATES"

definition is_terminal_task :: "TaskState \<Rightarrow> bool" where
  "is_terminal_task state \<longleftrightarrow> state \<in> set TERMINAL_TASK_STATES"

definition is_terminal_run :: "AgentRunStatus \<Rightarrow> bool" where
  "is_terminal_run status \<longleftrightarrow> status \<in> set TERMINAL_RUN"

definition is_terminal_work_unit :: "WorkUnitStatus \<Rightarrow> bool" where
  "is_terminal_work_unit status \<longleftrightarrow> status \<in> set TERMINAL_WORK_UNIT"

subsection \<open>Steps of a table\<close>

text \<open>
  A transition table as a step relation: one step per entry, the reflexive transitive
  closure as the states an entity can still come to.
\<close>

locale transition_table =
  fixes table :: "'q table" and terminal :: "'q \<Rightarrow> bool"
  assumes terminal_stuck: "((q, e), q') \<in> set table \<Longrightarrow> \<not> terminal q"
begin

lemma lookup_not_terminal: "map_of table (q, e) = Some q' \<Longrightarrow> \<not> terminal q"
  by (rule terminal_stuck) (rule map_of_SomeD)

lemma transition_not_terminal: "transition table q e = Inr q' \<Longrightarrow> \<not> terminal q"
  by (auto simp: transition_def split: option.splits dest: lookup_not_terminal)

lemma terminal_raises:
  "terminal q \<Longrightarrow> transition table q e = Inl (InvalidTransitionError ''invalid_transition'')"
  by (cases "map_of table (q, e)") (auto simp: transition_def dest: lookup_not_terminal)

end

definition step_in :: "'q table \<Rightarrow> 'q \<Rightarrow> 'q \<Rightarrow> bool" where
  "step_in table q q' \<longleftrightarrow> (\<exists>e. ((q, e), q') \<in> set table)"

text \<open>\<open>can_become\<close>: the states a Task can still come to by legal transitions.\<close>

inductive can_become :: "'q table \<Rightarrow> 'q \<Rightarrow> 'q \<Rightarrow> bool" for table where
  stay: "can_become table q q"
| move: "can_become table q q' \<Longrightarrow> step_in table q' q'' \<Longrightarrow> can_become table q q''"

lemma can_become_trans: "can_become tb b c \<Longrightarrow> can_become tb a b \<Longrightarrow> can_become tb a c"
  by (induction rule: can_become.induct) (auto intro: can_become.move)

lemma transition_step: "transition tb q e = Inr q' \<Longrightarrow> step_in tb q q'"
  by (auto simp: transition_def step_in_def split: option.splits dest: map_of_SomeD)

lemma can_become_step: "transition tb q e = Inr q' \<Longrightarrow> can_become tb q q'"
  by (blast intro: can_become.intros transition_step)

context transition_table begin

lemma terminal_final: "can_become table q q' \<Longrightarrow> terminal q \<Longrightarrow> q' = q"
  by (induction rule: can_become.induct) (auto simp: step_in_def dest: terminal_stuck)

end

interpretation task_tb: transition_table TASK_TRANSITIONS is_terminal_task
  by unfold_locales (auto simp: TASK_TRANSITIONS_def is_terminal_task_def TERMINAL_TASK_STATES_def)

interpretation wu_tb: transition_table WORK_UNIT_TRANSITIONS is_terminal_work_unit
  by unfold_locales
    (auto simp: WORK_UNIT_TRANSITIONS_def is_terminal_work_unit_def TERMINAL_WORK_UNIT_def)

interpretation run_tb: transition_table RUN_TRANSITIONS is_terminal_run
  by unfold_locales (auto simp: RUN_TRANSITIONS_def is_terminal_run_def TERMINAL_RUN_def)

definition effect_settled :: "SideEffectState \<Rightarrow> bool" where
  "effect_settled e \<longleftrightarrow> e \<in> {E_SUCCEEDED, E_FAILED_CONFIRMED, E_UNKNOWN, E_CANCELLED}"

interpretation eff_tb: transition_table SIDE_EFFECT_TRANSITIONS effect_settled
  by unfold_locales (auto simp: SIDE_EFFECT_TRANSITIONS_def effect_settled_def)

lemma terminal_task_cases:
  "is_terminal_task st \<longleftrightarrow> st = COMPLETED \<or> st = T_FAILED \<or> st = ABORTED"
  by (auto simp: is_terminal_task_def TERMINAL_TASK_STATES_def)

lemma terminal_run_cases:
  "is_terminal_run st \<longleftrightarrow> st \<noteq> R_CREATED \<and> st \<noteq> R_RUNNING"
  by (cases st) (auto simp: is_terminal_run_def TERMINAL_RUN_def)

lemma can_dispatch_cases:
  "can_dispatch_business_run st \<longleftrightarrow> st = PLANNING \<or> st = EXECUTING \<or> st = VERIFYING"
  by (auto simp: can_dispatch_business_run_def DISPATCHABLE_TASK_STATES_def)

text \<open>Where a completed Task can come from: the acceptance event on a waiting Task, only.\<close>

lemma transition_task_completed:
  "transition_task st e = Inr COMPLETED \<longleftrightarrow> st = WAITING_HUMAN \<and> e = ''final.accepted''"
proof
  assume "transition_task st e = Inr COMPLETED"
  then have "((st, e), COMPLETED) \<in> set TASK_TRANSITIONS"
    by (auto simp: transition_task_def transition_def split: option.splits dest: map_of_SomeD)
  then show "st = WAITING_HUMAN \<and> e = ''final.accepted''" by (simp add: TASK_TRANSITIONS_def)
next
  assume "st = WAITING_HUMAN \<and> e = ''final.accepted''"
  moreover have "transition_task WAITING_HUMAN ''final.accepted'' = Inr COMPLETED" by code_simp
  ultimately show "transition_task st e = Inr COMPLETED" by simp
qed

lemma transition_task_cancel:
  "transition_task st ''cancel.requested'' =
    (if is_terminal_task st \<or> st = CANCELLING then Inl (InvalidTransitionError ''invalid_transition'')
     else Inr CANCELLING)"
  by (cases st; simp only:; code_simp)

lemma transition_task_settled:
  "transition_task st ''cancellation.settled'' =
    (if st = CANCELLING then Inr ABORTED else Inl (InvalidTransitionError ''invalid_transition''))"
  by (cases st; simp only:; code_simp)

lemma transition_task_accepted:
  "transition_task st ''final.accepted'' =
    (if st = WAITING_HUMAN then Inr COMPLETED else Inl (InvalidTransitionError ''invalid_transition''))"
  by (cases st; simp only:; code_simp)

lemma transition_task_gate:
  "transition_task st ''blocking_gate.opened'' =
    (if st \<in> {WAITING_HUMAN, PLANNING, EXECUTING, VERIFYING} then Inr WAITING_HUMAN
     else Inl (InvalidTransitionError ''invalid_transition''))"
  by (cases st; simp only:; code_simp)

text \<open>
  No event leaves a terminal Task state, and every non-terminal Task state still has a
  legal path of events to one (so no state of the table is a dead end).
\<close>

theorem task_table_terminal:
  "is_terminal_task st = (\<forall>e. \<exists>c. transition_task st e = Inl c)
   \<and> (\<exists>st'. is_terminal_task st' \<and> can_become TASK_TRANSITIONS st st')"
proof
  show "is_terminal_task st = (\<forall>e. \<exists>c. transition_task st e = Inl c)"
  proof
    assume "\<forall>e. \<exists>c. transition_task st e = Inl c"
    then have "(\<exists>c. transition_task st ''cancel.requested'' = Inl c) \<and>
        (\<exists>c. transition_task st ''cancellation.settled'' = Inl c)" by blast
    then show "is_terminal_task st"
      by (auto simp: transition_task_cancel transition_task_settled split: if_splits)
  qed (auto simp: transition_task_def task_tb.terminal_raises)
next
  have settle: "can_become TASK_TRANSITIONS CANCELLING ABORTED"
    by (rule can_become_step [of _ _ "''cancellation.settled''"])
      (simp add: transition_task_settled flip: transition_task_def)
  show "\<exists>st'. is_terminal_task st' \<and> can_become TASK_TRANSITIONS st st'"
  proof (cases "is_terminal_task st")
    case True
    then show ?thesis by (blast intro: can_become.stay)
  next
    case False
    show ?thesis
    proof (cases "st = CANCELLING")
      case True
      with settle show ?thesis by (auto simp: terminal_task_cases)
    next
      case False
      with \<open>\<not> is_terminal_task st\<close> have "transition_task st ''cancel.requested'' = Inr CANCELLING"
        by (simp add: transition_task_cancel)
      then have "can_become TASK_TRANSITIONS st CANCELLING"
        by (auto simp: transition_task_def intro: can_become_step)
      with settle have "can_become TASK_TRANSITIONS st ABORTED" by (blast intro: can_become_trans)
      then show ?thesis by (auto simp: terminal_task_cases)
    qed
  qed
qed

end
