(* ===== verification/Frame.thy ===== *)
theory Frame
  imports Session Transitions
begin

text \<open>
  The frame every transaction of the service stays in: history is immutable. Rows of the
  tables below are never removed; contracts, plans, specs, snapshots, evidence, events,
  messages, manifests and run inputs never change their content; decisions, runs, side
  effects and tool invocations keep what they are bound to; a Task keeps its owner, moves along the transition
  table only, and its epochs and counters never go back.
\<close>

subsection \<open>Tables that only grow\<close>

definition tbl_le :: "('r \<Rightarrow> 'r \<Rightarrow> bool) \<Rightarrow> 'r tbl \<Rightarrow> 'r tbl \<Rightarrow> bool" where
  "tbl_le R t t' \<longleftrightarrow>
    (list_all (\<lambda>c. \<not> dropped c) t \<longrightarrow>
      list_all (\<lambda>c. \<not> dropped c) t' \<and>
      (\<exists>u v. t' = u @ v \<and> list_all2 (\<lambda>c c'. R (live c) (live c')) t u))"

lemma tbl_le_refl: "(\<And>r. R r r) \<Longrightarrow> tbl_le R t t"
  unfolding tbl_le_def by (metis append_Nil2 list_all2_refl)

lemma tbl_le_trans:
  assumes R: "\<And>a b c. R a b \<Longrightarrow> R b c \<Longrightarrow> R a c" and "tbl_le R t t'" and "tbl_le R t' t''"
  shows "tbl_le R t t''"
  unfolding tbl_le_def
proof
  assume t: "list_all (\<lambda>c. \<not> dropped c) t"
  with assms(2) obtain u v where u: "t' = u @ v" "list_all2 (\<lambda>c c'. R (live c) (live c')) t u"
    and t': "list_all (\<lambda>c. \<not> dropped c) t'" by (auto simp: tbl_le_def)
  with assms(3) obtain w x where w: "t'' = w @ x" "list_all2 (\<lambda>c c'. R (live c) (live c')) t' w"
    and t'': "list_all (\<lambda>c. \<not> dropped c) t''" by (auto simp: tbl_le_def)
  from w u obtain a b where ab: "w = a @ b" "list_all2 (\<lambda>c c'. R (live c) (live c')) u a"
    by (auto simp: list_all2_append1)
  have "list_all2 (\<lambda>c c'. R (live c) (live c')) t a"
    using R by (rule list_all2_trans [OF _ u(2) ab(2)])
  with t'' w ab show "list_all (\<lambda>c. \<not> dropped c) t'' \<and>
      (\<exists>u v. t'' = u @ v \<and> list_all2 (\<lambda>c c'. R (live c) (live c')) t u)" by auto
qed

lemma list_all2_map_self: "(\<And>x. x \<in> set t \<Longrightarrow> Q x (f x)) \<Longrightarrow> list_all2 Q t (map f t)"
  by (induction t) auto

lemma tbl_le_flush: "(\<And>r. R r r) \<Longrightarrow> tbl_le R t (t_flush t)"
proof -
  assume R: "\<And>r. R r r"
  have "list_all (\<lambda>c. \<not> dropped c) t \<Longrightarrow>
      list_all2 (\<lambda>c c'. R (live c) (live c')) t (t_flush t)"
    using R by (induction t) (auto simp: t_flush_def)
  moreover have "list_all (\<lambda>c. \<not> dropped c) (t_flush t)" by (simp add: t_flush_def list_all_iff)
  ultimately show ?thesis unfolding tbl_le_def by (metis append_Nil2)
qed

lemma tbl_le_add: "(\<And>r. R r r) \<Longrightarrow> tbl_le R t (t_add r t)"
  by (auto simp: tbl_le_def t_add_def intro!: list_all2_refl)

lemma tbl_le_upd_at:
  assumes "\<And>r. R r r" and "\<And>r. t_peek key k t = Some r \<Longrightarrow> R r (f r)"
  shows "tbl_le R t (t_upd key k f t)"
proof -
  have "list_all2 (\<lambda>c c'. R (live c) (live c')) t (t_upd key k f t)
      \<and> (list_all (\<lambda>c. \<not> dropped c) t \<longrightarrow> list_all (\<lambda>c. \<not> dropped c) (t_upd key k f t))"
    using assms by (induction t) (auto simp: set_live_def intro: list_all2_refl)
  then show ?thesis unfolding tbl_le_def by (metis append_Nil2)
qed

lemma tbl_le_upd_where:
  assumes "\<And>r. R r r" and "\<And>r. R r (f r)"
  shows "tbl_le R t (t_upd_where P f t)"
proof -
  have "list_all2 (\<lambda>c c'. R (live c) (live c')) t (t_upd_where P f t)"
    using assms unfolding t_upd_where_def by (intro list_all2_map_self) (simp add: set_live_def)
  moreover have "list_all (\<lambda>c. \<not> dropped c) t \<longrightarrow> list_all (\<lambda>c. \<not> dropped c) (t_upd_where P f t)"
    by (induction t) (auto simp: t_upd_where_def set_live_def)
  ultimately show ?thesis unfolding tbl_le_def by (metis append_Nil2)
qed

text \<open>On committed tables: every old row is still there, related to its new version.\<close>

lemma tbl_le_clean:
  assumes "tbl_le R t t'" and "t_clean t"
  shows "\<exists>us vs. t_rows t' = us @ vs \<and> list_all2 R (t_rows t) us"
proof -
  from assms obtain u v where "t' = u @ v" and l: "list_all2 (\<lambda>c c'. R (live c) (live c')) t u"
    by (auto simp: tbl_le_def t_clean_def list_all_iff)
  moreover from l have "list_all2 R (t_rows t) (t_rows u)"
    by (simp add: t_rows_def list_all2_map1 list_all2_map2)
  ultimately show ?thesis by (auto simp: t_rows_def)
qed

subsection \<open>What a row keeps\<close>

definition task_le :: "TaskRow \<Rightarrow> TaskRow \<Rightarrow> bool" where
  "task_le r r' \<longleftrightarrow>
    tk_task_id r' = tk_task_id r \<and> tk_principal_id r' = tk_principal_id r
    \<and> tk_created_at r' = tk_created_at r
    \<and> can_become TASK_TRANSITIONS (tk_state r) (tk_state r')
    \<and> tk_state_revision r \<le> tk_state_revision r'
    \<and> tk_revoke_epoch r \<le> tk_revoke_epoch r'
    \<and> tk_model_calls_used r \<le> tk_model_calls_used r'"

definition contract_le :: "ContractRow \<Rightarrow> ContractRow \<Rightarrow> bool" where
  "contract_le r r' \<longleftrightarrow>
    ct_task_id r' = ct_task_id r \<and> ct_contract_version r' = ct_contract_version r
    \<and> ct_supersedes_version r' = ct_supersedes_version r
    \<and> ct_content_hash r' = ct_content_hash r \<and> ct_content_json r' = ct_content_json r
    \<and> ct_created_at r' = ct_created_at r"

definition decision_le :: "DecisionRow \<Rightarrow> DecisionRow \<Rightarrow> bool" where
  "decision_le r r' \<longleftrightarrow>
    de_decision_id r' = de_decision_id r \<and> de_task_id r' = de_task_id r
    \<and> de_decision_kind r' = de_decision_kind r \<and> de_target_ref r' = de_target_ref r
    \<and> de_target_version r' = de_target_version r \<and> de_target_hash r' = de_target_hash r
    \<and> de_result_snapshot_ref r' = de_result_snapshot_ref r
    \<and> de_payload_json r' = de_payload_json r \<and> de_expires_at r' = de_expires_at r"

definition plan_le :: "PlanRow \<Rightarrow> PlanRow \<Rightarrow> bool" where
  "plan_le r r' \<longleftrightarrow> (\<exists>st. r' = r\<lparr>pl_status := st\<rparr>)"

definition run_le :: "AgentRunRow \<Rightarrow> AgentRunRow \<Rightarrow> bool" where
  "run_le r r' \<longleftrightarrow>
    ar_run_id r' = ar_run_id r \<and> ar_task_id r' = ar_task_id r
    \<and> ar_assignment_kind r' = ar_assignment_kind r
    \<and> ar_planner_session_id r' = ar_planner_session_id r
    \<and> ar_work_unit_id r' = ar_work_unit_id r
    \<and> ar_work_unit_spec_version r' = ar_work_unit_spec_version r
    \<and> ar_agent_instance_id r' = ar_agent_instance_id r
    \<and> ar_workspace_id r' = ar_workspace_id r
    \<and> ar_fencing_epoch r' = ar_fencing_epoch r \<and> ar_grant_epoch r' = ar_grant_epoch r"

definition effect_le :: "SideEffectRow \<Rightarrow> SideEffectRow \<Rightarrow> bool" where
  "effect_le r r' \<longleftrightarrow>
    se_effect_id r' = se_effect_id r \<and> se_task_id r' = se_task_id r
    \<and> se_logical_action_key r' = se_logical_action_key r
    \<and> se_target_ref r' = se_target_ref r \<and> se_action_digest r' = se_action_digest r
    \<and> se_parameters_json r' = se_parameters_json r
    \<and> se_contract_version r' = se_contract_version r
    \<and> se_external_idempotency_key r' = se_external_idempotency_key r"

definition artifact_le :: "ArtifactRow \<Rightarrow> ArtifactRow \<Rightarrow> bool" where
  "artifact_le r r' \<longleftrightarrow>
    af_task_id r' = af_task_id r \<and> af_artifact_hash r' = af_artifact_hash r
    \<and> af_work_unit_id r' = af_work_unit_id r \<and> af_run_id r' = af_run_id r"

definition invocation_le :: "ToolInvocationRow \<Rightarrow> ToolInvocationRow \<Rightarrow> bool" where
  "invocation_le r r' \<longleftrightarrow>
    ti_invocation_id r' = ti_invocation_id r \<and> ti_task_id r' = ti_task_id r \<and> ti_run_id r' = ti_run_id r
    \<and> ti_work_unit_id r' = ti_work_unit_id r \<and> ti_sequence_no r' = ti_sequence_no r
    \<and> ti_tool_name r' = ti_tool_name r \<and> ti_parameters_json r' = ti_parameters_json r
    \<and> ti_parameters_hash r' = ti_parameters_hash r \<and> ti_grant_epoch r' = ti_grant_epoch r
    \<and> ti_fencing_epoch r' = ti_fencing_epoch r \<and> ti_created_at r' = ti_created_at r"

lemmas row_le_defs = task_le_def contract_le_def decision_le_def plan_le_def run_le_def
  effect_le_def artifact_le_def invocation_le_def

lemma row_le_refl [simp]:
  "task_le tr tr" "contract_le cr cr" "decision_le dr dr" "plan_le pr pr" "run_le rr rr"
  "effect_le er er" "artifact_le ar ar" "invocation_le ir ir"
  by (auto simp: row_le_defs can_become.stay intro!: exI [of _ "pl_status pr"])

lemma row_le_trans:
  "task_le a1 b1 \<Longrightarrow> task_le b1 c1 \<Longrightarrow> task_le a1 c1"
  "contract_le a2 b2 \<Longrightarrow> contract_le b2 c2 \<Longrightarrow> contract_le a2 c2"
  "decision_le a3 b3 \<Longrightarrow> decision_le b3 c3 \<Longrightarrow> decision_le a3 c3"
  "plan_le a4 b4 \<Longrightarrow> plan_le b4 c4 \<Longrightarrow> plan_le a4 c4"
  "run_le a5 b5 \<Longrightarrow> run_le b5 c5 \<Longrightarrow> run_le a5 c5"
  "effect_le a6 b6 \<Longrightarrow> effect_le b6 c6 \<Longrightarrow> effect_le a6 c6"
  "artifact_le a7 b7 \<Longrightarrow> artifact_le b7 c7 \<Longrightarrow> artifact_le a7 c7"
  "invocation_le a8 b8 \<Longrightarrow> invocation_le b8 c8 \<Longrightarrow> invocation_le a8 c8"
  by (auto simp: row_le_defs intro: can_become_trans)

subsection \<open>The frame\<close>

definition history_le :: "sess \<Rightarrow> sess \<Rightarrow> bool" where
  "history_le s t \<longleftrightarrow>
    tbl_le task_le (tasks s) (tasks t)
    \<and> tbl_le contract_le (contracts s) (contracts t)
    \<and> tbl_le decision_le (decisions s) (decisions t)
    \<and> tbl_le plan_le (plans s) (plans t)
    \<and> tbl_le run_le (runs s) (runs t)
    \<and> tbl_le effect_le (effects s) (effects t)
    \<and> tbl_le artifact_le (artifacts s) (artifacts t)
    \<and> tbl_le invocation_le (tool_invocations s) (tool_invocations t)
    \<and> tbl_le (=) (explanations s) (explanations t)
    \<and> tbl_le (=) (wu_specs s) (wu_specs t)
    \<and> tbl_le (=) (manifests s) (manifests t)
    \<and> tbl_le (=) (events s) (events t)
    \<and> tbl_le (=) (inbox s) (inbox t)
    \<and> tbl_le (=) (snapshots s) (snapshots t)
    \<and> tbl_le (=) (evidence s) (evidence t)
    \<and> tbl_le (=) (run_inputs s) (run_inputs t)
    \<and> tbl_le (=) (context_appends s) (context_appends t)
    \<and> tbl_le (=) (messages s) (messages t)"

lemma history_le_refl: "history_le s s"
  by (simp add: history_le_def tbl_le_refl)

lemma history_le_trans: "history_le s t \<Longrightarrow> history_le t u \<Longrightarrow> history_le s u"
  unfolding history_le_def by (blast intro: tbl_le_trans row_le_trans trans)

text \<open>Sessions that agree on the framed tables.\<close>

lemma history_le_same_db: "same_db s t \<Longrightarrow> history_le s t"
  by (simp add: history_le_def same_db_def tbl_le_refl)

lemma history_le_flush_all: "history_le s (flush_all s)"
  by (simp add: history_le_def flush_all_def tbl_le_flush)

text \<open>The fields outside the database are not framed.\<close>

lemma history_le_fields [simp]:
  "history_le s (t\<lparr>uid := u\<rparr>) = history_le s t"
  "history_le s (t\<lparr>wake_requested := w\<rparr>) = history_le s t"
  "history_le s (t\<lparr>crash_before_commit := c\<rparr>) = history_le s t"
  "history_le s (t\<lparr>crash_after_commit := c\<rparr>) = history_le s t"
  by (simp_all add: history_le_def)

end
