(* ===== verification/Store.thy ===== *)
theory Store
  imports Frame
begin

text \<open>
  The session calls of the service, per table: \<open>get_*\<close> (\<open>session.get\<close>), \<open>select_*\<close> (a query),
  \<open>stored_*\<close> (an aggregate's rows), \<open>peek_*\<close> (an attribute read on a row in hand), \<open>upd_*\<close>
  (attribute assignment), \<open>upd_*_where\<close> (a loop over a query that only assigns), \<open>add_*\<close> and
  \<open>drop_*\<close>; with how each runs and that each stays in the frame of theory \<open>Frame\<close>.
\<close>

definition get_task :: "string \<Rightarrow> TaskRow option tx" where
  "get_task k = gets (\<lambda>s. t_get tk_task_id k (tasks s))"

definition select_task :: "(TaskRow \<Rightarrow> bool) \<Rightarrow> TaskRow list tx" where
  "select_task P = gets (\<lambda>s. t_select P (tasks s))"

definition stored_task :: "(TaskRow \<Rightarrow> bool) \<Rightarrow> TaskRow list tx" where
  "stored_task P = gets (\<lambda>s. t_stored P (tasks s))"

definition peek_task :: "string \<Rightarrow> TaskRow tx" where
  "peek_task k = andthen (gets (\<lambda>s. t_peek tk_task_id k (tasks s))) (the_or AssertionError)"

definition upd_task :: "string \<Rightarrow> (TaskRow \<Rightarrow> TaskRow) \<Rightarrow> unit tx" where
  "upd_task k f = modify (\<lambda>s. s\<lparr>tasks := t_upd tk_task_id k f (tasks s)\<rparr>)"

definition upd_task_where :: "(TaskRow \<Rightarrow> bool) \<Rightarrow> (TaskRow \<Rightarrow> TaskRow) \<Rightarrow> unit tx" where
  "upd_task_where P f = modify (\<lambda>s. s\<lparr>tasks := t_upd_where P f (tasks s)\<rparr>)"

definition add_task :: "TaskRow \<Rightarrow> unit tx" where
  "add_task r = modify (\<lambda>s. s\<lparr>tasks := t_add r (tasks s)\<rparr>)"

definition get_contract :: "string \<times> int \<Rightarrow> ContractRow option tx" where
  "get_contract k = gets (\<lambda>s. t_get contract_key k (contracts s))"

definition select_contract :: "(ContractRow \<Rightarrow> bool) \<Rightarrow> ContractRow list tx" where
  "select_contract P = gets (\<lambda>s. t_select P (contracts s))"

definition stored_contract :: "(ContractRow \<Rightarrow> bool) \<Rightarrow> ContractRow list tx" where
  "stored_contract P = gets (\<lambda>s. t_stored P (contracts s))"

definition peek_contract :: "string \<times> int \<Rightarrow> ContractRow tx" where
  "peek_contract k = andthen (gets (\<lambda>s. t_peek contract_key k (contracts s))) (the_or AssertionError)"

definition upd_contract :: "string \<times> int \<Rightarrow> (ContractRow \<Rightarrow> ContractRow) \<Rightarrow> unit tx" where
  "upd_contract k f = modify (\<lambda>s. s\<lparr>contracts := t_upd contract_key k f (contracts s)\<rparr>)"

definition upd_contract_where :: "(ContractRow \<Rightarrow> bool) \<Rightarrow> (ContractRow \<Rightarrow> ContractRow) \<Rightarrow> unit tx" where
  "upd_contract_where P f = modify (\<lambda>s. s\<lparr>contracts := t_upd_where P f (contracts s)\<rparr>)"

definition add_contract :: "ContractRow \<Rightarrow> unit tx" where
  "add_contract r = modify (\<lambda>s. s\<lparr>contracts := t_add r (contracts s)\<rparr>)"

definition get_contract_marker :: "string \<Rightarrow> ActiveContractMarker option tx" where
  "get_contract_marker k = gets (\<lambda>s. t_get acm_task_id k (contract_markers s))"

definition select_contract_marker :: "(ActiveContractMarker \<Rightarrow> bool) \<Rightarrow> ActiveContractMarker list tx" where
  "select_contract_marker P = gets (\<lambda>s. t_select P (contract_markers s))"

definition add_contract_marker :: "ActiveContractMarker \<Rightarrow> unit tx" where
  "add_contract_marker r = modify (\<lambda>s. s\<lparr>contract_markers := t_add r (contract_markers s)\<rparr>)"

definition drop_contract_marker :: "string \<Rightarrow> unit tx" where
  "drop_contract_marker k = modify (\<lambda>s. s\<lparr>contract_markers := t_drop acm_task_id k (contract_markers s)\<rparr>)"

definition get_explanation :: "string \<Rightarrow> ExplanationRow option tx" where
  "get_explanation k = gets (\<lambda>s. t_get xp_explanation_id k (explanations s))"

definition select_explanation :: "(ExplanationRow \<Rightarrow> bool) \<Rightarrow> ExplanationRow list tx" where
  "select_explanation P = gets (\<lambda>s. t_select P (explanations s))"

definition add_explanation :: "ExplanationRow \<Rightarrow> unit tx" where
  "add_explanation r = modify (\<lambda>s. s\<lparr>explanations := t_add r (explanations s)\<rparr>)"

definition get_decision :: "string \<Rightarrow> DecisionRow option tx" where
  "get_decision k = gets (\<lambda>s. t_get de_decision_id k (decisions s))"

definition select_decision :: "(DecisionRow \<Rightarrow> bool) \<Rightarrow> DecisionRow list tx" where
  "select_decision P = gets (\<lambda>s. t_select P (decisions s))"

definition peek_decision :: "string \<Rightarrow> DecisionRow tx" where
  "peek_decision k = andthen (gets (\<lambda>s. t_peek de_decision_id k (decisions s))) (the_or AssertionError)"

definition upd_decision :: "string \<Rightarrow> (DecisionRow \<Rightarrow> DecisionRow) \<Rightarrow> unit tx" where
  "upd_decision k f = modify (\<lambda>s. s\<lparr>decisions := t_upd de_decision_id k f (decisions s)\<rparr>)"

definition upd_decision_where :: "(DecisionRow \<Rightarrow> bool) \<Rightarrow> (DecisionRow \<Rightarrow> DecisionRow) \<Rightarrow> unit tx" where
  "upd_decision_where P f = modify (\<lambda>s. s\<lparr>decisions := t_upd_where P f (decisions s)\<rparr>)"

definition add_decision :: "DecisionRow \<Rightarrow> unit tx" where
  "add_decision r = modify (\<lambda>s. s\<lparr>decisions := t_add r (decisions s)\<rparr>)"

definition get_gate :: "string \<Rightarrow> GateRow option tx" where
  "get_gate k = gets (\<lambda>s. t_get ga_gate_id k (gates s))"

definition select_gate :: "(GateRow \<Rightarrow> bool) \<Rightarrow> GateRow list tx" where
  "select_gate P = gets (\<lambda>s. t_select P (gates s))"

definition peek_gate :: "string \<Rightarrow> GateRow tx" where
  "peek_gate k = andthen (gets (\<lambda>s. t_peek ga_gate_id k (gates s))) (the_or AssertionError)"

definition upd_gate :: "string \<Rightarrow> (GateRow \<Rightarrow> GateRow) \<Rightarrow> unit tx" where
  "upd_gate k f = modify (\<lambda>s. s\<lparr>gates := t_upd ga_gate_id k f (gates s)\<rparr>)"

definition upd_gate_where :: "(GateRow \<Rightarrow> bool) \<Rightarrow> (GateRow \<Rightarrow> GateRow) \<Rightarrow> unit tx" where
  "upd_gate_where P f = modify (\<lambda>s. s\<lparr>gates := t_upd_where P f (gates s)\<rparr>)"

definition add_gate :: "GateRow \<Rightarrow> unit tx" where
  "add_gate r = modify (\<lambda>s. s\<lparr>gates := t_add r (gates s)\<rparr>)"

definition get_plan :: "string \<times> int \<Rightarrow> PlanRow option tx" where
  "get_plan k = gets (\<lambda>s. t_get plan_key k (plans s))"

definition select_plan :: "(PlanRow \<Rightarrow> bool) \<Rightarrow> PlanRow list tx" where
  "select_plan P = gets (\<lambda>s. t_select P (plans s))"

definition stored_plan :: "(PlanRow \<Rightarrow> bool) \<Rightarrow> PlanRow list tx" where
  "stored_plan P = gets (\<lambda>s. t_stored P (plans s))"

definition upd_plan :: "string \<times> int \<Rightarrow> (PlanRow \<Rightarrow> PlanRow) \<Rightarrow> unit tx" where
  "upd_plan k f = modify (\<lambda>s. s\<lparr>plans := t_upd plan_key k f (plans s)\<rparr>)"

definition upd_plan_where :: "(PlanRow \<Rightarrow> bool) \<Rightarrow> (PlanRow \<Rightarrow> PlanRow) \<Rightarrow> unit tx" where
  "upd_plan_where P f = modify (\<lambda>s. s\<lparr>plans := t_upd_where P f (plans s)\<rparr>)"

definition add_plan :: "PlanRow \<Rightarrow> unit tx" where
  "add_plan r = modify (\<lambda>s. s\<lparr>plans := t_add r (plans s)\<rparr>)"

definition get_plan_marker :: "string \<Rightarrow> ActivePlanMarker option tx" where
  "get_plan_marker k = gets (\<lambda>s. t_get apm_task_id k (plan_markers s))"

definition select_plan_marker :: "(ActivePlanMarker \<Rightarrow> bool) \<Rightarrow> ActivePlanMarker list tx" where
  "select_plan_marker P = gets (\<lambda>s. t_select P (plan_markers s))"

definition add_plan_marker :: "ActivePlanMarker \<Rightarrow> unit tx" where
  "add_plan_marker r = modify (\<lambda>s. s\<lparr>plan_markers := t_add r (plan_markers s)\<rparr>)"

definition drop_plan_marker :: "string \<Rightarrow> unit tx" where
  "drop_plan_marker k = modify (\<lambda>s. s\<lparr>plan_markers := t_drop apm_task_id k (plan_markers s)\<rparr>)"

definition get_wu_spec :: "string \<times> int \<Rightarrow> WorkUnitSpecRow option tx" where
  "get_wu_spec k = gets (\<lambda>s. t_get wu_spec_key k (wu_specs s))"

definition select_wu_spec :: "(WorkUnitSpecRow \<Rightarrow> bool) \<Rightarrow> WorkUnitSpecRow list tx" where
  "select_wu_spec P = gets (\<lambda>s. t_select P (wu_specs s))"

definition add_wu_spec :: "WorkUnitSpecRow \<Rightarrow> unit tx" where
  "add_wu_spec r = modify (\<lambda>s. s\<lparr>wu_specs := t_add r (wu_specs s)\<rparr>)"

definition get_wu :: "string \<Rightarrow> WorkUnitExecutionRow option tx" where
  "get_wu k = gets (\<lambda>s. t_get wu_work_unit_id k (wus s))"

definition select_wu :: "(WorkUnitExecutionRow \<Rightarrow> bool) \<Rightarrow> WorkUnitExecutionRow list tx" where
  "select_wu P = gets (\<lambda>s. t_select P (wus s))"

definition peek_wu :: "string \<Rightarrow> WorkUnitExecutionRow tx" where
  "peek_wu k = andthen (gets (\<lambda>s. t_peek wu_work_unit_id k (wus s))) (the_or AssertionError)"

definition upd_wu :: "string \<Rightarrow> (WorkUnitExecutionRow \<Rightarrow> WorkUnitExecutionRow) \<Rightarrow> unit tx" where
  "upd_wu k f = modify (\<lambda>s. s\<lparr>wus := t_upd wu_work_unit_id k f (wus s)\<rparr>)"

definition upd_wu_where :: "(WorkUnitExecutionRow \<Rightarrow> bool) \<Rightarrow> (WorkUnitExecutionRow \<Rightarrow> WorkUnitExecutionRow) \<Rightarrow> unit tx" where
  "upd_wu_where P f = modify (\<lambda>s. s\<lparr>wus := t_upd_where P f (wus s)\<rparr>)"

definition add_wu :: "WorkUnitExecutionRow \<Rightarrow> unit tx" where
  "add_wu r = modify (\<lambda>s. s\<lparr>wus := t_add r (wus s)\<rparr>)"

definition get_planner_session :: "string \<Rightarrow> PlannerSessionRow option tx" where
  "get_planner_session k = gets (\<lambda>s. t_get ps_planner_session_id k (planner_sessions s))"

definition select_planner_session :: "(PlannerSessionRow \<Rightarrow> bool) \<Rightarrow> PlannerSessionRow list tx" where
  "select_planner_session P = gets (\<lambda>s. t_select P (planner_sessions s))"

definition peek_planner_session :: "string \<Rightarrow> PlannerSessionRow tx" where
  "peek_planner_session k = andthen (gets (\<lambda>s. t_peek ps_planner_session_id k (planner_sessions s))) (the_or AssertionError)"

definition upd_planner_session :: "string \<Rightarrow> (PlannerSessionRow \<Rightarrow> PlannerSessionRow) \<Rightarrow> unit tx" where
  "upd_planner_session k f = modify (\<lambda>s. s\<lparr>planner_sessions := t_upd ps_planner_session_id k f (planner_sessions s)\<rparr>)"

definition upd_planner_session_where :: "(PlannerSessionRow \<Rightarrow> bool) \<Rightarrow> (PlannerSessionRow \<Rightarrow> PlannerSessionRow) \<Rightarrow> unit tx" where
  "upd_planner_session_where P f = modify (\<lambda>s. s\<lparr>planner_sessions := t_upd_where P f (planner_sessions s)\<rparr>)"

definition add_planner_session :: "PlannerSessionRow \<Rightarrow> unit tx" where
  "add_planner_session r = modify (\<lambda>s. s\<lparr>planner_sessions := t_add r (planner_sessions s)\<rparr>)"

definition get_run :: "string \<Rightarrow> AgentRunRow option tx" where
  "get_run k = gets (\<lambda>s. t_get ar_run_id k (runs s))"

definition select_run :: "(AgentRunRow \<Rightarrow> bool) \<Rightarrow> AgentRunRow list tx" where
  "select_run P = gets (\<lambda>s. t_select P (runs s))"

definition stored_run :: "(AgentRunRow \<Rightarrow> bool) \<Rightarrow> AgentRunRow list tx" where
  "stored_run P = gets (\<lambda>s. t_stored P (runs s))"

definition peek_run :: "string \<Rightarrow> AgentRunRow tx" where
  "peek_run k = andthen (gets (\<lambda>s. t_peek ar_run_id k (runs s))) (the_or AssertionError)"

definition upd_run :: "string \<Rightarrow> (AgentRunRow \<Rightarrow> AgentRunRow) \<Rightarrow> unit tx" where
  "upd_run k f = modify (\<lambda>s. s\<lparr>runs := t_upd ar_run_id k f (runs s)\<rparr>)"

definition upd_run_where :: "(AgentRunRow \<Rightarrow> bool) \<Rightarrow> (AgentRunRow \<Rightarrow> AgentRunRow) \<Rightarrow> unit tx" where
  "upd_run_where P f = modify (\<lambda>s. s\<lparr>runs := t_upd_where P f (runs s)\<rparr>)"

definition add_run :: "AgentRunRow \<Rightarrow> unit tx" where
  "add_run r = modify (\<lambda>s. s\<lparr>runs := t_add r (runs s)\<rparr>)"

definition get_exec_marker :: "string \<Rightarrow> ActiveExecuteRunMarker option tx" where
  "get_exec_marker k = gets (\<lambda>s. t_get aem_work_unit_id k (exec_markers s))"

definition select_exec_marker :: "(ActiveExecuteRunMarker \<Rightarrow> bool) \<Rightarrow> ActiveExecuteRunMarker list tx" where
  "select_exec_marker P = gets (\<lambda>s. t_select P (exec_markers s))"

definition add_exec_marker :: "ActiveExecuteRunMarker \<Rightarrow> unit tx" where
  "add_exec_marker r = modify (\<lambda>s. s\<lparr>exec_markers := t_add r (exec_markers s)\<rparr>)"

definition drop_exec_marker :: "string \<Rightarrow> unit tx" where
  "drop_exec_marker k = modify (\<lambda>s. s\<lparr>exec_markers := t_drop aem_work_unit_id k (exec_markers s)\<rparr>)"

definition get_plan_run_marker :: "string \<Rightarrow> ActivePlanRunMarker option tx" where
  "get_plan_run_marker k = gets (\<lambda>s. t_get aprm_planner_session_id k (plan_run_markers s))"

definition select_plan_run_marker :: "(ActivePlanRunMarker \<Rightarrow> bool) \<Rightarrow> ActivePlanRunMarker list tx" where
  "select_plan_run_marker P = gets (\<lambda>s. t_select P (plan_run_markers s))"

definition add_plan_run_marker :: "ActivePlanRunMarker \<Rightarrow> unit tx" where
  "add_plan_run_marker r = modify (\<lambda>s. s\<lparr>plan_run_markers := t_add r (plan_run_markers s)\<rparr>)"

definition drop_plan_run_marker :: "string \<Rightarrow> unit tx" where
  "drop_plan_run_marker k = modify (\<lambda>s. s\<lparr>plan_run_markers := t_drop aprm_planner_session_id k (plan_run_markers s)\<rparr>)"

definition get_workspace :: "string \<Rightarrow> WorkspaceRow option tx" where
  "get_workspace k = gets (\<lambda>s. t_get ws_workspace_id k (workspaces s))"

definition select_workspace :: "(WorkspaceRow \<Rightarrow> bool) \<Rightarrow> WorkspaceRow list tx" where
  "select_workspace P = gets (\<lambda>s. t_select P (workspaces s))"

definition peek_workspace :: "string \<Rightarrow> WorkspaceRow tx" where
  "peek_workspace k = andthen (gets (\<lambda>s. t_peek ws_workspace_id k (workspaces s))) (the_or AssertionError)"

definition upd_workspace :: "string \<Rightarrow> (WorkspaceRow \<Rightarrow> WorkspaceRow) \<Rightarrow> unit tx" where
  "upd_workspace k f = modify (\<lambda>s. s\<lparr>workspaces := t_upd ws_workspace_id k f (workspaces s)\<rparr>)"

definition upd_workspace_where :: "(WorkspaceRow \<Rightarrow> bool) \<Rightarrow> (WorkspaceRow \<Rightarrow> WorkspaceRow) \<Rightarrow> unit tx" where
  "upd_workspace_where P f = modify (\<lambda>s. s\<lparr>workspaces := t_upd_where P f (workspaces s)\<rparr>)"

definition add_workspace :: "WorkspaceRow \<Rightarrow> unit tx" where
  "add_workspace r = modify (\<lambda>s. s\<lparr>workspaces := t_add r (workspaces s)\<rparr>)"

definition get_manifest :: "string \<Rightarrow> ContextManifestRow option tx" where
  "get_manifest k = gets (\<lambda>s. t_get cm_context_manifest_id k (manifests s))"

definition select_manifest :: "(ContextManifestRow \<Rightarrow> bool) \<Rightarrow> ContextManifestRow list tx" where
  "select_manifest P = gets (\<lambda>s. t_select P (manifests s))"

definition add_manifest :: "ContextManifestRow \<Rightarrow> unit tx" where
  "add_manifest r = modify (\<lambda>s. s\<lparr>manifests := t_add r (manifests s)\<rparr>)"

definition get_effect :: "string \<Rightarrow> SideEffectRow option tx" where
  "get_effect k = gets (\<lambda>s. t_get se_effect_id k (effects s))"

definition select_effect :: "(SideEffectRow \<Rightarrow> bool) \<Rightarrow> SideEffectRow list tx" where
  "select_effect P = gets (\<lambda>s. t_select P (effects s))"

definition peek_effect :: "string \<Rightarrow> SideEffectRow tx" where
  "peek_effect k = andthen (gets (\<lambda>s. t_peek se_effect_id k (effects s))) (the_or AssertionError)"

definition upd_effect :: "string \<Rightarrow> (SideEffectRow \<Rightarrow> SideEffectRow) \<Rightarrow> unit tx" where
  "upd_effect k f = modify (\<lambda>s. s\<lparr>effects := t_upd se_effect_id k f (effects s)\<rparr>)"

definition upd_effect_where :: "(SideEffectRow \<Rightarrow> bool) \<Rightarrow> (SideEffectRow \<Rightarrow> SideEffectRow) \<Rightarrow> unit tx" where
  "upd_effect_where P f = modify (\<lambda>s. s\<lparr>effects := t_upd_where P f (effects s)\<rparr>)"

definition add_effect :: "SideEffectRow \<Rightarrow> unit tx" where
  "add_effect r = modify (\<lambda>s. s\<lparr>effects := t_add r (effects s)\<rparr>)"

definition get_event :: "string \<times> int \<Rightarrow> EventRow option tx" where
  "get_event k = gets (\<lambda>s. t_get event_key k (events s))"

definition select_event :: "(EventRow \<Rightarrow> bool) \<Rightarrow> EventRow list tx" where
  "select_event P = gets (\<lambda>s. t_select P (events s))"

definition stored_event :: "(EventRow \<Rightarrow> bool) \<Rightarrow> EventRow list tx" where
  "stored_event P = gets (\<lambda>s. t_stored P (events s))"

definition add_event :: "EventRow \<Rightarrow> unit tx" where
  "add_event r = modify (\<lambda>s. s\<lparr>events := t_add r (events s)\<rparr>)"

definition get_inbox :: "string \<times> string \<Rightarrow> InboxRow option tx" where
  "get_inbox k = gets (\<lambda>s. t_get inbox_key k (inbox s))"

definition select_inbox :: "(InboxRow \<Rightarrow> bool) \<Rightarrow> InboxRow list tx" where
  "select_inbox P = gets (\<lambda>s. t_select P (inbox s))"

definition add_inbox :: "InboxRow \<Rightarrow> unit tx" where
  "add_inbox r = modify (\<lambda>s. s\<lparr>inbox := t_add r (inbox s)\<rparr>)"

definition get_outbox :: "string \<Rightarrow> OutboxRow option tx" where
  "get_outbox k = gets (\<lambda>s. t_get ob_outbox_id k (outbox s))"

definition select_outbox :: "(OutboxRow \<Rightarrow> bool) \<Rightarrow> OutboxRow list tx" where
  "select_outbox P = gets (\<lambda>s. t_select P (outbox s))"

definition stored_outbox :: "(OutboxRow \<Rightarrow> bool) \<Rightarrow> OutboxRow list tx" where
  "stored_outbox P = gets (\<lambda>s. t_stored P (outbox s))"

definition peek_outbox :: "string \<Rightarrow> OutboxRow tx" where
  "peek_outbox k = andthen (gets (\<lambda>s. t_peek ob_outbox_id k (outbox s))) (the_or AssertionError)"

definition upd_outbox :: "string \<Rightarrow> (OutboxRow \<Rightarrow> OutboxRow) \<Rightarrow> unit tx" where
  "upd_outbox k f = modify (\<lambda>s. s\<lparr>outbox := t_upd ob_outbox_id k f (outbox s)\<rparr>)"

definition upd_outbox_where :: "(OutboxRow \<Rightarrow> bool) \<Rightarrow> (OutboxRow \<Rightarrow> OutboxRow) \<Rightarrow> unit tx" where
  "upd_outbox_where P f = modify (\<lambda>s. s\<lparr>outbox := t_upd_where P f (outbox s)\<rparr>)"

definition add_outbox :: "OutboxRow \<Rightarrow> unit tx" where
  "add_outbox r = modify (\<lambda>s. s\<lparr>outbox := t_add r (outbox s)\<rparr>)"

definition get_idem :: "string \<times> string \<times> string \<times> string \<Rightarrow> IdempotencyRow option tx" where
  "get_idem k = gets (\<lambda>s. t_get idem_key k (idem s))"

definition select_idem :: "(IdempotencyRow \<Rightarrow> bool) \<Rightarrow> IdempotencyRow list tx" where
  "select_idem P = gets (\<lambda>s. t_select P (idem s))"

definition upd_idem :: "string \<times> string \<times> string \<times> string \<Rightarrow> (IdempotencyRow \<Rightarrow> IdempotencyRow) \<Rightarrow> unit tx" where
  "upd_idem k f = modify (\<lambda>s. s\<lparr>idem := t_upd idem_key k f (idem s)\<rparr>)"

definition upd_idem_where :: "(IdempotencyRow \<Rightarrow> bool) \<Rightarrow> (IdempotencyRow \<Rightarrow> IdempotencyRow) \<Rightarrow> unit tx" where
  "upd_idem_where P f = modify (\<lambda>s. s\<lparr>idem := t_upd_where P f (idem s)\<rparr>)"

definition add_idem :: "IdempotencyRow \<Rightarrow> unit tx" where
  "add_idem r = modify (\<lambda>s. s\<lparr>idem := t_add r (idem s)\<rparr>)"

definition get_snapshot :: "string \<Rightarrow> ResultSnapshotRow option tx" where
  "get_snapshot k = gets (\<lambda>s. t_get rs_result_snapshot_id k (snapshots s))"

definition select_snapshot :: "(ResultSnapshotRow \<Rightarrow> bool) \<Rightarrow> ResultSnapshotRow list tx" where
  "select_snapshot P = gets (\<lambda>s. t_select P (snapshots s))"

definition add_snapshot :: "ResultSnapshotRow \<Rightarrow> unit tx" where
  "add_snapshot r = modify (\<lambda>s. s\<lparr>snapshots := t_add r (snapshots s)\<rparr>)"

definition get_artifact :: "string \<times> string \<Rightarrow> ArtifactRow option tx" where
  "get_artifact k = gets (\<lambda>s. t_get artifact_key k (artifacts s))"

definition select_artifact :: "(ArtifactRow \<Rightarrow> bool) \<Rightarrow> ArtifactRow list tx" where
  "select_artifact P = gets (\<lambda>s. t_select P (artifacts s))"

definition upd_artifact :: "string \<times> string \<Rightarrow> (ArtifactRow \<Rightarrow> ArtifactRow) \<Rightarrow> unit tx" where
  "upd_artifact k f = modify (\<lambda>s. s\<lparr>artifacts := t_upd artifact_key k f (artifacts s)\<rparr>)"

definition upd_artifact_where :: "(ArtifactRow \<Rightarrow> bool) \<Rightarrow> (ArtifactRow \<Rightarrow> ArtifactRow) \<Rightarrow> unit tx" where
  "upd_artifact_where P f = modify (\<lambda>s. s\<lparr>artifacts := t_upd_where P f (artifacts s)\<rparr>)"

definition add_artifact :: "ArtifactRow \<Rightarrow> unit tx" where
  "add_artifact r = modify (\<lambda>s. s\<lparr>artifacts := t_add r (artifacts s)\<rparr>)"

definition get_evidence :: "string \<Rightarrow> AcceptanceEvidenceRow option tx" where
  "get_evidence k = gets (\<lambda>s. t_get ae_evidence_id k (evidence s))"

definition select_evidence :: "(AcceptanceEvidenceRow \<Rightarrow> bool) \<Rightarrow> AcceptanceEvidenceRow list tx" where
  "select_evidence P = gets (\<lambda>s. t_select P (evidence s))"

definition add_evidence :: "AcceptanceEvidenceRow \<Rightarrow> unit tx" where
  "add_evidence r = modify (\<lambda>s. s\<lparr>evidence := t_add r (evidence s)\<rparr>)"

definition get_profile :: "string \<times> int \<Rightarrow> AgentProfileRow option tx" where
  "get_profile k = gets (\<lambda>s. t_get profile_key k (profiles s))"

definition select_profile :: "(AgentProfileRow \<Rightarrow> bool) \<Rightarrow> AgentProfileRow list tx" where
  "select_profile P = gets (\<lambda>s. t_select P (profiles s))"

definition add_profile :: "AgentProfileRow \<Rightarrow> unit tx" where
  "add_profile r = modify (\<lambda>s. s\<lparr>profiles := t_add r (profiles s)\<rparr>)"

definition get_run_input :: "string \<Rightarrow> RunInputRow option tx" where
  "get_run_input k = gets (\<lambda>s. t_get ri_run_id k (run_inputs s))"

definition select_run_input :: "(RunInputRow \<Rightarrow> bool) \<Rightarrow> RunInputRow list tx" where
  "select_run_input P = gets (\<lambda>s. t_select P (run_inputs s))"

definition add_run_input :: "RunInputRow \<Rightarrow> unit tx" where
  "add_run_input r = modify (\<lambda>s. s\<lparr>run_inputs := t_add r (run_inputs s)\<rparr>)"

definition get_tool_invocation :: "string \<Rightarrow> ToolInvocationRow option tx" where
  "get_tool_invocation k = gets (\<lambda>s. t_get ti_invocation_id k (tool_invocations s))"

definition select_tool_invocation :: "(ToolInvocationRow \<Rightarrow> bool) \<Rightarrow> ToolInvocationRow list tx" where
  "select_tool_invocation P = gets (\<lambda>s. t_select P (tool_invocations s))"

definition upd_tool_invocation :: "string \<Rightarrow> (ToolInvocationRow \<Rightarrow> ToolInvocationRow) \<Rightarrow> unit tx" where
  "upd_tool_invocation k f = modify (\<lambda>s. s\<lparr>tool_invocations := t_upd ti_invocation_id k f (tool_invocations s)\<rparr>)"

definition add_tool_invocation :: "ToolInvocationRow \<Rightarrow> unit tx" where
  "add_tool_invocation r = modify (\<lambda>s. s\<lparr>tool_invocations := t_add r (tool_invocations s)\<rparr>)"

definition get_context_append :: "string \<Rightarrow> ContextAppendRow option tx" where
  "get_context_append k = gets (\<lambda>s. t_get ca_append_id k (context_appends s))"

definition select_context_append :: "(ContextAppendRow \<Rightarrow> bool) \<Rightarrow> ContextAppendRow list tx" where
  "select_context_append P = gets (\<lambda>s. t_select P (context_appends s))"

definition stored_context_append :: "(ContextAppendRow \<Rightarrow> bool) \<Rightarrow> ContextAppendRow list tx" where
  "stored_context_append P = gets (\<lambda>s. t_stored P (context_appends s))"

definition add_context_append :: "ContextAppendRow \<Rightarrow> unit tx" where
  "add_context_append r = modify (\<lambda>s. s\<lparr>context_appends := t_add r (context_appends s)\<rparr>)"

definition get_message :: "string \<times> int \<Rightarrow> TaskMessageRow option tx" where
  "get_message k = gets (\<lambda>s. t_get message_key k (messages s))"

definition select_message :: "(TaskMessageRow \<Rightarrow> bool) \<Rightarrow> TaskMessageRow list tx" where
  "select_message P = gets (\<lambda>s. t_select P (messages s))"

definition stored_message :: "(TaskMessageRow \<Rightarrow> bool) \<Rightarrow> TaskMessageRow list tx" where
  "stored_message P = gets (\<lambda>s. t_stored P (messages s))"

definition add_message :: "TaskMessageRow \<Rightarrow> unit tx" where
  "add_message r = modify (\<lambda>s. s\<lparr>messages := t_add r (messages s)\<rparr>)"

subsection \<open>How the calls run\<close>

lemma store_simps [simp, tx_eval]:
  "get_task k_task s = (Inr (t_get tk_task_id k_task (tasks s)), s)"
  "select_task P_task s = (Inr (t_select P_task (tasks s)), s)"
  "stored_task Q_task s = (Inr (t_stored Q_task (tasks s)), s)"
  "upd_task u_task f_task s = (Inr (), s\<lparr>tasks := t_upd tk_task_id u_task f_task (tasks s)\<rparr>)"
  "upd_task_where U_task g_task s = (Inr (), s\<lparr>tasks := t_upd_where U_task g_task (tasks s)\<rparr>)"
  "add_task r_task s = (Inr (), s\<lparr>tasks := t_add r_task (tasks s)\<rparr>)"
  "get_contract k_contract s = (Inr (t_get contract_key k_contract (contracts s)), s)"
  "select_contract P_contract s = (Inr (t_select P_contract (contracts s)), s)"
  "stored_contract Q_contract s = (Inr (t_stored Q_contract (contracts s)), s)"
  "upd_contract u_contract f_contract s = (Inr (), s\<lparr>contracts := t_upd contract_key u_contract f_contract (contracts s)\<rparr>)"
  "upd_contract_where U_contract g_contract s = (Inr (), s\<lparr>contracts := t_upd_where U_contract g_contract (contracts s)\<rparr>)"
  "add_contract r_contract s = (Inr (), s\<lparr>contracts := t_add r_contract (contracts s)\<rparr>)"
  "get_contract_marker k_contract_marker s = (Inr (t_get acm_task_id k_contract_marker (contract_markers s)), s)"
  "select_contract_marker P_contract_marker s = (Inr (t_select P_contract_marker (contract_markers s)), s)"
  "add_contract_marker r_contract_marker s = (Inr (), s\<lparr>contract_markers := t_add r_contract_marker (contract_markers s)\<rparr>)"
  "drop_contract_marker d_contract_marker s = (Inr (), s\<lparr>contract_markers := t_drop acm_task_id d_contract_marker (contract_markers s)\<rparr>)"
  "get_explanation k_explanation s = (Inr (t_get xp_explanation_id k_explanation (explanations s)), s)"
  "select_explanation P_explanation s = (Inr (t_select P_explanation (explanations s)), s)"
  "add_explanation r_explanation s = (Inr (), s\<lparr>explanations := t_add r_explanation (explanations s)\<rparr>)"
  "get_decision k_decision s = (Inr (t_get de_decision_id k_decision (decisions s)), s)"
  "select_decision P_decision s = (Inr (t_select P_decision (decisions s)), s)"
  "upd_decision u_decision f_decision s = (Inr (), s\<lparr>decisions := t_upd de_decision_id u_decision f_decision (decisions s)\<rparr>)"
  "upd_decision_where U_decision g_decision s = (Inr (), s\<lparr>decisions := t_upd_where U_decision g_decision (decisions s)\<rparr>)"
  "add_decision r_decision s = (Inr (), s\<lparr>decisions := t_add r_decision (decisions s)\<rparr>)"
  "get_gate k_gate s = (Inr (t_get ga_gate_id k_gate (gates s)), s)"
  "select_gate P_gate s = (Inr (t_select P_gate (gates s)), s)"
  "upd_gate u_gate f_gate s = (Inr (), s\<lparr>gates := t_upd ga_gate_id u_gate f_gate (gates s)\<rparr>)"
  "upd_gate_where U_gate g_gate s = (Inr (), s\<lparr>gates := t_upd_where U_gate g_gate (gates s)\<rparr>)"
  "add_gate r_gate s = (Inr (), s\<lparr>gates := t_add r_gate (gates s)\<rparr>)"
  "get_plan k_plan s = (Inr (t_get plan_key k_plan (plans s)), s)"
  "select_plan P_plan s = (Inr (t_select P_plan (plans s)), s)"
  "stored_plan Q_plan s = (Inr (t_stored Q_plan (plans s)), s)"
  "upd_plan u_plan f_plan s = (Inr (), s\<lparr>plans := t_upd plan_key u_plan f_plan (plans s)\<rparr>)"
  "upd_plan_where U_plan g_plan s = (Inr (), s\<lparr>plans := t_upd_where U_plan g_plan (plans s)\<rparr>)"
  "add_plan r_plan s = (Inr (), s\<lparr>plans := t_add r_plan (plans s)\<rparr>)"
  "get_plan_marker k_plan_marker s = (Inr (t_get apm_task_id k_plan_marker (plan_markers s)), s)"
  "select_plan_marker P_plan_marker s = (Inr (t_select P_plan_marker (plan_markers s)), s)"
  "add_plan_marker r_plan_marker s = (Inr (), s\<lparr>plan_markers := t_add r_plan_marker (plan_markers s)\<rparr>)"
  "drop_plan_marker d_plan_marker s = (Inr (), s\<lparr>plan_markers := t_drop apm_task_id d_plan_marker (plan_markers s)\<rparr>)"
  "get_wu_spec k_wu_spec s = (Inr (t_get wu_spec_key k_wu_spec (wu_specs s)), s)"
  "select_wu_spec P_wu_spec s = (Inr (t_select P_wu_spec (wu_specs s)), s)"
  "add_wu_spec r_wu_spec s = (Inr (), s\<lparr>wu_specs := t_add r_wu_spec (wu_specs s)\<rparr>)"
  "get_wu k_wu s = (Inr (t_get wu_work_unit_id k_wu (wus s)), s)"
  "select_wu P_wu s = (Inr (t_select P_wu (wus s)), s)"
  "upd_wu u_wu f_wu s = (Inr (), s\<lparr>wus := t_upd wu_work_unit_id u_wu f_wu (wus s)\<rparr>)"
  "upd_wu_where U_wu g_wu s = (Inr (), s\<lparr>wus := t_upd_where U_wu g_wu (wus s)\<rparr>)"
  "add_wu r_wu s = (Inr (), s\<lparr>wus := t_add r_wu (wus s)\<rparr>)"
  "get_planner_session k_planner_session s = (Inr (t_get ps_planner_session_id k_planner_session (planner_sessions s)), s)"
  "select_planner_session P_planner_session s = (Inr (t_select P_planner_session (planner_sessions s)), s)"
  "upd_planner_session u_planner_session f_planner_session s = (Inr (), s\<lparr>planner_sessions := t_upd ps_planner_session_id u_planner_session f_planner_session (planner_sessions s)\<rparr>)"
  "upd_planner_session_where U_planner_session g_planner_session s = (Inr (), s\<lparr>planner_sessions := t_upd_where U_planner_session g_planner_session (planner_sessions s)\<rparr>)"
  "add_planner_session r_planner_session s = (Inr (), s\<lparr>planner_sessions := t_add r_planner_session (planner_sessions s)\<rparr>)"
  "get_run k_run s = (Inr (t_get ar_run_id k_run (runs s)), s)"
  "select_run P_run s = (Inr (t_select P_run (runs s)), s)"
  "stored_run Q_run s = (Inr (t_stored Q_run (runs s)), s)"
  "upd_run u_run f_run s = (Inr (), s\<lparr>runs := t_upd ar_run_id u_run f_run (runs s)\<rparr>)"
  "upd_run_where U_run g_run s = (Inr (), s\<lparr>runs := t_upd_where U_run g_run (runs s)\<rparr>)"
  "add_run r_run s = (Inr (), s\<lparr>runs := t_add r_run (runs s)\<rparr>)"
  "get_exec_marker k_exec_marker s = (Inr (t_get aem_work_unit_id k_exec_marker (exec_markers s)), s)"
  "select_exec_marker P_exec_marker s = (Inr (t_select P_exec_marker (exec_markers s)), s)"
  "add_exec_marker r_exec_marker s = (Inr (), s\<lparr>exec_markers := t_add r_exec_marker (exec_markers s)\<rparr>)"
  "drop_exec_marker d_exec_marker s = (Inr (), s\<lparr>exec_markers := t_drop aem_work_unit_id d_exec_marker (exec_markers s)\<rparr>)"
  "get_plan_run_marker k_plan_run_marker s = (Inr (t_get aprm_planner_session_id k_plan_run_marker (plan_run_markers s)), s)"
  "select_plan_run_marker P_plan_run_marker s = (Inr (t_select P_plan_run_marker (plan_run_markers s)), s)"
  "add_plan_run_marker r_plan_run_marker s = (Inr (), s\<lparr>plan_run_markers := t_add r_plan_run_marker (plan_run_markers s)\<rparr>)"
  "drop_plan_run_marker d_plan_run_marker s = (Inr (), s\<lparr>plan_run_markers := t_drop aprm_planner_session_id d_plan_run_marker (plan_run_markers s)\<rparr>)"
  "get_workspace k_workspace s = (Inr (t_get ws_workspace_id k_workspace (workspaces s)), s)"
  "select_workspace P_workspace s = (Inr (t_select P_workspace (workspaces s)), s)"
  "upd_workspace u_workspace f_workspace s = (Inr (), s\<lparr>workspaces := t_upd ws_workspace_id u_workspace f_workspace (workspaces s)\<rparr>)"
  "upd_workspace_where U_workspace g_workspace s = (Inr (), s\<lparr>workspaces := t_upd_where U_workspace g_workspace (workspaces s)\<rparr>)"
  "add_workspace r_workspace s = (Inr (), s\<lparr>workspaces := t_add r_workspace (workspaces s)\<rparr>)"
  "get_manifest k_manifest s = (Inr (t_get cm_context_manifest_id k_manifest (manifests s)), s)"
  "select_manifest P_manifest s = (Inr (t_select P_manifest (manifests s)), s)"
  "add_manifest r_manifest s = (Inr (), s\<lparr>manifests := t_add r_manifest (manifests s)\<rparr>)"
  "get_effect k_effect s = (Inr (t_get se_effect_id k_effect (effects s)), s)"
  "select_effect P_effect s = (Inr (t_select P_effect (effects s)), s)"
  "upd_effect u_effect f_effect s = (Inr (), s\<lparr>effects := t_upd se_effect_id u_effect f_effect (effects s)\<rparr>)"
  "upd_effect_where U_effect g_effect s = (Inr (), s\<lparr>effects := t_upd_where U_effect g_effect (effects s)\<rparr>)"
  "add_effect r_effect s = (Inr (), s\<lparr>effects := t_add r_effect (effects s)\<rparr>)"
  "get_event k_event s = (Inr (t_get event_key k_event (events s)), s)"
  "select_event P_event s = (Inr (t_select P_event (events s)), s)"
  "stored_event Q_event s = (Inr (t_stored Q_event (events s)), s)"
  "add_event r_event s = (Inr (), s\<lparr>events := t_add r_event (events s)\<rparr>)"
  "get_inbox k_inbox s = (Inr (t_get inbox_key k_inbox (inbox s)), s)"
  "select_inbox P_inbox s = (Inr (t_select P_inbox (inbox s)), s)"
  "add_inbox r_inbox s = (Inr (), s\<lparr>inbox := t_add r_inbox (inbox s)\<rparr>)"
  "get_outbox k_outbox s = (Inr (t_get ob_outbox_id k_outbox (outbox s)), s)"
  "select_outbox P_outbox s = (Inr (t_select P_outbox (outbox s)), s)"
  "stored_outbox Q_outbox s = (Inr (t_stored Q_outbox (outbox s)), s)"
  "upd_outbox u_outbox f_outbox s = (Inr (), s\<lparr>outbox := t_upd ob_outbox_id u_outbox f_outbox (outbox s)\<rparr>)"
  "upd_outbox_where U_outbox g_outbox s = (Inr (), s\<lparr>outbox := t_upd_where U_outbox g_outbox (outbox s)\<rparr>)"
  "add_outbox r_outbox s = (Inr (), s\<lparr>outbox := t_add r_outbox (outbox s)\<rparr>)"
  "get_idem k_idem s = (Inr (t_get idem_key k_idem (idem s)), s)"
  "select_idem P_idem s = (Inr (t_select P_idem (idem s)), s)"
  "upd_idem u_idem f_idem s = (Inr (), s\<lparr>idem := t_upd idem_key u_idem f_idem (idem s)\<rparr>)"
  "upd_idem_where U_idem g_idem s = (Inr (), s\<lparr>idem := t_upd_where U_idem g_idem (idem s)\<rparr>)"
  "add_idem r_idem s = (Inr (), s\<lparr>idem := t_add r_idem (idem s)\<rparr>)"
  "get_snapshot k_snapshot s = (Inr (t_get rs_result_snapshot_id k_snapshot (snapshots s)), s)"
  "select_snapshot P_snapshot s = (Inr (t_select P_snapshot (snapshots s)), s)"
  "add_snapshot r_snapshot s = (Inr (), s\<lparr>snapshots := t_add r_snapshot (snapshots s)\<rparr>)"
  "get_artifact k_artifact s = (Inr (t_get artifact_key k_artifact (artifacts s)), s)"
  "select_artifact P_artifact s = (Inr (t_select P_artifact (artifacts s)), s)"
  "upd_artifact u_artifact f_artifact s = (Inr (), s\<lparr>artifacts := t_upd artifact_key u_artifact f_artifact (artifacts s)\<rparr>)"
  "upd_artifact_where U_artifact g_artifact s = (Inr (), s\<lparr>artifacts := t_upd_where U_artifact g_artifact (artifacts s)\<rparr>)"
  "add_artifact r_artifact s = (Inr (), s\<lparr>artifacts := t_add r_artifact (artifacts s)\<rparr>)"
  "get_evidence k_evidence s = (Inr (t_get ae_evidence_id k_evidence (evidence s)), s)"
  "select_evidence P_evidence s = (Inr (t_select P_evidence (evidence s)), s)"
  "add_evidence r_evidence s = (Inr (), s\<lparr>evidence := t_add r_evidence (evidence s)\<rparr>)"
  "get_profile k_profile s = (Inr (t_get profile_key k_profile (profiles s)), s)"
  "select_profile P_profile s = (Inr (t_select P_profile (profiles s)), s)"
  "add_profile r_profile s = (Inr (), s\<lparr>profiles := t_add r_profile (profiles s)\<rparr>)"
  "get_run_input k_run_input s = (Inr (t_get ri_run_id k_run_input (run_inputs s)), s)"
  "select_run_input P_run_input s = (Inr (t_select P_run_input (run_inputs s)), s)"
  "add_run_input r_run_input s = (Inr (), s\<lparr>run_inputs := t_add r_run_input (run_inputs s)\<rparr>)"
  "get_tool_invocation k_tool_invocation s = (Inr (t_get ti_invocation_id k_tool_invocation (tool_invocations s)), s)"
  "select_tool_invocation P_tool_invocation s = (Inr (t_select P_tool_invocation (tool_invocations s)), s)"
  "upd_tool_invocation u_tool_invocation f_tool_invocation s = (Inr (), s\<lparr>tool_invocations := t_upd ti_invocation_id u_tool_invocation f_tool_invocation (tool_invocations s)\<rparr>)"
  "add_tool_invocation r_tool_invocation s = (Inr (), s\<lparr>tool_invocations := t_add r_tool_invocation (tool_invocations s)\<rparr>)"
  "get_context_append k_context_append s = (Inr (t_get ca_append_id k_context_append (context_appends s)), s)"
  "select_context_append P_context_append s = (Inr (t_select P_context_append (context_appends s)), s)"
  "stored_context_append Q_context_append s = (Inr (t_stored Q_context_append (context_appends s)), s)"
  "add_context_append r_context_append s = (Inr (), s\<lparr>context_appends := t_add r_context_append (context_appends s)\<rparr>)"
  "get_message k_message s = (Inr (t_get message_key k_message (messages s)), s)"
  "select_message P_message s = (Inr (t_select P_message (messages s)), s)"
  "stored_message Q_message s = (Inr (t_stored Q_message (messages s)), s)"
  "add_message r_message s = (Inr (), s\<lparr>messages := t_add r_message (messages s)\<rparr>)"
  by (simp_all add: get_task_def select_task_def add_task_def upd_task_def upd_task_where_def
    stored_task_def get_contract_def select_contract_def add_contract_def upd_contract_def
    upd_contract_where_def stored_contract_def get_contract_marker_def select_contract_marker_def add_contract_marker_def
    drop_contract_marker_def get_explanation_def select_explanation_def add_explanation_def get_decision_def
    select_decision_def add_decision_def upd_decision_def upd_decision_where_def get_gate_def
    select_gate_def add_gate_def upd_gate_def upd_gate_where_def get_plan_def
    select_plan_def add_plan_def upd_plan_def upd_plan_where_def stored_plan_def
    get_plan_marker_def select_plan_marker_def add_plan_marker_def drop_plan_marker_def get_wu_spec_def
    select_wu_spec_def add_wu_spec_def get_wu_def select_wu_def add_wu_def
    upd_wu_def upd_wu_where_def get_planner_session_def select_planner_session_def add_planner_session_def
    upd_planner_session_def upd_planner_session_where_def get_run_def select_run_def add_run_def
    upd_run_def upd_run_where_def stored_run_def get_exec_marker_def select_exec_marker_def
    add_exec_marker_def drop_exec_marker_def get_plan_run_marker_def select_plan_run_marker_def add_plan_run_marker_def
    drop_plan_run_marker_def get_workspace_def select_workspace_def add_workspace_def upd_workspace_def
    upd_workspace_where_def get_manifest_def select_manifest_def add_manifest_def get_effect_def
    select_effect_def add_effect_def upd_effect_def upd_effect_where_def get_event_def
    select_event_def add_event_def stored_event_def get_inbox_def select_inbox_def
    add_inbox_def get_outbox_def select_outbox_def add_outbox_def upd_outbox_def
    upd_outbox_where_def stored_outbox_def get_idem_def select_idem_def add_idem_def
    upd_idem_def upd_idem_where_def get_snapshot_def select_snapshot_def add_snapshot_def
    get_artifact_def select_artifact_def add_artifact_def upd_artifact_def upd_artifact_where_def
    get_evidence_def select_evidence_def add_evidence_def get_profile_def select_profile_def
    add_profile_def get_run_input_def select_run_input_def add_run_input_def get_tool_invocation_def
    select_tool_invocation_def upd_tool_invocation_def add_tool_invocation_def get_context_append_def select_context_append_def add_context_append_def
    stored_context_append_def get_message_def select_message_def add_message_def stored_message_def)

lemma peek_Inr_iff [simp]:
  "peek_task k_task s = (Inr x_task, t) \<longleftrightarrow> t_peek tk_task_id k_task (tasks s) = Some x_task \<and> t = s"
  "peek_contract k_contract s = (Inr x_contract, t) \<longleftrightarrow> t_peek contract_key k_contract (contracts s) = Some x_contract \<and> t = s"
  "peek_decision k_decision s = (Inr x_decision, t) \<longleftrightarrow> t_peek de_decision_id k_decision (decisions s) = Some x_decision \<and> t = s"
  "peek_gate k_gate s = (Inr x_gate, t) \<longleftrightarrow> t_peek ga_gate_id k_gate (gates s) = Some x_gate \<and> t = s"
  "peek_wu k_wu s = (Inr x_wu, t) \<longleftrightarrow> t_peek wu_work_unit_id k_wu (wus s) = Some x_wu \<and> t = s"
  "peek_planner_session k_planner_session s = (Inr x_planner_session, t) \<longleftrightarrow> t_peek ps_planner_session_id k_planner_session (planner_sessions s) = Some x_planner_session \<and> t = s"
  "peek_run k_run s = (Inr x_run, t) \<longleftrightarrow> t_peek ar_run_id k_run (runs s) = Some x_run \<and> t = s"
  "peek_workspace k_workspace s = (Inr x_workspace, t) \<longleftrightarrow> t_peek ws_workspace_id k_workspace (workspaces s) = Some x_workspace \<and> t = s"
  "peek_effect k_effect s = (Inr x_effect, t) \<longleftrightarrow> t_peek se_effect_id k_effect (effects s) = Some x_effect \<and> t = s"
  "peek_outbox k_outbox s = (Inr x_outbox, t) \<longleftrightarrow> t_peek ob_outbox_id k_outbox (outbox s) = Some x_outbox \<and> t = s"
  by (auto simp: peek_task_def peek_contract_def peek_decision_def peek_gate_def peek_wu_def peek_planner_session_def peek_run_def peek_workspace_def peek_effect_def peek_outbox_def andthen_Inr_iff)

lemma peek_simps [simp, tx_eval]:
  "t_peek tk_task_id k_task (tasks s) = Some x_task \<Longrightarrow> peek_task k_task s = (Inr x_task, s)"
  "t_peek contract_key k_contract (contracts s) = Some x_contract \<Longrightarrow> peek_contract k_contract s = (Inr x_contract, s)"
  "t_peek de_decision_id k_decision (decisions s) = Some x_decision \<Longrightarrow> peek_decision k_decision s = (Inr x_decision, s)"
  "t_peek ga_gate_id k_gate (gates s) = Some x_gate \<Longrightarrow> peek_gate k_gate s = (Inr x_gate, s)"
  "t_peek wu_work_unit_id k_wu (wus s) = Some x_wu \<Longrightarrow> peek_wu k_wu s = (Inr x_wu, s)"
  "t_peek ps_planner_session_id k_planner_session (planner_sessions s) = Some x_planner_session \<Longrightarrow> peek_planner_session k_planner_session s = (Inr x_planner_session, s)"
  "t_peek ar_run_id k_run (runs s) = Some x_run \<Longrightarrow> peek_run k_run s = (Inr x_run, s)"
  "t_peek ws_workspace_id k_workspace (workspaces s) = Some x_workspace \<Longrightarrow> peek_workspace k_workspace s = (Inr x_workspace, s)"
  "t_peek se_effect_id k_effect (effects s) = Some x_effect \<Longrightarrow> peek_effect k_effect s = (Inr x_effect, s)"
  "t_peek ob_outbox_id k_outbox (outbox s) = Some x_outbox \<Longrightarrow> peek_outbox k_outbox s = (Inr x_outbox, s)"
  by (auto simp: peek_task_def peek_contract_def peek_decision_def peek_gate_def peek_wu_def peek_planner_session_def peek_run_def peek_workspace_def peek_effect_def peek_outbox_def)

subsection \<open>Frames of the service\<close>

text \<open>
  What a handler may do to the session, as an interface: it reads, flushes, draws ids, adds rows
  (not to the inbox or the idempotency store, which belong to the entry, and to the event log by
  \<open>append_event\<close> only, see theory \<open>Helpers\<close>), deletes markers, and assigns attributes within the
  row relations of theory \<open>Frame\<close>. A preorder that these calls keep is kept by every handler.
\<close>

locale store_frame = frame R for R :: "sess \<Rightarrow> sess \<Rightarrow> bool" +
  assumes call_flush: "keeps R flush"
    and call_new_id: "keeps R (new_id E p)"
    and call_add_task: "keeps R (add_task r_task)"
    and call_add_contract: "keeps R (add_contract r_contract)"
    and call_add_contract_marker: "keeps R (add_contract_marker r_contract_marker)"
    and call_add_explanation: "keeps R (add_explanation r_explanation)"
    and call_add_decision: "keeps R (add_decision r_decision)"
    and call_add_gate: "keeps R (add_gate r_gate)"
    and call_add_plan: "keeps R (add_plan r_plan)"
    and call_add_plan_marker: "keeps R (add_plan_marker r_plan_marker)"
    and call_add_wu_spec: "keeps R (add_wu_spec r_wu_spec)"
    and call_add_wu: "keeps R (add_wu r_wu)"
    and call_add_planner_session: "keeps R (add_planner_session r_planner_session)"
    and call_add_run: "keeps R (add_run r_run)"
    and call_add_exec_marker: "keeps R (add_exec_marker r_exec_marker)"
    and call_add_plan_run_marker: "keeps R (add_plan_run_marker r_plan_run_marker)"
    and call_add_workspace: "keeps R (add_workspace r_workspace)"
    and call_add_manifest: "keeps R (add_manifest r_manifest)"
    and call_add_effect: "keeps R (add_effect r_effect)"
    and call_add_outbox: "keeps R (add_outbox r_outbox)"
    and call_add_snapshot: "keeps R (add_snapshot r_snapshot)"
    and call_add_artifact: "keeps R (add_artifact r_artifact)"
    and call_add_evidence: "keeps R (add_evidence r_evidence)"
    and call_add_profile: "keeps R (add_profile r_profile)"
    and call_add_run_input: "keeps R (add_run_input r_run_input)"
    and call_add_tool_invocation: "keeps R (add_tool_invocation r_tool_invocation)"
    and call_add_context_append: "keeps R (add_context_append r_context_append)"
    and call_add_message: "keeps R (add_message r_message)"
    and call_drop_contract_marker: "keeps R (drop_contract_marker d_contract_marker)"
    and call_drop_exec_marker: "keeps R (drop_exec_marker d_exec_marker)"
    and call_drop_plan_marker: "keeps R (drop_plan_marker d_plan_marker)"
    and call_drop_plan_run_marker: "keeps R (drop_plan_run_marker d_plan_run_marker)"
    and call_upd_gate: "keeps R (upd_gate u_gate f_gate)"
    and call_upd_gate_where: "keeps R (upd_gate_where U_gate f_gate)"
    and call_upd_wu: "keeps R (upd_wu u_wu f_wu)"
    and call_upd_wu_where: "keeps R (upd_wu_where U_wu f_wu)"
    and call_upd_planner_session: "keeps R (upd_planner_session u_planner_session f_planner_session)"
    and call_upd_planner_session_where: "keeps R (upd_planner_session_where U_planner_session f_planner_session)"
    and call_upd_workspace: "keeps R (upd_workspace u_workspace f_workspace)"
    and call_upd_workspace_where: "keeps R (upd_workspace_where U_workspace f_workspace)"
    and call_upd_outbox: "keeps R (upd_outbox u_outbox f_outbox)"
    and call_upd_outbox_where: "keeps R (upd_outbox_where U_outbox f_outbox)"
    and call_upd_task_at: "(\<And>r. t_peek tk_task_id k (tasks s) = Some r \<Longrightarrow> task_le r (g r))
      \<Longrightarrow> R s (s\<lparr>tasks := t_upd tk_task_id k g (tasks s)\<rparr>)"
    and call_upd_task_where: "(\<And>r. task_le r (f_task r)) \<Longrightarrow> keeps R (upd_task_where U_task f_task)"
    and call_upd_contract: "(\<And>r. contract_le r (f_contract r)) \<Longrightarrow> keeps R (upd_contract u_contract f_contract)"
    and call_upd_contract_where: "(\<And>r. contract_le r (f_contract r)) \<Longrightarrow> keeps R (upd_contract_where U_contract f_contract)"
    and call_upd_decision: "(\<And>r. decision_le r (f_decision r)) \<Longrightarrow> keeps R (upd_decision u_decision f_decision)"
    and call_upd_decision_where: "(\<And>r. decision_le r (f_decision r)) \<Longrightarrow> keeps R (upd_decision_where U_decision f_decision)"
    and call_upd_plan: "(\<And>r. plan_le r (f_plan r)) \<Longrightarrow> keeps R (upd_plan u_plan f_plan)"
    and call_upd_plan_where: "(\<And>r. plan_le r (f_plan r)) \<Longrightarrow> keeps R (upd_plan_where U_plan f_plan)"
    and call_upd_run: "(\<And>r. run_le r (f_run r)) \<Longrightarrow> keeps R (upd_run u_run f_run)"
    and call_upd_run_where: "(\<And>r. run_le r (f_run r)) \<Longrightarrow> keeps R (upd_run_where U_run f_run)"
    and call_upd_effect: "(\<And>r. effect_le r (f_effect r)) \<Longrightarrow> keeps R (upd_effect u_effect f_effect)"
    and call_upd_effect_where: "(\<And>r. effect_le r (f_effect r)) \<Longrightarrow> keeps R (upd_effect_where U_effect f_effect)"
    and call_upd_artifact: "(\<And>r. artifact_le r (f_artifact r)) \<Longrightarrow> keeps R (upd_artifact u_artifact f_artifact)"
    and call_upd_artifact_where: "(\<And>r. artifact_le r (f_artifact r)) \<Longrightarrow> keeps R (upd_artifact_where U_artifact f_artifact)"
    and call_upd_tool_invocation: "(\<And>r. invocation_le r (f_tool_invocation r)) \<Longrightarrow> keeps R (upd_tool_invocation u_tool_invocation f_tool_invocation)"
begin

lemma call_upd_task: "(\<And>r. task_le r (f r)) \<Longrightarrow> keeps R (upd_task k f)"
  by (simp add: keeps_def call_upd_task_at)

lemmas keeps_calls [frame_intro] =
  call_flush call_new_id
  call_add_task call_add_contract call_add_contract_marker call_add_explanation call_add_decision call_add_gate call_add_plan call_add_plan_marker call_add_wu_spec call_add_wu call_add_planner_session call_add_run call_add_exec_marker call_add_plan_run_marker call_add_workspace call_add_manifest call_add_effect call_add_outbox call_add_snapshot call_add_artifact call_add_evidence call_add_profile call_add_run_input call_add_tool_invocation call_add_context_append call_add_message
  call_drop_contract_marker call_drop_exec_marker call_drop_plan_marker call_drop_plan_run_marker
  call_upd_gate call_upd_gate_where call_upd_wu call_upd_wu_where call_upd_planner_session call_upd_planner_session_where call_upd_workspace call_upd_workspace_where call_upd_outbox call_upd_outbox_where
  call_upd_task call_upd_task_where call_upd_contract call_upd_contract_where call_upd_decision call_upd_decision_where call_upd_plan call_upd_plan_where call_upd_run call_upd_run_where call_upd_effect call_upd_effect_where call_upd_artifact call_upd_artifact_where call_upd_tool_invocation

lemma keeps_read [frame_intro]:
  "keeps R (get_task k_task)" "keeps R (select_task P_task)"
  "keeps R (peek_task k_task)"
  "keeps R (stored_task Q_task)"
  "keeps R (get_contract k_contract)" "keeps R (select_contract P_contract)"
  "keeps R (peek_contract k_contract)"
  "keeps R (stored_contract Q_contract)"
  "keeps R (get_contract_marker k_contract_marker)" "keeps R (select_contract_marker P_contract_marker)"
  "keeps R (get_explanation k_explanation)" "keeps R (select_explanation P_explanation)"
  "keeps R (get_decision k_decision)" "keeps R (select_decision P_decision)"
  "keeps R (peek_decision k_decision)"
  "keeps R (get_gate k_gate)" "keeps R (select_gate P_gate)"
  "keeps R (peek_gate k_gate)"
  "keeps R (get_plan k_plan)" "keeps R (select_plan P_plan)"
  "keeps R (stored_plan Q_plan)"
  "keeps R (get_plan_marker k_plan_marker)" "keeps R (select_plan_marker P_plan_marker)"
  "keeps R (get_wu_spec k_wu_spec)" "keeps R (select_wu_spec P_wu_spec)"
  "keeps R (get_wu k_wu)" "keeps R (select_wu P_wu)"
  "keeps R (peek_wu k_wu)"
  "keeps R (get_planner_session k_planner_session)" "keeps R (select_planner_session P_planner_session)"
  "keeps R (peek_planner_session k_planner_session)"
  "keeps R (get_run k_run)" "keeps R (select_run P_run)"
  "keeps R (peek_run k_run)"
  "keeps R (stored_run Q_run)"
  "keeps R (get_exec_marker k_exec_marker)" "keeps R (select_exec_marker P_exec_marker)"
  "keeps R (get_plan_run_marker k_plan_run_marker)" "keeps R (select_plan_run_marker P_plan_run_marker)"
  "keeps R (get_workspace k_workspace)" "keeps R (select_workspace P_workspace)"
  "keeps R (peek_workspace k_workspace)"
  "keeps R (get_manifest k_manifest)" "keeps R (select_manifest P_manifest)"
  "keeps R (get_effect k_effect)" "keeps R (select_effect P_effect)"
  "keeps R (peek_effect k_effect)"
  "keeps R (get_event k_event)" "keeps R (select_event P_event)"
  "keeps R (stored_event Q_event)"
  "keeps R (get_inbox k_inbox)" "keeps R (select_inbox P_inbox)"
  "keeps R (get_outbox k_outbox)" "keeps R (select_outbox P_outbox)"
  "keeps R (peek_outbox k_outbox)"
  "keeps R (stored_outbox Q_outbox)"
  "keeps R (get_idem k_idem)" "keeps R (select_idem P_idem)"
  "keeps R (get_snapshot k_snapshot)" "keeps R (select_snapshot P_snapshot)"
  "keeps R (get_artifact k_artifact)" "keeps R (select_artifact P_artifact)"
  "keeps R (get_evidence k_evidence)" "keeps R (select_evidence P_evidence)"
  "keeps R (get_profile k_profile)" "keeps R (select_profile P_profile)"
  "keeps R (get_run_input k_run_input)" "keeps R (select_run_input P_run_input)"
  "keeps R (get_tool_invocation k_tool_invocation)" "keeps R (select_tool_invocation P_tool_invocation)"
  "keeps R (get_context_append k_context_append)" "keeps R (select_context_append P_context_append)"
  "keeps R (stored_context_append Q_context_append)"
  "keeps R (get_message k_message)" "keeps R (select_message P_message)"
  "keeps R (stored_message Q_message)"
  by (auto intro!: keeps_id simp: andthen_def the_or_def split: option.splits simp del: peek_simps
      simp: peek_task_def peek_contract_def peek_decision_def peek_gate_def peek_wu_def peek_planner_session_def peek_run_def peek_workspace_def peek_effect_def peek_outbox_def)

end

text \<open>The reads change nothing.\<close>

lemma readonly_read [frame_intro]:
  "keeps (=) (get_task k_task)" "keeps (=) (select_task P_task)"
  "keeps (=) (peek_task k_task)"
  "keeps (=) (stored_task Q_task)"
  "keeps (=) (get_contract k_contract)" "keeps (=) (select_contract P_contract)"
  "keeps (=) (peek_contract k_contract)"
  "keeps (=) (stored_contract Q_contract)"
  "keeps (=) (get_contract_marker k_contract_marker)" "keeps (=) (select_contract_marker P_contract_marker)"
  "keeps (=) (get_explanation k_explanation)" "keeps (=) (select_explanation P_explanation)"
  "keeps (=) (get_decision k_decision)" "keeps (=) (select_decision P_decision)"
  "keeps (=) (peek_decision k_decision)"
  "keeps (=) (get_gate k_gate)" "keeps (=) (select_gate P_gate)"
  "keeps (=) (peek_gate k_gate)"
  "keeps (=) (get_plan k_plan)" "keeps (=) (select_plan P_plan)"
  "keeps (=) (stored_plan Q_plan)"
  "keeps (=) (get_plan_marker k_plan_marker)" "keeps (=) (select_plan_marker P_plan_marker)"
  "keeps (=) (get_wu_spec k_wu_spec)" "keeps (=) (select_wu_spec P_wu_spec)"
  "keeps (=) (get_wu k_wu)" "keeps (=) (select_wu P_wu)"
  "keeps (=) (peek_wu k_wu)"
  "keeps (=) (get_planner_session k_planner_session)" "keeps (=) (select_planner_session P_planner_session)"
  "keeps (=) (peek_planner_session k_planner_session)"
  "keeps (=) (get_run k_run)" "keeps (=) (select_run P_run)"
  "keeps (=) (peek_run k_run)"
  "keeps (=) (stored_run Q_run)"
  "keeps (=) (get_exec_marker k_exec_marker)" "keeps (=) (select_exec_marker P_exec_marker)"
  "keeps (=) (get_plan_run_marker k_plan_run_marker)" "keeps (=) (select_plan_run_marker P_plan_run_marker)"
  "keeps (=) (get_workspace k_workspace)" "keeps (=) (select_workspace P_workspace)"
  "keeps (=) (peek_workspace k_workspace)"
  "keeps (=) (get_manifest k_manifest)" "keeps (=) (select_manifest P_manifest)"
  "keeps (=) (get_effect k_effect)" "keeps (=) (select_effect P_effect)"
  "keeps (=) (peek_effect k_effect)"
  "keeps (=) (get_event k_event)" "keeps (=) (select_event P_event)"
  "keeps (=) (stored_event Q_event)"
  "keeps (=) (get_inbox k_inbox)" "keeps (=) (select_inbox P_inbox)"
  "keeps (=) (get_outbox k_outbox)" "keeps (=) (select_outbox P_outbox)"
  "keeps (=) (peek_outbox k_outbox)"
  "keeps (=) (stored_outbox Q_outbox)"
  "keeps (=) (get_idem k_idem)" "keeps (=) (select_idem P_idem)"
  "keeps (=) (get_snapshot k_snapshot)" "keeps (=) (select_snapshot P_snapshot)"
  "keeps (=) (get_artifact k_artifact)" "keeps (=) (select_artifact P_artifact)"
  "keeps (=) (get_evidence k_evidence)" "keeps (=) (select_evidence P_evidence)"
  "keeps (=) (get_profile k_profile)" "keeps (=) (select_profile P_profile)"
  "keeps (=) (get_run_input k_run_input)" "keeps (=) (select_run_input P_run_input)"
  "keeps (=) (get_tool_invocation k_tool_invocation)" "keeps (=) (select_tool_invocation P_tool_invocation)"
  "keeps (=) (get_context_append k_context_append)" "keeps (=) (select_context_append P_context_append)"
  "keeps (=) (stored_context_append Q_context_append)"
  "keeps (=) (get_message k_message)" "keeps (=) (select_message P_message)"
  "keeps (=) (stored_message Q_message)"
  by (auto intro!: readonly.keeps_id simp: andthen_def the_or_def split: option.splits simp del: peek_simps
      simp: peek_task_def peek_contract_def peek_decision_def peek_gate_def peek_wu_def peek_planner_session_def peek_run_def peek_workspace_def peek_effect_def peek_outbox_def)

text \<open>The history of theory \<open>Frame\<close> is such a frame.\<close>

interpretation history_store: store_frame history_le
  by unfold_locales
    (auto simp: keeps_def flush_def history_le_refl history_le_flush_all
      intro: history_le_refl history_le_trans,
     auto simp: history_le_def tbl_le_refl tbl_le_add tbl_le_upd_at tbl_le_upd_where)

lemma history_keeps_entry [frame_intro]:
  "keeps history_le (add_event r_event)"
  "keeps history_le (add_inbox r_inbox)" "keeps history_le (add_idem r_idem)"
  "keeps history_le (upd_idem u_idem f_idem)" "keeps history_le (upd_idem_where U_idem f_idem)"
  by (simp_all add: keeps_def history_le_def tbl_le_refl tbl_le_add)

end
