(* ===== verification/Samples.thy ===== *)
theory Samples
  imports Store
begin

text \<open>
  A concrete configuration on which the properties' witnesses are evaluated: an environment with
  a short digest, numbered ids, no live process and an idle external system; a Human owner, and
  the runtime credential of a Run.
\<close>

definition sample_env :: env where
  "sample_env = \<lparr>sha = (\<lambda>x. show_nat (length x)), hex16 = show_nat,
    agent_alive = (\<lambda>_. False), agent_writer = (\<lambda>_. False),
    agent_start = (\<lambda>_. Inr (JObj [])), agent_stop = (\<lambda>_ _. Inr (JObj [])),
    ext_query = (\<lambda>_ _. JNull), ext_dispatch = (\<lambda>_. Inl OSError),
    workspace_root = None, file_size = (\<lambda>_ _. None), ws_dir = (\<lambda>_. False),
    ws_read = (\<lambda>_ _ _. Inl OSError), store_get = None, container_running = (\<lambda>_. False)\<rparr>"

definition sample_human :: AuthContext where
  "sample_human = \<lparr>principal_id = ''p'', actor_id = ''u'', actor_type = HUMAN,
    auth_context_id = ''a'', scopes = [], bound_task_id = None, bound_run_id = None,
    bound_fencing_epoch = None, bound_grant_epoch = None\<rparr>"

definition sample_runtime :: "string \<Rightarrow> string \<Rightarrow> AuthContext" where
  "sample_runtime tid rid = \<lparr>principal_id = ''p'', actor_id = ''local:'' @ rid, actor_type = INTERNAL,
    auth_context_id = ''b'', scopes = [], bound_task_id = Some tid, bound_run_id = Some rid,
    bound_fencing_epoch = Some 1, bound_grant_epoch = Some 0\<rparr>"

text \<open>A database of one Task in a given state, with an active contract.\<close>

definition sample_task :: "TaskState \<Rightarrow> TaskRow" where
  "sample_task st = \<lparr>tk_task_id = ''t'', tk_principal_id = ''p'', tk_intent_ref = None, tk_title = ''x'',
    tk_state = st, tk_state_reason = None, tk_state_revision = 3, tk_contract_version = Some 1,
    tk_plan_version = None, tk_active_planner_session_id = None, tk_resume_point = None,
    tk_final_result_refs = None, tk_cancel_intent = False, tk_pause_intent = False,
    tk_revoke_epoch = 0, tk_model_calls_used = 0, tk_model_call_limit = 5,
    tk_create_idempotency_key = None, tk_created_at = 0, tk_updated_at = 0\<rparr>"

definition sample_contract :: ContractRow where
  "sample_contract = \<lparr>ct_task_id = ''t'', ct_contract_version = 1, ct_supersedes_version = None,
    ct_content_hash = ''h'', ct_content_json = JObj [(''acceptance_criteria'',
      JList [JObj [(''criterion_id'', JStr ''c1'')]])], ct_status = C_ACTIVE, ct_approved_by = None,
    ct_approved_at = None, ct_created_at = 0\<rparr>"

definition sample_db :: "TaskState \<Rightarrow> sess" where
  "sample_db st = init_sess\<lparr>tasks := t_of [sample_task st], contracts := t_of [sample_contract],
    contract_markers := t_of [\<lparr>acm_task_id = ''t'', acm_contract_version = 1\<rparr>]\<rparr>"

text \<open>Single rows, to be placed in a database of their own.\<close>

definition sample_unit :: "WorkUnitStatus \<Rightarrow> string option \<Rightarrow> WorkUnitExecutionRow" where
  "sample_unit st active = \<lparr>wu_work_unit_id = ''w'', wu_task_id = ''t'', wu_spec_version = 1, wu_status = st,
    wu_active_run_id = active, wu_attempt_count = 1, wu_next_retry_at = None, wu_selected_result_ref = None,
    wu_blocked_reason = None, wu_selected_verdict = None, wu_verified_artifact_hash = None\<rparr>"

definition sample_run :: "AgentRunStatus \<Rightarrow> AgentRunRow" where
  "sample_run st = \<lparr>ar_run_id = ''r'', ar_task_id = ''t'', ar_assignment_kind = EXECUTE,
    ar_planner_session_id = None, ar_work_unit_id = Some ''w'', ar_work_unit_spec_version = Some 1,
    ar_attempt_no = 1, ar_agent_instance_id = Some ''local:r'', ar_profile_id = ''fake'',
    ar_profile_version = 1, ar_contract_version = 1, ar_plan_version = None,
    ar_context_manifest_id = None, ar_workspace_id = Some ''ws'', ar_status = st,
    ar_terminal_reason = None, ar_fencing_epoch = 1, ar_grant_epoch = 0, ar_lease_expires_at = None,
    ar_last_heartbeat_at = None, ar_started_at = None, ar_finished_at = None,
    ar_resumed_from_run_id = None, ar_result_ref = None, ar_result_json = None, ar_error_class = None,
    ar_late_arrival = False, ar_sandbox_container_id = None, ar_sandbox_exit_unconfirmed = False\<rparr>"

definition sample_workspace :: "string option \<Rightarrow> bool \<Rightarrow> WorkspaceRow" where
  "sample_workspace owner writer = \<lparr>ws_workspace_id = ''ws'', ws_task_id = ''t'', ws_work_unit_id = ''w'',
    ws_kind = ''dedicated'', ws_state = (if owner = None then READY else LOCKED), ws_owner_run_id = owner,
    ws_fencing_epoch = 1, ws_writer_alive = writer\<rparr>"

definition sample_effect :: "SideEffectState \<Rightarrow> SideEffectRow" where
  "sample_effect st = \<lparr>se_effect_id = ''e'', se_task_id = ''t'', se_logical_action_key = ''k'',
    se_origin_work_unit_id = None, se_request_run_id = None, se_action_type = ''external.write'',
    se_target_ref = ''x'', se_parameters_hash = ''h'', se_action_digest = ''g'', se_parameters_json = JObj [],
    se_contract_version = 1, se_authorization_ref = None, se_expires_at = None,
    se_external_idempotency_key = ''ext'', se_provider_operation_id = None, se_state = st,
    se_dispatch_attempts = 1, se_receipt_json = None, se_last_error = None,
    se_supports_idempotent_query = True, se_created_at = 0\<rparr>"

definition sample_outbox :: "string \<Rightarrow> dict \<Rightarrow> OutboxStatus \<Rightarrow> OutboxRow" where
  "sample_outbox ct payload st = \<lparr>ob_outbox_id = ''o'', ob_task_id = ''t'', ob_command_type = ct,
    ob_payload_json = JObj payload, ob_status = st, ob_revoke_epoch = 0, ob_created_at = 0,
    ob_leased_until = None, ob_acked_at = None\<rparr>"

definition sample_decision :: "DecisionKind \<Rightarrow> DecisionRow" where
  "sample_decision kind = \<lparr>de_decision_id = ''d'', de_task_id = ''t'', de_decision_kind = kind,
    de_target_ref = ''x'', de_target_version = 1, de_target_hash = ''h'', de_contract_version = Some 1,
    de_explanation_ref = None, de_explanation_hash = None, de_parameters_hash = None,
    de_result_snapshot_ref = Some ''s'', de_status = D_PENDING, de_choice = None,
    de_decided_by_actor = None, de_decided_by_principal = None, de_decided_at = None,
    de_created_at = 0, de_expires_at = 10, de_gate_lifecycle = OPEN, de_payload_json = None\<rparr>"

definition sample_gate :: GateRow where
  "sample_gate = \<lparr>ga_gate_id = ''g'', ga_task_id = ''t'', ga_decision_id = ''d'', ga_reason = ''x'',
    ga_lifecycle = OPEN, ga_created_at = 0, ga_resolved_at = None\<rparr>"

text \<open>A Task that waits for a decision of the given kind; a snapshot that satisfies its contract.\<close>

definition sample_waiting :: "DecisionKind \<Rightarrow> sess" where
  "sample_waiting kind = (sample_db WAITING_HUMAN)\<lparr>decisions := t_of [sample_decision kind],
    gates := t_of [sample_gate],
    snapshots := t_of [\<lparr>rs_result_snapshot_id = ''s'', rs_task_id = ''t'', rs_contract_version = 1,
      rs_plan_version = None, rs_content_hash = ''h'', rs_content_json = JObj [(''evidence'',
        JList [JObj [(''criterion_id'', JStr ''c1''), (''artifact_hash'', JStr ''a''),
          (''verdict'', JStr ''PASS'')]])], rs_created_at = 0\<rparr>]\<rparr>"

text \<open>A Task with one Work Unit that one Run executes in its workspace.\<close>

definition sample_running :: "AgentRunStatus \<Rightarrow> sess" where
  "sample_running st = (sample_db EXECUTING)\<lparr>wus := t_of [sample_unit W_RUNNING (Some ''r'')],
    runs := t_of [sample_run st], workspaces := t_of [sample_workspace (Some ''r'') True],
    exec_markers := t_of [\<lparr>aem_work_unit_id = ''w'', aem_run_id = ''r''\<rparr>]\<rparr>"

end
