(* ===== verification/Guards.thy ===== *)
theory Guards
  imports Transitions
begin

text \<open>
  \<open>domain/guards.py\<close>: who may call which operation, and when a Run may be dispatched, an
  external effect sent, a Task completed. A guard returns \<open>Inr ()\<close> or the exception it raises.
\<close>

subsection \<open>Operation sets\<close>

definition HUMAN_ONLY_OPS :: "string list" where
  "HUMAN_ONLY_OPS = [''approve_contract'', ''approve_side_effect'', ''resolve_decision'',
     ''accept_result'', ''resume_task'', ''apply_contract_delta'']"

definition INTERRUPT_OPS :: "string list" where
  "INTERRUPT_OPS = [''pause_task'', ''cancel_task'']"

definition INTERNAL_ONLY_OPS :: "string list" where
  "INTERNAL_ONLY_OPS = [''submit_result'', ''set_writer_alive'', ''register_sandbox_identity'',
     ''heartbeat'', ''publish_artifact'', ''context_append'', ''record_model_usage'']"

definition EXIT_CONFIRM_OPS :: "string list" where
  "EXIT_CONFIRM_OPS = [''confirm_run_exit'']"

definition HUMAN_TASK_ORCHESTRATION_OPS :: "string list" where
  "HUMAN_TASK_ORCHESTRATION_OPS = [''dispatch_ready_runs'', ''activate_plan'',
     ''activate_minimal_plan'', ''dispatch_planner_run'', ''replace_planner_generation'',
     ''request_repair_plan'', ''close_planner_session'', ''request_spawn'']"

definition PLANNER_BOUND_OPS :: "string list" where
  "PLANNER_BOUND_OPS = [''submit_plan_proposal'', ''advance_planner_checkpoint'']"

definition HUMAN_DECISION_KINDS :: "DecisionKind list" where
  "HUMAN_DECISION_KINDS = [CONTRACT_APPROVAL, CONTRACT_DELTA, SIDE_EFFECT_APPROVAL, FINAL_ACCEPTANCE]"

subsection \<open>Actor guards\<close>

definition require_human :: "AuthContext \<Rightarrow> exn + unit" where
  "require_human auth = (if actor_type auth \<noteq> HUMAN then Inl denied else Inr ())"

definition require_internal :: "AuthContext \<Rightarrow> exn + unit" where
  "require_internal auth = (if actor_type auth \<noteq> INTERNAL then Inl denied else Inr ())"

definition require_interrupt_scope :: "AuthContext \<Rightarrow> exn + unit" where
  "require_interrupt_scope auth =
    (if is_human auth then Inr ()
     else if \<not> has_scope auth ''task:interrupt'' then Inl denied else Inr ())"

definition require_exit_confirm_actor :: "AuthContext \<Rightarrow> exn + unit" where
  "require_exit_confirm_actor auth =
    (if actor_type auth \<notin> {HUMAN, INTERNAL} then Inl denied else Inr ())"

definition guard_operation :: "AuthContext \<Rightarrow> string \<Rightarrow> exn + unit" where
  "guard_operation auth operation =
    (if operation \<in> set HUMAN_ONLY_OPS then require_human auth
     else if operation \<in> set HUMAN_TASK_ORCHESTRATION_OPS then require_human auth
     else if operation \<in> set INTERRUPT_OPS then require_interrupt_scope auth
     else if operation \<in> set INTERNAL_ONLY_OPS then require_internal auth
     else if operation \<in> set EXIT_CONFIRM_OPS then require_exit_confirm_actor auth
     else if operation \<in> set PLANNER_BOUND_OPS then
       (if actor_type auth \<notin> {HUMAN, INTERNAL} then Inl denied else Inr ())
     else Inr ())"

definition guard_human_decision :: "AuthContext \<Rightarrow> DecisionKind \<Rightarrow> exn + unit" where
  "guard_human_decision auth kind =
    (if kind \<in> set HUMAN_DECISION_KINDS then require_human auth else Inr ())"

subsection \<open>State guards\<close>

definition guard_dispatch :: "TaskState \<Rightarrow> bool \<Rightarrow> bool \<Rightarrow> bool \<Rightarrow> bool \<Rightarrow> exn + unit" where
  "guard_dispatch task_state has_active_contract has_blocking_gate cancel_intent pause_intent =
    (if \<not> can_dispatch_business_run task_state then Inl (PreconditionError ''dispatch_blocked_state'')
     else if \<not> has_active_contract then Inl (PreconditionError ''no_active_contract'')
     else if has_blocking_gate then Inl (PreconditionError ''dispatch_frozen_gate'')
     else if cancel_intent then Inl (PreconditionError ''dispatch_frozen_cancel'')
     else if pause_intent then Inl (PreconditionError ''dispatch_frozen_pause'')
     else Inr ())"

definition guard_side_effect_send ::
    "TaskState \<Rightarrow> bool \<Rightarrow> bool \<Rightarrow> bool \<Rightarrow> bool \<Rightarrow> int option \<Rightarrow> int option \<Rightarrow> bool \<Rightarrow>
     SideEffectState \<Rightarrow> SideEffectState list \<Rightarrow> exn + unit" where
  "guard_side_effect_send task_state cancel_intent pause_intent has_blocking_gate
      has_active_contract effect_contract_version active_contract_version approval_expired
      effect_state allowed_states =
    (if cancel_intent \<or> task_state = CANCELLING then Inl (PreconditionError ''dispatch_frozen_cancel'')
     else if pause_intent \<or> task_state \<in> {PAUSING, PAUSED} then
       Inl (PreconditionError ''dispatch_frozen_pause'')
     else if is_terminal_task task_state then Inl (PreconditionError ''dispatch_blocked_state'')
     else if has_blocking_gate then Inl (PreconditionError ''dispatch_frozen_gate'')
     else if \<not> has_active_contract \<or> active_contract_version = None then
       Inl (PreconditionError ''no_active_contract'')
     else if effect_contract_version \<noteq> None \<and> effect_contract_version \<noteq> active_contract_version then
       Inl (PreconditionError ''contract_replaced'')
     else if approval_expired then Inl (PreconditionError ''approval_expired'')
     else if effect_state \<notin> set allowed_states then Inl (PreconditionError ''not_authorized'')
     else Inr ())"

definition guard_final_complete :: "TaskState \<Rightarrow> bool \<Rightarrow> exn + unit" where
  "guard_final_complete task_state has_acceptance =
    (if is_terminal_task task_state \<and> task_state \<noteq> COMPLETED then
       Inl (PreconditionError ''already_terminal'')
     else if \<not> has_acceptance then Inl (PreconditionError ''acceptance_required'')
     else Inr ())"

definition guard_decision_kind_human :: "DecisionKind \<Rightarrow> bool" where
  "guard_decision_kind_human kind \<longleftrightarrow> kind \<in> set HUMAN_DECISION_KINDS"

subsection \<open>What the guards let through\<close>

text \<open>What each actor may call: the sets of operations closed to it.\<close>

definition closed_to :: "ActorType \<Rightarrow> bool \<Rightarrow> string set" where
  "closed_to actor interrupt_scope =
    (case actor of
       HUMAN \<Rightarrow> set INTERNAL_ONLY_OPS
     | INTERNAL \<Rightarrow> set HUMAN_ONLY_OPS \<union> set HUMAN_TASK_ORCHESTRATION_OPS
         \<union> (if interrupt_scope then {} else set INTERRUPT_OPS)
     | USER_AGENT \<Rightarrow> set HUMAN_ONLY_OPS \<union> set HUMAN_TASK_ORCHESTRATION_OPS \<union> set INTERNAL_ONLY_OPS
         \<union> set EXIT_CONFIRM_OPS \<union> set PLANNER_BOUND_OPS
         \<union> (if interrupt_scope then {} else set INTERRUPT_OPS))"

lemma ops_disjoint:
  "set INTERNAL_ONLY_OPS \<inter> (set HUMAN_ONLY_OPS \<union> set HUMAN_TASK_ORCHESTRATION_OPS \<union> set INTERRUPT_OPS
     \<union> set EXIT_CONFIRM_OPS \<union> set PLANNER_BOUND_OPS) = {}"
  "set INTERRUPT_OPS \<inter> (set HUMAN_ONLY_OPS \<union> set HUMAN_TASK_ORCHESTRATION_OPS
     \<union> set EXIT_CONFIRM_OPS \<union> set PLANNER_BOUND_OPS) = {}"
  by (simp_all add: INTERNAL_ONLY_OPS_def HUMAN_ONLY_OPS_def HUMAN_TASK_ORCHESTRATION_OPS_def
      INTERRUPT_OPS_def EXIT_CONFIRM_OPS_def PLANNER_BOUND_OPS_def)

text \<open>
  The operation guard refuses exactly the operations closed to the actor, always as an
  authorization error: runtime credentials cannot approve or orchestrate, user agents cannot
  write as a Run, and a pause or cancel from a non-human needs the interrupt scope.
\<close>

theorem guard_operation_closed:
  "guard_operation auth operation =
    (if operation \<in> closed_to (actor_type auth) (''task:interrupt'' \<in> set (scopes auth))
     then Inl denied else Inr ())"
  using ops_disjoint
  by (cases "actor_type auth")
    (auto simp: guard_operation_def closed_to_def require_human_def require_internal_def
      require_interrupt_scope_def require_exit_confirm_actor_def is_human_def has_scope_def)

lemma guard_dispatch_ok [simp]:
  "guard_dispatch st hc hg ci pi = Inr () \<longleftrightarrow>
    st \<in> {PLANNING, EXECUTING, VERIFYING} \<and> hc \<and> \<not> hg \<and> \<not> ci \<and> \<not> pi"
  by (auto simp: guard_dispatch_def can_dispatch_cases)

lemma guard_side_effect_send_ok:
  "guard_side_effect_send st ci pi hg hc ecv acv ex es allowed = Inr () \<longleftrightarrow>
    \<not> ci \<and> \<not> pi \<and> st \<notin> {CANCELLING, PAUSING, PAUSED} \<and> \<not> is_terminal_task st \<and> \<not> hg \<and> hc
    \<and> acv \<noteq> None \<and> (ecv = None \<or> ecv = acv) \<and> \<not> ex \<and> es \<in> set allowed"
  by (auto simp: guard_side_effect_send_def)

lemma guard_side_effect_send_error:
  "guard_side_effect_send st ci pi hg hc ecv acv ex es allowed = Inl e \<Longrightarrow> \<exists>c. e = PreconditionError c"
  by (auto simp: guard_side_effect_send_def split: if_splits)

end
