(* ===== verification/Helpers.thy ===== *)
theory Helpers
  imports Samples Guards
begin

text \<open>
  The private helpers of \<open>ApplicationService\<close> (\<open>application/service.py\<close>, section "Helpers"):
  events, Task state, occupancy of workspaces and work units, fencing of uncertain starts,
  recovery of a lost Run, gates and the active contract. A row object is passed by its key and
  read again where the code reads it after a write.
\<close>

subsection \<open>Reading payloads\<close>

text \<open>\<open>payload[k]\<close>\<close>

definition need :: "dict \<Rightarrow> string \<Rightarrow> json tx" where
  "need payload k = the_or (KeyError k) (map_of payload k)"

text \<open>\<open>session.get(Model, v)\<close> for a payload value: identifiers are strings, so another value finds no row.\<close>

definition by_key :: "(string \<Rightarrow> 'r option tx) \<Rightarrow> json \<Rightarrow> 'r option tx" where
  "by_key get v = (case v of JStr k \<Rightarrow> get k | _ \<Rightarrow> ret None)"

text \<open>\<open>int(v)\<close> where the code lets the error escape.\<close>

definition need_int :: "json \<Rightarrow> int tx" where
  "need_int v = the_or ValueError (py_int v)"

text \<open>\<open>if x: ...\<close> on an optional identifier.\<close>

definition is_set :: "string option \<Rightarrow> bool" where
  "is_set v = (case v of None \<Rightarrow> False | Some k \<Rightarrow> k \<noteq> [])"

definition when_set :: "string option \<Rightarrow> (string \<Rightarrow> unit tx) \<Rightarrow> unit tx" where
  "when_set v body = (case v of None \<Rightarrow> ret () | Some k \<Rightarrow> only_if (k \<noteq> []) (body k))"

definition get_opt :: "(string \<Rightarrow> 'r option tx) \<Rightarrow> string option \<Rightarrow> 'r option tx" where
  "get_opt get v = (case v of None \<Rightarrow> ret None | Some k \<Rightarrow> if k = [] then ret None else get k)"

text \<open>\<open>x or d\<close> on an optional string.\<close>

definition or_else :: "string option \<Rightarrow> string \<Rightarrow> string" where
  "or_else v d = (case v of None \<Rightarrow> d | Some k \<Rightarrow> if k = [] then d else k)"

text \<open>Iterating over a value, and calling \<open>.get\<close> on it.\<close>

definition elems :: "json \<Rightarrow> json list tx" where
  "elems v = the_or ValueError (py_list v)"

definition as_obj :: "json \<Rightarrow> dict tx" where
  "as_obj v = (case v of JObj ps \<Rightarrow> ret ps | _ \<Rightarrow> raise ValueError)"

text \<open>\<open>d.get(k, default)\<close>, and a value put into a nullable text column.\<close>

definition dget_or :: "dict \<Rightarrow> string \<Rightarrow> json \<Rightarrow> json" where
  "dget_or d k v = (case map_of d k of None \<Rightarrow> v | Some x \<Rightarrow> x)"

definition opt_str :: "json \<Rightarrow> string option" where
  "opt_str v = (if v = JNull then None else Some (py_str v))"

lemma need_simps [simp, tx_eval]:
  "map_of payload k = Some v \<Longrightarrow> need payload k s = (Inr v, s)"
  "map_of payload k = None \<Longrightarrow> need payload k s = (Inl (KeyError k), s)"
  by (simp_all add: need_def)

lemma need_Inr_iff [simp]: "need payload k s = (Inr v, t) \<longleftrightarrow> map_of payload k = Some v \<and> t = s"
  by (simp add: need_def)

lemma need_int_Inr_iff [simp]: "need_int v s = (Inr i, t) \<longleftrightarrow> py_int v = Some i \<and> t = s"
  by (simp add: need_int_def)

lemma by_key_simps [simp]:
  "by_key g (JStr k) = g k" "by_key g JNull = ret None" "by_key g (JInt i) = ret None"
  "by_key g (JBool b) = ret None" "by_key g (JList l) = ret None" "by_key g (JObj d) = ret None"
  by (simp_all add: by_key_def)

lemma is_set_simps [simp]: "\<not> is_set None" "is_set (Some k) \<longleftrightarrow> k \<noteq> []"
  by (simp_all add: is_set_def)

subsection \<open>Tasks and events\<close>

definition svc_get_task :: "json \<Rightarrow> TaskRow tx" where
  "svc_get_task task_id =
    andthen (by_key get_task task_id) (\<lambda>task.
    the_or (NotFoundError ''task_not_found'') task)"

definition assert_task_principal :: "AuthContext \<Rightarrow> TaskRow \<Rightarrow> unit tx" where
  "assert_task_principal auth task = ensure (principal_id auth = tk_principal_id task) denied"

definition next_event_seq :: "string \<Rightarrow> int tx" where
  "next_event_seq task_id =
    andthen (stored_event (\<lambda>e. ev_task_id e = task_id)) (\<lambda>rows.
    ret (next_seq (map ev_sequence_no rows)))"

definition append_event :: "string \<Rightarrow> string \<Rightarrow> string option \<Rightarrow> dict \<Rightarrow> unit tx" where
  "append_event task_id event_type auth_actor payload =
    seq flush (
    andthen now (\<lambda>ts.
    andthen (next_event_seq task_id) (\<lambda>seq_no.
    add_event \<lparr> ev_task_id = task_id, ev_sequence_no = seq_no, ev_event_type = event_type,
       ev_actor_id = auth_actor, ev_payload_json = JObj payload, ev_occurred_at = ts,
       ev_received_at = ts \<rparr>)))"

definition set_task_state :: "string \<Rightarrow> string \<Rightarrow> string option \<Rightarrow> unit tx" where
  "set_task_state task_id event reason =
    andthen (peek_task task_id) (\<lambda>task.
    andthen (lift_exn (transition_task (tk_state task) event)) (\<lambda>new_state.
    andthen now (\<lambda>ts.
    upd_task task_id (\<lambda>t. t\<lparr> tk_state := new_state, tk_state_reason := reason,
       tk_state_revision := tk_state_revision t + 1, tk_updated_at := ts \<rparr>))))"

text \<open>A state change that succeeds took a transition of the table and wrote the Task's row.\<close>

lemma set_task_state_Inr:
  assumes "set_task_state tid e reason s = (Inr (), t)"
  shows "\<exists>task st. t_peek tk_task_id tid (tasks s) = Some task \<and> transition_task (tk_state task) e = Inr st
    \<and> t = s\<lparr> tasks := t_upd tk_task_id tid (\<lambda>x. x\<lparr> tk_state := st, tk_state_reason := reason,
         tk_state_revision := tk_state_revision x + 1, tk_updated_at := clock_now s \<rparr>) (tasks s) \<rparr>"
  using assms by (auto simp: set_task_state_def andthen_Inr_iff)

lemma svc_get_task_Inr:
  "svc_get_task v s = (Inr task, t) \<longleftrightarrow>
    (\<exists>k. v = JStr k \<and> t_get tk_task_id k (tasks s) = Some task \<and> t = s)"
  by (cases v) (auto simp: svc_get_task_def andthen_Inr_iff)

lemma append_event_Inr:
  "append_event tid et actor p s = (Inr (), t) \<Longrightarrow>
    (\<exists>ev. t = (flush_all s)\<lparr> events := t_add ev (events (flush_all s)) \<rparr>
      \<and> ev_task_id ev = tid \<and> ev_event_type ev = et)"
  by (auto simp: append_event_def next_event_seq_def andthen_Inr_iff seq_Inr_iff flush_Inr_iff)

subsection \<open>Gates and contracts\<close>

definition gate_open :: "string \<Rightarrow> GateRow \<Rightarrow> bool" where
  "gate_open task_id g \<longleftrightarrow>
    ga_task_id g = task_id \<and> ga_lifecycle g \<in> {OPEN, APPROVED_PENDING_APPLY}"

definition has_blocking_gate :: "string \<Rightarrow> bool tx" where
  "has_blocking_gate task_id =
    seq flush (
    andthen (select_gate (gate_open task_id)) (\<lambda>open_gates.
    ret (length open_gates > 0)))"

definition other_blocking_gates :: "string \<Rightarrow> string option \<Rightarrow> GateRow list tx" where
  "other_blocking_gates task_id exclude_decision_id =
    seq flush (
    andthen (select_gate (gate_open task_id)) (\<lambda>open_gates.
    ret (case exclude_decision_id of
            None \<Rightarrow> open_gates
          | Some d \<Rightarrow> filter (\<lambda>g. ga_decision_id g \<noteq> d) open_gates)))"

text \<open>\<open>.one()\<close>: exactly one row.\<close>

definition one_row :: "'r list \<Rightarrow> 'r tx" where
  "one_row rows = (case rows of [r] \<Rightarrow> ret r | _ \<Rightarrow> raise AssertionError)"

definition active_contract :: "string \<Rightarrow> ContractRow option tx" where
  "active_contract task_id =
    andthen (get_contract_marker task_id) (\<lambda>marker.
    (case marker of
        None \<Rightarrow> ret None
      | Some m \<Rightarrow> andthen (select_contract (\<lambda>c. ct_task_id c = task_id
            \<and> ct_contract_version c = acm_contract_version m)) (\<lambda>rows.
        andthen (one_row rows) (\<lambda>c.
        ret (Some c)))))"

definition run_active :: "AgentRunRow \<Rightarrow> bool" where
  "run_active r \<longleftrightarrow> ar_status r \<in> {R_CREATED, R_RUNNING}"

definition count_active_runs :: "string option \<Rightarrow> int tx" where
  "count_active_runs task_id =
    andthen (stored_run (\<lambda>r. run_active r \<and>
       (case task_id of None \<Rightarrow> True | Some t \<Rightarrow> t = [] \<or> ar_task_id r = t))) (\<lambda>rows.
    ret (int (length rows)))"

definition supersede_pending_acceptance :: "string \<Rightarrow> unit tx" where
  "supersede_pending_acceptance task_id =
    andthen now (\<lambda>ts.
    andthen (select_decision (\<lambda>d. de_task_id d = task_id
       \<and> de_decision_kind d = FINAL_ACCEPTANCE \<and> de_status d = D_PENDING)) (\<lambda>decs.
    each decs (\<lambda>dec. seq (upd_decision (de_decision_id dec) (\<lambda>d. d\<lparr> de_status := D_SUPERSEDED \<rparr>)) (
      upd_gate_where (\<lambda>g. ga_decision_id g = de_decision_id dec)
         (\<lambda>g. g\<lparr> ga_lifecycle := RESOLVED, ga_resolved_at := Some ts \<rparr>)))))"

definition recompute_runnable_state :: "string \<Rightarrow> unit tx" where
  "recompute_runnable_state task_id =
    seq flush (
    andthen (peek_task task_id) (\<lambda>task.
    (if tk_state task \<noteq> WAITING_HUMAN then ret () else andthen (has_blocking_gate task_id) (\<lambda>blocked.
      (if blocked then ret ()
         else if tk_cancel_intent task \<or> is_terminal_task (tk_state task) then ret ()
         else andthen (select_wu (\<lambda>w. wu_task_id w = task_id \<and> wu_status w = W_BLOCKED)) (\<lambda>units.
           seq (each units (\<lambda>w.
             if wu_blocked_reason w \<in> {Some ''paused'', Some ''attempts_exhausted''} then ret ()
             else andthen (lift_exn (transition_work_unit W_BLOCKED ''block.cleared'')) (\<lambda>st.
               upd_wu (wu_work_unit_id w) (\<lambda>x. x\<lparr> wu_status := st, wu_blocked_reason := None,
                 wu_active_run_id := None \<rparr>)))) (
           set_task_state task_id ''decision.resolved'' None)))))))"

subsection \<open>Occupancy\<close>

definition clear_run_occupancy :: "string \<Rightarrow> bool \<Rightarrow> unit tx" where
  "clear_run_occupancy run_id release_workspace =
    andthen (peek_run run_id) (\<lambda>run.
    seq (only_if (ar_assignment_kind run = PLAN) (when_set (ar_planner_session_id run) (\<lambda>sid. andthen (get_plan_run_marker sid) (\<lambda>marker.
      seq (case marker of None \<Rightarrow> ret () | Some m \<Rightarrow>
          only_if (aprm_run_id m = run_id) (drop_plan_run_marker sid)) (
      andthen (get_planner_session sid) (\<lambda>ps.
      (case ps of None \<Rightarrow> ret () | Some p \<Rightarrow>
          only_if (ps_active_run_id p = Some run_id)
            (upd_planner_session sid (\<lambda>x. x\<lparr> ps_active_run_id := None \<rparr>))))))))) (
    seq (when_set (ar_work_unit_id run) (\<lambda>wid. andthen (get_exec_marker wid) (\<lambda>marker.
      seq (case marker of None \<Rightarrow> ret () | Some m \<Rightarrow>
          only_if (aem_run_id m = run_id) (drop_exec_marker wid)) (
      andthen (get_wu wid) (\<lambda>wu.
      (case wu of None \<Rightarrow> ret () | Some w \<Rightarrow>
          only_if (wu_active_run_id w = Some run_id)
            (upd_wu wid (\<lambda>x. x\<lparr> wu_active_run_id := None \<rparr>)))))))) (
    only_if release_workspace (when_set (ar_workspace_id run) (\<lambda>wsid. andthen (get_workspace wsid) (\<lambda>ws.
      (case ws of None \<Rightarrow> ret () | Some w \<Rightarrow>
          only_if (ws_owner_run_id w = Some run_id)
            (if ar_sandbox_exit_unconfirmed run
             then upd_workspace wsid (\<lambda>x. x\<lparr> ws_writer_alive := True, ws_state := QUARANTINED \<rparr>)
             else upd_workspace wsid (\<lambda>x. x\<lparr> ws_writer_alive := False, ws_state := READY,
                    ws_owner_run_id := None \<rparr>)))))))))"

definition release_workspace_after_confirmed_exit :: "string \<Rightarrow> unit tx" where
  "release_workspace_after_confirmed_exit run_id =
    andthen (peek_run run_id) (\<lambda>run.
    (if \<not> is_terminal_run (ar_status run) then ret () else andthen (get_opt get_workspace (ar_workspace_id run)) (\<lambda>ws.
      (case ws of None \<Rightarrow> ret () | Some w \<Rightarrow>
           only_if (ws_owner_run_id w = Some run_id)
             (upd_workspace (ws_workspace_id w) (\<lambda>x. x\<lparr> ws_writer_alive := False,
                ws_state := READY, ws_owner_run_id := None \<rparr>))))))"

definition adapter_may_be_alive :: "env \<Rightarrow> string option \<Rightarrow> bool" where
  "adapter_may_be_alive E run_id =
    (case run_id of None \<Rightarrow> False
     | Some r \<Rightarrow> r \<noteq> [] \<and> (agent_alive E r \<or> agent_writer E r))"

definition keep_start_occupancy :: "string \<Rightarrow> unit tx" where
  "keep_start_occupancy run_id =
    andthen (peek_run run_id) (\<lambda>run.
    when_set (ar_workspace_id run) (\<lambda>wsid. andthen (get_workspace wsid) (\<lambda>ws.
      (case ws of None \<Rightarrow> ret () | Some w \<Rightarrow>
          only_if (ws_owner_run_id w = Some run_id)
            (upd_workspace wsid (\<lambda>x. x\<lparr> ws_writer_alive := True \<rparr>))))))"

subsection \<open>Stopping Runs\<close>

definition writer_indicated :: "env \<Rightarrow> string \<Rightarrow> AgentRunRow \<Rightarrow> bool tx" where
  "writer_indicated E wsid run =
    andthen (get_workspace wsid) (\<lambda>ws.
    ret (case ws of None \<Rightarrow> False | Some w \<Rightarrow>
       ws_owner_run_id w = Some (ar_run_id run)
       \<and> (agent_alive E (ar_run_id run) \<or> agent_writer E (ar_run_id run) \<or> ws_writer_alive w)))"

fun runs_requiring_stop_loop :: "env \<Rightarrow> AgentRunRow list \<Rightarrow> string list \<Rightarrow> string list tx" where
  "runs_requiring_stop_loop E [] selected = ret selected"
| "runs_requiring_stop_loop E (run # rest) selected =
     (if run_active run then runs_requiring_stop_loop E rest (selected @ [ar_run_id run])
      else case ar_workspace_id run of
        None \<Rightarrow> runs_requiring_stop_loop E rest selected
      | Some wsid \<Rightarrow>
          if wsid = [] then runs_requiring_stop_loop E rest selected
          else andthen (writer_indicated E wsid run) (\<lambda>alive.
            runs_requiring_stop_loop E rest (if alive then selected @ [ar_run_id run] else selected)))"

definition runs_requiring_stop :: "env \<Rightarrow> string \<Rightarrow> string list tx" where
  "runs_requiring_stop E task_id =
    andthen (select_run (\<lambda>r. ar_task_id r = task_id)) (\<lambda>rows.
    runs_requiring_stop_loop E rows [])"

definition outbox_row :: "string \<Rightarrow> string \<Rightarrow> string \<Rightarrow> dict \<Rightarrow> int \<Rightarrow> int \<Rightarrow> OutboxRow" where
  "outbox_row outbox_id task_id command_type payload revoke_epoch ts = \<lparr>
     ob_outbox_id = outbox_id, ob_task_id = task_id, ob_command_type = command_type,
     ob_payload_json = JObj payload, ob_status = O_PENDING, ob_revoke_epoch = revoke_epoch,
     ob_created_at = ts, ob_leased_until = None, ob_acked_at = None \<rparr>"

definition enqueue_outbox :: "env \<Rightarrow> string \<Rightarrow> string \<Rightarrow> dict \<Rightarrow> unit tx" where
  "enqueue_outbox E task_id command_type payload =
    andthen now (\<lambda>ts.
    andthen (peek_task task_id) (\<lambda>task.
    andthen (new_id E ''ob'') (\<lambda>oid.
    add_outbox (outbox_row oid task_id command_type payload (tk_revoke_epoch task) ts))))"

definition enqueue_stops_for_runs :: "env \<Rightarrow> string \<Rightarrow> string list \<Rightarrow> string \<Rightarrow> unit tx" where
  "enqueue_stops_for_runs E task_id run_ids reason =
    andthen (select_outbox (\<lambda>ob. ob_task_id ob = task_id \<and> ob_command_type ob = ''agent.stop''
       \<and> ob_status ob \<in> {O_PENDING, O_IN_FLIGHT})) (\<lambda>rows.
    let pending_stops = map (\<lambda>ob. jget (ob_payload_json ob) ''run_id'') rows in
    each run_ids (\<lambda>run_id. only_if (JStr run_id \<notin> set pending_stops)
       (enqueue_outbox E task_id ''agent.stop''
         [(''run_id'', JStr run_id), (''reason'', JStr reason)])))"

definition enqueue_stops :: "env \<Rightarrow> string \<Rightarrow> string \<Rightarrow> unit tx" where
  "enqueue_stops E task_id reason =
    andthen (runs_requiring_stop E task_id) (\<lambda>run_ids.
    enqueue_stops_for_runs E task_id run_ids reason)"

definition fence_claimed_agent_start :: "env \<Rightarrow> string \<Rightarrow> string option \<Rightarrow> string \<Rightarrow> string tx" where
  "fence_claimed_agent_start E outbox_id run_id reason =
    seq (upd_outbox outbox_id (\<lambda>x. x\<lparr> ob_status := O_DEAD, ob_leased_until := None \<rparr>)) (
    andthen (peek_outbox outbox_id) (\<lambda>row.
    andthen (get_opt get_task (Some (ob_task_id row))) (\<lambda>task.
    seq (case task of None \<Rightarrow> ret () | Some t \<Rightarrow>
        upd_outbox outbox_id (\<lambda>x. x\<lparr> ob_revoke_epoch := tk_revoke_epoch t \<rparr>)) (
    seq (case run_id of None \<Rightarrow> ret () | Some r \<Rightarrow> seq (keep_start_occupancy r) (
      (case task of None \<Rightarrow> ret () | Some t \<Rightarrow>
           enqueue_stops_for_runs E (tk_task_id t) [r] reason))) (
    ret (''outbox_fence_start:'' @ outbox_id))))))"

definition fence_uncertain_start :: "env \<Rightarrow> string \<Rightarrow> string \<Rightarrow> string tx" where
  "fence_uncertain_start E outbox_id reason =
    andthen (peek_outbox outbox_id) (\<lambda>row.
    andthen (need (entries (ob_payload_json row)) ''run_id'') (\<lambda>rid.
    andthen (by_key get_run rid) (\<lambda>run.
    fence_claimed_agent_start E outbox_id (map_option ar_run_id run) reason)))"

subsection \<open>Lost Runs\<close>

definition lost_run_recovery_policy :: "bool \<Rightarrow> int \<Rightarrow> int \<Rightarrow> string" where
  "lost_run_recovery_policy has_effect attempts max_attempts =
    (if has_effect then ''BLOCKED''
     else if attempts \<ge> max_attempts then ''BLOCKED''
     else ''RETRY'')"

text \<open>Anything of this Run that may have reached the outside world.\<close>

definition run_had_effect :: "AgentRunRow \<Rightarrow> bool tx" where
  "run_had_effect run =
    andthen (select_tool_invocation (\<lambda>i. ti_run_id i = ar_run_id run
       \<and> ti_tool_name i \<in> {''shell.run'', ''artifact.publish''}
       \<and> ti_decision i = ''ALLOW'' \<and> ti_outcome i = Some ''ok'')) (\<lambda>invs.
    andthen (select_artifact (\<lambda>a. af_run_id a = Some (ar_run_id run) \<and> af_artifact_uri a \<noteq> None)) (\<lambda>arts.
    ret (is_set (ar_result_ref run) \<or> invs \<noteq> [] \<or> arts \<noteq> [])))"

text \<open>Open a blocking gate state on a Task that is neither over nor already waiting.\<close>

definition block_task :: "string \<Rightarrow> string \<Rightarrow> unit tx" where
  "block_task task_id reason =
    andthen (get_task task_id) (\<lambda>task.
    (case task of None \<Rightarrow> ret () | Some t \<Rightarrow>
        only_if (\<not> is_terminal_task (tk_state t) \<and> tk_state t \<noteq> WAITING_HUMAN)
          (set_task_state task_id ''blocking_gate.opened'' (Some reason))))"

definition backoff_index :: "int \<Rightarrow> nat" where
  "backoff_index attempt_count =
    nat (min (max (attempt_count - 1) 0) (int (length (retry_backoff_seconds DEFAULTS)) - 1))"

definition recover_work_unit_after_lost_run :: "string \<Rightarrow> unit tx" where
  "recover_work_unit_after_lost_run run_id =
    andthen (peek_run run_id) (\<lambda>run.
    when_set (ar_work_unit_id run) (\<lambda>wid. andthen (get_wu wid) (\<lambda>wu.
      (case wu of None \<Rightarrow> ret () | Some w \<Rightarrow>
        if wu_status w \<noteq> W_RUNNING then ret ()
        else andthen now (\<lambda>ts.
          andthen (run_had_effect run) (\<lambda>had_effect.
          let decision = lost_run_recovery_policy had_effect (wu_attempt_count w)
            (max_work_unit_attempts DEFAULTS) in
          (if decision = ''BLOCKED'' \<and> had_effect then andthen (lift_exn (transition_work_unit W_RUNNING ''run.blocked'')) (\<lambda>st.
            seq (upd_wu wid (\<lambda>x. x\<lparr> wu_status := st,
               wu_blocked_reason := Some ''lost_run_effect_unknown'', wu_next_retry_at := None \<rparr>)) (
            block_task (ar_task_id run) WR_EXECUTION_UNCERTAIN))
           else if wu_attempt_count w \<ge> max_work_unit_attempts DEFAULTS then andthen (lift_exn (transition_work_unit W_RUNNING ''run.blocked'')) (\<lambda>st.
             seq (upd_wu wid (\<lambda>x. x\<lparr> wu_status := st,
               wu_blocked_reason := Some ''attempts_exhausted'', wu_next_retry_at := None \<rparr>)) (
             block_task (ar_task_id run) WR_EXECUTION_BLOCKED))
           else andthen (lift_exn (transition_work_unit W_RUNNING ''run.retryable_failed'')) (\<lambda>st.
             upd_wu wid (\<lambda>x. x\<lparr> wu_status := st,
               wu_next_retry_at := Some (ts +
                 retry_backoff_seconds DEFAULTS ! backoff_index (wu_attempt_count w)),
               wu_blocked_reason := None \<rparr>)))))))))"

subsection \<open>Live writers\<close>

fun any_live_writer :: "env \<Rightarrow> AgentRunRow list \<Rightarrow> bool tx" where
  "any_live_writer E [] = ret False"
| "any_live_writer E (run # rest) =
     (if run_active run \<and> (agent_alive E (ar_run_id run) \<or> agent_writer E (ar_run_id run))
      then ret True
      else case ar_workspace_id run of
        None \<Rightarrow> any_live_writer E rest
      | Some wsid \<Rightarrow>
          if wsid = [] then any_live_writer E rest
          else andthen (writer_indicated E wsid run) (\<lambda>alive.
            (if alive then ret True else any_live_writer E rest)))"

definition task_has_live_writer :: "env \<Rightarrow> string \<Rightarrow> bool tx" where
  "task_has_live_writer E task_id =
    andthen (select_run (\<lambda>r. ar_task_id r = task_id)) (\<lambda>rows.
    any_live_writer E rows)"

definition assert_no_live_writers :: "env \<Rightarrow> string \<Rightarrow> unit tx" where
  "assert_no_live_writers E task_id =
    andthen (task_has_live_writer E task_id) (\<lambda>alive.
    ensure (\<not> alive) (PreconditionError ''writer_alive''))"

definition guard_side_effect_eligibility ::
    "string \<Rightarrow> string \<Rightarrow> SideEffectState list \<Rightarrow> unit tx" where
  "guard_side_effect_eligibility task_id effect_id allowed_states =
    andthen (active_contract task_id) (\<lambda>contract.
    andthen (peek_effect effect_id) (\<lambda>effect.
    andthen now (\<lambda>ts.
    let expired = (case se_expires_at effect of None \<Rightarrow> False | Some x \<Rightarrow> x < ts) in
    andthen (peek_task task_id) (\<lambda>task.
    andthen (has_blocking_gate task_id) (\<lambda>gate.
    lift_exn (guard_side_effect_send (tk_state task) (tk_cancel_intent task)
       (tk_pause_intent task) gate (contract \<noteq> None) (Some (se_contract_version effect))
       (map_option ct_contract_version contract) expired (se_state effect) allowed_states))))))"

subsection \<open>Helpers that only read\<close>

lemma readonly_payload [frame_intro]:
  "keeps (=) (need payload k)"
  "keeps (=) (need_int v)"
  "keeps (=) (elems v)"
  "keeps (=) (as_obj v)"
  "keeps (=) (one_row rows)"
  "(\<And>k. keeps (=) (g k)) \<Longrightarrow> keeps (=) (by_key g v)"
  "(\<And>k. keeps (=) (g k)) \<Longrightarrow> keeps (=) (get_opt g w)"
  by (auto simp: need_def need_int_def by_key_def elems_def as_obj_def one_row_def get_opt_def
      intro: readonly.keeps_struct split: json.split list.split option.split)

lemma readonly_task [frame_intro]:
  "keeps (=) (svc_get_task v)"
  "keeps (=) (assert_task_principal auth task)"
  "keeps (=) (active_contract task_id)"
  "keeps (=) (count_active_runs o_id)"
  "keeps (=) (run_had_effect run)"
  "keeps (=) (writer_indicated E wsid run)"
  unfolding svc_get_task_def assert_task_principal_def active_contract_def count_active_runs_def
    run_had_effect_def writer_indicated_def
  by (intro readonly.keeps_struct frame_intro)+

lemma readonly_any_live_writer [frame_intro]: "keeps (=) (any_live_writer E rows)"
proof (induction rows)
  case (Cons run rows)
  show ?case unfolding any_live_writer.simps
    by (intro readonly.keeps_struct frame_intro Cons.IH)
qed (simp only: any_live_writer.simps readonly.keeps_struct)

lemma readonly_task_has_live_writer [frame_intro]:
  "keeps (=) (task_has_live_writer E task_id)" "keeps (=) (assert_no_live_writers E task_id)"
  unfolding task_has_live_writer_def assert_no_live_writers_def
  by (intro readonly.keeps_struct frame_intro)+

lemma readonly_runs_requiring_stop [frame_intro]:
  "keeps (=) (runs_requiring_stop_loop E rows sel)" "keeps (=) (runs_requiring_stop E task_id)"
proof -
  show loop: "keeps (=) (runs_requiring_stop_loop E rows sel)" for rows sel
  proof (induction rows arbitrary: sel)
    case (Cons run rows)
    show ?case unfolding runs_requiring_stop_loop.simps
      by (intro readonly.keeps_struct frame_intro Cons.IH)
  qed (simp only: runs_requiring_stop_loop.simps readonly.keeps_struct)
  show "keeps (=) (runs_requiring_stop E task_id)"
    unfolding runs_requiring_stop_def by (intro readonly.keeps_struct frame_intro loop)
qed

lemma flushed_gates:
  "keeps flushed (has_blocking_gate tid)"
  "keeps flushed (guard_side_effect_eligibility tid eid sts)"
  unfolding has_blocking_gate_def guard_side_effect_eligibility_def
  by (intro flushes.keeps_struct flushed_flush flushes.keeps_readonly frame_intro)+

text \<open>Stop commands only add outbox rows.\<close>

definition only_outbox :: "sess \<Rightarrow> sess \<Rightarrow> bool" where
  "only_outbox s t \<longleftrightarrow> (\<exists>obs n. t = s\<lparr> outbox := obs, uid := n \<rparr>)"

interpretation stops: frame only_outbox
proof
  show "only_outbox s s" for s
    unfolding only_outbox_def by (intro exI [of _ "outbox s"] exI [of _ "uid s"]) simp
  fix s t u
  assume "only_outbox s t" and "only_outbox t u"
  then obtain obs n obs' n' where "t = s\<lparr> outbox := obs, uid := n \<rparr>" "u = t\<lparr> outbox := obs', uid := n' \<rparr>"
    by (auto simp: only_outbox_def)
  then have "u = s\<lparr> outbox := obs', uid := n' \<rparr>" by simp
  then show "only_outbox s u" unfolding only_outbox_def by blast
qed

lemma stops_only_outbox: "keeps only_outbox (enqueue_stops_for_runs E tid ids reason)"
    "keeps only_outbox (enqueue_stops E tid reason)" "keeps only_outbox (enqueue_outbox E tid ct p)"
proof -
  have new: "keeps only_outbox (new_id E p)" for p
    unfolding keeps_def only_outbox_def
  proof
    fix s
    have "snd (new_id E p s) = s\<lparr> outbox := outbox s, uid := Suc (uid s) \<rparr>" by (simp add: new_id_def)
    then show "\<exists>obs n. snd (new_id E p s) = s\<lparr> outbox := obs, uid := n \<rparr>" by blast
  qed
  have add: "keeps only_outbox (add_outbox r)" for r
    unfolding keeps_def only_outbox_def
  proof
    fix s
    have "snd (add_outbox r s) = s\<lparr> outbox := t_add r (outbox s), uid := uid s \<rparr>" by (simp add: add_outbox_def)
    then show "\<exists>obs n. snd (add_outbox r s) = s\<lparr> outbox := obs, uid := n \<rparr>" by blast
  qed
  show enqueue: "keeps only_outbox (enqueue_outbox E tid ct p)" for ct p
    unfolding enqueue_outbox_def by (intro stops.keeps_struct new add stops.keeps_readonly frame_intro)
  show for_runs: "keeps only_outbox (enqueue_stops_for_runs E tid ids reason)" for ids
    unfolding enqueue_stops_for_runs_def
    by (intro stops.keeps_struct enqueue stops.keeps_readonly frame_intro)
  show "keeps only_outbox (enqueue_stops E tid reason)"
    unfolding enqueue_stops_def by (intro stops.keeps_struct for_runs stops.keeps_readonly frame_intro)
qed

subsection \<open>The helpers stay in every frame\<close>

text \<open>A frame of the session calls that appending an event keeps too.\<close>

locale service_frame = store_frame R for R +
  assumes call_append_event: "keeps R (append_event task_id event_type actor payload)"
begin

declare call_append_event [frame_intro]

lemma keeps_payload [frame_intro]:
  "keeps R (need payload k)"
  "keeps R (need_int v)"
  "(\<And>k. keeps R (g k)) \<Longrightarrow> keeps R (by_key g v)"
  "(\<And>k. keeps R (g k)) \<Longrightarrow> keeps R (get_opt g w)"
  "(\<And>k. keeps R (b k)) \<Longrightarrow> keeps R (when_set w b)"
  by (auto simp: need_def need_int_def by_key_def get_opt_def when_set_def
      intro: keeps_struct split: json.split option.split)

lemma keeps_elems [frame_intro]: "keeps R (elems v)" "keeps R (as_obj v)"
  by (auto simp: elems_def as_obj_def intro: keeps_struct split: json.split)

lemma keeps_set_task_state [frame_intro]: "keeps R (set_task_state task_id event reason)"
  unfolding keeps_def
proof
  fix s
  show "R s (snd (set_task_state task_id event reason s))"
  proof (cases "t_peek tk_task_id task_id (tasks s)")
    case None
    then show ?thesis by (simp add: set_task_state_def peek_task_def andthen_def R_refl)
  next
    case (Some task)
    show ?thesis
    proof (cases "transition_task (tk_state task) event")
      case (Inl e)
      with Some show ?thesis by (simp add: set_task_state_def R_refl)
    next
      case (Inr q)
      then have "can_become TASK_TRANSITIONS (tk_state task) q"
        unfolding transition_task_def by (rule can_become_step)
      with Some have "R s (s\<lparr> tasks := t_upd tk_task_id task_id (\<lambda>t. t\<lparr> tk_state := q,
          tk_state_reason := reason, tk_state_revision := tk_state_revision t + 1,
          tk_updated_at := clock_now s \<rparr>) (tasks s) \<rparr>)"
        by (intro call_upd_task_at) (simp add: task_le_def)
      with Some Inr show ?thesis by (simp add: set_task_state_def)
    qed
  qed
qed

lemma keeps_one_row [frame_intro]: "keeps R (one_row rows)"
  by (auto simp: one_row_def intro: keeps_struct split: list.split)

lemma keeps_tasks [frame_intro]:
  "keeps R (svc_get_task v)"
  "keeps R (assert_task_principal auth task)"
  "keeps R (next_event_seq task_id)"
  unfolding svc_get_task_def assert_task_principal_def next_event_seq_def
  by (intro keeps_struct frame_intro)+

lemma keeps_gates [frame_intro]:
  "keeps R (has_blocking_gate task_id)"
  "keeps R (other_blocking_gates task_id d)"
  "keeps R (active_contract task_id)"
  "keeps R (count_active_runs o_id)"
  unfolding has_blocking_gate_def other_blocking_gates_def active_contract_def count_active_runs_def
  by (intro keeps_struct frame_intro)+

lemma keeps_supersede_pending_acceptance [frame_intro]:
  "keeps R (supersede_pending_acceptance task_id)"
  unfolding supersede_pending_acceptance_def
  by (intro keeps_struct frame_intro) (simp add: decision_le_def)

lemma keeps_recompute_runnable_state [frame_intro]:
  "keeps R (recompute_runnable_state task_id)"
  unfolding recompute_runnable_state_def by (intro keeps_struct frame_intro)

lemma keeps_occupancy [frame_intro]:
  "keeps R (clear_run_occupancy run_id release)"
  "keeps R (release_workspace_after_confirmed_exit run_id)"
  "keeps R (keep_start_occupancy run_id)"
  unfolding clear_run_occupancy_def release_workspace_after_confirmed_exit_def keep_start_occupancy_def
  by (intro keeps_struct frame_intro)+

lemma keeps_writer_indicated [frame_intro]: "keeps R (writer_indicated E wsid run)"
  unfolding writer_indicated_def by (intro keeps_struct frame_intro)

lemma keeps_runs_requiring_stop_loop [frame_intro]:
  "keeps R (runs_requiring_stop_loop E rows sel)"
proof (induction rows arbitrary: sel)
  case (Cons run rows)
  show ?case unfolding runs_requiring_stop_loop.simps
    by (intro keeps_struct frame_intro Cons.IH)
qed (simp only: runs_requiring_stop_loop.simps keeps_struct)

lemma keeps_any_live_writer [frame_intro]: "keeps R (any_live_writer E rows)"
proof (induction rows)
  case (Cons run rows)
  show ?case unfolding any_live_writer.simps
    by (intro keeps_struct frame_intro Cons.IH)
qed (simp only: any_live_writer.simps keeps_struct)

lemma keeps_stops [frame_intro]:
  "keeps R (runs_requiring_stop E task_id)"
  "keeps R (enqueue_outbox E task_id ct payload)"
  "keeps R (task_has_live_writer E task_id)"
  unfolding runs_requiring_stop_def enqueue_outbox_def task_has_live_writer_def
  by (intro keeps_struct frame_intro)+

lemma keeps_enqueue_stops_for_runs [frame_intro]:
  "keeps R (enqueue_stops_for_runs E task_id run_ids reason)"
  "keeps R (assert_no_live_writers E task_id)"
  unfolding enqueue_stops_for_runs_def assert_no_live_writers_def
  by (intro keeps_struct frame_intro)+

lemma keeps_enqueue_stops [frame_intro]:
  "keeps R (enqueue_stops E task_id reason)"
  "keeps R (fence_claimed_agent_start E oid rid reason)"
  unfolding enqueue_stops_def fence_claimed_agent_start_def
  by (intro keeps_struct frame_intro)+

lemma keeps_lost_run [frame_intro]:
  "keeps R (fence_uncertain_start E oid reason)"
  "keeps R (run_had_effect run)"
  "keeps R (block_task task_id reason)"
  unfolding fence_uncertain_start_def run_had_effect_def block_task_def
  by (intro keeps_struct frame_intro)+

lemma keeps_recover_work_unit_after_lost_run [frame_intro]:
  "keeps R (recover_work_unit_after_lost_run run_id)"
  "keeps R (guard_side_effect_eligibility task_id effect_id allowed)"
  unfolding recover_work_unit_after_lost_run_def guard_side_effect_eligibility_def
  by (intro keeps_struct frame_intro)+

end

interpretation history: service_frame history_le
  by unfold_locales
    (unfold append_event_def next_event_seq_def, intro history_store.keeps_struct frame_intro)

subsection \<open>Recovery of a lost Run\<close>

lemma backoff_index_ok: "backoff_index n < length (retry_backoff_seconds DEFAULTS)"
  by (simp add: backoff_index_def)

lemma block_task_Inr:
  "block_task tid reason s = (Inr (), t) \<Longrightarrow> t = s \<or> (\<exists>rows. t = s\<lparr> tasks := rows \<rparr>)"
  by (auto simp: block_task_def andthen_Inr_iff only_if_def split: option.splits if_splits
      dest!: set_task_state_Inr)

text \<open>
  A lost Run is recovered in exactly one of three ways. If anything of it may have reached the
  outside world, its work unit is BLOCKED as of unknown effect; otherwise, if the attempts are
  exhausted, it is BLOCKED for that; otherwise it becomes PENDING again and may be retried after a
  positive delay taken from the backoff table (the index is always inside the table).
\<close>

theorem lost_run_recovery:
  assumes run: "recover_work_unit_after_lost_run rid s = (Inr (), t)"
    and row: "t_peek ar_run_id rid (runs s) = Some row" "ar_work_unit_id row = Some wid" "wid \<noteq> []"
    and unit: "t_get wu_work_unit_id wid (wus s) = Some w" "wu_status w = W_RUNNING" and clean: "t_clean (wus s)"
  shows "\<exists>had w'. fst (run_had_effect row s) = Inr had \<and> t_peek wu_work_unit_id wid (wus t) = Some w'
    \<and> (if had then wu_status w' = W_BLOCKED \<and> wu_blocked_reason w' = Some ''lost_run_effect_unknown''
          \<and> wu_next_retry_at w' = None
        else if wu_attempt_count w \<ge> max_work_unit_attempts DEFAULTS
        then wu_status w' = W_BLOCKED \<and> wu_blocked_reason w' = Some ''attempts_exhausted''
          \<and> wu_next_retry_at w' = None
        else wu_status w' = W_PENDING \<and> wu_blocked_reason w' = None
          \<and> (\<exists>d \<in> set (retry_backoff_seconds DEFAULTS). 0 < d \<and> wu_next_retry_at w' = Some (clock_now s + d)))"
proof -
  have st: "transition_work_unit W_RUNNING ''run.blocked'' = Inr W_BLOCKED"
    "transition_work_unit W_RUNNING ''run.retryable_failed'' = Inr W_PENDING" by code_simp+
  have peek: "t_peek wu_work_unit_id wid (wus s) = Some w" using unit clean by (simp add: t_peek_clean)
  have delay: "retry_backoff_seconds DEFAULTS ! backoff_index n \<in> set (retry_backoff_seconds DEFAULTS)"
      "0 < retry_backoff_seconds DEFAULTS ! backoff_index n" for n
  proof -
    show "retry_backoff_seconds DEFAULTS ! backoff_index n \<in> set (retry_backoff_seconds DEFAULTS)"
      using backoff_index_ok by (rule nth_mem)
    then show "0 < retry_backoff_seconds DEFAULTS ! backoff_index n" by (auto simp: DEFAULTS_def)
  qed
  obtain had where had: "fst (run_had_effect row s) = Inr had"
    using run row unit unfolding recover_work_unit_after_lost_run_def
    by (clarsimp simp: andthen_Inr_iff when_set_def readonly_iff [OF readonly_task(5)])
  note steps = recover_work_unit_after_lost_run_def andthen_Inr_iff seq_Inr_iff when_set_def
    readonly_iff [OF readonly_task(5)] lost_run_recovery_policy_def Let_def st
  show ?thesis
  proof (cases had)
    case True
    with run row unit had have "t_peek wu_work_unit_id wid (wus t) = Some (w\<lparr> wu_status := W_BLOCKED,
        wu_blocked_reason := Some ''lost_run_effect_unknown'', wu_next_retry_at := None \<rparr>)"
      by (clarsimp simp: steps) (drule block_task_Inr; force simp: t_peek_upd peek)
    with had True show ?thesis by (intro exI [of _ had]) simp
  next
    case False
    show ?thesis
    proof (cases "wu_attempt_count w \<ge> max_work_unit_attempts DEFAULTS")
      case True
      with \<open>\<not> had\<close> run row unit had have "t_peek wu_work_unit_id wid (wus t) = Some (w\<lparr> wu_status := W_BLOCKED,
          wu_blocked_reason := Some ''attempts_exhausted'', wu_next_retry_at := None \<rparr>)"
        by (clarsimp simp: steps) (drule block_task_Inr; force simp: t_peek_upd peek)
      with had True \<open>\<not> had\<close> show ?thesis by (intro exI [of _ had]) simp
    next
      case retry: False
      with \<open>\<not> had\<close> run row unit had have "t_peek wu_work_unit_id wid (wus t) = Some (w\<lparr> wu_status := W_PENDING,
          wu_next_retry_at := Some (clock_now s + retry_backoff_seconds DEFAULTS ! backoff_index (wu_attempt_count w)),
          wu_blocked_reason := None \<rparr>)"
        by (clarsimp simp: steps t_peek_upd peek)
      with had retry \<open>\<not> had\<close> delay [of "wu_attempt_count w"] show ?thesis
        by (intro exI [of _ had]) (simp del: DEFAULTS_simps(10))
    qed
  qed
qed

theorem lost_run_recovery_witness:
  "\<exists>w'. t_peek wu_work_unit_id ''w'' (wus (snd (recover_work_unit_after_lost_run ''r'' (sample_running R_LOST)))) = Some w'
    \<and> wu_status w' = W_PENDING"
proof -
  let ?s = "sample_running R_LOST"
  have run: "recover_work_unit_after_lost_run ''r'' ?s = (Inr (), snd (recover_work_unit_after_lost_run ''r'' ?s))"
    by (rule run_result) code_simp
  have row: "t_peek ar_run_id ''r'' (runs ?s) = Some (sample_run R_LOST)" by code_simp
  have unit: "t_get wu_work_unit_id ''w'' (wus ?s) = Some (sample_unit W_RUNNING (Some ''r''))" by code_simp
  have clean: "t_clean (wus ?s)" by code_simp
  have fields: "ar_work_unit_id (sample_run R_LOST) = Some ''w''" "wu_status (sample_unit W_RUNNING (Some ''r'')) = W_RUNNING"
      "wu_attempt_count (sample_unit W_RUNNING (Some ''r'')) = 1"
    by (simp_all add: sample_run_def sample_unit_def)
  have "fst (run_had_effect (sample_run R_LOST) ?s) = Inr False" by code_simp
  with lost_run_recovery [OF run row fields(1) _ unit fields(2) clean] fields(3) show ?thesis
    by (auto simp: DEFAULTS_def)
qed

end
