(* ===== verification/Decisions.thy ===== *)
theory Decisions
  imports Helpers
begin

text \<open>
  Tasks, Contracts and formal Decisions (\<open>application/service.py\<close>): \<open>_create_task\<close>,
  \<open>_submit_contract\<close>, \<open>_resolve_decision\<close> with everything an approval applies, the commands
  that are resolutions under another name, and \<open>_apply_contract_delta\<close>.
\<close>

subsection \<open>Tasks\<close>

definition create_task :: "env \<Rightarrow> AuthContext \<Rightarrow> dict \<Rightarrow> CommandResult tx" where
  "create_task E auth payload =
    andthen now (\<lambda>ts.
    andthen (if truthy (dget payload ''task_id'') then ret (py_str (dget payload ''task_id''))
                 else new_id E ''task'') (\<lambda>task_id.
    let title = py_str (jor (dget payload ''title'') (JStr ''untitled'')) in
    let intent = py_str (jor (dget payload ''intent'') (JStr [])) in
    andthen (need_int (jor (dget payload ''model_call_limit'') (JInt (max_task_model_calls DEFAULTS)))) (\<lambda>limit.
    seq (add_task \<lparr> tk_task_id = task_id, tk_principal_id = principal_id auth,
       tk_intent_ref = Some intent, tk_title = title, tk_state = NEW, tk_state_reason = None,
       tk_state_revision = 0, tk_contract_version = None, tk_plan_version = None,
       tk_active_planner_session_id = None, tk_resume_point = None, tk_final_result_refs = None,
       tk_cancel_intent = False, tk_pause_intent = False, tk_revoke_epoch = 0,
       tk_model_calls_used = 0, tk_model_call_limit = limit,
       tk_create_idempotency_key = opt_str (dget payload ''_create_key''),
       tk_created_at = ts, tk_updated_at = ts \<rparr>) (
    andthen (get_profile (''fake'', 1)) (\<lambda>fake.
    seq (only_if (fake = None) (add_profile \<lparr> apr_profile_id = ''fake'', apr_profile_version = 1,
       apr_content_json = JObj [(''instructions'', JStr ''fake worker'')], apr_created_at = ts \<rparr>)) (
    seq (append_event task_id ''task.created'' (Some (actor_id auth)) [(''title'', JStr title)]) (
    ret (success [(''task_id'', JStr task_id), (''state'', JStr (task_state_str NEW))]))))))))"

subsection \<open>Contracts\<close>

text \<open>The contract a payload asks for: given whole, or field by field with defaults.\<close>

definition contract_content :: "TaskRow \<Rightarrow> dict \<Rightarrow> json" where
  "contract_content task payload = jor (dget payload ''contract'') (JObj [
     (''objective'', jor (dget payload ''objective'') (JStr (tk_title task))),
     (''in_scope'', jor (dget payload ''in_scope'') (JList [])),
     (''out_of_scope'', jor (dget payload ''out_of_scope'') (JList [])),
     (''constraints'', jor (dget payload ''constraints'') (JList [])),
     (''assumptions'', jor (dget payload ''assumptions'') (JList [])),
     (''deliverables'', jor (dget payload ''deliverables'') (JList [JObj [
        (''deliverable_id'', JStr ''d1''), (''description'', JStr ''result''),
        (''expected_kind'', JStr ''text'')]])),
     (''acceptance_criteria'', jor (dget payload ''acceptance_criteria'') (JList [JObj [
        (''criterion_id'', JStr ''c1''), (''statement'', JStr ''done''),
        (''evidence_kind'', JStr ''artifact''), (''required'', JBool True)]])),
     (''allowed_side_effects'', jor (dget payload ''allowed_side_effects'') (JList [])),
     (''permission_ceiling'', jor (dget payload ''permission_ceiling'')
        (JObj [(''tools'', JList [JStr ''read''])])),
     (''resource_limits'', jor (dget payload ''resource_limits'') (JObj [])),
     (''human_gates'', jor (dget payload ''human_gates'') (JList []))])"

text \<open>The gates of a decision are closed.\<close>

definition resolve_gates :: "string \<Rightarrow> int \<Rightarrow> unit tx" where
  "resolve_gates decision_id ts =
     upd_gate_where (\<lambda>g. ga_decision_id g = decision_id)
       (\<lambda>g. g\<lparr> ga_lifecycle := RESOLVED, ga_resolved_at := Some ts \<rparr>)"

text \<open>A fresh pending decision; the fields only some kinds use start empty.\<close>

definition new_decision :: "string \<Rightarrow> string \<Rightarrow> DecisionKind \<Rightarrow> string \<Rightarrow> int \<Rightarrow> string \<Rightarrow> int option
    \<Rightarrow> int \<Rightarrow> int \<Rightarrow> DecisionRow" where
  "new_decision decision_id task_id kind target_ref target_version target_hash contract_version ts
      expires = \<lparr> de_decision_id = decision_id, de_task_id = task_id, de_decision_kind = kind,
     de_target_ref = target_ref, de_target_version = target_version, de_target_hash = target_hash,
     de_contract_version = contract_version, de_explanation_ref = None, de_explanation_hash = None,
     de_parameters_hash = None, de_result_snapshot_ref = None, de_status = D_PENDING,
     de_choice = None, de_decided_by_actor = None, de_decided_by_principal = None,
     de_decided_at = None, de_created_at = ts, de_expires_at = expires,
     de_gate_lifecycle = OPEN, de_payload_json = None \<rparr>"

definition new_gate :: "string \<Rightarrow> string \<Rightarrow> string \<Rightarrow> string \<Rightarrow> int \<Rightarrow> GateRow" where
  "new_gate gate_id task_id decision_id reason ts = \<lparr> ga_gate_id = gate_id, ga_task_id = task_id,
     ga_decision_id = decision_id, ga_reason = reason, ga_lifecycle = OPEN, ga_created_at = ts,
     ga_resolved_at = None \<rparr>"

definition submit_contract :: "env \<Rightarrow> AuthContext \<Rightarrow> dict \<Rightarrow> CommandResult tx" where
  "submit_contract E auth payload =
    andthen (need payload ''task_id'') (\<lambda>tid.
    andthen (svc_get_task tid) (\<lambda>task.
    let task_id = tk_task_id task in
    seq (assert_task_principal auth task) (
    let content = contract_content task payload in
    andthen (stored_contract (\<lambda>c. ct_task_id c = task_id)) (\<lambda>vers.
    let version = next_seq (map ct_contract_version vers) in
    seq (upd_contract_where (\<lambda>c. ct_task_id c = task_id \<and> ct_status c \<in> {DRAFT, PENDING_APPROVAL})
       (\<lambda>c. c\<lparr> ct_status := C_SUPERSEDED \<rparr>)) (
    andthen now (\<lambda>ts.
    andthen (select_decision (\<lambda>d. de_task_id d = task_id
       \<and> de_decision_kind d = CONTRACT_APPROVAL \<and> de_status d = D_PENDING)) (\<lambda>decs.
    seq (each decs (\<lambda>dec. seq (upd_decision (de_decision_id dec) (\<lambda>d. d\<lparr> de_status := D_SUPERSEDED \<rparr>)) (
      resolve_gates (de_decision_id dec) ts))) (
    let ch = content_hash (sha E) content in
    seq (add_contract \<lparr> ct_task_id = task_id, ct_contract_version = version,
       ct_supersedes_version = tk_contract_version task, ct_content_hash = ch,
       ct_content_json = content, ct_status = PENDING_APPROVAL, ct_approved_by = None,
       ct_approved_at = None, ct_created_at = ts \<rparr>) (
    andthen (need (entries content) ''objective'') (\<lambda>objective.
    andthen (need (entries content) ''deliverables'') (\<lambda>deliverables.
    andthen (need (entries content) ''acceptance_criteria'') (\<lambda>criteria.
    andthen (need (entries content) ''permission_ceiling'') (\<lambda>ceiling.
    let expl = JObj [
       (''objective'', objective), (''deliverables'', deliverables),
       (''acceptance_criteria'', criteria), (''permission_ceiling'', ceiling),
       (''resource_limits'', jor (jget content ''resource_limits'') (JObj [])),
       (''allowed_side_effects'', jor (jget content ''allowed_side_effects'') (JList []))] in
    andthen (new_id E ''expl'') (\<lambda>explanation_id.
    let eh = content_hash (sha E) expl in
    seq (add_explanation \<lparr> xp_explanation_id = explanation_id, xp_task_id = task_id,
       xp_contract_version = version, xp_content_hash = eh, xp_content_json = expl,
       xp_created_at = ts \<rparr>) (
    andthen (new_id E ''dec'') (\<lambda>decision_id.
    seq (add_decision ((new_decision decision_id task_id CONTRACT_APPROVAL (''contract:'' @ task_id)
         version ch (Some version) ts (ts + decision_ttl_hours DEFAULTS * 3600))
       \<lparr> de_explanation_ref := Some explanation_id, de_explanation_hash := Some eh \<rparr>)) (
    andthen (new_id E ''gate'') (\<lambda>gate_id.
    seq (add_gate (new_gate gate_id task_id decision_id WR_CONTRACT_APPROVAL ts)) (
    seq (set_task_state task_id ''contract.submitted'' (Some WR_CONTRACT_APPROVAL)) (
    seq (append_event task_id ''contract.submitted'' (Some (actor_id auth))
       [(''contract_version'', JInt version), (''decision_id'', JStr decision_id)]) (
    andthen (peek_task task_id) (\<lambda>after.
    ret (success [
       (''task_id'', JStr task_id), (''contract_version'', JInt version),
       (''content_hash'', JStr ch), (''decision_id'', JStr decision_id),
       (''explanation_id'', JStr explanation_id), (''explanation_hash'', JStr eh),
       (''state'', JStr (task_state_str (tk_state after)))])))))))))))))))))))))))"

subsection \<open>What an approval applies\<close>

text \<open>Evidence by criterion: a later item of the same criterion replaces an earlier one.\<close>

definition evidence_for :: "json list \<Rightarrow> string \<Rightarrow> json option" where
  "evidence_for ev_items cid =
    find (\<lambda>item. truthy (jget item ''criterion_id'') \<and> py_str (jget item ''criterion_id'') = cid)
      (rev ev_items)"

fun assert_acceptance_evidence :: "json list \<Rightarrow> json list \<Rightarrow> exn + unit" where
  "assert_acceptance_evidence [] ev_items = Inr ()"
| "assert_acceptance_evidence (crit # rest) ev_items =
     (case map_of (entries crit) ''criterion_id'' of
        None \<Rightarrow> Inl (KeyError ''criterion_id'')
      | Some c \<Rightarrow>
        (case evidence_for ev_items (py_str c) of
           None \<Rightarrow> Inl (PreconditionError ''missing_evidence'')
         | Some item \<Rightarrow>
           if \<not> truthy (jor (jget item ''artifact_hash'') (jget item ''artifact_ref''))
             then Inl (PreconditionError ''missing_evidence'')
           else if jget item ''verdict'' = JStr ''FAIL'' then Inl (PreconditionError ''evidence_failed'')
           else if jget item ''verdict'' \<noteq> JStr ''PASS'' then Inl (PreconditionError ''missing_evidence'')
           else assert_acceptance_evidence rest ev_items))"

text \<open>The criteria a contract requires: \<open>required\<close> defaults to true.\<close>

definition required_criteria :: "dict \<Rightarrow> json list tx" where
  "required_criteria content =
    andthen (elems (jor (dget content ''acceptance_criteria'') (JList []))) (\<lambda>crits.
    andthen (collect crits as_obj) (\<lambda>objs.
    ret (map JObj (filter (\<lambda>c. truthy (dget_or c ''required'' (JBool True))) objs))))"

text \<open>Sync \<open>resource_limits.model_call_limit\<close> of a contract into the Task's budget.\<close>

definition sync_model_call_limit :: "string \<Rightarrow> json \<Rightarrow> unit tx" where
  "sync_model_call_limit task_id content =
    (let limits = entries (jor (jget content ''resource_limits'') (JObj [])) in
    (case map_of limits ''model_call_limit'' of
        None \<Rightarrow> ret ()
      | Some v \<Rightarrow> andthen (need_int v) (\<lambda>limit.
        upd_task task_id (\<lambda>t. t\<lparr> tk_model_call_limit := limit \<rparr>))))"

text \<open>The previously active contract is superseded and its marker deleted.\<close>

definition supersede_active_contract :: "string \<Rightarrow> unit tx" where
  "supersede_active_contract task_id =
    andthen (get_contract_marker task_id) (\<lambda>prev.
    (case prev of
        None \<Rightarrow> ret ()
      | Some m \<Rightarrow> andthen (select_contract (\<lambda>c. ct_task_id c = task_id
            \<and> ct_contract_version c = acm_contract_version m)) (\<lambda>olds.
        seq (case first_of olds of
             None \<Rightarrow> ret ()
           | Some old \<Rightarrow> upd_contract (contract_key old) (\<lambda>c. c\<lparr> ct_status := C_SUPERSEDED \<rparr>)) (
        drop_contract_marker task_id))))"

definition apply_contract_approval :: "string \<Rightarrow> string \<Rightarrow> unit tx" where
  "apply_contract_approval task_id decision_id =
    andthen now (\<lambda>ts.
    andthen (peek_decision decision_id) (\<lambda>decision.
    andthen (select_contract (\<lambda>c. ct_task_id c = task_id
       \<and> ct_contract_version c = de_target_version decision)) (\<lambda>rows.
    andthen (one_row rows) (\<lambda>contract.
    seq (supersede_active_contract task_id) (
    seq (upd_contract (contract_key contract) (\<lambda>c. c\<lparr> ct_status := C_ACTIVE,
       ct_approved_by := de_decided_by_actor decision, ct_approved_at := Some ts \<rparr>)) (
    seq (add_contract_marker \<lparr> acm_task_id = task_id,
       acm_contract_version = ct_contract_version contract \<rparr>) (
    seq (upd_task task_id (\<lambda>t. t\<lparr> tk_contract_version := Some (ct_contract_version contract) \<rparr>)) (
    seq (resolve_gates decision_id ts) (
    seq (upd_decision decision_id (\<lambda>d. d\<lparr> de_gate_lifecycle := RESOLVED \<rparr>)) (
    seq (sync_model_call_limit task_id (ct_content_json contract)) (
    let simple = truthy (dget_or (entries (ct_content_json contract)) ''simple'' (JBool True)) in
    set_task_state task_id
       (if simple then ''contract.approved_simple'' else ''contract.approved'') None)))))))))))"

text \<open>The work units of the active plan (\<open>None\<close>: no active plan was found).\<close>

definition current_plan_ids :: "string \<Rightarrow> json list tx" where
  "current_plan_ids task_id =
    andthen (get_plan_marker task_id) (\<lambda>marker.
    (case marker of
        None \<Rightarrow> ret []
      | Some m \<Rightarrow> andthen (select_plan (\<lambda>p. pl_task_id p = task_id \<and> pl_plan_version p = apm_plan_version m)) (\<lambda>rows.
        (case first_of rows of
             None \<Rightarrow> ret []
           | Some plan \<Rightarrow> andthen (elems (pl_nodes_json plan)) (\<lambda>nodes.
             collect nodes (\<lambda>n. need (entries n) ''work_unit_id''))))))"

definition apply_final_acceptance :: "env \<Rightarrow> string \<Rightarrow> string \<Rightarrow> unit tx" where
  "apply_final_acceptance E task_id decision_id =
    andthen now (\<lambda>ts.
    andthen (peek_decision decision_id) (\<lambda>decision.
    andthen (peek_task task_id) (\<lambda>task.
    andthen (get_opt get_snapshot (de_result_snapshot_ref decision)) (\<lambda>snap_row.
    andthen (the_or (ConflictError ''target_hash_conflict'') snap_row) (\<lambda>snap.
    seq (ensure (rs_content_hash snap = de_target_hash decision) (ConflictError ''target_hash_conflict'')) (
    seq (ensure (Some (rs_contract_version snap) = tk_contract_version task) (ConflictError ''snapshot_stale'')) (
    seq (ensure (rs_plan_version snap = tk_plan_version task) (ConflictError ''snapshot_stale'')) (
    andthen (current_plan_ids task_id) (\<lambda>current_ids.
    andthen (select_wu (\<lambda>w. wu_task_id w = task_id
       \<and> wu_status w \<in> {W_PENDING, W_RUNNING, W_BLOCKED})) (\<lambda>pending_wu.
    let blockers = filter (\<lambda>w. current_ids = [] \<or> JStr (wu_work_unit_id w) \<in> set current_ids)
       pending_wu in
    seq (ensure (blockers = []) (PreconditionError ''incomplete_work'')) (
    andthen (other_blocking_gates task_id (Some decision_id)) (\<lambda>other_gates.
    seq (ensure (other_gates = []) (PreconditionError ''blocking_gate_open'')) (
    seq (assert_no_live_writers E task_id) (
    andthen (active_contract task_id) (\<lambda>contract_row.
    andthen (the_or (PreconditionError ''no_active_contract'') contract_row) (\<lambda>contract.
    andthen (required_criteria (entries (ct_content_json contract))) (\<lambda>required.
    andthen (elems (jor (jget (rs_content_json snap) ''evidence'') (JList []))) (\<lambda>evidence_items.
    seq (lift_exn (assert_acceptance_evidence required evidence_items)) (
    andthen (select_run (\<lambda>r. ar_task_id r = task_id \<and> run_active r)) (\<lambda>active.
    seq (ensure (active = []) (PreconditionError ''active_runs'')) (
    andthen (select_effect (\<lambda>e. se_task_id e = task_id \<and> se_state e = E_UNKNOWN)) (\<lambda>unknown.
    seq (ensure (unknown = []) (PreconditionError ''unknown_side_effect'')) (
    seq (resolve_gates decision_id ts) (
    seq (upd_task task_id (\<lambda>t. t\<lparr> tk_final_result_refs := de_result_snapshot_ref decision \<rparr>)) (
    set_task_state task_id ''final.accepted'' None)))))))))))))))))))))))))"

definition apply_side_effect_approval :: "string \<Rightarrow> string \<Rightarrow> unit tx" where
  "apply_side_effect_approval task_id decision_id =
    andthen now (\<lambda>ts.
    andthen (peek_decision decision_id) (\<lambda>decision.
    andthen (get_effect (de_target_ref decision)) (\<lambda>row.
    andthen (the_or not_found row) (\<lambda>effect.
    seq (ensure (se_action_digest effect = de_target_hash decision) (ConflictError ''target_hash_conflict'')) (
    andthen (lift_exn (transition_side_effect (se_state effect) ''approve'')) (\<lambda>st.
    seq (upd_effect (se_effect_id effect) (\<lambda>e. e\<lparr> se_state := st,
       se_authorization_ref := Some decision_id,
       se_expires_at := Some (ts + side_effect_approval_ttl_minutes DEFAULTS * 60) \<rparr>)) (
    seq (resolve_gates decision_id ts) (
    recompute_runnable_state task_id))))))))"

definition apply_contract_delta_approval :: "string \<Rightarrow> string \<Rightarrow> unit tx" where
  "apply_contract_delta_approval task_id decision_id =
    andthen (peek_decision decision_id) (\<lambda>decision.
    seq (ensure (de_payload_json decision \<noteq> None) (PreconditionError ''delta_payload_missing'')) (
    seq (upd_gate_where (\<lambda>g. ga_decision_id g = decision_id)
       (\<lambda>g. g\<lparr> ga_lifecycle := APPROVED_PENDING_APPLY \<rparr>)) (
    seq (upd_decision decision_id (\<lambda>d. d\<lparr> de_gate_lifecycle := APPROVED_PENDING_APPLY \<rparr>)) (
    andthen (peek_task task_id) (\<lambda>task.
    (if tk_state task \<noteq> WAITING_HUMAN
      then set_task_state task_id ''blocking_gate.opened'' (Some WR_CONTRACT_DELTA)
      else upd_task task_id (\<lambda>t. t\<lparr> tk_state_reason := Some WR_CONTRACT_DELTA \<rparr>)))))))"

definition apply_approved_decision :: "env \<Rightarrow> string \<Rightarrow> string \<Rightarrow> unit tx" where
  "apply_approved_decision E task_id decision_id =
    andthen now (\<lambda>ts.
    andthen (peek_decision decision_id) (\<lambda>decision.
    (case de_decision_kind decision of
        CONTRACT_APPROVAL \<Rightarrow> apply_contract_approval task_id decision_id
      | FINAL_ACCEPTANCE \<Rightarrow> apply_final_acceptance E task_id decision_id
      | SIDE_EFFECT_APPROVAL \<Rightarrow> apply_side_effect_approval task_id decision_id
      | CONTRACT_DELTA \<Rightarrow> apply_contract_delta_approval task_id decision_id
      | _ \<Rightarrow> seq (resolve_gates decision_id ts) (
        recompute_runnable_state task_id))))"

subsection \<open>Resolving a decision\<close>

definition upper_char :: "char \<Rightarrow> char" where
  "upper_char c = (let n = of_char c :: nat in if 97 \<le> n \<and> n \<le> 122 then char_of (n - 32) else c)"

text \<open>\<open>s.upper()\<close>, on ASCII letters.\<close>

definition py_upper :: "json \<Rightarrow> string tx" where
  "py_upper v = (case v of JStr s \<Rightarrow> ret (map upper_char s) | _ \<Rightarrow> raise ValueError)"

text \<open>The optimistic binding a caller may send along.\<close>

definition check_expected :: "dict \<Rightarrow> DecisionRow \<Rightarrow> unit tx" where
  "check_expected payload decision =
    seq (if dget payload ''expected_target_version'' = JNull then ret ()
      else andthen (need_int (dget payload ''expected_target_version'')) (\<lambda>v.
        ensure (v = de_target_version decision) (ConflictError ''target_version_conflict''))) (
    ensure (dget payload ''expected_target_hash'' = JNull
         \<or> dget payload ''expected_target_hash'' = JStr (de_target_hash decision))
       (ConflictError ''target_hash_conflict''))"

definition check_contract_unchanged :: "DecisionRow \<Rightarrow> unit tx" where
  "check_contract_unchanged decision =
     only_if (de_decision_kind decision = CONTRACT_APPROVAL) (andthen (select_contract (\<lambda>c. ct_task_id c = de_task_id decision
         \<and> ct_contract_version c = de_target_version decision)) (\<lambda>rows.
       andthen (one_row rows) (\<lambda>contract.
       ensure (ct_content_hash contract = de_target_hash decision) (ConflictError ''target_hash_conflict''))))"

text \<open>The formal resolution of a pending, unexpired decision.\<close>

definition decide :: "env \<Rightarrow> AuthContext \<Rightarrow> dict \<Rightarrow> string \<Rightarrow> string \<Rightarrow> CommandResult tx" where
  "decide E auth payload task_id decision_id =
    andthen now (\<lambda>ts.
    andthen (py_upper (jor (dget payload ''choice'') (JStr ''APPROVE''))) (\<lambda>choice.
    seq (upd_decision decision_id (\<lambda>d. d\<lparr> de_choice := Some choice,
       de_decided_by_actor := Some (actor_id auth),
       de_decided_by_principal := Some (principal_id auth), de_decided_at := Some ts \<rparr>)) (
    seq (if choice = ''APPROVE'' then seq (upd_decision decision_id (\<lambda>d. d\<lparr> de_status := D_APPROVED \<rparr>)) (
      apply_approved_decision E task_id decision_id) else seq (upd_decision decision_id (\<lambda>d. d\<lparr> de_status := D_REJECTED \<rparr>)) (
        seq (resolve_gates decision_id ts) (
        recompute_runnable_state task_id))) (
    andthen (peek_decision decision_id) (\<lambda>decided.
    seq (append_event task_id ''decision.resolved'' (Some (actor_id auth))
       [(''decision_id'', JStr decision_id),
        (''status'', JStr (decision_status_str (de_status decided))), (''choice'', JStr choice)]) (
    andthen (peek_task task_id) (\<lambda>task.
    ret (success [(''decision_id'', JStr decision_id),
       (''status'', JStr (decision_status_str (de_status decided))), (''choice'', JStr choice),
       (''task_id'', JStr task_id), (''task_state'', JStr (task_state_str (tk_state task)))]))))))))"

definition resolve_decision :: "env \<Rightarrow> AuthContext \<Rightarrow> dict \<Rightarrow> CommandResult tx" where
  "resolve_decision E auth payload =
    andthen (need payload ''decision_id'') (\<lambda>did.
    andthen (by_key get_decision did) (\<lambda>row.
    andthen (the_or (NotFoundError ''decision_not_found'') row) (\<lambda>decision.
    seq (lift_exn (guard_human_decision auth (de_decision_kind decision))) (
    andthen (svc_get_task (JStr (de_task_id decision))) (\<lambda>task.
    seq (assert_task_principal auth task) (
    (if de_status decision \<in> {D_APPROVED, D_REJECTED} then
        ret (success_replayed [(''decision_id'', JStr (de_decision_id decision)),
          (''status'', JStr (decision_status_str (de_status decision))),
          (''choice'', jopt (de_choice decision)), (''task_id'', JStr (de_task_id decision)),
          (''replayed'', JBool True)])
      else seq (ensure (de_status decision = D_PENDING) (PreconditionError ''decision_not_pending'')) (
        andthen now (\<lambda>ts.
        (if de_expires_at decision < ts then seq (upd_decision (de_decision_id decision) (\<lambda>d. d\<lparr> de_status := D_EXPIRED \<rparr>)) (
          raise (PreconditionError ''decision_expired'')) else seq (check_expected payload decision) (
            seq (check_contract_unchanged decision) (
            decide E auth payload (tk_task_id task) (de_decision_id decision)))))))))))))"

subsection \<open>Commands that resolve a decision\<close>

definition approve_contract :: "env \<Rightarrow> AuthContext \<Rightarrow> dict \<Rightarrow> CommandResult tx" where
  "approve_contract E auth payload =
    andthen (need payload ''decision_id'') (\<lambda>did.
    resolve_decision E auth [(''decision_id'', did),
       (''choice'', jor (dget payload ''choice'') (JStr ''APPROVE'')),
       (''expected_target_version'', dget payload ''expected_target_version''),
       (''expected_target_hash'', dget payload ''expected_target_hash'')])"

definition accept_result :: "env \<Rightarrow> AuthContext \<Rightarrow> dict \<Rightarrow> CommandResult tx" where
  "accept_result E auth payload =
    andthen (need payload ''decision_id'') (\<lambda>did.
    resolve_decision E auth [(''decision_id'', did), (''choice'', JStr ''APPROVE''),
       (''expected_target_hash'', dget payload ''expected_target_hash'')])"

definition approve_side_effect :: "env \<Rightarrow> AuthContext \<Rightarrow> dict \<Rightarrow> CommandResult tx" where
  "approve_side_effect E auth payload =
    andthen (need payload ''decision_id'') (\<lambda>did.
    resolve_decision E auth [(''decision_id'', did), (''choice'', JStr ''APPROVE''),
       (''expected_target_hash'', dget payload ''expected_target_hash'')])"

subsection \<open>Contract deltas\<close>

definition MERGED_KEYS :: "string list" where
  "MERGED_KEYS = [''objective'', ''in_scope'', ''out_of_scope'', ''constraints'', ''assumptions'',
     ''deliverables'', ''acceptance_criteria'', ''allowed_side_effects'', ''permission_ceiling'',
     ''human_gates'']"

definition merge_limits :: "dict \<Rightarrow> dict \<Rightarrow> dict" where
  "merge_limits base delta =
    (if dhas delta ''resource_limits''
     then dset ''resource_limits'' (JObj (dupdate (entries (jor (dget base ''resource_limits'') (JObj [])))
            (entries (jor (dget delta ''resource_limits'') (JObj []))))) base
     else base)"

definition merge_contract_content :: "dict \<Rightarrow> dict \<Rightarrow> dict" where
  "merge_contract_content base delta =
    fold (\<lambda>key merged. if dhas delta key then dset key (dget delta key) merged else merged)
      MERGED_KEYS (merge_limits base delta)"

definition parse_contract_delta_payload :: "DecisionRow \<Rightarrow> (dict \<times> int option \<times> string option) tx" where
  "parse_contract_delta_payload decision =
    (let raw = (case de_payload_json decision of None \<Rightarrow> JObj [] | Some j \<Rightarrow> j) in
    (if is_obj raw \<and> is_obj (jget raw ''delta'') then (let baseline_v = dget_or (entries raw) ''baseline_contract_version''
          (jint_opt (de_contract_version decision)) in
      let baseline_h = jget raw ''baseline_contract_hash'' in
      andthen (if baseline_v = JNull then ret None else andthen (need_int baseline_v) (\<lambda>i.
        ret (Some i))) (\<lambda>v.
      ret (entries (jget raw ''delta''), v,
          if truthy baseline_h then Some (py_str baseline_h) else None)))
      else ret (entries raw, de_contract_version decision, None)))"

definition close_gates :: "GateRow list \<Rightarrow> int \<Rightarrow> unit tx" where
  "close_gates gs ts = each gs (\<lambda>g. upd_gate (ga_gate_id g)
     (\<lambda>x. x\<lparr> ga_lifecycle := RESOLVED, ga_resolved_at := Some ts \<rparr>))"

definition invalidate_stale_contract_delta ::
    "string \<Rightarrow> string \<Rightarrow> GateRow list \<Rightarrow> string option \<Rightarrow> string \<Rightarrow> unit tx" where
  "invalidate_stale_contract_delta task_id decision_id gs auth_actor code =
    andthen now (\<lambda>ts.
    seq (close_gates gs ts) (
    seq (upd_decision decision_id (\<lambda>d. d\<lparr> de_gate_lifecycle := RESOLVED \<rparr>)) (
    andthen (peek_decision decision_id) (\<lambda>decision.
    andthen (peek_task task_id) (\<lambda>task.
    seq (append_event task_id ''contract.delta_apply_rejected_stale'' auth_actor
       [(''decision_id'', JStr decision_id), (''code'', JStr code),
        (''target_version'', JInt (de_target_version decision)),
        (''current_contract_version'', jint_opt (tk_contract_version task))]) (
    recompute_runnable_state task_id))))))"

text \<open>The delta's baseline is still the active contract.\<close>

definition baseline_current :: "TaskRow \<Rightarrow> ContractRow \<Rightarrow> int option \<Rightarrow> string option \<Rightarrow> bool" where
  "baseline_current task active baseline_v baseline_h \<longleftrightarrow>
    (case baseline_v of None \<Rightarrow> True
     | Some v \<Rightarrow> (case tk_contract_version task of None \<Rightarrow> 0 | Some c \<Rightarrow> c) = v
         \<and> ct_contract_version active = v)
    \<and> (case baseline_h of None \<Rightarrow> True | Some h \<Rightarrow> h = [] \<or> ct_content_hash active = h)"

definition activate_merged_contract ::
    "string \<Rightarrow> string \<Rightarrow> GateRow list \<Rightarrow> int \<Rightarrow> string \<Rightarrow> dict \<Rightarrow> unit tx" where
  "activate_merged_contract task_id decision_id gs version ch merged =
    andthen now (\<lambda>ts.
    andthen (peek_decision decision_id) (\<lambda>decision.
    andthen (peek_task task_id) (\<lambda>task.
    seq (supersede_active_contract task_id) (
    seq (add_contract \<lparr> ct_task_id = task_id, ct_contract_version = version,
       ct_supersedes_version = tk_contract_version task, ct_content_hash = ch,
       ct_content_json = JObj merged, ct_status = C_ACTIVE,
       ct_approved_by = de_decided_by_actor decision, ct_approved_at = Some ts,
       ct_created_at = ts \<rparr>) (
    seq (add_contract_marker \<lparr> acm_task_id = task_id, acm_contract_version = version \<rparr>) (
    seq (upd_task task_id (\<lambda>t. t\<lparr> tk_contract_version := Some version \<rparr>)) (
    seq (sync_model_call_limit task_id (JObj merged)) (
    seq (close_gates gs ts) (
    seq (upd_decision decision_id (\<lambda>d. d\<lparr> de_gate_lifecycle := RESOLVED \<rparr>)) (
    recompute_runnable_state task_id))))))))))"

definition apply_contract_delta :: "env \<Rightarrow> AuthContext \<Rightarrow> dict \<Rightarrow> CommandResult tx" where
  "apply_contract_delta E auth payload =
    andthen (need payload ''decision_id'') (\<lambda>did.
    andthen (by_key get_decision did) (\<lambda>row.
    andthen (the_or (NotFoundError ''decision_not_found'') row) (\<lambda>decision.
    let decision_id = de_decision_id decision in
    seq (ensure (de_decision_kind decision = CONTRACT_DELTA) (PreconditionError ''invalid_decision_kind'')) (
    seq (ensure (de_status decision = D_APPROVED) (PreconditionError ''decision_not_approved'')) (
    andthen (svc_get_task (JStr (de_task_id decision))) (\<lambda>task.
    let task_id = tk_task_id task in
    seq (assert_task_principal auth task) (
    andthen (select_gate (\<lambda>g. ga_decision_id g = decision_id)) (\<lambda>gs.
    seq (ensure (list_ex (\<lambda>g. ga_lifecycle g = APPROVED_PENDING_APPLY) gs)
       (PreconditionError ''delta_not_pending_apply'')) (
    seq (assert_no_live_writers E task_id) (
    seq (ensure (de_payload_json decision \<noteq> None) (PreconditionError ''delta_payload_missing'')) (
    andthen (parse_contract_delta_payload decision) (\<lambda>(delta, baseline_v, baseline_h).
    andthen (active_contract task_id) (\<lambda>active_row.
    andthen (the_or (PreconditionError ''no_active_contract'') active_row) (\<lambda>active.
    (if \<not> baseline_current task active baseline_v baseline_h then seq (invalidate_stale_contract_delta task_id decision_id gs (Some (actor_id auth)) ''baseline_stale'') (
      ret (failure ''baseline_stale'' [(''decision_id'', JStr decision_id)])) else (let version = de_target_version decision in
        andthen (select_contract (\<lambda>c. ct_task_id c = task_id \<and> ct_contract_version c = version)) (\<lambda>existing.
        (if existing \<noteq> [] then seq (invalidate_stale_contract_delta task_id decision_id gs (Some (actor_id auth))
             ''target_version_taken'') (
          ret (failure ''target_version_taken'' [(''decision_id'', JStr decision_id),
             (''target_version'', JInt version)])) else andthen (case baseline_v of
              None \<Rightarrow> ret active
            | Some v \<Rightarrow> andthen (select_contract (\<lambda>c. ct_task_id c = task_id \<and> ct_contract_version c = v)) (\<lambda>rows.
              one_row rows)) (\<lambda>base.
               let merged = merge_contract_content (entries (ct_content_json base)) delta in
               let ch = content_hash (sha E) (JObj merged) in
               seq (ensure (ch = de_target_hash decision \<or> baseline_h = None)
             (ConflictError ''target_hash_conflict'')) (
               seq (activate_merged_contract task_id decision_id gs version ch merged) (
               seq (append_event task_id ''contract.delta_applied'' (Some (actor_id auth))
             [(''decision_id'', JStr decision_id), (''contract_version'', JInt version)]) (
               andthen (peek_task task_id) (\<lambda>after.
               ret (success [(''task_id'', JStr task_id), (''contract_version'', JInt version),
             (''decision_id'', JStr decision_id),
             (''state'', JStr (task_state_str (tk_state after))),
             (''model_call_limit'', JInt (tk_model_call_limit after))]))))))))))))))))))))))))"

subsection \<open>The frame\<close>

context service_frame
begin


lemma keeps_resolve_gates [frame_intro]:
  "keeps R (resolve_gates d ts)" "keeps R (close_gates gs ts)"
  unfolding resolve_gates_def close_gates_def by (intro keeps_struct frame_intro)+

lemma keeps_create_task [frame_intro]: "keeps R (create_task E auth payload)"
  unfolding create_task_def by (intro keeps_struct frame_intro)

lemma keeps_submit_contract [frame_intro]: "keeps R (submit_contract E auth payload)"
  unfolding submit_contract_def
  by (intro keeps_struct frame_intro; simp add: row_le_defs)

lemma keeps_required_criteria [frame_intro]:
  "keeps R (required_criteria content)"
  "keeps R (sync_model_call_limit task_id c)"
  "keeps R (supersede_active_contract task_id)"
  "keeps R (current_plan_ids task_id)"
  unfolding required_criteria_def sync_model_call_limit_def supersede_active_contract_def
    current_plan_ids_def
  by (intro keeps_struct frame_intro; simp add: row_le_defs can_become.stay)+

lemma keeps_apply_approvals [frame_intro]:
  "keeps R (apply_contract_approval task_id decision_id)"
  "keeps R (apply_final_acceptance E task_id decision_id)"
  "keeps R (apply_side_effect_approval task_id decision_id)"
  "keeps R (apply_contract_delta_approval task_id decision_id)"
  unfolding apply_contract_approval_def apply_final_acceptance_def apply_side_effect_approval_def
    apply_contract_delta_approval_def
  by (intro keeps_struct frame_intro; simp add: row_le_defs can_become.stay)+

lemma keeps_apply_approved_decision [frame_intro]:
  "keeps R (apply_approved_decision E task_id decision_id)"
  unfolding apply_approved_decision_def
  by (intro keeps_struct frame_intro)
    (auto split: DecisionKind.split intro!: keeps_struct frame_intro)

lemma keeps_decide [frame_intro]: "keeps R (decide E auth payload task_id decision_id)"
proof -
  have "keeps R (py_upper v)" for v
    by (auto simp: py_upper_def intro: keeps_struct split: json.split)
  then show ?thesis unfolding decide_def
    by (intro keeps_struct frame_intro; simp add: row_le_defs)
qed

lemma keeps_resolve_decision [frame_intro]: "keeps R (resolve_decision E auth payload)"
  unfolding resolve_decision_def check_expected_def check_contract_unchanged_def
  by (intro keeps_struct frame_intro; simp add: row_le_defs)

lemma keeps_resolutions [frame_intro]:
  "keeps R (approve_contract E auth payload)"
  "keeps R (accept_result E auth payload)"
  "keeps R (approve_side_effect E auth payload)"
  unfolding approve_contract_def accept_result_def approve_side_effect_def
  by (intro keeps_struct frame_intro)+

lemma keeps_delta_steps [frame_intro]:
  "keeps R (parse_contract_delta_payload decision)"
  "keeps R (invalidate_stale_contract_delta task_id decision_id gs actor code)"
  "keeps R (activate_merged_contract task_id decision_id gs version ch merged)"
  unfolding parse_contract_delta_payload_def invalidate_stale_contract_delta_def
    activate_merged_contract_def
  by (intro keeps_struct frame_intro; simp add: row_le_defs can_become.stay)+

lemma keeps_apply_contract_delta [frame_intro]:
  "keeps R (apply_contract_delta E auth payload)"
  unfolding apply_contract_delta_def by (intro keeps_struct frame_intro)

end

subsection \<open>What a decision guarantees\<close>

text \<open>
  C10. The acceptance check passes exactly when every required criterion has evidence: the last
  evidence item of that criterion names an artifact and carries the verdict PASS.
\<close>

theorem assert_acceptance_evidence_iff:
  "assert_acceptance_evidence required ev_items = Inr () \<longleftrightarrow>
    (\<forall>crit \<in> set required. \<exists>c item.
       map_of (entries crit) ''criterion_id'' = Some c \<and> evidence_for ev_items (py_str c) = Some item
       \<and> truthy (jor (jget item ''artifact_hash'') (jget item ''artifact_ref''))
       \<and> jget item ''verdict'' = JStr ''PASS'')"
  by (induction required) (auto split: option.splits)

theorem assert_acceptance_evidence_iff_witness:
  "assert_acceptance_evidence [JObj [(''criterion_id'', JStr ''c1'')]]
     [JObj [(''criterion_id'', JStr ''c1''), (''artifact_hash'', JStr ''h''), (''verdict'', JStr ''PASS'')]] = Inr ()"
  unfolding assert_acceptance_evidence_iff by (simp add: evidence_for_def jget_def jor_def)

text \<open>
  A contract delta overrides exactly the mergeable fields it names: each of them is taken from
  the delta, the resource limits are updated key by key, and every other field of the contract
  (in particular one the delta names but that may not be merged) stays as it was.
\<close>

theorem merge_contract_content_lookup:
  "map_of (merge_contract_content base delta) k =
    (if k \<in> set MERGED_KEYS \<and> dhas delta k then Some (dget delta k)
     else if k = ''resource_limits'' \<and> dhas delta k
       then Some (JObj (dupdate (entries (jor (dget base k) (JObj []))) (entries (jor (dget delta k) (JObj [])))))
     else map_of base k)"
proof -
  have fold: "map_of (fold (\<lambda>key merged. if dhas delta key then dset key (dget delta key) merged else merged) ks d) k
      = (if k \<in> set ks \<and> dhas delta k then Some (dget delta k) else map_of d k)" for ks d
    by (induction ks arbitrary: d) (auto simp: map_of_dset)
  have "''resource_limits'' \<notin> set MERGED_KEYS" by (simp add: MERGED_KEYS_def)
  then show ?thesis unfolding merge_contract_content_def fold
    by (auto simp: merge_limits_def map_of_dset)
qed

lemma readonly_acceptance_reads [frame_intro]:
  "keeps (=) (current_plan_ids task_id)"
  "keeps (=) (required_criteria content)"
  "keeps (=) (get_opt get_snapshot o_id)"
  unfolding current_plan_ids_def required_criteria_def
  by (intro readonly.keeps_struct frame_intro)+

lemmas acceptance_reads =
  readonly_iff [OF readonly_acceptance_reads(1)] readonly_iff [OF readonly_acceptance_reads(2)]
  readonly_iff [OF readonly_task(3)] readonly_iff [OF readonly_task_has_live_writer(1)]
  readonly_iff [OF readonly_acceptance_reads(3)]

lemma readonly_by_decision: "keeps (=) (by_key get_decision v)"
  by (intro frame_intro)

text \<open>
  C9. A Task is completed only when everything it owes is settled. If applying an approved final
  acceptance succeeds then: the accepted snapshot has the hash the human decided on and belongs to
  the current contract and plan versions; no Work Unit of the current plan is pending, running or
  blocked; no gate other than the acceptance itself is open; no writer is alive and no Run is
  active; every required criterion of the active contract has PASS evidence in the snapshot; no
  side effect of the Task is UNKNOWN; and the Task ends COMPLETED with the snapshot as its result.
\<close>

theorem final_acceptance_sound:
  assumes run: "apply_final_acceptance E tid did s = (Inr (), t)"
    and clean: "t_clean (wus s)" "t_clean (gates s)" "t_clean (runs s)" "t_clean (effects s)"
    and dec: "t_peek de_decision_id did (decisions s) = Some dec"
    and task: "t_peek tk_task_id tid (tasks s) = Some task"
  shows "\<exists>snap ids required contract ev.
      fst (get_opt get_snapshot (de_result_snapshot_ref dec) s) = Inr (Some snap)
    \<and> rs_content_hash snap = de_target_hash dec
    \<and> Some (rs_contract_version snap) = tk_contract_version task \<and> rs_plan_version snap = tk_plan_version task
    \<and> fst (current_plan_ids tid s) = Inr ids
    \<and> (\<forall>w \<in> set (t_rows (wus s)). wu_task_id w = tid \<and> (ids = [] \<or> JStr (wu_work_unit_id w) \<in> set ids)
         \<longrightarrow> wu_status w \<notin> {W_PENDING, W_RUNNING, W_BLOCKED})
    \<and> (\<forall>g \<in> set (t_rows (gates s)). gate_open tid g \<longrightarrow> ga_decision_id g = did)
    \<and> fst (task_has_live_writer E tid (flush_all s)) = Inr False
    \<and> (\<forall>r \<in> set (t_rows (runs s)). ar_task_id r = tid \<longrightarrow> \<not> run_active r)
    \<and> fst (active_contract tid (flush_all s)) = Inr (Some contract)
    \<and> fst (required_criteria (entries (ct_content_json contract)) (flush_all s)) = Inr required
    \<and> py_list (jor (jget (rs_content_json snap) ''evidence'') (JList [])) = Some ev
    \<and> assert_acceptance_evidence required ev = Inr ()
    \<and> (\<forall>e \<in> set (t_rows (effects s)). se_task_id e = tid \<longrightarrow> se_state e \<noteq> E_UNKNOWN)
    \<and> (\<exists>task'. t_peek tk_task_id tid (tasks t) = Some task' \<and> tk_state task' = COMPLETED
         \<and> tk_final_result_refs task' = de_result_snapshot_ref dec)"
proof -
  have flush: "wus (flush_all s) = wus s" "gates (flush_all s) = gates s" "runs (flush_all s) = runs s"
      "effects (flush_all s) = effects s"
    using clean by (simp_all add: flush_all_def t_flush_clean)
  obtain snap ids required contract ev s1 s2 where
      snap: "fst (get_opt get_snapshot (de_result_snapshot_ref dec) s) = Inr (Some snap)"
        "rs_content_hash snap = de_target_hash dec" "Some (rs_contract_version snap) = tk_contract_version task"
        "rs_plan_version snap = tk_plan_version task"
    and ids: "fst (current_plan_ids tid s) = Inr ids"
      "filter (\<lambda>w. ids = [] \<or> JStr (wu_work_unit_id w) \<in> set ids) (t_select (\<lambda>w. wu_task_id w = tid
         \<and> wu_status w \<in> {W_PENDING, W_RUNNING, W_BLOCKED}) (wus s)) = []"
    and gates: "filter (\<lambda>g. ga_decision_id g \<noteq> did) (t_select (gate_open tid) (gates (flush_all s))) = []"
    and writers: "fst (task_has_live_writer E tid (flush_all s)) = Inr False"
    and contract: "fst (active_contract tid (flush_all s)) = Inr (Some contract)"
      "fst (required_criteria (entries (ct_content_json contract)) (flush_all s)) = Inr required"
      "py_list (jor (jget (rs_content_json snap) ''evidence'') (JList [])) = Some ev"
      "assert_acceptance_evidence required ev = Inr ()"
    and runs: "t_select (\<lambda>r. ar_task_id r = tid \<and> run_active r) (runs (flush_all s)) = []"
    and effects: "t_select (\<lambda>e. se_task_id e = tid \<and> se_state e = E_UNKNOWN) (effects (flush_all s)) = []"
    and s1: "s1 = (flush_all s)\<lparr> gates := t_upd_where (\<lambda>g. ga_decision_id g = did)
        (\<lambda>g. g\<lparr> ga_lifecycle := RESOLVED, ga_resolved_at := Some (clock_now s) \<rparr>) (gates (flush_all s)),
        tasks := t_upd tk_task_id tid (\<lambda>t. t\<lparr> tk_final_result_refs := de_result_snapshot_ref dec \<rparr>)
          (tasks (flush_all s)) \<rparr>"
    and s2: "set_task_state tid ''final.accepted'' None s1 = (Inr (), t)"
    using run unfolding apply_final_acceptance_def
    by (auto simp: andthen_Inr_iff seq_Inr_iff Let_def dec task acceptance_reads other_blocking_gates_def
        assert_no_live_writers_def flush_Inr_iff elems_def resolve_gates_def)
  have "\<exists>task'. t_peek tk_task_id tid (tasks t) = Some task' \<and> tk_state task' = COMPLETED
      \<and> tk_final_result_refs task' = de_result_snapshot_ref dec"
    using set_task_state_Inr [OF s2] unfolding s1
    by (auto simp: t_peek_upd transition_task_accepted split: if_splits)
  then show ?thesis using snap ids gates writers contract runs effects clean unfolding flush
    by (intro exI [of _ snap] exI [of _ ids] exI [of _ required] exI [of _ contract] exI [of _ ev])
      (auto simp: t_select_empty t_select_clean filter_empty_conv)
qed

theorem final_acceptance_sound_witness:
  "\<exists>task'. t_peek tk_task_id ''t''
      (tasks (snd (apply_final_acceptance sample_env ''t'' ''d'' (sample_waiting FINAL_ACCEPTANCE)))) = Some task'
    \<and> tk_state task' = COMPLETED \<and> tk_final_result_refs task' = Some ''s''"
proof -
  let ?s = "sample_waiting FINAL_ACCEPTANCE"
  have run: "apply_final_acceptance sample_env ''t'' ''d'' ?s =
      (Inr (), snd (apply_final_acceptance sample_env ''t'' ''d'' ?s))"
    by (rule run_result) code_simp
  have clean: "t_clean (wus ?s)" "t_clean (gates ?s)" "t_clean (runs ?s)" "t_clean (effects ?s)"
    by code_simp+
  have dec: "t_peek de_decision_id ''d'' (decisions ?s) = Some (sample_decision FINAL_ACCEPTANCE)" by code_simp
  have task: "t_peek tk_task_id ''t'' (tasks ?s) = Some (sample_task WAITING_HUMAN)" by code_simp
  have "de_result_snapshot_ref (sample_decision FINAL_ACCEPTANCE) = Some ''s''" by (simp add: sample_decision_def)
  with final_acceptance_sound [OF run clean dec task] show ?thesis by auto
qed

lemma sync_model_call_limit_tables:
  "sync_model_call_limit tid content s = (Inr (), t) \<Longrightarrow>
    contracts t = contracts s \<and> contract_markers t = contract_markers s
    \<and> map_option tk_contract_version (t_peek tk_task_id tid (tasks t)) =
       map_option tk_contract_version (t_peek tk_task_id tid (tasks s))
    \<and> (list_all (\<lambda>c. \<not> dropped c) (tasks s) \<longrightarrow> list_all (\<lambda>c. \<not> dropped c) (tasks t))"
  by (auto simp: sync_model_call_limit_def Let_def andthen_Inr_iff t_peek_upd option.map_comp comp_def t_upd_kept
      split: option.splits)

lemma supersede_active_contract_tables:
  "supersede_active_contract tid s = (Inr (), t) \<Longrightarrow> t_clean (contracts s) \<Longrightarrow>
    tasks t = tasks s \<and> decisions t = decisions s
    \<and> contract_markers t = (if t_get acm_task_id tid (contract_markers s) = None then contract_markers s
         else t_drop acm_task_id tid (contract_markers s))
    \<and> contracts t = (case t_get acm_task_id tid (contract_markers s) of None \<Rightarrow> contracts s
         | Some m \<Rightarrow> (if \<exists>c \<in> set (t_rows (contracts s)). contract_key c = (tid, acm_contract_version m)
             then t_upd contract_key (tid, acm_contract_version m) (\<lambda>c. c\<lparr> ct_status := C_SUPERSEDED \<rparr>) (contracts s)
             else contracts s))"
  by (auto simp: supersede_active_contract_def andthen_Inr_iff seq_Inr_iff t_select_clean contract_key_def
      filter_empty_conv split: option.splits dest!: first_of_Some_in)

text \<open>
  Approving a contract activates it, and only it. If the approval succeeds then after the flush
  the Task's active marker and current version are the approved version, that contract row is
  ACTIVE, approved by the deciding actor, with its content untouched, and the contract the marker
  named before (if another one) is SUPERSEDED.
\<close>

theorem contract_approval_activates:
  assumes run: "apply_contract_approval tid did s = (Inr (), t)"
    and clean: "t_clean (contracts s)" "t_clean (contract_markers s)" "t_clean (tasks s)"
    and dec: "t_peek de_decision_id did (decisions s) = Some dec"
  shows "t_get acm_task_id tid (contract_markers (flush_all t))
      = Some \<lparr> acm_task_id = tid, acm_contract_version = de_target_version dec \<rparr>
    \<and> map_option tk_contract_version (t_peek tk_task_id tid (tasks (flush_all t))) = Some (Some (de_target_version dec))
    \<and> (\<exists>c c'. t_peek contract_key (tid, de_target_version dec) (contracts s) = Some c
         \<and> t_peek contract_key (tid, de_target_version dec) (contracts (flush_all t)) = Some c'
         \<and> ct_status c' = C_ACTIVE \<and> ct_approved_by c' = de_decided_by_actor dec
         \<and> ct_content_json c' = ct_content_json c \<and> ct_content_hash c' = ct_content_hash c)
    \<and> (\<forall>m old. t_get acm_task_id tid (contract_markers s) = Some m
         \<and> acm_contract_version m \<noteq> de_target_version dec
         \<and> t_peek contract_key (tid, acm_contract_version m) (contracts s) = Some old
         \<longrightarrow> (\<exists>old'. t_peek contract_key (tid, acm_contract_version m) (contracts (flush_all t)) = Some old'
                \<and> ct_status old' = C_SUPERSEDED))"
proof -
  let ?k = "(tid, de_target_version dec)"
  from run obtain c s1 s3 e where
      rows: "t_select (\<lambda>c. ct_task_id c = tid \<and> ct_contract_version c = de_target_version dec) (contracts s) = [c]"
    and s1: "supersede_active_contract tid s = (Inr (), s1)"
    and s3: "sync_model_call_limit tid (ct_content_json c) (s1\<lparr> contracts := t_upd contract_key (contract_key c)
          (\<lambda>c. c\<lparr> ct_status := C_ACTIVE, ct_approved_by := de_decided_by_actor dec,
             ct_approved_at := Some (clock_now s) \<rparr>) (contracts s1),
        contract_markers := t_add \<lparr> acm_task_id = tid, acm_contract_version = ct_contract_version c \<rparr> (contract_markers s1),
        tasks := t_upd tk_task_id tid (\<lambda>t. t\<lparr> tk_contract_version := Some (ct_contract_version c) \<rparr>) (tasks s1),
        gates := t_upd_where (\<lambda>g. ga_decision_id g = did)
          (\<lambda>g. g\<lparr> ga_lifecycle := RESOLVED, ga_resolved_at := Some (clock_now s) \<rparr>) (gates s1),
        decisions := t_upd de_decision_id did (\<lambda>d. d\<lparr> de_gate_lifecycle := RESOLVED \<rparr>) (decisions s1) \<rparr>) = (Inr (), s3)"
    and t: "set_task_state tid e None s3 = (Inr (), t)"
    unfolding apply_contract_approval_def
    by (auto simp: andthen_Inr_iff seq_Inr_iff Let_def dec one_row_def resolve_gates_def split: list.splits)
  have find: "find (\<lambda>c. contract_key c = ?k) (t_rows (contracts s)) = Some c"
    using rows clean(1) by (simp add: t_select_clean contract_key_def flip: first_of_filter)
  then have c: "t_peek contract_key ?k (contracts s) = Some c" "contract_key c = ?k"
    using clean(1) by (auto simp: t_peek_clean t_get_clean find_Some_iff)
  then have v: "ct_contract_version c = de_target_version dec" by (simp add: contract_key_def)
  note s1' = supersede_active_contract_tables [OF s1 clean(1)]
  note s3' = sync_model_call_limit_tables [OF s3, simplified]
  obtain task st where t': "t = s3\<lparr> tasks := t_upd tk_task_id tid (\<lambda>x. x\<lparr> tk_state := st, tk_state_reason := None,
         tk_state_revision := tk_state_revision x + 1, tk_updated_at := clock_now s3 \<rparr>) (tasks s3) \<rparr>"
      "t_peek tk_task_id tid (tasks s3) = Some task"
    using set_task_state_Inr [OF t] by blast
  have kept: "list_all (\<lambda>c. \<not> dropped c) (contracts s1)"
    using s1' clean(1) by (auto simp: t_clean_kept t_upd_kept split: option.splits)
  have peek: "t_peek contract_key k (contracts (flush_all t)) = t_peek contract_key k (contracts t)" for k
    using kept s3' t' c(2) by (simp add: flush_all_def t_peek_flush t_upd_kept)
  have "t_get acm_task_id tid (contract_markers (flush_all t))
      = Some \<lparr> acm_task_id = tid, acm_contract_version = de_target_version dec \<rparr>"
    using s1' s3' t' clean(2) v by (simp add: flush_all_def t_get_replaced t_get_added)
  moreover have "map_option tk_contract_version (t_peek tk_task_id tid (tasks (flush_all t))) = Some (Some (de_target_version dec))"
  proof -
    have "list_all (\<lambda>c. \<not> dropped c) (tasks s1)" using s1' clean(3) by (simp add: t_clean_kept)
    then have "list_all (\<lambda>c. \<not> dropped c) (tasks t)" using s3' t'(1) by (simp add: t_upd_kept)
    then have "t_peek tk_task_id tid (tasks (flush_all t)) = t_peek tk_task_id tid (tasks t)"
      by (simp add: flush_all_def t_peek_flush)
    moreover have "map_option tk_contract_version (t_peek tk_task_id tid (tasks s3)) = Some (Some (de_target_version dec))"
      using s3' v t'(2) by (cases "t_peek tk_task_id tid (tasks s1)") (auto simp: t_peek_upd)
    ultimately show ?thesis using t' by (simp add: t_peek_upd)
  qed
  moreover have "\<exists>c'. t_peek contract_key ?k (contracts (flush_all t)) = Some c'
         \<and> ct_status c' = C_ACTIVE \<and> ct_approved_by c' = de_decided_by_actor dec
         \<and> ct_content_json c' = ct_content_json c \<and> ct_content_hash c' = ct_content_hash c"
    using s1' s3' t' c unfolding peek
    by (auto simp: t_peek_upd contract_key_def split: option.splits)
  moreover have "\<exists>old'. t_peek contract_key (tid, acm_contract_version m) (contracts (flush_all t)) = Some old'
        \<and> ct_status old' = C_SUPERSEDED"
    if "t_get acm_task_id tid (contract_markers s) = Some m" "acm_contract_version m \<noteq> de_target_version dec"
      "t_peek contract_key (tid, acm_contract_version m) (contracts s) = Some old" for m old
  proof -
    have "\<exists>c \<in> set (t_rows (contracts s)). contract_key c = (tid, acm_contract_version m)"
      using t_peek_in [OF that(3)] by blast
    with that s1' s3' t' c(2) show ?thesis unfolding peek
      by (auto simp: t_peek_upd contract_key_def)
  qed
  ultimately show ?thesis using c(1) by blast
qed

theorem contract_approval_activates_witness:
  "\<exists>c'. t_peek contract_key (''t'', 1)
      (contracts (flush_all (snd (apply_contract_approval ''t'' ''d'' (sample_waiting CONTRACT_APPROVAL))))) = Some c'
    \<and> ct_status c' = C_ACTIVE \<and> ct_content_hash c' = ''h''"
proof -
  let ?s = "sample_waiting CONTRACT_APPROVAL"
  have run: "apply_contract_approval ''t'' ''d'' ?s = (Inr (), snd (apply_contract_approval ''t'' ''d'' ?s))"
    by (rule run_result) code_simp
  have clean: "t_clean (contracts ?s)" "t_clean (contract_markers ?s)" "t_clean (tasks ?s)" by code_simp+
  have dec: "t_peek de_decision_id ''d'' (decisions ?s) = Some (sample_decision CONTRACT_APPROVAL)" by code_simp
  have "t_peek contract_key (''t'', 1) (contracts ?s) = Some sample_contract" by code_simp
  moreover have "de_target_version (sample_decision CONTRACT_APPROVAL) = 1" by (simp add: sample_decision_def)
  moreover have "ct_content_hash sample_contract = ''h''" by (simp add: sample_contract_def)
  ultimately show ?thesis using contract_approval_activates [OF run clean dec] by auto
qed

text \<open>What every resolution has passed before it looks at the decision's status.\<close>

lemma resolve_decision_gate:
  assumes "resolve_decision E auth payload s = (Inr r, t)"
  shows "\<exists>did dec task. map_of payload ''decision_id'' = Some (JStr did)
    \<and> t_get de_decision_id did (decisions s) = Some dec
    \<and> guard_human_decision auth (de_decision_kind dec) = Inr ()
    \<and> t_get tk_task_id (de_task_id dec) (tasks s) = Some task \<and> tk_principal_id task = principal_id auth
    \<and> (if de_status dec \<in> {D_APPROVED, D_REJECTED} then t = s
        else de_status dec = D_PENDING \<and> clock_now s \<le> de_expires_at dec)"
proof -
  from assms obtain did_json row dec task where
      "map_of payload ''decision_id'' = Some did_json" and row: "by_key get_decision did_json s = (Inr (Some dec), s)"
    and "guard_human_decision auth (de_decision_kind dec) = Inr ()"
    and "svc_get_task (JStr (de_task_id dec)) s = (Inr task, s)"
    and "principal_id auth = tk_principal_id task"
    and "(if de_status dec \<in> {D_APPROVED, D_REJECTED} then t = s
        else de_status dec = D_PENDING \<and> clock_now s \<le> de_expires_at dec)"
    unfolding resolve_decision_def andthen_Inr_iff seq_Inr_iff assert_task_principal_def
    by (auto simp: readonly_iff [OF readonly_task(1)] readonly_iff [OF readonly_by_decision] not_less
        andthen_Inr_iff seq_Inr_iff split: if_splits)
  moreover from row obtain did where "did_json = JStr did" "t_get de_decision_id did (decisions s) = Some dec"
    by (cases did_json) auto
  moreover have "t_get tk_task_id (de_task_id dec) (tasks s) = Some task"
    using \<open>svc_get_task (JStr (de_task_id dec)) s = (Inr task, s)\<close> by (simp add: svc_get_task_def andthen_Inr_iff)
  ultimately show ?thesis by auto
qed

text \<open>
  C11. Only the Task's owner resolves a decision, and a formal decision (contract, contract delta,
  side effect, final acceptance) only as a Human, whichever command alias was used; a decision that
  was already resolved is answered without any write.
\<close>

theorem decision_needs_owner:
  assumes "resolve_decision E auth payload s = (Inr r, t)"
  shows "\<exists>did dec task. map_of payload ''decision_id'' = Some (JStr did)
    \<and> t_get de_decision_id did (decisions s) = Some dec
    \<and> t_get tk_task_id (de_task_id dec) (tasks s) = Some task \<and> tk_principal_id task = principal_id auth
    \<and> (de_decision_kind dec \<in> {CONTRACT_APPROVAL, CONTRACT_DELTA, SIDE_EFFECT_APPROVAL, FINAL_ACCEPTANCE}
        \<longrightarrow> is_human auth)
    \<and> (de_status dec \<in> {D_APPROVED, D_REJECTED} \<longrightarrow> t = s)"
proof -
  have "guard_human_decision auth k = Inr () \<Longrightarrow>
      k \<in> {CONTRACT_APPROVAL, CONTRACT_DELTA, SIDE_EFFECT_APPROVAL, FINAL_ACCEPTANCE} \<Longrightarrow> is_human auth" for k
    by (auto simp: guard_human_decision_def require_human_def HUMAN_DECISION_KINDS_def is_human_def split: if_splits)
  with resolve_decision_gate [OF assms] show ?thesis by (auto split: if_splits)
qed

theorem decision_needs_owner_witness:
  "principal_id sample_human = tk_principal_id (sample_task WAITING_HUMAN)
    \<and> fst (resolve_decision sample_env sample_human [(''decision_id'', JStr ''d'')]
        (sample_waiting FINAL_ACCEPTANCE)) \<noteq> Inl denied"
proof -
  let ?s = "sample_waiting FINAL_ACCEPTANCE"
  let ?m = "resolve_decision sample_env sample_human [(''decision_id'', JStr ''d'')]"
  have ok: "case fst (?m ?s) of Inl e \<Rightarrow> False | Inr r \<Rightarrow> cr_ok r" by code_simp
  then obtain r where r: "?m ?s = (Inr r, snd (?m ?s))" by (cases "?m ?s") (auto split: sum.splits)
  have "t_get de_decision_id ''d'' (decisions ?s) = Some (sample_decision FINAL_ACCEPTANCE)" by code_simp
  moreover have "t_get tk_task_id ''t'' (tasks ?s) = Some (sample_task WAITING_HUMAN)" by code_simp
  moreover have "de_task_id (sample_decision FINAL_ACCEPTANCE) = ''t''" by (simp add: sample_decision_def)
  ultimately show ?thesis using decision_needs_owner [OF r] ok by (auto split: sum.splits)
qed

text \<open>
  Expiry is checked but never recorded. An attempt to resolve a pending decision whose time has
  passed is refused, and because the refusal rolls the transaction back, the decision is still
  PENDING afterwards: the assignment of EXPIRED in the code never reaches the database.
\<close>

theorem expired_decision_stays_pending:
  assumes "map_of payload ''decision_id'' = Some (JStr did)"
    and "t_get de_decision_id did (decisions s) = Some dec"
    and "de_status dec = D_PENDING" and "de_expires_at dec < clock_now s"
  shows "\<exists>e. fst (run_tx (resolve_decision E auth payload) s) = Inl e
    \<and> decisions (snd (run_tx (resolve_decision E auth payload) s)) = decisions s"
proof -
  have "\<exists>e t. resolve_decision E auth payload s = (Inl e, t)"
  proof (rule ccontr)
    assume "\<not> (\<exists>e t. resolve_decision E auth payload s = (Inl e, t))"
    then obtain r t where "resolve_decision E auth payload s = (Inr r, t)"
      by (metis surj_pair sum.exhaust)
    from resolve_decision_gate [OF this] assms show False by auto
  qed
  then show ?thesis by (auto simp: run_tx_def rollback_def)
qed

theorem expired_decision_stays_pending_witness:
  "decisions (snd (run_tx (resolve_decision sample_env sample_human [(''decision_id'', JStr ''d'')])
      ((sample_waiting CONTRACT_APPROVAL)\<lparr> clock_now := 11 \<rparr>))) = t_of [sample_decision CONTRACT_APPROVAL]"
proof -
  let ?s = "(sample_waiting CONTRACT_APPROVAL)\<lparr> clock_now := 11 \<rparr>"
  have "t_get de_decision_id ''d'' (decisions ?s) = Some (sample_decision CONTRACT_APPROVAL)" by code_simp
  moreover have "decisions ?s = t_of [sample_decision CONTRACT_APPROVAL]" by (simp add: sample_waiting_def)
  moreover have "de_status (sample_decision CONTRACT_APPROVAL) = D_PENDING
      \<and> de_expires_at (sample_decision CONTRACT_APPROVAL) < clock_now ?s" by (simp add: sample_decision_def)
  ultimately show ?thesis
    using expired_decision_stays_pending [of "[(''decision_id'', JStr ''d'')]" "''d''" ?s] by auto
qed

end
