(* ===== verification/Results.thy ===== *)
theory Results
  imports Decisions
begin

text \<open>
  What a Run may write (\<open>application/service.py\<close>): the binding of a runtime credential to one
  Run, its epochs and its Task; \<open>_submit_result\<close> with late and superseded results; registration
  of result artifacts and criterion evidence.
\<close>

subsection \<open>The binding of a Run's writes\<close>

definition runtime_bound :: "AuthContext \<Rightarrow> AgentRunRow \<Rightarrow> bool" where
  "runtime_bound auth run \<longleftrightarrow>
    bound_task_id auth = Some (ar_task_id run) \<and> bound_run_id auth = Some (ar_run_id run)
    \<and> bound_fencing_epoch auth = Some (ar_fencing_epoch run)
    \<and> bound_grant_epoch auth = Some (ar_grant_epoch run)
    \<and> Some (actor_id auth) = ar_agent_instance_id run"

definition assert_run_write_binding :: "AuthContext \<Rightarrow> AgentRunRow \<Rightarrow> dict \<Rightarrow> bool \<Rightarrow> unit tx" where
  "assert_run_write_binding auth run payload require_fencing =
    andthen (svc_get_task (JStr (ar_task_id run))) (\<lambda>task.
    seq (assert_task_principal auth task) (
    seq (only_if require_fencing (seq (ensure (dhas payload ''fencing_epoch'') (ConflictError ''fencing_required'')) (
      andthen (need_int (dget payload ''fencing_epoch'')) (\<lambda>epoch.
      ensure (epoch = ar_fencing_epoch run) (ConflictError ''fencing_conflict''))))) (
    seq (ensure (dget payload ''task_id'' = JNull \<or> py_str (dget payload ''task_id'') = ar_task_id run) denied) (
    seq (ensure (dget payload ''run_id'' = JNull \<or> py_str (dget payload ''run_id'') = ar_run_id run) denied) (
    ensure (runtime_bound auth run) denied)))))"

definition is_stopped_run_result :: "AuthContext \<Rightarrow> AgentRunRow \<Rightarrow> bool" where
  "is_stopped_run_result auth run \<longleftrightarrow>
    actor_type auth = INTERNAL
    \<and> bound_task_id auth = Some (ar_task_id run) \<and> bound_run_id auth = Some (ar_run_id run)
    \<and> Some (actor_id auth) = ar_agent_instance_id run
    \<and> is_terminal_run (ar_status run)"

subsection \<open>Artifacts and evidence of a result\<close>

text \<open>A reference is a hash, or an object that carries one.\<close>

definition ref_hash :: "json \<Rightarrow> json tx" where
  "ref_hash ref =
    (case ref of
       JStr h \<Rightarrow> ret (JStr h)
     | _ \<Rightarrow> if truthy ref then andthen (as_obj ref) (\<lambda>d.
       ret (dget d ''hash'')) else ret JNull)"

definition result_refs :: "dict \<Rightarrow> json" where
  "result_refs result =
    jor (dget result ''verified_artifact_refs'') (jor (dget result ''artifact_refs'') (JList []))"

definition evidence_artifact :: "dict \<Rightarrow> json" where
  "evidence_artifact ev = jor (dget ev ''artifact_hash'') (dget ev ''artifact_ref'')"

definition register_artifact :: "string \<Rightarrow> string \<Rightarrow> string list \<Rightarrow> string \<Rightarrow> string list tx" where
  "register_artifact task_id run_id seen artifact_hash =
    (if artifact_hash \<in> set seen then ret seen
     else andthen now (\<lambda>ts.
       andthen (peek_run run_id) (\<lambda>run.
       andthen (get_artifact (task_id, artifact_hash)) (\<lambda>existing.
       seq (only_if (existing = None) (add_artifact \<lparr> af_task_id = task_id,
         af_artifact_hash = artifact_hash, af_work_unit_id = ar_work_unit_id run,
         af_run_id = Some run_id, af_result_ref = ar_result_ref run, af_verdict = None,
         af_artifact_uri = None, af_size_bytes = None, af_mime_type = None,
         af_source_path = None, af_created_at = ts \<rparr>)) (
       ret (artifact_hash # seen))))))"

definition resolve_registered_artifact :: "string \<Rightarrow> string \<Rightarrow> ArtifactRow tx" where
  "resolve_registered_artifact task_id artifact_hash =
    andthen (get_artifact (task_id, artifact_hash)) (\<lambda>row.
    the_or (PreconditionError ''unregistered_artifact'') row)"

definition register_evidence :: "env \<Rightarrow> string \<Rightarrow> string \<Rightarrow> string list \<Rightarrow> dict \<Rightarrow> string list tx" where
  "register_evidence E task_id run_id seen_criteria ev =
    (let cid = dget ev ''criterion_id'' in
    let artifact_hash = evidence_artifact ev in
    let verdict = dget ev ''verdict'' in
    (if \<not> truthy cid \<or> \<not> truthy artifact_hash \<or> \<not> truthy verdict then ret seen_criteria
      else seq (ensure (py_str cid \<notin> set seen_criteria) (PreconditionError ''duplicate_evidence'')) (
        andthen (resolve_registered_artifact task_id (py_str artifact_hash)) (\<lambda>art.
        andthen (select_evidence (\<lambda>a. ae_task_id a = task_id \<and> ae_run_id a = Some run_id
          \<and> ae_criterion_id a = py_str cid)) (\<lambda>existing.
        seq (only_if (existing = []) (andthen now (\<lambda>ts.
          andthen (peek_run run_id) (\<lambda>run.
          andthen (new_id E ''aev'') (\<lambda>evidence_id.
          andthen (next_event_seq task_id) (\<lambda>seq_no.
          add_evidence \<lparr> ae_evidence_id = evidence_id, ae_task_id = task_id,
            ae_criterion_id = py_str cid, ae_artifact_hash = py_str artifact_hash,
            ae_work_unit_id = ar_work_unit_id run, ae_run_id = Some run_id,
            ae_result_ref = ar_result_ref run, ae_verdict = py_str verdict,
            ae_sequence_no = seq_no, ae_created_at = ts \<rparr>)))))) (
        ret (py_str cid # seen_criteria)))))))"

definition register_result_artifacts :: "env \<Rightarrow> string \<Rightarrow> string \<Rightarrow> dict \<Rightarrow> bool \<Rightarrow> unit tx" where
  "register_result_artifacts E task_id run_id result apply_to_work_unit =
    andthen (elems (result_refs result)) (\<lambda>refs.
    andthen (collect refs ref_hash) (\<lambda>ref_hashes.
    andthen (elems (jor (dget result ''acceptance_evidence'') (JList []))) (\<lambda>evs.
    andthen (collect evs as_obj) (\<lambda>ev_objs.
    let hashes = map py_str (filter truthy (ref_hashes @ map evidence_artifact ev_objs)) in
    andthen (accumulate hashes [] (register_artifact task_id run_id)) (\<lambda>seen.
    seq flush (
    (if \<not> apply_to_work_unit then ret ()
      else andthen (accumulate ev_objs [] (register_evidence E task_id run_id)) (\<lambda>crits.
        ret ()))))))))"

subsection \<open>Is the assignment still current?\<close>

fun find_node :: "json list \<Rightarrow> string \<Rightarrow> json option tx" where
  "find_node [] wid = ret None"
| "find_node (n # ns) wid =
  andthen (need (entries n) ''work_unit_id'') (\<lambda>v.
  (if v = JStr wid then ret (Some n) else find_node ns wid))"

definition node_spec_current :: "AgentRunRow \<Rightarrow> json option \<Rightarrow> bool tx" where
  "node_spec_current run node =
    (case node of
       None \<Rightarrow> ret False
     | Some n \<Rightarrow>
        (case ar_work_unit_spec_version run of
           None \<Rightarrow> ret True
         | Some v \<Rightarrow> andthen (need_int (jor (jget n ''spec_version'') (JInt 1))) (\<lambda>nv.
           ret (nv = v))))"

definition assignment_current :: "string \<Rightarrow> AgentRunRow \<Rightarrow> string \<Rightarrow> bool tx" where
  "assignment_current task_id run wid =
    andthen (get_wu wid) (\<lambda>wu_row.
    (case wu_row of
        None \<Rightarrow> ret False
      | Some wu \<Rightarrow>
         (if (case ar_work_unit_spec_version run of None \<Rightarrow> False | Some v \<Rightarrow> v \<noteq> wu_spec_version wu)
          then ret False
          else if is_set (wu_active_run_id wu) \<and> wu_active_run_id wu \<noteq> Some (ar_run_id run)
          then ret False
          else andthen (get_plan_marker task_id) (\<lambda>marker.
            (case marker of
               None \<Rightarrow> ret True
             | Some m \<Rightarrow> andthen (select_plan (\<lambda>p. pl_task_id p = task_id
                   \<and> pl_plan_version p = apm_plan_version m)) (\<lambda>rows.
               (case first_of rows of
                    None \<Rightarrow> ret True
                  | Some plan \<Rightarrow> andthen (elems (pl_nodes_json plan)) (\<lambda>nodes.
                    andthen (find_node nodes wid) (\<lambda>node.
                    node_spec_current run node)))))))))"

subsection \<open>Late results\<close>

definition late_success :: "string \<Rightarrow> CommandResult" where
  "late_success run_id = success [(''run_id'', JStr run_id), (''late_arrival'', JBool True),
     (''accepted_as_history'', JBool True)]"

definition result_ref_of :: "env \<Rightarrow> dict \<Rightarrow> string tx" where
  "result_ref_of E payload =
    (if truthy (dget payload ''result_ref'') then ret (py_str (dget payload ''result_ref''))
     else new_id E ''res'')"

text \<open>The executor was stopped: the result is recorded as history and changes nothing else.\<close>

definition late_after_stop :: "AuthContext \<Rightarrow> dict \<Rightarrow> string \<Rightarrow> string \<Rightarrow> CommandResult tx" where
  "late_after_stop auth payload task_id run_id =
    seq (upd_run run_id (\<lambda>r. r\<lparr> ar_late_arrival := True,
       ar_result_json := Some (jor (dget payload ''result'') (JObj [])) \<rparr>)) (
    andthen (peek_run run_id) (\<lambda>run.
    seq (append_event task_id ''run.late_result_after_stop'' (Some (actor_id auth))
       [(''run_id'', JStr run_id), (''reason'', JStr (or_else (ar_terminal_reason run) ''stopped''))]) (
    ret (late_success run_id))))"

text \<open>Another Run holds the work unit.\<close>

definition late_if_displaced :: "AuthContext \<Rightarrow> dict \<Rightarrow> string \<Rightarrow> AgentRunRow \<Rightarrow> string
    \<Rightarrow> CommandResult option tx" where
  "late_if_displaced auth payload task_id run wid =
    andthen (get_wu wid) (\<lambda>wu_row.
    (case (case wu_row of None \<Rightarrow> None | Some w \<Rightarrow>
          if is_set (wu_active_run_id w) \<and> wu_active_run_id w \<noteq> Some (ar_run_id run)
          then wu_active_run_id w else None) of
        Some active \<Rightarrow> seq (upd_run (ar_run_id run) (\<lambda>r. r\<lparr> ar_late_arrival := True,
            ar_result_json := Some (jor (dget payload ''result'') (JObj [])) \<rparr>)) (
          seq (append_event task_id ''run.late_result'' (Some (actor_id auth))
            [(''run_id'', JStr (ar_run_id run)), (''active_run_id'', JStr active)]) (
          ret (Some (late_success (ar_run_id run)))))
      | None \<Rightarrow> andthen (get_exec_marker wid) (\<lambda>marker.
        (if (case marker of None \<Rightarrow> False | Some m \<Rightarrow> aem_run_id m \<noteq> ar_run_id run) then seq (upd_run (ar_run_id run) (\<lambda>r. r\<lparr> ar_late_arrival := True \<rparr>)) (
          ret (Some (late_success (ar_run_id run)))) else ret None))))"

text \<open>The work unit was redefined or removed meanwhile.\<close>

definition late_superseded :: "env \<Rightarrow> AuthContext \<Rightarrow> dict \<Rightarrow> dict \<Rightarrow> string \<Rightarrow> string \<Rightarrow> string
    \<Rightarrow> CommandResult tx" where
  "late_superseded E auth payload result task_id run_id wid =
    andthen now (\<lambda>ts.
    andthen (result_ref_of E payload) (\<lambda>result_ref.
    seq (upd_run run_id (\<lambda>r. r\<lparr> ar_late_arrival := True, ar_result_json := Some (JObj result),
       ar_result_ref := Some result_ref \<rparr>)) (
    andthen (peek_run run_id) (\<lambda>run.
    seq (only_if (\<not> is_terminal_run (ar_status run)) (andthen (lift_exn (transition_run (ar_status run) ''succeed'')) (\<lambda>st.
      upd_run run_id (\<lambda>r. r\<lparr> ar_status := st, ar_finished_at := Some ts \<rparr>)))) (
    andthen (get_exec_marker wid) (\<lambda>marker.
    seq (only_if (case marker of None \<Rightarrow> False | Some m \<Rightarrow> aem_run_id m = run_id) (drop_exec_marker wid)) (
    andthen (get_wu wid) (\<lambda>wu.
    seq (only_if (case wu of None \<Rightarrow> False | Some w \<Rightarrow> wu_active_run_id w = Some run_id)
       (upd_wu wid (\<lambda>x. x\<lparr> wu_active_run_id := None \<rparr>))) (
    seq (register_result_artifacts E task_id run_id result False) (
    seq (append_event task_id ''run.late_result'' (Some (actor_id auth))
       [(''run_id'', JStr run_id), (''reason'', JStr ''assignment_superseded''),
        (''work_unit_spec_version'', jint_opt (ar_work_unit_spec_version run))]) (
    ret (success [(''run_id'', JStr run_id), (''late_arrival'', JBool True),
       (''accepted_as_history'', JBool True), (''assignment_current'', JBool False)]))))))))))))"

subsection \<open>A result that counts\<close>

text \<open>The first referenced hash whose content the Core holds.\<close>

fun first_backed :: "string \<Rightarrow> json list \<Rightarrow> string option tx" where
  "first_backed task_id [] = ret None"
| "first_backed task_id (ref # refs) =
  andthen (ref_hash ref) (\<lambda>candidate.
  (if \<not> truthy candidate then first_backed task_id refs
      else andthen (get_artifact (task_id, py_str candidate)) (\<lambda>row.
        (if (case row of None \<Rightarrow> False | Some a \<Rightarrow> is_set (af_artifact_uri a))
         then ret (Some (py_str candidate))
         else first_backed task_id refs))))"

definition join_blockers :: "dict \<Rightarrow> string tx" where
  "join_blockers result =
    andthen (elems (jor (dget result ''blockers'') (JList [JStr ''blocked'']))) (\<lambda>xs.
    andthen (collect xs (\<lambda>x. case x of JStr t \<Rightarrow> ret t | _ \<Rightarrow> raise ValueError)) (\<lambda>strs.
    ret (join '','' strs)))"

definition maybe_advance_verify_task_state :: "string \<Rightarrow> string \<Rightarrow> dict \<Rightarrow> json \<Rightarrow> unit tx" where
  "maybe_advance_verify_task_state task_id wid result outcome =
    (if outcome = JStr ''BLOCKED'' then ret ()
     else andthen (peek_wu wid) (\<lambda>wu.
       andthen (select_wu_spec (\<lambda>w. wsp_work_unit_id w = wid \<and> wsp_spec_version w = wu_spec_version wu)) (\<lambda>specs.
       (if (case first_of specs of None \<Rightarrow> True
            | Some w \<Rightarrow> map upper_char (wsp_work_type w) \<noteq> ''VERIFY'') then ret ()
        else handle (andthen (peek_task task_id) (\<lambda>task0.
          seq (only_if (tk_state task0 = EXECUTING) (set_task_state task_id ''required_outputs.ready'' None)) (
          andthen (peek_task task_id) (\<lambda>task.
          only_if (dget result ''verdict'' = JStr ''FAIL'' \<and> tk_state task = VERIFYING)
              (set_task_state task_id ''verification.failed'' None))))) (\<lambda>e. if is_domain_error e then ret () else raise e)))))"

definition complete_work_unit :: "env \<Rightarrow> string \<Rightarrow> string \<Rightarrow> dict \<Rightarrow> json \<Rightarrow> string \<Rightarrow> unit tx" where
  "complete_work_unit E task_id run_id result outcome wid =
    andthen (get_wu wid) (\<lambda>wu_row.
    andthen (the_or AssertionError wu_row) (\<lambda>wu.
    seq (register_result_artifacts E task_id run_id result (outcome \<noteq> JStr ''BLOCKED'')) (
    seq (if outcome = JStr ''BLOCKED'' then andthen (lift_exn (transition_work_unit W_RUNNING ''run.blocked'')) (\<lambda>st.
      andthen (join_blockers result) (\<lambda>reason.
      upd_wu wid (\<lambda>x. x\<lparr> wu_status := st, wu_blocked_reason := Some reason \<rparr>))) else andthen (lift_exn (transition_work_unit W_RUNNING ''run.completed'')) (\<lambda>st.
        andthen (peek_run run_id) (\<lambda>run.
        seq (upd_wu wid (\<lambda>x. x\<lparr> wu_status := st, wu_selected_result_ref := ar_result_ref run,
          wu_selected_verdict := opt_str (dget result ''verdict'') \<rparr>)) (
        andthen (elems (result_refs result)) (\<lambda>refs.
        andthen (first_backed task_id refs) (\<lambda>backed.
        (case backed of None \<Rightarrow> ret () | Some h \<Rightarrow>
           upd_wu wid (\<lambda>x. x\<lparr> wu_verified_artifact_hash := Some h \<rparr>)))))))) (
    seq (upd_wu wid (\<lambda>x. x\<lparr> wu_active_run_id := None \<rparr>)) (
    andthen (get_exec_marker wid) (\<lambda>marker.
    seq (only_if (marker \<noteq> None) (drop_exec_marker wid)) (
    maybe_advance_verify_task_state task_id wid result outcome)))))))"

definition deliver_result_message :: "AuthContext \<Rightarrow> string \<Rightarrow> string \<Rightarrow> dict \<Rightarrow> json \<Rightarrow> unit tx" where
  "deliver_result_message auth task_id run_id result outcome =
    andthen now (\<lambda>ts.
    andthen (peek_run run_id) (\<lambda>run.
    andthen (stored_message (\<lambda>m. tm_task_id m = task_id)) (\<lambda>msgs.
    add_message \<lparr> tm_task_id = task_id, tm_sequence_no = next_seq (map tm_sequence_no msgs),
       tm_sender_run_id = Some run_id, tm_sender_actor = Some (actor_id auth),
       tm_kind = (if ar_assignment_kind run = EXECUTE then ''worker.result'' else ''plan.result''),
       tm_body_json = JObj [(''run_id'', JStr run_id), (''work_unit_id'', jopt (ar_work_unit_id run)),
         (''outcome'', outcome), (''verdict'', dget result ''verdict''),
         (''artifact_refs'', jor (dget result ''artifact_refs'') (JList []))],
       tm_created_at = ts \<rparr>)))"

definition apply_result :: "env \<Rightarrow> AuthContext \<Rightarrow> dict \<Rightarrow> dict \<Rightarrow> string \<Rightarrow> string \<Rightarrow> CommandResult tx" where
  "apply_result E auth payload result task_id run_id =
    andthen now (\<lambda>ts.
    let outcome = jor (dget result ''outcome'') (JStr ''COMPLETED'') in
    andthen (result_ref_of E payload) (\<lambda>result_ref.
    andthen (peek_run run_id) (\<lambda>run.
    andthen (lift_exn (transition_run (ar_status run) ''succeed'')) (\<lambda>st.
    seq (upd_run run_id (\<lambda>r. r\<lparr> ar_result_json := Some (JObj result), ar_result_ref := Some result_ref,
       ar_status := st, ar_finished_at := Some ts \<rparr>)) (
    seq (when_set (ar_work_unit_id run) (complete_work_unit E task_id run_id result outcome)) (
    seq (only_if (ar_assignment_kind run = PLAN) (clear_run_occupancy run_id True)) (
    andthen (peek_run run_id) (\<lambda>after.
    seq (only_if (\<not> ar_late_arrival after) (deliver_result_message auth task_id run_id result outcome)) (
    seq (append_event task_id ''work.result.submitted'' (Some (actor_id auth))
       [(''run_id'', JStr run_id), (''outcome'', outcome), (''verdict'', dget result ''verdict'')]) (
    ret (success [(''run_id'', JStr run_id), (''status'', JStr (run_status_str (ar_status after))),
       (''work_unit_id'', jopt (ar_work_unit_id after)), (''verdict'', dget result ''verdict''),
       (''workspace_released'', JBool False)])))))))))))"

definition submit_result :: "env \<Rightarrow> AuthContext \<Rightarrow> dict \<Rightarrow> CommandResult tx" where
  "submit_result E auth payload =
    andthen (need payload ''run_id'') (\<lambda>rid.
    andthen (by_key get_run rid) (\<lambda>run_row.
    andthen (the_or (NotFoundError ''run_not_found'') run_row) (\<lambda>run.
    let run_id = ar_run_id run in
    andthen (svc_get_task (JStr (ar_task_id run))) (\<lambda>task.
    let task_id = tk_task_id task in
    (if is_stopped_run_result auth run then late_after_stop auth payload task_id run_id
      else seq (assert_run_write_binding auth run payload True) (
        andthen (if is_set (ar_work_unit_id run)
          then late_if_displaced auth payload task_id run (or_else (ar_work_unit_id run) [])
          else ret None) (\<lambda>displaced.
        (case displaced of
           Some r \<Rightarrow> ret r
         | None \<Rightarrow> seq (ensure (\<not> is_terminal_run (ar_status run)) (PreconditionError ''run_terminal'')) (
           andthen (as_obj (jor (dget payload ''result'') (JObj []))) (\<lambda>result.
           andthen (if is_set (ar_work_unit_id run)
               then assignment_current task_id run (or_else (ar_work_unit_id run) [])
               else ret True) (\<lambda>current.
           (if \<not> current
              then late_superseded E auth payload result task_id run_id (or_else (ar_work_unit_id run) [])
              else apply_result E auth payload result task_id run_id))))))))))))"

subsection \<open>The frame\<close>

context service_frame
begin


lemma keeps_binding [frame_intro]:
  "keeps R (assert_run_write_binding auth run payload f)"
  "keeps R (resolve_registered_artifact task_id h)"
  "keeps R (register_artifact task_id run_id seen h)"
  "keeps R (result_ref_of E payload)"
  unfolding assert_run_write_binding_def resolve_registered_artifact_def register_artifact_def
    result_ref_of_def
  by (intro keeps_struct frame_intro)+

lemma keeps_ref_hash [frame_intro]: "keeps R (ref_hash ref)"
  unfolding ref_hash_def
  by (cases ref; simp only: json.case; intro keeps_struct frame_intro)

lemma keeps_register_evidence [frame_intro]:
  "keeps R (register_evidence E task_id run_id seen ev)"
  unfolding register_evidence_def by (intro keeps_struct frame_intro)

lemma keeps_register_result_artifacts [frame_intro]:
  "keeps R (register_result_artifacts E task_id run_id result ap)"
  unfolding register_result_artifacts_def by (intro keeps_struct frame_intro)

lemma keeps_find_node [frame_intro]: "keeps R (find_node ns wid)"
proof (induction ns)
  case (Cons n ns)
  show ?case unfolding find_node.simps by (intro keeps_struct frame_intro Cons.IH)
qed (simp only: find_node.simps keeps_struct)

lemma keeps_first_backed [frame_intro]: "keeps R (first_backed task_id refs)"
proof (induction refs)
  case (Cons r refs)
  show ?case unfolding first_backed.simps by (intro keeps_struct frame_intro Cons.IH)
qed (simp only: first_backed.simps keeps_struct)

lemma keeps_join_blockers [frame_intro]: "keeps R (join_blockers result)"
proof -
  have "keeps R (case x of JStr t \<Rightarrow> ret t | _ \<Rightarrow> raise ValueError)" for x
    by (cases x) (simp_all only: json.case keeps_struct)
  then show ?thesis unfolding join_blockers_def by (intro keeps_struct frame_intro)
qed

lemma keeps_assignment_current [frame_intro]:
  "keeps R (assignment_current task_id run wid)"
  "keeps R (late_after_stop auth payload task_id rid)"
  "keeps R (late_if_displaced auth payload task_id run wid)"
  "keeps R (late_superseded E auth payload result task_id rid wid)"
  "keeps R (maybe_advance_verify_task_state task_id wid result outcome)"
  "keeps R (deliver_result_message auth task_id rid result outcome)"
  unfolding assignment_current_def node_spec_current_def late_after_stop_def late_if_displaced_def
    late_superseded_def maybe_advance_verify_task_state_def deliver_result_message_def
  by (intro keeps_struct frame_intro; simp add: row_le_defs)+

lemma keeps_complete_work_unit [frame_intro]:
  "keeps R (complete_work_unit E task_id rid result outcome wid)"
  unfolding complete_work_unit_def by (intro keeps_struct frame_intro)

lemma keeps_apply_result [frame_intro]:
  "keeps R (apply_result E auth payload result task_id rid)"
  unfolding apply_result_def by (intro keeps_struct frame_intro; simp add: row_le_defs)

lemma keeps_submit_result [frame_intro]: "keeps R (submit_result E auth payload)"
  unfolding submit_result_def by (intro keeps_struct frame_intro)

end

subsection \<open>What a result guarantees\<close>

lemma readonly_binding [frame_intro]: "keeps (=) (assert_run_write_binding auth run payload f)"
  unfolding assert_run_write_binding_def by (intro readonly.keeps_struct frame_intro)

text \<open>
  A Run writes only as itself. The binding check passes exactly when the Run's Task exists and
  belongs to the caller's principal; the payload carries the Run's fencing epoch where one is
  required; the task and run id of the payload, where present, are the Run's; and the credential is
  bound to this Task, Run, fencing epoch, grant epoch and executor instance. It writes nothing.
\<close>

theorem run_write_binding_iff:
  "assert_run_write_binding auth run payload require_fencing s = (Inr u, t) \<longleftrightarrow>
    t = s \<and> (\<exists>task. t_get tk_task_id (ar_task_id run) (tasks s) = Some task
        \<and> principal_id auth = tk_principal_id task)
    \<and> (require_fencing \<longrightarrow> dhas payload ''fencing_epoch''
        \<and> py_int (dget payload ''fencing_epoch'') = Some (ar_fencing_epoch run))
    \<and> (dget payload ''task_id'' = JNull \<or> py_str (dget payload ''task_id'') = ar_task_id run)
    \<and> (dget payload ''run_id'' = JNull \<or> py_str (dget payload ''run_id'') = ar_run_id run)
    \<and> bound_task_id auth = Some (ar_task_id run) \<and> bound_run_id auth = Some (ar_run_id run)
    \<and> bound_fencing_epoch auth = Some (ar_fencing_epoch run)
    \<and> bound_grant_epoch auth = Some (ar_grant_epoch run)
    \<and> Some (actor_id auth) = ar_agent_instance_id run"
  unfolding assert_run_write_binding_def assert_task_principal_def runtime_bound_def
  by (cases require_fencing) (auto simp: andthen_Inr_iff seq_Inr_iff svc_get_task_Inr)

theorem run_write_binding_iff_witness:
  "assert_run_write_binding (sample_runtime ''t'' ''r'') (sample_run R_RUNNING)
     [(''fencing_epoch'', JInt 1), (''run_id'', JStr ''r'')] True (sample_running R_RUNNING)
   = (Inr (), sample_running R_RUNNING)"
proof -
  have "t_get tk_task_id ''t'' (tasks (sample_running R_RUNNING)) = Some (sample_task EXECUTING)" by code_simp
  then show ?thesis unfolding run_write_binding_iff
    by (simp add: sample_run_def sample_runtime_def sample_task_def dhas_def dget_def runtime_bound_def)
qed

lemma flush_all_runs: "clean s \<Longrightarrow> flush_all (s\<lparr> runs := x \<rparr>) = s\<lparr> runs := t_flush x \<rparr>"
  by (simp add: flush_all_def clean_def t_flush_clean)

text \<open>
  The result of a stopped Run is history. When the runtime of a Run that is over submits a
  result, the answer says so and the only writes are the Run's own result and late flag and one
  event: no work unit, Task, workspace, artifact or evidence changes.
\<close>

theorem stopped_result_is_history:
  assumes run: "submit_result E auth payload s = (Inr r, t)" and clean: "clean s"
    and rid: "map_of payload ''run_id'' = Some (JStr rid)" "t_get ar_run_id rid (runs s) = Some row"
    and stopped: "is_stopped_run_result auth row"
  shows "(\<exists>rows evs. t = s\<lparr> runs := rows, events := evs \<rparr>)
    \<and> t_peek ar_run_id rid (runs t) = Some (row\<lparr> ar_late_arrival := True,
         ar_result_json := Some (jor (dget payload ''result'') (JObj [])) \<rparr>)
    \<and> r = late_success rid"
proof -
  have id: "ar_run_id row = rid" using t_get_in [OF rid(2)] by simp
  let ?f = "\<lambda>x. x\<lparr> ar_late_arrival := True, ar_result_json := Some (jor (dget payload ''result'') (JObj [])) \<rparr>"
  let ?s1 = "s\<lparr> runs := t_upd ar_run_id rid ?f (runs s) \<rparr>"
  from run rid stopped obtain task :: TaskRow and p where
      ev: "append_event (tk_task_id task) ''run.late_result_after_stop'' (Some (actor_id auth)) p ?s1 = (Inr (), t)"
    and r: "r = late_success rid"
    unfolding submit_result_def late_after_stop_def
    by (clarsimp simp: andthen_Inr_iff seq_Inr_iff svc_get_task_Inr Let_def id)
  have runs_clean: "t_clean (runs s)" using clean by (simp add: clean_def)
  then have peek: "t_peek ar_run_id rid (runs s) = Some row" using rid by (simp add: t_peek_clean)
  from append_event_Inr [OF ev] obtain e where
      "t = s\<lparr> runs := t_flush (t_upd ar_run_id rid ?f (runs s)) \<rparr>\<lparr> events := t_add e (events s) \<rparr>"
    using flush_all_runs [OF clean] by auto
  moreover have "t_peek ar_run_id rid (t_flush (t_upd ar_run_id rid ?f (runs s))) = Some (?f row)"
    using runs_clean peek by (simp add: t_peek_flush t_kept t_peek_upd)
  ultimately show ?thesis using r by auto
qed

theorem stopped_result_is_history_witness:
  "wus (snd (submit_result sample_env (sample_runtime ''t'' ''r'') [(''run_id'', JStr ''r'')]
      (sample_running R_CANCELLED))) = wus (sample_running R_CANCELLED)"
proof -
  let ?s = "sample_running R_CANCELLED"
  let ?m = "submit_result sample_env (sample_runtime ''t'' ''r'') [(''run_id'', JStr ''r'')]"
  have "case fst (?m ?s) of Inl e \<Rightarrow> False | Inr r \<Rightarrow> cr_ok r" by code_simp
  then obtain r where r: "?m ?s = (Inr r, snd (?m ?s))" by (cases "?m ?s") (auto split: sum.splits)
  have clean: "clean ?s"
    by (simp add: clean_def sample_running_def sample_db_def init_sess_def) (simp add: t_clean_def)
  have row: "t_get ar_run_id ''r'' (runs ?s) = Some (sample_run R_CANCELLED)" by code_simp
  have stopped: "is_stopped_run_result (sample_runtime ''t'' ''r'') (sample_run R_CANCELLED)" by code_simp
  obtain rows evs where "snd (?m ?s) = ?s\<lparr> runs := rows, events := evs \<rparr>"
    using stopped_result_is_history [OF r clean _ row stopped] by auto
  then show ?thesis by simp
qed

text \<open>Two sessions whose work units and Runs are the same, or the same after a flush.\<close>

definition same_units :: "sess \<Rightarrow> sess \<Rightarrow> bool" where
  "same_units s t \<longleftrightarrow> (wus t = wus s \<or> wus t = t_flush (wus s)) \<and> (runs t = runs s \<or> runs t = t_flush (runs s))"

lemma t_flush_twice [simp]: "t_flush (t_flush x) = t_flush x"
  by (rule t_flush_clean) simp

interpretation units: frame same_units
  by unfold_locales (auto simp: same_units_def)

lemma units_calls:
  "keeps same_units flush" "keeps same_units (new_id E p)" "keeps same_units (add_artifact a)"
  "keeps same_units (add_evidence e)" "keeps same_units (upd_task k f)"
  unfolding flush_def new_id_def add_artifact_def add_evidence_def upd_task_def
  by (auto simp: keeps_def same_units_def flush_all_def)

lemma readonly_results [frame_intro]:
  "keeps (=) (next_event_seq tid)" "keeps (=) (resolve_registered_artifact tid h)"
  unfolding next_event_seq_def resolve_registered_artifact_def
  by (intro readonly.keeps_struct frame_intro)+

lemma readonly_ref_hash [frame_intro]: "keeps (=) (ref_hash ref)"
  unfolding ref_hash_def by (cases ref; simp only: json.case; intro readonly.keeps_struct frame_intro)

lemma units_set_task_state: "keeps same_units (set_task_state tid e reason)"
  unfolding set_task_state_def
  by (intro units.keeps_struct units_calls units.keeps_readonly frame_intro)

lemma units_register: "keeps same_units (register_result_artifacts E tid rid result ap)"
  unfolding register_result_artifacts_def register_artifact_def register_evidence_def Let_def
  by (intro units.keeps_struct units_calls units.keeps_readonly frame_intro)

lemma units_advance: "keeps same_units (maybe_advance_verify_task_state tid wid result outcome)"
  unfolding maybe_advance_verify_task_state_def
  by (intro units.keeps_struct units_calls units_set_task_state units.keeps_readonly frame_intro)

lemma units_peek:
  "same_units s t \<Longrightarrow> list_all (\<lambda>c. \<not> dropped c) (wus s) \<Longrightarrow>
    t_peek wu_work_unit_id k (wus t) = t_peek wu_work_unit_id k (wus s) \<and> list_all (\<lambda>c. \<not> dropped c) (wus t)"
  "same_units s t \<Longrightarrow> list_all (\<lambda>c. \<not> dropped c) (runs s) \<Longrightarrow>
    t_peek ar_run_id k (runs t) = t_peek ar_run_id k (runs s)"
  by (auto simp: same_units_def t_peek_flush) (simp add: t_flush_def list_all_iff)+

lemma readonly_first_backed [frame_intro]: "keeps (=) (first_backed tid refs)"
proof (induction refs)
  case (Cons ref refs)
  show ?case unfolding first_backed.simps by (intro readonly.keeps_struct frame_intro Cons.IH)
qed (simp only: first_backed.simps readonly.keeps_struct)

lemma readonly_join_blockers [frame_intro]: "keeps (=) (join_blockers result)"
proof -
  have "keeps (=) (case x of JStr t \<Rightarrow> ret t | _ \<Rightarrow> raise ValueError)" for x
    by (cases x) (simp_all only: json.case readonly.keeps_struct)
  then show ?thesis unfolding join_blockers_def by (intro readonly.keeps_struct frame_intro)
qed

text \<open>
  A result that counts settles its work unit: the unit ends BLOCKED when the outcome is BLOCKED
  and DONE otherwise, with the Run's result and the reported verdict selected; no Run is active in it
  any more, and its marker is gone from what the next flush writes.
\<close>

theorem result_settles_unit:
  assumes run: "complete_work_unit E tid rid result outcome wid s = (Inr (), t)" and clean: "t_clean (wus s)"
    and row: "t_peek ar_run_id rid (runs s) = Some row" "list_all (\<lambda>c. \<not> dropped c) (runs s)"
  shows "\<exists>w. t_peek wu_work_unit_id wid (wus t) = Some w \<and> wu_active_run_id w = None
    \<and> wu_status w = (if outcome = JStr ''BLOCKED'' then W_BLOCKED else W_DONE)
    \<and> (outcome \<noteq> JStr ''BLOCKED'' \<longrightarrow> wu_selected_verdict w = opt_str (dget result ''verdict'')
         \<and> wu_selected_result_ref w = ar_result_ref row)"
proof -
  from run obtain w0 :: WorkUnitExecutionRow and s1 where w0: "t_get wu_work_unit_id wid (wus s) = Some w0"
      and s1: "register_result_artifacts E tid rid result (outcome \<noteq> JStr ''BLOCKED'') s = (Inr (), s1)"
    unfolding complete_work_unit_def by (clarsimp simp: andthen_Inr_iff seq_Inr_iff)
  have kept: "list_all (\<lambda>c. \<not> dropped c) (wus s)" using clean by (rule t_clean_kept)
  have peek1: "t_peek wu_work_unit_id wid (wus s1) = Some w0" "list_all (\<lambda>c. \<not> dropped c) (wus s1)"
    using units_peek(1) [OF units.keepsD [OF units_register s1] kept] w0 clean by (simp_all add: t_peek_clean)
  have row1: "t_peek ar_run_id rid (runs s1) = Some row"
    using units_peek(2) [OF units.keepsD [OF units_register s1] row(2)] row(1) by simp
  have w_states: "transition_work_unit W_RUNNING ''run.blocked'' = Inr W_BLOCKED"
      "transition_work_unit W_RUNNING ''run.completed'' = Inr W_DONE" by code_simp+
  have end_unit: ?thesis if "maybe_advance_verify_task_state tid wid result outcome s2 = (Inr (), t)"
      "t_peek wu_work_unit_id wid (wus s2) = Some w" "list_all (\<lambda>c. \<not> dropped c) (wus s2)" "wu_active_run_id w = None"
      "wu_status w = (if outcome = JStr ''BLOCKED'' then W_BLOCKED else W_DONE)"
      "outcome \<noteq> JStr ''BLOCKED'' \<longrightarrow> wu_selected_verdict w = opt_str (dget result ''verdict'')
         \<and> wu_selected_result_ref w = ar_result_ref row" for s2 w
    using that units_peek(1) [OF units.keepsD [OF units_advance that(1)] that(3)] by auto
  show ?thesis
  proof (cases "outcome = JStr ''BLOCKED''")
    case True
    with run w0 s1 obtain s2 reason where
        s2: "maybe_advance_verify_task_state tid wid result outcome s2 = (Inr (), t)"
      and wus: "wus s2 = t_upd wu_work_unit_id wid (\<lambda>x. x\<lparr> wu_active_run_id := None \<rparr>)
        (t_upd wu_work_unit_id wid (\<lambda>x. x\<lparr> wu_status := W_BLOCKED, wu_blocked_reason := Some reason \<rparr>) (wus s1))"
      unfolding complete_work_unit_def
      by (clarsimp simp: andthen_Inr_iff seq_Inr_iff w_states readonly_iff [OF readonly_join_blockers])
        (auto simp: only_if_def split: if_splits)
    show ?thesis by (rule end_unit [OF s2]) (auto simp: wus t_peek_upd t_upd_kept peek1 True)
  next
    case False
    let ?done = "t_upd wu_work_unit_id wid (\<lambda>x. x\<lparr> wu_status := W_DONE, wu_selected_result_ref := ar_result_ref row,
        wu_selected_verdict := opt_str (dget result ''verdict'') \<rparr>) (wus s1)"
    from False run w0 s1 row1 obtain s2 mid where
        s2: "maybe_advance_verify_task_state tid wid result outcome s2 = (Inr (), t)"
      and wus: "wus s2 = t_upd wu_work_unit_id wid (\<lambda>x. x\<lparr> wu_active_run_id := None \<rparr>) mid"
      and mid: "mid = ?done \<or> (\<exists>h. mid = t_upd wu_work_unit_id wid (\<lambda>x. x\<lparr> wu_verified_artifact_hash := Some h \<rparr>) ?done)"
      unfolding complete_work_unit_def
      by (clarsimp simp: andthen_Inr_iff seq_Inr_iff w_states elems_def readonly_iff [OF readonly_first_backed])
        (fastforce simp: only_if_def split: if_splits option.splits)
    from mid show ?thesis
    proof (elim disjE exE)
      assume "mid = ?done"
      then show ?thesis by (intro end_unit [OF s2]) (auto simp: wus t_peek_upd t_upd_kept peek1 False)
    next
      fix h assume "mid = t_upd wu_work_unit_id wid (\<lambda>x. x\<lparr> wu_verified_artifact_hash := Some h \<rparr>) ?done"
      then show ?thesis by (intro end_unit [OF s2]) (auto simp: wus t_peek_upd t_upd_kept peek1 False)
    qed
  qed
qed

theorem result_settles_unit_witness:
  "\<exists>w. t_peek wu_work_unit_id ''w'' (wus (snd (complete_work_unit sample_env ''t'' ''r'' [] (JStr ''COMPLETED'') ''w''
      (sample_running R_SUCCEEDED)))) = Some w \<and> wu_status w = W_DONE"
proof -
  let ?m = "complete_work_unit sample_env ''t'' ''r'' [] (JStr ''COMPLETED'') ''w''"
  let ?s = "sample_running R_SUCCEEDED"
  have run: "?m ?s = (Inr (), snd (?m ?s))" by (rule run_result) code_simp
  have clean: "t_clean (wus ?s)" "list_all (\<lambda>c. \<not> dropped c) (runs ?s)" by code_simp+
  have row: "t_peek ar_run_id ''r'' (runs ?s) = Some (sample_run R_SUCCEEDED)" by code_simp
  from result_settles_unit [OF run clean(1) row clean(2)] show ?thesis by auto
qed

end
