(* ===== verification/Acceptance.thy ===== *)
theory Acceptance
  imports Results
begin

text \<open>
  Preparing the final acceptance (\<open>application/service.py\<close>): the hashes the plan currently
  delivers, the evidence per criterion, and \<open>_prepare_acceptance\<close>, which freezes them into a
  snapshot and opens the acceptance decision.
\<close>

subsection \<open>Current deliveries\<close>

definition one_or_none :: "'r list \<Rightarrow> 'r option tx" where
  "one_or_none rows = (case rows of [] \<Rightarrow> ret None | [r] \<Rightarrow> ret (Some r) | _ \<Rightarrow> raise AssertionError)"

definition strict_ref_hash :: "json \<Rightarrow> json tx" where
  "strict_ref_hash ref =
    (case ref of JStr h \<Rightarrow> ret (JStr h) | _ \<Rightarrow> andthen (as_obj ref) (\<lambda>d.
      ret (dget d ''hash'')))"

definition node_deliveries :: "string list \<Rightarrow> json \<Rightarrow> string list tx" where
  "node_deliveries hashes node =
    andthen (need (entries node) ''work_unit_id'') (\<lambda>wid.
    andthen (by_key get_wu wid) (\<lambda>wu_row.
    (case wu_row of
        None \<Rightarrow> ret hashes
      | Some wu \<Rightarrow>
         (if wu_status wu \<noteq> W_DONE \<or> \<not> is_set (wu_selected_result_ref wu) then ret hashes
          else andthen (select_run (\<lambda>r. ar_work_unit_id r = Some (wu_work_unit_id wu)
              \<and> ar_result_ref r = wu_selected_result_ref wu)) (\<lambda>rows.
            andthen (one_or_none rows) (\<lambda>run.
            (case run of
               None \<Rightarrow> ret hashes
             | Some r \<Rightarrow> (let result = entries (case ar_result_json r of None \<Rightarrow> JObj [] | Some j \<Rightarrow> j) in
               andthen (elems (jor (dget result ''artifact_refs'') (JList []))) (\<lambda>refs.
               andthen (elems (jor (dget result ''verified_artifact_refs'') (JList []))) (\<lambda>verified.
               andthen (collect (refs @ verified) strict_ref_hash) (\<lambda>values.
               ret (hashes @ map py_str (filter truthy values)))))))))))))"

definition current_delivery_hashes :: "json list \<Rightarrow> string list tx" where
  "current_delivery_hashes nodes = accumulate nodes [] node_deliveries"

subsection \<open>Evidence\<close>

text \<open>Newest first: by sequence number, then by time.\<close>

definition newest_first :: "AcceptanceEvidenceRow list \<Rightarrow> AcceptanceEvidenceRow list" where
  "newest_first rows = sort_key (\<lambda>r. - ae_sequence_no r) (sort_key (\<lambda>r. - ae_created_at r) rows)"

fun first_current_evidence :: "json list \<Rightarrow> string list \<Rightarrow> AcceptanceEvidenceRow list
    \<Rightarrow> AcceptanceEvidenceRow option tx" where
  "first_current_evidence wu_ids delivery_hashes [] = ret None"
| "first_current_evidence wu_ids delivery_hashes (row # rows) =
     (if is_set (ae_work_unit_id row) \<and> jopt (ae_work_unit_id row) \<notin> set wu_ids
      then first_current_evidence wu_ids delivery_hashes rows
      else if ae_artifact_hash row \<notin> set delivery_hashes
      then first_current_evidence wu_ids delivery_hashes rows
      else andthen (get_opt get_wu (ae_work_unit_id row)) (\<lambda>wu.
        (if (case wu of None \<Rightarrow> True | Some w \<Rightarrow> wu_selected_result_ref w \<noteq> ae_result_ref row)
         then first_current_evidence wu_ids delivery_hashes rows
         else ret (Some row))))"

definition latest_criterion_evidence :: "string \<Rightarrow> string \<Rightarrow> json list \<Rightarrow> string list
    \<Rightarrow> AcceptanceEvidenceRow option tx" where
  "latest_criterion_evidence task_id criterion_id wu_ids delivery_hashes =
    andthen (select_evidence (\<lambda>a. ae_task_id a = task_id \<and> ae_criterion_id a = criterion_id)) (\<lambda>rows.
    first_current_evidence wu_ids delivery_hashes (newest_first rows))"

definition evidence_item_from_row :: "string \<Rightarrow> AcceptanceEvidenceRow \<Rightarrow> json" where
  "evidence_item_from_row criterion_id row = JObj [
     (''criterion_id'', JStr criterion_id), (''work_unit_id'', jopt (ae_work_unit_id row)),
     (''result_ref'', jopt (ae_result_ref row)), (''artifact_hash'', JStr (ae_artifact_hash row)),
     (''verdict'', JStr (ae_verdict row)), (''run_id'', jopt (ae_run_id row))]"

definition default_evidence :: "string \<Rightarrow> json list \<Rightarrow> string list \<Rightarrow> (string \<times> json) list \<Rightarrow> json
    \<Rightarrow> (string \<times> json) list tx" where
  "default_evidence task_id wu_ids delivery_hashes acc crit =
    andthen (need (entries crit) ''criterion_id'') (\<lambda>c.
    andthen (latest_criterion_evidence task_id (py_str c) wu_ids delivery_hashes) (\<lambda>row.
    ret (case row of None \<Rightarrow> acc
          | Some r \<Rightarrow> dset (py_str c) (evidence_item_from_row (py_str c) r) acc)))"

text \<open>Evidence sent along must be the current delivery of its criterion; it cannot replace it.\<close>

definition check_extra_evidence :: "string \<Rightarrow> json list \<Rightarrow> string list \<Rightarrow> (string \<times> json) list \<Rightarrow> json
    \<Rightarrow> unit tx" where
  "check_extra_evidence task_id wu_ids delivery_hashes default_by_cid item =
    andthen (as_obj item) (\<lambda>d.
    let cid = dget d ''criterion_id'' in
    let artifact_hash = evidence_artifact d in
    seq (ensure (truthy cid \<and> truthy artifact_hash) (PreconditionError ''missing_evidence'')) (
    andthen (resolve_registered_artifact task_id (py_str artifact_hash)) (\<lambda>art.
    seq (ensure (case map_of default_by_cid (py_str cid) of None \<Rightarrow> False
         | Some i \<Rightarrow> jget i ''artifact_hash'' = JStr (py_str artifact_hash))
       (PreconditionError ''evidence_not_current'')) (
    andthen (select_evidence (\<lambda>a. ae_task_id a = task_id \<and> ae_criterion_id a = py_str cid
       \<and> ae_artifact_hash a = py_str artifact_hash)) (\<lambda>rows.
    andthen (the_or (PreconditionError ''missing_evidence'') (first_of (newest_first rows))) (\<lambda>row.
    seq (ensure (\<not> is_set (ae_work_unit_id row) \<or> jopt (ae_work_unit_id row) \<in> set wu_ids)
       (PreconditionError ''evidence_not_current'')) (
    ensure (delivery_hashes = [] \<or> py_str artifact_hash \<in> set delivery_hashes)
       (PreconditionError ''evidence_not_current''))))))))"

definition build_acceptance_evidence :: "string \<Rightarrow> json list \<Rightarrow> json list \<Rightarrow> json list \<Rightarrow> json list tx" where
  "build_acceptance_evidence task_id nodes required extra_evidence =
    andthen (collect nodes (\<lambda>n. need (entries n) ''work_unit_id'')) (\<lambda>wu_ids.
    andthen (current_delivery_hashes nodes) (\<lambda>delivery_hashes.
    andthen (accumulate required [] (default_evidence task_id wu_ids delivery_hashes)) (\<lambda>default_by_cid.
    seq (each extra_evidence (check_extra_evidence task_id wu_ids delivery_hashes default_by_cid)) (
    andthen (collect required (\<lambda>c. need (entries c) ''criterion_id'')) (\<lambda>cids.
    ret (List.map_filter (\<lambda>c. map_of default_by_cid (py_str c)) cids))))))"

subsection \<open>The snapshot\<close>

definition node_deliverable :: "json \<Rightarrow> json tx" where
  "node_deliverable node =
    andthen (need (entries node) ''work_unit_id'') (\<lambda>wid.
    andthen (by_key get_wu wid) (\<lambda>row.
    andthen (the_or (PreconditionError ''incomplete_work'') row) (\<lambda>wu.
    seq (ensure (wu_status wu = W_DONE) (PreconditionError ''incomplete_work'')) (
    seq (ensure (is_set (wu_selected_result_ref wu)) (PreconditionError ''missing_evidence'')) (
    ret (JObj [(''work_unit_id'', JStr (wu_work_unit_id wu)),
       (''result_ref'', jopt (wu_selected_result_ref wu)),
       (''verdict'', jopt (wu_selected_verdict wu))]))))))"

definition open_acceptance :: "env \<Rightarrow> string \<Rightarrow> int \<Rightarrow> json \<Rightarrow> CommandResult tx" where
  "open_acceptance E task_id contract_version snap_content =
    andthen now (\<lambda>ts.
    andthen (peek_task task_id) (\<lambda>task.
    let sh = content_hash (sha E) snap_content in
    andthen (new_id E ''snap'') (\<lambda>snap_id.
    seq (add_snapshot \<lparr> rs_result_snapshot_id = snap_id, rs_task_id = task_id,
       rs_contract_version = contract_version, rs_plan_version = tk_plan_version task,
       rs_content_hash = sh, rs_content_json = snap_content, rs_created_at = ts \<rparr>) (
    andthen (new_id E ''dec'') (\<lambda>decision_id.
    seq (add_decision ((new_decision decision_id task_id FINAL_ACCEPTANCE snap_id 1 sh
         (Some contract_version) ts (ts + decision_ttl_hours DEFAULTS * 3600))
       \<lparr> de_result_snapshot_ref := Some snap_id \<rparr>)) (
    andthen (new_id E ''gate'') (\<lambda>gate_id.
    seq (add_gate (new_gate gate_id task_id decision_id WR_FINAL_ACCEPTANCE ts)) (
    seq (if tk_state task \<in> {EXECUTING, VERIFYING, PLANNING}
      then set_task_state task_id ''acceptance.ready'' (Some WR_FINAL_ACCEPTANCE)
      else if tk_state task \<noteq> WAITING_HUMAN then raise (PreconditionError ''invalid_state'')
      else upd_task task_id (\<lambda>t. t\<lparr> tk_state_reason := Some WR_FINAL_ACCEPTANCE \<rparr>)) (
    ret (success [(''task_id'', JStr task_id), (''decision_id'', JStr decision_id),
       (''result_snapshot_id'', JStr snap_id), (''content_hash'', JStr sh)]))))))))))"

definition prepare_acceptance :: "env \<Rightarrow> AuthContext \<Rightarrow> dict \<Rightarrow> CommandResult tx" where
  "prepare_acceptance E auth payload =
    andthen (need payload ''task_id'') (\<lambda>tid.
    andthen (svc_get_task tid) (\<lambda>task.
    let task_id = tk_task_id task in
    andthen (active_contract task_id) (\<lambda>contract_row.
    andthen (the_or (PreconditionError ''no_active_contract'') contract_row) (\<lambda>contract.
    andthen (select_effect (\<lambda>e. se_task_id e = task_id \<and> se_state e = E_UNKNOWN)) (\<lambda>unknown.
    seq (ensure (unknown = []) (PreconditionError ''unknown_side_effect'')) (
    andthen (other_blocking_gates task_id None) (\<lambda>open_gates.
    seq (ensure (open_gates = []) (PreconditionError ''blocking_gate_open'')) (
    seq (assert_no_live_writers E task_id) (
    andthen (get_plan_marker task_id) (\<lambda>marker_row.
    andthen (the_or (PreconditionError ''no_active_plan'') marker_row) (\<lambda>marker.
    andthen (select_plan (\<lambda>p. pl_task_id p = task_id \<and> pl_plan_version p = apm_plan_version marker)) (\<lambda>rows.
    andthen (one_row rows) (\<lambda>plan.
    andthen (elems (pl_nodes_json plan)) (\<lambda>nodes.
    andthen (collect nodes node_deliverable) (\<lambda>deliverables.
    andthen (required_criteria (entries (ct_content_json contract))) (\<lambda>required.
    andthen (elems (jor (dget payload ''evidence'') (JList []))) (\<lambda>extra.
    andthen (build_acceptance_evidence task_id nodes required extra) (\<lambda>items_found.
    seq (lift_exn (assert_acceptance_evidence required items_found)) (
    seq (supersede_pending_acceptance task_id) (
    open_acceptance E task_id (ct_contract_version contract) (JObj [
       (''contract_version'', JInt (ct_contract_version contract)),
       (''plan_version'', jint_opt (tk_plan_version task)),
       (''deliverables'', JList deliverables), (''evidence'', JList items_found),
       (''open_items'', jor (dget payload ''open_items'') (JList []))])))))))))))))))))))))"

subsection \<open>The frame\<close>

context service_frame
begin


lemma keeps_one_or_none [frame_intro]: "keeps R (one_or_none rows)"
  by (auto simp: one_or_none_def intro: keeps_struct split: list.split)

lemma keeps_strict_ref_hash [frame_intro]: "keeps R (strict_ref_hash ref)"
  unfolding strict_ref_hash_def
  by (cases ref; simp only: json.case; intro keeps_struct frame_intro)

lemma keeps_first_current_evidence [frame_intro]:
  "keeps R (first_current_evidence wu_ids hs rows)"
proof (induction rows)
  case (Cons row rows)
  show ?case unfolding first_current_evidence.simps
    by (intro keeps_struct frame_intro Cons.IH)
qed (simp only: first_current_evidence.simps keeps_struct)

lemma keeps_node_deliveries [frame_intro]:
  "keeps R (node_deliveries hs node)"
  "keeps R (latest_criterion_evidence task_id cid wu_ids hs)"
  "keeps R (node_deliverable node)"
  "keeps R (check_extra_evidence task_id wu_ids hs defaults item)"
  "keeps R (open_acceptance E task_id v c)"
  unfolding node_deliveries_def latest_criterion_evidence_def node_deliverable_def
    check_extra_evidence_def open_acceptance_def
  by (intro keeps_struct frame_intro; simp add: row_le_defs can_become.stay)+

lemma keeps_default_evidence [frame_intro]:
  "keeps R (default_evidence task_id wu_ids hs acc crit)"
  "keeps R (current_delivery_hashes nodes)"
  unfolding default_evidence_def current_delivery_hashes_def
  by (intro keeps_struct frame_intro)+

lemma keeps_build_acceptance_evidence [frame_intro]:
  "keeps R (build_acceptance_evidence task_id nodes required extra)"
  unfolding build_acceptance_evidence_def by (intro keeps_struct frame_intro)

lemma keeps_prepare_acceptance [frame_intro]:
  "keeps R (prepare_acceptance E auth payload)"
  unfolding prepare_acceptance_def by (intro keeps_struct frame_intro)

end

end
