(* ===== verification/Control.thy ===== *)
theory Control
  imports Decisions
begin

text \<open>
  Interrupting a Task (\<open>application/service.py\<close>): \<open>_pause_task\<close>, \<open>_runtime_quiescent\<close>,
  \<open>_resume_task\<close>, \<open>_cancel_task\<close>, \<open>_cancellation_settled\<close> and the revocation of outbox commands
  they share, \<open>_invalidate_pending_outbox\<close>.
\<close>

subsection \<open>Revoking outbox commands\<close>

text \<open>An external dispatch that was claimed may have been sent: its effect becomes UNKNOWN.\<close>

definition revoke_sent_dispatch :: "OutboxRow \<Rightarrow> unit tx" where
  "revoke_sent_dispatch ob =
    andthen now (\<lambda>ts.
    andthen (by_key get_effect (jget (ob_payload_json ob) ''effect_id'')) (\<lambda>effect.
    seq (case effect of None \<Rightarrow> ret () | Some e \<Rightarrow>
        only_if (se_state e = E_DISPATCHING)
          (upd_effect (se_effect_id e) (\<lambda>x. x\<lparr> se_state := E_UNKNOWN \<rparr>))) (
    upd_outbox (ob_outbox_id ob) (\<lambda>x. x\<lparr> ob_status := O_ACKED, ob_acked_at := Some ts \<rparr>))))"

text \<open>
  A start that was claimed, or whose executor may be alive, keeps its workspace and is to be
  stopped; one that was certainly not sent frees the workspace and its work unit.
\<close>

definition revoke_start :: "env \<Rightarrow> string \<Rightarrow> string list \<Rightarrow> OutboxRow \<Rightarrow> string list tx" where
  "revoke_start E task_id inflight ob =
    andthen now (\<lambda>ts.
    andthen (peek_task task_id) (\<lambda>task.
    let rid = jget (ob_payload_json ob) ''run_id'' in
    andthen (if truthy rid then by_key get_run rid else ret None) (\<lambda>run.
    seq (upd_outbox (ob_outbox_id ob) (\<lambda>x. x\<lparr> ob_status := O_DEAD,
       ob_revoke_epoch := tk_revoke_epoch task \<rparr>)) (
    (if ob_status ob = O_IN_FLIGHT \<or> adapter_may_be_alive E (if truthy rid then opt_str rid else None)
      then seq (case run of None \<Rightarrow> ret () | Some r \<Rightarrow> keep_start_occupancy (ar_run_id r)) (
        ret (if truthy rid then inflight @ [py_str rid] else inflight)) else seq (case run of None \<Rightarrow> ret () | Some r \<Rightarrow>
           only_if (ar_status r = R_CREATED) (seq (upd_run (ar_run_id r) (\<lambda>x. x\<lparr> ar_status := R_CANCELLED, ar_finished_at := Some ts,
               ar_terminal_reason := Some ''start_revoked'' \<rparr>)) (
             seq (clear_run_occupancy (ar_run_id r) True) (
             when_set (ar_work_unit_id r) (\<lambda>wid. andthen (get_wu wid) (\<lambda>wu.
               (case wu of None \<Rightarrow> ret () | Some w \<Rightarrow>
                  only_if (wu_status w = W_RUNNING)
                    (upd_wu wid (\<lambda>x. x\<lparr> wu_status := W_PENDING, wu_blocked_reason := None,
                       wu_active_run_id := None \<rparr>))))))))) (
          ret inflight))))))"

text \<open>An external dispatch that was not sent goes back, or is cancelled with its Task.\<close>

definition revoke_unsent_dispatch :: "string \<Rightarrow> OutboxRow \<Rightarrow> unit tx" where
  "revoke_unsent_dispatch task_id ob =
    andthen (peek_task task_id) (\<lambda>task.
    seq (upd_outbox (ob_outbox_id ob) (\<lambda>x. x\<lparr> ob_status := O_DEAD,
       ob_revoke_epoch := tk_revoke_epoch task \<rparr>)) (
    andthen (by_key get_effect (jget (ob_payload_json ob) ''effect_id'')) (\<lambda>effect.
    (case effect of None \<Rightarrow> ret () | Some e \<Rightarrow>
        only_if (se_state e = E_DISPATCHING)
          (upd_effect (se_effect_id e) (\<lambda>x. x\<lparr> se_state :=
             (if tk_cancel_intent task then E_CANCELLED else E_AUTHORIZED) \<rparr>))))))"

definition revoke_command :: "env \<Rightarrow> string \<Rightarrow> string list \<Rightarrow> OutboxRow \<Rightarrow> string list tx" where
  "revoke_command E task_id inflight ob =
    (if ob_status ob = O_IN_FLIGHT \<and> ob_command_type ob = ''side_effect.dispatch''
     then seq (revoke_sent_dispatch ob) (
       ret inflight)
     else if ob_command_type ob = ''agent.start'' then revoke_start E task_id inflight ob
     else seq (revoke_unsent_dispatch task_id ob) (
       ret inflight))"

definition invalidate_pending_outbox :: "env \<Rightarrow> string \<Rightarrow> unit tx" where
  "invalidate_pending_outbox E task_id =
    andthen (select_outbox (\<lambda>ob. ob_task_id ob = task_id \<and> ob_status ob \<in> {O_PENDING, O_IN_FLIGHT}
       \<and> ob_command_type ob \<in> {''agent.start'', ''side_effect.dispatch''})) (\<lambda>rows.
    andthen (accumulate rows [] (revoke_command E task_id)) (\<lambda>inflight.
    only_if (inflight \<noteq> [])
       (enqueue_stops_for_runs E task_id inflight ''start_inflight_revoked'')))"

subsection \<open>Pause and resume\<close>

definition task_and_state :: "string \<Rightarrow> CommandResult tx" where
  "task_and_state task_id =
    andthen (peek_task task_id) (\<lambda>task.
    ret (success [(''task_id'', JStr task_id), (''state'', JStr (task_state_str (tk_state task)))]))"

definition pause_task :: "env \<Rightarrow> AuthContext \<Rightarrow> dict \<Rightarrow> CommandResult tx" where
  "pause_task E auth payload =
    andthen (need payload ''task_id'') (\<lambda>tid.
    andthen (svc_get_task tid) (\<lambda>task.
    let task_id = tk_task_id task in
    seq (ensure (tk_state task \<noteq> CANCELLING) (PreconditionError ''cancelling'')) (
    seq (upd_task task_id (\<lambda>t. t\<lparr> tk_pause_intent := True \<rparr>)) (
    seq (set_task_state task_id ''pause.requested'' None) (
    seq (invalidate_pending_outbox E task_id) (
    seq (enqueue_stops E task_id ''pause'') (
    seq (append_event task_id ''pause.requested'' (Some (actor_id auth)) []) (
    task_and_state task_id))))))))"

definition quarantine_live_writers :: "env \<Rightarrow> string \<Rightarrow> unit tx" where
  "quarantine_live_writers E task_id =
    andthen (select_run (\<lambda>r. ar_task_id r = task_id)) (\<lambda>rows.
    each rows (\<lambda>run. when_set (ar_workspace_id run) (\<lambda>wsid.
       only_if (agent_alive E (ar_run_id run) \<or> agent_writer E (ar_run_id run)) (andthen (get_workspace wsid) (\<lambda>ws.
         only_if (ws \<noteq> None) (upd_workspace wsid (\<lambda>x. x\<lparr> ws_state := QUARANTINED,
           ws_writer_alive := True \<rparr>)))))))"

definition runtime_quiescent :: "env \<Rightarrow> AuthContext \<Rightarrow> dict \<Rightarrow> CommandResult tx" where
  "runtime_quiescent E auth payload =
    andthen (need payload ''task_id'') (\<lambda>tid.
    andthen (svc_get_task tid) (\<lambda>task.
    let task_id = tk_task_id task in
    seq (ensure (tk_state task = PAUSING) (PreconditionError ''invalid_state'')) (
    andthen (task_has_live_writer E task_id) (\<lambda>alive.
    seq (only_if alive (seq (quarantine_live_writers E task_id) (
      raise (PreconditionError ''writer_alive'')))) (
    andthen now (\<lambda>ts.
    seq (upd_wu_where (\<lambda>w. wu_task_id w = task_id \<and> wu_status w = W_RUNNING)
       (\<lambda>w. w\<lparr> wu_status := W_BLOCKED, wu_blocked_reason := Some ''paused'',
          wu_active_run_id := None \<rparr>)) (
    andthen (select_run (\<lambda>r. ar_task_id r = task_id \<and> run_active r)) (\<lambda>rows.
    seq (each rows (\<lambda>run. seq (upd_run (ar_run_id run) (\<lambda>r. r\<lparr> ar_status := R_CANCELLED, ar_finished_at := Some ts,
         ar_terminal_reason := Some ''paused'' \<rparr>)) (
      clear_run_occupancy (ar_run_id run) True))) (
    seq (upd_task task_id (\<lambda>t. t\<lparr> tk_pause_intent := False \<rparr>)) (
    seq (set_task_state task_id ''runtime.quiescent'' None) (
    seq (append_event task_id ''task.paused'' (Some (actor_id auth)) []) (
    task_and_state task_id))))))))))))"

definition resume_task :: "env \<Rightarrow> AuthContext \<Rightarrow> dict \<Rightarrow> CommandResult tx" where
  "resume_task E auth payload =
    andthen (need payload ''task_id'') (\<lambda>tid.
    andthen (svc_get_task tid) (\<lambda>task.
    let task_id = tk_task_id task in
    seq (ensure (tk_state task = PAUSED) (PreconditionError ''invalid_state'')) (
    andthen (has_blocking_gate task_id) (\<lambda>gate.
    seq (if gate
      then set_task_state task_id ''resume.requested''
        (Some (or_else (tk_state_reason task) WR_CONTRACT_APPROVAL))
      else seq (set_task_state task_id ''resume.requested_runnable'' None) (
        upd_wu_where (\<lambda>w. wu_task_id w = task_id \<and> wu_status w = W_BLOCKED
            \<and> wu_blocked_reason w = Some ''paused'')
          (\<lambda>w. w\<lparr> wu_status := W_PENDING, wu_blocked_reason := None \<rparr>))) (
    seq (append_event task_id ''task.resumed'' (Some (actor_id auth)) []) (
    task_and_state task_id))))))"

subsection \<open>Cancellation\<close>

text \<open>What cancelling does to one external effect that is not over.\<close>

definition cancel_effect :: "string \<Rightarrow> SideEffectRow \<Rightarrow> unit tx" where
  "cancel_effect task_id effect =
    (if se_state effect = E_DISPATCHING then andthen (select_outbox (\<lambda>ob. ob_task_id ob = task_id
         \<and> ob_command_type ob = ''side_effect.dispatch'' \<and> ob_status ob = O_PENDING)) (\<lambda>pending.
      only_if (list_ex (\<lambda>ob. jget (ob_payload_json ob) ''effect_id'' = JStr (se_effect_id effect)) pending)
         (upd_effect (se_effect_id effect) (\<lambda>e. e\<lparr> se_state := E_CANCELLED \<rparr>)))
     else upd_effect (se_effect_id effect) (\<lambda>e. e\<lparr> se_state := E_CANCELLED \<rparr>))"

definition cancel_effects :: "string \<Rightarrow> unit tx" where
  "cancel_effects task_id =
    andthen (select_effect (\<lambda>e. se_task_id e = task_id
       \<and> se_state e \<in> {E_PROPOSED, E_WAITING_APPROVAL, E_AUTHORIZED, E_DISPATCHING})) (\<lambda>rows.
    each rows (cancel_effect task_id))"

definition cancel_task :: "env \<Rightarrow> AuthContext \<Rightarrow> dict \<Rightarrow> CommandResult tx" where
  "cancel_task E auth payload =
    andthen (need payload ''task_id'') (\<lambda>tid.
    andthen (svc_get_task tid) (\<lambda>task.
    let task_id = tk_task_id task in
    seq (upd_task task_id (\<lambda>t. t\<lparr> tk_cancel_intent := True, tk_revoke_epoch := tk_revoke_epoch t + 1 \<rparr>)) (
    seq (set_task_state task_id ''cancel.requested'' None) (
    seq (invalidate_pending_outbox E task_id) (
    seq (cancel_effects task_id) (
    seq (upd_wu_where (\<lambda>w. wu_task_id w = task_id \<and> wu_status w \<in> {W_PENDING, W_BLOCKED})
       (\<lambda>w. w\<lparr> wu_status := W_CANCELLED \<rparr>)) (
    seq (enqueue_stops E task_id ''cancel'') (
    seq (append_event task_id ''cancel.requested'' (Some (actor_id auth)) []) (
    andthen (peek_task task_id) (\<lambda>after.
    ret (success [(''task_id'', JStr task_id), (''state'', JStr (task_state_str (tk_state after))),
       (''revoke_epoch'', JInt (tk_revoke_epoch after))])))))))))))"

definition cancellation_settled :: "env \<Rightarrow> AuthContext \<Rightarrow> dict \<Rightarrow> CommandResult tx" where
  "cancellation_settled E auth payload =
    andthen (need payload ''task_id'') (\<lambda>tid.
    andthen (svc_get_task tid) (\<lambda>task.
    let task_id = tk_task_id task in
    seq (ensure (tk_state task = CANCELLING) (PreconditionError ''invalid_state'')) (
    andthen (select_effect (\<lambda>e. se_task_id e = task_id \<and> se_state e \<in> {E_UNKNOWN, E_DISPATCHING})) (\<lambda>unknowns.
    seq (ensure (unknowns = [] \<or> truthy (dget payload ''accept_unknown''))
       (PreconditionError ''unresolved_external'')) (
    seq (assert_no_live_writers E task_id) (
    andthen now (\<lambda>ts.
    seq (upd_run_where (\<lambda>r. ar_task_id r = task_id \<and> run_active r)
       (\<lambda>r. r\<lparr> ar_status := R_CANCELLED, ar_finished_at := Some ts \<rparr>)) (
    seq (set_task_state task_id ''cancellation.settled'' None) (
    seq (append_event task_id ''task.aborted'' (Some (actor_id auth)) []) (
    task_and_state task_id))))))))))"

subsection \<open>The frame\<close>

context service_frame
begin


lemma keeps_revocation [frame_intro]:
  "keeps R (revoke_sent_dispatch ob)"
  "keeps R (revoke_start E task_id inflight ob)"
  "keeps R (revoke_unsent_dispatch task_id ob)"
  "keeps R (task_and_state task_id)"
  "keeps R (quarantine_live_writers E task_id)"
  "keeps R (cancel_effect task_id effect)"
  unfolding revoke_sent_dispatch_def revoke_start_def revoke_unsent_dispatch_def task_and_state_def
    quarantine_live_writers_def cancel_effect_def
  by (intro keeps_struct frame_intro; simp add: row_le_defs)+

lemma keeps_revoke_command [frame_intro]:
  "keeps R (revoke_command E task_id inflight ob)"
  "keeps R (cancel_effects task_id)"
  unfolding revoke_command_def cancel_effects_def by (intro keeps_struct frame_intro)+

lemma keeps_invalidate_pending_outbox [frame_intro]:
  "keeps R (invalidate_pending_outbox E task_id)"
  unfolding invalidate_pending_outbox_def by (intro keeps_struct frame_intro)

lemma keeps_control [frame_intro]:
  "keeps R (pause_task E auth payload)"
  "keeps R (runtime_quiescent E auth payload)"
  "keeps R (resume_task E auth payload)"
  "keeps R (cancel_task E auth payload)"
  "keeps R (cancellation_settled E auth payload)"
  unfolding pause_task_def runtime_quiescent_def resume_task_def cancel_task_def cancellation_settled_def
  by (intro keeps_struct frame_intro; simp add: row_le_defs can_become.stay)+

end

subsection \<open>What the control operations guarantee\<close>

lemmas control_reads = readonly_iff [OF readonly_task_has_live_writer(1)] svc_get_task_Inr

lemma task_and_state_Inr: "task_and_state tid s = (Inr r, t) \<Longrightarrow> t = s"
  by (auto simp: task_and_state_def andthen_Inr_iff)

text \<open>The last three steps of every control operation: change the state, log it, answer.\<close>

lemma control_ends:
  assumes "set_task_state tid e reason s = (Inr (), s1)"
    and "append_event tid et actor p s1 = (Inr (), s2)" and "task_and_state tid s2 = (Inr r, t)"
    and "list_all (\<lambda>c. \<not> dropped c) (tasks s)"
  shows "(\<exists>task' task q. t_peek tk_task_id tid (tasks t) = Some task' \<and> t_peek tk_task_id tid (tasks s) = Some task
      \<and> transition_task (tk_state task) e = Inr q
      \<and> task' = task\<lparr> tk_state := q, tk_state_reason := reason,
           tk_state_revision := tk_state_revision task + 1, tk_updated_at := clock_now s \<rparr>)
    \<and> runs t = t_flush (runs s) \<and> wus t = t_flush (wus s) \<and> effects t = t_flush (effects s)
    \<and> workspaces t = t_flush (workspaces s)"
proof -
  from set_task_state_Inr [OF assms(1)] obtain task q where
      s1: "t_peek tk_task_id tid (tasks s) = Some task" "transition_task (tk_state task) e = Inr q"
        "s1 = s\<lparr> tasks := t_upd tk_task_id tid (\<lambda>x. x\<lparr> tk_state := q, tk_state_reason := reason,
           tk_state_revision := tk_state_revision x + 1, tk_updated_at := clock_now s \<rparr>) (tasks s) \<rparr>" by blast
  from append_event_Inr [OF assms(2)] task_and_state_Inr [OF assms(3)] obtain ev where
      "t = (flush_all s1)\<lparr> events := t_add ev (events (flush_all s1)) \<rparr>" by auto
  with s1 assms(4) show ?thesis
    by (simp add: flush_all_def t_peek_flush t_upd_kept t_peek_upd)
qed

text \<open>
  A cancelled Task is aborted only once nothing of it is loose outside: if settling the
  cancellation succeeds then the Task was CANCELLING, none of its effects is UNKNOWN or in dispatch
  (unless the caller explicitly accepts the unknown ones), no writer of its Runs is alive; and it
  ends ABORTED with no active Run left.
\<close>

theorem cancellation_settles:
  assumes run: "cancellation_settled E auth payload s = (Inr r, t)" and clean: "clean s"
  shows "\<exists>tid task task'. map_of payload ''task_id'' = Some (JStr tid)
    \<and> t_get tk_task_id tid (tasks s) = Some task \<and> tk_state task = CANCELLING
    \<and> (truthy (dget payload ''accept_unknown'') \<or> (\<forall>e \<in> set (t_rows (effects s)).
          se_task_id e = tid \<longrightarrow> se_state e \<notin> {E_UNKNOWN, E_DISPATCHING}))
    \<and> fst (task_has_live_writer E tid s) = Inr False
    \<and> t_peek tk_task_id tid (tasks t) = Some task' \<and> tk_state task' = ABORTED
    \<and> (\<forall>x \<in> set (t_rows (runs t)). ar_task_id x = tid \<longrightarrow> \<not> run_active x)"
proof -
  note tbl = clean [unfolded clean_def]
  from run obtain tid task s1 s2 where
      tid: "map_of payload ''task_id'' = Some (JStr tid)" "t_get tk_task_id tid (tasks s) = Some task"
    and st: "tk_state task = CANCELLING"
    and eff: "t_select (\<lambda>e. se_task_id e = tk_task_id task \<and> se_state e \<in> {E_UNKNOWN, E_DISPATCHING}) (effects s) = []
       \<or> truthy (dget payload ''accept_unknown'')"
    and live: "fst (task_has_live_writer E (tk_task_id task) s) = Inr False"
    and s1: "set_task_state (tk_task_id task) ''cancellation.settled'' None (s\<lparr> runs := t_upd_where
        (\<lambda>r. ar_task_id r = tk_task_id task \<and> run_active r)
        (\<lambda>r. r\<lparr> ar_status := R_CANCELLED, ar_finished_at := Some (clock_now s) \<rparr>) (runs s) \<rparr>) = (Inr (), s1)"
    and s2: "append_event (tk_task_id task) ''task.aborted'' (Some (actor_id auth)) [] s1 = (Inr (), s2)"
    and t: "task_and_state (tk_task_id task) s2 = (Inr r, t)"
    unfolding cancellation_settled_def
    by (clarsimp simp: andthen_Inr_iff seq_Inr_iff Let_def assert_no_live_writers_def control_reads)
  have id: "tk_task_id task = tid" using t_get_in [OF tid(2)] by simp
  have "list_all (\<lambda>c. \<not> dropped c) (tasks s)" using tbl t_clean_kept by blast
  from control_ends [OF s1 s2 t, simplified, OF this, unfolded id] obtain task' where
      e: "t_peek tk_task_id tid (tasks t) = Some task'" "tk_state task' = ABORTED"
    and runs_t: "runs t = t_flush (t_upd_where (\<lambda>r. ar_task_id r = tid \<and> run_active r)
        (\<lambda>r. r\<lparr> ar_status := R_CANCELLED, ar_finished_at := Some (clock_now s) \<rparr>) (runs s))"
    by (auto simp: transition_task_settled split: if_splits)
  have clean_runs: "t_clean (runs s)" and clean_effects: "t_clean (effects s)" using tbl by blast+
  have "t_rows (runs t) = map (\<lambda>r. if ar_task_id r = tid \<and> run_active r
      then r\<lparr> ar_status := R_CANCELLED, ar_finished_at := Some (clock_now s) \<rparr> else r) (t_rows (runs s))"
    unfolding runs_t using clean_runs by (simp add: t_rows_flush t_kept t_rows_upd_where)
  then have "\<forall>x \<in> set (t_rows (runs t)). ar_task_id x = tid \<longrightarrow> \<not> run_active x"
    by (simp only:) (rule all_map_if; simp add: run_active_def)
  moreover have "truthy (dget payload ''accept_unknown'') \<or> (\<forall>e \<in> set (t_rows (effects s)).
          se_task_id e = tid \<longrightarrow> se_state e \<notin> {E_UNKNOWN, E_DISPATCHING})"
    using eff clean_effects by (auto simp: t_select_empty id)
  ultimately show ?thesis using tid st live e unfolding id by (intro exI conjI)
qed

theorem cancellation_settles_witness:
  "\<exists>task'. t_peek tk_task_id ''t'' (tasks (snd (cancellation_settled sample_env sample_human
      [(''task_id'', JStr ''t'')] ((sample_db CANCELLING)\<lparr> effects := t_of [sample_effect E_SUCCEEDED] \<rparr>)))) = Some task'
    \<and> tk_state task' = ABORTED"
proof -
  let ?s = "(sample_db CANCELLING)\<lparr> effects := t_of [sample_effect E_SUCCEEDED] \<rparr>"
  let ?m = "cancellation_settled sample_env sample_human [(''task_id'', JStr ''t'')]"
  have ok: "case fst (?m ?s) of Inl e \<Rightarrow> False | Inr r \<Rightarrow> cr_ok r" by code_simp
  then obtain r where r: "?m ?s = (Inr r, snd (?m ?s))" by (cases "?m ?s") (auto split: sum.splits)
  have clean: "clean ?s" by (simp add: clean_def sample_db_def init_sess_def) (simp add: t_clean_def)
  show ?thesis using cancellation_settles [OF r clean] by auto
qed

text \<open>
  Quiescence is refused while a writer lives, and the refusal leaves no trace: the code marks the
  workspaces of live writers QUARANTINED just before it raises, and the exception rolls that back.
  Every workspace is as it was.
\<close>

theorem quiescence_quarantine_lost:
  assumes "map_of payload ''task_id'' = Some (JStr tid)" and "t_get tk_task_id tid (tasks s) = Some task"
    and "tk_state task = PAUSING" and "fst (task_has_live_writer E tid s) = Inr True"
  shows "\<exists>e. fst (run_tx (runtime_quiescent E auth payload) s) = Inl e
    \<and> workspaces (snd (run_tx (runtime_quiescent E auth payload) s)) = workspaces s"
proof -
  have id: "tk_task_id task = tid" using t_get_in [OF assms(2)] by simp
  have "fst (runtime_quiescent E auth payload s) \<noteq> Inr r" for r
  proof
    assume "fst (runtime_quiescent E auth payload s) = Inr r"
    then have "runtime_quiescent E auth payload s = (Inr r, snd (runtime_quiescent E auth payload s))"
      by (rule run_result)
    then show False using assms unfolding runtime_quiescent_def
      by (clarsimp simp: andthen_Inr_iff seq_Inr_iff Let_def control_reads id)
  qed
  then obtain e where "fst (runtime_quiescent E auth payload s) = Inl e" by (metis sum.exhaust)
  then show ?thesis by (cases "runtime_quiescent E auth payload s") (auto simp: run_tx_def rollback_def)
qed

theorem quiescence_quarantine_lost_witness:
  "workspaces (snd (run_tx (runtime_quiescent (sample_env\<lparr> agent_alive := \<lambda>_. True \<rparr>) sample_human
      [(''task_id'', JStr ''t'')]) ((sample_running R_RUNNING)\<lparr> tasks := t_of [sample_task PAUSING] \<rparr>)))
    = t_of [sample_workspace (Some ''r'') True]"
proof -
  let ?E = "sample_env\<lparr> agent_alive := \<lambda>_. True \<rparr>"
  let ?s = "(sample_running R_RUNNING)\<lparr> tasks := t_of [sample_task PAUSING] \<rparr>"
  have "t_get tk_task_id ''t'' (tasks ?s) = Some (sample_task PAUSING)" by code_simp
  moreover have "tk_state (sample_task PAUSING) = PAUSING" by (simp add: sample_task_def)
  moreover have "fst (task_has_live_writer ?E ''t'' ?s) = Inr True" by code_simp
  moreover have "workspaces ?s = t_of [sample_workspace (Some ''r'') True]" by (simp add: sample_running_def)
  ultimately show ?thesis
    using quiescence_quarantine_lost [of "[(''task_id'', JStr ''t'')]" "''t''" ?s _ ?E] by auto
qed

text \<open>
  Cancelling a Task forgets that an effect was sent. When the dispatch of an effect is in flight,
  the revocation of its command marks it UNKNOWN, as the outcome must be asked for; but the query of
  the cancellation that follows still finds the unflushed row as DISPATCHING, reads UNKNOWN from the
  object, and takes the branch for effects that were never sent: the effect ends CANCELLED.
\<close>

theorem sent_effect_cancelled:
  assumes run: "cancel_task E auth payload s = (Inr r, t)" and clean: "clean s"
    and task: "map_of payload ''task_id'' = Some (JStr tid)"
    and effect: "effects s = t_of [e]" "se_task_id e = tid" "se_state e = E_DISPATCHING"
    and sent: "outbox s = t_of [ob]" "ob_task_id ob = tid" "ob_status ob = O_IN_FLIGHT"
      "ob_command_type ob = ''side_effect.dispatch''" "jget (ob_payload_json ob) ''effect_id'' = JStr (se_effect_id e)"
  shows "t_rows (effects t) = [e\<lparr> se_state := E_CANCELLED \<rparr>]"
proof -
  from run task obtain taskrow s1 s2 where
      row: "t_get tk_task_id tid (tasks s) = Some taskrow"
    and s1: "set_task_state (tk_task_id taskrow) ''cancel.requested'' None
        (s\<lparr> tasks := t_upd tk_task_id (tk_task_id taskrow)
           (\<lambda>t. t\<lparr> tk_cancel_intent := True, tk_revoke_epoch := tk_revoke_epoch t + 1 \<rparr>) (tasks s) \<rparr>) = (Inr (), s1)"
    and s2: "seq (invalidate_pending_outbox E (tk_task_id taskrow)) (cancel_effects (tk_task_id taskrow)) s1 = (Inr (), s2)"
    and rest: "seq (upd_wu_where (\<lambda>w. wu_task_id w = tk_task_id taskrow \<and> wu_status w \<in> {W_PENDING, W_BLOCKED})
        (\<lambda>w. w\<lparr> wu_status := W_CANCELLED \<rparr>)) (seq (enqueue_stops E (tk_task_id taskrow) ''cancel'')
        (append_event (tk_task_id taskrow) ''cancel.requested'' (Some (actor_id auth)) [])) s2 = (Inr (), t)"
    unfolding cancel_task_def by (clarsimp simp: andthen_Inr_iff seq_Inr_iff Let_def svc_get_task_Inr)
  have id: "tk_task_id taskrow = tid" using t_get_in [OF row] by simp
  have s1': "effects s1 = t_of [e]" "outbox s1 = t_of [ob]"
    using set_task_state_Inr [OF s1] effect sent by auto
  have "effects s2 = [Cell (Some e) (e\<lparr> se_state := E_CANCELLED \<rparr>) False]"
    using s2 effect(2,3) sent(2-5) s1' unfolding id invalidate_pending_outbox_def cancel_effects_def
    by (auto simp: seq_Inr_iff andthen_Inr_iff t_select_def t_of_def matches_def revoke_command_def
        revoke_sent_dispatch_def t_get_Cons set_live_def cancel_effect_def)
  moreover from rest obtain s3 where
      s3: "enqueue_stops E (tk_task_id taskrow) ''cancel'' (s2\<lparr> wus := t_upd_where (\<lambda>w. wu_task_id w = tk_task_id taskrow
        \<and> wu_status w \<in> {W_PENDING, W_BLOCKED}) (\<lambda>w. w\<lparr> wu_status := W_CANCELLED \<rparr>) (wus s2) \<rparr>) = (Inr (), s3)"
      and ev: "append_event (tk_task_id taskrow) ''cancel.requested'' (Some (actor_id auth)) [] s3 = (Inr (), t)"
    by (clarsimp simp: seq_Inr_iff)
  moreover have "effects s3 = effects s2"
    using stops.keepsD [OF stops_only_outbox(2) s3] by (auto simp: only_outbox_def)
  moreover obtain e2 where "t = (flush_all s3)\<lparr> events := t_add e2 (events (flush_all s3)) \<rparr>"
    using append_event_Inr [OF ev] by blast
  ultimately show ?thesis by (simp add: flush_all_def t_flush_def t_rows_def)
qed

definition sample_sent :: sess where
  "sample_sent = (sample_db EXECUTING)\<lparr> effects := t_of [sample_effect E_DISPATCHING],
     outbox := t_of [sample_outbox ''side_effect.dispatch'' [(''effect_id'', JStr ''e'')] O_IN_FLIGHT] \<rparr>"

theorem sent_effect_cancelled_witness:
  "map se_state (t_rows (effects (snd (cancel_task sample_env sample_human [(''task_id'', JStr ''t'')] sample_sent))))
    = [E_CANCELLED]"
proof -
  let ?m = "cancel_task sample_env sample_human [(''task_id'', JStr ''t'')]"
  have ok: "case fst (?m sample_sent) of Inl e \<Rightarrow> False | Inr r \<Rightarrow> cr_ok r" by code_simp
  then obtain r where r: "?m sample_sent = (Inr r, snd (?m sample_sent))"
    by (cases "?m sample_sent") (auto split: sum.splits)
  have clean: "clean sample_sent"
    by (simp add: clean_def sample_sent_def sample_db_def init_sess_def) (simp add: t_clean_def)
  have "t_rows (effects (snd (?m sample_sent))) = [(sample_effect E_DISPATCHING)\<lparr> se_state := E_CANCELLED \<rparr>]"
    by (rule sent_effect_cancelled [OF r clean, where tid = "''t''" and ob = "sample_outbox ''side_effect.dispatch'' [(''effect_id'', JStr ''e'')] O_IN_FLIGHT"])
      (simp_all add: sample_sent_def sample_db_def sample_effect_def sample_outbox_def jget_def)
  then show ?thesis by simp
qed

end
