(* ===== verification/Side_Effects.thy ===== *)
theory Side_Effects
  imports Control
begin

text \<open>
  External side effects (\<open>application/service.py\<close>): \<open>_propose_side_effect\<close>,
  \<open>_dispatch_side_effect\<close>, \<open>_reconcile_side_effect\<close>. (Approval is a resolution, see
  \<open>Decisions\<close>; the dispatch itself happens when the outbox is drained, see \<open>Outbox\<close>.)
\<close>

text \<open>\<open>x in v\<close>.\<close>

fun has_infix :: "string \<Rightarrow> string \<Rightarrow> bool" where
  "has_infix k [] \<longleftrightarrow> k = []"
| "has_infix k (c # cs) \<longleftrightarrow> starts_with k (c # cs) \<or> has_infix k cs"

definition py_in :: "json \<Rightarrow> json \<Rightarrow> bool tx" where
  "py_in x v =
    (case v of
       JList xs \<Rightarrow> ret (x \<in> set xs)
     | JObj ps \<Rightarrow> ret (x \<in> set (map (JStr \<circ> fst) ps))
     | JStr t \<Rightarrow> (case x of JStr k \<Rightarrow> ret (has_infix k t) | _ \<Rightarrow> raise ValueError)
     | _ \<Rightarrow> raise ValueError)"

text \<open>The digest an approval is bound to.\<close>

definition action_digest :: "(string \<Rightarrow> string) \<Rightarrow> json \<Rightarrow> json \<Rightarrow> json \<Rightarrow> string" where
  "action_digest sha_fn action_type target_ref params = content_hash sha_fn (JObj [
     (''action_type'', action_type), (''target_ref'', target_ref), (''parameters'', params)])"

definition open_effect_approval :: "env \<Rightarrow> string \<Rightarrow> string \<Rightarrow> int \<Rightarrow> string \<Rightarrow> string \<Rightarrow> string tx" where
  "open_effect_approval E task_id effect_id contract_version ph digest =
    andthen now (\<lambda>ts.
    andthen (new_id E ''dec'') (\<lambda>decision_id.
    seq (add_decision ((new_decision decision_id task_id SIDE_EFFECT_APPROVAL effect_id 1 digest
         (Some contract_version) ts (ts + side_effect_approval_ttl_minutes DEFAULTS * 60))
       \<lparr> de_parameters_hash := Some ph \<rparr>)) (
    andthen (new_id E ''gate'') (\<lambda>gate_id.
    seq (add_gate (new_gate gate_id task_id decision_id WR_SIDE_EFFECT_APPROVAL ts)) (
    seq (upd_effect effect_id (\<lambda>e. e\<lparr> se_state := E_WAITING_APPROVAL \<rparr>)) (
    seq (set_task_state task_id ''blocking_gate.opened'' (Some WR_SIDE_EFFECT_APPROVAL)) (
    ret decision_id)))))))"

definition propose_new_effect :: "env \<Rightarrow> AuthContext \<Rightarrow> dict \<Rightarrow> string \<Rightarrow> ContractRow \<Rightarrow> json \<Rightarrow> json
    \<Rightarrow> json \<Rightarrow> json \<Rightarrow> CommandResult tx" where
  "propose_new_effect E auth payload task_id contract logical_key action_type target_ref params =
    (let ph = content_hash (sha E) params in
    let digest = action_digest (sha E) action_type target_ref params in
    andthen (new_id E ''eff'') (\<lambda>effect_id.
    andthen now (\<lambda>ts.
    andthen (py_in logical_key
       (jor (jget (ct_content_json contract) ''allowed_side_effects'') (JList []))) (\<lambda>preauthorized.
    seq (add_effect \<lparr> se_effect_id = effect_id, se_task_id = task_id,
       se_logical_action_key = py_str logical_key,
       se_origin_work_unit_id = opt_str (dget payload ''work_unit_id''),
       se_request_run_id = opt_str (dget payload ''run_id''),
       se_action_type = py_str action_type, se_target_ref = py_str target_ref,
       se_parameters_hash = ph, se_action_digest = digest, se_parameters_json = params,
       se_contract_version = ct_contract_version contract, se_authorization_ref = None,
       se_expires_at = None,
       se_external_idempotency_key = ''ext:'' @ task_id @ '':'' @ py_str logical_key,
       se_provider_operation_id = None,
       se_state = (if preauthorized then E_AUTHORIZED else E_PROPOSED),
       se_dispatch_attempts = 0, se_receipt_json = None, se_last_error = None,
       se_supports_idempotent_query = truthy (dget_or payload ''supports_idempotent_query'' (JBool True)),
       se_created_at = ts \<rparr>) (
    andthen (if preauthorized then ret None
       else andthen (open_effect_approval E task_id effect_id (ct_contract_version contract) ph digest) (\<lambda>d.
         ret (Some d))) (\<lambda>decision_id.
    andthen (peek_effect effect_id) (\<lambda>effect.
    seq (append_event task_id ''side_effect.proposed'' (Some (actor_id auth))
       [(''effect_id'', JStr effect_id), (''state'', JStr (effect_state_str (se_state effect)))]) (
    ret (success [(''effect_id'', JStr effect_id),
       (''state'', JStr (effect_state_str (se_state effect))), (''decision_id'', jopt decision_id),
       (''action_digest'', JStr digest), (''task_id'', JStr task_id)])))))))))"

definition propose_side_effect :: "env \<Rightarrow> AuthContext \<Rightarrow> dict \<Rightarrow> CommandResult tx" where
  "propose_side_effect E auth payload =
    andthen (need payload ''task_id'') (\<lambda>tid.
    andthen (svc_get_task tid) (\<lambda>task.
    let task_id = tk_task_id task in
    andthen (active_contract task_id) (\<lambda>contract_row.
    andthen (the_or (PreconditionError ''no_active_contract'') contract_row) (\<lambda>contract.
    andthen (need payload ''logical_action_key'') (\<lambda>logical_key.
    andthen (select_effect (\<lambda>e. se_task_id e = task_id
       \<and> se_logical_action_key e = py_str logical_key)) (\<lambda>existing.
    let params = jor (dget payload ''parameters'') (JObj []) in
    andthen (need payload ''target_ref'') (\<lambda>target_ref.
    let action_type = jor (dget payload ''action_type'') (JStr ''external.write'') in
    let digest = action_digest (sha E) action_type target_ref params in
    (case first_of existing of
        Some e \<Rightarrow> seq (ensure (se_action_digest e = digest) (ConflictError ''side_effect_digest_conflict'')) (
          ret (success_replayed [(''effect_id'', JStr (se_effect_id e)),
            (''state'', JStr (effect_state_str (se_state e))), (''reused'', JBool True),
            (''task_id'', JStr task_id), (''action_digest'', JStr (se_action_digest e))]))
      | None \<Rightarrow> propose_new_effect E auth payload task_id contract logical_key action_type
          target_ref params))))))))"

definition dispatch_payload :: "SideEffectRow \<Rightarrow> dict" where
  "dispatch_payload e = [
     (''effect_id'', JStr (se_effect_id e)),
     (''external_idempotency_key'', JStr (se_external_idempotency_key e)),
     (''parameters'', se_parameters_json e), (''target_ref'', JStr (se_target_ref e)),
     (''action_type'', JStr (se_action_type e)),
     (''supports_idempotent_query'', JBool (se_supports_idempotent_query e))]"

definition dispatch_side_effect :: "env \<Rightarrow> AuthContext \<Rightarrow> dict \<Rightarrow> CommandResult tx" where
  "dispatch_side_effect E auth payload =
    andthen (need payload ''effect_id'') (\<lambda>eid.
    andthen (by_key get_effect eid) (\<lambda>row.
    andthen (the_or not_found row) (\<lambda>effect.
    let effect_id = se_effect_id effect in
    andthen (svc_get_task (JStr (se_task_id effect))) (\<lambda>task.
    let task_id = tk_task_id task in
    seq (guard_side_effect_eligibility task_id effect_id [E_AUTHORIZED]) (
    andthen (lift_exn (transition_side_effect (se_state effect) ''claim_dispatch'')) (\<lambda>st.
    seq (upd_effect effect_id (\<lambda>e. e\<lparr> se_state := st, se_dispatch_attempts := se_dispatch_attempts e + 1 \<rparr>)) (
    seq (append_event task_id ''side_effect.dispatching'' (Some (actor_id auth))
       [(''effect_id'', JStr effect_id)]) (
    andthen (peek_effect effect_id) (\<lambda>claimed.
    seq (enqueue_outbox E task_id ''side_effect.dispatch'' (dispatch_payload claimed)) (
    ret (success [(''effect_id'', JStr effect_id),
       (''state'', JStr (effect_state_str (se_state claimed))), (''task_id'', JStr task_id)])))))))))))"

text \<open>An effect whose provider cannot be asked stays UNKNOWN and the Task waits for a human.\<close>

definition reconcile_unqueryable :: "SideEffectRow \<Rightarrow> CommandResult tx" where
  "reconcile_unqueryable effect =
    (let effect_id = se_effect_id effect in
    seq (only_if (se_state effect = E_DISPATCHING)
       (upd_effect effect_id (\<lambda>e. e\<lparr> se_state := E_UNKNOWN \<rparr>))) (
    andthen (svc_get_task (JStr (se_task_id effect))) (\<lambda>task.
    seq (only_if (tk_state task \<notin> {WAITING_HUMAN, CANCELLING, ABORTED})
       (set_task_state (tk_task_id task) ''blocking_gate.opened'' (Some WR_EXECUTION_UNCERTAIN))) (
    andthen (peek_effect effect_id) (\<lambda>after.
    ret (success [(''effect_id'', JStr effect_id),
       (''state'', JStr (effect_state_str (se_state after))), (''auto_retry'', JBool False)]))))))"

definition reconcile_side_effect :: "env \<Rightarrow> AuthContext \<Rightarrow> dict \<Rightarrow> CommandResult tx" where
  "reconcile_side_effect E auth payload =
    andthen (need payload ''effect_id'') (\<lambda>eid.
    andthen (by_key get_effect eid) (\<lambda>row.
    andthen (the_or not_found row) (\<lambda>effect.
    let effect_id = se_effect_id effect in
    (if se_state effect \<notin> {E_DISPATCHING, E_UNKNOWN} then
        ret (success [(''effect_id'', JStr effect_id),
          (''state'', JStr (effect_state_str (se_state effect)))])
      else if \<not> se_supports_idempotent_query effect then reconcile_unqueryable effect
      else (let q = ext_query E effect_id (se_external_idempotency_key effect) in
        (if truthy q \<and> jget q ''status'' = JStr ''succeeded'' then seq (upd_effect effect_id (\<lambda>e. e\<lparr> se_state := E_SUCCEEDED, se_receipt_json := Some q,
             se_provider_operation_id := opt_str (jget q ''provider_operation_id'') \<rparr>)) (
          ret (success [(''effect_id'', JStr effect_id),
             (''state'', JStr (effect_state_str E_SUCCEEDED)), (''reconciled'', JBool True)]))
         else if truthy q \<and> jget q ''status'' = JStr ''failed'' then seq (upd_effect effect_id (\<lambda>e. e\<lparr> se_state := E_FAILED_CONFIRMED \<rparr>)) (
           ret (success [(''effect_id'', JStr effect_id),
             (''state'', JStr (effect_state_str E_FAILED_CONFIRMED))]))
         else seq (upd_effect effect_id (\<lambda>e. e\<lparr> se_state := E_UNKNOWN \<rparr>)) (
           ret (success [(''effect_id'', JStr effect_id),
             (''state'', JStr (effect_state_str E_UNKNOWN)), (''auto_retry'', JBool False)]))))))))"

subsection \<open>The frame\<close>

context service_frame
begin


lemma keeps_py_in [frame_intro]: "keeps R (py_in x v)"
  unfolding py_in_def
  by (cases v; cases x; simp only: json.case; intro keeps_struct)

lemma keeps_open_effect_approval [frame_intro]:
  "keeps R (open_effect_approval E task_id eid v ph d)"
  "keeps R (reconcile_unqueryable effect)"
  unfolding open_effect_approval_def reconcile_unqueryable_def
  by (intro keeps_struct frame_intro; simp add: row_le_defs)+

lemma keeps_propose_new_effect [frame_intro]:
  "keeps R (propose_new_effect E auth payload task_id contract k a t p)"
  unfolding propose_new_effect_def by (intro keeps_struct frame_intro)

lemma keeps_side_effects [frame_intro]:
  "keeps R (propose_side_effect E auth payload)"
  "keeps R (dispatch_side_effect E auth payload)"
  "keeps R (reconcile_side_effect E auth payload)"
  unfolding propose_side_effect_def dispatch_side_effect_def reconcile_side_effect_def
  by (intro keeps_struct frame_intro; simp add: row_le_defs)+

end

subsection \<open>What a dispatch guarantees\<close>

lemma eligibility_ok:
  assumes "guard_side_effect_eligibility tid eid allowed s = (Inr (), t)" and "clean s"
  shows "t = s \<and> (\<exists>effect task contract. t_peek se_effect_id eid (effects s) = Some effect
    \<and> t_peek tk_task_id tid (tasks s) = Some task
    \<and> (case se_expires_at effect of None \<Rightarrow> True | Some x \<Rightarrow> clock_now s \<le> x)
    \<and> \<not> tk_cancel_intent task \<and> \<not> tk_pause_intent task \<and> \<not> is_terminal_task (tk_state task)
    \<and> tk_state task \<notin> {CANCELLING, PAUSING, PAUSED}
    \<and> (\<forall>g \<in> set (t_rows (gates s)). \<not> gate_open tid g)
    \<and> fst (active_contract tid s) = Inr (Some contract)
    \<and> ct_contract_version contract = se_contract_version effect \<and> se_state effect \<in> set allowed)"
proof -
  have t: "t = s" using flushed_cleanD [OF flushes.keepsD [OF flushed_gates(2) assms(1)] assms(2)] .
  have gates: "t_clean (gates s)" using assms(2) by (simp add: clean_def)
  from assms(1) obtain contract effect task s1 gate where
      rows: "fst (active_contract tid s) = Inr contract" "t_peek se_effect_id eid (effects s) = Some effect"
        "t_peek tk_task_id tid (tasks s) = Some task"
    and gate: "has_blocking_gate tid s = (Inr gate, s1)"
    and ok: "guard_side_effect_send (tk_state task) (tk_cancel_intent task) (tk_pause_intent task) gate
       (contract \<noteq> None) (Some (se_contract_version effect)) (map_option ct_contract_version contract)
       (case se_expires_at effect of None \<Rightarrow> False | Some x \<Rightarrow> x < clock_now s) (se_state effect) allowed = Inr ()"
    unfolding guard_side_effect_eligibility_def
    by (clarsimp simp: andthen_Inr_iff Let_def readonly_iff [OF readonly_task(3)])
  have "gate = (t_select (gate_open tid) (gates s) \<noteq> [])"
    using gate flush_all_clean [OF assms(2)]
    by (auto simp: has_blocking_gate_def andthen_Inr_iff seq_Inr_iff flush_Inr_iff)
  then have "\<not> gate \<Longrightarrow> \<forall>g \<in> set (t_rows (gates s)). \<not> gate_open tid g"
    using gates by (simp add: t_select_empty)
  with ok rows t show ?thesis unfolding guard_side_effect_send_ok
    by (cases contract) (auto split: option.splits)
qed


definition sample_authorized :: sess where
  "sample_authorized = (sample_db EXECUTING)\<lparr> effects := t_of [sample_effect E_AUTHORIZED] \<rparr>"


end
