(* ===== verification/Plan.thy ===== *)
theory Plan
  imports Domain
begin

text \<open>
  \<open>domain/plan.py\<close>: the plan graph and its validation. The recursive \<open>dfs\<close> of the source,
  which keeps the sets \<open>visiting\<close> and \<open>visited\<close>, is \<open>dfs_each\<close>: the loop \<open>for v in vs: dfs(v)\<close>.
  The main theorem says that validation accepts exactly the well-formed acyclic graphs.
\<close>

record PlanNode =
  n_work_unit_id :: string
  n_spec_version :: int
  n_work_type :: string

record PlanEdge =
  e_from_work_unit_id :: string
  e_to_work_unit_id :: string
  e_predicate :: DependencyPredicate
  e_artifact_hash :: "string option"

definition successors :: "PlanEdge list \<Rightarrow> string \<Rightarrow> string list" where
  "successors edges u = map e_to_work_unit_id (filter (\<lambda>e. e_from_work_unit_id e = u) edges)"

lemma successors_Nil: "u \<notin> e_from_work_unit_id ` set edges \<Longrightarrow> successors edges u = []"
  by (auto simp: successors_def filter_empty_conv)

text \<open>\<open>visiting\<close> is restored when a call returns, so it is passed down; \<open>visited\<close> is threaded.\<close>

function dfs_each :: "PlanEdge list \<Rightarrow> string list \<Rightarrow> string list \<Rightarrow> string list \<Rightarrow> exn + string list" where
  "dfs_each edges visiting visited [] = Inr visited"
| "dfs_each edges visiting visited (u # us) =
     (if u \<in> set visiting then Inl (PreconditionError ''plan_cycle'')
      else if u \<in> set visited then dfs_each edges visiting visited us
      else (case dfs_each edges (u # visiting) visited (successors edges u) of
              Inl e \<Rightarrow> Inl e
            | Inr visited' \<Rightarrow> dfs_each edges visiting (u # visited') us))"
  by pat_completeness auto
termination
proof (relation "measures [\<lambda>(edges, visiting, visited, us).
      card (e_from_work_unit_id ` set edges - set visiting), \<lambda>(edges, visiting, visited, us). length us]")
  fix edges :: "PlanEdge list" and visiting visited us :: "string list" and u
  let ?F = "e_from_work_unit_id ` set edges"
  assume u: "u \<notin> set visiting"
  show "((edges, u # visiting, visited, successors edges u), edges, visiting, visited, u # us)
      \<in> measures [\<lambda>(edges, visiting, visited, us). card (e_from_work_unit_id ` set edges - set visiting),
          \<lambda>(edges, visiting, visited, us). length us]"
  proof (cases "u \<in> ?F")
    case True
    with u have "card (?F - set (u # visiting)) < card (?F - set visiting)"
      by (intro psubset_card_mono) auto
    then show ?thesis by simp
  next
    case False
    then have "?F - set (u # visiting) = ?F - set visiting" by auto
    with False show ?thesis by (simp add: successors_Nil)
  qed
qed auto

text \<open>The per-edge checks, in the order of the loop.\<close>

fun check_edges :: "string list \<Rightarrow> PlanEdge list \<Rightarrow> exn + unit" where
  "check_edges ids [] = Inr ()"
| "check_edges ids (e # es) =
     (if e_from_work_unit_id e \<notin> set ids \<or> e_to_work_unit_id e \<notin> set ids
      then Inl (PreconditionError ''plan_dangling_edge'')
      else if e_predicate e = VERDICT_PASS \<and> (e_artifact_hash e = None \<or> e_artifact_hash e = Some [])
      then Inl (PreconditionError ''plan_missing_artifact_hash'')
      else check_edges ids es)"

definition validate_dag :: "PlanNode list \<Rightarrow> PlanEdge list \<Rightarrow> bool \<Rightarrow> exn + unit" where
  "validate_dag nodes edges permission_ok =
    (let ids = map n_work_unit_id nodes in
     if nodes = [] then Inl (PreconditionError ''plan_empty'')
     else if length ids \<noteq> card (set ids) then Inl (PreconditionError ''plan_duplicate_node'')
     else case check_edges ids edges of
       Inl e \<Rightarrow> Inl e
     | Inr _ \<Rightarrow>
        (case dfs_each edges [] [] ids of
           Inl e \<Rightarrow> Inl e
         | Inr _ \<Rightarrow> if \<not> permission_ok then Inl (PreconditionError ''plan_permission'') else Inr ()))"

subsection \<open>The search decides acyclicity\<close>

definition edge_rel :: "PlanEdge list \<Rightarrow> (string \<times> string) set" where
  "edge_rel edges = (\<lambda>e. (e_from_work_unit_id e, e_to_work_unit_id e)) ` set edges"

lemma in_successors: "v \<in> set (successors edges u) \<longleftrightarrow> (u, v) \<in> edge_rel edges"
  by (force simp: successors_def edge_rel_def)

text \<open>A visited list in which every node precedes its successors' visits.\<close>

fun finished :: "PlanEdge list \<Rightarrow> string list \<Rightarrow> bool" where
  "finished edges [] = True"
| "finished edges (u # us) \<longleftrightarrow> set (successors edges u) \<subseteq> set us \<and> u \<notin> set us \<and> finished edges us"

lemma dfs_each_finished:
  assumes "dfs_each edges visiting visited us = Inr done"
    and "finished edges visited" and "set visited \<inter> set visiting = {}"
  shows "finished edges done \<and> set visited \<union> set us \<subseteq> set done \<and> set done \<inter> set visiting = {}"
  using assms
proof (induction edges visiting visited us arbitrary: "done" rule: dfs_each.induct)
  case (2 edges visiting visited u us)
  from "2.prems"(1) have nv: "u \<notin> set visiting" by (auto split: if_splits)
  show ?case
  proof (cases "u \<in> set visited")
    case True
    with 2 nv show ?thesis by auto
  next
    case False
    with "2.prems"(1) nv obtain visited' where
      rec: "dfs_each edges (u # visiting) visited (successors edges u) = Inr visited'"
      and rest: "dfs_each edges visiting (u # visited') us = Inr done"
      by (auto split: sum.splits)
    have d: "set visited \<inter> set (u # visiting) = {}" using "2.prems"(3) False by auto
    have sub: "finished edges visited' \<and> set visited \<union> set (successors edges u) \<subseteq> set visited'
        \<and> set visited' \<inter> set (u # visiting) = {}"
      by (rule "2.IH"(2) [OF nv False rec "2.prems"(2) d])
    then have "finished edges (u # visited')" and "set (u # visited') \<inter> set visiting = {}"
      using nv by auto
    from "2.IH"(3) [OF nv False rec rest this] sub show ?thesis by auto
  qed
qed auto

lemma finished_acyclic:
  assumes "finished edges us" and "fst ` edge_rel edges \<subseteq> set us"
  shows "acyclic (edge_rel edges)"
proof -
  let ?rank = "\<lambda>u. length (dropWhile (\<lambda>w. w \<noteq> u) us)"
  have rank: "length (dropWhile (\<lambda>w. w \<noteq> v) vs) < length (dropWhile (\<lambda>w. w \<noteq> u) vs)"
    if "finished edges vs" "u \<in> set vs" "(u, v) \<in> edge_rel edges" for u v vs
    using that
  proof (induction vs)
    case (Cons w ws)
    show ?case
    proof (cases "w = u")
      case True
      with Cons.prems have "v \<in> set ws" by (auto simp: in_successors [symmetric])
      then have "v \<noteq> w \<and> length (dropWhile (\<lambda>w. w \<noteq> v) ws) \<le> length ws"
        using Cons.prems True by (auto intro: length_dropWhile_le)
      with True show ?thesis by auto
    next
      case False
      with Cons have lt: "length (dropWhile (\<lambda>w. w \<noteq> v) ws) < length (dropWhile (\<lambda>w. w \<noteq> u) ws)" by simp
      have "v \<in> set ws"
      proof -
        from False Cons.prems have "u \<in> set ws" "finished edges ws" by auto
        moreover have "x \<in> set ws \<Longrightarrow> finished edges ws \<Longrightarrow> set (successors edges x) \<subseteq> set ws" for x ws
          by (induction ws) auto
        ultimately show ?thesis using Cons.prems(3) by (auto simp: in_successors [symmetric])
      qed
      with Cons.prems have "v \<noteq> w" by auto
      with lt False show ?thesis by auto
    qed
  qed simp
  have "(edge_rel edges)\<inverse> \<subseteq> measure ?rank"
    using assms rank by (force simp: image_subset_iff)
  then have "wf ((edge_rel edges)\<inverse>)" by (rule wf_subset [OF wf_measure])
  then have "acyclic ((edge_rel edges)\<inverse>)" by (rule wf_acyclic)
  then show ?thesis by simp
qed

lemma dfs_each_cycle:
  assumes "dfs_each edges visiting visited us = Inl e"
    and "\<forall>w \<in> set visiting. \<forall>x \<in> set us. (w, x) \<in> (edge_rel edges)\<^sup>+"
  shows "e = PreconditionError ''plan_cycle'' \<and> \<not> acyclic (edge_rel edges)"
  using assms
proof (induction edges visiting visited us rule: dfs_each.induct)
  case (2 edges visiting visited u us)
  show ?case
  proof (cases "u \<in> set visiting")
    case True
    with "2.prems" show ?thesis by (auto simp: acyclic_def)
  next
    case nv: False
    show ?thesis
    proof (cases "u \<in> set visited")
      case True
      with 2 nv show ?thesis by simp
    next
      case nd: False
      show ?thesis
      proof (cases "dfs_each edges (u # visiting) visited (successors edges u)")
        case (Inl e')
        have "\<forall>w \<in> set (u # visiting). \<forall>x \<in> set (successors edges u). (w, x) \<in> (edge_rel edges)\<^sup>+"
          using "2.prems"(2) by (auto simp: in_successors intro: trancl_into_trancl)
        with "2.IH"(2) nv nd Inl "2.prems"(1) show ?thesis by simp
      next
        case (Inr visited')
        with 2 nv nd show ?thesis by simp
      qed
    qed
  qed
qed auto

lemma check_edges_ok:
  "check_edges ids edges = Inr () \<longleftrightarrow>
    (\<forall>e \<in> set edges. e_from_work_unit_id e \<in> set ids \<and> e_to_work_unit_id e \<in> set ids
      \<and> (e_predicate e = VERDICT_PASS \<longrightarrow> e_artifact_hash e \<noteq> None \<and> e_artifact_hash e \<noteq> Some []))"
  by (induction edges) auto

text \<open>A plan graph that may become the active plan.\<close>

definition well_formed_dag :: "PlanNode list \<Rightarrow> PlanEdge list \<Rightarrow> bool" where
  "well_formed_dag nodes edges \<longleftrightarrow>
    nodes \<noteq> [] \<and> distinct (map n_work_unit_id nodes)
    \<and> (\<forall>e \<in> set edges. e_from_work_unit_id e \<in> n_work_unit_id ` set nodes
        \<and> e_to_work_unit_id e \<in> n_work_unit_id ` set nodes
        \<and> (e_predicate e = VERDICT_PASS \<longrightarrow> (\<exists>h. e_artifact_hash e = Some h \<and> h \<noteq> [])))
    \<and> acyclic (edge_rel edges)"

lemma dfs_each_iff:
  assumes "fst ` edge_rel edges \<subseteq> set ids"
  shows "(\<exists>done. dfs_each edges [] [] ids = Inr done) \<longleftrightarrow> acyclic (edge_rel edges)"
proof (cases "dfs_each edges [] [] ids")
  case (Inl e)
  then show ?thesis using dfs_each_cycle [OF Inl] by simp
next
  case (Inr d)
  from dfs_each_finished [OF Inr] have "finished edges d" "set ids \<subseteq> set d" by auto
  with assms have "acyclic (edge_rel edges)" by (intro finished_acyclic [of _ d]) auto
  with Inr show ?thesis by simp
qed

text \<open>
  C8. \<open>validate_dag\<close> accepts exactly the well-formed graphs: at least one node, no node
  twice, no dangling edge, an artifact hash on every VERDICT_PASS edge, and no cycle; the
  depth-first search with its visiting and visited sets decides acyclicity of the edge relation.
\<close>

theorem validate_dag_correct:
  "validate_dag nodes edges permission_ok = Inr () \<longleftrightarrow> permission_ok \<and> well_formed_dag nodes edges"
proof (cases "nodes \<noteq> [] \<and> distinct (map n_work_unit_id nodes)
    \<and> check_edges (map n_work_unit_id nodes) edges = Inr ()")
  case False
  then have "validate_dag nodes edges permission_ok \<noteq> Inr ()"
    by (auto simp: validate_dag_def Let_def card_distinct [OF sym] split: sum.splits)
  moreover have "\<not> well_formed_dag nodes edges"
    using False by (fastforce simp: well_formed_dag_def check_edges_ok)
  ultimately show ?thesis by simp
next
  case True
  then have card: "length nodes = card (n_work_unit_id ` set nodes)"
    using distinct_card [of "map n_work_unit_id nodes"] by simp
  from True have "fst ` edge_rel edges \<subseteq> set (map n_work_unit_id nodes)"
    by (auto simp: check_edges_ok edge_rel_def)
  from dfs_each_iff [OF this] True card
  have "validate_dag nodes edges permission_ok = Inr () \<longleftrightarrow> permission_ok \<and> acyclic (edge_rel edges)"
    by (auto simp: validate_dag_def Let_def split: sum.splits)
  moreover have "well_formed_dag nodes edges \<longleftrightarrow> acyclic (edge_rel edges)"
    using True by (fastforce simp: well_formed_dag_def check_edges_ok)
  ultimately show ?thesis by simp
qed

end
