(* ===== verification/Plans.thy ===== *)
theory Plans
  imports Helpers Plan
begin

text \<open>
  Activating a plan (\<open>application/service.py\<close>): \<open>_activate_minimal_plan\<close> and \<open>_activate_plan\<close>,
  split into its phases: parse and validate, check caps and ownership before anything is
  superseded, record the plan, bind each node, tear down removed work units.
\<close>

subsection \<open>Parsing\<close>

definition parse_node :: "json \<Rightarrow> PlanNode tx" where
  "parse_node n =
    andthen (as_obj n) (\<lambda>d.
    andthen (need d ''work_unit_id'') (\<lambda>wid.
    andthen (need_int (jor (dget d ''spec_version'') (JInt 1))) (\<lambda>version.
    ret \<lparr> n_work_unit_id = py_str wid, n_spec_version = version,
       n_work_type = py_str (jor (dget d ''work_type'') (JStr ''EXECUTE'')) \<rparr>)))"

definition parse_edge :: "json \<Rightarrow> PlanEdge tx" where
  "parse_edge e =
    andthen (as_obj e) (\<lambda>d.
    andthen (need d ''from_work_unit_id'') (\<lambda>src.
    andthen (need d ''to_work_unit_id'') (\<lambda>dst.
    andthen (the_or ValueError (parse_predicate (py_str (jor (dget d ''predicate'') (JStr ''DONE''))))) (\<lambda>pred.
    ret \<lparr> e_from_work_unit_id = py_str src, e_to_work_unit_id = py_str dst, e_predicate = pred,
       e_artifact_hash = opt_str (dget d ''artifact_hash'') \<rparr>))))"

text \<open>An expected version sent along must match, when it and the current one are there.\<close>

definition check_version :: "json \<Rightarrow> int option \<Rightarrow> unit tx" where
  "check_version expected current =
    (if expected = JNull then ret ()
     else case current of
       None \<Rightarrow> ret ()
     | Some c \<Rightarrow> andthen (need_int expected) (\<lambda>v.
       ensure (v = c) (ConflictError ''version_conflict'')))"

subsection \<open>Checks before the old plan is touched\<close>

definition check_node_owner :: "string \<Rightarrow> PlanNode \<Rightarrow> unit tx" where
  "check_node_owner task_id n =
    andthen (select_wu_spec (\<lambda>w. wsp_work_unit_id w = n_work_unit_id n)) (\<lambda>specs.
    seq (ensure (case first_of specs of None \<Rightarrow> True | Some w \<Rightarrow> wsp_task_id w = task_id)
       (PreconditionError ''cross_task_work_unit'')) (
    andthen (get_wu (n_work_unit_id n)) (\<lambda>existing.
    ensure (case existing of None \<Rightarrow> True | Some w \<Rightarrow> wu_task_id w = task_id)
       (PreconditionError ''cross_task_work_unit''))))"

definition check_plan_caps :: "string \<Rightarrow> PlanNode list \<Rightarrow> unit tx" where
  "check_plan_caps task_id nodes =
    seq (ensure (int (length nodes) \<le> max_work_units_per_task DEFAULTS)
       (PreconditionError ''plan_work_unit_cap'')) (
    andthen (stored_plan (\<lambda>p. pl_task_id p = task_id)) (\<lambda>prior.
    seq (ensure (int (length prior) < max_plan_revisions DEFAULTS) (PreconditionError ''plan_revision_cap'')) (
    each nodes (check_node_owner task_id))))"

subsection \<open>Recording the plan\<close>

definition supersede_active_plan :: "string \<Rightarrow> unit tx" where
  "supersede_active_plan task_id =
    andthen (get_plan_marker task_id) (\<lambda>prev.
    (case prev of
        None \<Rightarrow> ret ()
      | Some m \<Rightarrow> andthen (select_plan (\<lambda>p. pl_task_id p = task_id \<and> pl_plan_version p = apm_plan_version m)) (\<lambda>olds.
        seq (case first_of olds of
             None \<Rightarrow> ret ()
           | Some old \<Rightarrow> upd_plan (plan_key old) (\<lambda>p. p\<lparr> pl_status := P_SUPERSEDED \<rparr>)) (
        drop_plan_marker task_id))))"

definition record_plan :: "env \<Rightarrow> string \<Rightarrow> int \<Rightarrow> json \<Rightarrow> json \<Rightarrow> int tx" where
  "record_plan E task_id contract_version raw_nodes raw_edges =
    andthen now (\<lambda>ts.
    andthen (peek_task task_id) (\<lambda>task.
    let plan_version = (case tk_plan_version task of None \<Rightarrow> 0 | Some v \<Rightarrow> v) + 1 in
    seq (supersede_active_plan task_id) (
    seq (add_plan \<lparr> pl_task_id = task_id, pl_plan_version = plan_version,
       pl_base_plan_version = tk_plan_version task, pl_contract_version = contract_version,
       pl_content_hash = content_hash (sha E) (JObj [(''nodes'', raw_nodes), (''edges'', raw_edges)]),
       pl_nodes_json = raw_nodes, pl_edges_json = raw_edges, pl_status = P_ACTIVE,
       pl_created_at = ts \<rparr>) (
    seq (add_plan_marker \<lparr> apm_task_id = task_id, apm_plan_version = plan_version \<rparr>) (
    seq (upd_task task_id (\<lambda>t. t\<lparr> tk_plan_version := Some plan_version \<rparr>)) (
    seq (supersede_pending_acceptance task_id) (
    ret plan_version)))))))"

subsection \<open>Binding a node\<close>

text \<open>\<open>raw_by_id.get(id) or {}\<close>: the raw entry of a node.\<close>

definition raw_by_id :: "json list \<Rightarrow> string \<Rightarrow> dict" where
  "raw_by_id raw_nodes wid =
    (case find (\<lambda>item. is_obj item \<and> truthy (jget item ''work_unit_id'')
        \<and> py_str (jget item ''work_unit_id'') = wid) (rev raw_nodes) of
       None \<Rightarrow> [] | Some item \<Rightarrow> entries item)"

definition list_field :: "dict \<Rightarrow> string \<Rightarrow> json tx" where
  "list_field d k =
    andthen (elems (jor (dget d k) (JList []))) (\<lambda>xs.
    ret (JList xs))"

definition node_spec :: "dict \<Rightarrow> dict \<Rightarrow> dict \<Rightarrow> TaskRow \<Rightarrow> PlanNode \<Rightarrow> json tx" where
  "node_spec n_raw payload contract_content task n =
    andthen (list_field n_raw ''input_refs'') (\<lambda>input_refs.
    andthen (list_field n_raw ''expected_outputs'') (\<lambda>expected.
    andthen (elems (jor (dget n_raw ''acceptance_criteria'')
       (jor (dget contract_content ''acceptance_criteria'') (JList [])))) (\<lambda>criteria.
    andthen (list_field n_raw ''required_capabilities'') (\<lambda>capabilities.
    andthen (list_field n_raw ''requested_permissions'') (\<lambda>permissions.
    ret (JObj [
       (''objective'', jor (dget n_raw ''objective'')
          (jor (dget payload ''objective'') (JStr (tk_title task)))),
       (''work_type'', JStr (n_work_type n)),
       (''context_policy'', jor (dget n_raw ''context_policy'') (JStr ''FRESH'')),
       (''input_refs'', input_refs), (''expected_outputs'', expected),
       (''acceptance_criteria'', JList criteria),
       (''required_capabilities'', capabilities), (''requested_permissions'', permissions),
       (''workspace_policy'', jor (dget n_raw ''workspace_policy'') (JStr ''dedicated''))]))))))"

text \<open>
  A work unit that exists keeps its spec version, unless it was never started; a terminal one
  never comes back.
\<close>

definition bind_execution :: "string \<Rightarrow> PlanNode \<Rightarrow> WorkUnitExecutionRow option \<Rightarrow> unit tx" where
  "bind_execution task_id n exec_existing =
    (case exec_existing of
       None \<Rightarrow> add_wu \<lparr> wu_work_unit_id = n_work_unit_id n, wu_task_id = task_id,
         wu_spec_version = n_spec_version n, wu_status = W_PENDING, wu_active_run_id = None,
         wu_attempt_count = 0, wu_next_retry_at = None, wu_selected_result_ref = None,
         wu_blocked_reason = None, wu_selected_verdict = None, wu_verified_artifact_hash = None \<rparr>
     | Some w \<Rightarrow>
         if is_terminal_work_unit (wu_status w) then
           ensure (wu_spec_version w = n_spec_version n) (PreconditionError ''work_unit_spec_immutable'')
         else if wu_spec_version w \<noteq> n_spec_version n then
           (if wu_status w = W_PENDING \<and> \<not> is_set (wu_active_run_id w) \<and> wu_attempt_count w = 0
            then upd_wu (wu_work_unit_id w) (\<lambda>x. x\<lparr> wu_spec_version := n_spec_version n \<rparr>)
            else raise (PreconditionError ''work_unit_spec_immutable''))
         else ret ())"

definition bind_workspace :: "string \<Rightarrow> PlanNode \<Rightarrow> dict \<Rightarrow> string list \<Rightarrow> string list tx" where
  "bind_workspace task_id n n_raw seen =
    (let ws_id = py_str (jor (dget n_raw ''workspace_id'') (JStr (''ws_'' @ n_work_unit_id n))) in
    andthen (get_workspace ws_id) (\<lambda>ws.
    seq (if ws = None \<and> ws_id \<notin> set seen then
        add_workspace \<lparr> ws_workspace_id = ws_id, ws_task_id = task_id,
          ws_work_unit_id = n_work_unit_id n, ws_kind = ''local'', ws_state = READY,
          ws_owner_run_id = None, ws_fencing_epoch = 0, ws_writer_alive = False \<rparr>
      else ensure (case ws of None \<Rightarrow> True | Some w \<Rightarrow> ws_task_id w = task_id)
        (PreconditionError ''cross_task_workspace'')) (
    ret (ws_id # seen))))"

definition bind_node :: "env \<Rightarrow> TaskRow \<Rightarrow> dict \<Rightarrow> dict \<Rightarrow> json list \<Rightarrow> string list \<Rightarrow> PlanNode
    \<Rightarrow> string list tx" where
  "bind_node E task payload contract_content raw_nodes seen n =
    andthen now (\<lambda>ts.
    let n_raw = raw_by_id raw_nodes (n_work_unit_id n) in
    andthen (get_wu (n_work_unit_id n)) (\<lambda>exec_existing.
    andthen (node_spec n_raw payload contract_content task n) (\<lambda>spec.
    andthen (select_wu_spec (\<lambda>w. wsp_work_unit_id w = n_work_unit_id n
       \<and> wsp_spec_version w = n_spec_version n)) (\<lambda>existing.
    seq (case first_of existing of
        None \<Rightarrow> add_wu_spec \<lparr> wsp_work_unit_id = n_work_unit_id n,
          wsp_spec_version = n_spec_version n, wsp_task_id = tk_task_id task,
          wsp_objective = py_str (jget spec ''objective''), wsp_work_type = n_work_type n,
          wsp_content_hash = content_hash (sha E) spec, wsp_content_json = spec,
          wsp_created_at = ts \<rparr>
      | Some w \<Rightarrow> ensure (wsp_task_id w = tk_task_id task) (PreconditionError ''cross_task_work_unit'')) (
    seq (bind_execution (tk_task_id task) n exec_existing) (
    bind_workspace (tk_task_id task) n n_raw seen))))))"

subsection \<open>Removed work units\<close>

definition cancel_unsent_start :: "string \<Rightarrow> string \<Rightarrow> unit tx" where
  "cancel_unsent_start task_id run_id =
    andthen now (\<lambda>ts.
    andthen (select_outbox (\<lambda>ob. ob_task_id ob = task_id \<and> ob_command_type ob = ''agent.start''
       \<and> ob_status ob = O_PENDING)) (\<lambda>pending.
    each pending (\<lambda>ob. only_if (jget (ob_payload_json ob) ''run_id'' = JStr run_id) (seq (upd_outbox (ob_outbox_id ob) (\<lambda>x. x\<lparr> ob_status := O_DEAD \<rparr>)) (
      seq (upd_run run_id (\<lambda>r. r\<lparr> ar_status := R_CANCELLED, ar_finished_at := Some ts,
         ar_terminal_reason := Some ''removed_from_plan'' \<rparr>)) (
      clear_run_occupancy run_id True))))))"

definition cancel_unit :: "string \<Rightarrow> unit tx" where
  "cancel_unit wid = upd_wu wid (\<lambda>x. x\<lparr> wu_status := W_CANCELLED,
     wu_blocked_reason := Some ''removed_from_plan'', wu_active_run_id := None \<rparr>)"

definition remove_orphan :: "env \<Rightarrow> string \<Rightarrow> string list \<Rightarrow> WorkUnitExecutionRow \<Rightarrow> unit tx" where
  "remove_orphan E task_id keep_ids orphan =
    (if wu_work_unit_id orphan \<in> set keep_ids then ret ()
     else if is_terminal_work_unit (wu_status orphan) then ret ()
     else if wu_status orphan = W_PENDING then cancel_unit (wu_work_unit_id orphan)
     else andthen (get_opt get_run (wu_active_run_id orphan)) (\<lambda>run_row.
       seq (case run_row of
          None \<Rightarrow> ret ()
        | Some run \<Rightarrow> only_if (run_active run) (seq (enqueue_stops_for_runs E task_id [ar_run_id run] ''removed_from_plan'') (
          only_if (ar_status run = R_CREATED) (cancel_unsent_start task_id (ar_run_id run))))) (
       seq (cancel_unit (wu_work_unit_id orphan)) (
       andthen (get_exec_marker (wu_work_unit_id orphan)) (\<lambda>marker.
       only_if (marker \<noteq> None) (drop_exec_marker (wu_work_unit_id orphan)))))))"

subsection \<open>The commands\<close>

definition activate_plan :: "env \<Rightarrow> AuthContext \<Rightarrow> dict \<Rightarrow> CommandResult tx" where
  "activate_plan E auth payload =
    andthen (need payload ''task_id'') (\<lambda>tid.
    andthen (svc_get_task tid) (\<lambda>task.
    let task_id = tk_task_id task in
    seq (assert_task_principal auth task) (
    andthen (active_contract task_id) (\<lambda>contract_row.
    andthen (the_or (PreconditionError ''no_active_contract'') contract_row) (\<lambda>contract.
    seq (check_version (dget payload ''expected_contract_version'') (Some (ct_contract_version contract))) (
    seq (check_version (dget payload ''expected_plan_version'') (tk_plan_version task)) (
    andthen (need payload ''nodes'') (\<lambda>raw_nodes.
    let raw_edges = jor (dget payload ''edges'') (JList []) in
    andthen (elems raw_nodes) (\<lambda>node_items.
    andthen (elems raw_edges) (\<lambda>edge_items.
    andthen (collect node_items parse_node) (\<lambda>nodes.
    andthen (collect edge_items parse_edge) (\<lambda>edges.
    seq (lift_exn (validate_dag nodes edges True)) (
    seq (check_plan_caps task_id nodes) (
    andthen (record_plan E task_id (ct_contract_version contract) raw_nodes raw_edges) (\<lambda>plan_version.
    andthen (accumulate nodes []
       (bind_node E task payload (entries (ct_content_json contract)) node_items)) (\<lambda>seen.
    andthen (select_wu (\<lambda>w. wu_task_id w = task_id)) (\<lambda>orphans.
    seq (each orphans (remove_orphan E task_id (map n_work_unit_id nodes))) (
    seq (only_if (tk_state task \<in> {PLANNING, VERIFYING}) (set_task_state task_id ''plan.activated'' None)) (
    seq (append_event task_id ''plan.activated'' (Some (actor_id auth)) [(''plan_version'', JInt plan_version)]) (
    andthen (peek_task task_id) (\<lambda>after.
    ret (success [(''task_id'', JStr task_id), (''plan_version'', JInt plan_version),
       (''nodes'', jstrs (map n_work_unit_id nodes)),
       (''state'', JStr (task_state_str (tk_state after)))]))))))))))))))))))))))"

definition activate_minimal_plan :: "env \<Rightarrow> AuthContext \<Rightarrow> dict \<Rightarrow> CommandResult tx" where
  "activate_minimal_plan E auth payload =
    andthen (need payload ''task_id'') (\<lambda>tid.
    andthen (svc_get_task tid) (\<lambda>task.
    seq (assert_task_principal auth task) (
    andthen (active_contract (tk_task_id task)) (\<lambda>contract_row.
    andthen (the_or (PreconditionError ''no_active_contract'') contract_row) (\<lambda>contract.
    andthen (if truthy (dget payload ''work_unit_id'') then ret (dget payload ''work_unit_id'')
       else andthen (new_id E ''wu'') (\<lambda>wid.
         ret (JStr wid))) (\<lambda>work_unit_id.
    activate_plan E auth [(''task_id'', JStr (tk_task_id task)),
       (''nodes'', JList [JObj [(''work_unit_id'', work_unit_id), (''spec_version'', JInt 1),
          (''work_type'', JStr ''EXECUTE'')]]),
       (''edges'', JList []),
       (''expected_contract_version'', JInt (ct_contract_version contract))]))))))"

subsection \<open>The frame\<close>

context service_frame
begin


lemma keeps_plan_parsing [frame_intro]:
  "keeps R (parse_node n)"
  "keeps R (parse_edge e)"
  "keeps R (check_version ex cur)"
  "keeps R (check_node_owner task_id node)"
  "keeps R (list_field d k)"
  unfolding parse_node_def parse_edge_def check_version_def check_node_owner_def list_field_def
  by (intro keeps_struct frame_intro)+

lemma keeps_plan_recording [frame_intro]:
  "keeps R (check_plan_caps task_id nodes)"
  "keeps R (supersede_active_plan task_id)"
  "keeps R (node_spec n_raw payload cc task n)"
  "keeps R (bind_execution task_id n w)"
  "keeps R (bind_workspace task_id n n_raw seen)"
  "keeps R (cancel_unsent_start task_id run_id)"
  "keeps R (cancel_unit wid)"
  unfolding check_plan_caps_def supersede_active_plan_def node_spec_def bind_execution_def
    bind_workspace_def cancel_unsent_start_def cancel_unit_def
  by (intro keeps_struct frame_intro; auto simp: row_le_defs)+

lemma keeps_plan_steps [frame_intro]:
  "keeps R (record_plan E task_id cv raw_nodes raw_edges)"
  "keeps R (bind_node E task payload cc raw_items seen n)"
  "keeps R (remove_orphan E task_id keep_ids orphan)"
  unfolding record_plan_def bind_node_def remove_orphan_def
  by (intro keeps_struct frame_intro; simp add: row_le_defs can_become.stay)+

lemma keeps_activate_plan [frame_intro]:
  "keeps R (activate_plan E auth payload)"
  unfolding activate_plan_def by (intro keeps_struct frame_intro)

lemma keeps_activate_minimal_plan [frame_intro]:
  "keeps R (activate_minimal_plan E auth payload)"
  unfolding activate_minimal_plan_def by (intro keeps_struct frame_intro)

end

end
