(* ===== verification/Dispatch.thy ===== *)
theory Dispatch
  imports Decisions
begin

text \<open>
  Dispatching Runs (\<open>application/service.py\<close>): \<open>_dispatch_ready_runs\<close> with its dependency check,
  the frozen execution spec, the context manifest and its byte count, and \<open>_open_resource_gate\<close>.
\<close>

subsection \<open>Contract limits\<close>

text \<open>The contract version the Task is bound to.\<close>

definition bound_contract :: "TaskRow \<Rightarrow> ContractRow option tx" where
  "bound_contract task =
    andthen (select_contract (\<lambda>c. ct_task_id c = tk_task_id task
       \<and> Some (ct_contract_version c) = tk_contract_version task)) (\<lambda>rows.
    ret (first_of rows))"

definition contract_and_limits :: "TaskRow \<Rightarrow> (dict \<times> dict) tx" where
  "contract_and_limits task =
    andthen (bound_contract task) (\<lambda>contract.
    ret (case contract of
        None \<Rightarrow> ([], [])
      | Some c \<Rightarrow>
         (let raw_ceiling = jget (ct_content_json c) ''permission_ceiling'';
              raw_limits = jget (ct_content_json c) ''resource_limits''
          in (if is_obj raw_ceiling then entries raw_ceiling
              else if raw_ceiling = JNull then [] else [(''tools'', raw_ceiling)],
              entries raw_limits))))"

subsection \<open>Dependencies\<close>

definition dep_satisfied :: "json \<Rightarrow> bool tx" where
  "dep_satisfied e =
    andthen (need (entries e) ''from_work_unit_id'') (\<lambda>src.
    andthen (by_key get_wu src) (\<lambda>dep_row.
    ret (case dep_row of
        None \<Rightarrow> False
      | Some dep \<Rightarrow>
         (let pred = jor (jget e ''predicate'') (JStr ''DONE''); needed = jget e ''artifact_hash'' in
          if pred = JStr ''DONE'' then wu_status dep = W_DONE
          else if pred = JStr ''VERDICT_PASS'' then
            wu_status dep = W_DONE \<and> wu_selected_verdict dep = Some ''PASS''
            \<and> (truthy needed \<longrightarrow> jopt (wu_verified_artifact_hash dep) = needed)
          else False))))"

fun all_deps_satisfied :: "json list \<Rightarrow> bool tx" where
  "all_deps_satisfied [] = ret True"
| "all_deps_satisfied (e # es) =
  andthen (dep_satisfied e) (\<lambda>ok.
  (if ok then all_deps_satisfied es else ret False))"

definition deps_satisfied :: "json \<Rightarrow> json list \<Rightarrow> bool tx" where
  "deps_satisfied wu_id edges =
    andthen (collect edges (\<lambda>e. andthen (need (entries e) ''to_work_unit_id'') (\<lambda>t.
      ret (t, e)))) (\<lambda>tos.
    all_deps_satisfied (map snd (filter (\<lambda>(t, e). t = wu_id) tos)))"

subsection \<open>The context manifest\<close>

definition registered_size :: "json \<Rightarrow> json \<Rightarrow> int option tx" where
  "registered_size task_id digest =
    (case (task_id, digest) of
       (JStr t, JStr h) \<Rightarrow> andthen (get_artifact (t, h)) (\<lambda>row.
         ret (case row of None \<Rightarrow> None
              | Some a \<Rightarrow> (case af_size_bytes a of None \<Rightarrow> None
                           | Some n \<Rightarrow> if n = 0 then None else Some n)))
     | _ \<Rightarrow> ret None)"

text \<open>The size a reference adds: its registered artifact, or the workspace file it names.\<close>

definition ref_bytes :: "env \<Rightarrow> string option \<Rightarrow> string option \<Rightarrow> json \<Rightarrow> int tx" where
  "ref_bytes E workspace_id dependency_task_id ref =
    (let kind = jget ref ''kind'' in
    (if kind \<in> {JStr ''artifact'', JStr ''dependency_result''} then (let digest = jor (jget ref ''hash'') (jget ref ''artifact_hash'') in
      (if \<not> truthy digest then ret 0
         else andthen (if truthy (jget ref ''task_id'') then registered_size (jget ref ''task_id'') digest
                   else ret None) (\<lambda>own.
           (case own of
              Some n \<Rightarrow> ret n
            | None \<Rightarrow>
               (if is_set dependency_task_id then andthen (registered_size (jopt dependency_task_id) digest) (\<lambda>dep.
                 ret (case dep of None \<Rightarrow> 0 | Some n \<Rightarrow> n)) else ret 0)))))
      else if kind = JStr ''workspace_file'' \<and> truthy (jget ref ''ref'')
          \<and> is_set (workspace_root E) \<and> is_set workspace_id then
        ret (case file_size E (or_else workspace_id []) (py_str (jget ref ''ref'')) of
               None \<Rightarrow> 0 | Some n \<Rightarrow> n)
      else ret 0))"

definition mandatory_context_bytes ::
    "env \<Rightarrow> json list \<Rightarrow> json list \<Rightarrow> string option \<Rightarrow> string option \<Rightarrow> int tx" where
  "mandatory_context_bytes E mandatory dependency_refs workspace_id dependency_task_id =
    (let refs = mandatory @ dependency_refs in
    andthen (collect refs (ref_bytes E workspace_id dependency_task_id)) (\<lambda>sizes.
    ret (sum_list (map (\<lambda>r. int (length (canonical_json r))) refs) + sum_list sizes)))"

definition bound_plan :: "TaskRow \<Rightarrow> PlanRow option tx" where
  "bound_plan task =
    andthen (select_plan (\<lambda>p. pl_task_id p = tk_task_id task
       \<and> Some (pl_plan_version p) = tk_plan_version task)) (\<lambda>rows.
    ret (first_of rows))"

text \<open>The inputs a Run must see: the contract, its deliverables, the plan.\<close>

definition mandatory_refs :: "TaskRow \<Rightarrow> ContractRow option \<Rightarrow> PlanRow option \<Rightarrow> json list" where
  "mandatory_refs task contract plan =
    (case contract of
       None \<Rightarrow> []
     | Some c \<Rightarrow>
        JObj [(''kind'', JStr ''contract''),
          (''ref'', JStr (''contract:'' @ tk_task_id task @ '':v'' @ show_int (ct_contract_version c))),
          (''version'', JInt (ct_contract_version c)), (''hash'', JStr (ct_content_hash c)),
          (''required'', JBool True)]
        # map (\<lambda>d. JObj [(''kind'', JStr ''deliverable''), (''ref'', jget d ''deliverable_id''),
            (''expected_kind'', jget d ''expected_kind''), (''required'', JBool True)])
          (json_list (ct_content_json c) (Some ''deliverables'')))
    @ (case plan of
         None \<Rightarrow> []
       | Some p \<Rightarrow> [JObj [(''kind'', JStr ''plan''),
          (''ref'', JStr (''plan:'' @ tk_task_id task @ '':v'' @ show_int (pl_plan_version p))),
          (''version'', JInt (pl_plan_version p)), (''hash'', JStr (pl_content_hash p)),
          (''required'', JBool True)]])"

text \<open>The results of upstream work units, through the edges into this one.\<close>

definition dependency_ref :: "string \<Rightarrow> json list \<Rightarrow> json \<Rightarrow> json list tx" where
  "dependency_ref wu_id acc edge =
    (let to_id = jor (jget edge ''to_work_unit_id'') (jget edge ''to'') in
    let from_id = jor (jget edge ''from_work_unit_id'') (jget edge ''from'') in
    (if to_id \<noteq> JStr wu_id \<or> \<not> truthy from_id then ret acc
      else andthen (by_key get_wu from_id) (\<lambda>row.
        ret (case row of
           None \<Rightarrow> acc
         | Some up \<Rightarrow> if \<not> is_set (wu_selected_result_ref up) then acc
             else acc @ [JObj [(''kind'', JStr ''dependency_result''),
               (''work_unit_id'', JStr (wu_work_unit_id up)),
               (''ref'', jopt (wu_selected_result_ref up)),
               (''hash'', jopt (wu_verified_artifact_hash up)), (''required'', JBool True)]]))))"

definition find_wu_spec :: "string \<Rightarrow> int \<Rightarrow> WorkUnitSpecRow option tx" where
  "find_wu_spec wu_id spec_version =
    andthen (select_wu_spec (\<lambda>w. wsp_work_unit_id w = wu_id \<and> wsp_spec_version w = spec_version)) (\<lambda>rows.
    ret (first_of rows))"

definition build_context_manifest ::
    "env \<Rightarrow> TaskRow \<Rightarrow> string \<Rightarrow> string \<Rightarrow> string \<Rightarrow> int \<Rightarrow> string \<Rightarrow> int \<Rightarrow> string option \<Rightarrow> dict
     \<Rightarrow> dict tx" where
  "build_context_manifest E task run_id manifest_id wu_id plan_spec_version profile_id
      profile_version workspace_id resource_limits =
        andthen (bound_contract task) (\<lambda>contract.
        andthen (bound_plan task) (\<lambda>plan.
        let mandatory = mandatory_refs task contract plan in
        andthen (accumulate (case plan of None \<Rightarrow> [] | Some p \<Rightarrow> json_list (pl_edges_json p) None)
       [] (dependency_ref wu_id)) (\<lambda>dependency_refs.
        andthen (find_wu_spec wu_id plan_spec_version) (\<lambda>spec_row.
        andthen (mandatory_context_bytes E mandatory dependency_refs workspace_id (Some (tk_task_id task))) (\<lambda>bytes.
        ret [(''context_manifest_id'', JStr manifest_id), (''task_id'', JStr (tk_task_id task)),
       (''run_id'', JStr run_id), (''contract_version'', jint_opt (tk_contract_version task)),
       (''plan_version'', jint_opt (tk_plan_version task)), (''assignment_ref'', JStr wu_id),
       (''context_policy'', JStr ''FRESH''),
       (''profile_ref'', JStr (profile_id @ ''@v'' @ show_int profile_version)),
       (''mandatory_refs'', JList mandatory), (''optional_refs'', JList []),
       (''excluded_categories'', jstrs [''other_tasks'', ''human_session'', ''credentials'']),
       (''dependency_result_refs'', JList dependency_refs), (''artifact_refs'', JList []),
       (''project_context_refs'', JList []), (''previous_run_ref'', JNull),
       (''context_budget'', JObj [(''max_materialized_bytes'',
          JInt (int_or (dget resource_limits ''context_max_materialized_bytes'')
            (context_max_materialized_bytes DEFAULTS)))]),
       (''mandatory_bytes'', JInt bytes),
       (''work_unit_objective'', jopt (map_option wsp_objective spec_row)),
       (''workspace_id'', jopt workspace_id)])))))"

subsection \<open>The execution spec\<close>

definition rstrip_slash :: "string \<Rightarrow> string" where
  "rstrip_slash s = rev (dropWhile (\<lambda>c. c = CHR ''/'') (rev s))"

definition workspace_path :: "env \<Rightarrow> string option \<Rightarrow> string option" where
  "workspace_path E workspace_id =
    (if is_set (workspace_root E) \<and> is_set workspace_id
     then Some (rstrip_slash (or_else (workspace_root E) []) @ ''/'' @ or_else workspace_id [])
     else None)"

definition str_items :: "json \<Rightarrow> string list tx" where
  "str_items v =
    andthen (elems v) (\<lambda>xs.
    ret (map py_str (filter truthy xs)))"

definition build_run_execution_spec ::
    "env \<Rightarrow> string \<Rightarrow> TaskRow \<Rightarrow> string \<Rightarrow> int \<Rightarrow> string \<Rightarrow> string \<Rightarrow> string option \<Rightarrow> int \<Rightarrow> int
     \<Rightarrow> string \<Rightarrow> RunExecutionSpec tx" where
  "build_run_execution_spec E run_id task wu_id plan_spec_version context_manifest_id
      context_manifest_hash workspace_id fencing profile_version agent_instance_id =
        andthen (contract_and_limits task) (\<lambda>(ceiling, limits).
        andthen (lift_exn (normalize_ceiling_tools (JObj ceiling))) (\<lambda>(granted_tools, unknown_tools).
        andthen (find_wu_spec wu_id plan_spec_version) (\<lambda>spec_row.
        let wu_content = (case spec_row of None \<Rightarrow> [] | Some w \<Rightarrow> entries (wsp_content_json w)) in
        let objective = (case spec_row of None \<Rightarrow> tk_title task | Some w \<Rightarrow> wsp_objective w) in
        andthen (bound_contract task) (\<lambda>contract.
        let contract_content = (case contract of None \<Rightarrow> [] | Some c \<Rightarrow> entries (ct_content_json c)) in
        andthen (str_items (jor (dget wu_content ''expected_outputs'')
       (jor (dget contract_content ''expected_outputs'') (JList [])))) (\<lambda>expected.
        andthen (elems (jor (dget wu_content ''acceptance_criteria'')
       (jor (dget contract_content ''acceptance_criteria'') (JList [])))) (\<lambda>criteria.
        andthen (str_items (jor (dget wu_content ''input_refs'') (JList []))) (\<lambda>input_refs.
        ret \<lparr> xs_run_id = run_id, xs_task_id = tk_task_id task, xs_work_unit_id = Some wu_id,
       xs_assignment_kind = kind_str EXECUTE, xs_profile_id = ''local'',
       xs_profile_version = profile_version,
       xs_contract_version = (case tk_contract_version task of None \<Rightarrow> 0 | Some v \<Rightarrow> v),
       xs_plan_version = tk_plan_version task, xs_context_manifest_id = Some context_manifest_id,
       xs_context_manifest_hash = Some context_manifest_hash, xs_workspace_id = workspace_id,
       xs_workspace_path = workspace_path E workspace_id,
       xs_workspace_isolation = ''workspace-only'', xs_granted_tools = granted_tools,
       xs_permission_ceiling = ceiling,
       xs_granted_permissions = [(''network'', JBool False), (''host_paths'', JBool False),
         (''credentials'', JBool False)],
       xs_principal_id = tk_principal_id task, xs_agent_instance_id = agent_instance_id,
       xs_grant_epoch = tk_revoke_epoch task, xs_fencing_epoch = fencing,
       xs_revoke_epoch = tk_revoke_epoch task,
       xs_model_call_limit = min (int_or (dget limits ''max_model_calls'')
         (max_task_model_calls DEFAULTS)) (tk_model_call_limit task),
       xs_max_turns = min (int_or (dget limits ''max_turns'') (max_run_model_turns DEFAULTS))
         (max_run_model_turns DEFAULTS),
       xs_wall_timeout_seconds = min (int_or (dget limits ''wall_timeout_seconds'')
         (run_wall_timeout_seconds DEFAULTS)) (run_wall_timeout_seconds DEFAULTS),
       xs_objective = objective,
       xs_work_type = py_str (jor (dget wu_content ''work_type'') (JStr [])),
       xs_goal_label = py_str (jor (dget wu_content ''work_type'') (JStr objective)),
       xs_context_policy = py_str (jor (dget wu_content ''context_policy'') (JStr ''FRESH'')),
       xs_input_refs = input_refs, xs_expected_outputs = expected,
       xs_acceptance_criteria = filter is_obj criteria,
       xs_metadata = [(''unknown_ceiling_tools'', jstrs unknown_tools),
         (''resource_limits'', JObj limits)] \<rparr>)))))))"

subsection \<open>Creating one Run\<close>

definition workspace_for :: "json \<Rightarrow> string \<Rightarrow> WorkspaceRow option tx" where
  "workspace_for node wu_id =
    andthen (get_workspace (py_str (jor (jget node ''workspace_id'') (JStr (''ws_'' @ wu_id))))) (\<lambda>ws.
    (case ws of
        Some w \<Rightarrow> ret (Some w)
      | None \<Rightarrow> andthen (select_workspace (\<lambda>w. ws_work_unit_id w = wu_id)) (\<lambda>rows.
        ret (first_of rows))))"

text \<open>The workspace has no live writer.\<close>

definition workspace_free :: "WorkspaceRow option \<Rightarrow> bool tx" where
  "workspace_free ws =
    (case ws of
       None \<Rightarrow> ret True
     | Some w \<Rightarrow>
        (if ws_state w = QUARANTINED then ret False
         else if ws_writer_alive w \<and> is_set (ws_owner_run_id w) then ret False
         else andthen (get_opt get_run (ws_owner_run_id w)) (\<lambda>owner.
           ret (case owner of None \<Rightarrow> True | Some r \<Rightarrow> \<not> run_active r))))"

text \<open>A marker of a Run that is over is dropped; one of an active Run blocks.\<close>

definition marker_free :: "string \<Rightarrow> bool tx" where
  "marker_free wu_id =
    andthen (get_exec_marker wu_id) (\<lambda>marker.
    (case marker of
        None \<Rightarrow> ret True
      | Some m \<Rightarrow> andthen (get_run (aem_run_id m)) (\<lambda>run.
        (if (case run of None \<Rightarrow> True | Some r \<Rightarrow> \<not> run_active r)
           then seq (drop_exec_marker wu_id) (
             ret True)
           else ret False))))"

definition execute_run :: "string \<Rightarrow> TaskRow \<Rightarrow> string \<Rightarrow> int \<Rightarrow> int \<Rightarrow> int \<Rightarrow> string
    \<Rightarrow> string option \<Rightarrow> int \<Rightarrow> int \<Rightarrow> AgentRunRow" where
  "execute_run run_id task wu_id spec_version attempt profile_version manifest_id workspace_id
      fencing ts = \<lparr> ar_run_id = run_id, ar_task_id = tk_task_id task,
     ar_assignment_kind = EXECUTE, ar_planner_session_id = None, ar_work_unit_id = Some wu_id,
     ar_work_unit_spec_version = Some spec_version, ar_attempt_no = attempt,
     ar_agent_instance_id = Some (''local:'' @ run_id), ar_profile_id = ''fake'',
     ar_profile_version = profile_version,
     ar_contract_version = (case tk_contract_version task of None \<Rightarrow> 0 | Some v \<Rightarrow> v),
     ar_plan_version = tk_plan_version task, ar_context_manifest_id = Some manifest_id,
     ar_workspace_id = workspace_id, ar_status = R_CREATED, ar_terminal_reason = None,
     ar_fencing_epoch = fencing, ar_grant_epoch = tk_revoke_epoch task,
     ar_lease_expires_at = Some (ts + lease_seconds DEFAULTS), ar_last_heartbeat_at = None,
     ar_started_at = None, ar_finished_at = None, ar_resumed_from_run_id = None,
     ar_result_ref = None, ar_result_json = None, ar_error_class = None,
     ar_late_arrival = False, ar_sandbox_container_id = None,
     ar_sandbox_exit_unconfirmed = False \<rparr>"

definition start_payload :: "string \<Rightarrow> TaskRow \<Rightarrow> string \<Rightarrow> int \<Rightarrow> RunExecutionSpec \<Rightarrow> int \<Rightarrow> string
    \<Rightarrow> string \<Rightarrow> string option \<Rightarrow> (string \<Rightarrow> string) \<Rightarrow> dict" where
  "start_payload run_id task wu_id fencing spec profile_version manifest_id mh workspace_id sha_fn = [
     (''run_id'', JStr run_id), (''task_id'', JStr (tk_task_id task)),
     (''assignment_kind'', JStr (kind_str EXECUTE)), (''principal_id'', JStr (tk_principal_id task)),
     (''agent_instance_id'', JStr (''local:'' @ run_id)), (''grant_epoch'', JInt (tk_revoke_epoch task)),
     (''fencing_epoch'', JInt fencing), (''revoke_epoch'', JInt (tk_revoke_epoch task)),
     (''work_unit_id'', JStr wu_id), (''profile_id'', JStr (xs_profile_id spec)),
     (''profile_version'', JInt profile_version), (''context_manifest_id'', JStr manifest_id),
     (''context_manifest_hash'', JStr mh), (''workspace_id'', jopt workspace_id),
     (''workspace_path'', jopt (xs_workspace_path spec)),
     (''granted_tools'', jstrs (xs_granted_tools spec)),
     (''spec_ref'', JStr (''run_inputs:'' @ run_id)), (''spec_hash'', JStr (spec_hash sha_fn spec))]"

text \<open>The Run, its manifest, its frozen inputs, its marker, its workspace lock and its start.\<close>

definition record_run :: "env \<Rightarrow> AuthContext \<Rightarrow> string \<Rightarrow> string \<Rightarrow> int \<Rightarrow> int \<Rightarrow> WorkspaceRow option
    \<Rightarrow> string \<Rightarrow> int \<Rightarrow> string \<Rightarrow> dict \<Rightarrow> unit tx" where
  "record_run E auth task_id wu_id spec_version attempt ws run_id profile_version manifest_id
      manifest =
        andthen now (\<lambda>ts.
        andthen (peek_task task_id) (\<lambda>task.
        let workspace_id = map_option ws_workspace_id ws in
        let fencing = (case ws of None \<Rightarrow> 1 | Some w \<Rightarrow> ws_fencing_epoch w + 1) in
        let mh = content_hash (sha E) (JObj manifest) in
        seq (add_manifest \<lparr> cm_context_manifest_id = manifest_id, cm_task_id = task_id, cm_run_id = run_id,
       cm_contract_version = (case tk_contract_version task of None \<Rightarrow> 0 | Some v \<Rightarrow> v),
       cm_plan_version = tk_plan_version task, cm_content_json = JObj manifest,
       cm_manifest_hash = mh, cm_created_at = ts \<rparr>) (
        seq (add_run (execute_run run_id task wu_id spec_version attempt profile_version manifest_id
       workspace_id fencing ts)) (
        seq flush (
        andthen (build_run_execution_spec E run_id task wu_id spec_version manifest_id mh workspace_id
       fencing profile_version (''local:'' @ run_id)) (\<lambda>spec.
        seq (add_run_input \<lparr> ri_run_id = run_id, ri_task_id = task_id, ri_workspace_id = workspace_id,
       ri_workspace_path = xs_workspace_path spec, ri_profile_id = xs_profile_id spec,
       ri_profile_version = xs_profile_version spec,
       ri_granted_tools_json = jstrs (xs_granted_tools spec),
       ri_permission_ceiling_json = JObj (xs_permission_ceiling spec),
       ri_context_manifest_id = Some manifest_id, ri_spec_json = spec_dict spec,
       ri_spec_hash = spec_hash (sha E) spec, ri_created_at = ts \<rparr>) (
        seq (add_exec_marker \<lparr> aem_work_unit_id = wu_id, aem_run_id = run_id \<rparr>) (
        andthen (peek_wu wu_id) (\<lambda>wu.
        andthen (lift_exn (transition_work_unit (wu_status wu) ''run.started'')) (\<lambda>st.
        seq (upd_wu wu_id (\<lambda>x. x\<lparr> wu_status := st, wu_active_run_id := Some run_id,
       wu_attempt_count := attempt, wu_spec_version := spec_version \<rparr>)) (
        seq (case ws of None \<Rightarrow> ret () | Some w \<Rightarrow>
        upd_workspace (ws_workspace_id w) (\<lambda>x. x\<lparr> ws_state := LOCKED, ws_owner_run_id := Some run_id,
          ws_fencing_epoch := fencing, ws_writer_alive := True \<rparr>)) (
        seq (enqueue_outbox E task_id ''agent.start''
       (start_payload run_id task wu_id fencing spec profile_version manifest_id mh workspace_id (sha E))) (
        append_event task_id ''run.created'' (Some (actor_id auth))
       [(''run_id'', JStr run_id), (''work_unit_id'', JStr wu_id)])))))))))))))"

text \<open>One node that passed its guards: a Run, or a blocked work unit and no Run.\<close>

definition create_run :: "env \<Rightarrow> AuthContext \<Rightarrow> dict \<Rightarrow> string \<Rightarrow> string \<Rightarrow> int \<Rightarrow> WorkspaceRow option
    \<Rightarrow> string option tx" where
  "create_run E auth payload task_id wu_id spec_version ws =
    andthen (new_id E ''run'') (\<lambda>run_id.
    andthen (peek_wu wu_id) (\<lambda>wu.
    let attempt = wu_attempt_count wu + 1 in
    (if attempt > max_work_unit_attempts DEFAULTS then seq (upd_wu wu_id (\<lambda>x. x\<lparr> wu_status := W_BLOCKED, wu_blocked_reason := Some ''attempts_exhausted'' \<rparr>)) (
      ret None) else andthen (need_int (jor (dget payload ''profile_version'') (JInt 1))) (\<lambda>profile_version.
        andthen (peek_task task_id) (\<lambda>task.
        andthen (contract_and_limits task) (\<lambda>(_, limits).
        andthen (new_id E ''ctx'') (\<lambda>manifest_id.
        andthen (build_context_manifest E task run_id manifest_id wu_id spec_version ''local''
          profile_version (map_option ws_workspace_id ws) limits) (\<lambda>manifest.
        andthen (need_int (jget (dget manifest ''context_budget'') ''max_materialized_bytes'')) (\<lambda>budget.
        andthen (need_int (jor (dget manifest ''mandatory_bytes'') (JInt 0))) (\<lambda>required.
        (if required > budget then seq (upd_wu wu_id (\<lambda>x. x\<lparr> wu_status := W_BLOCKED, wu_blocked_reason := Some ''context_overflow'' \<rparr>)) (
          seq (append_event task_id ''work_unit.blocked'' (Some (actor_id auth))
             [(''work_unit_id'', JStr wu_id), (''reason'', JStr ''context_overflow''),
              (''mandatory_bytes'', JInt required), (''context_budget'', JInt budget)]) (
          ret None)) else seq (record_run E auth task_id wu_id spec_version attempt ws run_id profile_version manifest_id
             manifest) (
            ret (Some run_id)))))))))))))"

subsection \<open>The dispatch loop\<close>

text \<open>
  The guards of one node, in the order of the loop: the work unit must be PENDING and of this
  Task; it is bound to the plan's spec version; then the retry delay, the dependencies, the
  workspace and the marker. The result is the workspace to run in, or \<open>None\<close> to skip the node.
\<close>

definition node_ready :: "string \<Rightarrow> json list \<Rightarrow> json \<Rightarrow> json \<Rightarrow> int \<Rightarrow> WorkspaceRow option option tx" where
  "node_ready task_id edges node wu_id spec_version =
    andthen (by_key get_wu wu_id) (\<lambda>wu_row.
    (case wu_row of
        None \<Rightarrow> ret None
      | Some wu \<Rightarrow>
         (if wu_status wu \<noteq> W_PENDING \<or> wu_task_id wu \<noteq> task_id then ret None
          else seq (only_if (wu_spec_version wu \<noteq> spec_version)
              (upd_wu (wu_work_unit_id wu) (\<lambda>x. x\<lparr> wu_spec_version := spec_version \<rparr>))) (
            andthen now (\<lambda>ts.
            (if (case wu_next_retry_at wu of None \<Rightarrow> False | Some t \<Rightarrow> t > ts) then ret None
             else andthen (deps_satisfied wu_id edges) (\<lambda>ready.
               (if \<not> ready then ret None
                else andthen (workspace_for node (wu_work_unit_id wu)) (\<lambda>ws.
                  andthen (workspace_free ws) (\<lambda>free.
                  (if \<not> free then ret None
                   else andthen (marker_free (wu_work_unit_id wu)) (\<lambda>ok.
                     ret (if ok then Some ws else None)))))))))))))"

definition dispatch_node :: "env \<Rightarrow> AuthContext \<Rightarrow> dict \<Rightarrow> string \<Rightarrow> json list \<Rightarrow> json \<Rightarrow> string option tx" where
  "dispatch_node E auth payload task_id edges node =
    andthen (need (entries node) ''work_unit_id'') (\<lambda>wu_id.
    andthen (need_int (jor (jget node ''spec_version'') (JInt 1))) (\<lambda>spec_version.
    andthen (node_ready task_id edges node wu_id spec_version) (\<lambda>ready.
    (case ready of
        None \<Rightarrow> ret None
      | Some ws \<Rightarrow> create_run E auth payload task_id (py_str wu_id) spec_version ws))))"

fun dispatch_loop :: "env \<Rightarrow> AuthContext \<Rightarrow> dict \<Rightarrow> string \<Rightarrow> json list \<Rightarrow> json list \<Rightarrow> int \<Rightarrow> int
    \<Rightarrow> string list \<Rightarrow> string list tx" where
  "dispatch_loop E auth payload task_id edges [] global_active task_active created = ret created"
| "dispatch_loop E auth payload task_id edges (node # nodes) global_active task_active created =
     (if global_active \<ge> global_run_concurrency DEFAULTS then ret created
      else if task_active \<ge> per_task_run_concurrency DEFAULTS then ret created
      else andthen (dispatch_node E auth payload task_id edges node) (\<lambda>run.
        (case run of
           None \<Rightarrow> dispatch_loop E auth payload task_id edges nodes global_active task_active created
         | Some run_id \<Rightarrow> dispatch_loop E auth payload task_id edges nodes (global_active + 1)
             (task_active + 1) (created @ [run_id]))))"

definition open_resource_gate :: "env \<Rightarrow> string \<Rightarrow> unit tx" where
  "open_resource_gate E task_id =
    andthen now (\<lambda>ts.
    andthen (peek_task task_id) (\<lambda>task.
    andthen (new_id E ''dec'') (\<lambda>decision_id.
    seq (add_decision (new_decision decision_id task_id RESOURCE_LIMIT ''budget'' 1
       (content_hash (sha E) (JObj [(''limit'', JInt (tk_model_call_limit task))])) None ts
       (ts + decision_ttl_hours DEFAULTS * 3600))) (
    andthen (new_id E ''gate'') (\<lambda>gate_id.
    seq (add_gate (new_gate gate_id task_id decision_id WR_RESOURCE_LIMIT ts)) (
    set_task_state task_id ''blocking_gate.opened'' (Some WR_RESOURCE_LIMIT)))))))"

definition dispatch_ready_runs :: "env \<Rightarrow> AuthContext \<Rightarrow> dict \<Rightarrow> CommandResult tx" where
  "dispatch_ready_runs E auth payload =
    andthen (need payload ''task_id'') (\<lambda>tid.
    andthen (svc_get_task tid) (\<lambda>task.
    let task_id = tk_task_id task in
    seq (assert_task_principal auth task) (
    andthen (active_contract task_id) (\<lambda>contract.
    andthen (has_blocking_gate task_id) (\<lambda>gate.
    (case guard_dispatch (tk_state task) (contract \<noteq> None) gate (tk_cancel_intent task)
         (tk_pause_intent task) of
        Inl e \<Rightarrow> ret (failure (error_code e) [])
      | Inr _ \<Rightarrow>
         (if tk_model_calls_used task \<ge> tk_model_call_limit task then seq (open_resource_gate E task_id) (
           ret (failure ''resource_limit'' [])) else andthen (get_plan_marker task_id) (\<lambda>marker.
             (case marker of
               None \<Rightarrow> ret (failure ''no_active_plan'' [])
             | Some m \<Rightarrow> andthen (select_plan (\<lambda>p. pl_task_id p = task_id
                   \<and> pl_plan_version p = apm_plan_version m)) (\<lambda>rows.
               andthen (one_row rows) (\<lambda>plan.
               andthen (elems (pl_nodes_json plan)) (\<lambda>nodes.
               andthen (elems (pl_edges_json plan)) (\<lambda>edges.
               andthen (collect nodes (\<lambda>n. need (entries n) ''work_unit_id'')) (\<lambda>node_ids.
               andthen (count_active_runs None) (\<lambda>global_active.
               andthen (count_active_runs (Some task_id)) (\<lambda>task_active.
               andthen (dispatch_loop E auth payload task_id edges nodes global_active task_active []) (\<lambda>created.
               ret (success [(''task_id'', JStr task_id), (''created_runs'', jstrs created)]))))))))))))))))))"

subsection \<open>The frame\<close>

context service_frame
begin


lemma keeps_dispatch_reads [frame_intro]:
  "keeps R (bound_contract task)"
  "keeps R (bound_plan task)"
  "keeps R (find_wu_spec wid v)"
  "keeps R (str_items j)"
  "keeps R (dep_satisfied e)"
  "keeps R (workspace_for node wid)"
  "keeps R (workspace_free ws)"
  "keeps R (marker_free wid)"
  "keeps R (dependency_ref wid acc e)"
  unfolding bound_contract_def bound_plan_def find_wu_spec_def str_items_def dep_satisfied_def
    workspace_for_def workspace_free_def marker_free_def dependency_ref_def
  by (intro keeps_struct frame_intro)+

lemma keeps_registered_size [frame_intro]: "keeps R (registered_size t h)"
  unfolding registered_size_def
  by (cases t; cases h; simp only: prod.case json.case; intro keeps_struct frame_intro)

lemma keeps_all_deps_satisfied [frame_intro]: "keeps R (all_deps_satisfied es)"
proof (induction es)
  case (Cons e es)
  show ?case unfolding all_deps_satisfied.simps
    by (intro keeps_struct frame_intro Cons.IH)
qed (simp only: all_deps_satisfied.simps keeps_struct)

lemma keeps_ref_bytes [frame_intro]:
  "keeps R (ref_bytes E w t r)"
  "keeps R (contract_and_limits task)"
  "keeps R (deps_satisfied j es)"
  "keeps R (open_resource_gate E task_id)"
  unfolding ref_bytes_def contract_and_limits_def deps_satisfied_def open_resource_gate_def
  by (intro keeps_struct frame_intro)+

lemma keeps_mandatory_context_bytes [frame_intro]:
  "keeps R (mandatory_context_bytes E m d w t)"
  "keeps R (build_run_execution_spec E rid task wid v mid mh ws fen pv aid)"
  unfolding mandatory_context_bytes_def build_run_execution_spec_def
  by (intro keeps_struct frame_intro)+

lemma keeps_build_context_manifest [frame_intro]:
  "keeps R (build_context_manifest E task rid mid wid v pid pv ws limits)"
  "keeps R (record_run E auth task_id wid v a w rid pv mid man)"
  unfolding build_context_manifest_def record_run_def
  by (intro keeps_struct frame_intro)+

lemma keeps_create_run [frame_intro]:
  "keeps R (create_run E auth payload task_id wid v ws)"
  "keeps R (node_ready task_id es node j v)"
  unfolding create_run_def node_ready_def by (intro keeps_struct frame_intro)+

lemma keeps_dispatch_node [frame_intro]:
  "keeps R (dispatch_node E auth payload task_id es node)"
  unfolding dispatch_node_def by (intro keeps_struct frame_intro)

lemma keeps_dispatch_loop [frame_intro]:
  "keeps R (dispatch_loop E auth payload task_id es nodes g t created)"
proof (induction nodes arbitrary: g t created)
  case (Cons n nodes)
  show ?case unfolding dispatch_loop.simps by (intro keeps_struct frame_intro Cons.IH)
qed (simp only: dispatch_loop.simps keeps_struct)

lemma keeps_dispatch_ready_runs [frame_intro]:
  "keeps R (dispatch_ready_runs E auth payload)"
  unfolding dispatch_ready_runs_def by (intro keeps_struct frame_intro)

end

subsection \<open>What dispatch guarantees\<close>

lemma readonly_dispatch [frame_intro]:
  "keeps (=) (bound_contract task)" "keeps (=) (find_wu_spec wid v)" "keeps (=) (str_items j)"
  "keeps (=) (dep_satisfied e)" "keeps (=) (contract_and_limits task)"
  "keeps (=) (workspace_for node wid)" "keeps (=) (workspace_free ws)"
  unfolding bound_contract_def find_wu_spec_def str_items_def dep_satisfied_def contract_and_limits_def
    workspace_for_def workspace_free_def
  by (intro readonly.keeps_struct frame_intro)+

lemma readonly_deps [frame_intro]:
  "keeps (=) (all_deps_satisfied es)" "keeps (=) (deps_satisfied wid es)"
proof -
  show all: "keeps (=) (all_deps_satisfied es)" for es
  proof (induction es)
    case (Cons e es)
    show ?case unfolding all_deps_satisfied.simps by (intro readonly.keeps_struct frame_intro Cons.IH)
  qed (simp only: all_deps_satisfied.simps readonly.keeps_struct)
  show "keeps (=) (deps_satisfied wid es)"
    unfolding deps_satisfied_def by (intro readonly.keeps_struct frame_intro all)
qed

text \<open>The condition an edge puts on the work unit it comes from, read off a database.\<close>

definition dep_ok :: "sess \<Rightarrow> json \<Rightarrow> bool" where
  "dep_ok s e \<longleftrightarrow> (case map_of (entries e) ''from_work_unit_id'' of
      Some (JStr k) \<Rightarrow>
       (case t_get wu_work_unit_id k (wus s) of
          None \<Rightarrow> False
        | Some dep \<Rightarrow> wu_status dep = W_DONE
           \<and> (jor (jget e ''predicate'') (JStr ''DONE'') = JStr ''DONE''
             \<or> jor (jget e ''predicate'') (JStr ''DONE'') = JStr ''VERDICT_PASS''
                \<and> wu_selected_verdict dep = Some ''PASS''
                \<and> (\<not> truthy (jget e ''artifact_hash'')
                   \<or> jopt (wu_verified_artifact_hash dep) = jget e ''artifact_hash'')))
    | _ \<Rightarrow> False)"

lemma dep_satisfied_Inr: "dep_satisfied e s = (Inr b, t) \<Longrightarrow> b = dep_ok s e \<and> t = s"
proof -
  assume "dep_satisfied e s = (Inr b, t)"
  then obtain src row where src: "map_of (entries e) ''from_work_unit_id'' = Some src"
      and row: "by_key get_wu src s = (Inr row, t)"
      and b: "b = (case row of None \<Rightarrow> False | Some dep \<Rightarrow>
         (let pred = jor (jget e ''predicate'') (JStr ''DONE''); needed = jget e ''artifact_hash'' in
          if pred = JStr ''DONE'' then wu_status dep = W_DONE
          else if pred = JStr ''VERDICT_PASS'' then
            wu_status dep = W_DONE \<and> wu_selected_verdict dep = Some ''PASS''
            \<and> (truthy needed \<longrightarrow> jopt (wu_verified_artifact_hash dep) = needed)
          else False))"
    unfolding dep_satisfied_def by (clarsimp simp: andthen_Inr_iff)
  from row src have "t = s \<and> row = (case src of JStr k \<Rightarrow> t_get wu_work_unit_id k (wus s) | _ \<Rightarrow> None)"
    by (cases src) auto
  with b src show "b = dep_ok s e \<and> t = s"
    by (cases src) (auto simp: dep_ok_def Let_def split: option.split)
qed

lemma all_deps_satisfied_Inr:
  "all_deps_satisfied es s = (Inr b, t) \<Longrightarrow> b = (\<forall>e \<in> set es. dep_ok s e) \<and> t = s"
  by (induction es arbitrary: b) (auto simp: andthen_Inr_iff split: if_splits dest: dep_satisfied_Inr)

lemma collect_edges:
  "collect es (\<lambda>e. andthen (need (entries e) k) (\<lambda>t.
    ret (t, e))) s = (Inr ps, t) \<Longrightarrow>
    map snd (filter (\<lambda>(v, e). v = w) ps) = filter (\<lambda>e. map_of (entries e) k = Some w) es \<and> t = s"
  by (induction es arbitrary: ps) (auto simp: andthen_Inr_iff)

text \<open>
  A work unit is ready exactly when every plan edge into it is satisfied: the unit it depends on
  exists and is DONE and, for an edge with the predicate VERDICT_PASS, its selected verdict is PASS
  and, if the edge names an artifact, that is the artifact whose content was verified. An edge with
  any other predicate is never satisfied. The check reads and does not write.
\<close>

theorem deps_satisfied_correct:
  assumes "deps_satisfied wu_id edges s = (Inr ready, t)"
  shows "t = s \<and> ready = (\<forall>e \<in> set edges. map_of (entries e) ''to_work_unit_id'' = Some wu_id \<longrightarrow> dep_ok s e)"
  using assms unfolding deps_satisfied_def
  by (auto simp: andthen_Inr_iff dest!: collect_edges [where w = wu_id] all_deps_satisfied_Inr)

definition sample_edge :: "string \<Rightarrow> json" where
  "sample_edge pred = JObj [(''from_work_unit_id'', JStr ''w''), (''to_work_unit_id'', JStr ''v''),
     (''predicate'', JStr pred)]"

theorem deps_satisfied_correct_witness:
  "dep_ok ((sample_db EXECUTING)\<lparr> wus := t_of [sample_unit W_DONE None] \<rparr>) (sample_edge ''DONE'')"
proof -
  let ?s = "(sample_db EXECUTING)\<lparr> wus := t_of [sample_unit W_DONE None] \<rparr>"
  have "deps_satisfied (JStr ''v'') [sample_edge ''DONE''] ?s = (Inr True, snd (deps_satisfied (JStr ''v'') [sample_edge ''DONE''] ?s))"
    by (rule run_result) code_simp
  from deps_satisfied_correct [OF this] show ?thesis by (simp add: sample_edge_def)
qed

text \<open>
  The frozen execution spec of a Run never exceeds what was agreed: its model call limit is at
  most the Task's and at most the contract's, its turns and its wall clock at most the contract's and
  at most the system's defaults; network, host paths and credentials are off; and its grant and
  revoke epochs are the Task's at that moment. Building it writes nothing.
\<close>

theorem execution_spec_tightens:
  assumes "build_run_execution_spec E rid task wid v mid mh ws fencing pv aid s = (Inr spec, t)"
  shows "t = s \<and> (\<exists>ceiling limits. fst (contract_and_limits task s) = Inr (ceiling, limits)
    \<and> xs_model_call_limit spec \<le> tk_model_call_limit task
    \<and> xs_model_call_limit spec \<le> int_or (dget limits ''max_model_calls'') (max_task_model_calls DEFAULTS)
    \<and> xs_max_turns spec \<le> max_run_model_turns DEFAULTS
    \<and> xs_max_turns spec \<le> int_or (dget limits ''max_turns'') (max_run_model_turns DEFAULTS)
    \<and> xs_wall_timeout_seconds spec \<le> run_wall_timeout_seconds DEFAULTS
    \<and> xs_wall_timeout_seconds spec \<le> int_or (dget limits ''wall_timeout_seconds'') (run_wall_timeout_seconds DEFAULTS)
    \<and> xs_granted_permissions spec = [(''network'', JBool False), (''host_paths'', JBool False), (''credentials'', JBool False)]
    \<and> xs_grant_epoch spec = tk_revoke_epoch task \<and> xs_revoke_epoch spec = tk_revoke_epoch task
    \<and> xs_fencing_epoch spec = fencing)"
  using assms unfolding build_run_execution_spec_def
  by (clarsimp simp: andthen_Inr_iff Let_def elems_def readonly_iff [OF readonly_dispatch(5)]
      readonly_iff [OF readonly_dispatch(1)] readonly_iff [OF readonly_dispatch(2)]
      readonly_iff [OF readonly_dispatch(3)])

theorem execution_spec_tightens_witness:
  "\<exists>spec. fst (build_run_execution_spec sample_env ''r'' (sample_task EXECUTING) ''w'' 1 ''m'' ''h'' None 1 1 ''a''
      (sample_db EXECUTING)) = Inr spec \<and> xs_model_call_limit spec \<le> 5"
proof -
  let ?m = "build_run_execution_spec sample_env ''r'' (sample_task EXECUTING) ''w'' 1 ''m'' ''h'' None 1 1 ''a''"
  let ?s = "sample_db EXECUTING"
  have "case fst (?m ?s) of Inl e \<Rightarrow> False | Inr r \<Rightarrow> True" by code_simp
  then obtain spec where r: "?m ?s = (Inr spec, snd (?m ?s))" by (cases "?m ?s") (auto split: sum.splits)
  have "tk_model_call_limit (sample_task EXECUTING) = 5" by (simp add: sample_task_def)
  with execution_spec_tightens [OF r] r show ?thesis by (metis fst_conv)
qed

definition sample_ready :: sess where
  "sample_ready = (sample_db EXECUTING)\<lparr> wus := t_of [sample_unit W_PENDING None],
     workspaces := t_of [sample_workspace None False] \<rparr>"

definition sample_node :: json where
  "sample_node = JObj [(''work_unit_id'', JStr ''w''), (''workspace_id'', JStr ''ws'')]"

text \<open>
  One dispatch never exceeds the concurrency caps: the Runs it creates, added to the Runs that
  were active before, stay within the global cap and the per-task cap (when a cap is already reached
  nothing is created).
\<close>

theorem dispatch_respects_caps:
  assumes "dispatch_loop E auth payload tid edges nodes g a created s = (Inr ids, t)"
  shows "g + int (length ids) - int (length created) \<le> max g (global_run_concurrency DEFAULTS)
    \<and> a + int (length ids) - int (length created) \<le> max a (per_task_run_concurrency DEFAULTS)
    \<and> take (length created) ids = created"
  using assms
proof (induction nodes arbitrary: g a created s)
  case (Cons node nodes)
  show ?case
  proof (cases "g \<ge> global_run_concurrency DEFAULTS \<or> a \<ge> per_task_run_concurrency DEFAULTS")
    case True
    with Cons.prems show ?thesis by (auto split: if_splits)
  next
    case False
    with Cons.prems obtain run s' where
        step: "(case run of None \<Rightarrow> dispatch_loop E auth payload tid edges nodes g a created
           | Some rid \<Rightarrow> dispatch_loop E auth payload tid edges nodes (g + 1) (a + 1) (created @ [rid])) s' = (Inr ids, t)"
      by (auto simp: andthen_Inr_iff)
    show ?thesis
    proof (cases run)
      case None
      with step show ?thesis by (intro Cons.IH [of g a created s']) simp
    next
      case (Some rid)
      with step have "dispatch_loop E auth payload tid edges nodes (g + 1) (a + 1) (created @ [rid]) s' = (Inr ids, t)"
        by simp
      note rec = Cons.IH [OF this]
      have "take (length created) ids = take (length created) (take (Suc (length created)) ids)" by simp
      also from rec have "take (Suc (length created)) ids = created @ [rid]" by simp
      finally have "take (length created) ids = created" by simp
      with rec False show ?thesis by simp
    qed
  qed
qed simp

theorem dispatch_respects_caps_witness:
  "\<exists>ids. fst (dispatch_loop sample_env sample_human [] ''t'' [] [sample_node] 2 2 [] sample_ready) = Inr ids
    \<and> 2 + int (length ids) \<le> 2"
proof -
  let ?m = "dispatch_loop sample_env sample_human [] ''t'' [] [sample_node] 2 2 []"
  have "per_task_run_concurrency DEFAULTS = 2" by (simp add: DEFAULTS_def)
  then have "fst (?m sample_ready) = Inr []" by simp
  from dispatch_respects_caps [OF run_result [where m = ?m, OF this]] show ?thesis
    using \<open>fst (?m sample_ready) = Inr []\<close> by (intro exI [of _ "[]"]) (simp add: DEFAULTS_def)
qed

text \<open>
  No node is dispatched into an occupied place. A node passes the guards only if its work unit
  is PENDING and of this Task, its retry time has come, its dependencies are satisfied, its workspace
  is not quarantined, has no live writer and is not owned by an active Run; and no active Run holds
  the work unit's marker.
\<close>

theorem node_ready_exclusive:
  assumes "node_ready tid edges node (JStr wid) v s = (Inr (Some ws), t)"
    and "t_clean (wus s)" and "t_clean (runs s)"
  shows "(\<exists>wu. t_get wu_work_unit_id wid (wus s) = Some wu \<and> wu_status wu = W_PENDING \<and> wu_task_id wu = tid
        \<and> (case wu_next_retry_at wu of None \<Rightarrow> True | Some r \<Rightarrow> r \<le> clock_now s))
    \<and> (case ws of None \<Rightarrow> True | Some w \<Rightarrow> ws_state w \<noteq> QUARANTINED
        \<and> \<not> (ws_writer_alive w \<and> is_set (ws_owner_run_id w))
        \<and> (case ws_owner_run_id w of None \<Rightarrow> True | Some o_id \<Rightarrow> o_id = [] \<or>
             (case t_get ar_run_id o_id (runs s) of None \<Rightarrow> True | Some r \<Rightarrow> \<not> run_active r)))
    \<and> (case t_get aem_work_unit_id wid (exec_markers s) of None \<Rightarrow> True
        | Some m \<Rightarrow> (case t_get ar_run_id (aem_run_id m) (runs s) of None \<Rightarrow> True | Some r \<Rightarrow> \<not> run_active r))"
proof -
  from assms(1) obtain wu s1 where
      wu: "t_get wu_work_unit_id wid (wus s) = Some wu" "wu_status wu = W_PENDING" "wu_task_id wu = tid"
        "case wu_next_retry_at wu of None \<Rightarrow> True | Some r \<Rightarrow> r \<le> clock_now s"
    and s1: "only_if (wu_spec_version wu \<noteq> v)
        (upd_wu (wu_work_unit_id wu) (\<lambda>x. x\<lparr> wu_spec_version := v \<rparr>)) s = (Inr (), s1)"
    and free: "fst (workspace_free ws s1) = Inr True"
    and marker: "fst (marker_free (wu_work_unit_id wu) s1) = Inr True"
    unfolding node_ready_def
    apply (clarsimp simp: andthen_Inr_iff seq_Inr_iff split: option.split_asm)
    apply (clarsimp simp: andthen_Inr_iff seq_Inr_iff split: if_split_asm)
    apply (clarsimp simp: andthen_Inr_iff seq_Inr_iff readonly_iff [OF readonly_deps(2)]
        readonly_iff [OF readonly_dispatch(6)] readonly_iff [OF readonly_dispatch(7)]
        split: if_split_asm)
    by (fastforce simp: only_if_def split: option.splits if_splits)
  have same: "runs s1 = runs s" "exec_markers s1 = exec_markers s"
    using s1 by (auto simp: only_if_def split: if_splits)
  have id: "wu_work_unit_id wu = wid" using t_get_in [OF wu(1)] by simp
  show ?thesis using wu free marker
    by (auto simp: workspace_free_def marker_free_def get_opt_def andthen_def same id is_set_def
        split: option.splits if_splits)
qed

theorem node_ready_exclusive_witness:
  "(case t_get aem_work_unit_id ''w'' (exec_markers sample_ready) of None \<Rightarrow> True
     | Some m \<Rightarrow> (case t_get ar_run_id (aem_run_id m) (runs sample_ready) of None \<Rightarrow> True | Some r \<Rightarrow> \<not> run_active r))"
proof -
  let ?m = "node_ready ''t'' [] sample_node (JStr ''w'') 1"
  have "case fst (?m sample_ready) of Inl e \<Rightarrow> False | Inr ws \<Rightarrow> ws \<noteq> None" by code_simp
  then obtain ws where r: "?m sample_ready = (Inr (Some ws), snd (?m sample_ready))"
    by (cases "?m sample_ready") (auto split: sum.splits)
  have "t_clean (wus sample_ready)" "t_clean (runs sample_ready)" by code_simp+
  from node_ready_exclusive [OF r this] show ?thesis by blast
qed

end
