(* ===== verification/Runs.thy ===== *)
theory Runs
  imports Control Results Dispatch
begin

text \<open>
  The remaining commands on Runs and gates (\<open>application/service.py\<close>): \<open>_open_blocking_gate\<close>,
  \<open>_record_model_usage\<close>, \<open>_confirm_run_exit\<close>, \<open>_set_writer_alive\<close>, \<open>_register_sandbox_identity\<close>,
  \<open>_heartbeat\<close> and \<open>_seed_profile\<close>.
\<close>

text \<open>\<open>session.get(AgentRunRow, ...)\<close> or not found.\<close>

definition the_run :: "json \<Rightarrow> AgentRunRow tx" where
  "the_run rid =
    andthen (by_key get_run rid) (\<lambda>row.
    the_or (NotFoundError ''run_not_found'') row)"

subsection \<open>Blocking gates\<close>

text \<open>The Run that asks for the gate ends BLOCKED; its executor is to be stopped.\<close>

definition block_asking_run :: "env \<Rightarrow> string \<Rightarrow> json \<Rightarrow> AgentRunRow \<Rightarrow> unit tx" where
  "block_asking_run E task_id reason run = when_set (ar_work_unit_id run) (\<lambda>wid. andthen now (\<lambda>ts.
    andthen (get_wu wid) (\<lambda>wu.
    seq (case wu of None \<Rightarrow> ret () | Some w \<Rightarrow>
        only_if (wu_status w = W_RUNNING)
          (upd_wu wid (\<lambda>x. x\<lparr> wu_status := W_BLOCKED, wu_blocked_reason := Some (py_str reason),
             wu_active_run_id := None \<rparr>))) (
    andthen (get_exec_marker wid) (\<lambda>marker.
    seq (only_if (case marker of None \<Rightarrow> False | Some m \<Rightarrow> aem_run_id m = ar_run_id run)
       (drop_exec_marker wid)) (
    seq (only_if (ar_status run = R_RUNNING)
       (upd_run (ar_run_id run) (\<lambda>r. r\<lparr> ar_status := R_SUCCEEDED,
          ar_result_json := Some (JObj [(''outcome'', JStr ''BLOCKED''), (''blockers'', JList [reason])]),
          ar_finished_at := Some ts \<rparr>))) (
    enqueue_stops_for_runs E task_id [ar_run_id run] ''blocking_gate'')))))))"

definition open_blocking_gate :: "env \<Rightarrow> AuthContext \<Rightarrow> dict \<Rightarrow> CommandResult tx" where
  "open_blocking_gate E auth payload =
    andthen (need payload ''task_id'') (\<lambda>tid.
    andthen (svc_get_task tid) (\<lambda>task.
    let task_id = tk_task_id task in
    andthen now (\<lambda>ts.
    andthen (new_id E ''dec'') (\<lambda>decision_id.
    let reason = jor (dget payload ''reason'') (JStr WR_EXECUTION_BLOCKED) in
    seq (add_decision (new_decision decision_id task_id CLARIFICATION
       (py_str (jor (dget payload ''target_ref'') (JStr ''gate''))) 1
       (content_hash (sha E) (JObj payload)) None ts (ts + decision_ttl_hours DEFAULTS * 3600))) (
    andthen (new_id E ''gate'') (\<lambda>gate_id.
    seq (add_gate (new_gate gate_id task_id decision_id (py_str reason) ts)) (
    seq (if truthy (dget payload ''run_id'') then andthen (by_key get_run (dget payload ''run_id'')) (\<lambda>run.
      (case run of None \<Rightarrow> ret () | Some r \<Rightarrow> block_asking_run E task_id reason r)) else ret ()) (
    seq (set_task_state task_id ''blocking_gate.opened'' (Some (py_str reason))) (
    seq (invalidate_pending_outbox E task_id) (
    andthen (peek_task task_id) (\<lambda>after.
    ret (success [(''task_id'', JStr task_id), (''decision_id'', JStr decision_id),
       (''state'', JStr (task_state_str (tk_state after)))]))))))))))))"

subsection \<open>Model calls\<close>

text \<open>The tighter of the Task's limit and the contract's; zero means that one does not limit.\<close>

definition effective_call_limit :: "int \<Rightarrow> dict \<Rightarrow> int" where
  "effective_call_limit limit contract_limits =
    (let contract_limit = int_or (dget contract_limits ''max_model_calls'') limit in
     if contract_limit \<noteq> 0 then (if limit \<noteq> 0 then min limit contract_limit else contract_limit)
     else limit)"

definition record_model_usage :: "env \<Rightarrow> AuthContext \<Rightarrow> dict \<Rightarrow> CommandResult tx" where
  "record_model_usage E auth payload =
    andthen (need payload ''run_id'') (\<lambda>rid.
    andthen (the_run rid) (\<lambda>run.
    seq (assert_run_write_binding auth run payload False) (
    andthen (svc_get_task (JStr (ar_task_id run))) (\<lambda>task.
    let task_id = tk_task_id task in
    andthen (need_int (jor (dget payload ''calls'') (JInt 1))) (\<lambda>calls.
    seq (ensure (calls \<ge> 1) (PreconditionError ''invalid_usage'')) (
    andthen (contract_and_limits task) (\<lambda>(ceiling, contract_limits).
    let limit = effective_call_limit (tk_model_call_limit task) contract_limits in
    (if limit > 0 \<and> tk_model_calls_used task + calls > limit
      then ret (failure ''model_call_budget_exhausted'' [])
      else seq (upd_task task_id (\<lambda>t. t\<lparr> tk_model_calls_used := tk_model_calls_used t + calls \<rparr>)) (
        andthen (peek_task task_id) (\<lambda>after.
        ret (success [(''task_id'', JStr task_id),
          (''model_calls_used'', JInt (tk_model_calls_used after)), (''limit'', JInt limit),
          (''remaining'', if limit \<noteq> 0 then JInt (max (limit - tk_model_calls_used after) 0) else JNull)])))))))))))"

subsection \<open>Exit, writers, sandboxes, leases\<close>

definition confirm_run_exit :: "env \<Rightarrow> AuthContext \<Rightarrow> dict \<Rightarrow> CommandResult tx" where
  "confirm_run_exit E auth payload =
    andthen (need payload ''run_id'') (\<lambda>rid.
    andthen (the_run rid) (\<lambda>run.
    andthen (svc_get_task (JStr (ar_task_id run))) (\<lambda>task.
    seq (upd_outbox_where (\<lambda>ob. ob_task_id ob = tk_task_id task \<and> ob_command_type ob = ''agent.start''
         \<and> ob_status ob \<in> {O_PENDING, O_IN_FLIGHT}
         \<and> jget (ob_payload_json ob) ''run_id'' = JStr (ar_run_id run))
       (\<lambda>x. x\<lparr> ob_status := O_DEAD, ob_leased_until := None \<rparr>)) (
    seq (enqueue_stops_for_runs E (tk_task_id task) [ar_run_id run] ''confirm_exit'') (
    seq (append_event (ar_task_id run) ''run.exit_confirmation_requested'' (Some (actor_id auth))
       [(''run_id'', JStr (ar_run_id run))]) (
    ret (success [(''task_id'', JStr (ar_task_id run)), (''run_id'', JStr (ar_run_id run)),
       (''stop_requested'', JBool True), (''workspace_released'', JBool False)])))))))"

definition set_writer_alive :: "env \<Rightarrow> AuthContext \<Rightarrow> dict \<Rightarrow> CommandResult tx" where
  "set_writer_alive E auth payload =
    andthen (need payload ''workspace_id'') (\<lambda>wid.
    andthen (by_key get_workspace wid) (\<lambda>row.
    andthen (the_or not_found row) (\<lambda>ws.
    let rid = jor (dget payload ''run_id'') (jopt (ws_owner_run_id ws)) in
    seq (ensure (truthy rid) (PreconditionError ''workspace_unbound'')) (
    andthen (the_run rid) (\<lambda>run.
    seq (ensure (\<not> is_set (ws_owner_run_id ws) \<or> ws_owner_run_id ws = Some (ar_run_id run)) denied) (
    seq (assert_run_write_binding auth run
       (if dhas payload ''run_id'' then payload else payload @ [(''run_id'', JStr (ar_run_id run))]) True) (
    let alive = truthy (dget_or payload ''alive'' (JBool True)) in
    seq (upd_workspace (ws_workspace_id ws) (\<lambda>x. x\<lparr> ws_writer_alive := alive \<rparr>)) (
    seq (only_if (truthy (dget payload ''quarantine''))
       (upd_workspace (ws_workspace_id ws) (\<lambda>x. x\<lparr> ws_state := QUARANTINED \<rparr>))) (
    andthen (peek_workspace (ws_workspace_id ws)) (\<lambda>after.
    ret (success [(''workspace_id'', JStr (ws_workspace_id ws)),
       (''writer_alive'', JBool (ws_writer_alive after)),
       (''state'', JStr (workspace_state_str (ws_state after)))])))))))))))"

definition register_sandbox_identity :: "env \<Rightarrow> AuthContext \<Rightarrow> dict \<Rightarrow> CommandResult tx" where
  "register_sandbox_identity E auth payload =
    andthen (need payload ''run_id'') (\<lambda>rid.
    andthen (the_run rid) (\<lambda>run.
    let run_id = ar_run_id run in
    seq (assert_run_write_binding auth run payload True) (
    let container_id = strip (py_str (dget payload ''container_id'')) in
    seq (only_if (dget payload ''container_id'' \<noteq> JNull \<and> container_id \<noteq> [])
       (upd_run run_id (\<lambda>r. r\<lparr> ar_sandbox_container_id := Some container_id \<rparr>))) (
    seq (only_if (dhas payload ''exit_confirmed'') ((let confirmed = truthy (dget payload ''exit_confirmed'') in
      seq (upd_run run_id (\<lambda>r. r\<lparr> ar_sandbox_exit_unconfirmed := \<not> confirmed \<rparr>)) (
      (if \<not> confirmed then when_set (ar_workspace_id run) (\<lambda>wsid. andthen (get_workspace wsid) (\<lambda>ws.
        only_if (ws \<noteq> None) (upd_workspace wsid (\<lambda>x. x\<lparr> ws_writer_alive := True \<rparr>))))
        else release_workspace_after_confirmed_exit run_id))))) (
    andthen (peek_run run_id) (\<lambda>after.
    ret (success [(''run_id'', JStr run_id),
       (''sandbox_container_id'', jopt (ar_sandbox_container_id after)),
       (''sandbox_exit_unconfirmed'', JBool (ar_sandbox_exit_unconfirmed after))])))))))"

definition heartbeat :: "env \<Rightarrow> AuthContext \<Rightarrow> dict \<Rightarrow> CommandResult tx" where
  "heartbeat E auth payload =
    andthen (need payload ''run_id'') (\<lambda>rid.
    andthen (the_run rid) (\<lambda>run.
    seq (assert_run_write_binding auth run payload True) (
    andthen now (\<lambda>ts.
    seq (upd_run (ar_run_id run) (\<lambda>r. r\<lparr> ar_last_heartbeat_at := Some ts,
       ar_lease_expires_at := Some (ts + lease_seconds DEFAULTS) \<rparr>)) (
    ret (success [(''run_id'', JStr (ar_run_id run)),
       (''lease_expires_at'', JInt (ts + lease_seconds DEFAULTS))]))))))"

definition seed_profile :: "env \<Rightarrow> AuthContext \<Rightarrow> dict \<Rightarrow> CommandResult tx" where
  "seed_profile E auth payload =
    andthen now (\<lambda>ts.
    andthen (need payload ''profile_id'') (\<lambda>pid.
    andthen (need payload ''profile_version'') (\<lambda>pv.
    andthen (need_int pv) (\<lambda>version.
    seq (add_profile \<lparr> apr_profile_id = py_str pid, apr_profile_version = version,
       apr_content_json = jor (dget payload ''content'') (JObj []), apr_created_at = ts \<rparr>) (
    ret (success [(''profile_id'', pid), (''profile_version'', JInt version)]))))))"

subsection \<open>The frame\<close>

context service_frame
begin


lemma keeps_the_run [frame_intro]:
  "keeps R (the_run rid)"
  "keeps R (block_asking_run E task_id reason run)"
  unfolding the_run_def block_asking_run_def
  by (intro keeps_struct frame_intro; simp add: row_le_defs)+

text \<open>What follows a guard may rely on it.\<close>

lemma keeps_guarded: "(b \<Longrightarrow> keeps R k) \<Longrightarrow> keeps R (seq (ensure b e) k)"
  by (cases b) (simp_all add: keeps_def R_refl)

lemma keeps_record_model_usage [frame_intro]:
  "keeps R (record_model_usage E auth payload)"
  unfolding record_model_usage_def
  by (intro keeps_guarded keeps_struct frame_intro;
      simp add: row_le_defs can_become.stay)

lemma keeps_run_commands [frame_intro]:
  "keeps R (open_blocking_gate E auth payload)"
  "keeps R (confirm_run_exit E auth payload)"
  "keeps R (set_writer_alive E auth payload)"
  "keeps R (register_sandbox_identity E auth payload)"
  "keeps R (heartbeat E auth payload)"
  "keeps R (seed_profile E auth payload)"
  unfolding open_blocking_gate_def confirm_run_exit_def set_writer_alive_def
    register_sandbox_identity_def heartbeat_def seed_profile_def
  by (intro keeps_struct frame_intro; simp add: row_le_defs can_become.stay)+

end

subsection \<open>What the accounting guarantees\<close>

text \<open>
  Model calls are counted once and against the tighter limit. The command is refused, without a
  write, exactly when a positive limit would be exceeded; otherwise the Task's counter grows by the
  reported number of calls (at least one), and stays within the limit. A limit of zero, the Task's and
  the contract's, does not refuse anything.
\<close>

theorem model_usage_bounded:
  assumes run: "record_model_usage E auth payload s = (Inr r, t)" and clean: "t_clean (tasks s)"
    and rid: "map_of payload ''run_id'' = Some (JStr rid)" "t_get ar_run_id rid (runs s) = Some row"
    and task: "t_get tk_task_id (ar_task_id row) (tasks s) = Some task"
    and limits: "fst (contract_and_limits task s) = Inr (ceiling, limits)"
    and own: "own = tk_model_call_limit task" and agreed: "agreed = int_or (dget limits ''max_model_calls'') own"
    and limit: "limit = (if own = 0 then agreed else if agreed = 0 then own else min own agreed)"
  shows "\<exists>calls \<ge> 1. py_int (jor (dget payload ''calls'') (JInt 1)) = Some calls
    \<and> (if 0 < limit \<and> limit < tk_model_calls_used task + calls then \<not> cr_ok r \<and> t = s
        else cr_ok r \<and> (\<exists>task'. t_peek tk_task_id (ar_task_id row) (tasks t) = Some task'
          \<and> tk_model_calls_used task' = tk_model_calls_used task + calls
          \<and> (0 < limit \<longrightarrow> tk_model_calls_used task' \<le> limit)))"
proof -
  have effective: "effective_call_limit (tk_model_call_limit task) limits = limit"
    by (auto simp: effective_call_limit_def Let_def limit own agreed)
  have id: "tk_task_id task = ar_task_id row" using t_get_in [OF task] by simp
  have peek: "t_peek tk_task_id (ar_task_id row) (tasks s) = Some task" using task clean by (simp add: t_peek_clean)
  from run rid task limits obtain calls where calls: "1 \<le> calls" "py_int (jor (dget payload ''calls'') (JInt 1)) = Some calls"
    and rest: "(if limit > 0 \<and> tk_model_calls_used task + calls > limit
      then ret (failure ''model_call_budget_exhausted'' [])
      else seq (upd_task (tk_task_id task) (\<lambda>t. t\<lparr> tk_model_calls_used := tk_model_calls_used t + calls \<rparr>)) (
        andthen (peek_task (tk_task_id task)) (\<lambda>after.
        ret (success [(''task_id'', JStr (tk_task_id task)),
          (''model_calls_used'', JInt (tk_model_calls_used after)), (''limit'', JInt limit),
          (''remaining'', if limit \<noteq> 0 then JInt (max (limit - tk_model_calls_used after) 0) else JNull)])))) s = (Inr r, t)"
    unfolding record_model_usage_def the_run_def effective [symmetric]
    by (clarsimp simp: andthen_Inr_iff seq_Inr_iff svc_get_task_Inr Let_def
        readonly_iff [OF readonly_binding] readonly_iff [OF readonly_dispatch(5)])
  show ?thesis using calls rest peek
    by (intro exI [of _ calls]) (auto simp: id andthen_Inr_iff seq_Inr_iff t_peek_upd split: if_splits)
qed

theorem model_usage_bounded_witness:
  "\<exists>task'. t_peek tk_task_id ''t'' (tasks (snd (record_model_usage sample_env (sample_runtime ''t'' ''r'')
      [(''run_id'', JStr ''r''), (''calls'', JInt 4)] (sample_running R_RUNNING)))) = Some task'
    \<and> tk_model_calls_used task' = 4 \<and> tk_model_calls_used task' \<le> 5"
proof -
  let ?s = "sample_running R_RUNNING"
  let ?m = "record_model_usage sample_env (sample_runtime ''t'' ''r'') [(''run_id'', JStr ''r''), (''calls'', JInt 4)]"
  have "case fst (?m ?s) of Inl e \<Rightarrow> False | Inr r \<Rightarrow> cr_ok r" by code_simp
  then obtain r where r: "fst (?m ?s) = Inr r" "cr_ok r" by (cases "fst (?m ?s)") simp_all
  have clean: "t_clean (tasks ?s)" by code_simp
  have row: "t_get ar_run_id ''r'' (runs ?s) = Some (sample_run R_RUNNING)" by code_simp
  have tid: "ar_task_id (sample_run R_RUNNING) = ''t''" by (simp add: sample_run_def)
  have task: "t_get tk_task_id (ar_task_id (sample_run R_RUNNING)) (tasks ?s) = Some (sample_task EXECUTING)"
    by code_simp
  have limits: "fst (contract_and_limits (sample_task EXECUTING) ?s) = Inr ([], [])" by code_simp
  have own: "5 = tk_model_call_limit (sample_task EXECUTING)" by code_simp
  have agreed: "5 = int_or (dget [] ''max_model_calls'') 5" by code_simp
  have limit: "(5 :: int) = (if (5 :: int) = 0 then 5 else if (5 :: int) = 0 then 5 else min 5 5)" by simp
  have calls: "py_int (jor (dget [(''run_id'', JStr ''r''), (''calls'', JInt 4)] ''calls'') (JInt 1)) = Some 4" by code_simp
  from model_usage_bounded [OF run_result [where m = ?m, OF r(1)] clean _ row task limits own agreed limit] r(2) calls tid
  show ?thesis by (auto simp: sample_task_def)
qed

end
