(* ===== verification/Planner.thy ===== *)
theory Planner
  imports Plans Runs
begin

text \<open>
  Planner sessions (\<open>application/service.py\<close>): generations, PLAN Runs, plan proposals and the
  contract deltas they may ask for, checkpoints with their message cursor, the message log,
  refused spawns and repair plans.
\<close>

subsection \<open>Generations\<close>

definition new_planner_session :: "string \<Rightarrow> string \<Rightarrow> PlannerSessionRow" where
  "new_planner_session session_id task_id = \<lparr> ps_planner_session_id = session_id,
     ps_task_id = task_id, ps_generation = 1, ps_active_run_id = None, ps_checkpoint_ref = None,
     ps_checkpoint_version = 0, ps_last_consumed_message_seq = 0, ps_status = ''ACTIVE'' \<rparr>"

text \<open>The live PLAN Run of the old generation is revoked and stopped.\<close>

definition revoke_plan_run :: "env \<Rightarrow> string \<Rightarrow> string \<Rightarrow> unit tx" where
  "revoke_plan_run E task_id session_id =
    andthen now (\<lambda>ts.
    andthen (get_plan_run_marker session_id) (\<lambda>marker.
    (case marker of
        None \<Rightarrow> ret ()
      | Some m \<Rightarrow> andthen (get_run (aprm_run_id m)) (\<lambda>old.
        (case old of
             None \<Rightarrow> drop_plan_run_marker session_id
           | Some r \<Rightarrow>
              (if is_terminal_run (ar_status r) then drop_plan_run_marker session_id
               else seq (upd_run (ar_run_id r) (\<lambda>x. x\<lparr> ar_status := R_CANCELLED,
                   ar_terminal_reason := Some ''planner_generation_bumped'', ar_finished_at := Some ts \<rparr>)) (
                 seq (clear_run_occupancy (ar_run_id r) True) (
                 enqueue_stops_for_runs E task_id [ar_run_id r] ''planner_generation_bumped''))))))))"

definition replace_planner_generation :: "env \<Rightarrow> AuthContext \<Rightarrow> dict \<Rightarrow> CommandResult tx" where
  "replace_planner_generation E auth payload =
    andthen (need payload ''task_id'') (\<lambda>tid.
    andthen (svc_get_task tid) (\<lambda>task.
    let task_id = tk_task_id task in
    seq (assert_task_principal auth task) (
    andthen (if is_set (tk_active_planner_session_id task)
       then ret (or_else (tk_active_planner_session_id task) []) else new_id E ''ps'') (\<lambda>session_id.
    andthen (get_planner_session session_id) (\<lambda>existing.
    seq (case existing of
        None \<Rightarrow> seq (add_planner_session (new_planner_session session_id task_id)) (
          upd_task task_id (\<lambda>t. t\<lparr> tk_active_planner_session_id := Some session_id \<rparr>))
      | Some p \<Rightarrow> seq (revoke_plan_run E task_id session_id) (
        upd_planner_session session_id (\<lambda>x. x\<lparr> ps_active_run_id := None,
            ps_generation := ps_generation x + 1 \<rparr>))) (
    seq (upd_planner_session session_id (\<lambda>x. x\<lparr> ps_checkpoint_version := ps_checkpoint_version x + 1 \<rparr>)) (
    andthen (peek_planner_session session_id) (\<lambda>after.
    seq (append_event task_id ''planner.generation_bumped'' (Some (actor_id auth))
       [(''generation'', JInt (ps_generation after))]) (
    ret (success [(''task_id'', JStr task_id), (''planner_session_id'', JStr session_id),
       (''generation'', JInt (ps_generation after))]))))))))))"

text \<open>
  A human owner may write for the planner; a runtime must be the active PLAN Run of the current
  generation. A stale generation is recorded before it is refused.
\<close>

definition assert_planner_write_auth :: "AuthContext \<Rightarrow> string \<Rightarrow> string \<Rightarrow> dict \<Rightarrow> unit tx" where
  "assert_planner_write_auth auth task_id session_id payload =
    andthen (peek_task task_id) (\<lambda>task.
    seq (assert_task_principal auth task) (
    andthen (peek_planner_session session_id) (\<lambda>ps.
    andthen (need_int (jor (dget payload ''generation'') (JInt 0))) (\<lambda>gen.
    seq (only_if (gen \<noteq> ps_generation ps) (seq (append_event task_id ''plan.proposal_rejected_stale_generation'' (Some (actor_id auth))
         [(''got'', JInt gen), (''expected'', JInt (ps_generation ps))]) (
      raise (ConflictError ''stale_generation'')))) (
    (if actor_type auth = HUMAN then ret ()
      else seq (ensure (actor_type auth = INTERNAL) denied) (
        seq (ensure (is_set (ps_active_run_id ps) \<and> bound_run_id auth = ps_active_run_id ps) denied) (
        andthen (the_run (jopt (ps_active_run_id ps))) (\<lambda>run.
        seq (ensure (ar_assignment_kind run = PLAN \<and> ar_planner_session_id run = Some session_id)
          (PreconditionError ''not_plan_run'')) (
        seq (ensure (\<not> is_terminal_run (ar_status run)) denied) (
        assert_run_write_binding auth run
          (if dhas payload ''run_id'' then payload else payload @ [(''run_id'', JStr (ar_run_id run))])
          False)))))))))))"

text \<open>\<open>except ConflictError\<close> of a stale generation: the refusal is an answer, not an exception.\<close>

definition stale_as_failure :: "string \<Rightarrow> string \<Rightarrow> dict \<Rightarrow> CommandResult tx \<Rightarrow> unit tx
    \<Rightarrow> CommandResult tx" where
  "stale_as_failure task_id session_id payload continue auth_check =
    andthen (handle (seq auth_check (
      ret False))
       (\<lambda>e. if e = ConflictError ''stale_generation'' then ret True else raise e)) (\<lambda>stale.
    (if stale then andthen (need_int (jor (dget payload ''generation'') (JInt 0))) (\<lambda>gen.
      andthen (peek_planner_session session_id) (\<lambda>ps.
      ret (failure ''stale_generation'' [(''got'', JInt gen),
          (''expected'', JInt (ps_generation ps)), (''task_id'', JStr task_id)]))) else continue))"

subsection \<open>Proposals\<close>

definition open_contract_delta :: "env \<Rightarrow> string \<Rightarrow> json \<Rightarrow> CommandResult tx" where
  "open_contract_delta E task_id delta =
    andthen (active_contract task_id) (\<lambda>active_row.
    andthen (the_or (PreconditionError ''no_active_contract'') active_row) (\<lambda>active.
    andthen now (\<lambda>ts.
    andthen (new_id E ''dec'') (\<lambda>decision_id.
    let merged = merge_contract_content (entries (ct_content_json active)) (entries delta) in
    let target_hash = content_hash (sha E) (JObj merged) in
    seq (add_decision ((new_decision decision_id task_id CONTRACT_DELTA ''delta''
         (ct_contract_version active + 1) target_hash (Some (ct_contract_version active)) ts
         (ts + decision_ttl_hours DEFAULTS * 3600))
       \<lparr> de_payload_json := Some (JObj [(''delta'', delta),
            (''baseline_contract_version'', JInt (ct_contract_version active)),
            (''baseline_contract_hash'', JStr (ct_content_hash active)),
            (''approved_merged_hash'', JStr target_hash)]) \<rparr>)) (
    andthen (new_id E ''gate'') (\<lambda>gate_id.
    seq (add_gate (new_gate gate_id task_id decision_id WR_CONTRACT_DELTA ts)) (
    seq (set_task_state task_id ''blocking_gate.opened'' (Some WR_CONTRACT_DELTA)) (
    ret (success [(''task_id'', JStr task_id), (''requires_contract_delta'', JBool True),
       (''decision_id'', JStr decision_id)])))))))))"

definition submit_plan_proposal :: "env \<Rightarrow> AuthContext \<Rightarrow> dict \<Rightarrow> CommandResult tx" where
  "submit_plan_proposal E auth payload =
    andthen (need payload ''task_id'') (\<lambda>tid.
    andthen (svc_get_task tid) (\<lambda>task.
    let task_id = tk_task_id task in
    andthen (the_or (PreconditionError ''no_planner_session'') (tk_active_planner_session_id task)) (\<lambda>session_id.
    andthen (get_planner_session session_id) (\<lambda>ps_row.
    andthen (the_or AssertionError ps_row) (\<lambda>ps.
    stale_as_failure task_id session_id payload
       (if truthy (dget payload ''changes_authorization'')
        then open_contract_delta E task_id (jor (dget payload ''delta'') (JObj []))
        else activate_plan E auth payload)
       (assert_planner_write_auth auth task_id session_id payload))))))"

subsection \<open>PLAN Runs\<close>

definition plan_run :: "string \<Rightarrow> TaskRow \<Rightarrow> string \<Rightarrow> dict \<Rightarrow> int \<Rightarrow> AgentRunRow" where
  "plan_run run_id task session_id payload ts = \<lparr> ar_run_id = run_id, ar_task_id = tk_task_id task,
     ar_assignment_kind = PLAN, ar_planner_session_id = Some session_id, ar_work_unit_id = None,
     ar_work_unit_spec_version = None, ar_attempt_no = 1,
     ar_agent_instance_id = Some (''planner:'' @ run_id), ar_profile_id = ''planner'',
     ar_profile_version = 1,
     ar_contract_version = (case tk_contract_version task of None \<Rightarrow> 0 | Some v \<Rightarrow> v),
     ar_plan_version = tk_plan_version task, ar_context_manifest_id = None,
     ar_workspace_id = None, ar_status = R_CREATED, ar_terminal_reason = None,
     ar_fencing_epoch = 1, ar_grant_epoch = tk_revoke_epoch task,
     ar_lease_expires_at = Some (ts + lease_seconds DEFAULTS), ar_last_heartbeat_at = None,
     ar_started_at = None, ar_finished_at = None,
     ar_resumed_from_run_id = opt_str (dget payload ''resumed_from_run_id''),
     ar_result_ref = None, ar_result_json = None, ar_error_class = None,
     ar_late_arrival = False, ar_sandbox_container_id = None,
     ar_sandbox_exit_unconfirmed = False \<rparr>"

text \<open>The part of a PLAN Run's manifest, spec and start that names the session's position.\<close>

definition planner_position :: "PlannerSessionRow \<Rightarrow> dict" where
  "planner_position ps = [
     (''planner_session_id'', JStr (ps_planner_session_id ps)),
     (''generation'', JInt (ps_generation ps)), (''checkpoint_ref'', jopt (ps_checkpoint_ref ps)),
     (''checkpoint_version'', JInt (ps_checkpoint_version ps)),
     (''last_consumed_message_seq'', JInt (ps_last_consumed_message_seq ps))]"

definition plan_manifest :: "string \<Rightarrow> string \<Rightarrow> TaskRow \<Rightarrow> PlannerSessionRow \<Rightarrow> json list \<Rightarrow> dict
    \<Rightarrow> int \<Rightarrow> dict" where
  "plan_manifest manifest_id run_id task ps mandatory limits bytes =
     [(''context_manifest_id'', JStr manifest_id), (''run_id'', JStr run_id),
      (''task_id'', JStr (tk_task_id task)), (''assignment_kind'', JStr (kind_str PLAN))]
     @ planner_position ps
     @ [(''context_policy'', JStr ''FRESH''), (''profile_ref'', JStr ''planner@v1''),
      (''mandatory_refs'', JList mandatory), (''optional_refs'', JList []),
      (''excluded_categories'', jstrs [''other_tasks'', ''human_session'', ''credentials'']),
      (''dependency_result_refs'', JList []), (''artifact_refs'', JList []),
      (''project_context_refs'', JList []), (''previous_run_ref'', JNull),
      (''context_budget'', JObj [(''max_materialized_bytes'',
         JInt (int_or (dget limits ''context_max_materialized_bytes'')
           (context_max_materialized_bytes DEFAULTS)))]),
      (''mandatory_bytes'', JInt bytes)]"

definition plan_spec :: "string \<Rightarrow> TaskRow \<Rightarrow> PlannerSessionRow \<Rightarrow> string \<Rightarrow> string \<Rightarrow> json" where
  "plan_spec run_id task ps manifest_id mh = JObj (
     [(''run_id'', JStr run_id), (''task_id'', JStr (tk_task_id task)),
      (''assignment_kind'', JStr (kind_str PLAN)),
      (''objective'', JStr (''Plan task '' @ tk_title task)), (''work_type'', JStr ''PLAN'')]
     @ planner_position ps
     @ [(''context_manifest_id'', JStr manifest_id), (''context_manifest_hash'', JStr mh),
      (''fencing_epoch'', JInt 1), (''agent_instance_id'', JStr (''planner:'' @ run_id)),
      (''principal_id'', JStr (tk_principal_id task)), (''grant_epoch'', JInt (tk_revoke_epoch task)),
      (''granted_tools'', JList []), (''permission_ceiling'', JObj []),
      (''profile_id'', JStr ''planner''), (''profile_version'', JInt 1)])"

definition plan_start_payload :: "string \<Rightarrow> TaskRow \<Rightarrow> PlannerSessionRow \<Rightarrow> dict" where
  "plan_start_payload run_id task ps =
     [(''run_id'', JStr run_id), (''task_id'', JStr (tk_task_id task)),
      (''assignment_kind'', JStr (kind_str PLAN))]
     @ planner_position ps
     @ [(''principal_id'', JStr (tk_principal_id task)),
      (''agent_instance_id'', JStr (''planner:'' @ run_id)),
      (''grant_epoch'', JInt (tk_revoke_epoch task)), (''fencing_epoch'', JInt 1),
      (''revoke_epoch'', JInt (tk_revoke_epoch task))]"

definition create_plan_run :: "env \<Rightarrow> AuthContext \<Rightarrow> dict \<Rightarrow> string \<Rightarrow> string \<Rightarrow> CommandResult tx" where
  "create_plan_run E auth payload task_id session_id =
    andthen (new_id E ''run'') (\<lambda>run_id.
    andthen now (\<lambda>ts.
    andthen (peek_task task_id) (\<lambda>task.
    andthen (peek_planner_session session_id) (\<lambda>ps.
    seq (add_run (plan_run run_id task session_id payload ts)) (
    seq flush (
    andthen (contract_and_limits task) (\<lambda>(_, limits).
    andthen (new_id E ''ctx'') (\<lambda>manifest_id.
    andthen (active_contract task_id) (\<lambda>contract.
    let mandatory = (case contract of None \<Rightarrow> [] | Some c \<Rightarrow> [JObj [(''kind'', JStr ''contract''),
       (''ref'', JStr (''contract:'' @ task_id @ '':v'' @ show_int (ct_contract_version c))),
       (''version'', JInt (ct_contract_version c)), (''hash'', JStr (ct_content_hash c)),
       (''required'', JBool True)]]) in
    andthen (mandatory_context_bytes E mandatory [] None (Some task_id)) (\<lambda>bytes.
    let manifest = JObj (plan_manifest manifest_id run_id task ps mandatory limits bytes) in
    let mh = content_hash (sha E) manifest in
    seq (add_manifest \<lparr> cm_context_manifest_id = manifest_id, cm_task_id = task_id, cm_run_id = run_id,
       cm_contract_version = (case tk_contract_version task of None \<Rightarrow> 0 | Some v \<Rightarrow> v),
       cm_plan_version = tk_plan_version task, cm_content_json = manifest,
       cm_manifest_hash = mh, cm_created_at = ts \<rparr>) (
    let spec = plan_spec run_id task ps manifest_id mh in
    seq (add_run_input \<lparr> ri_run_id = run_id, ri_task_id = task_id, ri_workspace_id = None,
       ri_workspace_path = None, ri_profile_id = ''planner'', ri_profile_version = 1,
       ri_granted_tools_json = JList [], ri_permission_ceiling_json = JObj [],
       ri_context_manifest_id = Some manifest_id, ri_spec_json = spec,
       ri_spec_hash = content_hash (sha E) spec, ri_created_at = ts \<rparr>) (
    seq (upd_run run_id (\<lambda>r. r\<lparr> ar_context_manifest_id := Some manifest_id \<rparr>)) (
    seq (add_plan_run_marker \<lparr> aprm_planner_session_id = session_id, aprm_run_id = run_id \<rparr>) (
    seq (upd_planner_session session_id (\<lambda>x. x\<lparr> ps_active_run_id := Some run_id \<rparr>)) (
    seq (enqueue_outbox E task_id ''agent.start'' (plan_start_payload run_id task ps)) (
    seq (append_event task_id ''plan_run.created'' (Some (actor_id auth))
       [(''run_id'', JStr run_id), (''planner_session_id'', JStr session_id),
        (''generation'', JInt (ps_generation ps))]) (
    ret (success [(''task_id'', JStr task_id), (''run_id'', JStr run_id),
       (''planner_session_id'', JStr session_id), (''generation'', JInt (ps_generation ps))]))))))))))))))))))"

text \<open>At most one active PLAN Run per session: an active one is returned, a stale marker dropped.\<close>

definition active_plan_run :: "string \<Rightarrow> string option tx" where
  "active_plan_run session_id =
    andthen (get_plan_run_marker session_id) (\<lambda>marker.
    (case marker of
        None \<Rightarrow> ret None
      | Some m \<Rightarrow> andthen (get_run (aprm_run_id m)) (\<lambda>marked.
        (case marked of
             None \<Rightarrow> seq (drop_plan_run_marker session_id) (
               ret None)
           | Some r \<Rightarrow>
              (if run_active r then ret (Some (ar_run_id r))
               else seq (drop_plan_run_marker session_id) (
                 ret None))))))"

definition dispatch_planner_run :: "env \<Rightarrow> AuthContext \<Rightarrow> dict \<Rightarrow> CommandResult tx" where
  "dispatch_planner_run E auth payload =
    andthen (need payload ''task_id'') (\<lambda>tid.
    andthen (svc_get_task tid) (\<lambda>task.
    let task_id = tk_task_id task in
    seq (assert_task_principal auth task) (
    andthen (active_contract task_id) (\<lambda>contract.
    andthen (has_blocking_gate task_id) (\<lambda>gate.
    (case guard_dispatch (tk_state task) (contract \<noteq> None) gate (tk_cancel_intent task)
         (tk_pause_intent task) of
        Inl e \<Rightarrow> ret (failure (error_code e) [])
      | Inr _ \<Rightarrow> andthen (case tk_active_planner_session_id task of
             Some sid \<Rightarrow> ret sid
           | None \<Rightarrow> andthen (replace_planner_generation E auth [(''task_id'', JStr task_id)]) (\<lambda>created.
             ret (py_str (dget (cr_data created) ''planner_session_id'')))) (\<lambda>session_id.
        andthen (get_planner_session session_id) (\<lambda>ps_row.
        andthen (the_or AssertionError ps_row) (\<lambda>ps.
        seq (ensure (ps_status ps = ''ACTIVE'') (PreconditionError ''planner_session_inactive'')) (
        seq (ensure (ps_task_id ps = task_id) (PreconditionError ''planner_task_mismatch'')) (
        andthen (active_plan_run session_id) (\<lambda>active.
        (case active of
             Some rid \<Rightarrow> ret (success [(''task_id'', JStr task_id), (''run_id'', JStr rid),
               (''already_active'', JBool True), (''generation'', JInt (ps_generation ps))])
           | None \<Rightarrow> andthen (count_active_runs None) (\<lambda>global_active.
             andthen (count_active_runs (Some task_id)) (\<lambda>task_active.
             (if global_active \<ge> global_run_concurrency DEFAULTS
                    \<or> task_active \<ge> per_task_run_concurrency DEFAULTS
                then ret (failure ''concurrency_limit'' [])
                else create_plan_run E auth payload task_id session_id))))))))))))))))"

subsection \<open>Checkpoints and messages\<close>

definition move_checkpoint :: "AuthContext \<Rightarrow> dict \<Rightarrow> string \<Rightarrow> string \<Rightarrow> CommandResult tx" where
  "move_checkpoint auth payload task_id session_id =
    andthen (peek_planner_session session_id) (\<lambda>ps.
    andthen (need_int (jor (dget payload ''last_consumed_message_seq'')
       (JInt (ps_last_consumed_message_seq ps)))) (\<lambda>consumed.
    seq (ensure (consumed \<ge> ps_last_consumed_message_seq ps) (PreconditionError ''cursor_regression'')) (
    andthen (stored_message (\<lambda>m. tm_task_id m = task_id)) (\<lambda>msgs.
    seq (ensure (consumed < next_seq (map tm_sequence_no msgs)) (PreconditionError ''cursor_past_end'')) (
    seq (only_if (dhas payload ''checkpoint_ref'') (upd_planner_session session_id
       (\<lambda>x. x\<lparr> ps_checkpoint_ref := opt_str (dget payload ''checkpoint_ref'') \<rparr>))) (
    seq (upd_planner_session session_id (\<lambda>x. x\<lparr> ps_checkpoint_version := ps_checkpoint_version x + 1,
       ps_last_consumed_message_seq := consumed \<rparr>)) (
    andthen (peek_planner_session session_id) (\<lambda>after.
    seq (append_event task_id ''planner.checkpoint_advanced'' (Some (actor_id auth)) (planner_position after)) (
    ret (success ((''task_id'', JStr task_id) # planner_position after)))))))))))"

definition advance_planner_checkpoint :: "env \<Rightarrow> AuthContext \<Rightarrow> dict \<Rightarrow> CommandResult tx" where
  "advance_planner_checkpoint E auth payload =
    andthen (need payload ''task_id'') (\<lambda>tid.
    andthen (svc_get_task tid) (\<lambda>task.
    let task_id = tk_task_id task in
    let sid = jor (jopt (tk_active_planner_session_id task)) (dget payload ''planner_session_id'') in
    seq (ensure (truthy sid) (PreconditionError ''no_planner_session'')) (
    andthen (by_key get_planner_session sid) (\<lambda>row.
    andthen (the_or (NotFoundError ''planner_session_not_found'') row) (\<lambda>ps.
    seq (ensure (ps_task_id ps = task_id) (NotFoundError ''planner_session_not_found'')) (
    let session_id = ps_planner_session_id ps in
    stale_as_failure task_id session_id payload (move_checkpoint auth payload task_id session_id)
       (assert_planner_write_auth auth task_id session_id payload)))))))"

definition message_sender_ok :: "AuthContext \<Rightarrow> dict \<Rightarrow> string \<Rightarrow> unit tx" where
  "message_sender_ok auth payload task_id =
    (let rid = dget payload ''run_id'' in
    (if actor_type auth = INTERNAL then seq (ensure (truthy rid) denied) (
      andthen (the_run rid) (\<lambda>run.
      seq (ensure (ar_task_id run = task_id) denied) (
      assert_run_write_binding auth run payload True)))
      else if actor_type auth = HUMAN then
        (if truthy rid then andthen (the_run rid) (\<lambda>run.
          ensure (ar_task_id run = task_id) denied) else ret ())
      else raise denied))"

definition post_task_message :: "env \<Rightarrow> AuthContext \<Rightarrow> dict \<Rightarrow> CommandResult tx" where
  "post_task_message E auth payload =
    andthen (need payload ''task_id'') (\<lambda>tid.
    andthen (svc_get_task tid) (\<lambda>task.
    let task_id = tk_task_id task in
    seq (assert_task_principal auth task) (
    seq (message_sender_ok auth payload task_id) (
    andthen (stored_message (\<lambda>m. tm_task_id m = task_id)) (\<lambda>msgs.
    let seq_no = next_seq (map tm_sequence_no msgs) in
    let kind = py_str (jor (dget payload ''kind'') (JStr ''note'')) in
    andthen now (\<lambda>ts.
    seq (add_message \<lparr> tm_task_id = task_id, tm_sequence_no = seq_no,
       tm_sender_run_id = opt_str (dget payload ''run_id''), tm_sender_actor = Some (actor_id auth),
       tm_kind = kind, tm_body_json = jor (dget payload ''body'') (JObj []), tm_created_at = ts \<rparr>) (
    seq (append_event task_id ''task.message_posted'' (Some (actor_id auth))
       [(''sequence_no'', JInt seq_no), (''kind'', JStr kind), (''run_id'', dget payload ''run_id'')]) (
    ret (success [(''task_id'', JStr task_id), (''sequence_no'', JInt seq_no), (''kind'', JStr kind)])))))))))"

definition request_spawn :: "env \<Rightarrow> AuthContext \<Rightarrow> dict \<Rightarrow> CommandResult tx" where
  "request_spawn E auth payload =
    (let task_id = py_str (jor (dget payload ''task_id'') (JStr [])) in
    seq (only_if (task_id \<noteq> []) (andthen (svc_get_task (JStr task_id)) (\<lambda>task.
      append_event (tk_task_id task) ''spawn.refused'' (Some (actor_id auth))
         [(''reason'', JStr ''core_only_spawn''), (''requested_by'', JStr (actor_str (actor_type auth))),
          (''actor_id'', JStr (actor_id auth)),
          (''detail'', jor (dget payload ''detail'') (dget payload ''kind''))]))) (
    ret (failure ''spawn_forbidden'' [(''task_id'', if task_id = [] then JNull else JStr task_id)])))"

definition close_planner_session :: "env \<Rightarrow> AuthContext \<Rightarrow> dict \<Rightarrow> CommandResult tx" where
  "close_planner_session E auth payload =
    andthen (need payload ''task_id'') (\<lambda>tid.
    andthen (svc_get_task tid) (\<lambda>task.
    let task_id = tk_task_id task in
    seq (assert_task_principal auth task) (
    andthen (the_or (PreconditionError ''no_planner_session'') (tk_active_planner_session_id task)) (\<lambda>session_id.
    andthen (get_planner_session session_id) (\<lambda>ps_row.
    andthen (the_or AssertionError ps_row) (\<lambda>ps.
    andthen (get_plan_run_marker session_id) (\<lambda>marker.
    seq (case marker of
        None \<Rightarrow> ret ()
      | Some m \<Rightarrow> andthen (get_run (aprm_run_id m)) (\<lambda>run.
        ensure (case run of None \<Rightarrow> True | Some r \<Rightarrow> \<not> run_active r) (PreconditionError ''active_plan_run''))) (
    let status = py_str (jor (dget payload ''status'') (JStr ''CLOSED'')) in
    seq (upd_planner_session session_id (\<lambda>x. x\<lparr> ps_status := status, ps_active_run_id := None \<rparr>)) (
    seq (append_event task_id ''planner.session_closed'' (Some (actor_id auth))
       [(''planner_session_id'', JStr session_id), (''status'', JStr status)]) (
    ret (success [(''task_id'', JStr task_id), (''planner_session_id'', JStr session_id),
       (''status'', JStr status)])))))))))))"

subsection \<open>Repair\<close>

definition repair_nodes :: "json list \<Rightarrow> string \<Rightarrow> string \<Rightarrow> string \<Rightarrow> json \<Rightarrow> json \<Rightarrow> bool \<Rightarrow> json list" where
  "repair_nodes keep failed_verify_id repair_id verify_id objective failed_evidence include_verify =
     filter (\<lambda>n. py_str (jget n ''work_unit_id'') \<noteq> failed_verify_id) keep
     @ [JObj [(''work_unit_id'', JStr repair_id), (''spec_version'', JInt 1),
         (''work_type'', JStr ''REPAIR''),
         (''objective'', jor objective (JStr (''repair after '' @ failed_verify_id
            @ (let t = strip (py_str (jor failed_evidence (JStr []))) in if t = [] then [] else '': '' @ t))))]]
     @ (if include_verify then [JObj [(''work_unit_id'', JStr verify_id), (''spec_version'', JInt 1),
          (''work_type'', JStr ''VERIFY'')]] else [])"

definition repair_edges :: "json list \<Rightarrow> string \<Rightarrow> string \<Rightarrow> json \<Rightarrow> bool \<Rightarrow> json list" where
  "repair_edges keep repair_id verify_id the_hash include_verify =
     keep @ (if include_verify then [JObj [(''from_work_unit_id'', JStr repair_id),
       (''to_work_unit_id'', JStr verify_id), (''predicate'', JStr ''VERDICT_PASS''),
       (''artifact_hash'', jor the_hash (JStr ''repair-target-hash''))]] else [])"

definition id_or_new :: "env \<Rightarrow> json \<Rightarrow> string \<Rightarrow> string tx" where
  "id_or_new E v prefix = (if truthy v then ret (py_str v) else new_id E prefix)"

definition request_repair_plan :: "env \<Rightarrow> AuthContext \<Rightarrow> dict \<Rightarrow> CommandResult tx" where
  "request_repair_plan E auth payload =
    andthen (need payload ''task_id'') (\<lambda>tid.
    andthen (svc_get_task tid) (\<lambda>task.
    let task_id = tk_task_id task in
    seq (assert_task_principal auth task) (
    andthen (need payload ''failed_verify_work_unit_id'') (\<lambda>failed.
    let failed_id = py_str failed in
    andthen (get_wu failed_id) (\<lambda>wu_row.
    andthen (the_or (NotFoundError ''work_unit_not_found'') wu_row) (\<lambda>wu.
    seq (ensure (wu_task_id wu = task_id) (NotFoundError ''work_unit_not_found'')) (
    seq (ensure (wu_selected_verdict wu = Some ''FAIL'') (PreconditionError ''verify_not_failed'')) (
    andthen (id_or_new E (dget payload ''repair_work_unit_id'') ''wu'') (\<lambda>repair_id.
    andthen (id_or_new E (dget payload ''new_verify_work_unit_id'') ''wu'') (\<lambda>verify_id.
    andthen (elems (jor (dget payload ''keep_nodes'') (JList []))) (\<lambda>keep_nodes.
    andthen (collect keep_nodes as_obj) (\<lambda>node_objs.
    andthen (elems (jor (dget payload ''keep_edges'') (JList []))) (\<lambda>keep_edges.
    let include_verify = (dget_or payload ''include_verify'' (JBool True) \<noteq> JBool False) in
    let proposal = [(''task_id'', JStr task_id),
       (''nodes'', JList (repair_nodes keep_nodes failed_id repair_id verify_id
          (dget payload ''objective'') (dget payload ''failed_evidence'') include_verify)),
       (''edges'', JList (repair_edges keep_edges repair_id verify_id
          (dget payload ''artifact_hash'') include_verify)),
       (''expected_plan_version'', jint_opt (tk_plan_version task)),
       (''expected_contract_version'', jint_opt (tk_contract_version task)),
       (''generation'', dget payload ''generation''),
       (''objective'', jor (dget payload ''objective'') (JStr (''repair after '' @ failed_id)))] in
    (if is_set (tk_active_planner_session_id task) \<and> dget payload ''generation'' \<noteq> JNull
      then submit_plan_proposal E auth proposal
      else activate_plan E auth proposal))))))))))))))"

subsection \<open>The frame\<close>

context service_frame
begin


lemma keeps_planner_steps [frame_intro]:
  "keeps R (revoke_plan_run E task_id sid)"
  "keeps R (assert_planner_write_auth auth task_id sid payload)"
  "keeps R (open_contract_delta E task_id delta)"
  "keeps R (create_plan_run E auth payload task_id sid)"
  "keeps R (active_plan_run sid)"
  "keeps R (move_checkpoint auth payload task_id sid)"
  "keeps R (message_sender_ok auth payload task_id)"
  "keeps R (id_or_new E v p)"
  unfolding revoke_plan_run_def assert_planner_write_auth_def open_contract_delta_def
    create_plan_run_def active_plan_run_def move_checkpoint_def message_sender_ok_def id_or_new_def
  by (intro keeps_struct frame_intro; simp add: row_le_defs can_become.stay)+

lemma keeps_stale_as_failure [frame_intro]:
  "keeps R m \<Longrightarrow> keeps R k \<Longrightarrow> keeps R (stale_as_failure task_id sid payload m k)"
  unfolding stale_as_failure_def by (intro keeps_struct frame_intro)

lemma keeps_planner_sessions [frame_intro]:
  "keeps R (replace_planner_generation E auth payload)"
  "keeps R (submit_plan_proposal E auth payload)"
  "keeps R (advance_planner_checkpoint E auth payload)"
  "keeps R (post_task_message E auth payload)"
  "keeps R (request_spawn E auth payload)"
  "keeps R (close_planner_session E auth payload)"
  unfolding replace_planner_generation_def submit_plan_proposal_def advance_planner_checkpoint_def
    post_task_message_def request_spawn_def close_planner_session_def
  by (intro keeps_struct frame_intro; simp add: row_le_defs can_become.stay)+

lemma keeps_dispatch_planner_run [frame_intro]:
  "keeps R (dispatch_planner_run E auth payload)"
  "keeps R (request_repair_plan E auth payload)"
  unfolding dispatch_planner_run_def request_repair_plan_def
  by (intro keeps_struct frame_intro)+

end

end
