(* ===== verification/Artifacts.thy ===== *)
theory Artifacts
  imports Runs
begin

text \<open>
  Artifacts and context (\<open>application/service.py\<close>, \<open>runtime/artifacts.py\<close>): content-addressed
  references, reading bytes inside a Run's own workspace, \<open>_publish_artifact\<close>, \<open>_context_append\<close>,
  and the reads that only the Run itself may do. File contents come from the environment; what is
  modelled is which reads are allowed, that bytes are hashed before they are believed, and what
  is recorded.
\<close>

subsection \<open>Content addresses\<close>

definition is_hex_lower :: "char \<Rightarrow> bool" where
  "is_hex_lower c \<longleftrightarrow> is_digit c \<or> (97 \<le> (of_char c :: nat) \<and> (of_char c :: nat) \<le> 102)"

definition is_sha256_hex :: "string \<Rightarrow> bool" where
  "is_sha256_hex s \<longleftrightarrow> length s = 64 \<and> list_all is_hex_lower s"

definition artifact_digest :: "string \<Rightarrow> exn + string" where
  "artifact_digest uri =
    (if \<not> starts_with ''artifact://'' uri then Inl ValueError
     else if \<not> is_sha256_hex (drop 11 uri) then Inl ValueError
     else Inr (drop 11 uri))"

text \<open>\<open>LocalArtifactStore.put\<close> and \<open>get\<close>: the file is named by the digest.\<close>

definition store_put :: "string \<Rightarrow> exn + string" where
  "store_put digest = (if is_sha256_hex digest then Inr (''artifact://'' @ digest) else Inl ValueError)"

definition artifact_store_get :: "env \<Rightarrow> string \<Rightarrow> string tx" where
  "artifact_store_get E uri =
    andthen (the_or (PreconditionError ''artifact_store_missing'') (store_get E)) (\<lambda>get.
    andthen (lift_exn (artifact_digest uri)) (\<lambda>digest.
    the_or OSError (get digest)))"

definition read_task_artifact_bytes :: "env \<Rightarrow> string \<Rightarrow> string \<Rightarrow> (string \<times> string) tx" where
  "read_task_artifact_bytes E task_id uri =
    andthen (case artifact_digest uri of
        Inl _ \<Rightarrow> raise (PreconditionError ''artifact_uri_invalid'')
      | Inr d \<Rightarrow> ret d) (\<lambda>digest.
    andthen (get_artifact (task_id, digest)) (\<lambda>row_opt.
    andthen (the_or (NotFoundError ''artifact_not_owned'') row_opt) (\<lambda>row.
    seq (ensure (is_set (af_artifact_uri row)) (NotFoundError ''artifact_not_owned'')) (
    seq (ensure (af_artifact_uri row = Some (''artifact://'' @ digest))
       (PreconditionError ''artifact_uri_mismatch'')) (
    andthen (artifact_store_get E (''artifact://'' @ digest)) (\<lambda>content.
    seq (ensure (sha E content = digest) (ConflictError ''artifact_hash_mismatch'')) (
    ret (content, digest))))))))"

subsection \<open>Workspace reads\<close>

definition assert_workspace_accessible_by_run :: "AgentRunRow \<Rightarrow> string \<Rightarrow> unit tx" where
  "assert_workspace_accessible_by_run run workspace_id =
    andthen (get_workspace workspace_id) (\<lambda>row.
    andthen (the_or (PreconditionError ''workspace_missing'') row) (\<lambda>ws.
    seq (ensure (ws_owner_run_id ws = None \<or> ws_owner_run_id ws = Some (ar_run_id run))
       (PreconditionError ''workspace_not_owned'')) (
    ensure (ar_status run \<noteq> R_CANCELLED) (PreconditionError ''run_revoked''))))"

definition read_workspace_bytes :: "env \<Rightarrow> AgentRunRow \<Rightarrow> string \<Rightarrow> string option \<Rightarrow> int option
    \<Rightarrow> (string \<times> string) tx" where
  "read_workspace_bytes E run relative_path workspace_id max_bytes =
    andthen (case workspace_id of
        Some w \<Rightarrow> ret w
      | None \<Rightarrow> andthen (get_run_input (ar_run_id run)) (\<lambda>ri.
        ret (case ri of None \<Rightarrow> [] | Some r \<Rightarrow> or_else (ri_workspace_id r) []))) (\<lambda>wsid.
    seq (ensure (wsid \<noteq> []) (PreconditionError ''workspace_missing'')) (
    seq (assert_workspace_accessible_by_run run wsid) (
    seq (ensure (workspace_root E \<noteq> None) (PreconditionError ''workspace_missing'')) (
    seq (ensure (ws_dir E wsid) (PreconditionError ''workspace_missing'')) (
    andthen (lift_exn (case ws_read E wsid relative_path max_bytes of
        Inl OSError \<Rightarrow> Inl (NotFoundError ''artifact_source_missing'')
      | Inl e \<Rightarrow> Inl (PreconditionError ''artifact_path_refused'')
      | Inr c \<Rightarrow> Inr c)) (\<lambda>content.
    ret (content, sha E content)))))))"

subsection \<open>Publishing\<close>

definition publish_artifact :: "env \<Rightarrow> AuthContext \<Rightarrow> dict \<Rightarrow> CommandResult tx" where
  "publish_artifact E auth payload =
    andthen (need payload ''run_id'') (\<lambda>rid.
    andthen (the_run rid) (\<lambda>run.
    seq (assert_run_write_binding auth run payload True) (
    andthen (svc_get_task (JStr (ar_task_id run))) (\<lambda>task.
    let task_id = tk_task_id task in
    seq (ensure (tk_state task \<notin> {WAITING_HUMAN, PAUSING, PAUSED, CANCELLING, ABORTED, COMPLETED, T_FAILED})
       (PreconditionError ''task_frozen'')) (
    andthen (get_run_input (ar_run_id run)) (\<lambda>input_row.
    andthen (the_or (PreconditionError ''workspace_missing'') input_row) (\<lambda>run_input.
    seq (ensure (is_set (ri_workspace_id run_input)) (PreconditionError ''workspace_missing'')) (
    let path = py_str (jor (dget payload ''path'') (jor (dget payload ''relative_path'') (JStr []))) in
    seq (ensure (path \<noteq> []) (PreconditionError ''artifact_path_required'')) (
    andthen (read_workspace_bytes E run path (ri_workspace_id run_input) None) (\<lambda>(content, digest).
    let claimed = jor (dget payload ''expected_hash'') (dget payload ''sha256'') in
    seq (ensure (claimed = JNull \<or> py_str claimed = digest) (ConflictError ''artifact_hash_mismatch'')) (
    seq (ensure (store_get E \<noteq> None) (PreconditionError ''artifact_store_missing'')) (
    andthen (lift_exn (store_put digest)) (\<lambda>uri.
    andthen now (\<lambda>ts.
    andthen (get_artifact (task_id, digest)) (\<lambda>row.
    seq (only_if (row = None) (add_artifact \<lparr> af_task_id = task_id, af_artifact_hash = digest,
       af_work_unit_id = ar_work_unit_id run, af_run_id = Some (ar_run_id run),
       af_result_ref = None, af_verdict = None, af_artifact_uri = None, af_size_bytes = None,
       af_mime_type = None, af_source_path = None, af_created_at = ts \<rparr>)) (
    seq (upd_artifact (task_id, digest) (\<lambda>a. a\<lparr> af_artifact_uri := Some uri,
       af_size_bytes := Some (int (length content)), af_source_path := Some path \<rparr>)) (
    seq (append_event task_id ''artifact.published'' (Some (actor_id auth))
       [(''artifact_hash'', JStr digest), (''uri'', JStr uri), (''run_id'', JStr (ar_run_id run)),
        (''path'', JStr path), (''size'', JInt (int (length content))), (''created'', JBool (row = None))]) (
    ret (success [(''artifact_hash'', JStr digest), (''uri'', JStr uri), (''task_id'', JStr task_id),
       (''run_id'', JStr (ar_run_id run)), (''size'', JInt (int (length content))),
       (''source_path'', JStr path), (''created'', JBool (row = None))])))))))))))))))))))"

subsection \<open>Context appends\<close>

text \<open>A refused reference is reported as such; \<open>also_value\<close>: a malformed address too.\<close>

definition refuse_ref :: "'a tx \<Rightarrow> bool \<Rightarrow> 'a tx" where
  "refuse_ref m also_value = handle m (\<lambda>e. case e of
     PreconditionError _ \<Rightarrow> raise (PreconditionError ''context_ref_refused'')
   | NotFoundError _ \<Rightarrow> raise (PreconditionError ''context_ref_refused'')
   | ValueError \<Rightarrow> if also_value then raise (PreconditionError ''context_ref_refused'') else raise e
   | _ \<Rightarrow> raise e)"

text \<open>
  What an append claims: content hash, materialized hash, size. The bytes are read and hashed
  here when the reference names an artifact of the Task or a file of the Run's workspace.
\<close>

definition append_content :: "env \<Rightarrow> dict \<Rightarrow> AgentRunRow \<Rightarrow> string \<Rightarrow> (json \<times> json \<times> int option) tx" where
  "append_content E payload run ref =
    (let claimed = dget payload ''content_hash'' in
    let materialized = dget payload ''materialized_hash'' in
    andthen (get_run_input (ar_run_id run)) (\<lambda>run_input.
    (if starts_with ''artifact://'' ref then andthen (refuse_ref (read_task_artifact_bytes E (ar_task_id run) ref) True) (\<lambda>(content, digest).
      seq (ensure (claimed = JNull \<or> py_str claimed = digest) (ConflictError ''context_hash_mismatch'')) (
      ret (JStr digest, JStr digest, Some (int (length content)))))
      else if run_input \<noteq> None \<and> looks_like_relative_path ref then andthen (if dget payload ''max_bytes'' = JNull then ret None
          else andthen (need_int (dget payload ''max_bytes'')) (\<lambda>n.
            ret (Some n))) (\<lambda>max_bytes.
        andthen (refuse_ref (read_workspace_bytes E run ref
          (case run_input of None \<Rightarrow> None | Some r \<Rightarrow> ri_workspace_id r) max_bytes) False) (\<lambda>(content, digest).
        seq (ensure (claimed = JNull \<or> py_str claimed = digest) (ConflictError ''context_hash_mismatch'')) (
        ret (JStr digest, jor materialized (JStr digest), Some (int (length content))))))
      else ret (claimed, materialized, None))))"

definition str_or_none :: "json \<Rightarrow> string option" where
  "str_or_none v = (if truthy v then Some (py_str v) else None)"

definition context_append :: "env \<Rightarrow> AuthContext \<Rightarrow> dict \<Rightarrow> CommandResult tx" where
  "context_append E auth payload =
    andthen (need payload ''run_id'') (\<lambda>rid.
    andthen (the_run rid) (\<lambda>run.
    let run_id = ar_run_id run in
    seq (assert_run_write_binding auth run payload True) (
    andthen (svc_get_task (JStr (ar_task_id run))) (\<lambda>task.
    let task_id = tk_task_id task in
    seq (ensure (tk_state task \<notin> {CANCELLING, ABORTED, COMPLETED, T_FAILED}) (PreconditionError ''task_frozen'')) (
    let reason = strip (py_str (jor (dget payload ''reason'') (JStr []))) in
    seq (ensure (reason \<noteq> []) (PreconditionError ''context_reason_required'')) (
    let ref = strip (py_str (jor (dget payload ''authorized_ref'') (jor (dget payload ''ref'') (JStr [])))) in
    seq (ensure (ref \<noteq> []) (PreconditionError ''context_ref_required'')) (
    andthen (append_content E payload run ref) (\<lambda>(content_hash_value, materialized, size_bytes).
    andthen (new_id E ''ctxapp'') (\<lambda>append_id.
    andthen now (\<lambda>ts.
    andthen (stored_context_append (\<lambda>a. ca_task_id a = task_id \<and> ca_run_id a = run_id)) (\<lambda>prior.
    seq (add_context_append \<lparr> ca_append_id = append_id, ca_task_id = task_id, ca_run_id = run_id,
       ca_sequence_no = next_seq (map ca_sequence_no prior), ca_reason = reason,
       ca_authorized_ref = ref, ca_version = opt_str (dget payload ''version''),
       ca_content_hash = str_or_none content_hash_value,
       ca_grant_ref = str_or_none (dget payload ''grant_ref''),
       ca_materialized_hash = str_or_none materialized, ca_created_at = ts \<rparr>) (
    seq (append_event task_id ''context.appended'' (Some (actor_id auth))
       [(''run_id'', JStr run_id), (''reason'', JStr reason), (''authorized_ref'', JStr ref),
        (''amount'', jint_opt size_bytes)]) (
    ret (success [(''append_id'', JStr append_id), (''run_id'', JStr run_id), (''reason'', JStr reason),
       (''authorized_ref'', JStr ref), (''materialized_hash'', materialized),
       (''size'', jint_opt size_bytes)]))))))))))))))"

subsection \<open>Reads of a Run\<close>

text \<open>The frozen execution contract of a Run, readable by the runtime bound to it only.\<close>

definition get_run_input_tx :: "AuthContext \<Rightarrow> string \<Rightarrow> json tx" where
  "get_run_input_tx auth run_id =
    andthen (the_run (JStr run_id)) (\<lambda>run.
    seq (assert_run_write_binding auth run [(''run_id'', JStr run_id)] False) (
    andthen (get_run_input run_id) (\<lambda>row_opt.
    andthen (the_or (NotFoundError ''run_input_not_found'') row_opt) (\<lambda>row.
    ret (JObj [(''run_id'', JStr (ri_run_id row)), (''task_id'', JStr (ri_task_id row)),
       (''workspace_id'', jopt (ri_workspace_id row)), (''workspace_path'', jopt (ri_workspace_path row)),
       (''profile_id'', JStr (ri_profile_id row)), (''profile_version'', JInt (ri_profile_version row)),
       (''context_manifest_id'', jopt (ri_context_manifest_id row)),
       (''granted_tools'', ri_granted_tools_json row),
       (''permission_ceiling'', ri_permission_ceiling_json row),
       (''spec_hash'', JStr (ri_spec_hash row)), (''spec'', ri_spec_json row)])))))"

definition materialize_append_tx :: "env \<Rightarrow> AuthContext \<Rightarrow> string \<Rightarrow> dict \<Rightarrow> json tx" where
  "materialize_append_tx E auth run_id entry =
    andthen (the_run (JStr run_id)) (\<lambda>run.
    seq (assert_run_write_binding auth run [(''run_id'', JStr run_id)] False) (
    let ref = py_str (jor (dget entry ''authorized_ref'') (JStr [])) in
    let expected = py_str (jor (dget entry ''materialized_hash'')
       (jor (dget entry ''content_hash'') (JStr []))) in
    andthen (if starts_with ''artifact://'' ref then andthen (read_task_artifact_bytes E (ar_task_id run) ref) (\<lambda>r.
      ret (Some r))
        else if looks_like_relative_path ref then andthen (read_workspace_bytes E run ref None None) (\<lambda>r.
          ret (Some r))
        else ret None) (\<lambda>found.
    ret (case found of
        None \<Rightarrow> JObj [(''ok'', JBool False), (''error'', JStr ''unsupported_ref''),
          (''authorized_ref'', JStr ref)]
      | Some (content, digest) \<Rightarrow>
          if expected \<noteq> [] \<and> digest \<noteq> expected
          then JObj [(''ok'', JBool False), (''error'', JStr ''hash_mismatch''),
            (''authorized_ref'', JStr ref), (''expected_hash'', JStr expected),
            (''actual_hash'', JStr digest)]
          else JObj [(''ok'', JBool True), (''authorized_ref'', JStr ref),
            (''materialized_hash'', JStr digest), (''content'', JStr content)]))))"

subsection \<open>The frame\<close>

context service_frame
begin


lemma keeps_refuse_ref [frame_intro]:
  "keeps R m \<Longrightarrow> keeps R (refuse_ref m b)"
  unfolding refuse_ref_def
  by (intro keeps_struct; auto split: exn.split intro: keeps_struct)

lemma keeps_artifact_reads [frame_intro]:
  "keeps R (artifact_store_get E uri)"
  "keeps R (assert_workspace_accessible_by_run run wsid)"
  unfolding artifact_store_get_def assert_workspace_accessible_by_run_def
  by (intro keeps_struct frame_intro)+

lemma keeps_read_bytes [frame_intro]:
  "keeps R (read_task_artifact_bytes E task_id uri)"
  "keeps R (read_workspace_bytes E run path wsid mb)"
  unfolding read_task_artifact_bytes_def read_workspace_bytes_def
  by (intro keeps_struct frame_intro)+

lemma keeps_append_content [frame_intro]: "keeps R (append_content E payload run ref)"
  unfolding append_content_def by (intro keeps_struct frame_intro)

lemma keeps_artifacts [frame_intro]:
  "keeps R (publish_artifact E auth payload)"
  "keeps R (context_append E auth payload)"
  "keeps R (get_run_input_tx auth run_id)"
  "keeps R (materialize_append_tx E auth run_id entry)"
  unfolding publish_artifact_def context_append_def get_run_input_tx_def materialize_append_tx_def
  by (intro keeps_struct frame_intro; simp add: row_le_defs)+

end

subsection \<open>What the addresses and the reads guarantee\<close>

lemma artifact_prefix: "starts_with ''artifact://'' u \<longleftrightarrow> u = ''artifact://'' @ drop 11 u"
proof -
  have "length ''artifact://'' = 11" by simp
  then show ?thesis using starts_with_iff [of "''artifact://''" u] by (simp only:)
qed

lemma artifact_digest_inv: "artifact_digest uri = Inr d \<Longrightarrow> uri = ''artifact://'' @ d \<and> is_sha256_hex d"
  using artifact_prefix [of uri] by (auto simp: artifact_digest_def split: if_splits)

text \<open>
  Addresses and digests translate into each other without loss: a reference is read as the digest
  \<open>d\<close> exactly when storing the digest \<open>d\<close> gives that reference. In particular a stored reference is
  always readable, two digests never share one, and anything else is refused.
\<close>

theorem artifact_address_roundtrip:
  "artifact_digest uri = Inr d \<longleftrightarrow> store_put d = Inr uri"
proof -
  have "starts_with ''artifact://'' (''artifact://'' @ d)" by (simp add: starts_with_def)
  then show ?thesis unfolding artifact_digest_def store_put_def
    using artifact_prefix [of uri] by auto
qed

lemma readonly_artifact_reads [frame_intro]:
  "keeps (=) (artifact_store_get E uri)" "keeps (=) (assert_workspace_accessible_by_run run wsid)"
  "keeps (=) (the_run v)"
  unfolding artifact_store_get_def assert_workspace_accessible_by_run_def the_run_def
  by (intro readonly.keeps_struct frame_intro)+

lemma readonly_workspace_bytes [frame_intro]: "keeps (=) (read_workspace_bytes E run path wsid mb)"
  unfolding read_workspace_bytes_def by (intro readonly.keeps_struct frame_intro)

lemma read_workspace_bytes_hash:
  "fst (read_workspace_bytes E run path (Some wsid) mb s) = Inr (content, digest) \<Longrightarrow>
    ws_read E wsid path mb = Inr content \<and> digest = sha E content"
  by (auto simp: read_workspace_bytes_def andthen_def seq_def ensure_def lift_exn_def
      assert_workspace_accessible_by_run_def the_or_def
      split: prod.splits sum.splits if_splits option.splits exn.splits)

lemma artifact_read_hash:
  assumes "read_task_artifact_bytes E tid uri s = (Inr (content, digest), t)"
  shows "t = s \<and> sha E content = digest \<and> store_put digest = Inr uri
    \<and> (\<exists>row. t_get artifact_key (tid, digest) (artifacts s) = Some row \<and> af_artifact_uri row = Some uri)"
proof -
  from assms obtain row :: ArtifactRow where "artifact_digest uri = Inr digest" "t = s" "sha E content = digest"
      "t_get artifact_key (tid, digest) (artifacts s) = Some row"
      "af_artifact_uri row = Some (''artifact://'' @ digest)"
    unfolding read_task_artifact_bytes_def
    by (clarsimp simp: andthen_Inr_iff seq_Inr_iff readonly_iff [OF readonly_artifact_reads(1)] split: sum.split_asm)
  with artifact_digest_inv [of uri digest] show ?thesis by (simp add: store_put_def)
qed

text \<open>
  C17. Bytes are hashed before they are believed. If a read of a Task's artifact succeeds, the bytes
  hash to the digest of the reference, the reference is the content address of that digest, and the
  artifact is registered for this Task with that address; nothing is written.
\<close>

theorem artifact_read_verified:
  assumes "read_task_artifact_bytes E tid uri s = (Inr (content, digest), t)"
  shows "t = s \<and> sha E content = digest \<and> store_put digest = Inr uri
    \<and> (\<exists>row. t_get artifact_key (tid, digest) (artifacts s) = Some row \<and> af_artifact_uri row = Some uri)"
  by (rule artifact_read_hash [OF assms])

definition sample_digest :: string where
  "sample_digest = replicate 64 (CHR ''0'')"

text \<open>An environment with a file, a store that holds its content, and a digest.\<close>

definition sample_files :: env where
  "sample_files = sample_env\<lparr> sha := (\<lambda>_. sample_digest), store_get := Some (\<lambda>_. Some ''hello''),
     workspace_root := Some ''/w'', ws_dir := (\<lambda>_. True), ws_read := (\<lambda>_ _ _. Inr ''hello'') \<rparr>"

definition sample_artifact :: ArtifactRow where
  "sample_artifact = \<lparr> af_task_id = ''t'', af_artifact_hash = sample_digest, af_work_unit_id = Some ''w'',
     af_run_id = Some ''r'', af_result_ref = None, af_verdict = None,
     af_artifact_uri = Some (''artifact://'' @ sample_digest), af_size_bytes = Some 5, af_mime_type = None,
     af_source_path = Some ''a.txt'', af_created_at = 0 \<rparr>"

definition sample_input :: RunInputRow where
  "sample_input = \<lparr> ri_run_id = ''r'', ri_task_id = ''t'', ri_workspace_id = Some ''ws'', ri_workspace_path = None,
     ri_profile_id = ''local'', ri_profile_version = 1, ri_granted_tools_json = JList [],
     ri_permission_ceiling_json = JObj [], ri_context_manifest_id = None, ri_spec_json = JObj [],
     ri_spec_hash = ''h'', ri_created_at = 0 \<rparr>"

theorem artifact_read_verified_witness:
  "sha sample_files ''hello'' = sample_digest \<and> store_put sample_digest = Inr (''artifact://'' @ sample_digest)"
proof -
  let ?s = "(sample_running R_RUNNING)\<lparr> artifacts := t_of [sample_artifact] \<rparr>"
  let ?m = "read_task_artifact_bytes sample_files ''t'' (''artifact://'' @ sample_digest)"
  have "fst (?m ?s) = Inr (''hello'', sample_digest)" by code_simp
  from artifact_read_verified [OF run_result [where m = ?m, OF this]] show ?thesis by blast
qed

text \<open>
  What is published is what was read. If publishing succeeds then the Task was not frozen, the
  bytes came from the workspace of the Run itself, and the artifact of this Task under their digest
  carries their content address and their size; a digest the caller claimed is that digest.
\<close>

theorem publish_is_content_addressed:
  assumes run: "publish_artifact E auth payload s = (Inr r, t)" and clean: "clean s"
  shows "\<exists>row task content a wsid. runtime_bound auth row
    \<and> t_get tk_task_id (ar_task_id row) (tasks s) = Some task
    \<and> tk_state task \<notin> {WAITING_HUMAN, PAUSING, PAUSED, CANCELLING, ABORTED, COMPLETED, T_FAILED}
    \<and> map_option ri_workspace_id (t_get ri_run_id (ar_run_id row) (run_inputs s)) = Some (Some wsid)
    \<and> (\<exists>path. ws_read E wsid path None = Inr content)
    \<and> (jor (dget payload ''expected_hash'') (dget payload ''sha256'') = JNull
        \<or> py_str (jor (dget payload ''expected_hash'') (dget payload ''sha256'')) = sha E content)
    \<and> t_peek artifact_key (ar_task_id row, sha E content) (artifacts t) = Some a
    \<and> store_put (sha E content) = Inr (the (af_artifact_uri a)) \<and> af_size_bytes a = Some (int (length content))"
proof -
  from run obtain rid row task ri path content digest uri s1 p where
      rid: "fst (the_run rid s) = Inr row"
    and bound: "fst (assert_run_write_binding auth row payload True s) = Inr ()"
    and task: "t_get tk_task_id (ar_task_id row) (tasks s) = Some task"
      "tk_state task \<notin> {WAITING_HUMAN, PAUSING, PAUSED, CANCELLING, ABORTED, COMPLETED, T_FAILED}"
    and ri: "t_get ri_run_id (ar_run_id row) (run_inputs s) = Some ri" "is_set (ri_workspace_id ri)"
    and read: "fst (read_workspace_bytes E row path (ri_workspace_id ri) None s) = Inr (content, digest)"
    and claimed: "jor (dget payload ''expected_hash'') (dget payload ''sha256'') = JNull
        \<or> py_str (jor (dget payload ''expected_hash'') (dget payload ''sha256'')) = digest"
    and uri: "store_put digest = Inr uri"
    and s1: "only_if (t_get artifact_key (tk_task_id task, digest) (artifacts s) = None)
        (add_artifact \<lparr> af_task_id = tk_task_id task, af_artifact_hash = digest,
       af_work_unit_id = ar_work_unit_id row, af_run_id = Some (ar_run_id row),
       af_result_ref = None, af_verdict = None, af_artifact_uri = None, af_size_bytes = None,
       af_mime_type = None, af_source_path = None, af_created_at = clock_now s \<rparr>) s = (Inr (), s1)"
    and ev: "append_event (tk_task_id task) ''artifact.published'' (Some (actor_id auth)) p
        (s1\<lparr> artifacts := t_upd artifact_key (tk_task_id task, digest) (\<lambda>a. a\<lparr> af_artifact_uri := Some uri,
           af_size_bytes := Some (int (length content)), af_source_path := Some path \<rparr>) (artifacts s1) \<rparr>) = (Inr (), t)"
    unfolding publish_artifact_def
    by (clarsimp simp: andthen_Inr_iff seq_Inr_iff svc_get_task_Inr Let_def readonly_iff [OF readonly_binding]
       readonly_iff [OF readonly_artifact_reads(3)] readonly_iff [OF readonly_workspace_bytes])
  have id: "tk_task_id task = ar_task_id row" using t_get_in [OF task(1)] by simp
  obtain wsid where wsid: "ri_workspace_id ri = Some wsid" using ri(2) by (cases "ri_workspace_id ri") auto
  note bytes = read_workspace_bytes_hash [OF read [unfolded wsid]]
  have "runtime_bound auth row" using bound unfolding assert_run_write_binding_def
    by (auto simp: andthen_def seq_def ensure_def only_if_def split: prod.splits sum.splits if_splits)
  moreover have "\<exists>a. t_peek artifact_key (ar_task_id row, sha E content) (artifacts t) = Some a
      \<and> af_artifact_uri a = Some uri \<and> af_size_bytes a = Some (int (length content))"
  proof -
    have clean_art: "t_clean (artifacts s)" using clean by (simp add: clean_def)
    from s1 obtain a where s1': "t_peek artifact_key (ar_task_id row, digest) (artifacts s1) = Some a"
        "list_all (\<lambda>c. \<not> dropped c) (artifacts s1)"
    proof (cases "t_get artifact_key (ar_task_id row, digest) (artifacts s)")
      case None
      with s1 clean_art that show thesis by (auto simp: id t_peek_add t_peek_clean artifact_key_def t_kept)
    next
      case (Some a)
      with s1 clean_art that show thesis by (auto simp: id t_peek_clean t_kept)
    qed
    from append_event_Inr [OF ev] obtain e where "t = (flush_all (s1\<lparr> artifacts := t_upd artifact_key (tk_task_id task, digest)
        (\<lambda>a. a\<lparr> af_artifact_uri := Some uri, af_size_bytes := Some (int (length content)), af_source_path := Some path \<rparr>) (artifacts s1) \<rparr>))
        \<lparr> events := e \<rparr>" by (auto simp: flush_all_def)
    with s1' bytes show ?thesis by (simp add: id flush_all_def t_peek_flush t_upd_kept t_peek_upd artifact_key_def)
  qed
  ultimately show ?thesis using task ri(1) wsid bytes claimed uri by force
qed

theorem publish_is_content_addressed_witness:
  "\<exists>a. t_peek artifact_key (''t'', sample_digest) (artifacts (snd (publish_artifact sample_files (sample_runtime ''t'' ''r'')
      [(''run_id'', JStr ''r''), (''fencing_epoch'', JInt 1), (''path'', JStr ''a.txt'')]
      ((sample_running R_RUNNING)\<lparr> run_inputs := t_of [sample_input] \<rparr>)))) = Some a
    \<and> af_size_bytes a = Some 5"
proof -
  let ?s = "(sample_running R_RUNNING)\<lparr> run_inputs := t_of [sample_input] \<rparr>"
  let ?p = "[(''run_id'', JStr ''r''), (''fencing_epoch'', JInt 1), (''path'', JStr ''a.txt'')]"
  let ?m = "publish_artifact sample_files (sample_runtime ''t'' ''r'') ?p"
  have "case fst (?m ?s) of Inl e \<Rightarrow> False | Inr r \<Rightarrow> cr_ok r" by code_simp
  then obtain r where r: "fst (?m ?s) = Inr r" by (cases "fst (?m ?s)") simp_all
  have clean: "clean ?s"
    by (simp add: clean_def sample_running_def sample_db_def init_sess_def) (simp add: t_clean_def)
  from publish_is_content_addressed [OF run_result [where m = ?m, OF r] clean] obtain row :: AgentRunRow and content a
      and wsid path :: string where
      bound: "runtime_bound (sample_runtime ''t'' ''r'') row"
    and read: "ws_read sample_files wsid path None = Inr content"
    and a: "t_peek artifact_key (ar_task_id row, sha sample_files content) (artifacts (snd (?m ?s))) = Some a"
      "af_size_bytes a = Some (int (length content))" by blast
  have "ar_task_id row = ''t''" using bound by (simp add: runtime_bound_def sample_runtime_def)
  moreover have "content = ''hello''" "sha sample_files content = sample_digest" using read by (simp_all add: sample_files_def)
  ultimately show ?thesis using a by auto
qed

end
