(* ===== verification/Outbox.thy ===== *)
theory Outbox
  imports Control
begin

text \<open>
  The outbox (\<open>application/service.py\<close>): claiming a command, sending it to the agent or the
  external adapter outside the transaction, acknowledging it, failing it; draining the outbox;
  and \<open>reconcile\<close>, which runs at startup.
\<close>

record outbox_item =
  it_outbox_id :: string
  it_task_id :: string
  it_command_type :: string
  it_payload :: json

subsection \<open>Claiming\<close>

text \<open>\<open>try: guard(...) except PreconditionError\<close>: did the guard pass?\<close>

definition passes :: "unit tx \<Rightarrow> bool tx" where
  "passes m = handle (seq m (
    ret True))
     (\<lambda>e. case e of PreconditionError _ \<Rightarrow> ret False | _ \<Rightarrow> raise e)"

definition claimable_now :: "int \<Rightarrow> OutboxRow \<Rightarrow> bool" where
  "claimable_now ts ob \<longleftrightarrow> (case ob_leased_until ob of None \<Rightarrow> True | Some t \<Rightarrow> t \<le> ts)"

definition next_outbox_row :: "OutboxRow option tx" where
  "next_outbox_row =
    andthen now (\<lambda>ts.
    andthen (select_outbox (\<lambda>ob. ob_status ob = O_PENDING)) (\<lambda>found.
    let rows = sort_key ob_created_at found in
    ret (case rows of
            [] \<Rightarrow> None
          | row # _ \<Rightarrow> if claimable_now ts row then Some row else find (claimable_now ts) rows)))"

definition kill_row :: "string \<Rightarrow> unit tx" where
  "kill_row outbox_id = upd_outbox outbox_id (\<lambda>x. x\<lparr> ob_status := O_DEAD \<rparr>)"

text \<open>A start may go out: not revoked, and the Task is running.\<close>

definition start_live :: "OutboxRow \<Rightarrow> TaskRow \<Rightarrow> bool" where
  "start_live row task \<longleftrightarrow>
    \<not> (ob_revoke_epoch row < tk_revoke_epoch task) \<and> \<not> tk_cancel_intent task \<and> \<not> tk_pause_intent task
    \<and> tk_state task \<in> {PLANNING, EXECUTING, VERIFYING}"

text \<open>What becomes of an effect whose dispatch is refused before it was sent.\<close>

definition unclaim_effect :: "TaskRow \<Rightarrow> SideEffectRow \<Rightarrow> unit tx" where
  "unclaim_effect task effect =
    (let cancelling = tk_cancel_intent task \<or> tk_state task = CANCELLING in
     if se_state effect = E_DISPATCHING then
       upd_effect (se_effect_id effect)
         (\<lambda>e. e\<lparr> se_state := (if cancelling then E_CANCELLED else E_AUTHORIZED) \<rparr>)
     else if se_state effect = E_AUTHORIZED \<and> cancelling then
       upd_effect (se_effect_id effect) (\<lambda>e. e\<lparr> se_state := E_CANCELLED \<rparr>)
     else ret ())"

text \<open>The claim of an external dispatch; \<open>False\<close>: refused, and the command is dead.\<close>

definition claim_dispatch :: "OutboxRow \<Rightarrow> TaskRow \<Rightarrow> bool tx" where
  "claim_dispatch row task =
    andthen (by_key get_effect (jget (ob_payload_json row) ''effect_id'')) (\<lambda>effect_row.
    (case effect_row of
        None \<Rightarrow> seq (kill_row (ob_outbox_id row)) (
          ret False)
      | Some effect \<Rightarrow> andthen (passes (guard_side_effect_eligibility (tk_task_id task) (se_effect_id effect)
            [E_DISPATCHING, E_AUTHORIZED])) (\<lambda>ok.
        (if \<not> ok then seq (kill_row (ob_outbox_id row)) (
          seq (unclaim_effect task effect) (
          ret False))
           else if ob_revoke_epoch row < tk_revoke_epoch task then seq (kill_row (ob_outbox_id row)) (
             seq (only_if (se_state effect = E_DISPATCHING)
               (upd_effect (se_effect_id effect) (\<lambda>e. e\<lparr> se_state :=
                  (if tk_cancel_intent task then E_CANCELLED else E_AUTHORIZED) \<rparr>))) (
             ret False))
           else seq (only_if (se_state effect = E_AUTHORIZED)
               (upd_effect (se_effect_id effect) (\<lambda>e. e\<lparr> se_state := E_DISPATCHING \<rparr>))) (
             ret True)))))"

definition claim_one_outbox :: "outbox_item option tx" where
  "claim_one_outbox =
    andthen next_outbox_row (\<lambda>row_opt.
    (case row_opt of
        None \<Rightarrow> ret None
      | Some row \<Rightarrow> andthen (get_task (ob_task_id row)) (\<lambda>task_row.
        andthen (case task_row of
             None \<Rightarrow> ret True
           | Some task \<Rightarrow>
              (if ob_command_type row = ''agent.start'' then
                 (if start_live row task then ret True
                  else seq (kill_row (ob_outbox_id row)) (
                    ret False))
               else if ob_command_type row = ''side_effect.dispatch'' then claim_dispatch row task
               else ret True)) (\<lambda>ok.
        (if \<not> ok then ret None
           else andthen now (\<lambda>ts.
             seq (upd_outbox (ob_outbox_id row) (\<lambda>x. x\<lparr> ob_status := O_IN_FLIGHT,
               ob_leased_until := Some (ts + 30) \<rparr>)) (
             ret (Some \<lparr> it_outbox_id = ob_outbox_id row, it_task_id = ob_task_id row,
               it_command_type = ob_command_type row, it_payload = ob_payload_json row \<rparr>))))))))"

subsection \<open>Starts\<close>

definition start_send_allowed :: "env \<Rightarrow> outbox_item \<Rightarrow> bool tx" where
  "start_send_allowed E item =
    andthen (get_outbox (it_outbox_id item)) (\<lambda>row_opt.
    andthen (need (entries (it_payload item)) ''run_id'') (\<lambda>rid.
    andthen (by_key get_run rid) (\<lambda>run.
    (case row_opt of
        None \<Rightarrow> ret False
      | Some row \<Rightarrow> andthen (get_task (ob_task_id row)) (\<lambda>task_row.
        (if ob_status row \<noteq> O_IN_FLIGHT then ret False
           else andthen (case (run, task_row) of
                (Some r, Some task) \<Rightarrow>
                  (if run_active r \<and> ob_revoke_epoch row = tk_revoke_epoch task
                      \<and> \<not> tk_cancel_intent task \<and> \<not> tk_pause_intent task
                   then andthen (has_blocking_gate (tk_task_id task)) (\<lambda>gate.
                     ret (\<not> gate \<and> tk_state task \<in> {PLANNING, EXECUTING, VERIFYING})) else ret False)
              | _ \<Rightarrow> ret False) (\<lambda>live.
             (if live then ret True
              else andthen (fence_claimed_agent_start E (ob_outbox_id row) (map_option ar_run_id run)
                  ''start_send_revoked'') (\<lambda>note.
                ret False)))))))))"

text \<open>A start that was revoked meanwhile must not promote its Run.\<close>

definition start_revoked_meanwhile :: "OutboxRow option \<Rightarrow> AgentRunRow option \<Rightarrow> TaskRow option \<Rightarrow> bool tx" where
  "start_revoked_meanwhile row run task =
    (if (case row of None \<Rightarrow> True | Some ob \<Rightarrow> ob_status ob = O_DEAD) then ret True
     else andthen (case task of
          None \<Rightarrow> ret False
        | Some t \<Rightarrow>
           (if tk_cancel_intent t \<or> tk_pause_intent t
               \<or> tk_state t \<in> {WAITING_HUMAN, PAUSING, PAUSED, CANCELLING} then ret True
            else has_blocking_gate (tk_task_id t))) (\<lambda>frozen.
       ret (frozen \<or> (case run of None \<Rightarrow> False | Some r \<Rightarrow> ar_status r = R_CANCELLED))))"

definition ack_outbox_and_mark_running :: "env \<Rightarrow> string \<Rightarrow> json \<Rightarrow> unit tx" where
  "ack_outbox_and_mark_running E outbox_id payload =
    andthen (get_outbox outbox_id) (\<lambda>row.
    andthen (need (entries payload) ''run_id'') (\<lambda>rid.
    andthen (by_key get_run rid) (\<lambda>run.
    andthen (case run of None \<Rightarrow> ret None | Some r \<Rightarrow> get_task (ar_task_id r)) (\<lambda>task.
    andthen (start_revoked_meanwhile row run task) (\<lambda>revoked.
    andthen now (\<lambda>ts.
    (if revoked then seq (only_if (case row of None \<Rightarrow> False | Some ob \<Rightarrow> ob_status ob = O_IN_FLIGHT) (seq (kill_row outbox_id) (
        (case task of None \<Rightarrow> ret () | Some t \<Rightarrow>
             upd_outbox outbox_id (\<lambda>x. x\<lparr> ob_revoke_epoch := tk_revoke_epoch t \<rparr>))))) (
      (case (run, task) of
           (Some r, Some t) \<Rightarrow> seq (keep_start_occupancy (ar_run_id r)) (
             enqueue_stops_for_runs E (tk_task_id t) [ar_run_id r] ''start_ack_fenced'')
         | _ \<Rightarrow> ret ())) else seq (only_if (row \<noteq> None)
          (upd_outbox outbox_id (\<lambda>x. x\<lparr> ob_status := O_ACKED, ob_acked_at := Some ts \<rparr>))) (
           (case run of None \<Rightarrow> ret () | Some r \<Rightarrow>
           only_if (ar_status r = R_CREATED)
             (upd_run (ar_run_id r) (\<lambda>x. x\<lparr> ar_status := R_RUNNING, ar_started_at := Some ts \<rparr>)))))))))))"

subsection \<open>Stops\<close>

definition stop_confirmed :: "json \<Rightarrow> bool" where
  "stop_confirmed result \<longleftrightarrow>
    jget result ''start_revoked'' = JBool True \<and> jget result ''alive'' = JBool False
    \<and> jget result ''writer_alive'' = JBool False"

definition settle_stopped_workspace :: "bool \<Rightarrow> AgentRunRow \<Rightarrow> unit tx" where
  "settle_stopped_workspace stopped run = when_set (ar_workspace_id run) (\<lambda>wsid. andthen (get_workspace wsid) (\<lambda>ws.
    (case ws of None \<Rightarrow> ret () | Some w \<Rightarrow>
        only_if (ws_owner_run_id w = Some (ar_run_id run))
          (if \<not> stopped
           then upd_workspace wsid (\<lambda>x. x\<lparr> ws_state := QUARANTINED, ws_writer_alive := True \<rparr>)
           else seq (upd_workspace wsid (\<lambda>x. x\<lparr> ws_writer_alive := False \<rparr>)) (
             only_if (ws_state w \<noteq> QUARANTINED)
               (upd_workspace wsid (\<lambda>x. x\<lparr> ws_state := READY, ws_owner_run_id := None \<rparr>)))))))"

definition cancel_stopped_run :: "string \<Rightarrow> string \<Rightarrow> unit tx" where
  "cancel_stopped_run run_id reason =
    andthen now (\<lambda>ts.
    seq (upd_run run_id (\<lambda>r. r\<lparr> ar_status := R_CANCELLED, ar_finished_at := Some ts,
       ar_terminal_reason := Some (or_else (ar_terminal_reason r) reason) \<rparr>)) (
    clear_run_occupancy run_id True))"

text \<open>A work unit whose Run was stopped: blocked if it has a reason, pending again otherwise.\<close>

definition free_stopped_unit :: "bool \<Rightarrow> string \<Rightarrow> unit tx" where
  "free_stopped_unit was_running wid =
    andthen (get_wu wid) (\<lambda>wu.
    (case wu of None \<Rightarrow> ret () | Some w \<Rightarrow>
        only_if (wu_status w = W_RUNNING) (seq (if is_set (wu_blocked_reason w)
           then only_if was_running (upd_wu wid (\<lambda>x. x\<lparr> wu_status := W_BLOCKED \<rparr>))
           else upd_wu wid (\<lambda>x. x\<lparr> wu_status := W_PENDING \<rparr>)) (
          upd_wu wid (\<lambda>x. x\<lparr> wu_active_run_id := None \<rparr>)))))"

definition ack_stop :: "string \<Rightarrow> json \<Rightarrow> json \<Rightarrow> unit tx" where
  "ack_stop outbox_id payload result =
    andthen now (\<lambda>ts.
    andthen (get_outbox outbox_id) (\<lambda>row.
    seq (only_if (row \<noteq> None)
       (upd_outbox outbox_id (\<lambda>x. x\<lparr> ob_status := O_ACKED, ob_acked_at := Some ts \<rparr>))) (
    andthen (need (entries payload) ''run_id'') (\<lambda>rid.
    andthen (by_key get_run rid) (\<lambda>run_row.
    (case run_row of
        None \<Rightarrow> ret ()
      | Some run \<Rightarrow> (let stopped = stop_confirmed result in
        let reason = jget payload ''reason'' in
        seq (settle_stopped_workspace stopped run) (
        seq (only_if (stopped \<and> ar_status run = R_RUNNING) (seq (cancel_stopped_run (ar_run_id run) (py_str (jor reason (JStr ''stopped'')))) (
          when_set (ar_work_unit_id run) (free_stopped_unit True)))) (
        seq (only_if (stopped \<and> ar_status run = R_CREATED) (seq (cancel_stopped_run (ar_run_id run) (py_str (jor reason (JStr ''start_revoked'')))) (
          when_set (ar_work_unit_id run) (free_stopped_unit False)))) (
        only_if stopped (append_event (ar_task_id run) ''run.exit_confirmed'' None
            [(''run_id'', JStr (ar_run_id run)), (''start_revoked'', JBool True)])))))))))))"

subsection \<open>Failures and plain acknowledgements\<close>

definition ack_outbox :: "string \<Rightarrow> bool \<Rightarrow> unit tx" where
  "ack_outbox outbox_id dead =
    andthen now (\<lambda>ts.
    andthen (get_outbox outbox_id) (\<lambda>row.
    only_if (row \<noteq> None) (upd_outbox outbox_id (\<lambda>x. x\<lparr>
       ob_status := (if dead then O_DEAD else O_ACKED), ob_acked_at := Some ts \<rparr>))))"

definition fail_outbox :: "env \<Rightarrow> string \<Rightarrow> string \<Rightarrow> unit tx" where
  "fail_outbox E outbox_id error =
    andthen now (\<lambda>ts.
    andthen (get_outbox outbox_id) (\<lambda>row_opt.
    (case row_opt of
        None \<Rightarrow> ret ()
      | Some row \<Rightarrow>
         (if ob_command_type row = ''side_effect.dispatch'' then andthen (need (entries (ob_payload_json row)) ''effect_id'') (\<lambda>eid.
           andthen (by_key get_effect eid) (\<lambda>effect_row.
           seq (case effect_row of None \<Rightarrow> ret () | Some effect \<Rightarrow>
               only_if (se_state effect \<in> {E_DISPATCHING, E_AUTHORIZED}) (seq (upd_effect (se_effect_id effect) (\<lambda>e. e\<lparr> se_state := E_UNKNOWN,
                   se_last_error := Some error \<rparr>)) (
                 block_task (se_task_id effect) WR_EXECUTION_UNCERTAIN))) (
           upd_outbox outbox_id (\<lambda>x. x\<lparr> ob_status := O_ACKED, ob_acked_at := Some ts \<rparr>))))
          else if ob_status row = O_DEAD then ret ()
          else if ob_command_type row = ''agent.start'' then andthen (fence_uncertain_start E outbox_id ''start_dispatch_failed'') (\<lambda>note.
            ret ())
          else upd_outbox outbox_id (\<lambda>x. x\<lparr> ob_status := O_PENDING,
            ob_leased_until := Some (ts + hd (retry_backoff_seconds DEFAULTS)) \<rparr>)))))"

subsection \<open>External dispatch\<close>

definition dispatch_precheck :: "outbox_item \<Rightarrow> bool tx" where
  "dispatch_precheck item =
    andthen (get_outbox (it_outbox_id item)) (\<lambda>row_opt.
    andthen (need (entries (it_payload item)) ''effect_id'') (\<lambda>eid.
    andthen (by_key get_effect eid) (\<lambda>effect_row.
    andthen (get_opt get_task (Some (it_task_id item))) (\<lambda>own_task.
    (case (row_opt, effect_row) of
        (Some row, Some effect) \<Rightarrow> andthen (case own_task of Some t \<Rightarrow> ret (Some t) | None \<Rightarrow> get_task (se_task_id effect)) (\<lambda>task_opt.
          (case task_opt of
             None \<Rightarrow> seq (kill_row (ob_outbox_id row)) (
               ret False)
           | Some task \<Rightarrow>
              (if ob_status row = O_DEAD then seq (kill_row (ob_outbox_id row)) (
                ret False)
               else andthen (passes (guard_side_effect_eligibility (tk_task_id task) (se_effect_id effect)
                   [E_DISPATCHING])) (\<lambda>ok.
                 (if ok then ret True
                  else seq (kill_row (ob_outbox_id row)) (
                    seq (only_if (se_state effect = E_DISPATCHING)
                      (upd_effect (se_effect_id effect) (\<lambda>e. e\<lparr> se_state :=
                         (if tk_cancel_intent task \<or> tk_state task = CANCELLING then E_CANCELLED
                          else E_AUTHORIZED) \<rparr>))) (
                    ret False)))))))
      | _ \<Rightarrow> ret False)))))"

definition apply_receipt :: "outbox_item \<Rightarrow> json \<Rightarrow> unit tx" where
  "apply_receipt item receipt =
    andthen now (\<lambda>ts.
    andthen (need (entries (it_payload item)) ''effect_id'') (\<lambda>eid.
    andthen (by_key get_effect eid) (\<lambda>effect_row.
    andthen (get_outbox (it_outbox_id item)) (\<lambda>row.
    seq (only_if (row \<noteq> None)
       (upd_outbox (it_outbox_id item) (\<lambda>x. x\<lparr> ob_status := O_ACKED, ob_acked_at := Some ts \<rparr>))) (
    (case effect_row of
        None \<Rightarrow> ret ()
      | Some effect \<Rightarrow>
         (if jget receipt ''status'' = JStr ''succeeded'' then
            upd_effect (se_effect_id effect) (\<lambda>e. e\<lparr> se_state := E_SUCCEEDED,
              se_receipt_json := Some receipt,
              se_provider_operation_id := opt_str (jget receipt ''provider_operation_id'') \<rparr>)
          else if jget receipt ''status'' = JStr ''failed'' then
            upd_effect (se_effect_id effect) (\<lambda>e. e\<lparr> se_state := E_FAILED_CONFIRMED,
              se_last_error := opt_str (jget receipt ''error'') \<rparr>)
          else seq (upd_effect (se_effect_id effect) (\<lambda>e. e\<lparr> se_state := E_UNKNOWN \<rparr>)) (
            block_task (se_task_id effect) WR_EXECUTION_UNCERTAIN))))))))"

definition external_request :: "json \<Rightarrow> json tx" where
  "external_request payload =
    andthen (need (entries payload) ''effect_id'') (\<lambda>eid.
    andthen (need (entries payload) ''external_idempotency_key'') (\<lambda>key.
    ret (JObj [(''effect_id'', eid), (''external_idempotency_key'', key),
       (''parameters'', jget payload ''parameters''), (''target_ref'', jget payload ''target_ref''),
       (''action_type'', jget payload ''action_type'')])))"

text \<open>Outside the transaction: pre-check, send, record the receipt; a failure makes it UNKNOWN.\<close>

definition do_external_dispatch :: "env \<Rightarrow> outbox_item \<Rightarrow> unit tx" where
  "do_external_dispatch E item =
    andthen (run_tx (dispatch_precheck item)) (\<lambda>allowed.
    (if \<not> allowed then ret ()
      else andthen (handle (andthen (external_request (it_payload item)) (\<lambda>request.
          andthen (lift_exn (ext_dispatch E request)) (\<lambda>receipt.
          ret (Some receipt)))) (\<lambda>e. seq (run_tx (fail_outbox E (it_outbox_id item) (error_code e))) (
            ret None))) (\<lambda>sent.
        (case sent of None \<Rightarrow> ret () | Some receipt \<Rightarrow> run_tx (apply_receipt item receipt)))))"

subsection \<open>Sending one command\<close>

definition send_start :: "env \<Rightarrow> outbox_item \<Rightarrow> unit tx" where
  "send_start E item =
    andthen (run_tx (start_send_allowed E item)) (\<lambda>allowed.
    (if \<not> allowed then ret ()
      else andthen (lift_exn (agent_start E (it_payload item))) (\<lambda>result.
        (if truthy (jget result ''start_revoked'') then run_tx (ack_outbox (it_outbox_id item) True)
         else run_tx (ack_outbox_and_mark_running E (it_outbox_id item) (it_payload item))))))"

definition send_stop :: "env \<Rightarrow> outbox_item \<Rightarrow> unit tx" where
  "send_stop E item =
    andthen (need (entries (it_payload item)) ''run_id'') (\<lambda>rid.
    andthen (lift_exn (agent_stop E (py_str rid)
       (py_str (jor (jget (it_payload item) ''reason'') (JStr ''stop''))))) (\<lambda>result.
    run_tx (ack_stop (it_outbox_id item) (it_payload item) result)))"

definition dispatch_outbox_item :: "env \<Rightarrow> outbox_item \<Rightarrow> unit tx" where
  "dispatch_outbox_item E item =
     handle
       (if it_command_type item = ''agent.start'' then send_start E item
        else if it_command_type item = ''agent.stop'' then send_stop E item
        else if it_command_type item = ''side_effect.dispatch'' then do_external_dispatch E item
        else run_tx (ack_outbox (it_outbox_id item) True))
       (\<lambda>e. run_tx (fail_outbox E (it_outbox_id item) (error_code e)))"

text \<open>
  \<open>drain_outbox\<close>: the loop, with fuel. It counts the commands it processed; \<open>None\<close> is a loop
  that the fuel did not finish.
\<close>

fun drain_outbox :: "nat \<Rightarrow> env \<Rightarrow> int \<Rightarrow> int option tx" where
  "drain_outbox 0 E processed = ret None"
| "drain_outbox (Suc n) E processed =
  andthen (run_tx claim_one_outbox) (\<lambda>item.
  (case item of
        None \<Rightarrow> ret (Some processed)
      | Some i \<Rightarrow> seq (dispatch_outbox_item E i) (
        drain_outbox n E (processed + 1))))"

subsection \<open>Startup reconciliation\<close>

definition sandbox_container_alive :: "env \<Rightarrow> AgentRunRow \<Rightarrow> bool" where
  "sandbox_container_alive E run =
    (if ar_sandbox_exit_unconfirmed run then True
     else case ar_sandbox_container_id run of
       None \<Rightarrow> False
     | Some c \<Rightarrow> c \<noteq> [] \<and> container_running E c)"

definition reconcile_outbox_row :: "env \<Rightarrow> string list \<Rightarrow> OutboxRow \<Rightarrow> string list tx" where
  "reconcile_outbox_row E notes row =
    andthen now (\<lambda>ts.
    (if (case ob_leased_until row of None \<Rightarrow> False | Some t \<Rightarrow> t > ts) then ret notes
      else if ob_command_type row = ''side_effect.dispatch'' then andthen (by_key get_effect (jget (ob_payload_json row) ''effect_id'')) (\<lambda>effect_row.
        seq (case effect_row of None \<Rightarrow> ret () | Some effect \<Rightarrow>
           only_if (se_state effect \<in> {E_DISPATCHING, E_UNKNOWN}) (seq (upd_effect (se_effect_id effect) (\<lambda>e. e\<lparr> se_state := E_UNKNOWN,
               se_last_error := Some (or_else (se_last_error e) ''outbox_inflight_timeout'') \<rparr>)) (
             block_task (se_task_id effect) WR_EXECUTION_UNCERTAIN))) (
        seq (upd_outbox (ob_outbox_id row) (\<lambda>x. x\<lparr> ob_status := O_ACKED, ob_acked_at := Some ts \<rparr>)) (
        ret (notes @ [''outbox_unknown:'' @ ob_outbox_id row]))))
      else if ob_command_type row = ''agent.start'' then andthen (fence_uncertain_start E (ob_outbox_id row) ''outbox_inflight_timeout'') (\<lambda>note.
        ret (notes @ [note]))
      else seq (upd_outbox (ob_outbox_id row) (\<lambda>x. x\<lparr> ob_status := O_PENDING, ob_leased_until := None \<rparr>)) (
        ret (notes @ [''outbox_reclaim:'' @ ob_outbox_id row]))))"

text \<open>A Run whose sandbox may still be running keeps its workspace, quarantined.\<close>

definition quarantine_run :: "bool \<Rightarrow> string \<Rightarrow> AgentRunRow \<Rightarrow> string list \<Rightarrow> string list tx" where
  "quarantine_run mark_writer label run notes =
    (if \<not> is_set (ar_workspace_id run) then ret notes
     else andthen (get_workspace (or_else (ar_workspace_id run) [])) (\<lambda>ws.
       (case ws of
          None \<Rightarrow> ret notes
        | Some w \<Rightarrow> seq (upd_workspace (ws_workspace_id w) (\<lambda>x. x\<lparr> ws_state := QUARANTINED,
              ws_writer_alive := (mark_writer \<or> ws_writer_alive x) \<rparr>)) (
          ret (notes @ [label @ ws_workspace_id w])))))"

definition lose_run :: "string \<Rightarrow> string \<Rightarrow> unit tx" where
  "lose_run task_id run_id =
    andthen now (\<lambda>ts.
    seq (upd_run run_id (\<lambda>r. r\<lparr> ar_status := R_LOST, ar_terminal_reason := Some ''process_missing'',
       ar_finished_at := Some ts \<rparr>)) (
    seq (clear_run_occupancy run_id True) (
    seq (recover_work_unit_after_lost_run run_id) (
    append_event task_id ''run.lost'' None [(''run_id'', JStr run_id)]))))"

definition reconcile_run :: "env \<Rightarrow> string \<Rightarrow> string list \<Rightarrow> AgentRunRow \<Rightarrow> string list tx" where
  "reconcile_run E task_id notes run =
    andthen now (\<lambda>ts.
    (if ar_sandbox_exit_unconfirmed run \<or> sandbox_container_alive E run
      then quarantine_run True ''quarantine_unconfirmed:'' run notes
      else if ar_status run = R_RUNNING \<and> \<not> agent_alive E (ar_run_id run) then seq (lose_run task_id (ar_run_id run)) (
        ret (notes @ [''lost:'' @ ar_run_id run]))
      else if ar_status run = R_RUNNING
          \<and> (case ar_lease_expires_at run of None \<Rightarrow> False | Some t \<Rightarrow> t < ts)
      then quarantine_run False ''quarantine:'' run notes
      else ret notes))"

definition reconcile_task :: "env \<Rightarrow> string list \<Rightarrow> TaskRow \<Rightarrow> string list tx" where
  "reconcile_task E notes task =
    (if tk_state task \<in> {PAUSED, WAITING_HUMAN, CANCELLING}
     then ret (notes @ [''keep:'' @ tk_task_id task @ '':'' @ task_state_str (tk_state task)])
     else andthen (select_run (\<lambda>r. ar_task_id r = tk_task_id task \<and> run_active r)) (\<lambda>rows.
       accumulate rows notes (reconcile_run E (tk_task_id task))))"

definition reconcile_tx :: "env \<Rightarrow> string list tx" where
  "reconcile_tx E =
    andthen (select_outbox (\<lambda>ob. ob_status ob = O_IN_FLIGHT)) (\<lambda>inflight.
    andthen (accumulate inflight [] (reconcile_outbox_row E)) (\<lambda>notes.
    andthen (select_task (\<lambda>t. True)) (\<lambda>all_tasks.
    accumulate (map tk_task_id all_tasks) notes (\<lambda>ns tid. andthen (peek_task tid) (\<lambda>task.
      reconcile_task E ns task)))))"

definition reconcile :: "env \<Rightarrow> string list tx" where
  "reconcile E = run_tx (reconcile_tx E)"

subsection \<open>The frame\<close>

text \<open>
  Outside the handlers, transactions themselves are steps: a frame must also be kept by
  committing or rolling back.
\<close>

locale tx_frame = service_frame R for R +
  assumes call_rollback: "R s (rollback s s')"
    and call_crash_flags: "R s (s\<lparr> crash_before_commit := c \<rparr>)" "R s (s\<lparr> crash_after_commit := c \<rparr>)"
begin

lemma call_run_tx:
  assumes "keeps R m"
  shows "keeps R (run_tx m)"
  unfolding keeps_def
proof
  fix s
  obtain r s' where m: "m s = (r, s')" by (cases "m s")
  with assms have "R s s'" by (metis keeps_def snd_conv)
  moreover have "R s' (snd (flush s'))" using call_flush by (simp add: keeps_def)
  ultimately have "constraints_ok s' \<Longrightarrow> R s (flush_all s')" by (auto simp: flush_def intro: R_trans)
  with m show "R s (snd (run_tx m s))"
    by (auto simp: run_tx_def flush_def split: sum.splits
        intro: call_rollback call_crash_flags R_trans)
qed

lemma keeps_passes [frame_intro]: "keeps R m \<Longrightarrow> keeps R (passes m)"
  unfolding passes_def
  by (intro keeps_struct; auto split: exn.split intro: keeps_struct)

lemma keeps_claim_steps [frame_intro]:
  "keeps R next_outbox_row"
  "keeps R (kill_row oid)"
  "keeps R (unclaim_effect task effect)"
  unfolding next_outbox_row_def kill_row_def unclaim_effect_def
  by (intro keeps_struct frame_intro; simp add: row_le_defs)+

lemma keeps_claim_dispatch [frame_intro]: "keeps R (claim_dispatch row task)"
  unfolding claim_dispatch_def by (intro keeps_struct frame_intro; simp add: row_le_defs)

lemma keeps_claim_one_outbox [frame_intro]: "keeps R claim_one_outbox"
  unfolding claim_one_outbox_def by (intro keeps_struct frame_intro)

lemma keeps_acks [frame_intro]:
  "keeps R (start_send_allowed E item)"
  "keeps R (start_revoked_meanwhile row run task)"
  "keeps R (settle_stopped_workspace stopped r)"
  "keeps R (cancel_stopped_run rid reason)"
  "keeps R (free_stopped_unit b wid)"
  "keeps R (ack_outbox oid dead)"
  "keeps R (fail_outbox E oid err)"
  "keeps R (dispatch_precheck item)"
  "keeps R (apply_receipt item receipt)"
  "keeps R (external_request j)"
  unfolding start_send_allowed_def start_revoked_meanwhile_def settle_stopped_workspace_def
    cancel_stopped_run_def free_stopped_unit_def ack_outbox_def fail_outbox_def dispatch_precheck_def
    apply_receipt_def external_request_def
  by (intro keeps_struct frame_intro; simp add: row_le_defs)+

lemma keeps_ack_stop [frame_intro]:
  "keeps R (ack_stop oid payload result)"
  "keeps R (ack_outbox_and_mark_running E oid payload)"
  unfolding ack_stop_def ack_outbox_and_mark_running_def
  by (intro keeps_struct frame_intro; simp add: row_le_defs)+

declare call_run_tx [frame_intro]

lemma keeps_sends [frame_intro]:
  "keeps R (do_external_dispatch E item)"
  "keeps R (send_start E item)"
  "keeps R (send_stop E item)"
  unfolding do_external_dispatch_def send_start_def send_stop_def
  by (intro keeps_struct frame_intro)+

lemma keeps_dispatch_outbox_item [frame_intro]: "keeps R (dispatch_outbox_item E item)"
  unfolding dispatch_outbox_item_def by (intro keeps_struct frame_intro)

lemma keeps_drain_outbox [frame_intro]: "keeps R (drain_outbox n E processed)"
proof (induction n arbitrary: processed)
  case (Suc n)
  show ?case unfolding drain_outbox.simps by (intro keeps_struct frame_intro Suc.IH)
qed (simp only: drain_outbox.simps keeps_struct)

lemma keeps_reconcile_steps [frame_intro]:
  "keeps R (reconcile_outbox_row E notes row)"
  "keeps R (quarantine_run b label run notes)"
  "keeps R (lose_run task_id rid)"
  unfolding reconcile_outbox_row_def quarantine_run_def lose_run_def
  by (intro keeps_struct frame_intro; simp add: row_le_defs)+

lemma keeps_reconcile_run [frame_intro]:
  "keeps R (reconcile_run E task_id notes run)"
  unfolding reconcile_run_def by (intro keeps_struct frame_intro)

lemma keeps_reconcile [frame_intro]:
  "keeps R (reconcile_task E notes task)"
  "keeps R (reconcile_tx E)"
  "keeps R (reconcile E)"
  unfolding reconcile_def reconcile_tx_def reconcile_task_def
  by (intro keeps_struct frame_intro)+

end

interpretation history: tx_frame history_le
  by unfold_locales (simp_all add: history_le_refl rollback_def)

subsection \<open>What the outbox guarantees\<close>

lemma readonly_next_outbox_row [frame_intro]: "keeps (=) next_outbox_row"
  unfolding next_outbox_row_def Let_def by (intro readonly.keeps_struct frame_intro)

lemma next_outbox_row_Some:
  assumes "fst (next_outbox_row s) = Inr (Some row)"
  shows "row \<in> set (t_select (\<lambda>ob. ob_status ob = O_PENDING) (outbox s)) \<and> claimable_now (clock_now s) row"
proof -
  let ?rows = "sort_key ob_created_at (t_select (\<lambda>ob. ob_status ob = O_PENDING) (outbox s))"
  have pick: "x \<in> set rs \<and> P x" if "(case rs of [] \<Rightarrow> None | r # _ \<Rightarrow> if P r then Some r else find P rs) = Some x"
    for rs :: "OutboxRow list" and P x
    using that by (cases rs) (auto split: if_splits dest: find_sat)
  have "(case ?rows of [] \<Rightarrow> None | r # _ \<Rightarrow> if claimable_now (clock_now s) r then Some r
      else find (claimable_now (clock_now s)) ?rows) = Some row"
    using assms by (simp add: next_outbox_row_def andthen_def Let_def)
  from pick [OF this] show ?thesis by simp
qed

lemma flushed_passes: "keeps flushed m \<Longrightarrow> keeps flushed (passes m)"
  unfolding passes_def
  by (intro flushes.keeps_struct; auto split: exn.split intro: flushes.keeps_struct)

lemma claim_dispatch_same:
  assumes run: "claim_dispatch row task s = (Inr True, t)" and clean: "clean s"
  shows "outbox t = outbox s \<and> clock_now t = clock_now s"
proof -
  let ?row = "by_key get_effect (jget (ob_payload_json row) ''effect_id'')"
  have "keeps (=) ?row" by (intro frame_intro)
  note read = readonly_iff [OF this]
  from run obtain effect where effect: "fst (?row s) = Inr (Some effect)"
    by (cases "fst (?row s)") (auto simp: claim_dispatch_def andthen_Inr_iff seq_Inr_iff read split: option.splits)
  let ?guard = "passes (guard_side_effect_eligibility (tk_task_id task) (se_effect_id effect) [E_DISPATCHING, E_AUTHORIZED])"
  from run effect obtain ok s1 where s1: "?guard s = (Inr ok, s1)"
    by (auto simp: claim_dispatch_def andthen_Inr_iff read)
  then have "s1 = s"
    using flushed_cleanD [OF flushes.keepsD [OF flushed_passes [OF flushed_gates(2)]] clean] by blast
  with run effect s1 show ?thesis
    by (auto simp: claim_dispatch_def andthen_Inr_iff seq_Inr_iff read only_if_def split: if_splits)
qed

lemma claim_one_outbox_Some:
  assumes run: "claim_one_outbox s = (Inr (Some item), t)" and clean: "clean s"
  shows "\<exists>row. row \<in> set (t_rows (outbox s)) \<and> ob_status row = O_PENDING \<and> claimable_now (clock_now s) row
    \<and> it_outbox_id item = ob_outbox_id row \<and> it_command_type item = ob_command_type row
    \<and> it_payload item = ob_payload_json row
    \<and> (ob_command_type row = ''agent.start'' \<longrightarrow>
         (case t_get tk_task_id (ob_task_id row) (tasks s) of None \<Rightarrow> True | Some task \<Rightarrow> start_live row task))
    \<and> outbox t = t_upd ob_outbox_id (ob_outbox_id row)
         (\<lambda>x. x\<lparr> ob_status := O_IN_FLIGHT, ob_leased_until := Some (clock_now s + 30) \<rparr>) (outbox s)
    \<and> clock_now t = clock_now s"
proof -
  obtain row where row: "fst (next_outbox_row s) = Inr (Some row)"
  proof (cases "fst (next_outbox_row s)")
    case (Inr found)
    with run that show thesis
      by (cases found) (auto simp: claim_one_outbox_def andthen_Inr_iff readonly_iff [OF readonly_next_outbox_row])
  qed (use run in \<open>auto simp: claim_one_outbox_def andthen_Inr_iff readonly_iff [OF readonly_next_outbox_row]\<close>)
  then have "next_outbox_row s = (Inr (Some row), s)"
    using readonly_iff [OF readonly_next_outbox_row] by blast
  with run obtain ok s1 where s1: "(case t_get tk_task_id (ob_task_id row) (tasks s) of
             None \<Rightarrow> ret True
           | Some task \<Rightarrow>
              (if ob_command_type row = ''agent.start'' then
                 (if start_live row task then ret True
                  else seq (kill_row (ob_outbox_id row)) (
                    ret False))
               else if ob_command_type row = ''side_effect.dispatch'' then claim_dispatch row task
               else ret True)) s = (Inr ok, s1)"
    and rest: "(if \<not> ok then ret None else andthen now (\<lambda>ts.
      seq (upd_outbox (ob_outbox_id row) (\<lambda>x. x\<lparr> ob_status := O_IN_FLIGHT, ob_leased_until := Some (ts + 30) \<rparr>)) (
      ret (Some \<lparr> it_outbox_id = ob_outbox_id row, it_task_id = ob_task_id row,
               it_command_type = ob_command_type row, it_payload = ob_payload_json row \<rparr>)))) s1 = (Inr (Some item), t)"
    unfolding claim_one_outbox_def by (simp add: get_task_def) (auto simp only: andthen_Inr_iff)
  then have t: "t = s1\<lparr> outbox := t_upd ob_outbox_id (ob_outbox_id row) (\<lambda>x. x\<lparr> ob_status := O_IN_FLIGHT,
        ob_leased_until := Some (clock_now s1 + 30) \<rparr>) (outbox s1) \<rparr>"
    and item: "item = \<lparr> it_outbox_id = ob_outbox_id row, it_task_id = ob_task_id row,
        it_command_type = ob_command_type row, it_payload = ob_payload_json row \<rparr>" and ok: ok
    by (auto split: if_splits)
  have same: "outbox s1 = outbox s \<and> clock_now s1 = clock_now s"
    using s1 ok claim_dispatch_same [OF _ clean]
    by (auto simp: seq_Inr_iff kill_row_def split: option.splits if_splits)
  from next_outbox_row_Some [OF row] have pending: "row \<in> set (t_rows (outbox s))" "ob_status row = O_PENDING"
      "claimable_now (clock_now s) row"
    using clean by (auto simp: t_select_clean clean_def)
  have live: "ob_command_type row = ''agent.start'' \<longrightarrow> (case t_get tk_task_id (ob_task_id row) (tasks s) of
      None \<Rightarrow> True | Some task \<Rightarrow> start_live row task)"
    using s1 ok by (auto simp: andthen_def seq_def kill_row_def split: option.splits if_splits)
  show ?thesis using pending live same t item by (intro exI [of _ row]) simp
qed

text \<open>
  Only a live start is claimed. If the drain claims a command, that command was PENDING and its
  lease had run out; if it starts a Run, the Task it belongs to is in PLANNING, EXECUTING or VERIFYING,
  neither cancelling nor pausing, and the command was not revoked (its epoch is not older than the
  Task's). The claimed row is IN_FLIGHT with a lease of thirty seconds.
\<close>

theorem claimed_start_is_live:
  assumes run: "claim_one_outbox s = (Inr (Some item), t)" and clean: "clean s"
  shows "\<exists>row. row \<in> set (t_rows (outbox s)) \<and> ob_status row = O_PENDING \<and> claimable_now (clock_now s) row
    \<and> it_outbox_id item = ob_outbox_id row \<and> it_command_type item = ob_command_type row
    \<and> it_payload item = ob_payload_json row
    \<and> (ob_command_type row = ''agent.start'' \<longrightarrow>
         (case t_get tk_task_id (ob_task_id row) (tasks s) of None \<Rightarrow> True
          | Some task \<Rightarrow> tk_revoke_epoch task \<le> ob_revoke_epoch row
              \<and> \<not> tk_cancel_intent task \<and> \<not> tk_pause_intent task \<and> tk_state task \<in> {PLANNING, EXECUTING, VERIFYING}))
    \<and> outbox t = t_upd ob_outbox_id (ob_outbox_id row)
         (\<lambda>x. x\<lparr> ob_status := O_IN_FLIGHT, ob_leased_until := Some (clock_now s + 30) \<rparr>) (outbox s)"
  using claim_one_outbox_Some [OF run clean] unfolding start_live_def not_less by blast

definition sample_start :: "TaskState \<Rightarrow> sess" where
  "sample_start st = (sample_running R_CREATED)\<lparr> tasks := t_of [sample_task st],
     outbox := t_of [sample_outbox ''agent.start'' [(''run_id'', JStr ''r'')] O_PENDING] \<rparr>"

lemma clean_sample_start: "clean (sample_start st)"
  by (simp add: clean_def sample_start_def sample_running_def sample_db_def init_sess_def) (simp add: t_clean_def)

theorem claimed_start_is_live_witness:
  "start_live (sample_outbox ''agent.start'' [(''run_id'', JStr ''r'')] O_PENDING) (sample_task EXECUTING)
    \<and> map ob_status (t_rows (outbox (snd (claim_one_outbox (sample_start EXECUTING))))) = [O_IN_FLIGHT]"
proof -
  let ?s = "sample_start EXECUTING"
  have "case fst (claim_one_outbox ?s) of Inl e \<Rightarrow> False | Inr x \<Rightarrow> x \<noteq> None" by code_simp
  then obtain item where "fst (claim_one_outbox ?s) = Inr (Some item)"
    by (cases "fst (claim_one_outbox ?s)") auto
  from claimed_start_is_live [OF run_result [where m = claim_one_outbox, OF this] clean_sample_start]
  obtain row where row: "row \<in> set (t_rows (outbox ?s))"
    and live: "ob_command_type row = ''agent.start'' \<longrightarrow> (case t_get tk_task_id (ob_task_id row) (tasks ?s) of
        None \<Rightarrow> True | Some task \<Rightarrow> start_live row task)" unfolding start_live_def not_less by blast
  have "t_rows (outbox ?s) = [sample_outbox ''agent.start'' [(''run_id'', JStr ''r'')] O_PENDING]"
    by (simp add: sample_start_def)
  with row have r: "row = sample_outbox ''agent.start'' [(''run_id'', JStr ''r'')] O_PENDING" by simp
  have "t_get tk_task_id ''t'' (tasks ?s) = Some (sample_task EXECUTING)" by code_simp
  with live have "start_live (sample_outbox ''agent.start'' [(''run_id'', JStr ''r'')] O_PENDING) (sample_task EXECUTING)"
    by (simp add: r sample_outbox_def)
  moreover have "map ob_status (t_rows (outbox (snd (claim_one_outbox ?s)))) = [O_IN_FLIGHT]" by code_simp
  ultimately show ?thesis by blast
qed

text \<open>
  One revoked start stops the drain. When the row the drain would claim is a start whose Task is
  no longer live, the claim marks it DEAD and answers None, which the loop reads as an empty outbox:
  the drain ends there, whatever other commands are ready to be sent.
\<close>

theorem revoked_start_stops_drain:
  assumes row: "fst (next_outbox_row s) = Inr (Some row)" "ob_command_type row = ''agent.start''"
    and task: "t_get tk_task_id (ob_task_id row) (tasks s) = Some task" "\<not> start_live row task"
    and ok: "constraints_ok s" "\<not> crash_before_commit s" "\<not> crash_after_commit s"
  shows "fst (drain_outbox (Suc n) E processed s) = Inr (Some processed)"
proof -
  have "next_outbox_row s = (Inr (Some row), s)"
    using row(1) readonly_iff [OF readonly_next_outbox_row] by blast
  then have "claim_one_outbox s = (Inr None, s\<lparr> outbox := t_upd ob_outbox_id (ob_outbox_id row)
      (\<lambda>x. x\<lparr> ob_status := O_DEAD \<rparr>) (outbox s) \<rparr>)"
    using row(2) task by (simp add: claim_one_outbox_def kill_row_def)
  moreover have "constraints_ok (s\<lparr> outbox := t_upd ob_outbox_id (ob_outbox_id row)
      (\<lambda>x. x\<lparr> ob_status := O_DEAD \<rparr>) (outbox s) \<rparr>)"
    using ok(1) by (simp add: constraints_ok_def t_keys_upd)
  ultimately have "fst (run_tx claim_one_outbox s) = Inr None"
    using ok by (simp add: run_tx_def flush_def)
  from run_result [where m = "run_tx claim_one_outbox", OF this] show ?thesis by simp
qed

theorem revoked_start_stops_drain_witness:
  "fst (drain_outbox (Suc 4) sample_env 0 (sample_start PAUSED)) = Inr (Some 0)"
proof -
  let ?s = "sample_start PAUSED"
  have row: "fst (next_outbox_row ?s) = Inr (Some (sample_outbox ''agent.start'' [(''run_id'', JStr ''r'')] O_PENDING))"
    by code_simp
  have task: "t_get tk_task_id (ob_task_id (sample_outbox ''agent.start'' [(''run_id'', JStr ''r'')] O_PENDING)) (tasks ?s)
      = Some (sample_task PAUSED)" by code_simp
  have dead: "\<not> start_live (sample_outbox ''agent.start'' [(''run_id'', JStr ''r'')] O_PENDING) (sample_task PAUSED)"
    by code_simp
  have ok: "constraints_ok ?s" "\<not> crash_before_commit ?s" "\<not> crash_after_commit ?s" by code_simp+
  have "ob_command_type (sample_outbox ''agent.start'' [(''run_id'', JStr ''r'')] O_PENDING) = ''agent.start''"
    by (simp add: sample_outbox_def)
  from revoked_start_stops_drain [OF row this task dead ok] show ?thesis .
qed



lemma unconfirmed_ack_stop:
  assumes run: "ack_stop oid payload result s = (Inr (), t)" and clean: "clean s"
    and unconfirmed: "\<not> stop_confirmed result"
    and rid: "map_of (entries payload) ''run_id'' = Some (JStr rid)" "t_get ar_run_id rid (runs s) = Some row"
      "ar_workspace_id row = Some wsid" "wsid \<noteq> []"
    and ws: "t_get ws_workspace_id wsid (workspaces s) = Some w" "ws_owner_run_id w = Some rid"
  shows "runs t = runs s \<and> wus t = wus s \<and> exec_markers t = exec_markers s
    \<and> t_peek ws_workspace_id wsid (workspaces t) = Some (w\<lparr> ws_state := QUARANTINED, ws_writer_alive := True \<rparr>)"
proof -
  note tbl = clean [unfolded clean_def]
  have id: "ar_run_id row = rid" using t_get_in [OF rid(2)] by simp
  have peek: "t_peek ws_workspace_id wsid (workspaces s) = Some w"
    using ws tbl by (simp add: t_peek_clean)
  with run rid ws unconfirmed show ?thesis unfolding ack_stop_def settle_stopped_workspace_def
    by (auto simp: andthen_Inr_iff seq_Inr_iff Let_def only_if_def id when_set_def t_peek_upd peek split: if_splits)
qed

text \<open>
  A stop that was not confirmed frees nothing. Unless the executor answers that it is revoked, not
  alive and not writing, acknowledging its stop leaves every Run and work unit as it was, and the
  workspace the Run owns is QUARANTINED with its writer presumed alive.
\<close>

theorem unconfirmed_stop_quarantines:
  assumes run: "ack_stop oid payload result s = (Inr (), t)" and clean: "clean s"
    and unconfirmed: "jget result ''start_revoked'' \<noteq> JBool True \<or> jget result ''alive'' \<noteq> JBool False
      \<or> jget result ''writer_alive'' \<noteq> JBool False"
    and rid: "map_of (entries payload) ''run_id'' = Some (JStr rid)" "t_get ar_run_id rid (runs s) = Some row"
      "ar_workspace_id row = Some wsid" "wsid \<noteq> []"
    and ws: "t_get ws_workspace_id wsid (workspaces s) = Some w" "ws_owner_run_id w = Some rid"
  shows "runs t = runs s \<and> wus t = wus s \<and> exec_markers t = exec_markers s
    \<and> t_peek ws_workspace_id wsid (workspaces t) = Some (w\<lparr> ws_state := QUARANTINED, ws_writer_alive := True \<rparr>)"
  by (rule unconfirmed_ack_stop [OF run clean _ rid ws]) (use unconfirmed in \<open>auto simp: stop_confirmed_def\<close>)

theorem unconfirmed_stop_quarantines_witness:
  "t_peek ws_workspace_id ''ws'' (workspaces (snd (ack_stop ''o'' (JObj [(''run_id'', JStr ''r'')]) JNull
      (sample_running R_RUNNING)))) = Some ((sample_workspace (Some ''r'') True)\<lparr> ws_state := QUARANTINED \<rparr>)"
proof -
  let ?s = "sample_running R_RUNNING"
  let ?m = "ack_stop ''o'' (JObj [(''run_id'', JStr ''r'')]) JNull"
  have run: "?m ?s = (Inr (), snd (?m ?s))" by (rule run_result) code_simp
  have clean: "clean ?s"
    by (simp add: clean_def sample_running_def sample_db_def init_sess_def) (simp add: t_clean_def)
  have unconfirmed: "jget JNull ''start_revoked'' \<noteq> JBool True \<or> jget JNull ''alive'' \<noteq> JBool False
      \<or> jget JNull ''writer_alive'' \<noteq> JBool False" by code_simp
  have row: "t_get ar_run_id ''r'' (runs ?s) = Some (sample_run R_RUNNING)" by code_simp
  have ws: "t_get ws_workspace_id ''ws'' (workspaces ?s) = Some (sample_workspace (Some ''r'') True)" by code_simp
  from unconfirmed_stop_quarantines [OF run clean unconfirmed _ row _ _ ws] show ?thesis
    by (simp add: sample_run_def sample_workspace_def)
qed

end
