(* ===== verification/Service.thy ===== *)
theory Service
  imports Acceptance Side_Effects Planner Artifacts Outbox
begin

text \<open>
  The single entry of the service (\<open>application/service.py\<close>): \<open>execute\<close>, \<open>_execute_in_tx\<close> with its
  handler table, the task a command belongs to, the authorization of Run commands, the inbox
  and the idempotency store.
\<close>

subsection \<open>The task of a command\<close>

text \<open>The tables in which an identifier of the payload is looked up.\<close>

definition task_of_ref :: "string \<Rightarrow> json \<Rightarrow> string option tx" where
  "task_of_ref key v =
    (if key = ''decision_id'' then andthen (by_key get_decision v) (\<lambda>r.
      ret (map_option de_task_id r))
     else if key = ''run_id'' then andthen (by_key get_run v) (\<lambda>r.
       ret (map_option ar_task_id r))
     else if key = ''workspace_id'' then andthen (by_key get_workspace v) (\<lambda>r.
       ret (map_option ws_task_id r))
     else andthen (by_key get_effect v) (\<lambda>r.
       ret (map_option se_task_id r)))"

definition command_task_id :: "string \<Rightarrow> dict \<Rightarrow> string tx" where
  "command_task_id operation payload =
    (if operation = ''create_task'' then ret []
     else accumulate [''decision_id'', ''run_id'', ''workspace_id'', ''effect_id'']
       (py_str (jor (dget payload ''task_id'') (JStr [])))
       (\<lambda>supplied key.
          if \<not> truthy (dget payload key) then ret supplied
          else andthen (task_of_ref key (dget payload key)) (\<lambda>owner.
            (case owner of
               None \<Rightarrow> ret supplied
             | Some t \<Rightarrow> seq (ensure (supplied = [] \<or> supplied = t) denied) (
               ret t)))))"

subsection \<open>Run commands\<close>

definition RUN_COMMANDS :: "string list" where
  "RUN_COMMANDS = [''submit_result'', ''heartbeat'', ''set_writer_alive'', ''confirm_run_exit'',
     ''register_sandbox_identity'']"

definition authorize_run_command :: "string \<Rightarrow> AuthContext \<Rightarrow> dict \<Rightarrow> unit tx" where
  "authorize_run_command operation auth payload =
    (if operation \<notin> set RUN_COMMANDS then ret ()
     else andthen (if operation = ''set_writer_alive'' then andthen (need payload ''workspace_id'') (\<lambda>wid.
         andthen (by_key get_workspace wid) (\<lambda>row.
         andthen (the_or not_found row) (\<lambda>ws.
         let rid = jor (dget payload ''run_id'') (jopt (ws_owner_run_id ws)) in
         seq (ensure (truthy rid \<and> jopt (ws_owner_run_id ws) = rid) denied) (
         ret rid)))) else ret (dget payload ''run_id'')) (\<lambda>rid.
       andthen (if truthy rid then by_key get_run rid else ret None) (\<lambda>run_row.
       andthen (the_or (NotFoundError ''run_not_found'') run_row) (\<lambda>run.
       (if operation = ''confirm_run_exit'' \<and> is_human auth then andthen (svc_get_task (JStr (ar_task_id run))) (\<lambda>task.
         assert_task_principal auth task) else assert_run_write_binding auth run payload True)))))"

subsection \<open>Inbox and idempotency\<close>

definition serialize_command_result :: "CommandResult \<Rightarrow> json" where
  "serialize_command_result r = JObj [(''ok'', JBool (cr_ok r)), (''data'', JObj (cr_data r)),
     (''error_code'', jopt (cr_error_code r))]"

definition deserialize_command_result :: "dict \<Rightarrow> bool \<Rightarrow> CommandResult" where
  "deserialize_command_result saved replayed =
    (if dhas saved ''ok'' then
       \<lparr> cr_ok = truthy (dget saved ''ok''),
          cr_data = entries (jor (dget saved ''data'') (JObj [])),
          cr_error_code = opt_str (dget saved ''error_code''), cr_replayed = replayed \<rparr>
     else if dhas saved ''error_code'' \<and> \<not> dhas saved ''data'' then
       failure (py_str (jor (dget saved ''error_code'') (JStr ''unknown'')))
         (filter (\<lambda>(k, v). k \<notin> {''ok'', ''error_code'', ''error_message''}) saved)
     else (success saved)\<lparr> cr_replayed := replayed \<rparr>)"

definition find_inbox :: "AuthContext \<Rightarrow> string \<Rightarrow> InboxRow option tx" where
  "find_inbox auth message_id =
    andthen (select_inbox (\<lambda>r. ib_actor_id r = actor_id auth \<and> ib_message_id r = message_id)) (\<lambda>rows.
    ret (first_of rows))"

definition check_inbox :: "AuthContext \<Rightarrow> string \<Rightarrow> string \<Rightarrow> CommandResult option tx" where
  "check_inbox auth message_id ph =
    andthen (find_inbox auth message_id) (\<lambda>row.
    (case row of
        None \<Rightarrow> ret None
      | Some r \<Rightarrow> seq (ensure (ib_payload_hash r = ph) (IdempotencyConflictError ''inbox_conflict'')) (
        ret (Some (deserialize_command_result (entries (ib_result_json r)) True)))))"

definition store_inbox :: "AuthContext \<Rightarrow> string \<Rightarrow> string \<Rightarrow> string \<Rightarrow> string \<Rightarrow> CommandResult \<Rightarrow> unit tx" where
  "store_inbox auth task_id operation message_id ph result =
    andthen (find_inbox auth message_id) (\<lambda>existing.
    andthen now (\<lambda>ts.
    only_if (existing = None) (add_inbox \<lparr> ib_actor_id = actor_id auth, ib_message_id = message_id,
       ib_principal_id = principal_id auth, ib_task_id = (if task_id = [] then None else Some task_id),
       ib_operation_type = operation, ib_idempotency_key = message_id, ib_payload_hash = ph,
       ib_result_json = serialize_command_result result, ib_created_at = ts \<rparr>)))"

definition find_idempotency :: "AuthContext \<Rightarrow> string \<Rightarrow> string \<Rightarrow> string \<Rightarrow> IdempotencyRow option tx" where
  "find_idempotency auth task_id operation idempotency_key =
    andthen (select_idem (\<lambda>r. ik_principal_id r = principal_id auth \<and> ik_task_id r = task_id
       \<and> ik_operation_type r = operation \<and> ik_idempotency_key r = idempotency_key)) (\<lambda>rows.
    ret (first_of rows))"

text \<open>A result stored under the empty namespace is adopted if its target belongs to this Task.\<close>

definition adopt_legacy :: "AuthContext \<Rightarrow> string \<Rightarrow> string \<Rightarrow> string \<Rightarrow> IdempotencyRow option tx" where
  "adopt_legacy auth tid operation idempotency_key =
    andthen (find_idempotency auth [] operation idempotency_key) (\<lambda>legacy.
    (case legacy of
        None \<Rightarrow> ret None
      | Some r \<Rightarrow> andthen (command_task_id operation (entries (ik_result_json r))) (\<lambda>owner.
        (if owner = tid then seq (upd_idem (idem_key r) (\<lambda>x. x\<lparr> ik_task_id := tid \<rparr>)) (
          ret (Some r)) else ret None))))"

definition check_idempotency :: "AuthContext \<Rightarrow> string \<Rightarrow> string \<Rightarrow> string \<Rightarrow> string
    \<Rightarrow> CommandResult option tx" where
  "check_idempotency auth tid operation idempotency_key ph =
    andthen (find_idempotency auth tid operation idempotency_key) (\<lambda>direct.
    andthen (if direct = None \<and> tid \<noteq> [] \<and> operation \<noteq> ''create_task''
       then adopt_legacy auth tid operation idempotency_key else ret direct) (\<lambda>row.
    (case row of
        None \<Rightarrow> ret None
      | Some r \<Rightarrow> seq (ensure (ik_payload_hash r = ph) (IdempotencyConflictError ''idempotency_conflict'')) (
        ret (Some (success_replayed (entries (ik_result_json r))))))))"

definition store_idempotency :: "AuthContext \<Rightarrow> string \<Rightarrow> string \<Rightarrow> string \<Rightarrow> string \<Rightarrow> CommandResult \<Rightarrow> unit tx" where
  "store_idempotency auth task_id operation idempotency_key ph result =
     only_if (cr_ok result) (andthen now (\<lambda>ts.
       add_idem \<lparr> ik_principal_id = principal_id auth, ik_task_id = task_id,
         ik_operation_type = operation, ik_idempotency_key = idempotency_key, ik_payload_hash = ph,
         ik_result_json = JObj (cr_data result), ik_created_at = ts \<rparr>))"

subsection \<open>Routing\<close>

type_synonym handler = "AuthContext \<Rightarrow> dict \<Rightarrow> CommandResult tx"

definition handlers :: "env \<Rightarrow> (string \<times> handler) list" where
  "handlers E = [
     (''create_task'', create_task E),
     (''submit_contract'', submit_contract E),
     (''approve_contract'', approve_contract E),
     (''resolve_decision'', resolve_decision E),
     (''activate_minimal_plan'', activate_minimal_plan E),
     (''activate_plan'', activate_plan E),
     (''dispatch_ready_runs'', dispatch_ready_runs E),
     (''submit_result'', submit_result E),
     (''pause_task'', pause_task E),
     (''resume_task'', resume_task E),
     (''cancel_task'', cancel_task E),
     (''runtime_quiescent'', runtime_quiescent E),
     (''cancellation_settled'', cancellation_settled E),
     (''accept_result'', accept_result E),
     (''prepare_acceptance'', prepare_acceptance E),
     (''propose_side_effect'', propose_side_effect E),
     (''approve_side_effect'', approve_side_effect E),
     (''dispatch_side_effect'', dispatch_side_effect E),
     (''reconcile_side_effect'', reconcile_side_effect E),
     (''confirm_run_exit'', confirm_run_exit E),
     (''open_blocking_gate'', open_blocking_gate E),
     (''record_model_usage'', record_model_usage E),
     (''set_writer_alive'', set_writer_alive E),
     (''register_sandbox_identity'', register_sandbox_identity E),
     (''heartbeat'', heartbeat E),
     (''publish_artifact'', publish_artifact E),
     (''context_append'', context_append E),
     (''seed_profile'', seed_profile E),
     (''replace_planner_generation'', replace_planner_generation E),
     (''submit_plan_proposal'', submit_plan_proposal E),
     (''apply_contract_delta'', apply_contract_delta E),
     (''dispatch_planner_run'', dispatch_planner_run E),
     (''advance_planner_checkpoint'', advance_planner_checkpoint E),
     (''post_task_message'', post_task_message E),
     (''request_spawn'', request_spawn E),
     (''close_planner_session'', close_planner_session E),
     (''request_repair_plan'', request_repair_plan E)]"

definition wake :: "unit tx" where
  "wake = modify (\<lambda>s. s\<lparr> wake_requested := True \<rparr>)"

definition run_handler :: "env \<Rightarrow> string \<Rightarrow> AuthContext \<Rightarrow> dict \<Rightarrow> string \<Rightarrow> string \<Rightarrow> string \<Rightarrow> string
    \<Rightarrow> CommandResult tx" where
  "run_handler E operation auth payload task_id message_id idempotency_key ph =
    andthen (the_or (PreconditionError ''unknown_operation'') (map_of (handlers E) operation)) (\<lambda>handler.
    andthen (handler auth payload) (\<lambda>result.
    let store_task_id = (if operation = ''create_task'' then []
       else if task_id \<noteq> [] then task_id
       else py_str (jor (dget (cr_data result) ''task_id'') (JStr []))) in
    seq (store_idempotency auth store_task_id operation idempotency_key ph result) (
    seq (store_inbox auth store_task_id operation message_id ph result) (
    seq (only_if (cr_ok result) wake) (
    ret result)))))"

definition execute_in_tx :: "env \<Rightarrow> string \<Rightarrow> AuthContext \<Rightarrow> dict \<Rightarrow> string \<Rightarrow> string \<Rightarrow> string
    \<Rightarrow> CommandResult tx" where
  "execute_in_tx E operation auth payload message_id idempotency_key ph =
    andthen (command_task_id operation payload) (\<lambda>task_id.
    seq (authorize_run_command operation auth payload) (
    andthen (check_inbox auth message_id ph) (\<lambda>inbox_hit.
    (case inbox_hit of
        Some r \<Rightarrow> ret r
      | None \<Rightarrow> andthen (check_idempotency auth (if operation = ''create_task'' then [] else task_id)
            operation idempotency_key ph) (\<lambda>replay.
        (case replay of
             Some r \<Rightarrow> seq (store_inbox auth task_id operation message_id ph r) (
               ret r)
           | None \<Rightarrow> run_handler E operation auth payload task_id message_id idempotency_key ph))))))"

subsection \<open>The entry\<close>

text \<open>Identity fields a client sends along are dropped.\<close>

definition IDENTITY_FIELDS :: "string list" where
  "IDENTITY_FIELDS = [''principal_id'', ''actor_id'', ''actor_type'', ''auth_context_id'']"

definition strip_identity :: "dict \<Rightarrow> dict" where
  "strip_identity payload = filter (\<lambda>(k, v). k \<notin> set IDENTITY_FIELDS) payload"

definition command_hash :: "(string \<Rightarrow> string) \<Rightarrow> string \<Rightarrow> dict \<Rightarrow> string" where
  "command_hash sha_fn operation clean_payload =
     payload_hash sha_fn (JObj (dupdate [(''operation'', JStr operation)] clean_payload))"

text \<open>Which failures become an answer: domain errors, and runtime errors that were not injected.\<close>

definition as_failure :: "exn \<Rightarrow> CommandResult option" where
  "as_failure e =
    (if is_domain_error e then Some (failure (error_code e) [])
     else case e of
       RuntimeError m \<Rightarrow> if m \<in> {''injected_crash_before_commit'', ''injected_crash_after_commit''}
         then None else Some (failure ''runtime_error'' [])
     | _ \<Rightarrow> None)"

definition drain_if_woken :: "nat \<Rightarrow> env \<Rightarrow> bool \<Rightarrow> unit tx" where
  "drain_if_woken fuel E dispatch_enabled =
    andthen (gets wake_requested) (\<lambda>woken.
    only_if (woken \<and> dispatch_enabled) (seq (modify (\<lambda>s. s\<lparr> wake_requested := False \<rparr>)) (
      andthen (drain_outbox fuel E 0) (\<lambda>n.
      ret ()))))"

definition execute :: "nat \<Rightarrow> env \<Rightarrow> bool \<Rightarrow> string \<Rightarrow> AuthContext \<Rightarrow> dict \<Rightarrow> string option
    \<Rightarrow> string option \<Rightarrow> CommandResult tx" where
  "execute fuel E dispatch_enabled operation auth payload message_id idempotency_key =
    (case guard_operation auth operation of
       Inl e \<Rightarrow> ret (failure (error_code e) [])
     | Inr _ \<Rightarrow> (let clean_payload = strip_identity payload in
       andthen (if is_set message_id then ret (or_else message_id []) else new_id E ''msg'') (\<lambda>mid.
       let ikey = or_else idempotency_key mid in
       let ph = command_hash (sha E) operation clean_payload in
       andthen (handle (andthen (run_tx (execute_in_tx E operation auth clean_payload mid ikey ph)) (\<lambda>r.
         ret (True, r))) (\<lambda>e. case as_failure e of None \<Rightarrow> raise e | Some r \<Rightarrow> ret (False, r))) (\<lambda>answer.
       seq (only_if (fst answer) (drain_if_woken fuel E dispatch_enabled)) (
       ret (snd answer))))))"

subsection \<open>The frame of the whole service\<close>

context service_frame
begin

lemma keeps_handlers: "list_all (\<lambda>(op, h). \<forall>auth payload. keeps R (h auth payload)) (handlers E)"
  unfolding handlers_def list.pred_inject case_prod_conv
  by (intro conjI allI frame_intro list.pred_inject(1))

lemma keeps_handler: "map_of (handlers E) op = Some h \<Longrightarrow> keeps R (h auth payload)"
  using keeps_handlers by (fastforce dest: map_of_SomeD simp: list_all_iff)

lemma keeps_routing [frame_intro]:
  "keeps R (task_of_ref key v)"
  "keeps R (find_inbox auth mid)"
  "keeps R (find_idempotency auth tid op ikey)"
  "keeps R (authorize_run_command op auth payload)"
  unfolding task_of_ref_def find_inbox_def find_idempotency_def authorize_run_command_def
  by (intro keeps_struct frame_intro)+

lemma keeps_command_task_id [frame_intro]: "keeps R (command_task_id op payload)"
  unfolding command_task_id_def by (intro keeps_struct frame_intro)

end

text \<open>The entry also writes the inbox, the idempotency store and the wake flag.\<close>

locale entry_frame = tx_frame R for R +
  assumes call_add_inbox: "keeps R (add_inbox r_inbox)"
    and call_add_idem: "keeps R (add_idem r_idem)"
    and call_upd_idem: "keeps R (upd_idem u_idem f_idem)"
    and call_wake: "keeps R (modify (\<lambda>s. s\<lparr> wake_requested := w \<rparr>))"
begin

lemmas keeps_entry_calls [frame_intro] = call_add_inbox call_add_idem call_upd_idem call_wake

lemma keeps_wake [frame_intro]: "keeps R wake"
  unfolding wake_def by (rule call_wake)

lemma keeps_inbox [frame_intro]:
  "keeps R (check_inbox auth mid ph)"
  "keeps R (store_inbox auth tid op mid ph r)"
  "keeps R (adopt_legacy auth tid op ikey)"
  "keeps R (store_idempotency auth tid op ikey ph r)"
  unfolding check_inbox_def store_inbox_def adopt_legacy_def store_idempotency_def
  by (intro keeps_struct frame_intro)+

lemma keeps_check_idempotency [frame_intro]: "keeps R (check_idempotency auth tid op ikey ph)"
  unfolding check_idempotency_def by (intro keeps_struct frame_intro)

lemma keeps_run_handler [frame_intro]:
  "keeps R (run_handler E op auth payload tid mid ikey ph)"
proof (cases "map_of (handlers E) op")
  case None
  then show ?thesis unfolding run_handler_def
    by (simp add: keeps_def andthen_def R_refl)
next
  case (Some h)
  have "keeps R (andthen (the_or e (Some h)) k) = keeps R (k h)" for e and k :: "handler \<Rightarrow> CommandResult tx"
    by (simp add: keeps_def)
  with Some show ?thesis unfolding run_handler_def
    by (simp only:) (intro keeps_struct frame_intro keeps_handler [OF Some])
qed

lemma keeps_execute_in_tx [frame_intro]:
  "keeps R (execute_in_tx E op auth payload mid ikey ph)"
  unfolding execute_in_tx_def by (intro keeps_struct frame_intro)

lemma keeps_execute [frame_intro]:
  "keeps R (execute fuel E enabled op auth payload mid ikey)"
  unfolding execute_def drain_if_woken_def by (intro keeps_struct frame_intro)

end

interpretation history: entry_frame history_le
  by unfold_locales (rule history_keeps_entry, rule history_keeps_entry, rule history_keeps_entry,
      simp add: keeps_def history_le_refl)

end
