(* ===== verification/Filesystem.thy ===== *)
theory Filesystem
  imports Json "HOL-Library.Sublist"
begin

text \<open>
  The part of POSIX that the tools of a worker use (Python's \<open>os\<close> module): a tree of
  directories, regular files and symbolic links, path resolution as the kernel does it
  (symbolic links are followed, \<open>..\<close> goes up), and the system calls \<open>openat\<close>, \<open>mkdirat\<close>,
  \<open>fstatat\<close>, \<open>renameat\<close>, \<open>unlinkat\<close>, \<open>write\<close>, \<open>fsync\<close> and \<open>listdir\<close>.

  Every call may fail: the state carries a list of the faults to come, one entry per call. How many
  bytes a \<open>write\<close> takes is up to the kernel as well. File contents are byte strings. Permissions,
  hard links, mounts and other processes are not modelled; a directory or file descriptor is the
  path of what it was opened on.
\<close>

subsection \<open>Trees\<close>

datatype fnode = File string | Link string | Special | Dir "(string \<times> fnode) list"

fun node_at :: "fnode \<Rightarrow> string list \<Rightarrow> fnode option" where
  "node_at n [] = Some n"
| "node_at (Dir es) (c # cs) = (case map_of es c of None \<Rightarrow> None | Some m \<Rightarrow> node_at m cs)"
| "node_at n (c # cs) = None"

fun put_at :: "fnode \<Rightarrow> string list \<Rightarrow> fnode \<Rightarrow> fnode" where
  "put_at n [] x = x"
| "put_at (Dir es) (c # cs) x =
     (if cs = [] then Dir (dset c x es)
      else case map_of es c of None \<Rightarrow> Dir es | Some m \<Rightarrow> Dir (dset c (put_at m cs x) es))"
| "put_at n (c # cs) x = n"

fun del_at :: "fnode \<Rightarrow> string list \<Rightarrow> fnode" where
  "del_at n [] = n"
| "del_at (Dir es) (c # cs) =
     (if cs = [] then Dir (filter (\<lambda>(k, _). k \<noteq> c) es)
      else case map_of es c of None \<Rightarrow> Dir es | Some m \<Rightarrow> Dir (dset c (del_at m cs) es))"
| "del_at n (c # cs) = n"

definition is_dir :: "fnode \<Rightarrow> bool" where
  "is_dir n \<longleftrightarrow> (case n of Dir _ \<Rightarrow> True | _ \<Rightarrow> False)"

definition is_link :: "fnode \<Rightarrow> bool" where
  "is_link n \<longleftrightarrow> (case n of Link _ \<Rightarrow> True | _ \<Rightarrow> False)"

lemma node_kind [simp]:
  "is_dir (Dir es)" "\<not> is_dir (File c)" "\<not> is_dir (Link l)" "\<not> is_dir Special"
  "is_link (Link l)" "\<not> is_link (File c)" "\<not> is_link (Dir es)" "\<not> is_link Special"
  by (simp_all add: is_dir_def is_link_def)

lemma node_at_append: "node_at t (p @ q) = Option.bind (node_at t p) (\<lambda>n. node_at n q)"
  by (induction t p rule: node_at.induct) (auto split: option.splits)

lemma node_at_cons: "node_at t (c # cs) = Option.bind (node_at t [c]) (\<lambda>n. node_at n cs)"
  using node_at_append [of t "[c]" cs] by simp

lemma map_of_without: "map_of (filter (\<lambda>(k, _). k \<noteq> c) es) k = (if k = c then None else map_of es k)"
  by (induction es) auto

text \<open>A change at one path is seen there and below; other paths keep their node.\<close>

lemma node_at_put_other: "\<not> prefix p q \<Longrightarrow> \<not> prefix q p \<Longrightarrow> node_at (put_at t p x) q = node_at t q"
proof (induction t p x arbitrary: q rule: put_at.induct)
  case (2 es c cs x)
  then show ?case by (cases q) (auto simp: map_of_dset split: option.splits)
qed (auto elim: node_at.elims)

lemma node_at_del_other: "\<not> prefix p q \<Longrightarrow> \<not> prefix q p \<Longrightarrow> node_at (del_at t p) q = node_at t q"
proof (induction t p arbitrary: q rule: del_at.induct)
  case (2 es c cs)
  then show ?case by (cases q) (auto simp: map_of_dset map_of_without split: option.splits)
qed (auto elim: node_at.elims)

lemma node_at_put_same: "node_at t p = Some (Dir es) \<Longrightarrow> node_at (put_at t (p @ [c]) x) (p @ [c]) = Some x"
  by (induction t "p @ [c]" x arbitrary: p rule: put_at.induct)
    (auto simp: Cons_eq_append_conv map_of_dset split: option.splits)

lemma node_at_del_same: "node_at t p = Some (Dir es) \<Longrightarrow> node_at (del_at t (p @ [c])) (p @ [c]) = None"
  by (induction t "p @ [c]" arbitrary: p rule: del_at.induct)
    (auto simp: Cons_eq_append_conv map_of_dset map_of_without split: option.splits)

text \<open>A directory stays a directory when something below it changes.\<close>

lemma dir_put: "node_at t p = Some (Dir es) \<Longrightarrow> \<exists>es'. node_at (put_at t (p @ c # q) x) p = Some (Dir es')"
proof (induction t "p @ c # q" x arbitrary: p rule: put_at.induct)
  case (2 es0 c0 cs x)
  then show ?case by (cases p) (auto simp: map_of_dset split: option.splits)
qed (auto simp: Cons_eq_append_conv)

lemma dir_del: "node_at t p = Some (Dir es) \<Longrightarrow> \<exists>es'. node_at (del_at t (p @ c # q)) p = Some (Dir es')"
proof (induction t "p @ c # q" arbitrary: p rule: del_at.induct)
  case (2 es0 c0 cs)
  then show ?case by (cases p) (auto simp: map_of_dset split: option.splits)
qed (auto simp: Cons_eq_append_conv)

subsection \<open>Calls\<close>

datatype errno = ENOENT | ENOTDIR | ELOOP | EEXIST | EISDIR | EINVAL | ENOTEMPTY | EACCES | ENOSPC | EIO

text \<open>What a path operation raises: the refusal of \<open>tools/paths.py\<close>, an \<open>OSError\<close>, another Python error.\<close>

datatype path_error = PathSafetyError | OsErr errno | BadValue

record fsys =
  tree :: fnode
  faults :: "errno option list"
  write_sizes :: "nat list"

type_synonym 'a fsop = "fsys \<Rightarrow> (path_error + 'a) \<times> fsys"

definition fs_ret :: "'a \<Rightarrow> 'a fsop" where
  "fs_ret x = (\<lambda>s. (Inr x, s))"

definition fs_raise :: "path_error \<Rightarrow> 'a fsop" where
  "fs_raise e = (\<lambda>s. (Inl e, s))"

definition fs_then :: "'a fsop \<Rightarrow> ('a \<Rightarrow> 'b fsop) \<Rightarrow> 'b fsop" where
  "fs_then m f = (\<lambda>s. case m s of (Inl e, t) \<Rightarrow> (Inl e, t) | (Inr x, t) \<Rightarrow> f x t)"

definition fs_seq :: "unit fsop \<Rightarrow> 'b fsop \<Rightarrow> 'b fsop" where
  "fs_seq m k = fs_then m (\<lambda>_. k)"

definition fs_catch :: "'a fsop \<Rightarrow> (path_error \<Rightarrow> 'a fsop) \<Rightarrow> 'a fsop" where
  "fs_catch m h = (\<lambda>s. case m s of (Inl e, t) \<Rightarrow> h e t | (Inr x, t) \<Rightarrow> (Inr x, t))"

definition fs_lift :: "path_error + 'a \<Rightarrow> 'a fsop" where
  "fs_lift r = (\<lambda>s. (r, s))"

definition fs_ensure :: "bool \<Rightarrow> path_error \<Rightarrow> unit fsop" where
  "fs_ensure b e = (if b then fs_ret () else fs_raise e)"

text \<open>A system call consumes one entry of the faults; a fault has no other effect.\<close>

definition syscall :: "'a fsop \<Rightarrow> 'a fsop" where
  "syscall m = (\<lambda>s. case faults s of
       [] \<Rightarrow> m s
     | None # fs \<Rightarrow> m (s\<lparr> faults := fs \<rparr>)
     | Some e # fs \<Rightarrow> (Inl (OsErr e), s\<lparr> faults := fs \<rparr>))"

subsection \<open>Path resolution\<close>

fun split_on :: "char \<Rightarrow> string \<Rightarrow> string list" where
  "split_on d [] = [[]]"
| "split_on d (c # cs) =
     (if c = d then [] # split_on d cs
      else case split_on d cs of [] \<Rightarrow> [[c]] | w # ws \<Rightarrow> (c # w) # ws)"

text \<open>
  The kernel's walk from the directory \<open>cur\<close>; \<open>n\<close> bounds the symbolic links it follows, \<open>follow\<close>
  says whether a link in the last position is followed. The result is a path in the tree whose last
  component may not exist.
\<close>

function resolve :: "nat \<Rightarrow> fnode \<Rightarrow> bool \<Rightarrow> string list \<Rightarrow> string list \<Rightarrow> errno + string list" where
  "resolve n t follow cur [] = Inr cur"
| "resolve n t follow cur (c # cs) =
     (case node_at t cur of
        Some (Dir es) \<Rightarrow>
          if c = [] \<or> c = ''.'' then resolve n t follow cur cs
          else if c = ''..'' then resolve n t follow (butlast cur) cs
          else (case map_of es c of
             None \<Rightarrow> if cs = [] then Inr (cur @ [c]) else Inl ENOENT
           | Some (Link target) \<Rightarrow>
               if cs = [] \<and> \<not> follow then Inr (cur @ [c])
               else (case n of 0 \<Rightarrow> Inl ELOOP
                 | Suc m \<Rightarrow> resolve m t follow (if starts_with ''/'' target then [] else cur)
                     (split_on (CHR ''/'') target @ cs))
           | Some x \<Rightarrow> resolve n t follow (cur @ [c]) cs)
      | None \<Rightarrow> Inl ENOENT
      | Some x \<Rightarrow> Inl ENOTDIR)"
  by pat_completeness auto
termination by (relation "measures [\<lambda>(n, t, f, cur, cs). n, \<lambda>(n, t, f, cur, cs). length cs]") auto

definition resolve_at :: "fnode \<Rightarrow> bool \<Rightarrow> string list \<Rightarrow> string \<Rightarrow> errno + string list" where
  "resolve_at t follow dirfd name =
    (if name = [] then Inl ENOENT
     else resolve 40 t follow (if starts_with ''/'' name then [] else dirfd) (split_on (CHR ''/'') name))"

subsection \<open>The system calls\<close>

record oflags =
  o_directory :: bool
  o_nofollow :: bool
  o_write :: bool
  o_creat :: bool
  o_excl :: bool
  o_trunc :: bool

definition O_RDONLY :: oflags where
  "O_RDONLY = \<lparr> o_directory = False, o_nofollow = False, o_write = False, o_creat = False,
     o_excl = False, o_trunc = False \<rparr>"

definition k_openat :: "oflags \<Rightarrow> string list \<Rightarrow> string \<Rightarrow> string list fsop" where
  "k_openat fl dirfd name = syscall (\<lambda>s.
     case resolve_at (tree s) (\<not> (o_nofollow fl \<or> (o_creat fl \<and> o_excl fl))) dirfd name of
       Inl e \<Rightarrow> (Inl (OsErr e), s)
     | Inr p \<Rightarrow> (case node_at (tree s) p of
          None \<Rightarrow> if o_creat fl \<and> is_dir (the (node_at (tree s) (butlast p)))
            then (Inr p, s\<lparr> tree := put_at (tree s) p (File []) \<rparr>) else (Inl (OsErr ENOENT), s)
        | Some n \<Rightarrow>
            if o_creat fl \<and> o_excl fl then (Inl (OsErr EEXIST), s)
            else (case n of
               Dir es \<Rightarrow> if o_write fl \<or> o_creat fl then (Inl (OsErr EISDIR), s) else (Inr p, s)
             | Link l \<Rightarrow> (Inl (OsErr (if o_directory fl then ENOTDIR else ELOOP)), s)
             | File c \<Rightarrow> if o_directory fl then (Inl (OsErr ENOTDIR), s)
                 else (Inr p, if o_trunc fl then s\<lparr> tree := put_at (tree s) p (File []) \<rparr> else s)
             | Special \<Rightarrow> if o_directory fl then (Inl (OsErr ENOTDIR), s) else (Inr p, s))))"

definition k_mkdirat :: "string list \<Rightarrow> string \<Rightarrow> unit fsop" where
  "k_mkdirat dirfd name = syscall (\<lambda>s. case resolve_at (tree s) False dirfd name of
       Inl e \<Rightarrow> (Inl (OsErr e), s)
     | Inr p \<Rightarrow> (case node_at (tree s) p of
          Some _ \<Rightarrow> (Inl (OsErr EEXIST), s)
        | None \<Rightarrow> (Inr (), s\<lparr> tree := put_at (tree s) p (Dir []) \<rparr>)))"

text \<open>\<open>fstatat\<close> with \<open>AT_SYMLINK_NOFOLLOW\<close>, and \<open>fstat\<close> of a descriptor.\<close>

definition k_statat :: "string list \<Rightarrow> string \<Rightarrow> fnode fsop" where
  "k_statat dirfd name = syscall (\<lambda>s. case resolve_at (tree s) False dirfd name of
       Inl e \<Rightarrow> (Inl (OsErr e), s)
     | Inr p \<Rightarrow> (case node_at (tree s) p of None \<Rightarrow> (Inl (OsErr ENOENT), s) | Some n \<Rightarrow> (Inr n, s)))"

definition k_fstat :: "string list \<Rightarrow> fnode fsop" where
  "k_fstat fd = syscall (\<lambda>s. case node_at (tree s) fd of None \<Rightarrow> (Inl (OsErr EIO), s) | Some n \<Rightarrow> (Inr n, s))"

definition k_unlinkat :: "string list \<Rightarrow> string \<Rightarrow> unit fsop" where
  "k_unlinkat dirfd name = syscall (\<lambda>s. case resolve_at (tree s) False dirfd name of
       Inl e \<Rightarrow> (Inl (OsErr e), s)
     | Inr p \<Rightarrow> (case node_at (tree s) p of
          None \<Rightarrow> (Inl (OsErr ENOENT), s)
        | Some n \<Rightarrow> if is_dir n then (Inl (OsErr EISDIR), s)
            else (Inr (), s\<lparr> tree := del_at (tree s) p \<rparr>)))"

definition k_renameat :: "string list \<Rightarrow> string \<Rightarrow> string list \<Rightarrow> string \<Rightarrow> unit fsop" where
  "k_renameat d1 n1 d2 n2 = syscall (\<lambda>s.
     case (resolve_at (tree s) False d1 n1, resolve_at (tree s) False d2 n2) of
       (Inr p, Inr q) \<Rightarrow> (case (node_at (tree s) p, node_at (tree s) q) of
          (None, _) \<Rightarrow> (Inl (OsErr ENOENT), s)
        | (Some x, y) \<Rightarrow>
            if p = q then (Inr (), s)
            else if is_dir x \<and> (prefix p q \<or> (y \<noteq> None \<and> \<not> is_dir (the y))) then (Inl (OsErr EINVAL), s)
            else if is_dir x \<and> y \<noteq> None \<and> y \<noteq> Some (Dir []) then (Inl (OsErr ENOTEMPTY), s)
            else if \<not> is_dir x \<and> y \<noteq> None \<and> is_dir (the y) then (Inl (OsErr EISDIR), s)
            else (Inr (), s\<lparr> tree := put_at (del_at (tree s) p) q x \<rparr>))
     | (Inl e, _) \<Rightarrow> (Inl (OsErr e), s)
     | (_, Inl e) \<Rightarrow> (Inl (OsErr e), s))"

text \<open>\<open>write\<close> appends to what the descriptor has written so far; it takes at least one byte.\<close>

definition k_write :: "string list \<Rightarrow> string \<Rightarrow> nat fsop" where
  "k_write fd data = syscall (\<lambda>s. case node_at (tree s) fd of
       Some (File old) \<Rightarrow>
         (let k = (case write_sizes s of [] \<Rightarrow> length data | w # _ \<Rightarrow> min (length data) (max 1 w)) in
          (Inr k, s\<lparr> tree := put_at (tree s) fd (File (old @ take k data)),
             write_sizes := tl (write_sizes s) \<rparr>))
     | _ \<Rightarrow> (Inl (OsErr EIO), s))"

definition k_fsync :: "string list \<Rightarrow> unit fsop" where
  "k_fsync fd = syscall (fs_ret ())"

definition k_dup :: "string list \<Rightarrow> string list fsop" where
  "k_dup fd = syscall (fs_ret fd)"

definition k_read :: "string list \<Rightarrow> string fsop" where
  "k_read fd = syscall (\<lambda>s. case node_at (tree s) fd of
       Some (File c) \<Rightarrow> (Inr c, s) | _ \<Rightarrow> (Inl (OsErr EIO), s))"

definition k_listdir :: "string list \<Rightarrow> string list fsop" where
  "k_listdir fd = syscall (\<lambda>s. case node_at (tree s) fd of
       Some (Dir es) \<Rightarrow> (Inr (map fst es), s) | _ \<Rightarrow> (Inl (OsErr ENOTDIR), s))"

subsection \<open>Plain names\<close>

text \<open>A name with one component: what a validated path is made of.\<close>

definition plain :: "string \<Rightarrow> bool" where
  "plain n \<longleftrightarrow> n \<noteq> [] \<and> n \<noteq> ''.'' \<and> n \<noteq> ''..'' \<and> CHR ''/'' \<notin> set n"

lemma split_on_none: "d \<notin> set s \<Longrightarrow> split_on d s = [s]"
  by (induction s) auto

lemma split_on_parts: "w \<in> set (split_on d s) \<Longrightarrow> d \<notin> set w \<and> set w \<subseteq> set s"
proof (induction s arbitrary: w)
  case (Cons c s)
  have ne: "split_on d s \<noteq> []" by (induction s) (auto split: list.splits)
  show ?case
  proof (cases "split_on d s")
    case (Cons v vs)
    then have "v \<in> set (split_on d s)" by simp
    then have "d \<notin> set v \<and> set v \<subseteq> set s" by (rule Cons.IH)
    then show ?thesis using Cons.prems Cons.IH [of w] Cons by (auto split: if_splits)
  qed (simp add: ne)
qed simp

lemma starts_with_slash: "CHR ''/'' \<notin> set s \<Longrightarrow> \<not> starts_with ''/'' s"
  by (cases s) (auto simp: starts_with_def)

lemma resolve_plain:
  "plain n \<Longrightarrow> resolve_at t False d n = (case node_at t d of
     Some (Dir es) \<Rightarrow> Inr (d @ [n]) | None \<Rightarrow> Inl ENOENT | Some _ \<Rightarrow> Inl ENOTDIR)"
  by (auto simp: resolve_at_def plain_def split_on_none starts_with_slash split: option.splits fnode.splits)

subsection \<open>Reasoning about calls\<close>

text \<open>
  What an operation does to the state and what it returns: every run relates the start to the end by
  \<open>R\<close>, and every result satisfies \<open>Q\<close>.
\<close>

definition fs_ok :: "(fsys \<Rightarrow> fsys \<Rightarrow> bool) \<Rightarrow> ('a \<Rightarrow> bool) \<Rightarrow> 'a fsop \<Rightarrow> bool" where
  "fs_ok R Q m \<longleftrightarrow> (\<forall>s. R s (snd (m s)) \<and> (\<forall>x. fst (m s) = Inr x \<longrightarrow> Q x))"

locale fs_frame =
  fixes R :: "fsys \<Rightarrow> fsys \<Rightarrow> bool"
  assumes R_refl: "R s s" and R_trans: "R s t \<Longrightarrow> R t u \<Longrightarrow> R s u"
    and R_faults: "faults s = e # f \<Longrightarrow> R s (s\<lparr> faults := f \<rparr>)"
begin

lemma ok_ret: "Q x \<Longrightarrow> fs_ok R Q (fs_ret x)"
  by (simp add: fs_ok_def fs_ret_def R_refl)

lemma ok_raise: "fs_ok R Q (fs_raise e)"
  by (simp add: fs_ok_def fs_raise_def R_refl)

lemma ok_lift: "(\<And>x. r = Inr x \<Longrightarrow> Q x) \<Longrightarrow> fs_ok R Q (fs_lift r)"
  by (simp add: fs_ok_def fs_lift_def R_refl)

lemma ok_ensure: "(b \<Longrightarrow> Q ()) \<Longrightarrow> fs_ok R Q (fs_ensure b e)"
  by (simp add: fs_ensure_def ok_ret ok_raise)

lemma ok_weaken: "fs_ok R P m \<Longrightarrow> (\<And>x. P x \<Longrightarrow> Q x) \<Longrightarrow> fs_ok R Q m"
  by (auto simp: fs_ok_def)

lemma ok_then:
  assumes "fs_ok R P m" and "\<And>x. P x \<Longrightarrow> fs_ok R Q (f x)"
  shows "fs_ok R Q (fs_then m f)"
  unfolding fs_ok_def
proof
  fix s
  obtain r t where m: "m s = (r, t)" by (cases "m s")
  have st: "R s t" using assms(1) m by (simp add: fs_ok_def) (metis snd_conv)
  show "R s (snd (fs_then m f s)) \<and> (\<forall>x. fst (fs_then m f s) = Inr x \<longrightarrow> Q x)"
  proof (cases r)
    case (Inl e)
    with m st show ?thesis by (simp add: fs_then_def)
  next
    case (Inr x)
    have "P x" using assms(1) m Inr by (simp add: fs_ok_def) (metis fst_conv)
    then have "R t (snd (f x t)) \<and> (\<forall>y. fst (f x t) = Inr y \<longrightarrow> Q y)"
      using assms(2) by (simp add: fs_ok_def)
    with m Inr st show ?thesis by (auto simp: fs_then_def intro: R_trans)
  qed
qed

lemma ok_seq: "fs_ok R (\<lambda>_. True) m \<Longrightarrow> fs_ok R Q k \<Longrightarrow> fs_ok R Q (fs_seq m k)"
  unfolding fs_seq_def by (rule ok_then)

lemma ok_catch:
  assumes "fs_ok R Q m" and "\<And>e. fs_ok R Q (h e)"
  shows "fs_ok R Q (fs_catch m h)"
  unfolding fs_ok_def
proof
  fix s
  obtain r t where m: "m s = (r, t)" by (cases "m s")
  have st: "R s t" using assms(1) m by (simp add: fs_ok_def) (metis snd_conv)
  have Q: "\<forall>x. r = Inr x \<longrightarrow> Q x" using assms(1) m by (simp add: fs_ok_def) (metis fst_conv)
  have "R t (snd (h e t)) \<and> (\<forall>x. fst (h e t) = Inr x \<longrightarrow> Q x)" for e
    using assms(2) by (simp add: fs_ok_def)
  with m st Q show "R s (snd (fs_catch m h s)) \<and> (\<forall>x. fst (fs_catch m h s) = Inr x \<longrightarrow> Q x)"
    by (cases r) (auto simp: fs_catch_def intro: R_trans)
qed

lemma ok_syscall: "fs_ok R Q m \<Longrightarrow> fs_ok R Q (syscall m)"
  by (auto simp: fs_ok_def syscall_def intro: R_faults R_trans [OF R_faults] split: list.splits option.splits)

lemma ok_option: "(v = None \<Longrightarrow> fs_ok R Q a) \<Longrightarrow> (\<And>x. v = Some x \<Longrightarrow> fs_ok R Q (f x)) \<Longrightarrow>
    fs_ok R Q (case v of None \<Rightarrow> a | Some x \<Rightarrow> f x)"
  by (cases v) simp_all

lemma ok_if: "(b \<Longrightarrow> fs_ok R Q m) \<Longrightarrow> (\<not> b \<Longrightarrow> fs_ok R Q k) \<Longrightarrow> fs_ok R Q (if b then m else k)"
  by simp

lemma ok_errors: "(\<And>en. fs_ok R Q (f en)) \<Longrightarrow> fs_ok R Q g \<Longrightarrow> fs_ok R Q h \<Longrightarrow>
    fs_ok R Q (case e of OsErr en \<Rightarrow> f en | PathSafetyError \<Rightarrow> g | BadValue \<Rightarrow> h)"
  by (cases e) simp_all

lemma ok_nodes: "(\<And>c. fs_ok R Q (f c)) \<Longrightarrow> (\<And>l. fs_ok R Q (g l)) \<Longrightarrow> fs_ok R Q h \<Longrightarrow> (\<And>es. fs_ok R Q (k es)) \<Longrightarrow>
    fs_ok R Q (case n of File c \<Rightarrow> f c | Link l \<Rightarrow> g l | Special \<Rightarrow> h | Dir es \<Rightarrow> k es)"
  by (cases n) simp_all

lemma ok_let: "(\<And>x. x = v \<Longrightarrow> fs_ok R Q (f x)) \<Longrightarrow> fs_ok R Q (let x = v in f x)"
  by (simp add: Let_def)

lemmas ok_struct = ok_ret ok_raise ok_ensure ok_seq ok_catch ok_option ok_if ok_errors ok_nodes ok_let

end

text \<open>Operations that only read: the tree stays, and without faults to come the whole state does.\<close>

definition same_tree :: "fsys \<Rightarrow> fsys \<Rightarrow> bool" where
  "same_tree s t \<longleftrightarrow> tree t = tree s \<and> (faults s = [] \<longrightarrow> t = s) \<and> set (faults t) \<subseteq> set (faults s)"

interpretation reads: fs_frame same_tree
  by unfold_locales (auto simp: same_tree_def)

text \<open>
  Operations that stay inside the directory \<open>root\<close>: every path that is neither below the root
  nor on the way to it keeps its node, and the root stays a directory.
\<close>

definition confined :: "string list \<Rightarrow> fsys \<Rightarrow> fsys \<Rightarrow> bool" where
  "confined root s t \<longleftrightarrow>
    (\<forall>p. \<not> prefix root p \<longrightarrow> \<not> prefix p root \<longrightarrow> node_at (tree t) p = node_at (tree s) p)"

interpretation inside: fs_frame "confined root" for root
  by unfold_locales (simp_all add: confined_def)

lemma confined_same_tree: "same_tree s t \<Longrightarrow> confined root s t"
  by (simp add: confined_def same_tree_def)

lemma ok_confined: "fs_ok same_tree Q m \<Longrightarrow> fs_ok (confined root) Q m"
  by (auto simp: fs_ok_def confined_same_tree)

lemma confined_put: "prefix root p \<Longrightarrow> confined root s (s\<lparr> tree := put_at (tree s) p x \<rparr>)"
  by (auto simp: confined_def intro!: node_at_put_other dest: prefix_order.trans prefix_same_cases)

lemma confined_del: "prefix root p \<Longrightarrow> confined root s (s\<lparr> tree := del_at (tree s) p \<rparr>)"
  by (auto simp: confined_def intro!: node_at_del_other dest: prefix_order.trans prefix_same_cases)

subsection \<open>What the calls do\<close>

lemmas call_splits = option.splits sum.splits fnode.splits if_splits

lemma reads_calls:
  "fs_ok same_tree (\<lambda>_. True) (k_statat d n)" "fs_ok same_tree (\<lambda>_. True) (k_fstat fd)"
  "fs_ok same_tree (\<lambda>_. True) (k_fsync fd)" "fs_ok same_tree (\<lambda>x. x = fd) (k_dup fd)"
  "fs_ok same_tree (\<lambda>_. True) (k_read fd)" "fs_ok same_tree (\<lambda>_. True) (k_listdir fd)"
  unfolding k_statat_def k_fstat_def k_fsync_def k_dup_def k_read_def k_listdir_def
  by (rule reads.ok_syscall; auto simp: fs_ok_def same_tree_def fs_ret_def split: call_splits)+

lemma reads_openat:
  "plain n \<Longrightarrow> o_nofollow fl \<Longrightarrow> \<not> o_creat fl \<Longrightarrow> \<not> o_trunc fl \<Longrightarrow> fs_ok same_tree (\<lambda>p. p = d @ [n]) (k_openat fl d n)"
  unfolding k_openat_def
  by (rule reads.ok_syscall) (auto simp: fs_ok_def same_tree_def resolve_plain split: call_splits)

lemma inside_openat:
  "plain n \<Longrightarrow> o_nofollow fl \<Longrightarrow> prefix root d \<Longrightarrow> fs_ok (confined root) (\<lambda>p. p = d @ [n]) (k_openat fl d n)"
  unfolding k_openat_def
  by (rule inside.ok_syscall) (auto simp: fs_ok_def resolve_plain inside.R_refl intro!: confined_put split: call_splits)

lemma inside_mkdirat: "plain n \<Longrightarrow> prefix root d \<Longrightarrow> fs_ok (confined root) (\<lambda>_. True) (k_mkdirat d n)"
  unfolding k_mkdirat_def
  by (rule inside.ok_syscall) (auto simp: fs_ok_def resolve_plain inside.R_refl intro!: confined_put split: call_splits)

lemma inside_unlinkat: "plain n \<Longrightarrow> prefix root d \<Longrightarrow> fs_ok (confined root) (\<lambda>_. True) (k_unlinkat d n)"
  unfolding k_unlinkat_def
  by (rule inside.ok_syscall) (auto simp: fs_ok_def resolve_plain inside.R_refl intro!: confined_del split: call_splits)

lemma confined_sizes: "confined root s (t\<lparr> write_sizes := w \<rparr>) = confined root s t"
  by (simp add: confined_def)

lemma inside_write: "prefix root fd \<Longrightarrow> fs_ok (confined root) (\<lambda>k. data \<noteq> [] \<longrightarrow> 0 < k) (k_write fd data)"
  unfolding k_write_def
  by (rule inside.ok_syscall)
    (auto simp: fs_ok_def Let_def inside.R_refl confined_sizes intro!: confined_put split: call_splits list.splits)

lemma confined_rename:
  "prefix root p \<Longrightarrow> prefix root q \<Longrightarrow> confined root s (s\<lparr> tree := put_at (del_at (tree s) p) q x \<rparr>)"
  using inside.R_trans [OF confined_del confined_put, of root p q s x] by simp

lemma inside_renameat:
  "plain n \<Longrightarrow> plain m \<Longrightarrow> prefix root d \<Longrightarrow> prefix root e \<Longrightarrow>
    fs_ok (confined root) (\<lambda>_. True) (k_renameat d n e m)"
  unfolding k_renameat_def
  by (rule inside.ok_syscall)
    (auto simp: fs_ok_def resolve_plain inside.R_refl intro!: confined_rename split: option.splits fnode.splits)

text \<open>Without faults to come a call is its effect; inversion of a composition.\<close>

lemma syscall_no_faults: "faults s = [] \<Longrightarrow> syscall m s = m s"
  by (simp add: syscall_def)

lemma fs_then_Inr_iff: "fs_then m f s = (Inr y, t) \<longleftrightarrow> (\<exists>x u. m s = (Inr x, u) \<and> f x u = (Inr y, t))"
  by (auto simp: fs_then_def split: prod.splits sum.splits)

lemma fs_seq_Inr_iff: "fs_seq m k s = (Inr y, t) \<longleftrightarrow> (\<exists>u. m s = (Inr (), u) \<and> k u = (Inr y, t))"
  by (auto simp: fs_seq_def fs_then_Inr_iff)

lemma fs_then_Inl: "fs_then m f s = (Inl e, t) \<Longrightarrow> m s = (Inl e, t) \<or> (\<exists>x u. m s = (Inr x, u) \<and> f x u = (Inl e, t))"
  by (auto simp: fs_then_def split: prod.splits sum.splits)

lemma fs_simps [simp]:
  "fs_ret x s = (Inr x, s)" "fs_raise e s = (Inl e, s)" "fs_lift r s = (r, s)"
  "m s = (Inl e, t) \<Longrightarrow> fs_then m f s = (Inl e, t)" "m s = (Inr x, t) \<Longrightarrow> fs_then m f s = f x t"
  "n s = (Inl e, t) \<Longrightarrow> fs_seq n k s = (Inl e, t)" "n s = (Inr (), t) \<Longrightarrow> fs_seq n k s = k t"
  "m s = (Inl e, t) \<Longrightarrow> fs_catch m h s = h e t" "m s = (Inr x, t) \<Longrightarrow> fs_catch m h s = (Inr x, t)"
  "b \<Longrightarrow> fs_ensure b e s = (Inr (), s)" "\<not> b \<Longrightarrow> fs_ensure b e s = (Inl e, s)"
  by (simp_all add: fs_ret_def fs_raise_def fs_lift_def fs_then_def fs_seq_def fs_catch_def fs_ensure_def)

lemma fs_ensure_Inr_iff [simp]: "fs_ensure b e s = (Inr u, t) \<longleftrightarrow> b \<and> t = s"
  by (auto simp: fs_ensure_def)

lemma fs_okD: "fs_ok R Q m \<Longrightarrow> m s = (r, t) \<Longrightarrow> R s t \<and> (\<forall>x. r = Inr x \<longrightarrow> Q x)"
  unfolding fs_ok_def by (metis fst_conv snd_conv)

lemma node_at_parent: "node_at t (p @ [c]) = Some x \<Longrightarrow> \<exists>es. node_at t p = Some (Dir es) \<and> map_of es c = Some x"
  by (cases "node_at t p") (auto simp: node_at_append elim!: node_at.elims split: option.splits)

lemma dir_above: "node_at t (p @ q) = Some (Dir es) \<Longrightarrow> \<exists>es'. node_at t p = Some (Dir es')"
proof (cases q)
  case (Cons c cs)
  assume "node_at t (p @ q) = Some (Dir es)"
  with Cons obtain m where m: "node_at t p = Some m" "node_at m (c # cs) = Some (Dir es)"
    by (cases "node_at t p") (simp_all add: node_at_append)
  then show ?thesis by (cases m) simp_all
qed simp

text \<open>Operations that leave one node alone.\<close>

definition keeps_node :: "string list \<Rightarrow> fsys \<Rightarrow> fsys \<Rightarrow> bool" where
  "keeps_node q s t \<longleftrightarrow> node_at (tree t) q = node_at (tree s) q"

interpretation leaves: fs_frame "keeps_node q" for q
  by unfold_locales (simp_all add: keeps_node_def)

lemma keeps_same_tree: "fs_ok same_tree Q m \<Longrightarrow> fs_ok (keeps_node q) Q m"
  by (auto simp: fs_ok_def keeps_node_def same_tree_def)

lemma siblings: "m \<noteq> n \<Longrightarrow> \<not> prefix (d @ [n]) (d @ [m]) \<and> \<not> prefix (d @ [m]) (d @ [n])"
  by (auto simp: prefix_def)

lemma keeps_sibling [simp]:
  "m \<noteq> n \<Longrightarrow> keeps_node (d @ [m]) s (t\<lparr> tree := put_at (tree t) (d @ [n]) x \<rparr>) = keeps_node (d @ [m]) s t"
  "m \<noteq> n \<Longrightarrow> keeps_node (d @ [m]) s (t\<lparr> tree := del_at (tree t) (d @ [n]) \<rparr>) = keeps_node (d @ [m]) s t"
  "keeps_node q s (t\<lparr> write_sizes := ws \<rparr>) = keeps_node q s t"
  using siblings [of m n d] by (simp_all add: keeps_node_def node_at_put_other node_at_del_other)

lemma leaves_openat:
  "plain n \<Longrightarrow> o_nofollow fl \<Longrightarrow> m \<noteq> n \<Longrightarrow> fs_ok (keeps_node (d @ [m])) (\<lambda>p. p = d @ [n]) (k_openat fl d n)"
  unfolding k_openat_def
  by (rule leaves.ok_syscall) (auto simp: fs_ok_def resolve_plain leaves.R_refl split: call_splits)

lemma leaves_unlinkat: "plain n \<Longrightarrow> m \<noteq> n \<Longrightarrow> fs_ok (keeps_node (d @ [m])) (\<lambda>_. True) (k_unlinkat d n)"
  unfolding k_unlinkat_def
  by (rule leaves.ok_syscall) (auto simp: fs_ok_def resolve_plain leaves.R_refl split: call_splits)

lemma leaves_write: "m \<noteq> n \<Longrightarrow> fs_ok (keeps_node (d @ [m])) (\<lambda>_. True) (k_write (d @ [n]) data)"
  unfolding k_write_def
  by (rule leaves.ok_syscall) (auto simp: fs_ok_def Let_def leaves.R_refl split: call_splits list.splits)

text \<open>What a successful call has done.\<close>

lemma write_Inr:
  assumes "k_write (d @ [n]) data s = (Inr k, t)"
  shows "\<exists>old. node_at (tree s) (d @ [n]) = Some (File old)
    \<and> node_at (tree t) (d @ [n]) = Some (File (old @ take k data)) \<and> k \<le> length data"
proof -
  have "\<exists>old. node_at (tree s) (d @ [n]) = Some (File old) \<and> k \<le> length data
      \<and> tree t = put_at (tree s) (d @ [n]) (File (old @ take k data))"
    using assms by (auto simp: k_write_def syscall_def Let_def split: list.splits option.splits fnode.splits)
  then show ?thesis using node_at_parent [of "tree s" d n] by (auto simp: node_at_put_same)
qed

lemma rename_Inr:
  assumes "k_renameat d n d m s = (Inr u, t)" and "plain n" "plain m" "m \<noteq> n"
    and "node_at (tree s) (d @ [n]) = Some (File c)"
  shows "node_at (tree t) (d @ [m]) = Some (File c) \<and> node_at (tree t) (d @ [n]) = None"
proof -
  obtain es where es: "node_at (tree s) d = Some (Dir es)" using node_at_parent [OF assms(5)] by blast
  obtain es' where es': "node_at (del_at (tree s) (d @ [n])) d = Some (Dir es')" using dir_del [OF es] by blast
  have "tree t = put_at (del_at (tree s) (d @ [n])) (d @ [m]) (File c)"
    using assms es by (auto simp: k_renameat_def syscall_def resolve_plain split: list.splits option.splits if_splits)
  then show ?thesis
    using node_at_put_same [OF es'] node_at_del_same [OF es] siblings [OF assms(4)] by (simp add: node_at_put_other)
qed

lemma rename_Inl: "k_renameat d n e m s = (Inl x, t) \<Longrightarrow> tree t = tree s"
  by (auto simp: k_renameat_def syscall_def split: list.splits option.splits if_splits sum.splits)

end
