(* ===== verification/Paths.thy ===== *)
theory Paths
  imports Filesystem
begin

text \<open>
  \<open>tools/paths.py\<close>: \<open>WorkspacePaths\<close>, the only way the tools of a worker touch files. A relative
  path is validated, then walked component by component with \<open>O_DIRECTORY | O_NOFOLLOW\<close>, starting
  from the descriptor of the workspace root. The Unix branch is modelled (directory descriptors are
  available); the Windows path mode is not. A path is a Python string, so the type check of
  \<open>_validate\<close> has nothing to do here.
\<close>

subsection \<open>The object\<close>

record workspace_paths =
  wp_root :: "string list"
  wp_closed :: bool

text \<open>\<open>os.path.abspath\<close>: the components of the joined path, normalised textually.\<close>

fun normalize :: "string list \<Rightarrow> string list \<Rightarrow> string list" where
  "normalize acc [] = rev acc"
| "normalize acc (c # cs) =
     (if c = [] \<or> c = ''.'' then normalize acc cs
      else if c = ''..'' then normalize (tl acc) cs
      else normalize (c # acc) cs)"

definition abspath :: "string list \<Rightarrow> string \<Rightarrow> string list" where
  "abspath cwd raw = normalize (if starts_with ''/'' raw then [] else rev cwd) (split_on (CHR ''/'') raw)"

text \<open>\<open>realpath\<close> of the normalised path; a part that does not exist is left for \<open>stat\<close> to report.\<close>

definition open_workspace :: "string list \<Rightarrow> string \<Rightarrow> workspace_paths fsop" where
  "open_workspace cwd raw =
    fs_seq (fs_ensure (raw \<noteq> []) PathSafetyError) (
    fs_then (\<lambda>s. case resolve 40 (tree s) True [] (abspath cwd raw) of
         Inl e \<Rightarrow> (Inl (OsErr e), s) | Inr p \<Rightarrow> (Inr p, s)) (\<lambda>root.
    fs_then (\<lambda>s. case node_at (tree s) root of None \<Rightarrow> (Inl (OsErr ENOENT), s) | Some n \<Rightarrow> (Inr n, s)) (\<lambda>st.
    fs_seq (fs_ensure (is_dir st) (OsErr ENOTDIR)) (
    fs_then (syscall (fs_ret root)) (\<lambda>fd.
    fs_ret \<lparr> wp_root = fd, wp_closed = False \<rparr>)))))"

definition close_paths :: "workspace_paths \<Rightarrow> workspace_paths" where
  "close_paths w = w\<lparr> wp_closed := True \<rparr>"

definition ensure_open :: "workspace_paths \<Rightarrow> unit fsop" where
  "ensure_open w = fs_ensure (\<not> wp_closed w) BadValue"

subsection \<open>Validation\<close>

text \<open>\<open>os.path.isabs\<close> on Unix and the drive part of \<open>ntpath.splitdrive\<close> (a UNC prefix or a drive letter).\<close>

definition is_sep :: "char \<Rightarrow> bool" where
  "is_sep c \<longleftrightarrow> c = CHR ''/'' \<or> c = CHR 0x5C"

definition has_drive :: "string \<Rightarrow> bool" where
  "has_drive p = (case p of
     a # b # _ \<Rightarrow> if is_sep a then is_sep b else b = CHR '':''
   | _ \<Rightarrow> False)"

definition validate_path :: "string \<Rightarrow> path_error + string list" where
  "validate_path relative =
    (if CHR 0x00 \<in> set relative then Inl PathSafetyError
     else if relative = [] then Inl PathSafetyError
     else if starts_with ''/'' relative \<or> has_drive relative then Inl PathSafetyError
     else if is_sep (hd relative) then Inl PathSafetyError
     else let parts = filter (\<lambda>p. p \<noteq> [] \<and> p \<noteq> ''.'') (split_on (CHR ''/'') relative) in
       if ''..'' \<in> set parts then Inl PathSafetyError
       else if parts = [] then Inl PathSafetyError
       else Inr parts)"

subsection \<open>The walk\<close>

text \<open>\<open>_is_symlink\<close>: an \<open>OSError\<close> of the probe counts as no.\<close>

definition is_symlink :: "string list \<Rightarrow> string \<Rightarrow> bool fsop" where
  "is_symlink dirfd name = fs_catch (fs_then (k_statat dirfd name) (\<lambda>n. fs_ret (is_link n)))
     (\<lambda>e. case e of OsErr _ \<Rightarrow> fs_ret False | _ \<Rightarrow> fs_raise e)"

definition dir_error :: "string list \<Rightarrow> errno \<Rightarrow> string \<Rightarrow> 'a fsop" where
  "dir_error dirfd e name =
    (if e \<in> {ELOOP, ENOTDIR} then fs_then (is_symlink dirfd name) (\<lambda>link.
      fs_raise (if link then PathSafetyError else OsErr ENOTDIR)) else fs_raise (OsErr e))"

definition dir_flags :: oflags where
  "dir_flags = O_RDONLY\<lparr> o_directory := True, o_nofollow := True \<rparr>"

definition reraise_dir :: "string list \<Rightarrow> string \<Rightarrow> path_error \<Rightarrow> 'a fsop" where
  "reraise_dir dirfd name e = (case e of OsErr en \<Rightarrow> dir_error dirfd en name | _ \<Rightarrow> fs_raise e)"

definition open_dir :: "string list \<Rightarrow> string \<Rightarrow> bool \<Rightarrow> string list fsop" where
  "open_dir dirfd name create = fs_catch (k_openat dir_flags dirfd name) (\<lambda>e.
     if e = OsErr ENOENT then
       if \<not> create then fs_raise e
       else fs_seq (fs_catch (k_mkdirat dirfd name) (\<lambda>e2. if e2 = OsErr EEXIST then fs_ret () else fs_raise e2)) (
         fs_catch (k_openat dir_flags dirfd name) (reraise_dir dirfd name))
     else reraise_dir dirfd name e)"

fun walk_from :: "string list \<Rightarrow> string list \<Rightarrow> bool \<Rightarrow> string list fsop" where
  "walk_from fd [] create = fs_ret fd"
| "walk_from fd (name # names) create = fs_then (open_dir fd name create) (\<lambda>nxt. walk_from nxt names create)"

definition walk :: "workspace_paths \<Rightarrow> string list \<Rightarrow> bool \<Rightarrow> string list fsop" where
  "walk w parts create = fs_then (k_dup (wp_root w)) (\<lambda>fd. walk_from fd parts create)"

definition open_final :: "string list \<Rightarrow> string \<Rightarrow> oflags \<Rightarrow> string list fsop" where
  "open_final dirfd name fl = fs_catch (k_openat (fl\<lparr> o_nofollow := True \<rparr>) dirfd name) (\<lambda>e. case e of
       OsErr en \<Rightarrow>
         if en = ELOOP then fs_raise PathSafetyError
         else if en = ENOTDIR then fs_then (is_symlink dirfd name) (\<lambda>link.
           fs_raise (if link then PathSafetyError else e)) else fs_raise e
     | _ \<Rightarrow> fs_raise e)"

definition require_regular :: "string list \<Rightarrow> unit fsop" where
  "require_regular fd =
    fs_then (k_fstat fd) (\<lambda>n.
    (case n of
        Dir _ \<Rightarrow> fs_raise (OsErr EISDIR)
      | File _ \<Rightarrow> fs_ret ()
      | _ \<Rightarrow> fs_raise (OsErr EINVAL)))"

subsection \<open>Public operations\<close>

text \<open>\<open>_absolute\<close>: \<open>commonpath\<close> compares the components of the joined path with those of the root.\<close>

definition absolute_path :: "workspace_paths \<Rightarrow> string list \<Rightarrow> string list fsop" where
  "absolute_path w parts = (let candidate = wp_root w @ parts in
     if take (length (wp_root w)) candidate \<noteq> wp_root w then fs_raise PathSafetyError
     else fs_ret candidate)"

definition open_for_read :: "workspace_paths \<Rightarrow> string \<Rightarrow> string list fsop" where
  "open_for_read w relative =
    fs_seq (ensure_open w) (
    fs_then (fs_lift (validate_path relative)) (\<lambda>parts.
    fs_then (walk w (butlast parts) False) (\<lambda>parent.
    fs_then (open_final parent (last parts) O_RDONLY) (\<lambda>fd.
    fs_seq (require_regular fd) (
    fs_ret fd)))))"

definition resolve_for_read :: "workspace_paths \<Rightarrow> string \<Rightarrow> string list fsop" where
  "resolve_for_read w relative =
    fs_seq (ensure_open w) (
    fs_then (fs_lift (validate_path relative)) (\<lambda>parts.
    fs_then (walk w (butlast parts) False) (\<lambda>parent.
    fs_then (open_final parent (last parts) O_RDONLY) (\<lambda>fd.
    fs_seq (require_regular fd) (
    absolute_path w parts)))))"

definition open_for_write :: "workspace_paths \<Rightarrow> string \<Rightarrow> string list fsop" where
  "open_for_write w relative =
    fs_seq (ensure_open w) (
    fs_then (fs_lift (validate_path relative)) (\<lambda>parts.
    fs_then (walk w (butlast parts) False) (\<lambda>parent.
    open_final parent (last parts) (O_RDONLY\<lparr> o_write := True, o_creat := True, o_trunc := True \<rparr>))))"

definition list_dir :: "workspace_paths \<Rightarrow> string \<Rightarrow> string list fsop" where
  "list_dir w relative =
    fs_seq (ensure_open w) (
    fs_then (fs_lift (validate_path relative)) (\<lambda>parts.
    fs_then (walk w (butlast parts) False) (\<lambda>parent.
    fs_then (open_final parent (last parts) (O_RDONLY\<lparr> o_directory := True \<rparr>)) (\<lambda>fd.
    fs_then (k_listdir fd) (\<lambda>names.
    fs_ret (sort names))))))"

definition mkdir :: "workspace_paths \<Rightarrow> string \<Rightarrow> unit fsop" where
  "mkdir w relative =
    fs_seq (ensure_open w) (
    fs_then (fs_lift (validate_path relative)) (\<lambda>parts.
    fs_then (walk w parts True) (\<lambda>fd.
    fs_ret ())))"

definition path_exists :: "workspace_paths \<Rightarrow> string \<Rightarrow> bool fsop" where
  "path_exists w relative =
    fs_seq (ensure_open w) (
    fs_then (fs_lift (validate_path relative)) (\<lambda>parts.
    fs_then (fs_catch (fs_then (walk w (butlast parts) False) (\<lambda>fd. fs_ret (Some fd)))
       (\<lambda>e. if e = OsErr ENOENT \<or> e = OsErr ENOTDIR then fs_ret None else fs_raise e)) (\<lambda>parent.
    (case parent of
        None \<Rightarrow> fs_ret False
      | Some fd \<Rightarrow> fs_then (fs_catch (fs_then (k_statat fd (last parts)) (\<lambda>n. fs_ret (Some n)))
            (\<lambda>e. if e = OsErr ENOENT then fs_ret None else fs_raise e)) (\<lambda>st.
        (case st of
             None \<Rightarrow> fs_ret False
           | Some n \<Rightarrow> if is_link n then fs_raise PathSafetyError else fs_ret True))))))"

text \<open>\<open>handle.read(max_bytes)\<close>; a negative bound reads everything.\<close>

definition bounded :: "int option \<Rightarrow> string \<Rightarrow> string" where
  "bounded max_bytes data = (case max_bytes of
     None \<Rightarrow> data | Some m \<Rightarrow> if m < 0 then data else take (nat m) data)"

definition read_bytes :: "(string \<Rightarrow> string) \<Rightarrow> workspace_paths \<Rightarrow> string \<Rightarrow> int option \<Rightarrow> (string \<times> string) fsop" where
  "read_bytes sha_fn w relative max_bytes =
    fs_then (open_for_read w relative) (\<lambda>fd.
    fs_then (k_read fd) (\<lambda>content.
    let data = bounded max_bytes content in
    fs_ret (data, sha_fn data)))"

text \<open>
  The loop \<open>while view: view = view[os.write(fd, view):]\<close>. Every call takes at least one byte, so
  the number of bytes is fuel enough (\<open>write_all_enough\<close> below).
\<close>

fun write_all :: "nat \<Rightarrow> string list \<Rightarrow> string \<Rightarrow> unit fsop" where
  "write_all n fd [] = fs_ret ()"
| "write_all 0 fd data = fs_raise BadValue"
| "write_all (Suc n) fd data = fs_then (k_write fd data) (\<lambda>k. write_all n fd (drop k data))"

definition tmp_name :: "string \<Rightarrow> string \<Rightarrow> string" where
  "tmp_name pid token = ''.hibiki-tmp-'' @ pid @ ''-'' @ token"

text \<open>The temporary file is written completely, then renamed over the target.\<close>

definition write_tmp :: "string list \<Rightarrow> string \<Rightarrow> string \<Rightarrow> string \<Rightarrow> unit fsop" where
  "write_tmp parent name tmp data =
    fs_then (is_symlink parent name) (\<lambda>link.
    fs_seq (fs_ensure (\<not> link) PathSafetyError) (
    fs_then (k_openat (O_RDONLY\<lparr> o_write := True, o_creat := True, o_excl := True, o_nofollow := True \<rparr>)
       parent tmp) (\<lambda>fd.
    fs_seq (write_all (length data) fd data) (
    k_fsync fd))))"

definition write_and_rename :: "string list \<Rightarrow> string \<Rightarrow> string \<Rightarrow> string \<Rightarrow> unit fsop" where
  "write_and_rename parent name tmp data =
    fs_seq (write_tmp parent name tmp data) (
    fs_seq (k_renameat parent tmp parent name) (
    k_fsync parent))"

definition discard_tmp :: "string list \<Rightarrow> string \<Rightarrow> path_error \<Rightarrow> unit fsop" where
  "discard_tmp parent tmp e =
    fs_seq (fs_catch (k_unlinkat parent tmp) (\<lambda>e2. case e2 of OsErr _ \<Rightarrow> fs_ret () | _ \<Rightarrow> fs_raise e2)) (
    fs_raise e)"

definition atomic_write :: "(string \<Rightarrow> string) \<Rightarrow> string \<Rightarrow> string \<Rightarrow> workspace_paths \<Rightarrow> string \<Rightarrow> string \<Rightarrow> string fsop" where
  "atomic_write sha_fn pid token w relative data =
    fs_seq (ensure_open w) (
    fs_then (fs_lift (validate_path relative)) (\<lambda>parts.
    fs_then (walk w (butlast parts) False) (\<lambda>parent.
    let tmp = tmp_name pid token in
    fs_seq (fs_catch (write_and_rename parent (last parts) tmp data) (discard_tmp parent tmp)) (
    fs_ret (sha_fn data)))))"

definition write_bytes :: "(string \<Rightarrow> string) \<Rightarrow> string \<Rightarrow> string \<Rightarrow> workspace_paths \<Rightarrow> string \<Rightarrow> string \<Rightarrow> string fsop" where
  "write_bytes sha_fn pid token w relative data = atomic_write sha_fn pid token w relative data"

subsection \<open>Validated paths\<close>

text \<open>The components of a relative path: what is left of it without empty parts and dots.\<close>

definition components :: "string \<Rightarrow> string list" where
  "components relative = filter (\<lambda>p. p \<noteq> [] \<and> p \<noteq> ''.'') (split_on (CHR ''/'') relative)"

text \<open>
  A path is accepted exactly if it is not empty, holds no NUL byte, does not begin with a separator,
  a UNC prefix or a drive letter, names something, and has no component \<open>..\<close>. What is accepted is its
  list of components, every one of them a plain name.
\<close>

theorem validate_path_iff:
  "validate_path relative = Inr parts \<longleftrightarrow>
    relative \<noteq> [] \<and> CHR 0x00 \<notin> set relative \<and> \<not> is_sep (hd relative) \<and> \<not> has_drive relative
    \<and> parts = components relative \<and> parts \<noteq> [] \<and> list_all plain parts"
proof -
  have plain: "list_all plain (components relative) \<longleftrightarrow> ''..'' \<notin> set (components relative)"
    using split_on_parts [of _ "CHR ''/''" relative]
    by (auto simp: list_all_iff plain_def components_def)
  have slash: "starts_with ''/'' relative \<Longrightarrow> relative \<noteq> [] \<Longrightarrow> is_sep (hd relative)"
    by (cases relative) (auto simp: starts_with_def is_sep_def)
  show ?thesis
    using plain slash
    by (auto simp: validate_path_def components_def [symmetric] Let_def split: if_splits)
qed

lemma validate_plain: "validate_path relative = Inr parts \<Longrightarrow> list_all plain parts \<and> parts \<noteq> []"
  by (simp add: validate_path_def Let_def list_all_iff plain_def split: if_splits)
    (auto dest: split_on_parts)

lemma plain_parts:
  assumes "validate_path relative = Inr parts"
  shows "parts \<noteq> []" "list_all plain (butlast parts)" "plain (last parts)" "butlast parts @ [last parts] = parts"
  using validate_plain [OF assms] by (auto simp: list_all_iff dest: in_set_butlastD)

subsection \<open>Where the walk leads\<close>

lemma reads_is_symlink: "fs_ok same_tree (\<lambda>_. True) (is_symlink d n)"
  unfolding is_symlink_def by (intro reads.ok_struct reads.ok_then [OF reads_calls(1)]) simp_all

lemma inside_is_symlink: "fs_ok (confined root) (\<lambda>_. True) (is_symlink d n)"
  by (rule ok_confined [OF reads_is_symlink])

lemma reads_dir_error: "fs_ok same_tree Q (reraise_dir d n e)"
  unfolding reraise_dir_def dir_error_def
  by (intro reads.ok_struct reads.ok_then [OF reads_is_symlink])

lemma reads_open_dir:
  assumes "plain n"
  shows "fs_ok same_tree (\<lambda>p. p = d @ [n]) (open_dir d n False)"
proof -
  have open_: "fs_ok same_tree (\<lambda>p. p = d @ [n]) (k_openat dir_flags d n)"
    by (rule reads_openat) (simp_all add: assms dir_flags_def O_RDONLY_def)
  show ?thesis unfolding open_dir_def
    by (rule reads.ok_catch [OF open_]) (simp add: reads.ok_raise reads_dir_error)
qed

lemma inside_open_dir:
  assumes "plain n" and "prefix root d"
  shows "fs_ok (confined root) (\<lambda>p. p = d @ [n]) (open_dir d n create)"
proof -
  have open_: "fs_ok (confined root) (\<lambda>p. p = d @ [n]) (k_openat dir_flags d n)"
    by (rule inside_openat) (simp_all add: assms dir_flags_def)
  show ?thesis unfolding open_dir_def
    by (intro inside.ok_struct inside_mkdirat assms open_ ok_confined [OF reads_dir_error]) simp_all
qed

lemma reads_walk_from: "list_all plain names \<Longrightarrow> fs_ok same_tree (\<lambda>p. p = fd @ names) (walk_from fd names False)"
proof (induction names arbitrary: fd)
  case (Cons n names)
  show ?case unfolding walk_from.simps
  proof (rule reads.ok_then [OF reads_open_dir])
    show "plain n" using Cons.prems by simp
    show "fs_ok same_tree (\<lambda>p. p = fd @ n # names) (walk_from x names False)" if "x = fd @ [n]" for x
      using Cons.IH [of x] Cons.prems that by simp
  qed
qed (simp add: reads.ok_ret)

lemma inside_walk_from:
  "list_all plain names \<Longrightarrow> prefix root fd \<Longrightarrow>
    fs_ok (confined root) (\<lambda>p. p = fd @ names) (walk_from fd names create)"
proof (induction names arbitrary: fd)
  case (Cons n names)
  show ?case unfolding walk_from.simps
  proof (rule inside.ok_then [OF inside_open_dir])
    show "plain n" using Cons.prems by simp
    show "prefix root fd" by (rule Cons.prems)
    show "fs_ok (confined root) (\<lambda>p. p = fd @ n # names) (walk_from x names create)" if "x = fd @ [n]" for x
      using Cons.IH [of x] Cons.prems that by simp
  qed
qed (simp add: inside.ok_ret)

lemma reads_walk: "list_all plain names \<Longrightarrow> fs_ok same_tree (\<lambda>p. p = wp_root w @ names) (walk w names False)"
  unfolding walk_def by (rule reads.ok_then [OF reads_calls(4)]) (simp add: reads_walk_from)

lemma inside_walk:
  "list_all plain names \<Longrightarrow> fs_ok (confined (wp_root w)) (\<lambda>p. p = wp_root w @ names) (walk w names create)"
  unfolding walk_def by (rule inside.ok_then [OF ok_confined [OF reads_calls(4)]]) (simp add: inside_walk_from)

lemma reads_open_final:
  "plain n \<Longrightarrow> \<not> o_creat fl \<Longrightarrow> \<not> o_trunc fl \<Longrightarrow> fs_ok same_tree (\<lambda>p. p = d @ [n]) (open_final d n fl)"
  unfolding open_final_def
  by (intro reads.ok_struct reads_openat reads.ok_then [OF reads_is_symlink]) simp_all

lemma inside_open_final:
  "plain n \<Longrightarrow> prefix root d \<Longrightarrow> fs_ok (confined root) (\<lambda>p. p = d @ [n]) (open_final d n fl)"
  unfolding open_final_def
  by (intro inside.ok_struct inside_openat inside.ok_then [OF inside_is_symlink]) simp_all

lemma inside_write_all: "prefix root fd \<Longrightarrow> fs_ok (confined root) (\<lambda>_. True) (write_all n fd data)"
  by (induction n fd data rule: write_all.induct)
    (auto intro: inside.ok_ret inside.ok_raise inside.ok_then [OF inside_write])

text \<open>The kernel takes at least one byte per call, so the loop ends before its fuel does.\<close>

lemma write_takes: "k_write fd data s = (Inr k, t) \<Longrightarrow> data \<noteq> [] \<Longrightarrow> 0 < k"
  using inside_write [of "[]" fd data] by (auto simp: fs_ok_def) (metis fst_conv)

lemma write_only_os_errors: "k_write fd data s = (Inl e, t) \<Longrightarrow> e \<noteq> BadValue"
  by (auto simp: k_write_def syscall_def Let_def split: list.splits option.splits fnode.splits)

lemma write_all_enough: "length data \<le> n \<Longrightarrow> write_all n fd data s \<noteq> (Inl BadValue, t)"
proof (induction n fd data arbitrary: s rule: write_all.induct)
  case (3 n fd c data)
  show ?case
  proof
    assume "write_all (Suc n) fd (c # data) s = (Inl BadValue, t)"
    then obtain k u where "k_write fd (c # data) s = (Inr k, u)"
        "write_all n fd (drop k (c # data)) u = (Inl BadValue, t)"
      using write_only_os_errors by (fastforce dest!: fs_then_Inl)
    moreover from this(1) have "length (drop k (c # data)) \<le> n"
      using write_takes [of fd "c # data"] "3.prems"(1) by fastforce
    ultimately show False using "3.IH" by blast
  qed
qed (auto simp: fs_ret_def)

subsection \<open>Containment\<close>

lemma plain_tmp: "CHR ''/'' \<notin> set pid \<Longrightarrow> CHR ''/'' \<notin> set token \<Longrightarrow> plain (tmp_name pid token)"
  by (auto simp: plain_def tmp_name_def)

lemma inside_lift: "(\<And>x. validate_path rel = Inr x \<Longrightarrow> P x) \<Longrightarrow> fs_ok (confined root) P (fs_lift (validate_path rel))"
  by (rule inside.ok_lift)

lemma inside_write_tmp:
  assumes "plain name" "plain tmp" "prefix root parent"
  shows "fs_ok (confined root) (\<lambda>_. True) (write_tmp parent name tmp data)"
  unfolding write_tmp_def
proof (intro inside.ok_then [OF inside_is_symlink] inside.ok_seq inside.ok_then [OF inside_openat])
  fix fd assume "fd = parent @ [tmp]"
  then have "prefix root fd" using assms(3) by (auto simp: prefix_def)
  then show "fs_ok (confined root) (\<lambda>_. True) (write_all (length data) fd data)" by (rule inside_write_all)
qed (simp_all add: assms inside.ok_ensure ok_confined [OF reads_calls(3)])

lemma inside_write_and_rename:
  assumes "plain name" "plain tmp" "prefix root parent"
  shows "fs_ok (confined root) (\<lambda>_. True) (write_and_rename parent name tmp data)"
    "fs_ok (confined root) (\<lambda>_. True) (discard_tmp parent tmp e)"
  unfolding write_and_rename_def discard_tmp_def
  by (intro inside.ok_struct inside_write_tmp inside_renameat inside_unlinkat ok_confined [OF reads_calls(3)] assms TrueI)+

lemma inside_atomic_write:
  assumes "plain (tmp_name pid token)"
  shows "fs_ok (confined (wp_root w)) (\<lambda>_. True) (atomic_write sha_fn pid token w relative data)"
  unfolding atomic_write_def ensure_open_def
proof (intro inside.ok_seq inside.ok_ensure TrueI inside.ok_then [OF inside_lift [where P = "\<lambda>ps. validate_path relative = Inr ps"]]
    inside.ok_then [OF inside_walk] inside.ok_let)
  fix parts
  assume "validate_path relative = Inr parts"
  then show "list_all plain (butlast parts)" by (rule plain_parts)
next
  fix parts parent tmp
  assume parts: "validate_path relative = Inr parts" and parent: "parent = wp_root w @ butlast parts"
    and tmp: "tmp = tmp_name pid token"
  have "prefix (wp_root w) parent" by (simp add: parent)
  note steps = inside_write_and_rename [OF plain_parts(3) [OF parts] assms this]
  show "fs_ok (confined (wp_root w)) (\<lambda>_. True)
      (fs_catch (write_and_rename parent (last parts) tmp data) (discard_tmp parent tmp))"
    unfolding tmp by (intro inside.ok_catch steps)
qed (simp_all add: inside.ok_ret)

lemma inside_open_for_write: "fs_ok (confined (wp_root w)) (\<lambda>_. True) (open_for_write w relative)"
  unfolding open_for_write_def ensure_open_def
proof (intro inside.ok_seq inside.ok_ensure TrueI inside.ok_then [OF inside_lift [where P = "\<lambda>ps. validate_path relative = Inr ps"]]
    inside.ok_then [OF inside_walk])
  fix parts
  assume "validate_path relative = Inr parts"
  then show "list_all plain (butlast parts)" by (rule plain_parts)
next
  fix parts parent
  assume parts: "validate_path relative = Inr parts" and parent: "parent = wp_root w @ butlast parts"
  show "fs_ok (confined (wp_root w)) (\<lambda>_. True) (open_final parent (last parts)
      (O_RDONLY\<lparr> o_write := True, o_creat := True, o_trunc := True \<rparr>))"
    by (rule inside.ok_weaken [OF inside_open_final]) (simp_all add: plain_parts [OF parts] parent)
qed simp

lemma inside_mkdir: "fs_ok (confined (wp_root w)) (\<lambda>_. True) (mkdir w relative)"
  unfolding mkdir_def ensure_open_def
  by (intro inside.ok_seq inside.ok_ensure TrueI inside.ok_then [OF inside_lift [where P = "\<lambda>ps. validate_path relative = Inr ps"]]
      inside.ok_then [OF inside_walk] inside.ok_ret) (simp_all add: validate_plain)

text \<open>
  C20. Nothing outside the workspace is ever written. Whatever the path, whatever symbolic links the
  file system holds and whichever system calls fail, \<open>atomic_write\<close>, \<open>open_for_write\<close> and \<open>mkdir\<close>
  leave every file and directory alone that is not below the workspace root.
\<close>

theorem writes_confined:
  assumes "CHR ''/'' \<notin> set pid" and "CHR ''/'' \<notin> set token"
    and outside: "\<not> prefix (wp_root w) p" "\<not> prefix p (wp_root w)"
  shows "node_at (tree (snd (atomic_write sha_fn pid token w relative data s))) p = node_at (tree s) p
    \<and> node_at (tree (snd (open_for_write w relative s))) p = node_at (tree s) p
    \<and> node_at (tree (snd (mkdir w relative s))) p = node_at (tree s) p"
  using inside_atomic_write [OF plain_tmp [OF assms(1,2)], of w sha_fn relative data]
    inside_open_for_write [of w relative] inside_mkdir [of w relative] outside
  by (simp add: fs_ok_def confined_def)

text \<open>A write at a concrete input: a link that leads out of the workspace stays unused.\<close>

definition sample_tree :: fnode where
  "sample_tree = Dir [(''etc'', Dir [(''passwd'', File ''root'')]),
     (''ws'', Dir [(''a.txt'', File ''hello''), (''out'', Link ''/etc''), (''sub'', Dir [])])]"

definition sample_fs :: fsys where
  "sample_fs = \<lparr> tree = sample_tree, faults = [], write_sizes = [2, 1] \<rparr>"

definition sample_ws :: workspace_paths where
  "sample_ws = \<lparr> wp_root = [''ws''], wp_closed = False \<rparr>"

theorem writes_confined_witness:
  "node_at (tree (snd (atomic_write (\<lambda>x. x) ''1'' ''ab'' sample_ws ''out/passwd'' ''evil'' sample_fs))) [''etc'', ''passwd'']
     = Some (File ''root'')"
proof -
  have "\<not> prefix (wp_root sample_ws) [''etc'', ''passwd'']" "\<not> prefix [''etc'', ''passwd''] (wp_root sample_ws)"
    by (simp_all add: sample_ws_def)
  note outside = writes_confined [OF _ _ this, of "''1''" "''ab''" "\<lambda>x. x" "''out/passwd''" "''evil''" sample_fs]
  have "node_at (tree sample_fs) [''etc'', ''passwd''] = Some (File ''root'')"
    by (simp add: sample_fs_def sample_tree_def)
  then show ?thesis using outside by (simp only: list.set char.inject simp_thms) simp
qed

subsection \<open>The object for a real directory\<close>

lemma split_on_append: "d \<notin> set w \<Longrightarrow> split_on d (w @ d # s) = w # split_on d s"
  by (induction w) auto

lemma split_join:
  "ps \<noteq> [] \<Longrightarrow> (\<forall>q \<in> set ps. d \<notin> set q) \<Longrightarrow> split_on d (join [d] ps) = ps"
proof (induction "[d]" ps rule: join.induct)
  case (3 x y ps)
  then show ?case using split_on_append [of d x "join [d] (y # ps)"] by simp
qed (simp_all add: split_on_none)

lemma normalize_plain: "list_all plain cs \<Longrightarrow> normalize acc cs = rev acc @ cs"
  by (induction cs arbitrary: acc) (auto simp: plain_def)

lemma abspath_plain: "list_all plain p \<Longrightarrow> abspath cwd (''/'' @ join ''/'' p) = p"
proof (cases "p = []")
  case False
  assume p: "list_all plain p"
  have "split_on (CHR ''/'') (CHR ''/'' # join ''/'' p) = [] # p"
    using split_join [OF False, of "CHR ''/''"] p by (auto simp: list_all_iff plain_def)
  then show ?thesis using normalize_plain [OF p, of "[]"] by (simp add: abspath_def starts_with_def)
qed (simp add: abspath_def starts_with_def)

lemma resolve_dirs:
  "node_at t (cur @ cs) = Some (Dir es) \<Longrightarrow> list_all plain cs \<Longrightarrow> resolve n t follow cur cs = Inr (cur @ cs)"
proof (induction cs arbitrary: cur)
  case (Cons c cs)
  obtain es1 where es1: "node_at t (cur @ [c]) = Some (Dir es1)"
    using dir_above [of t "cur @ [c]" cs] Cons.prems(1) by auto
  obtain es0 where es0: "node_at t cur = Some (Dir es0)" "map_of es0 c = Some (Dir es1)"
    using node_at_parent [OF es1] by blast
  have "resolve n t follow (cur @ [c]) cs = Inr ((cur @ [c]) @ cs)" using Cons by (intro Cons.IH) simp_all
  then show ?case using es0 Cons.prems(2) by (simp add: plain_def)
qed simp

lemma resolve_names:
  "resolve n t follow cur cs = Inr p \<Longrightarrow> list_all plain cur \<Longrightarrow> (\<forall>c \<in> set cs. CHR ''/'' \<notin> set c) \<Longrightarrow>
    list_all plain p"
proof (induction n t follow cur cs rule: resolve.induct)
  case (2 n t follow cur c cs)
  have step: "c \<noteq> [] \<Longrightarrow> c \<noteq> ''.'' \<Longrightarrow> c \<noteq> ''..'' \<Longrightarrow> list_all plain (cur @ [c])"
    using "2.prems"(2,3) by (auto simp: plain_def list_all_iff)
  have up: "list_all plain (butlast cur)" using "2.prems"(2) by (auto simp: list_all_iff dest: in_set_butlastD)
  have target: "\<forall>w \<in> set (split_on (CHR ''/'') l @ cs). CHR ''/'' \<notin> set w" for l
    using "2.prems"(3) by (auto dest: split_on_parts)
  have rest: "\<forall>w \<in> set cs. CHR ''/'' \<notin> set w" using "2.prems"(3) by simp
  obtain es where es: "node_at t cur = Some (Dir es)"
    using "2.prems"(1) by (simp split: option.splits fnode.splits)
  note run = "2.prems"(1) [unfolded resolve.simps(2) es option.case fnode.case]
  consider "c = [] \<or> c = ''.''" | "c = ''..''" | "c \<noteq> []" "c \<noteq> ''.''" "c \<noteq> ''..''" by blast
  then show ?case
  proof cases
    case 1
    then show ?thesis using "2.IH"(1) [OF es refl 1] run "2.prems"(2) rest by auto
  next
    case 2
    then show ?thesis using "2.IH"(2) [OF es refl _ 2] run up rest by auto
  next
    case 3
    show ?thesis using 3 es run step [OF 3] "2.IH" target rest "2.prems"(2)
      by (auto split: option.splits fnode.splits if_splits nat.splits simp del: split_on.simps list_all_append)
  qed
qed simp

text \<open>\<open>os.path.realpath\<close> of a path as far as it exists, and \<open>os.path.isdir\<close>: the canonical path of a directory.\<close>

definition real_dir :: "string list \<Rightarrow> string \<Rightarrow> fnode \<Rightarrow> string list option" where
  "real_dir cwd path t = (case resolve_at t True cwd path of
       Inl _ \<Rightarrow> None
     | Inr p \<Rightarrow> (case node_at t p of Some (Dir _) \<Rightarrow> Some p | _ \<Rightarrow> None))"

definition path_string :: "string list \<Rightarrow> string" where
  "path_string p = ''/'' @ join ''/'' p"

lemma real_dir_Some:
  assumes "real_dir cwd path t = Some p" and "list_all plain cwd"
  shows "list_all plain p \<and> (\<exists>es. node_at t p = Some (Dir es))"
proof -
  let ?start = "if starts_with ''/'' path then [] else cwd"
  from assms(1) have run: "resolve 40 t True ?start (split_on (CHR ''/'') path) = Inr p"
      "\<exists>es. node_at t p = Some (Dir es)"
    by (auto simp: real_dir_def resolve_at_def split: sum.splits option.splits fnode.splits if_splits)
  have "list_all plain p"
    by (rule resolve_names [OF run(1)]) (use assms(2) in \<open>auto dest: split_on_parts\<close>)
  with run(2) show ?thesis by blast
qed

lemma open_workspace_real:
  assumes "real_dir cwd path (tree s) = Some p" and "list_all plain cwd"
    and run: "open_workspace cwd' (path_string p) s = (r, u)"
  shows "same_tree s u \<and> (\<forall>w. r = Inr w \<longrightarrow> w = \<lparr> wp_root = p, wp_closed = False \<rparr>)"
proof -
  obtain es where p: "list_all plain p" "node_at (tree s) p = Some (Dir es)" using real_dir_Some [OF assms(1,2)] by blast
  have "resolve 40 (tree s) True [] p = Inr p" using resolve_dirs [of "tree s" "[]" p] p by simp
  with run p show ?thesis
    by (auto simp: open_workspace_def path_string_def abspath_plain [OF p(1), simplified] fs_then_def fs_seq_def
      fs_ret_def syscall_def same_tree_def split: list.splits option.splits)
qed

subsection \<open>Reading\<close>

lemma open_dir_dir:
  assumes "faults s = []" and "plain n" and "node_at (tree s) (fd @ [n]) = Some (Dir es)"
  shows "open_dir fd n create s = (Inr (fd @ [n]), s)"
proof -
  obtain es0 where "node_at (tree s) fd = Some (Dir es0)" using node_at_parent [OF assms(3)] by blast
  then have "k_openat dir_flags fd n s = (Inr (fd @ [n]), s)" using assms
    by (simp add: k_openat_def syscall_no_faults resolve_plain dir_flags_def O_RDONLY_def)
  then show ?thesis by (simp add: open_dir_def)
qed

lemma walk_dirs:
  "faults s = [] \<Longrightarrow> list_all plain names \<Longrightarrow> node_at (tree s) (fd @ names) = Some (Dir es) \<Longrightarrow>
    walk_from fd names create s = (Inr (fd @ names), s)"
proof (induction names arbitrary: fd)
  case (Cons n names)
  obtain es1 where "node_at (tree s) (fd @ [n]) = Some (Dir es1)"
    using dir_above [of "tree s" "fd @ [n]" names] Cons.prems(3) by auto
  then have "open_dir fd n create s = (Inr (fd @ [n]), s)" using Cons.prems by (simp add: open_dir_dir)
  moreover have "walk_from (fd @ [n]) names create s = (Inr ((fd @ [n]) @ names), s)"
    using Cons.prems by (intro Cons.IH) simp_all
  ultimately show ?case by simp
qed simp

lemma open_regular:
  assumes "faults s = []" and "plain n" and "node_at (tree s) (d @ [n]) = Some (File c)"
  shows "open_final d n O_RDONLY s = (Inr (d @ [n]), s)" and "require_regular (d @ [n]) s = (Inr (), s)"
    and "k_read (d @ [n]) s = (Inr c, s)"
proof -
  obtain es where "node_at (tree s) d = Some (Dir es)" using node_at_parent [OF assms(3)] by blast
  then show "open_final d n O_RDONLY s = (Inr (d @ [n]), s)" using assms
    by (simp add: open_final_def k_openat_def syscall_no_faults resolve_plain O_RDONLY_def)
  show "require_regular (d @ [n]) s = (Inr (), s)" "k_read (d @ [n]) s = (Inr c, s)"
    using assms by (simp_all add: require_regular_def k_fstat_def k_read_def syscall_no_faults)
qed

lemma reads_open_for_read:
  "fs_ok same_tree (\<lambda>fd. \<exists>parts. validate_path relative = Inr parts \<and> fd = wp_root w @ parts) (open_for_read w relative)"
  unfolding open_for_read_def ensure_open_def
proof (intro reads.ok_seq reads.ok_ensure TrueI reads.ok_then [OF reads.ok_lift [where Q = "\<lambda>ps. validate_path relative = Inr ps"]]
    reads.ok_then [OF reads_walk])
  fix parts
  assume "validate_path relative = Inr parts"
  then show "list_all plain (butlast parts)" by (rule plain_parts)
next
  fix parts parent
  assume parts: "validate_path relative = Inr parts" and parent: "parent = wp_root w @ butlast parts"
  have fd: "parent @ [last parts] = wp_root w @ parts" using plain_parts(4) [OF parts] by (simp add: parent)
  have regular: "fs_ok same_tree (\<lambda>_. True) (require_regular fd)" for fd
    unfolding require_regular_def by (intro reads.ok_then [OF reads_calls(2)] reads.ok_struct TrueI)
  show "fs_ok same_tree (\<lambda>fd. \<exists>parts. validate_path relative = Inr parts \<and> fd = wp_root w @ parts)
      (fs_then (open_final parent (last parts) O_RDONLY) (\<lambda>fd. fs_seq (require_regular fd) (fs_ret fd)))"
    by (rule reads.ok_then [OF reads_open_final])
      (simp_all add: plain_parts [OF parts] O_RDONLY_def reads.ok_seq [OF regular reads.ok_ret] parts fd)
qed simp

lemma open_for_read_closed: "wp_closed w \<Longrightarrow> open_for_read w relative s = (Inl BadValue, s)"
  by (simp add: open_for_read_def ensure_open_def)

lemma require_regular_Inr:
  "require_regular fd u = (Inr (), t) \<Longrightarrow> \<exists>c. node_at (tree t) fd = Some (File c)"
  by (auto simp: require_regular_def k_fstat_def fs_then_Inr_iff syscall_def fs_raise_def
      split: list.splits option.splits fnode.splits)

lemma open_for_read_iff:
  assumes "faults s = []"
  shows "open_for_read w relative s = (Inr fd, t) \<longleftrightarrow>
    t = s \<and> \<not> wp_closed w \<and> (\<exists>parts c. validate_path relative = Inr parts \<and> fd = wp_root w @ parts
      \<and> node_at (tree s) fd = Some (File c))" (is "?run \<longleftrightarrow> ?spec")
proof
  assume ?spec
  then obtain parts c where spec: "t = s" "\<not> wp_closed w" "validate_path relative = Inr parts"
    "fd = wp_root w @ parts" "node_at (tree s) (wp_root w @ parts) = Some (File c)" by blast
  note parts = plain_parts [OF spec(3)]
  have content_at: "node_at (tree s) ((wp_root w @ butlast parts) @ [last parts]) = Some (File c)"
    using spec(5) parts(4) by simp
  obtain es where dirs: "node_at (tree s) (wp_root w @ butlast parts) = Some (Dir es)"
    using node_at_parent [OF content_at] by blast
  have "walk w (butlast parts) False s = (Inr (wp_root w @ butlast parts), s)"
    using walk_dirs [OF assms parts(2) dirs] by (simp add: walk_def k_dup_def syscall_no_faults assms)
  then show ?run
    using spec(1,2,3,4) open_regular [OF assms parts(3) content_at] parts(4)
    by (simp add: open_for_read_def ensure_open_def)
next
  assume run: ?run
  note read = fs_okD [OF reads_open_for_read run]
  then have same: "t = s" using assms by (auto simp: same_tree_def)
  have open_: "\<not> wp_closed w" using run open_for_read_closed by fastforce
  obtain u where "require_regular fd u = (Inr (), t)"
    using run by (auto simp: open_for_read_def fs_then_Inr_iff fs_seq_Inr_iff)
  then have "\<exists>c. node_at (tree s) fd = Some (File c)" using require_regular_Inr same by blast
  with read open_ same show ?spec by auto
qed



subsection \<open>Symbolic links\<close>

lemma link_probe:
  assumes "faults s = []" and "plain n" and "node_at (tree s) (d @ [n]) = Some (Link l)"
  shows "k_statat d n s = (Inr (Link l), s)" "is_symlink d n s = (Inr True, s)"
proof -
  obtain es where "node_at (tree s) d = Some (Dir es)" using node_at_parent [OF assms(3)] by blast
  then show "k_statat d n s = (Inr (Link l), s)" using assms
    by (simp add: k_statat_def syscall_no_faults resolve_plain)
  then show "is_symlink d n s = (Inr True, s)" by (simp add: is_symlink_def)
qed

lemma open_link:
  assumes "faults s = []" and "plain n" and "node_at (tree s) (d @ [n]) = Some (Link l)"
  shows "open_dir d n create s = (Inl PathSafetyError, s)"
    and "\<not> (o_creat fl \<and> o_excl fl) \<Longrightarrow> open_final d n fl s = (Inl PathSafetyError, s)"
proof -
  obtain es where es: "node_at (tree s) d = Some (Dir es)" using node_at_parent [OF assms(3)] by blast
  have "k_openat dir_flags d n s = (Inl (OsErr ENOTDIR), s)" using assms es
    by (simp add: k_openat_def syscall_no_faults resolve_plain dir_flags_def O_RDONLY_def)
  then show "open_dir d n create s = (Inl PathSafetyError, s)"
    using link_probe(2) [OF assms] by (simp add: open_dir_def reraise_dir_def dir_error_def)
  assume "\<not> (o_creat fl \<and> o_excl fl)"
  then have "k_openat (fl\<lparr> o_nofollow := True \<rparr>) d n s
      = (Inl (OsErr (if o_directory fl then ENOTDIR else ELOOP)), s)" using assms es
    by (auto simp: k_openat_def syscall_no_faults resolve_plain)
  then show "open_final d n fl s = (Inl PathSafetyError, s)"
    using link_probe(2) [OF assms] by (simp add: open_final_def split: if_splits)
qed

lemma walk_link:
  "faults s = [] \<Longrightarrow> list_all plain (ps @ n # qs) \<Longrightarrow> node_at (tree s) (fd @ ps @ [n]) = Some (Link l) \<Longrightarrow>
    walk_from fd (ps @ n # qs) create s = (Inl PathSafetyError, s)"
proof (induction ps arbitrary: fd)
  case Nil
  then show ?case using open_link(1) [of s n fd l create] by simp
next
  case (Cons p ps)
  obtain es where "node_at (tree s) ((fd @ [p]) @ ps) = Some (Dir es)"
    using node_at_parent [of "tree s" "fd @ p # ps" n] Cons.prems(3) by auto
  then obtain es1 where "node_at (tree s) (fd @ [p]) = Some (Dir es1)" using dir_above by blast
  then have "open_dir fd p create s = (Inr (fd @ [p]), s)" using Cons.prems by (simp add: open_dir_dir)
  moreover have "walk_from (fd @ [p]) (ps @ n # qs) create s = (Inl PathSafetyError, s)"
    using Cons.prems by (intro Cons.IH) simp_all
  ultimately show ?case by simp
qed

lemma discard_raises: "fst (discard_tmp parent tmp e s) = Inl e"
proof -
  obtain r t where r: "k_unlinkat parent tmp s = (r, t)" by (cases "k_unlinkat parent tmp s")
  then have "r = Inr () \<or> (\<exists>en. r = Inl (OsErr en))"
    by (auto simp: k_unlinkat_def syscall_def split: list.splits option.splits sum.splits if_splits)
  then show ?thesis using r by (auto simp: discard_tmp_def)
qed

text \<open>Where the walk to the parent of a path with a symbolic link in it ends.\<close>

lemma walk_to_link:
  assumes "faults s = []" and "list_all plain (ps @ n # qs)"
    and link: "node_at (tree s) (wp_root w @ ps @ [n]) = Some (Link l)"
  shows "qs \<noteq> [] \<Longrightarrow> walk w (butlast (ps @ n # qs)) create s = (Inl PathSafetyError, s)"
    and "qs = [] \<Longrightarrow> walk w (butlast (ps @ n # qs)) create s = (Inr (wp_root w @ ps), s)"
    and "walk w (ps @ n # qs) create s = (Inl PathSafetyError, s)"
proof -
  have dup: "k_dup (wp_root w) s = (Inr (wp_root w), s)" using assms(1) by (simp add: k_dup_def syscall_no_faults)
  show "walk w (ps @ n # qs) create s = (Inl PathSafetyError, s)"
    using walk_link [OF assms] dup by (simp add: walk_def)
  show "walk w (butlast (ps @ n # qs)) create s = (Inl PathSafetyError, s)" if "qs \<noteq> []"
  proof -
    have "list_all plain (ps @ n # butlast qs)" using assms(2) by (auto simp: list_all_iff dest: in_set_butlastD)
    from walk_link [OF assms(1) this link] dup that show ?thesis by (simp add: walk_def butlast_append)
  qed
  show "walk w (butlast (ps @ n # qs)) create s = (Inr (wp_root w @ ps), s)" if "qs = []"
  proof -
    obtain es where "node_at (tree s) (wp_root w @ ps) = Some (Dir es)"
      using node_at_parent [of "tree s" "wp_root w @ ps" n] link by auto
    with walk_dirs [OF assms(1), of ps "wp_root w"] assms(2) dup that show ?thesis by (simp add: walk_def butlast_append)
  qed
qed

text \<open>
  A symbolic link anywhere on a path is refused. Without I/O faults, if some component of a valid path
  is a symbolic link, wherever it points, then reading, writing, listing, creating and probing the path
  all raise \<open>PathSafetyError\<close>.
\<close>

theorem symlink_refused:
  assumes "faults s = []" and "\<not> wp_closed w" and valid: "validate_path relative = Inr (ps @ n # qs)"
    and link: "node_at (tree s) (wp_root w @ ps @ [n]) = Some (Link l)"
  shows "fst (read_bytes sha_fn w relative mb s) = Inl PathSafetyError
    \<and> fst (open_for_write w relative s) = Inl PathSafetyError
    \<and> fst (atomic_write sha_fn pid token w relative data s) = Inl PathSafetyError
    \<and> fst (list_dir w relative s) = Inl PathSafetyError
    \<and> fst (mkdir w relative s) = Inl PathSafetyError
    \<and> fst (path_exists w relative s) = Inl PathSafetyError"
proof -
  have plain: "list_all plain (ps @ n # qs)" using validate_plain [OF valid] by simp
  note walk_ = walk_to_link [OF assms(1) plain link]
  have ok: "ensure_open w s = (Inr (), s)" using assms(2) by (simp add: ensure_open_def)
  have "fst (mkdir w relative s) = Inl PathSafetyError" using walk_(3) ok valid by (simp add: mkdir_def)
  moreover consider "qs \<noteq> []" | "qs = []" by blast
  then have "fst (read_bytes sha_fn w relative mb s) = Inl PathSafetyError
    \<and> fst (open_for_write w relative s) = Inl PathSafetyError
    \<and> fst (atomic_write sha_fn pid token w relative data s) = Inl PathSafetyError
    \<and> fst (list_dir w relative s) = Inl PathSafetyError
    \<and> fst (path_exists w relative s) = Inl PathSafetyError"
  proof cases
    case 1
    then show ?thesis using walk_(1) ok valid
      by (simp add: read_bytes_def open_for_read_def open_for_write_def atomic_write_def list_dir_def path_exists_def)
  next
    case 2
    have plain_n: "plain n" using plain by simp
    have at: "node_at (tree s) ((wp_root w @ ps) @ [n]) = Some (Link l)" using link by simp
    note open_ = open_link(2) [OF assms(1) plain_n at] and probe = link_probe [OF assms(1) plain_n at]
    have tmp: "write_and_rename (wp_root w @ ps) n tmp data s = (Inl PathSafetyError, s)" for tmp
      using probe(2) by (simp add: write_and_rename_def write_tmp_def)
    obtain t where discard: "discard_tmp (wp_root w @ ps) (tmp_name pid token) PathSafetyError s = (Inl PathSafetyError, t)"
      using discard_raises [of "wp_root w @ ps" "tmp_name pid token" PathSafetyError s] by (metis prod.collapse)
    from 2 show ?thesis using walk_(2) [OF 2] ok valid open_ probe(1) tmp discard
      by (simp add: read_bytes_def open_for_read_def open_for_write_def atomic_write_def list_dir_def path_exists_def
        O_RDONLY_def Let_def)
  qed
  ultimately show ?thesis by blast
qed

theorem symlink_refused_witness:
  "fst (read_bytes (\<lambda>x. x) sample_ws ''out/passwd'' None sample_fs) = Inl PathSafetyError"
proof -
  have "validate_path ''out/passwd'' = Inr ([] @ ''out'' # [''passwd''])" by code_simp
  moreover have "node_at (tree sample_fs) (wp_root sample_ws @ [] @ [''out'']) = Some (Link ''/etc'')"
    by (simp add: sample_fs_def sample_tree_def sample_ws_def)
  moreover have "faults sample_fs = []" "\<not> wp_closed sample_ws" by (simp_all add: sample_fs_def sample_ws_def)
  ultimately show ?thesis using symlink_refused [of sample_fs sample_ws "''out/passwd''" "[]"] by blast
qed

subsection \<open>Atomic replacement\<close>

lemma leaves_write_all: "m \<noteq> n \<Longrightarrow> fs_ok (keeps_node (d @ [m])) (\<lambda>_. True) (write_all k (d @ [n]) data)"
  by (induction k "d @ [n]" data rule: write_all.induct)
    (auto intro: leaves.ok_ret leaves.ok_raise leaves.ok_then [OF leaves_write])

lemma write_all_Inr:
  "write_all k (d @ [n]) data s = (Inr (), t) \<Longrightarrow> node_at (tree s) (d @ [n]) = Some (File old) \<Longrightarrow>
    node_at (tree t) (d @ [n]) = Some (File (old @ data))"
proof (induction k "d @ [n]" data arbitrary: s old rule: write_all.induct)
  case (3 k c data)
  obtain j u where step: "k_write (d @ [n]) (c # data) s = (Inr j, u)"
    "write_all k (d @ [n]) (drop j (c # data)) u = (Inr (), t)"
    using "3.prems"(1) by (auto simp: fs_then_Inr_iff)
  have "node_at (tree u) (d @ [n]) = Some (File (old @ take j (c # data)))"
    using write_Inr [OF step(1)] "3.prems"(2) by auto
  from "3.hyps" [OF step(2) this] show ?case by simp
qed (auto simp: fs_ret_def)

lemma leaves_write_tmp:
  assumes "plain tmp" "tmp \<noteq> name"
  shows "fs_ok (keeps_node (parent @ [name])) (\<lambda>_. True) (write_tmp parent name tmp data)"
  unfolding write_tmp_def
proof (intro leaves.ok_then [OF keeps_same_tree [OF reads_is_symlink]] leaves.ok_seq leaves.ok_then [OF leaves_openat])
  fix fd assume "fd = parent @ [tmp]"
  then show "fs_ok (keeps_node (parent @ [name])) (\<lambda>_. True) (write_all (length data) fd data)"
    using assms by (simp add: leaves_write_all)
qed (simp_all add: assms assms(2) [symmetric] leaves.ok_ensure keeps_same_tree [OF reads_calls(3)])

lemma write_tmp_Inr:
  assumes "write_tmp parent name tmp data s = (Inr (), t)" "plain tmp"
  shows "node_at (tree t) (parent @ [tmp]) = Some (File data)"
proof -
  let ?fl = "O_RDONLY\<lparr> o_write := True, o_creat := True, o_excl := True, o_nofollow := True \<rparr>"
  from assms(1) obtain u fd v w where run: "k_openat ?fl parent tmp u = (Inr fd, v)"
      "write_all (length data) fd data v = (Inr (), w)" "k_fsync fd w = (Inr (), t)"
    unfolding write_tmp_def by (auto simp: fs_then_Inr_iff fs_seq_Inr_iff)
  then have "fd = parent @ [tmp] \<and> (\<exists>es. node_at (tree u) parent = Some (Dir es))
      \<and> tree v = put_at (tree u) (parent @ [tmp]) (File [])"
    using assms(2) by (auto simp: k_openat_def syscall_def resolve_plain node_at_append split: list.splits call_splits)
  then have fd: "fd = parent @ [tmp]" "node_at (tree v) (parent @ [tmp]) = Some (File [])"
    by (auto simp: node_at_put_same)
  have "tree t = tree w" using fs_okD [OF reads_calls(3) run(3)] by (simp add: same_tree_def)
  then show ?thesis using write_all_Inr [of "length data" parent tmp data v w "[]"] run(2) fd by simp
qed

lemma leaves_discard:
  assumes "plain tmp" "tmp \<noteq> name"
  shows "fs_ok (keeps_node (parent @ [name])) (\<lambda>_. True) (discard_tmp parent tmp e)"
  unfolding discard_tmp_def
  by (intro leaves.ok_struct leaves_unlinkat assms TrueI assms(2) [symmetric])

text \<open>The whole replacement: old or new, and new if it returns.\<close>

lemma write_and_rename_atomic:
  assumes run: "write_and_rename parent name tmp data s = (r, t)" and "plain tmp" "plain name" "tmp \<noteq> name"
  shows "node_at (tree t) (parent @ [name]) \<in> {node_at (tree s) (parent @ [name]), Some (File data)}
    \<and> (r = Inr () \<longrightarrow> node_at (tree t) (parent @ [name]) = Some (File data)
      \<and> node_at (tree t) (parent @ [tmp]) = None)"
proof -
  obtain r1 u where tmp: "write_tmp parent name tmp data s = (r1, u)" by (cases "write_tmp parent name tmp data s")
  have kept: "node_at (tree u) (parent @ [name]) = node_at (tree s) (parent @ [name])"
    using fs_okD [OF leaves_write_tmp [OF assms(2,4)] tmp] by (simp add: keeps_node_def)
  show ?thesis
  proof (cases r1)
    case (Inl e)
    then show ?thesis using run tmp kept by (auto simp: write_and_rename_def)
  next
    case (Inr x)
    then have file_: "node_at (tree u) (parent @ [tmp]) = Some (File data)"
      using write_tmp_Inr assms(2) tmp by simp
    obtain r2 v where mv: "k_renameat parent tmp parent name u = (r2, v)" by (cases "k_renameat parent tmp parent name u")
    show ?thesis
    proof (cases r2)
      case (Inl e)
      then show ?thesis using run tmp Inr mv kept rename_Inl [of parent tmp parent name u e v]
        by (auto simp: write_and_rename_def)
    next
      case (Inr y)
      note done_ = rename_Inr [OF mv [unfolded Inr] assms(2,3) assms(4) [symmetric] file_]
      have "k_fsync parent v = (r, t)" using run tmp \<open>r1 = Inr x\<close> mv Inr by (simp add: write_and_rename_def)
      then have "tree t = tree v" using fs_okD [OF reads_calls(3)] by (auto simp: same_tree_def)
      with done_ show ?thesis by simp
    qed
  qed
qed

text \<open>
  C21. A file is replaced as a whole. Whichever system calls fail, and however few bytes the kernel takes at
  a time, after \<open>atomic_write\<close> the target holds what it held before or exactly the new content, never a
  part of it; if the call returns, the target holds the new content, the result is its hash, and the
  temporary file is gone.
\<close>

theorem atomic_write_atomic:
  assumes run: "atomic_write sha_fn pid token w relative data s = (r, t)"
    and valid: "validate_path relative = Inr parts"
    and tmp: "CHR ''/'' \<notin> set pid" "CHR ''/'' \<notin> set token" "tmp_name pid token \<noteq> last parts"
  shows "node_at (tree t) (wp_root w @ parts) \<in> {node_at (tree s) (wp_root w @ parts), Some (File data)}
    \<and> (\<forall>h. r = Inr h \<longrightarrow> node_at (tree t) (wp_root w @ parts) = Some (File data) \<and> h = sha_fn data
      \<and> node_at (tree t) (wp_root w @ butlast parts @ [tmp_name pid token]) = None)"
proof -
  let ?tmp = "tmp_name pid token" and ?parent = "wp_root w @ butlast parts"
  note parts = plain_parts [OF valid]
  have target: "wp_root w @ parts = ?parent @ [last parts]" using parts(4) by simp
  have tmp_plain: "plain ?tmp" by (rule plain_tmp [OF tmp(1,2)])
  consider "wp_closed w" | "\<not> wp_closed w" by blast
  then show ?thesis
  proof cases
    case 1
    then show ?thesis using run by (auto simp: atomic_write_def ensure_open_def)
  next
    case 2
    obtain rw u where walk_: "walk w (butlast parts) False s = (rw, u)" by (cases "walk w (butlast parts) False s")
    note same = fs_okD [OF reads_walk [OF parts(2)] walk_]
    show ?thesis
    proof (cases rw)
      case (Inl e)
      then show ?thesis using run 2 valid walk_ same by (auto simp: atomic_write_def ensure_open_def same_tree_def)
    next
      case (Inr d)
      then have d: "d = ?parent" and tree: "tree u = tree s" using same by (simp_all add: same_tree_def)
      obtain r1 v where step: "write_and_rename ?parent (last parts) ?tmp data u = (r1, v)"
        by (cases "write_and_rename ?parent (last parts) ?tmp data u")
      note atomic = write_and_rename_atomic [OF step tmp_plain parts(3) tmp(3)]
      show ?thesis
      proof (cases r1)
        case (Inr x)
        then have "r = Inr (sha_fn data) \<and> t = v"
          using run 2 valid walk_ \<open>rw = Inr d\<close> d step by (simp add: atomic_write_def ensure_open_def Let_def)
        then show ?thesis using atomic Inr target tree by simp
      next
        case (Inl e)
        obtain v' where discard: "discard_tmp ?parent ?tmp e v = (Inl e, v')"
          using discard_raises [of ?parent ?tmp e v] by (metis prod.collapse)
        have "r = Inl e \<and> t = v'"
          using run 2 valid walk_ \<open>rw = Inr d\<close> d step Inl discard by (auto simp: atomic_write_def ensure_open_def Let_def)
        moreover have "node_at (tree v') (wp_root w @ parts) = node_at (tree v) (wp_root w @ parts)"
          using fs_okD [OF leaves_discard [OF tmp_plain tmp(3)] discard] target by (simp add: keeps_node_def)
        ultimately show ?thesis using atomic target tree by simp
      qed
    qed
  qed
qed

text \<open>
  At a concrete input: the replacement of \<open>a.txt\<close> fails while the data is being written and keeps the old
  content; without the fault the new content is there although each call takes two bytes at most.
\<close>

theorem atomic_write_atomic_witness:
  "node_at (tree (snd (atomic_write (\<lambda>x. x) ''1'' ''ab'' sample_ws ''a.txt'' ''bye''
      (sample_fs\<lparr> faults := [None, None, None, None, Some ENOSPC] \<rparr>)))) [''ws'', ''a.txt'']
    \<in> {Some (File ''hello''), Some (File ''bye'')}"
proof -
  let ?s = "sample_fs\<lparr> faults := [None, None, None, None, Some ENOSPC] \<rparr>"
  have valid: "validate_path ''a.txt'' = Inr [''a.txt'']" by code_simp
  have old: "node_at (tree ?s) (wp_root sample_ws @ [''a.txt'']) = Some (File ''hello'')" 
    by (simp add: sample_fs_def sample_tree_def sample_ws_def)
  have root: "wp_root sample_ws @ [''a.txt''] = [''ws'', ''a.txt'']" by (simp add: sample_ws_def)
  obtain r t where run: "atomic_write (\<lambda>x. x) ''1'' ''ab'' sample_ws ''a.txt'' ''bye'' ?s = (r, t)" by fastforce
  have "tmp_name ''1'' ''ab'' \<noteq> last [''a.txt'']" by (simp add: tmp_name_def)
  from atomic_write_atomic [OF run valid _ _ this] run old root show ?thesis by simp
qed

end
