(* ===== verification/Broker.thy ===== *)
theory Broker
  imports Results Side_Effects Paths
begin

text \<open>
  \<open>tools/broker.py\<close>: the boundary between a worker and the file system. \<open>authorize\<close> decides every
  tool request against the Run's frozen grant and current lifecycle and records the decision in
  \<open>tool_invocations\<close> before anything happens; \<open>execute_fs_read\<close>, \<open>execute_fs_write\<close> and
  \<open>execute_fs_list\<close> then act inside the Run's recorded workspace, through \<open>WorkspacePaths\<close>, and record
  the outcome. A tool call runs over the database and the file system.
\<close>

subsection \<open>Requests and decisions\<close>

record ToolRequest =
  tr_run_id :: string
  tr_task_id :: string
  tr_work_unit_id :: "string option"
  tr_tool_name :: string
  tr_parameters :: json
  tr_grant_epoch :: int
  tr_fencing_epoch :: int
  tr_sequence_no :: int

record ToolDecision =
  td_allowed :: bool
  td_reason :: "string option"
  td_invocation_id :: "string option"

subsection \<open>Authorization\<close>

definition FROZEN_TASK_STATES :: "TaskState list" where
  "FROZEN_TASK_STATES = [WAITING_HUMAN, PAUSING, PAUSED, CANCELLING]"

definition binding_error :: "AuthContext \<Rightarrow> AgentRunRow \<Rightarrow> TaskRow \<Rightarrow> ToolRequest option \<Rightarrow> string option" where
  "binding_error auth run task request =
    (if actor_type auth \<noteq> INTERNAL then Some ''authorization_denied''
     else if principal_id auth \<noteq> tk_principal_id task then Some ''authorization_denied''
     else if (case request of None \<Rightarrow> False
        | Some r \<Rightarrow> tr_task_id r \<noteq> [] \<and> tr_task_id r \<noteq> ar_task_id run) then Some ''authorization_denied''
     else if (case request of None \<Rightarrow> False
        | Some r \<Rightarrow> ar_work_unit_id run \<noteq> None
            \<and> tr_work_unit_id r \<notin> {None, ar_work_unit_id run}) then Some ''authorization_denied''
     else if bound_task_id auth \<noteq> Some (ar_task_id run) \<or> bound_run_id auth \<noteq> Some (ar_run_id run)
        \<or> bound_fencing_epoch auth \<noteq> Some (ar_fencing_epoch run)
        \<or> bound_grant_epoch auth \<noteq> Some (ar_grant_epoch run)
        \<or> Some (actor_id auth) \<noteq> ar_agent_instance_id run then Some ''authorization_denied''
     else None)"

definition task_frozen :: "TaskRow \<Rightarrow> bool tx" where
  "task_frozen task =
    (if tk_state task \<in> set FROZEN_TASK_STATES then ret True
     else if tk_cancel_intent task \<or> tk_pause_intent task then ret True
     else andthen (select_gate (gate_open (tk_task_id task))) (\<lambda>gate.
       ret (gate \<noteq> [])))"

definition sequence_taken :: "AgentRunRow \<Rightarrow> ToolRequest \<Rightarrow> bool tx" where
  "sequence_taken run request =
    andthen (select_tool_invocation (\<lambda>i. ti_task_id i = ar_task_id run \<and> ti_run_id i = ar_run_id run
       \<and> ti_sequence_no i = tr_sequence_no request)) (\<lambda>existing.
    ret (existing \<noteq> []))"

definition request_work_unit :: "ToolRequest \<Rightarrow> AgentRunRow \<Rightarrow> string option" where
  "request_work_unit request run =
    (if tr_work_unit_id request \<noteq> None then tr_work_unit_id request else ar_work_unit_id run)"

definition request_parameters :: "ToolRequest \<Rightarrow> json" where
  "request_parameters request = (if is_obj (tr_parameters request) then tr_parameters request else JObj [])"

text \<open>The audit row of a decision.\<close>

definition invocation_row :: "env \<Rightarrow> string \<Rightarrow> AgentRunRow \<Rightarrow> ToolRequest \<Rightarrow> int \<Rightarrow> ToolInvocationRow" where
  "invocation_row E invocation_id run request ts = \<lparr> ti_invocation_id = invocation_id,
     ti_task_id = ar_task_id run, ti_run_id = ar_run_id run,
     ti_work_unit_id = request_work_unit request run, ti_sequence_no = tr_sequence_no request,
     ti_tool_name = tr_tool_name request, ti_parameters_json = request_parameters request,
     ti_parameters_hash = content_hash (sha E) (request_parameters request),
     ti_decision = ''ALLOW'', ti_deny_reason = None, ti_grant_epoch = tr_grant_epoch request,
     ti_fencing_epoch = tr_fencing_epoch request, ti_outcome = None, ti_result_json = None,
     ti_created_at = ts, ti_finished_at = None \<rparr>"

definition deny :: "env \<Rightarrow> AgentRunRow \<Rightarrow> ToolRequest \<Rightarrow> string \<Rightarrow> ToolDecision tx" where
  "deny E run request reason =
    andthen now (\<lambda>ts.
    andthen (new_id E ''tool'') (\<lambda>invocation_id.
    seq (add_tool_invocation ((invocation_row E invocation_id run request ts)
       \<lparr> ti_decision := ''DENY'', ti_deny_reason := Some reason, ti_outcome := Some ''denied'',
          ti_finished_at := Some ts \<rparr>)) (
    ret \<lparr> td_allowed = False, td_reason = Some reason, td_invocation_id = Some invocation_id \<rparr>)))"

definition allow :: "env \<Rightarrow> AgentRunRow \<Rightarrow> ToolRequest \<Rightarrow> ToolDecision tx" where
  "allow E run request =
    andthen (new_id E ''tool'') (\<lambda>invocation_id.
    andthen now (\<lambda>ts.
    seq (add_tool_invocation (invocation_row E invocation_id run request ts)) (
    ret \<lparr> td_allowed = True, td_reason = None, td_invocation_id = Some invocation_id \<rparr>)))"

text \<open>\<open>request.tool_name not in M1_TOOL_CATALOG or request.tool_name not in granted\<close>.\<close>

definition tool_refused :: "RunInputRow \<Rightarrow> ToolRequest \<Rightarrow> bool tx" where
  "tool_refused run_input request =
    (if tr_tool_name request \<notin> set M1_TOOL_CATALOG then ret True
     else andthen (py_in (JStr (tr_tool_name request)) (ri_granted_tools_json run_input)) (\<lambda>granted.
       ret (\<not> granted)))"

definition authorize_bound :: "env \<Rightarrow> AuthContext \<Rightarrow> ToolRequest \<Rightarrow> AgentRunRow \<Rightarrow> RunInputRow \<Rightarrow> TaskRow
    \<Rightarrow> ToolDecision tx" where
  "authorize_bound E auth request run run_input task =
    (if binding_error auth run task (Some request) \<noteq> None then deny E run request ''authorization_denied''
     else if ar_status run \<noteq> R_RUNNING then deny E run request ''run_not_running''
     else if tr_fencing_epoch request \<noteq> ar_fencing_epoch run then deny E run request ''fencing_conflict''
     else if tr_grant_epoch request \<noteq> ar_grant_epoch run then deny E run request ''grant_conflict''
     else andthen (task_frozen task) (\<lambda>frozen.
       (if frozen then deny E run request ''task_frozen''
        else andthen (tool_refused run_input request) (\<lambda>refused.
          (if refused then deny E run request ''tool_not_granted''
           else andthen (sequence_taken run request) (\<lambda>taken.
             (if taken then deny E run request ''duplicate_sequence'' else allow E run request)))))))"

definition authorize_in_tx :: "env \<Rightarrow> AuthContext \<Rightarrow> ToolRequest \<Rightarrow> ToolDecision tx" where
  "authorize_in_tx E auth request =
    andthen (get_run (tr_run_id request)) (\<lambda>run_row.
    (case run_row of
        None \<Rightarrow> ret \<lparr> td_allowed = False, td_reason = Some ''run_not_found'', td_invocation_id = None \<rparr>
      | Some run \<Rightarrow> andthen (get_run_input (tr_run_id request)) (\<lambda>input_row.
        (case input_row of
             None \<Rightarrow> deny E run request ''run_input_unknown''
           | Some run_input \<Rightarrow> andthen (get_task (ar_task_id run)) (\<lambda>task_row.
             (case task_row of
                  None \<Rightarrow> deny E run request ''run_not_found''
                | Some task \<Rightarrow> authorize_bound E auth request run run_input task))))))"

definition authorize :: "env \<Rightarrow> AuthContext \<Rightarrow> ToolRequest \<Rightarrow> ToolDecision tx" where
  "authorize E auth request = run_tx (authorize_in_tx E auth request)"

subsection \<open>Outcomes\<close>

text \<open>The row of an invocation with its Run and Task; the credential must still be bound to the Run.\<close>

definition bound_invocation :: "AuthContext \<Rightarrow> string \<Rightarrow> ToolInvocationRow tx" where
  "bound_invocation auth invocation_id =
    andthen (get_tool_invocation invocation_id) (\<lambda>row_opt.
    andthen (the_or (NotFoundError ''invocation_not_found'') row_opt) (\<lambda>row.
    andthen (get_run (ti_run_id row)) (\<lambda>run_opt.
    andthen (the_or (NotFoundError ''run_not_found'') run_opt) (\<lambda>run.
    andthen (get_task (ar_task_id run)) (\<lambda>task_opt.
    andthen (the_or (NotFoundError ''task_not_found'') task_opt) (\<lambda>task.
    seq (ensure (binding_error auth run task None = None) denied) (
    ret row)))))))"

definition record_outcome_in_tx :: "AuthContext \<Rightarrow> string \<Rightarrow> string \<Rightarrow> json option \<Rightarrow> unit tx" where
  "record_outcome_in_tx auth invocation_id outcome result =
    andthen (bound_invocation auth invocation_id) (\<lambda>row.
    seq (ensure (ti_outcome row = None \<or> ti_outcome row = Some outcome)
       (ConflictError ''invocation_already_finished'')) (
    andthen now (\<lambda>ts.
    upd_tool_invocation invocation_id (\<lambda>r. r\<lparr> ti_outcome := Some outcome,
       ti_result_json := (if result = None then ti_result_json r else result),
       ti_finished_at := (if ti_finished_at r = None then Some ts else ti_finished_at r) \<rparr>))))"

definition record_outcome :: "AuthContext \<Rightarrow> string \<Rightarrow> string \<Rightarrow> json option \<Rightarrow> unit tx" where
  "record_outcome auth invocation_id outcome result =
    (if outcome = [] then raise ValueError
     else run_tx (record_outcome_in_tx auth invocation_id outcome result))"

text \<open>A refusal found while executing: the decision becomes DENY. (Its not-found code is \<open>run_not_found\<close> for a missing Task as well.)\<close>

definition record_refusal_in_tx :: "AuthContext \<Rightarrow> string \<Rightarrow> string \<Rightarrow> string \<Rightarrow> unit tx" where
  "record_refusal_in_tx auth invocation_id reason detail =
    andthen (get_tool_invocation invocation_id) (\<lambda>row_opt.
    andthen (the_or (NotFoundError ''invocation_not_found'') row_opt) (\<lambda>row.
    andthen (get_run (ti_run_id row)) (\<lambda>run_opt.
    andthen (the_or (NotFoundError ''run_not_found'') run_opt) (\<lambda>run.
    andthen (get_task (ar_task_id run)) (\<lambda>task_opt.
    andthen (the_or (NotFoundError ''run_not_found'') task_opt) (\<lambda>task.
    seq (ensure (binding_error auth run task None = None) denied) (
    andthen now (\<lambda>ts.
    upd_tool_invocation invocation_id (\<lambda>r. r\<lparr> ti_decision := ''DENY'', ti_deny_reason := Some reason,
       ti_outcome := Some ''denied'',
       ti_result_json := Some (JObj [(''reason'', JStr reason), (''error'', JStr detail)]),
       ti_finished_at := (if ti_finished_at r = None then Some ts else ti_finished_at r) \<rparr>)))))))))"

definition record_refusal :: "AuthContext \<Rightarrow> string \<Rightarrow> string \<Rightarrow> string \<Rightarrow> unit tx" where
  "record_refusal auth invocation_id reason detail = run_tx (record_refusal_in_tx auth invocation_id reason detail)"

subsection \<open>Tool calls\<close>

text \<open>
  What a filesystem tool raises: the refusal of the path layer, a missing workspace, or any other
  Python error (named by its class).
\<close>

datatype tool_error = PathEscape | WorkspaceMissing | ToolFailed string

text \<open>
  The broker object and the process it runs in: the configured workspace root and read cap, the working
  directory, the process id and random token in the name of a temporary file, the text of an error, and
  Python's UTF-8 decoder with \<open>errors="replace"\<close>.
\<close>

record broker =
  bk_workspace_root :: "string option"
  bk_max_read_bytes :: int
  bk_cwd :: "string list"
  bk_pid :: string
  bk_token :: string
  bk_describe :: "tool_error \<Rightarrow> string"
  bk_decode :: "string \<Rightarrow> string"

definition DEFAULT_MAX_READ_BYTES :: int where
  "DEFAULT_MAX_READ_BYTES = 256 * 1024"

type_synonym 'a toolop = "sess \<times> fsys \<Rightarrow> (tool_error + 'a) \<times> (sess \<times> fsys)"

definition w_ret :: "'a \<Rightarrow> 'a toolop" where
  "w_ret x = (\<lambda>w. (Inr x, w))"

definition w_raise :: "tool_error \<Rightarrow> 'a toolop" where
  "w_raise e = (\<lambda>w. (Inl e, w))"

definition w_then :: "'a toolop \<Rightarrow> ('a \<Rightarrow> 'b toolop) \<Rightarrow> 'b toolop" where
  "w_then m f = (\<lambda>w. case m w of (Inl e, w') \<Rightarrow> (Inl e, w') | (Inr x, w') \<Rightarrow> f x w')"

definition w_seq :: "unit toolop \<Rightarrow> 'b toolop \<Rightarrow> 'b toolop" where
  "w_seq m k = w_then m (\<lambda>_. k)"

definition w_ensure :: "bool \<Rightarrow> tool_error \<Rightarrow> unit toolop" where
  "w_ensure b e = (if b then w_ret () else w_raise e)"

text \<open>The Python class of an \<open>OSError\<close> by its \<open>errno\<close>, and of what a read-only transaction may raise.\<close>

fun os_error_class :: "errno \<Rightarrow> string" where
  "os_error_class ENOENT = ''FileNotFoundError''"
| "os_error_class ENOTDIR = ''NotADirectoryError''"
| "os_error_class EISDIR = ''IsADirectoryError''"
| "os_error_class EEXIST = ''FileExistsError''"
| "os_error_class EACCES = ''PermissionError''"
| "os_error_class _ = ''OSError''"

definition exn_class :: "exn \<Rightarrow> string" where
  "exn_class e = (case e of RuntimeError _ \<Rightarrow> ''RuntimeError'' | IntegrityError \<Rightarrow> ''IntegrityError''
     | _ \<Rightarrow> ''Exception'')"

definition w_fs :: "'a fsop \<Rightarrow> 'a toolop" where
  "w_fs m = (\<lambda>(s, f). case m f of
       (Inl PathSafetyError, f') \<Rightarrow> (Inl PathEscape, (s, f'))
     | (Inl (OsErr e), f') \<Rightarrow> (Inl (ToolFailed (os_error_class e)), (s, f'))
     | (Inl BadValue, f') \<Rightarrow> (Inl (ToolFailed ''ValueError''), (s, f'))
     | (Inr x, f') \<Rightarrow> (Inr x, (s, f')))"

definition w_tx :: "'a tx \<Rightarrow> 'a toolop" where
  "w_tx m = (\<lambda>(s, f). case m s of
       (Inl e, s') \<Rightarrow> (Inl (ToolFailed (exn_class e)), (s', f)) | (Inr x, s') \<Rightarrow> (Inr x, (s', f)))"

definition w_tree :: "(fnode \<Rightarrow> 'a) \<Rightarrow> 'a toolop" where
  "w_tree g = (\<lambda>(s, f). (Inr (g (tree f)), (s, f)))"

definition tool_params :: "ToolRequest \<Rightarrow> dict toolop" where
  "tool_params request =
    (if is_obj (tr_parameters request) then w_ret (entries (tr_parameters request))
     else w_raise (ToolFailed ''TypeError''))"

definition require_str :: "dict \<Rightarrow> string \<Rightarrow> string toolop" where
  "require_str params key = (case dget params key of
       JStr v \<Rightarrow> if v \<noteq> [] then w_ret v else w_raise (ToolFailed ''ValueError'')
     | _ \<Rightarrow> w_raise (ToolFailed ''ValueError''))"

text \<open>The recorded workspace must exist and lie below the configured root; \<open>commonpath\<close> compares components.\<close>

definition tool_workspace :: "broker \<Rightarrow> string \<Rightarrow> string list toolop" where
  "tool_workspace B run_id =
    w_then (w_tx (run_tx (andthen (get_run_input run_id) (\<lambda>row.
      ret (case row of None \<Rightarrow> None | Some r \<Rightarrow> ri_workspace_path r))))) (\<lambda>recorded.
    w_seq (w_ensure (is_set recorded) WorkspaceMissing) (
    w_then (w_tree (real_dir (bk_cwd B) (or_else recorded []))) (\<lambda>resolved.
    w_seq (w_ensure (resolved \<noteq> None) WorkspaceMissing) (
    w_then (w_tree (\<lambda>t. case bk_workspace_root B of None \<Rightarrow> Some []
       | Some r \<Rightarrow> if r = [] then Some (bk_cwd B) else real_dir (bk_cwd B) r t)) (\<lambda>root.
    w_seq (w_ensure (root \<noteq> None \<and> prefix (the root) (the resolved)) PathEscape) (
    w_ret (the resolved)))))))"

definition with_paths :: "broker \<Rightarrow> string list \<Rightarrow> (workspace_paths \<Rightarrow> 'a fsop) \<Rightarrow> 'a toolop" where
  "with_paths B workspace m = w_fs (fs_then (open_workspace (bk_cwd B) (path_string workspace)) m)"

definition fs_read_body :: "env \<Rightarrow> broker \<Rightarrow> ToolRequest \<Rightarrow> json toolop" where
  "fs_read_body E B request =
    w_then (tool_params request) (\<lambda>params.
    w_then (require_str params ''path'') (\<lambda>relative.
    let asked = dget_or params ''max_bytes'' (JInt (bk_max_read_bytes B)) in
    w_then (case py_int asked of
         None \<Rightarrow> w_raise (ToolFailed (case asked of JStr _ \<Rightarrow> ''ValueError'' | _ \<Rightarrow> ''TypeError''))
       | Some l \<Rightarrow> w_ret l) (\<lambda>limit.
    w_seq (w_ensure (0 < limit) (ToolFailed ''ValueError'')) (
    w_then (tool_workspace B (tr_run_id request)) (\<lambda>workspace.
    w_then (with_paths B workspace (\<lambda>p. fs_then (open_for_read p relative) (\<lambda>fh.
      fs_then (k_read fh) (\<lambda>content.
      fs_ret (bounded (Some (limit + 1)) content))))) (\<lambda>got.
    let truncated = limit < int (length got) in
    let data = (if truncated then take (nat limit) got else got) in
    w_ret (JObj [(''status'', JStr ''ok''), (''path'', JStr relative),
       (''content'', JStr (bk_decode B data)), (''sha256'', JStr (sha E data)),
       (''bytes'', JInt (int (length data))), (''truncated'', JBool truncated)])))))))"

definition fs_list_body :: "broker \<Rightarrow> ToolRequest \<Rightarrow> json toolop" where
  "fs_list_body B request =
    w_then (tool_params request) (\<lambda>params.
    w_then (require_str params ''path'') (\<lambda>relative.
    w_then (tool_workspace B (tr_run_id request)) (\<lambda>workspace.
    w_then (with_paths B workspace (\<lambda>p. list_dir p relative)) (\<lambda>names.
    w_ret (JObj [(''status'', JStr ''ok''), (''path'', JStr relative), (''entries'', jstrs names)])))))"

definition fs_write_body :: "env \<Rightarrow> broker \<Rightarrow> ToolRequest \<Rightarrow> json toolop" where
  "fs_write_body E B request =
    w_then (tool_params request) (\<lambda>params.
    w_then (require_str params ''path'') (\<lambda>relative.
    w_then (case dget params ''content'' of JStr c \<Rightarrow> w_ret c | _ \<Rightarrow> w_raise (ToolFailed ''ValueError'')) (\<lambda>data.
    w_then (tool_workspace B (tr_run_id request)) (\<lambda>workspace.
    w_then (with_paths B workspace (\<lambda>p. atomic_write (sha E) (bk_pid B) (bk_token B) p relative data)) (\<lambda>digest.
    w_ret (JObj [(''status'', JStr ''ok''), (''path'', JStr relative), (''sha256'', JStr digest),
       (''bytes'', JInt (int (length data)))]))))))"

text \<open>
  The frame of the three \<open>execute_fs_*\<close> methods: authorize; run the body; record a refusal, an error, or
  the result. An error of the recording itself goes to the caller.
\<close>

definition refuse :: "broker \<Rightarrow> AuthContext \<Rightarrow> string \<Rightarrow> string \<Rightarrow> tool_error \<Rightarrow> json tx" where
  "refuse B auth invocation_id reason e =
    seq (record_refusal auth invocation_id reason (bk_describe B e)) (
    ret (JObj [(''status'', JStr ''denied''), (''reason'', JStr reason)]))"

definition fail_tool :: "broker \<Rightarrow> AuthContext \<Rightarrow> string \<Rightarrow> tool_error \<Rightarrow> json tx" where
  "fail_tool B auth invocation_id e =
    seq (record_outcome auth invocation_id ''error'' (Some (JObj [(''error'', JStr (bk_describe B e)),
       (''error_type'', JStr (case e of ToolFailed c \<Rightarrow> c | _ \<Rightarrow> []))]))) (
    ret (JObj [(''status'', JStr ''error''), (''error'', JStr (bk_describe B e))]))"

definition finish_tool :: "broker \<Rightarrow> AuthContext \<Rightarrow> string \<Rightarrow> tool_error + json \<Rightarrow> json tx" where
  "finish_tool B auth invocation_id outcome = (case outcome of
       Inl PathEscape \<Rightarrow> refuse B auth invocation_id ''path_escape'' PathEscape
     | Inl WorkspaceMissing \<Rightarrow> refuse B auth invocation_id ''workspace_missing'' WorkspaceMissing
     | Inl (ToolFailed c) \<Rightarrow> fail_tool B auth invocation_id (ToolFailed c)
     | Inr result \<Rightarrow> seq (record_outcome auth invocation_id ''ok'' (Some result)) (
       ret result))"

definition execute_tool :: "env \<Rightarrow> broker \<Rightarrow> AuthContext \<Rightarrow> ToolRequest \<Rightarrow> json toolop
    \<Rightarrow> sess \<times> fsys \<Rightarrow> (exn + json) \<times> (sess \<times> fsys)" where
  "execute_tool E B auth request body = (\<lambda>(s, f).
     case authorize E auth request s of
       (Inl e, s1) \<Rightarrow> (Inl e, (s1, f))
     | (Inr decision, s1) \<Rightarrow>
        if \<not> td_allowed decision then
          (Inr (JObj [(''status'', JStr ''denied''), (''reason'', jopt (td_reason decision))]), (s1, f))
        else (case body (s1, f) of (outcome, (s2, f2)) \<Rightarrow>
          (case finish_tool B auth (or_else (td_invocation_id decision) []) outcome s2 of
             (r, s3) \<Rightarrow> (r, (s3, f2)))))"

definition execute_fs_read where
  "execute_fs_read E B auth request = execute_tool E B auth request (fs_read_body E B request)"

definition execute_fs_list where
  "execute_fs_list E B auth request = execute_tool E B auth request (fs_list_body B request)"

definition execute_fs_write where
  "execute_fs_write E B auth request = execute_tool E B auth request (fs_write_body E B request)"

subsection \<open>When a tool call is allowed\<close>

lemma deny_not_allowed: "deny E run request reason s = (Inr d, t) \<Longrightarrow> \<not> td_allowed d"
  by (auto simp: deny_def andthen_Inr_iff seq_Inr_iff)

lemma allow_result:
  "allow E run request s = (Inr d, t) \<longleftrightarrow>
    d = \<lparr> td_allowed = True, td_reason = None, td_invocation_id = Some (''tool_'' @ hex16 E (uid s)) \<rparr>
    \<and> t = s\<lparr> uid := Suc (uid s), tool_invocations :=
      t_add (invocation_row E (''tool_'' @ hex16 E (uid s)) run request (clock_now s)) (tool_invocations s) \<rparr>"
  by (auto simp: allow_def new_id_def andthen_def seq_def)

definition granted_tool :: "RunInputRow \<Rightarrow> string \<Rightarrow> bool" where
  "granted_tool run_input tool \<longleftrightarrow> tool \<in> set M1_TOOL_CATALOG
    \<and> JStr tool \<in> set (items (ri_granted_tools_json run_input))"

lemma frozen_run:
  "clean s \<Longrightarrow> task_frozen task s = (Inr (tk_state task \<in> set FROZEN_TASK_STATES \<or> tk_cancel_intent task
      \<or> tk_pause_intent task \<or> (\<exists>g \<in> set (t_rows (gates s)). gate_open (tk_task_id task) g)), s)"
  by (auto simp: task_frozen_def andthen_def clean_def t_select_clean filter_empty_conv)

lemma sequence_run:
  "clean s \<Longrightarrow> sequence_taken run request s = (Inr (\<exists>i \<in> set (t_rows (tool_invocations s)).
      ti_task_id i = ar_task_id run \<and> ti_run_id i = ar_run_id run \<and> ti_sequence_no i = tr_sequence_no request), s)"
  by (auto simp: sequence_taken_def andthen_def clean_def t_select_clean filter_empty_conv)

lemma refused_run:
  "is_list (ri_granted_tools_json ri) \<Longrightarrow>
    tool_refused ri request s = (Inr (\<not> granted_tool ri (tr_tool_name request)), s)"
  by (cases "ri_granted_tools_json ri")
    (auto simp: tool_refused_def granted_tool_def py_in_def andthen_def is_list_def)

text \<open>The first rule a request breaks.\<close>

definition refusal :: "sess \<Rightarrow> AuthContext \<Rightarrow> ToolRequest \<Rightarrow> AgentRunRow \<Rightarrow> RunInputRow \<Rightarrow> TaskRow \<Rightarrow> string option" where
  "refusal s auth request run ri task =
    (if binding_error auth run task (Some request) \<noteq> None then Some ''authorization_denied''
     else if ar_status run \<noteq> R_RUNNING then Some ''run_not_running''
     else if tr_fencing_epoch request \<noteq> ar_fencing_epoch run then Some ''fencing_conflict''
     else if tr_grant_epoch request \<noteq> ar_grant_epoch run then Some ''grant_conflict''
     else if tk_state task \<in> set FROZEN_TASK_STATES \<or> tk_cancel_intent task \<or> tk_pause_intent task
       \<or> (\<exists>g \<in> set (t_rows (gates s)). gate_open (tk_task_id task) g) then Some ''task_frozen''
     else if \<not> granted_tool ri (tr_tool_name request) then Some ''tool_not_granted''
     else if \<exists>i \<in> set (t_rows (tool_invocations s)). ti_task_id i = ar_task_id run
       \<and> ti_run_id i = ar_run_id run \<and> ti_sequence_no i = tr_sequence_no request then Some ''duplicate_sequence''
     else None)"

lemma authorize_bound_run:
  assumes "clean s" and "is_list (ri_granted_tools_json ri)"
  shows "authorize_bound E auth request run ri task s = (case refusal s auth request run ri task of
    Some reason \<Rightarrow> deny E run request reason s | None \<Rightarrow> allow E run request s)"
  unfolding authorize_bound_def refusal_def
  by (simp add: frozen_run [OF assms(1)] sequence_run [OF assms(1)] refused_run [OF assms(2)]) blast

lemma binding_error_None:
  "binding_error auth run task (Some request) = None \<longleftrightarrow>
    actor_type auth = INTERNAL \<and> principal_id auth = tk_principal_id task \<and> runtime_bound auth run
    \<and> tr_task_id request \<in> {[], ar_task_id run}
    \<and> (ar_work_unit_id run = None \<or> tr_work_unit_id request \<in> {None, ar_work_unit_id run})"
  by (auto simp: binding_error_def runtime_bound_def)

text \<open>
  C18. A tool call is allowed exactly if the request's Run exists and is RUNNING, the credential is the
  Run's own runtime, of the owner's principal, with the Run's current fencing and grant epochs, the request
  carries these epochs and names no other Task or Work Unit, the Task is neither waiting, pausing, paused nor
  cancelling and no gate of it is open, the tool is in the closed catalogue and among the tools frozen into the
  Run's input, and the Run has not used the sequence number before. Allowing does nothing but add the audit
  row.
\<close>

theorem authorize_allow_iff:
  assumes clean: "clean s"
    and rows: "t_get ar_run_id (tr_run_id request) (runs s) = Some run"
      "t_get ri_run_id (tr_run_id request) (run_inputs s) = Some ri"
      "t_get tk_task_id (ar_task_id run) (tasks s) = Some task"
    and list: "is_list (ri_granted_tools_json ri)"
  shows "(\<exists>d. authorize_in_tx E auth request s = (Inr d, t) \<and> td_allowed d) \<longleftrightarrow>
    ar_status run = R_RUNNING
    \<and> actor_type auth = INTERNAL \<and> principal_id auth = tk_principal_id task \<and> runtime_bound auth run
    \<and> tr_task_id request \<in> {[], ar_task_id run}
    \<and> (ar_work_unit_id run = None \<or> tr_work_unit_id request \<in> {None, ar_work_unit_id run})
    \<and> tr_fencing_epoch request = ar_fencing_epoch run \<and> tr_grant_epoch request = ar_grant_epoch run
    \<and> tk_state task \<notin> set FROZEN_TASK_STATES \<and> \<not> tk_cancel_intent task \<and> \<not> tk_pause_intent task
    \<and> (\<forall>g \<in> set (t_rows (gates s)). \<not> gate_open (tk_task_id task) g)
    \<and> granted_tool ri (tr_tool_name request)
    \<and> (\<forall>i \<in> set (t_rows (tool_invocations s)). ti_task_id i = ar_task_id run
      \<and> ti_run_id i = ar_run_id run \<longrightarrow> ti_sequence_no i \<noteq> tr_sequence_no request)
    \<and> t = s\<lparr> uid := Suc (uid s), tool_invocations :=
      t_add (invocation_row E (''tool_'' @ hex16 E (uid s)) run request (clock_now s)) (tool_invocations s) \<rparr>"
    (is "?allowed \<longleftrightarrow> ?spec")
proof -
  have "?allowed \<longleftrightarrow> (\<exists>d. authorize_bound E auth request run ri task s = (Inr d, t) \<and> td_allowed d)"
    using rows by (simp add: authorize_in_tx_def andthen_Inr_iff)
  also have "... \<longleftrightarrow> refusal s auth request run ri task = None \<and> (\<exists>d. allow E run request s = (Inr d, t) \<and> td_allowed d)"
    by (auto simp: authorize_bound_run [OF clean list] dest: deny_not_allowed split: option.splits)
  also have "... \<longleftrightarrow> ?spec"
    by (simp add: allow_result refusal_def binding_error_None) blast
  finally show ?thesis .
qed

text \<open>
  The audit row of a refusal carries the request's sequence number, which must be unique: a refused
  request that reuses a number is not answered but fails at the commit, and nothing is recorded.
\<close>

lemma t_keys_add: "t_clean t \<Longrightarrow> t_keys key (t_add r t) = map key (t_rows t) @ [key r]"
  by (induction t) (auto simp: t_keys_def t_add_def t_rows_def t_clean_def)

lemma reused_sequence_breaks_constraints:
  assumes "clean s" and "i \<in> set (t_rows (tool_invocations s))"
    and "ti_task_id i = ti_task_id row" "ti_run_id i = ti_run_id row" "ti_sequence_no i = ti_sequence_no row"
    and "tool_invocations t = t_add row (tool_invocations s)"
  shows "\<not> constraints_ok t"
proof -
  let ?key = "\<lambda>r. (ti_task_id r, ti_run_id r, ti_sequence_no r)"
  have "t_clean (tool_invocations s)" using assms(1) by (simp add: clean_def)
  then have keys: "t_keys ?key (tool_invocations t) = map ?key (t_rows (tool_invocations s)) @ [?key row]"
    unfolding assms(6) by (rule t_keys_add)
  have "?key row \<in> ?key ` set (t_rows (tool_invocations s))"
    by (rule image_eqI [OF _ assms(2)]) (simp add: assms(3-5))
  then have "\<not> distinct (t_keys ?key (tool_invocations t))" unfolding keys by simp
  moreover have "constraints_ok t \<Longrightarrow> distinct (t_keys ?key (tool_invocations t))" by (simp only: constraints_ok_def)
  ultimately show ?thesis by blast
qed

theorem duplicate_sequence_raises:
  assumes clean: "clean s" "\<not> crash_before_commit s"
    and rows: "t_get ar_run_id (tr_run_id request) (runs s) = Some run"
      "t_get ri_run_id (tr_run_id request) (run_inputs s) = Some ri"
      "t_get tk_task_id (ar_task_id run) (tasks s) = Some task" "is_list (ri_granted_tools_json ri)"
    and used: "i \<in> set (t_rows (tool_invocations s))" "ti_task_id i = ar_task_id run"
      "ti_run_id i = ar_run_id run" "ti_sequence_no i = tr_sequence_no request"
  shows "\<exists>t. authorize E auth request s = (Inl IntegrityError, t) \<and> same_db s t"
proof -
  from used have "refusal s auth request run ri task \<noteq> None" by (auto simp: refusal_def)
  then obtain reason where run: "authorize_in_tx E auth request s = deny E run request reason s"
    using rows authorize_bound_run [OF clean(1) rows(4)] by (auto simp: authorize_in_tx_def andthen_def)
  obtain d u row where d: "deny E run request reason s = (Inr d, u)" "tool_invocations u = t_add row (tool_invocations s)"
      "ti_task_id row = ar_task_id run" "ti_run_id row = ar_run_id run" "ti_sequence_no row = tr_sequence_no request"
      "crash_before_commit u = crash_before_commit s"
    by (simp add: deny_def andthen_def seq_def invocation_row_def)
  have "\<not> constraints_ok u"
    by (rule reused_sequence_breaks_constraints [OF clean(1) used(1)]) (simp_all add: used d)
  then show ?thesis using run d clean(2) by (simp add: authorize_def run_tx_def flush_def)
qed

subsection \<open>What a tool call can change\<close>

text \<open>Authorization and recording leave the inputs of the Runs alone.\<close>

definition inputs_kept :: "sess \<Rightarrow> sess \<Rightarrow> bool" where
  "inputs_kept s t \<longleftrightarrow> (t_clean (run_inputs s) \<longrightarrow> run_inputs t = run_inputs s)"

interpretation inputs: frame inputs_kept
  by unfold_locales (auto simp: inputs_kept_def)

lemma inputs_audit:
  "keeps inputs_kept (add_tool_invocation row)" "keeps inputs_kept (new_id E p)"
  by (simp_all add: keeps_def inputs_kept_def)

lemma inputs_run_tx: "keeps inputs_kept m \<Longrightarrow> keeps inputs_kept (run_tx m)"
  by (auto simp: keeps_def inputs_kept_def run_tx_def rollback_def flush_def flush_all_def t_flush_clean
      split: prod.splits sum.splits)

lemma inputs_deny: "keeps inputs_kept (deny E run request reason)" "keeps inputs_kept (allow E run request)"
  unfolding deny_def allow_def by (intro inputs.keeps_struct inputs_audit)+

lemma readonly_probes: "keeps (=) (task_frozen task)" "keeps (=) (sequence_taken run request)" "keeps (=) (tool_refused ri request)"
  unfolding task_frozen_def sequence_taken_def tool_refused_def py_in_def
  by (intro readonly.keeps_struct; simp add: keeps_def split: json.splits)+

lemma inputs_authorize: "keeps inputs_kept (authorize E auth request)"
  unfolding authorize_def authorize_in_tx_def authorize_bound_def
  by (intro inputs_run_tx inputs.keeps_struct inputs_deny inputs.keeps_readonly [OF readonly_probes(1)]
      inputs.keeps_readonly [OF readonly_probes(2)] inputs.keeps_readonly [OF readonly_probes(3)])
    (simp_all add: keeps_def inputs_kept_def)

lemma w_simps:
  "w_then m g w = (case m w of (Inl e, w') \<Rightarrow> (Inl e, w') | (Inr x, w') \<Rightarrow> g x w')"
  "w_seq k h w = (case k w of (Inl e, w') \<Rightarrow> (Inl e, w') | (Inr x, w') \<Rightarrow> h w')"
  "w_ret y w = (Inr y, w)" "w_raise e w = (Inl e, w)"
  by (simp_all add: w_then_def w_seq_def w_ret_def w_raise_def)

text \<open>Where a Run's files may be: its recorded workspace, a directory below the configured root.\<close>

definition run_workspace :: "broker \<Rightarrow> sess \<Rightarrow> fnode \<Rightarrow> string \<Rightarrow> string list \<Rightarrow> bool" where
  "run_workspace B s t run_id root \<longleftrightarrow> (\<exists>ri path.
     t_get ri_run_id run_id (run_inputs s) = Some ri \<and> ri_workspace_path ri = Some path
     \<and> real_dir (bk_cwd B) path t = Some root
     \<and> (\<forall>r. bk_workspace_root B = Some r \<and> r \<noteq> [] \<longrightarrow>
          (\<exists>top. real_dir (bk_cwd B) r t = Some top \<and> prefix top root)))"

lemma tool_workspace_Inr:
  assumes "tool_workspace B run_id (s, f) = (r, (s', f'))"
  shows "f' = f \<and> (\<forall>ws. r = Inr ws \<longrightarrow> run_workspace B s (tree f) run_id ws)"
proof -
  let ?m = "andthen (get_run_input run_id) (\<lambda>row. ret (case row of None \<Rightarrow> None | Some r \<Rightarrow> ri_workspace_path r))"
  have got: "run_tx ?m s = (Inr x, u) \<Longrightarrow>
      x = (case t_get ri_run_id run_id (run_inputs s) of None \<Rightarrow> None | Some r \<Rightarrow> ri_workspace_path r)" for x u
    by (auto simp: run_tx_def andthen_def split: sum.splits if_splits prod.splits)
  show ?thesis
    using assms got
    by (auto simp: tool_workspace_def w_simps w_tx_def w_tree_def w_ensure_def run_workspace_def is_set_def or_else_def
      split: prod.splits sum.splits if_splits option.splits)
qed

lemma with_paths_inside:
  assumes "run_workspace B s (tree f) run_id root" and "list_all plain (bk_cwd B)"
    and inside: "\<And>w. wp_root w = root \<Longrightarrow> fs_ok (confined root) (\<lambda>_. True) (m w)"
    and run: "with_paths B root m (s', f) = (r, (s'', f'))"
  shows "confined root f f'"
proof -
  obtain path where real: "real_dir (bk_cwd B) path (tree f) = Some root" using assms(1) by (auto simp: run_workspace_def)
  obtain ro u where opened: "open_workspace (bk_cwd B) (path_string root) f = (ro, u)"
    by (cases "open_workspace (bk_cwd B) (path_string root) f")
  note ws = open_workspace_real [OF real assms(2) opened]
  have fu: "confined root f u" using ws confined_same_tree by blast
  show ?thesis
  proof (cases ro)
    case (Inl e)
    then show ?thesis using run opened fu by (auto simp: with_paths_def w_fs_def fs_then_def split: path_error.splits)
  next
    case (Inr w)
    then have "wp_root w = root" using ws by simp
    obtain rm v where body: "m w u = (rm, v)" by (cases "m w u")
    have "confined root u v" using fs_okD [OF inside [OF \<open>wp_root w = root\<close>] body] by simp
    moreover have "f' = v" using run opened Inr body
      by (auto simp: with_paths_def w_fs_def fs_then_def split: path_error.splits sum.splits)
    ultimately show ?thesis using fu inside.R_trans by blast
  qed
qed

lemma fs_write_body_inside:
  assumes "list_all plain (bk_cwd B)" "CHR ''/'' \<notin> set (bk_pid B)" "CHR ''/'' \<notin> set (bk_token B)"
    and run: "fs_write_body E B request (s, f) = (r, (s', f'))"
  shows "tree f' = tree f \<or> (\<exists>root. run_workspace B s (tree f) (tr_run_id request) root \<and> confined root f f')"
proof -
  have ws_tree: "tool_workspace B (tr_run_id request) (s, f) = (ro, (s1, f1)) \<Longrightarrow> f1 = f
      \<and> (\<forall>ws. ro = Inr ws \<longrightarrow> run_workspace B s (tree f) (tr_run_id request) ws)" for ro s1 f1
    by (rule tool_workspace_Inr)
  have written: "run_workspace B s (tree f) (tr_run_id request) root \<Longrightarrow>
      with_paths B root (\<lambda>p. atomic_write (sha E) (bk_pid B) (bk_token B) p relative data) (s1, f) = (rw, (s2, f2)) \<Longrightarrow>
      confined root f f2" for root relative data s1 rw s2 f2
    by (rule with_paths_inside [OF _ assms(1)])
      (auto simp: inside_atomic_write [OF plain_tmp [OF assms(2,3)]])
  show ?thesis
    using run ws_tree written
    by (auto simp: fs_write_body_def w_simps tool_params_def require_str_def
      split: prod.splits sum.splits if_splits json.splits)
qed

text \<open>
  C19. A write by a tool stays inside the Run's workspace. If anything in the file system changes at a
  path while \<open>fs.write\<close> runs, then the call was allowed, and the path lies in (or on the way to) the directory that the Core
  recorded as the Run's workspace, which itself lies below the configured root, whatever path the worker
  asked for and whatever symbolic links it made.
\<close>

theorem tool_write_contained:
  assumes run: "execute_fs_write E B auth request (s, f) = (r, (s', f'))" and clean: "clean s"
    and broker: "list_all plain (bk_cwd B)" "CHR ''/'' \<notin> set (bk_pid B)" "CHR ''/'' \<notin> set (bk_token B)"
    and changed: "node_at (tree f') p \<noteq> node_at (tree f) p"
  shows "(\<exists>d s1. authorize E auth request s = (Inr d, s1) \<and> td_allowed d)
    \<and> (\<exists>root. run_workspace B s (tree f) (tr_run_id request) root \<and> (prefix root p \<or> prefix p root))"
proof -
  obtain ra s1 where authz: "authorize E auth request s = (ra, s1)" by (cases "authorize E auth request s")
  have inputs: "run_inputs s1 = run_inputs s"
    using inputs.keepsD [OF inputs_authorize authz] clean by (simp add: inputs_kept_def clean_def)
  obtain ro s2 f2 where body: "fs_write_body E B request (s1, f) = (ro, (s2, f2))"
    by (cases "fs_write_body E B request (s1, f)") auto
  have "f' \<noteq> f" using changed by auto
  then have allowed: "\<exists>d. ra = Inr d \<and> td_allowed d" and f2: "f' = f2"
    using run authz body by (auto simp: execute_fs_write_def execute_tool_def split: sum.splits if_splits prod.splits)
  have "\<exists>root. run_workspace B s1 (tree f) (tr_run_id request) root \<and> confined root f f'"
    using fs_write_body_inside [OF broker body] changed f2 by auto
  then obtain root where root: "run_workspace B s (tree f) (tr_run_id request) root" "confined root f f'"
    using inputs by (auto simp: run_workspace_def)
  then have "prefix root p \<or> prefix p root" using changed by (auto simp: confined_def)
  with root allowed authz show ?thesis by blast
qed

text \<open>Reading and listing change nothing.\<close>

lemma with_paths_reads:
  assumes reads: "\<And>w. fs_ok same_tree (\<lambda>_. True) (m w)" and run: "with_paths B root m (s, f) = (r, (s', f'))"
  shows "tree f' = tree f"
proof -
  have "fs_ok same_tree (\<lambda>_. True) (open_workspace cwd raw)" for cwd raw
    unfolding open_workspace_def
    by (intro reads.ok_seq reads.ok_then [where P = "\<lambda>_. True"] reads.ok_ensure reads.ok_syscall reads.ok_ret TrueI)
      (auto simp: fs_ok_def same_tree_def split: sum.splits option.splits)
  then have "fs_ok same_tree (\<lambda>_. True) (fs_then (open_workspace cwd raw) m)" for cwd raw
    by (rule reads.ok_then) (rule reads)
  then show ?thesis using run
    by (auto simp: with_paths_def w_fs_def fs_ok_def same_tree_def split: prod.splits sum.splits path_error.splits)
      (metis snd_conv)+
qed

lemma reads_list_dir: "fs_ok same_tree (\<lambda>_. True) (list_dir w relative)"
  unfolding list_dir_def ensure_open_def
proof (intro reads.ok_seq reads.ok_ensure TrueI reads.ok_then [OF reads.ok_lift [where Q = "\<lambda>ps. validate_path relative = Inr ps"]]
    reads.ok_then [OF reads_walk] reads.ok_then [OF reads_open_final] reads.ok_then [OF reads_calls(6)] reads.ok_ret)
qed (auto simp: plain_parts O_RDONLY_def)

text \<open>A Run with one granted tool, its workspace and a request.\<close>

definition sample_tool_input :: RunInputRow where
  "sample_tool_input = \<lparr> ri_run_id = ''r'', ri_task_id = ''t'', ri_workspace_id = Some ''ws'',
     ri_workspace_path = Some ''/ws'', ri_profile_id = ''fake'', ri_profile_version = 1,
     ri_granted_tools_json = JList [JStr ''fs.write''], ri_permission_ceiling_json = JObj [],
     ri_context_manifest_id = None, ri_spec_json = JObj [], ri_spec_hash = [], ri_created_at = 0 \<rparr>"

definition sample_tool_db :: sess where
  "sample_tool_db = (sample_running R_RUNNING)\<lparr> run_inputs := t_of [sample_tool_input] \<rparr>"

definition sample_request :: "string \<Rightarrow> json \<Rightarrow> ToolRequest" where
  "sample_request tool params = \<lparr> tr_run_id = ''r'', tr_task_id = ''t'', tr_work_unit_id = None,
     tr_tool_name = tool, tr_parameters = params, tr_grant_epoch = 0, tr_fencing_epoch = 1, tr_sequence_no = 1 \<rparr>"

definition sample_broker :: broker where
  "sample_broker = \<lparr> bk_workspace_root = Some ''/'', bk_max_read_bytes = 10, bk_cwd = [], bk_pid = ''1'',
     bk_token = ''ab'', bk_describe = (\<lambda>_. []), bk_decode = (\<lambda>x. x) \<rparr>"

definition sample_write :: ToolRequest where
  "sample_write = sample_request ''fs.write'' (JObj [(''path'', JStr ''a.txt''), (''content'', JStr ''bye'')])"

lemma sample_tool_clean: "clean sample_tool_db"
  by (simp add: clean_def sample_tool_db_def sample_running_def sample_db_def init_sess_def) (simp add: t_clean_def)

theorem tool_write_contained_witness:
  "(\<exists>d s1. authorize sample_env (sample_runtime ''t'' ''r'') sample_write sample_tool_db = (Inr d, s1) \<and> td_allowed d)
    \<and> (\<exists>root. run_workspace sample_broker sample_tool_db sample_tree ''r'' root
      \<and> (prefix root [''ws'', ''a.txt''] \<or> prefix [''ws'', ''a.txt''] root))"
proof -
  let ?call = "execute_fs_write sample_env sample_broker (sample_runtime ''t'' ''r'') sample_write (sample_tool_db, sample_fs)"
  obtain r s' f' where run: "?call = (r, (s', f'))" by (metis prod.collapse)
  have "node_at (tree (snd (snd ?call))) [''ws'', ''a.txt''] = Some (File ''bye'')" by code_simp
  then have "node_at (tree f') [''ws'', ''a.txt''] = Some (File ''bye'')" by (simp add: run)
  moreover have "node_at (tree sample_fs) [''ws'', ''a.txt''] = Some (File ''hello'')" by code_simp
  ultimately have "node_at (tree f') [''ws'', ''a.txt''] \<noteq> node_at (tree sample_fs) [''ws'', ''a.txt'']" by simp
  from tool_write_contained [OF run sample_tool_clean _ _ _ this]
  show ?thesis by (simp add: sample_broker_def sample_write_def sample_request_def sample_fs_def)
qed

theorem authorize_allow_iff_witness:
  "(\<exists>d t. authorize_in_tx sample_env (sample_runtime ''t'' ''r'') sample_write sample_tool_db = (Inr d, t) \<and> td_allowed d)
    \<and> \<not> (\<exists>d t. authorize_in_tx sample_env (sample_runtime ''t'' ''r'') (sample_request ''shell.run'' (JObj [])) sample_tool_db
      = (Inr d, t) \<and> td_allowed d)"
proof -
  have rows: "t_get ar_run_id ''r'' (runs sample_tool_db) = Some (sample_run R_RUNNING)"
    "t_get ri_run_id ''r'' (run_inputs sample_tool_db) = Some sample_tool_input"
    "t_get tk_task_id (ar_task_id (sample_run R_RUNNING)) (tasks sample_tool_db) = Some (sample_task EXECUTING)"
    "is_list (ri_granted_tools_json sample_tool_input)" by code_simp+
  have state: "t_rows (gates sample_tool_db) = []" "t_rows (tool_invocations sample_tool_db) = []" by code_simp+
  have write_ok: "granted_tool sample_tool_input ''fs.write''" and shell: "\<not> granted_tool sample_tool_input ''shell.run''"
    by code_simp+
  have facts: "runtime_bound (sample_runtime ''t'' ''r'') (sample_run R_RUNNING)"
    "EXECUTING \<notin> set FROZEN_TASK_STATES" by code_simp+
  have "\<exists>d t. authorize_in_tx sample_env (sample_runtime ''t'' ''r'') sample_write sample_tool_db = (Inr d, t) \<and> td_allowed d"
    using authorize_allow_iff [OF sample_tool_clean _ _ rows(3,4), of sample_write sample_env "sample_runtime ''t'' ''r''"]
      rows state write_ok facts
    by (simp add: sample_write_def sample_request_def) (simp add: sample_runtime_def sample_run_def sample_task_def, blast)
  moreover have "\<not> (\<exists>d t. authorize_in_tx sample_env (sample_runtime ''t'' ''r'') (sample_request ''shell.run'' (JObj []))
      sample_tool_db = (Inr d, t) \<and> td_allowed d)"
    using authorize_allow_iff [OF sample_tool_clean _ _ rows(3,4), of "sample_request ''shell.run'' (JObj [])" sample_env
        "sample_runtime ''t'' ''r''"] rows shell
    by (simp add: sample_request_def) blast
  ultimately show ?thesis by blast
qed

subsection \<open>What a tool call does to the database\<close>

text \<open>A frame that the broker's transactions keep is kept by a whole tool call.\<close>

definition w_keeps :: "(sess \<Rightarrow> sess \<Rightarrow> bool) \<Rightarrow> 'a toolop \<Rightarrow> bool" where
  "w_keeps R m \<longleftrightarrow> (\<forall>s f. R s (fst (snd (m (s, f)))))"

context frame
begin

lemma w_keeps_then: "w_keeps R m \<Longrightarrow> (\<And>x. w_keeps R (g x)) \<Longrightarrow> w_keeps R (w_then m g)"
proof (unfold w_keeps_def, intro allI)
  fix s f
  assume m: "\<forall>s f. R s (fst (snd (m (s, f))))" and g: "\<And>x. \<forall>s f. R s (fst (snd (g x (s, f))))"
  obtain r s' f' where run: "m (s, f) = (r, (s', f'))" by (cases "m (s, f)") auto
  have "R s s'" using m [rule_format, of s f] run by simp
  moreover have "R s' (fst (snd (g x (s', f'))))" for x using g [of x] by blast
  ultimately show "R s (fst (snd (w_then m g (s, f))))" using run
    by (cases r) (auto simp: w_then_def intro: R_trans)
qed

lemma w_keeps_seq: "w_keeps R m \<Longrightarrow> w_keeps R k \<Longrightarrow> w_keeps R (w_seq m k)"
  unfolding w_seq_def by (rule w_keeps_then)

lemma w_keeps_pure:
  "w_keeps R (w_ret x)" "w_keeps R (w_raise e)" "w_keeps R (w_ensure b e)" "w_keeps R (w_fs m)"
  "w_keeps R (w_tree g)" "w_keeps R (with_paths B ws k)" "w_keeps R (tool_params request)"
  "w_keeps R (require_str params key)"
  by (auto simp: w_keeps_def w_ret_def w_raise_def w_ensure_def w_fs_def w_tree_def with_paths_def tool_params_def
    require_str_def R_refl split: prod.splits sum.splits path_error.splits json.splits)

lemma w_keeps_tx: "keeps R m \<Longrightarrow> w_keeps R (w_tx m)"
  by (auto simp: w_keeps_def keeps_def w_tx_def split: prod.splits sum.splits) (metis snd_conv)+

lemma w_keeps_bodies:
  assumes "\<And>m :: string option tx. keeps (=) m \<Longrightarrow> keeps R (run_tx m)"
  shows "w_keeps R (fs_read_body E B request)" "w_keeps R (fs_list_body B request)" "w_keeps R (fs_write_body E B request)"
proof -
  have "keeps (=) (andthen (get_run_input rid) (\<lambda>row. ret (case row of None \<Rightarrow> None | Some r \<Rightarrow> ri_workspace_path r)))" for rid
    by (simp add: keeps_def andthen_def)
  then have ws: "w_keeps R (tool_workspace B rid)" for rid
    unfolding tool_workspace_def by (intro w_keeps_then w_keeps_seq w_keeps_pure w_keeps_tx assms)
  have opt: "w_keeps R (case v of None \<Rightarrow> w_raise e | Some x \<Rightarrow> w_ret x)" for v :: "'x option" and e
    by (cases v) (simp_all add: w_keeps_pure)
  have js: "w_keeps R (case v of JStr x \<Rightarrow> w_ret x | _ \<Rightarrow> w_raise e)" for v e
    by (cases v) (simp_all add: w_keeps_pure)
  have lets: "(\<And>x. w_keeps R (g x)) \<Longrightarrow> w_keeps R (let x = v in g x)" for v :: 'v and g :: "'v \<Rightarrow> json toolop"
    by (simp add: Let_def)
  show "w_keeps R (fs_read_body E B request)" "w_keeps R (fs_list_body B request)" "w_keeps R (fs_write_body E B request)"
    unfolding fs_read_body_def fs_list_body_def fs_write_body_def
    by (intro w_keeps_then w_keeps_seq w_keeps_pure ws opt js lets)+
qed

lemma tool_keeps:
  assumes "keeps R (authorize E auth request)"
    and "\<And>i outcome result. keeps R (record_outcome auth i outcome result)"
    and "\<And>i reason detail. keeps R (record_refusal auth i reason detail)"
    and "w_keeps R body"
  shows "R s (fst (snd (execute_tool E B auth request body (s, f))))"
proof -
  have finish: "keeps R (finish_tool B auth i outcome)" for i outcome
    unfolding finish_tool_def refuse_def fail_tool_def
    by (cases outcome; simp split: tool_error.split; intro conjI impI allI keeps_struct assms)
  obtain ra s1 where a: "authorize E auth request s = (ra, s1)" by (cases "authorize E auth request s")
  obtain ro s2 f2 where b: "body (s1, f) = (ro, (s2, f2))" by (cases "body (s1, f)") auto
  have "R s s1" using keepsD [OF assms(1) a] .
  moreover have "R s1 s2" using assms(4) b unfolding w_keeps_def by (metis fst_conv snd_conv)
  moreover have "R s2 (snd (finish_tool B auth i ro s2))" for i using finish by (simp add: keeps_def)
  ultimately have ends: "R s s1" "R s (snd (finish_tool B auth i ro s2))" for i using R_trans by blast+
  show ?thesis
  proof (cases ra)
    case (Inl e)
    then show ?thesis using a ends(1) by (simp add: execute_tool_def)
  next
    case (Inr d)
    let ?i = "or_else (td_invocation_id d) []"
    obtain rf s3 where "finish_tool B auth ?i ro s2 = (rf, s3)" by (cases "finish_tool B auth ?i ro s2")
    then show ?thesis using a b Inr ends(1) ends(2) [of ?i] by (simp add: execute_tool_def)
  qed
qed

end

end
