(* ===== verification/System.thy ===== *)
theory System
  imports Service Broker
begin

text \<open>
  The service over time. A step is a command of a client, the outbox loop, the startup
  reconciliation, a decision or an outcome recorded by the tool broker or a whole filesystem tool call, the passing of time, an injected crash,
  or a restart of the process (which forgets the wake flag). The world outside (adapters,
  files) may answer differently at every step. The states of the running system are those
  reachable from the empty database.
\<close>

subsection \<open>Steps\<close>

inductive service_step :: "sess \<Rightarrow> sess \<Rightarrow> bool" where
  command: "service_step s (snd (execute fuel E enabled operation auth payload mid ikey s))"
| outbox_loop: "service_step s (snd (drain_outbox fuel E 0 s))"
| startup: "service_step s (snd (reconcile E s))"
| tool_decision: "service_step s (snd (authorize E auth request s))"
| tool_outcome: "service_step s (snd (record_outcome auth invocation_id outcome result s))"
| tool_read: "service_step s (fst (snd (execute_fs_read E B auth request (s, f))))"
| tool_list: "service_step s (fst (snd (execute_fs_list E B auth request (s, f))))"
| tool_write: "service_step s (fst (snd (execute_fs_write E B auth request (s, f))))"
| tick: "clock_now s \<le> t \<Longrightarrow> service_step s (s\<lparr> clock_now := t \<rparr>)"
| inject: "service_step s (s\<lparr> crash_before_commit := b, crash_after_commit := c \<rparr>)"
| restart: "service_step s (s\<lparr> wake_requested := False \<rparr>)"

inductive_cases service_stepE: "service_step s t"

definition reachable :: "sess \<Rightarrow> bool" where
  "reachable s \<longleftrightarrow> service_step\<^sup>*\<^sup>* init_sess s"

lemma reachable_init: "reachable init_sess"
  by (simp add: reachable_def)

lemma reachable_step: "reachable s \<Longrightarrow> service_step s t \<Longrightarrow> reachable t"
  unfolding reachable_def by (rule rtranclp.rtrancl_into_rtrancl)

lemma reachable_steps: "reachable s \<Longrightarrow> service_step\<^sup>*\<^sup>* s t \<Longrightarrow> reachable t"
  unfolding reachable_def by (rule rtranclp_trans)

text \<open>A frame that time and the injected crashes keep as well is kept along every run of the system.\<close>

locale system_frame = entry_frame R for R +
  assumes call_clock: "R s (s\<lparr> clock_now := c \<rparr>)"
begin

lemma keeps_broker:
  "keeps R (authorize E auth request)" "keeps R (record_outcome auth i outcome result)"
  "keeps R (record_refusal auth i reason detail)"
  unfolding authorize_def authorize_in_tx_def authorize_bound_def deny_def allow_def record_outcome_def
    record_outcome_in_tx_def record_refusal_def record_refusal_in_tx_def bound_invocation_def
    task_frozen_def sequence_taken_def tool_refused_def
  by (intro call_run_tx keeps_struct frame_intro; simp add: invocation_le_def)+

lemma keeps_tools:
  "R s (fst (snd (execute_fs_read E B auth request (s, f))))"
  "R s (fst (snd (execute_fs_list E B auth request (s, f))))"
  "R s (fst (snd (execute_fs_write E B auth request (s, f))))"
  unfolding execute_fs_read_def execute_fs_list_def execute_fs_write_def
  by (intro tool_keeps keeps_broker w_keeps_bodies call_run_tx keeps_readonly; assumption)+

lemma step_keeps: "service_step s t \<Longrightarrow> R s t"
proof (induction rule: service_step.induct)
  case command
  show ?case using keeps_execute by (simp add: keeps_def)
next
  case outbox_loop
  show ?case using keeps_drain_outbox by (simp add: keeps_def)
next
  case startup
  show ?case using keeps_reconcile(3) by (simp add: keeps_def)
next
  case tool_decision
  show ?case using keeps_broker(1) by (simp add: keeps_def)
next
  case tool_outcome
  show ?case using keeps_broker(2) by (simp add: keeps_def)
next
  case tick
  show ?case by (rule call_clock)
next
  case (inject s b c)
  show ?case by (rule R_trans [OF call_crash_flags(1)], rule call_crash_flags(2))
next
  case restart
  show ?case using call_wake by (simp add: keeps_def)
qed (rule keeps_tools)+

lemma steps_keep: "service_step\<^sup>*\<^sup>* s t \<Longrightarrow> R s t"
  by (induction rule: rtranclp_induct) (auto intro: R_refl R_trans step_keeps)

end

subsection \<open>History\<close>

interpretation history: system_frame history_le
  by unfold_locales (simp add: history_le_same_db same_db_def)

subsection \<open>Committed states are consistent\<close>

definition consistent :: "sess \<Rightarrow> bool" where
  "consistent s \<longleftrightarrow> clean s \<and> constraints_ok s"

lemma t_keys_flush [simp]: "t_keys key (t_flush t) = t_keys key t"
  by (induction t) (auto simp: t_keys_def t_flush_def)

lemma constraints_ok_flush_all [simp]: "constraints_ok (flush_all s) = constraints_ok s"
  by (simp add: constraints_ok_def flush_all_def)

lemma consistent_same_db: "same_db s t \<Longrightarrow> consistent t = consistent s"
  by (simp add: consistent_def same_db_def clean_def constraints_ok_def)

lemma consistent_fields [simp]:
  "consistent (s\<lparr> uid := u \<rparr>) = consistent s"
  "consistent (s\<lparr> clock_now := k \<rparr>) = consistent s"
  "consistent (s\<lparr> wake_requested := w \<rparr>) = consistent s"
  "consistent (s\<lparr> crash_before_commit := c \<rparr>) = consistent s"
  "consistent (s\<lparr> crash_after_commit := c \<rparr>) = consistent s"
  by (simp_all add: consistent_def clean_def constraints_ok_def)

lemma consistent_init: "consistent init_sess"
  using clean_init by (simp add: consistent_def) (simp add: constraints_ok_def init_sess_def t_keys_def)

lemma consistent_flush_all: "constraints_ok s \<Longrightarrow> consistent (flush_all s)"
  by (simp add: consistent_def clean_flush_all)

definition stays_consistent :: "sess \<Rightarrow> sess \<Rightarrow> bool" where
  "stays_consistent s t \<longleftrightarrow> (consistent s \<longrightarrow> consistent t)"

interpretation consistency: frame stays_consistent
  by unfold_locales (auto simp: stays_consistent_def)

text \<open>Whatever a transaction does, what it leaves behind is consistent.\<close>

lemma consistency_run_tx [frame_intro]: "keeps stays_consistent (run_tx m)"
  by (auto simp: keeps_def stays_consistent_def run_tx_def rollback_def flush_def consistent_flush_all
      split: prod.splits sum.splits)

lemma consistency_outside [frame_intro]:
  "keeps stays_consistent (new_id E p)"
  "keeps stays_consistent (modify (\<lambda>s. s\<lparr> wake_requested := w \<rparr>))"
  by (simp_all add: keeps_def stays_consistent_def)

lemma consistency_external_request [frame_intro]: "keeps stays_consistent (external_request j)"
  unfolding external_request_def need_def by (intro consistency.keeps_struct)

lemma consistency_dispatch [frame_intro]: "keeps stays_consistent (dispatch_outbox_item E item)"
  unfolding dispatch_outbox_item_def send_start_def send_stop_def do_external_dispatch_def need_def
  by (intro consistency.keeps_struct frame_intro)

lemma consistency_drain [frame_intro]: "keeps stays_consistent (drain_outbox n E k)"
proof (induction n arbitrary: k)
  case (Suc n)
  show ?case unfolding drain_outbox.simps by (intro consistency.keeps_struct frame_intro Suc.IH)
qed (simp only: drain_outbox.simps consistency.keeps_struct)

lemma consistency_execute [frame_intro]: "keeps stays_consistent (execute fuel E en op auth payload mid ikey)"
  unfolding execute_def drain_if_woken_def by (intro consistency.keeps_struct frame_intro)

lemma consistency_broker:
  "keeps stays_consistent (authorize E auth request)" "keeps stays_consistent (record_outcome auth i outcome result)"
  "keeps stays_consistent (record_refusal auth i reason detail)"
  unfolding authorize_def record_outcome_def record_refusal_def
  by (intro consistency.keeps_struct consistency_run_tx)+

lemma consistency_tools:
  "stays_consistent s (fst (snd (execute_fs_read E B auth request (s, f))))"
  "stays_consistent s (fst (snd (execute_fs_list E B auth request (s, f))))"
  "stays_consistent s (fst (snd (execute_fs_write E B auth request (s, f))))"
  unfolding execute_fs_read_def execute_fs_list_def execute_fs_write_def
  by (intro consistency.tool_keeps consistency_broker consistency.w_keeps_bodies consistency_run_tx)+

lemma consistent_step: "service_step s t \<Longrightarrow> consistent s \<Longrightarrow> consistent t"
proof (induction rule: service_step.induct)
  case (command s fuel E en op auth payload mid ikey)
  then show ?case using consistency_execute [of fuel E en op auth payload mid ikey]
    by (simp add: keeps_def stays_consistent_def)
next
  case (outbox_loop s fuel E)
  then show ?case using consistency_drain [of fuel E 0] by (simp add: keeps_def stays_consistent_def)
next
  case (startup s E)
  then show ?case using consistency_run_tx [of "reconcile_tx E"]
    by (simp add: reconcile_def keeps_def stays_consistent_def)
next
  case (tool_decision s E auth request)
  then show ?case using consistency_broker(1) [of E auth request] by (simp add: keeps_def stays_consistent_def)
next
  case (tool_outcome s auth i outcome result)
  then show ?case using consistency_broker(2) [of auth i outcome result] by (simp add: keeps_def stays_consistent_def)
next
  case (tool_read s E B auth request f)
  then show ?case using consistency_tools(1) [of s E B auth request f] by (simp add: stays_consistent_def)
next
  case (tool_list s E B auth request f)
  then show ?case using consistency_tools(2) [of s E B auth request f] by (simp add: stays_consistent_def)
next
  case (tool_write s E B auth request f)
  then show ?case using consistency_tools(3) [of s E B auth request f] by (simp add: stays_consistent_def)
qed simp_all

lemma consistent_steps: "service_step\<^sup>*\<^sup>* s t \<Longrightarrow> consistent s \<Longrightarrow> consistent t"
  by (induction rule: rtranclp_induct) (auto intro: consistent_step)

subsection \<open>The event log\<close>

definition task_log :: "string \<Rightarrow> sess \<Rightarrow> EventRow list" where
  "task_log tid s = filter (\<lambda>e. ev_task_id e = tid) (t_rows (events s))"

definition gapless :: "sess \<Rightarrow> bool" where
  "gapless s \<longleftrightarrow> list_all (\<lambda>c. \<not> dropped c) (events s)
    \<and> (\<forall>tid. map ev_sequence_no (task_log tid s) = map int [1..<Suc (length (task_log tid s))])"

definition keeps_gapless :: "sess \<Rightarrow> sess \<Rightarrow> bool" where
  "keeps_gapless s t \<longleftrightarrow> (gapless s \<longrightarrow> gapless t)"

lemma gapless_events: "events t = events s \<Longrightarrow> keeps_gapless s t"
  by (simp add: keeps_gapless_def gapless_def task_log_def)

lemma gapless_flush_all: "keeps_gapless s (flush_all s)"
  by (auto simp: keeps_gapless_def gapless_def task_log_def flush_all_def t_rows_flush)
    (simp add: t_flush_def list_all_iff)

lemma keeps_gapless_refl: "keeps_gapless s s"
  by (simp add: keeps_gapless_def)

lemma keeps_gapless_trans: "keeps_gapless s t \<Longrightarrow> keeps_gapless t u \<Longrightarrow> keeps_gapless s u"
  by (simp add: keeps_gapless_def)

interpretation gapless_log: store_frame keeps_gapless
  by unfold_locales
    (rule keeps_gapless_refl, erule (1) keeps_gapless_trans,
     auto simp: keeps_def flush_def gapless_flush_all keeps_gapless_refl intro: gapless_events)

lemma gapless_append_event: "keeps keeps_gapless (append_event tid ty actor payload)"
  unfolding keeps_def
proof
  fix s
  have "gapless (snd (append_event tid ty actor payload s))" if s: "gapless s" and ok: "constraints_ok s"
  proof -
    let ?f = "flush_all s"
    let ?new = "\<lparr> ev_task_id = tid, ev_sequence_no = next_seq (map ev_sequence_no (task_log tid ?f)),
      ev_event_type = ty, ev_actor_id = actor, ev_payload_json = JObj payload,
      ev_occurred_at = clock_now s, ev_received_at = clock_now s \<rparr>"
    have g: "gapless ?f" using s gapless_flush_all by (simp add: keeps_gapless_def)
    have "t_clean (events ?f)" by (simp add: flush_all_def)
    then have run: "append_event tid ty actor payload s =
        (Inr (), ?f\<lparr> events := t_add ?new (events ?f) \<rparr>)"
      using ok by (simp add: append_event_def next_event_seq_def task_log_def t_stored_clean flush_def
          flush_all_def)
    have seq: "next_seq (map ev_sequence_no (task_log tid ?f)) = int (length (task_log tid ?f)) + 1"
      using g by (intro next_seq_gapless) (simp add: gapless_def)
    show ?thesis unfolding run snd_conv using g seq
      by (auto simp: gapless_def task_log_def t_add_def t_rows_def)
  qed
  then show "keeps_gapless s (snd (append_event tid ty actor payload s))"
    by (cases "constraints_ok s") (auto simp: keeps_gapless_def append_event_def flush_def)
qed

interpretation gapless_log: system_frame keeps_gapless
  by unfold_locales
    (rule gapless_append_event, auto simp: keeps_def rollback_def intro: gapless_events)

text \<open>One command of the owner, with the outbox loop switched off.\<close>

definition sample_cmd :: "string \<Rightarrow> dict \<Rightarrow> string \<Rightarrow> sess \<Rightarrow> sess" where
  "sample_cmd op payload mid s =
    snd (execute 0 sample_env False op sample_human payload (Some mid) None s)"

definition sample_created :: sess where
  "sample_created = sample_cmd ''create_task'' [(''task_id'', JStr ''t'')] ''m1'' init_sess"

definition sample_submitted :: sess where
  "sample_submitted = sample_cmd ''submit_contract'' [(''task_id'', JStr ''t'')] ''m2'' sample_created"

subsection \<open>What holds of the running system\<close>

lemma reachable_consistent: "reachable s \<Longrightarrow> consistent s"
  unfolding reachable_def using consistent_steps consistent_init by blast

lemma gapless_init: "gapless init_sess"
  by (simp add: gapless_def task_log_def init_sess_def t_rows_def)

lemma reachable_gapless: "reachable s \<Longrightarrow> gapless s"
  unfolding reachable_def using gapless_log.steps_keep gapless_init by (simp add: keeps_gapless_def)

text \<open>In a clean table with distinct keys the key finds the row.\<close>

lemma t_get_row:
  assumes "t_clean t" and "distinct (t_keys key t)" and "r \<in> set (t_rows t)"
  shows "t_get key (key r) t = Some r"
proof -
  have keys: "t_keys key t = map key (t_rows t)"
    using assms(1) by (induction t) (auto simp: t_keys_def t_rows_def t_clean_def)
  have "distinct (map key rs) \<Longrightarrow> r \<in> set rs \<Longrightarrow> find (\<lambda>x. key x = key r) rs = Some r" for rs
    by (induction rs) auto
  with assms keys show ?thesis by (simp add: t_get_clean)
qed

lemma tbl_le_row:
  assumes "tbl_le R t t'" and "t_clean t" and "r \<in> set (t_rows t)"
  shows "\<exists>r'\<in>set (t_rows t'). R r r'"
proof -
  have "list_all2 R xs us \<Longrightarrow> r \<in> set xs \<Longrightarrow> \<exists>r'\<in>set us. R r r'" for xs us
    by (induction rule: list_all2_induct) auto
  moreover obtain us vs where "t_rows t' = us @ vs" and "list_all2 R (t_rows t) us"
    using tbl_le_clean [OF assms(1,2)] by blast
  ultimately show ?thesis using assms(3) by fastforce
qed

lemma tbl_le_eq_rows: "tbl_le (=) t t' \<Longrightarrow> t_clean t \<Longrightarrow> \<exists>new. t_rows t' = t_rows t @ new"
  using tbl_le_clean [of "(=)" t t'] by (auto simp: list.rel_eq)

definition extends :: "'a list \<Rightarrow> 'a list \<Rightarrow> bool" where
  "extends xs ys \<longleftrightarrow> take (length xs) ys = xs"

lemma extends_rows: "tbl_le (=) t t' \<Longrightarrow> t_clean t \<Longrightarrow> extends (t_rows t) (t_rows t')"
  using tbl_le_eq_rows by (fastforce simp: extends_def)

lemma steps_task_le:
  assumes "consistent s" and "service_step\<^sup>*\<^sup>* s t" and "t_get tk_task_id tid (tasks s) = Some r"
  shows "\<exists>r'. t_get tk_task_id tid (tasks t) = Some r' \<and> task_le r r'"
proof -
  from assms(3) have r: "r \<in> set (t_rows (tasks s))" "tk_task_id r = tid" by (auto dest: t_get_in)
  from assms(1,2) have t: "consistent t" by (blast intro: consistent_steps)
  from assms(2) have "tbl_le task_le (tasks s) (tasks t)"
    using history.steps_keep by (simp add: history_le_def)
  moreover have "t_clean (tasks s)" using assms(1) by (simp add: consistent_def clean_def)
  ultimately obtain r' where r': "r' \<in> set (t_rows (tasks t))" "task_le r r'"
    using tbl_le_row [OF _ _ r(1)] by blast
  with r(2) have "tk_task_id r' = tid" by (simp add: task_le_def)
  moreover have "t_clean (tasks t)" "distinct (t_keys tk_task_id (tasks t))"
    using t by (simp_all add: consistent_def clean_def constraints_ok_def)
  ultimately have "t_get tk_task_id tid (tasks t) = Some r'" using r'(1) t_get_row by fastforce
  with r'(2) show ?thesis by blast
qed



text \<open>
  C5. The event log is append-only and gapless: in every reachable state the events of each Task
  are numbered 1, 2, ..., n in the order they were appended.
\<close>

theorem event_log_gapless:
  "reachable s \<Longrightarrow>
    map ev_sequence_no (task_log tid s) = map int [1..<Suc (length (task_log tid s))]"
  using reachable_gapless by (simp add: gapless_def)

theorem event_log_gapless_witness:
  "map ev_sequence_no (task_log ''t'' sample_created) = [1]"
proof -
  have "reachable sample_created"
    unfolding sample_created_def sample_cmd_def
    by (rule reachable_step [OF reachable_init]) (rule service_step.command)
  then have "map ev_sequence_no (task_log ''t'' sample_created)
      = map int [1..<Suc (length (task_log ''t'' sample_created))]"
    by (rule event_log_gapless)
  moreover have "length (task_log ''t'' sample_created) = 1" by code_simp
  ultimately show ?thesis by simp
qed

text \<open>
  C1. Terminal Tasks never reopen: over any sequence of commands, outbox rounds, reconciliations
  and crashes, a COMPLETED, FAILED or ABORTED Task keeps its state and its owner.
\<close>

theorem terminal_task_never_reopens:
  assumes "consistent s" and "service_step\<^sup>*\<^sup>* s t"
    and "t_get tk_task_id tid (tasks s) = Some r" and "is_terminal_task (tk_state r)"
  shows "\<exists>r'. t_get tk_task_id tid (tasks t) = Some r' \<and> tk_state r' = tk_state r
    \<and> tk_principal_id r' = tk_principal_id r"
  using steps_task_le [OF assms(1-3)] task_tb.terminal_final [OF _ assms(4)]
  by (auto simp: task_le_def)

theorem terminal_task_never_reopens_witness:
  "\<exists>r'. t_get tk_task_id ''t'' (tasks (sample_cmd ''pause_task'' [(''task_id'', JStr ''t'')] ''m'' (sample_db ABORTED))) = Some r'
    \<and> tk_state r' = ABORTED \<and> tk_principal_id r' = ''p''"
proof -
  have "service_step\<^sup>*\<^sup>* (sample_db ABORTED) (sample_cmd ''pause_task'' [(''task_id'', JStr ''t'')] ''m'' (sample_db ABORTED))"
    unfolding sample_cmd_def by (intro r_into_rtranclp service_step.command)
  moreover have "consistent (sample_db ABORTED)" unfolding consistent_def by code_simp
  moreover have "t_get tk_task_id ''t'' (tasks (sample_db ABORTED)) = Some (sample_task ABORTED)"
    by code_simp
  ultimately show ?thesis
    using terminal_task_never_reopens [of "sample_db ABORTED" _ "''t''" "sample_task ABORTED"]
    by (simp add: sample_task_def terminal_task_cases)
qed

text \<open>
  C6. History is append-only. Over any sequence of steps the events, explanations, Work Unit
  specs, context manifests, run inputs, result snapshots, acceptance evidence, context appends,
  messages and inbox rows only grow at the end: no row of them is ever changed or removed.
\<close>

theorem history_append_only:
  assumes "consistent s" and "service_step\<^sup>*\<^sup>* s t"
  shows "extends (t_rows (events s)) (t_rows (events t))
    \<and> extends (t_rows (explanations s)) (t_rows (explanations t))
    \<and> extends (t_rows (wu_specs s)) (t_rows (wu_specs t))
    \<and> extends (t_rows (manifests s)) (t_rows (manifests t))
    \<and> extends (t_rows (run_inputs s)) (t_rows (run_inputs t))
    \<and> extends (t_rows (snapshots s)) (t_rows (snapshots t))
    \<and> extends (t_rows (evidence s)) (t_rows (evidence t))
    \<and> extends (t_rows (context_appends s)) (t_rows (context_appends t))
    \<and> extends (t_rows (messages s)) (t_rows (messages t))
    \<and> extends (t_rows (inbox s)) (t_rows (inbox t))"
  using history.steps_keep [OF assms(2)] assms(1)
  by (simp add: history_le_def consistent_def clean_def extends_rows)

theorem history_append_only_witness:
  "extends (t_rows (events sample_created)) (t_rows (events sample_submitted))
    \<and> t_rows (events sample_created) \<noteq> []"
proof -
  have "reachable sample_created"
    unfolding sample_created_def sample_cmd_def
    by (rule reachable_step [OF reachable_init]) (rule service_step.command)
  then have "consistent sample_created" by (rule reachable_consistent)
  moreover have "service_step\<^sup>*\<^sup>* sample_created sample_submitted"
    unfolding sample_submitted_def sample_cmd_def by (intro r_into_rtranclp service_step.command)
  ultimately have "extends (t_rows (events sample_created)) (t_rows (events sample_submitted))"
    using history_append_only by blast
  moreover have "t_rows (events sample_created) \<noteq> []" by code_simp
  ultimately show ?thesis by simp
qed

text \<open>
  C7. What was agreed stays agreed. Over any sequence of steps a Contract version keeps its
  content, its content hash and the version it supersedes; only its status and approval fields
  can still change.
\<close>

theorem contract_content_immutable:
  assumes "consistent s" and "service_step\<^sup>*\<^sup>* s t"
    and "c \<in> set (t_rows (contracts s))"
  shows "\<exists>c' \<in> set (t_rows (contracts t)). contract_key c' = contract_key c
    \<and> ct_content_json c' = ct_content_json c \<and> ct_content_hash c' = ct_content_hash c
    \<and> ct_supersedes_version c' = ct_supersedes_version c"
proof -
  have "tbl_le contract_le (contracts s) (contracts t)"
    using history.steps_keep [OF assms(2)] by (simp add: history_le_def)
  moreover have "t_clean (contracts s)" using assms(1) by (simp add: consistent_def clean_def)
  ultimately obtain c' where "c' \<in> set (t_rows (contracts t))" "contract_le c c'"
    using tbl_le_row [OF _ _ assms(3)] by blast
  then show ?thesis by (auto simp: contract_le_def contract_key_def)
qed

theorem contract_content_immutable_witness:
  "\<exists>c' \<in> set (t_rows (contracts (sample_cmd ''pause_task'' [(''task_id'', JStr ''t'')] ''m'' (sample_db EXECUTING)))).
    contract_key c' = (''t'', 1) \<and> ct_content_json c' = ct_content_json sample_contract"
proof -
  have c: "consistent (sample_db EXECUTING)" unfolding consistent_def by code_simp
  have st: "service_step\<^sup>*\<^sup>* (sample_db EXECUTING)
      (sample_cmd ''pause_task'' [(''task_id'', JStr ''t'')] ''m'' (sample_db EXECUTING))"
    unfolding sample_cmd_def by (intro r_into_rtranclp service_step.command)
  have "sample_contract \<in> set (t_rows (contracts (sample_db EXECUTING)))"
    by (simp add: sample_db_def)
  from contract_content_immutable [OF c st this] show ?thesis
    by (auto simp: sample_contract_def contract_key_def)
qed

end
