(* ===== verification/Exactly_Once.thy ===== *)
theory Exactly_Once
  imports System
begin

text \<open>
  Commands take effect at most once. The inbox row of a command commits with its effects; a
  retry of the same message finds the row and is answered from it, without touching the database.
\<close>

subsection \<open>Handlers leave the inbox and the idempotency store alone\<close>

definition entry_same :: "sess \<Rightarrow> sess \<Rightarrow> bool" where
  "entry_same s t \<longleftrightarrow> (t_clean (inbox s) \<longrightarrow> inbox t = inbox s) \<and> (t_clean (idem s) \<longrightarrow> idem t = idem s)"

lemma entry_same_eq: "inbox t = inbox s \<Longrightarrow> idem t = idem s \<Longrightarrow> entry_same s t"
  by (simp add: entry_same_def)

lemma entry_same_flush_all: "entry_same s (flush_all s)"
  by (simp add: entry_same_def flush_all_def t_flush_clean)

lemma entry_same_refl: "entry_same s s"
  by (simp add: entry_same_def)

lemma entry_same_trans: "entry_same s t \<Longrightarrow> entry_same t u \<Longrightarrow> entry_same s u"
  by (auto simp: entry_same_def)

interpretation entry_store: store_frame entry_same
  by unfold_locales
    (rule entry_same_refl, erule (1) entry_same_trans,
     auto simp: keeps_def flush_def entry_same_flush_all entry_same_refl intro: entry_same_eq)

lemma entry_add_event [frame_intro]: "keeps entry_same (add_event row)"
  by (simp add: keeps_def entry_same_eq)

interpretation entry_store: service_frame entry_same
  by unfold_locales
    (unfold append_event_def next_event_seq_def, intro entry_store.keeps_struct frame_intro)

subsection \<open>The checks at the entry only read\<close>

lemma readonly_admission [frame_intro]:
  "keeps (=) (task_of_ref key v)"
  "keeps (=) (authorize_run_command operation auth payload)"
  "keeps (=) (find_inbox auth mid)"
  unfolding task_of_ref_def authorize_run_command_def find_inbox_def
  by (intro readonly.keeps_struct frame_intro)+

lemma readonly_command_task_id [frame_intro]: "keeps (=) (command_task_id operation payload)"
  unfolding command_task_id_def by (intro readonly.keeps_struct frame_intro)

text \<open>Admission: the task of the command is consistent, and a Run command is bound to its Run.\<close>

definition admission :: "string \<Rightarrow> AuthContext \<Rightarrow> dict \<Rightarrow> unit tx" where
  "admission operation auth payload =
    andthen (command_task_id operation payload) (\<lambda>task_id.
    authorize_run_command operation auth payload)"

lemma admission_readonly: "admission operation auth payload s = (r, t) \<Longrightarrow> t = s"
  by (rule readonlyD [of "admission operation auth payload"])
    (unfold admission_def, intro readonly.keeps_struct frame_intro)

subsection \<open>What the inbox remembers\<close>

lemma serialize_roundtrip:
  "deserialize_command_result (entries (serialize_command_result r)) True = r\<lparr> cr_replayed := True \<rparr>"
  by (cases "cr_error_code r")
    (simp_all add: deserialize_command_result_def serialize_command_result_def dhas_def dget_def
      jopt_def jor_def opt_str_def)

lemma deserialize_replayed:
  "cr_ok (deserialize_command_result saved True) \<Longrightarrow> cr_replayed (deserialize_command_result saved True)"
  by (auto simp: deserialize_command_result_def split: if_splits)

definition remembered :: "AuthContext \<Rightarrow> string \<Rightarrow> string \<Rightarrow> CommandResult \<Rightarrow> InboxRow \<Rightarrow> bool" where
  "remembered auth mid ph r row \<longleftrightarrow>
    inbox_key row = (actor_id auth, mid) \<and> ib_payload_hash row = ph
    \<and> (let r' = deserialize_command_result (entries (ib_result_json row)) True in
        cr_ok r' = cr_ok r \<and> cr_data r' = cr_data r)"

lemma find_inbox_clean:
  "t_clean (inbox s) \<Longrightarrow> find_inbox auth mid s =
    (Inr (first_of (filter (\<lambda>r. inbox_key r = (actor_id auth, mid)) (t_rows (inbox s)))), s)"
  by (simp add: find_inbox_def t_select_clean inbox_key_def)

lemma store_inbox_remembers:
  assumes "store_inbox auth tid op mid ph r s = (Inr (), t)" and "t_clean (inbox s)"
    and "\<forall>row \<in> set (t_rows (inbox s)). inbox_key row \<noteq> (actor_id auth, mid)"
  shows "\<exists>row \<in> set (t_rows (inbox t)). remembered auth mid ph r row"
proof -
  from assms(3) have "filter (\<lambda>r. inbox_key r = (actor_id auth, mid)) (t_rows (inbox s)) = []"
    by (simp add: filter_empty_conv)
  with assms(1,2) show ?thesis
    by (auto simp: store_inbox_def find_inbox_clean remembered_def inbox_key_def serialize_roundtrip)
qed

lemma check_inbox_hit:
  assumes "t_clean (inbox s)" and "distinct (t_keys inbox_key (inbox s))"
    and "row \<in> set (t_rows (inbox s))" and "remembered auth mid ph r row"
  shows "\<exists>r'. check_inbox auth mid ph s = (Inr (Some r'), s) \<and> cr_ok r' = cr_ok r
    \<and> cr_data r' = cr_data r \<and> (cr_ok r \<longrightarrow> cr_replayed r')"
proof -
  have key: "inbox_key row = (actor_id auth, mid)" using assms(4) by (simp add: remembered_def)
  have "t_get inbox_key (inbox_key row) (inbox s) = Some row" using assms by (intro t_get_row)
  then have "find (\<lambda>r. inbox_key r = (actor_id auth, mid)) (t_rows (inbox s)) = Some row"
    using assms(1) key by (simp add: t_get_clean)
  then have "first_of (filter (\<lambda>r. inbox_key r = (actor_id auth, mid)) (t_rows (inbox s))) = Some row"
    by (simp add: first_of_filter)
  then show ?thesis using assms(1,4)
    by (auto simp: check_inbox_def find_inbox_clean remembered_def Let_def dest: deserialize_replayed)
qed

text \<open>A command that commits with an answer has left that answer in the inbox.\<close>

lemma inbox_untouched:
  assumes "keeps entry_same m" and "m s = (r, t)" and "t_clean (inbox s)"
  shows "inbox t = inbox s"
  using assms by (metis entry_same_def keeps_def snd_conv)

lemma run_handler_remembers:
  assumes run: "run_handler E op auth payload tid mid ikey ph s = (Inr r, t)"
    and clean: "t_clean (inbox s)"
    and fresh: "\<forall>row \<in> set (t_rows (inbox s)). inbox_key row \<noteq> (actor_id auth, mid)"
  shows "\<exists>row \<in> set (t_rows (inbox t)). remembered auth mid ph r row"
proof -
  from run obtain h s1 stid s2 s3 where h: "map_of (handlers E) op = Some h"
    and s1: "h auth payload s = (Inr r, s1)"
    and s2: "store_idempotency auth stid op ikey ph r s1 = (Inr (), s2)"
    and s3: "store_inbox auth stid op mid ph r s2 = (Inr (), s3)"
    and t: "only_if (cr_ok r) wake s3 = (Inr (), t)"
    unfolding run_handler_def Let_def andthen_Inr_iff seq_Inr_iff by auto
  have "inbox s1 = inbox s" using entry_store.keeps_handler [OF h] s1 clean by (rule inbox_untouched)
  moreover have "inbox s2 = inbox s1" using s2
    by (cases "cr_ok r") (auto simp: store_idempotency_def)
  ultimately have "\<exists>row \<in> set (t_rows (inbox s3)). remembered auth mid ph r row"
    using clean fresh by (intro store_inbox_remembers [OF s3]) auto
  moreover have "inbox t = inbox s3" using t by (cases "cr_ok r") (auto simp: wake_def)
  ultimately show ?thesis by simp
qed

interpretation same_inbox: frame "\<lambda>s t. inbox t = inbox s"
  by unfold_locales simp_all

lemma readonly_same_inbox: "keeps (=) m \<Longrightarrow> keeps (\<lambda>s t. inbox t = inbox s) m"
  unfolding keeps_def by (rule allI, rule arg_cong [of _ _ inbox, OF sym], blast)

lemma keeps_inbox_idempotency:
  "keeps (\<lambda>s t. inbox t = inbox s) (find_idempotency auth tid op ikey)"
  "keeps (\<lambda>s t. inbox t = inbox s) (upd_idem k f)"
  "keeps (\<lambda>s t. inbox t = inbox s) (check_idempotency auth tid op ikey ph)"
proof -
  show f: "keeps (\<lambda>s t. inbox t = inbox s) (find_idempotency auth tid op ikey)" for tid
    by (simp add: keeps_def find_idempotency_def)
  show u: "keeps (\<lambda>s t. inbox t = inbox s) (upd_idem k f)" for k f by (simp add: keeps_def)
  show "keeps (\<lambda>s t. inbox t = inbox s) (check_idempotency auth tid op ikey ph)"
    unfolding check_idempotency_def adopt_legacy_def
    by (intro same_inbox.keeps_struct f u readonly_same_inbox readonly_command_task_id)
qed

lemma check_idempotency_inbox:
  "check_idempotency auth tid op ikey ph s = (x, t) \<Longrightarrow> inbox t = inbox s"
  using keeps_inbox_idempotency(3) [of auth tid op ikey ph] unfolding keeps_def by (metis snd_conv)

lemma readonly_check_inbox [frame_intro]: "keeps (=) (check_inbox auth mid ph)"
  unfolding check_inbox_def by (intro readonly.keeps_struct frame_intro)

lemma execute_in_tx_remembers:
  assumes run: "execute_in_tx E op auth payload mid ikey ph s = (Inr r, t)" and clean: "t_clean (inbox s)"
  shows "\<exists>row \<in> set (t_rows (inbox t)). remembered auth mid ph r row"
proof -
  let ?hits = "filter (\<lambda>r. inbox_key r = (actor_id auth, mid)) (t_rows (inbox s))"
  from run obtain tid s1 s2 hit s3 where "command_task_id op payload s = (Inr tid, s1)"
    and "authorize_run_command op auth payload s1 = (Inr (), s2)"
    and "check_inbox auth mid ph s2 = (Inr hit, s3)"
    and rest: "(case hit of Some r0 \<Rightarrow> ret r0 | None \<Rightarrow>
        andthen (check_idempotency auth (if op = ''create_task'' then [] else tid) op ikey ph) (\<lambda>replay.
        case replay of Some r0 \<Rightarrow> seq (store_inbox auth tid op mid ph r0) (ret r0)
        | None \<Rightarrow> run_handler E op auth payload tid mid ikey ph)) s3 = (Inr r, t)"
    unfolding execute_in_tx_def andthen_Inr_iff seq_Inr_iff by blast
  then have eqs: "s1 = s" "s2 = s" "s3 = s"
    using readonlyD [OF readonly_command_task_id] readonlyD [OF readonly_admission(2)]
      readonlyD [OF readonly_check_inbox] by metis+
  have hit: "check_inbox auth mid ph s = (Inr hit, s)"
    using \<open>check_inbox auth mid ph s2 = (Inr hit, s3)\<close> eqs by simp
  note rest = rest [unfolded eqs]
  show ?thesis
  proof (cases "first_of ?hits")
    case (Some row)
    then have "row \<in> set (t_rows (inbox s))" "inbox_key row = (actor_id auth, mid)"
      by (auto dest: first_of_Some_in)
    with hit rest Some clean show ?thesis
      by (auto simp: check_inbox_def find_inbox_clean andthen_Inr_iff seq_Inr_iff remembered_def Let_def
          intro!: bexI [of _ row])
  next
    case None
    then have fresh: "\<forall>row \<in> set (t_rows (inbox s)). inbox_key row \<noteq> (actor_id auth, mid)"
      by (auto simp: filter_empty_conv)
    from hit None clean have "hit = None" by (simp add: check_inbox_def find_inbox_clean)
    with rest obtain replay s1 where c: "check_idempotency auth (if op = ''create_task'' then [] else tid)
        op ikey ph s = (Inr replay, s1)"
      and r: "(case replay of Some r0 \<Rightarrow> seq (store_inbox auth tid op mid ph r0) (ret r0)
        | None \<Rightarrow> run_handler E op auth payload tid mid ikey ph) s1 = (Inr r, t)"
      by (auto simp: andthen_Inr_iff)
    have "inbox s1 = inbox s" using c by (rule check_idempotency_inbox)
    with r clean fresh show ?thesis
      by (cases replay)
        (auto simp: seq_Inr_iff intro: run_handler_remembers store_inbox_remembers)
  qed
qed

subsection \<open>The entry as one transaction and a drain\<close>

abbreviation command_tx :: "env \<Rightarrow> string \<Rightarrow> AuthContext \<Rightarrow> dict \<Rightarrow> string \<Rightarrow> string option \<Rightarrow> CommandResult tx" where
  "command_tx E op auth payload mid ikey ==
     execute_in_tx E op auth (strip_identity payload) mid (or_else ikey mid)
       (command_hash (sha E) op (strip_identity payload))"

lemma execute_split:
  assumes "guard_operation auth op = Inr u" and "mid \<noteq> []"
  shows "execute fuel E en op auth payload (Some mid) ikey s =
    (case run_tx (command_tx E op auth payload mid ikey) s of
       (Inl e, s1) \<Rightarrow> (case as_failure e of None \<Rightarrow> (Inl e, s1) | Some r \<Rightarrow> (Inr r, s1))
     | (Inr r, s1) \<Rightarrow> andthen (drain_if_woken fuel E en) (\<lambda>_. ret r) s1)"
  using assms
  by (auto simp: execute_def Let_def or_else_def handle_def andthen_def seq_def only_if_def
      split: sum.splits prod.splits option.splits)

lemma as_failure_not_ok: "as_failure e = Some r \<Longrightarrow> \<not> cr_ok r"
  by (auto simp: as_failure_def split: exn.splits if_splits)

lemma execute_ok_commits:
  assumes "execute fuel E en op auth payload (Some mid) ikey s = (Inr r, t)" and "cr_ok r" and "mid \<noteq> []"
  shows "\<exists>s1. guard_operation auth op = Inr () \<and> run_tx (command_tx E op auth payload mid ikey) s = (Inr r, s1)
    \<and> history_le s1 t"
proof (cases "guard_operation auth op")
  case (Inl e)
  with assms show ?thesis by (auto simp: execute_def)
next
  case (Inr u)
  obtain a s1 where a: "run_tx (command_tx E op auth payload mid ikey) s = (a, s1)"
    by (cases "run_tx (command_tx E op auth payload mid ikey) s")
  note eq = execute_split [OF Inr assms(3), of fuel E en payload ikey s, unfolded a assms(1) prod.case]
  show ?thesis
  proof (cases a)
    case (Inl e)
    with eq assms(2) show ?thesis by (auto split: option.splits dest: as_failure_not_ok)
  next
    case r: (Inr r1)
    have "keeps history_le (drain_if_woken fuel E en)"
      unfolding drain_if_woken_def by (intro history_store.keeps_struct frame_intro)
    then have "history_le s1 (snd (drain_if_woken fuel E en s1))" by (simp add: keeps_def)
    with eq a r Inr show ?thesis
      by (auto simp: andthen_def split: prod.splits sum.splits)
  qed
qed

lemma committed_inbox:
  assumes "run_tx (command_tx E op auth payload mid ikey) s = (Inr r, t)" and "consistent s"
  shows "\<exists>row \<in> set (t_rows (inbox t)).
    remembered auth mid (command_hash (sha E) op (strip_identity payload)) r row"
proof -
  from run_tx_Inr [OF assms(1)] obtain s' where s': "command_tx E op auth payload mid ikey s = (Inr r, s')"
    and t: "t = flush_all s'" by blast
  have "t_clean (inbox s)" using assms(2) by (simp add: consistent_def clean_def)
  moreover from this have "list_all (\<lambda>c. \<not> dropped c) (inbox s)" by (simp add: t_clean_def list_all_iff)
  moreover have "tbl_le (=) (inbox s) (inbox s')"
    using history.keeps_execute_in_tx s' unfolding keeps_def history_le_def by (metis snd_conv)
  ultimately have "t_rows (inbox t) = t_rows (inbox s')" unfolding t
    by (simp add: tbl_le_def flush_all_def t_rows_flush)
  then show ?thesis using execute_in_tx_remembers [OF s' \<open>t_clean (inbox s)\<close>] by simp
qed

text \<open>On a state that remembers the message, the transaction is an answer from the inbox or a refusal.\<close>

lemma retry_tx:
  assumes "consistent u" and "row \<in> set (t_rows (inbox u))" and "remembered auth mid ph r row"
  shows "execute_in_tx E op auth payload mid ikey ph u =
    (case admission op auth payload u of
       (Inl e, _) \<Rightarrow> (Inl e, u)
     | (Inr _, _) \<Rightarrow> (map_sum id the (fst (check_inbox auth mid ph u)), u))"
    and "\<exists>r'. check_inbox auth mid ph u = (Inr (Some r'), u) \<and> cr_ok r' = cr_ok r
      \<and> cr_data r' = cr_data r \<and> (cr_ok r \<longrightarrow> cr_replayed r')"
proof -
  have c: "t_clean (inbox u)" "distinct (t_keys inbox_key (inbox u))"
    using assms(1) by (simp_all add: consistent_def clean_def constraints_ok_def)
  show hit: "\<exists>r'. check_inbox auth mid ph u = (Inr (Some r'), u) \<and> cr_ok r' = cr_ok r
      \<and> cr_data r' = cr_data r \<and> (cr_ok r \<longrightarrow> cr_replayed r')"
    using c assms(2,3) by (rule check_inbox_hit)
  obtain a u1 where a: "command_task_id op payload u = (a, u1)" by (cases "command_task_id op payload u")
  then have u1: "u1 = u" by (rule readonlyD [OF readonly_command_task_id])
  obtain b u2 where b: "authorize_run_command op auth payload u = (b, u2)"
    by (cases "authorize_run_command op auth payload u")
  then have u2: "u2 = u" by (rule readonlyD [OF readonly_admission(2)])
  from hit obtain r' where "check_inbox auth mid ph u = (Inr (Some r'), u)" by blast
  with a b show "execute_in_tx E op auth payload mid ikey ph u =
    (case admission op auth payload u of
       (Inl e, _) \<Rightarrow> (Inl e, u)
     | (Inr _, _) \<Rightarrow> (map_sum id the (fst (check_inbox auth mid ph u)), u))"
    unfolding u1 u2 by (cases a; cases b) (simp_all add: execute_in_tx_def admission_def)
qed

lemma run_tx_idle:
  assumes "m u = (a, u)" and "consistent u" and "\<not> crash_before_commit u" and "\<not> crash_after_commit u"
  shows "run_tx m u = (a, u)"
  using assms by (cases a)
    (simp_all add: run_tx_def rollback_def flush_def consistent_def flush_all_clean)

text \<open>
  C2. A command takes effect at most once. Suppose a command with message id \<open>mid\<close> was answered
  with success, and after any further steps the client sends it again (same actor, operation,
  payload and message id; the idempotency key, the dispatch switch and the world may differ). Then
  the retry changes nothing at all in the state. If the command is still admitted (its task is
  still found and, for a Run command, the credential still bound to its Run), the retry is
  answered with success and exactly the data of the first answer, marked as replayed.
\<close>

theorem command_exactly_once:
  assumes first: "execute fuel E en op auth payload (Some mid) ikey s = (Inr r, t)"
    and ok: "cr_ok r" and mid: "mid \<noteq> []" and s: "consistent s"
    and later: "service_step\<^sup>*\<^sup>* t u" and sha: "sha E' = sha E"
    and idle: "\<not> wake_requested u" "\<not> crash_before_commit u" "\<not> crash_after_commit u"
  shows "snd (execute fuel' E' en' op auth payload (Some mid) ikey' u) = u
    \<and> (fst (admission op auth (strip_identity payload) u) = Inr () \<longrightarrow>
        (\<exists>r'. fst (execute fuel' E' en' op auth payload (Some mid) ikey' u) = Inr r'
          \<and> cr_ok r' \<and> cr_data r' = cr_data r \<and> cr_replayed r'))"
proof -
  let ?ph = "command_hash (sha E) op (strip_identity payload)"
  obtain s1 where g: "guard_operation auth op = Inr ()"
    and s1: "run_tx (command_tx E op auth payload mid ikey) s = (Inr r, s1)" and h: "history_le s1 t"
    using execute_ok_commits [OF first ok mid] by blast
  have "service_step s t" using service_step.command [of s fuel E en op auth payload "Some mid" ikey]
    by (simp add: first)
  with s later have u: "consistent u" by (blast intro: consistent_step consistent_steps)
  obtain row where row: "row \<in> set (t_rows (inbox s1))" "remembered auth mid ?ph r row"
    using committed_inbox [OF s1 s] by blast
  have "tbl_le (=) (inbox s1) (inbox u)"
    using history_le_trans [OF h history.steps_keep [OF later]] by (simp add: history_le_def)
  moreover have "t_clean (inbox s1)" using run_tx_Inr [OF s1] by (auto simp: flush_all_def)
  ultimately have there: "row \<in> set (t_rows (inbox u))" using row(1) tbl_le_eq_rows by fastforce
  note retry = retry_tx(1) [OF u there row(2), of E' op "strip_identity payload" "or_else ikey' mid"]
  from retry_tx(2) [OF u there row(2)] obtain r' where r': "check_inbox auth mid ?ph u = (Inr (Some r'), u)"
    "cr_ok r'" "cr_data r' = cr_data r" "cr_replayed r'" using ok by auto
  obtain a where a: "admission op auth (strip_identity payload) u = (a, u)"
    using admission_readonly by (metis surj_pair)
  have "command_tx E' op auth payload mid ikey' u = (case a of Inl e \<Rightarrow> Inl e | Inr _ \<Rightarrow> Inr r', u)"
    using retry r'(1) a sha by (cases a) simp_all
  then have "run_tx (command_tx E' op auth payload mid ikey') u = (case a of Inl e \<Rightarrow> Inl e | Inr _ \<Rightarrow> Inr r', u)"
    using u idle(2,3) by (rule run_tx_idle)
  then show ?thesis using a r' idle(1)
    by (cases a) (auto simp: execute_split [OF g mid] drain_if_woken_def split: option.splits)
qed

theorem command_exactly_once_witness:
  "\<exists>r'. fst (execute 9 sample_env True ''create_task'' sample_human [(''task_id'', JStr ''t'')]
      (Some ''m1'') None (sample_created\<lparr> wake_requested := False \<rparr>)) = Inr r'
    \<and> cr_data r' = [(''task_id'', JStr ''t''), (''state'', JStr ''NEW'')] \<and> cr_replayed r'"
proof -
  let ?cmd = "execute 0 sample_env False ''create_task'' sample_human [(''task_id'', JStr ''t'')] (Some ''m1'') None"
  have "fst (?cmd init_sess) = Inr (success [(''task_id'', JStr ''t''), (''state'', JStr ''NEW'')])"
    by code_simp
  then have "?cmd init_sess = (Inr (success [(''task_id'', JStr ''t''), (''state'', JStr ''NEW'')]), sample_created)"
    by (simp add: sample_created_def sample_cmd_def prod_eq_iff)
  moreover have "service_step\<^sup>*\<^sup>* sample_created (sample_created\<lparr> wake_requested := False \<rparr>)"
    by (intro r_into_rtranclp service_step.restart)
  moreover have "\<not> crash_before_commit (sample_created\<lparr> wake_requested := False \<rparr>)
      \<and> \<not> crash_after_commit (sample_created\<lparr> wake_requested := False \<rparr>)" by code_simp
  moreover have "fst (admission ''create_task'' sample_human (strip_identity [(''task_id'', JStr ''t'')])
      (sample_created\<lparr> wake_requested := False \<rparr>)) = Inr ()"
    by (simp add: admission_def command_task_id_def authorize_run_command_def RUN_COMMANDS_def)
  ultimately show ?thesis
    using command_exactly_once [of 0 sample_env False "''create_task''" sample_human
      "[(''task_id'', JStr ''t'')]" "''m1''" None init_sess _ sample_created
      "sample_created\<lparr> wake_requested := False \<rparr>" sample_env 9 True None] consistent_init
    by auto
qed

subsection \<open>All or nothing\<close>

text \<open>
  C3. A command is atomic. Either its whole transaction commits (the database then only moves on
  from the committed state, by the outbox round that follows), or the database is exactly what it
  was before: an error, a violated constraint or a crash before the commit leaves no trace.
\<close>

theorem command_atomic:
  assumes "mid \<noteq> []"
  shows "(\<exists>r s'. command_tx E op auth payload mid ikey s = (Inr r, s') \<and> constraints_ok s'
      \<and> history_le (flush_all s') (snd (execute fuel E en op auth payload (Some mid) ikey s)))
    \<or> same_db s (snd (execute fuel E en op auth payload (Some mid) ikey s))"
proof (cases "guard_operation auth op")
  case (Inl e)
  then show ?thesis by (simp add: execute_def same_db_def)
next
  case (Inr g)
  have drain: "keeps history_le (drain_if_woken fuel E en)"
    unfolding drain_if_woken_def by (intro history_store.keeps_struct frame_intro)
  obtain a s1 where a: "command_tx E op auth payload mid ikey s = (a, s1)"
    by (cases "command_tx E op auth payload mid ikey s")
  show ?thesis
  proof (cases "\<exists>r. a = Inr r \<and> \<not> crash_before_commit s1 \<and> constraints_ok s1")
    case True
    then obtain r where r: "a = Inr r" "\<not> crash_before_commit s1" "constraints_ok s1" by blast
    have "history_le (flush_all s1) (snd (drain_if_woken fuel E en (flush_all s1)))"
      using drain by (simp add: keeps_def)
    with a r have "history_le (flush_all s1) (snd (execute fuel E en op auth payload (Some mid) ikey s))"
      by (auto simp: execute_split [OF Inr assms] run_tx_def flush_def andthen_def history_le_refl
          split: option.splits prod.splits sum.splits)
    with a r show ?thesis by auto
  next
    case False
    with a have "\<exists>e t. run_tx (command_tx E op auth payload mid ikey) s = (Inl e, t) \<and> same_db s t"
      by (cases a) (auto simp: run_tx_def flush_def)
    then show ?thesis by (auto simp: execute_split [OF Inr assms] split: option.splits)
  qed
qed

theorem command_atomic_witness:
  "(\<exists>r s'. command_tx sample_env ''pause_task'' sample_human [(''task_id'', JStr ''t'')] ''m'' None
        (sample_db EXECUTING) = (Inr r, s') \<and> constraints_ok s'
      \<and> history_le (flush_all s') (sample_cmd ''pause_task'' [(''task_id'', JStr ''t'')] ''m'' (sample_db EXECUTING)))
    \<or> same_db (sample_db EXECUTING)
        (sample_cmd ''pause_task'' [(''task_id'', JStr ''t'')] ''m'' (sample_db EXECUTING))"
  unfolding sample_cmd_def by (rule command_atomic) simp

subsection \<open>Conflicts and replays\<close>

text \<open>
  Reusing a message id for another command is refused: if the inbox holds a row of this actor
  and message id with a different payload hash, an admitted command is answered with
  \<open>inbox_conflict\<close> and the state does not change.
\<close>

theorem message_conflict_refused:
  assumes u: "consistent u" and row: "row \<in> set (t_rows (inbox u))"
    and key: "inbox_key row = (actor_id auth, mid)"
    and other: "ib_payload_hash row \<noteq> command_hash (sha E) op (strip_identity payload)"
    and g: "guard_operation auth op = Inr ()" and mid: "mid \<noteq> []"
    and adm: "fst (admission op auth (strip_identity payload) u) = Inr ()"
    and crash: "\<not> crash_before_commit u" "\<not> crash_after_commit u"
  shows "execute fuel E en op auth payload (Some mid) ikey u = (Inr (failure ''inbox_conflict'' []), u)"
proof -
  let ?ph = "command_hash (sha E) op (strip_identity payload)"
  have c: "t_clean (inbox u)" "distinct (t_keys inbox_key (inbox u))"
    using u by (simp_all add: consistent_def clean_def constraints_ok_def)
  then have "find (\<lambda>r. inbox_key r = (actor_id auth, mid)) (t_rows (inbox u)) = Some row"
    using t_get_row [OF c row] key by (simp add: t_get_clean)
  then have hit: "check_inbox auth mid ?ph u = (Inl (IdempotencyConflictError ''inbox_conflict''), u)"
    using c(1) other by (simp add: check_inbox_def find_inbox_clean first_of_filter)
  obtain a u1 where a: "command_task_id op (strip_identity payload) u = (a, u1)"
    by (cases "command_task_id op (strip_identity payload) u")
  then have "u1 = u" by (rule readonlyD [OF readonly_command_task_id])
  moreover obtain b u2 where b: "authorize_run_command op auth (strip_identity payload) u = (b, u2)"
    by (cases "authorize_run_command op auth (strip_identity payload) u")
  moreover from b have "u2 = u" by (rule readonlyD [OF readonly_admission(2)])
  ultimately have "command_tx E op auth payload mid ikey u = (Inl (IdempotencyConflictError ''inbox_conflict''), u)"
    using a b adm hit by (cases a; cases b) (simp_all add: execute_in_tx_def admission_def)
  then have "run_tx (command_tx E op auth payload mid ikey) u = (Inl (IdempotencyConflictError ''inbox_conflict''), u)"
    using u crash by (rule run_tx_idle)
  then show ?thesis by (simp add: execute_split [OF g mid] as_failure_def)
qed

theorem message_conflict_refused_witness:
  "execute 0 sample_env True ''create_task'' sample_human [(''title'', JStr ''other'')] (Some ''m1'') None sample_created
    = (Inr (failure ''inbox_conflict'' []), sample_created)"
proof -
  have "reachable sample_created"
    unfolding sample_created_def sample_cmd_def
    by (rule reachable_step [OF reachable_init]) (rule service_step.command)
  then have c: "consistent sample_created" by (rule reachable_consistent)
  have row: "hd (t_rows (inbox sample_created)) \<in> set (t_rows (inbox sample_created))" by code_simp
  have key: "inbox_key (hd (t_rows (inbox sample_created))) = (actor_id sample_human, ''m1'')" by code_simp
  have other: "ib_payload_hash (hd (t_rows (inbox sample_created))) \<noteq>
    command_hash (sha sample_env) ''create_task'' (strip_identity [(''title'', JStr ''other'')])" by code_simp
  have g: "guard_operation sample_human ''create_task'' = Inr ()" by code_simp
  have adm: "fst (admission ''create_task'' sample_human (strip_identity [(''title'', JStr ''other'')])
      sample_created) = Inr ()"
    by (simp add: admission_def command_task_id_def authorize_run_command_def RUN_COMMANDS_def)
  have crash: "\<not> crash_before_commit sample_created" "\<not> crash_after_commit sample_created" by code_simp+
  show ?thesis by (rule message_conflict_refused [OF c row key other g _ adm crash]) simp
qed

text \<open>
  Business idempotency. A new message that repeats an idempotency key of the same principal,
  task and operation with the same payload does not run its handler: it is answered with the
  stored data, marked as replayed, and the only change of the transaction is the new inbox row.
\<close>

theorem idempotency_key_replayed:
  assumes s: "consistent s" and task: "command_task_id op payload s = (Inr tid, s)"
    and adm: "authorize_run_command op auth payload s = (Inr (), s)"
    and fresh: "\<forall>row \<in> set (t_rows (inbox s)). inbox_key row \<noteq> (actor_id auth, mid)"
    and row: "row \<in> set (t_rows (idem s))"
    and key: "idem_key row = (principal_id auth, (if op = ''create_task'' then [] else tid), op, ikey)"
    and same: "ik_payload_hash row = ph"
  shows "\<exists>ib. execute_in_tx E op auth payload mid ikey ph s =
      (Inr (success_replayed (entries (ik_result_json row))), s\<lparr> inbox := t_add ib (inbox s) \<rparr>)
    \<and> remembered auth mid ph (success_replayed (entries (ik_result_json row))) ib"
proof -
  have c: "t_clean (inbox s)" "t_clean (idem s)" "distinct (t_keys idem_key (idem s))"
    using s by (simp_all add: consistent_def clean_def constraints_ok_def)
  from fresh have none: "filter (\<lambda>r. inbox_key r = (actor_id auth, mid)) (t_rows (inbox s)) = []"
    by (simp add: filter_empty_conv)
  have "find (\<lambda>r. idem_key r = idem_key row) (t_rows (idem s)) = Some row"
    using t_get_row [OF c(2,3) row] c(2) by (simp add: t_get_clean)
  then have "find (\<lambda>r. idem_key r = (principal_id auth, (if op = ''create_task'' then [] else tid), op, ikey))
      (t_rows (idem s)) = Some row" by (simp only: key)
  then have direct: "find_idempotency auth (if op = ''create_task'' then [] else tid) op ikey s = (Inr (Some row), s)"
    using c(2) by (simp add: find_idempotency_def t_select_clean first_of_filter idem_key_def)
  show ?thesis
    using none c(1) direct task adm same
    by (auto simp: execute_in_tx_def check_inbox_def find_inbox_clean check_idempotency_def store_inbox_def
        remembered_def inbox_key_def serialize_roundtrip)
qed

theorem idempotency_key_replayed_witness:
  "\<exists>ib. execute_in_tx sample_env ''create_task'' sample_human [(''task_id'', JStr ''t'')] ''m9'' ''m1''
      (ik_payload_hash (hd (t_rows (idem sample_created)))) sample_created =
      (Inr (success_replayed [(''task_id'', JStr ''t''), (''state'', JStr ''NEW'')]),
       sample_created\<lparr> inbox := t_add ib (inbox sample_created) \<rparr>)"
proof -
  let ?row = "hd (t_rows (idem sample_created))"
  have "reachable sample_created"
    unfolding sample_created_def sample_cmd_def
    by (rule reachable_step [OF reachable_init]) (rule service_step.command)
  then have c: "consistent sample_created" by (rule reachable_consistent)
  have row: "?row \<in> set (t_rows (idem sample_created))" by code_simp
  have key: "idem_key ?row = (''p'', [], ''create_task'', ''m1'')" by code_simp
  have data: "entries (ik_result_json ?row) = [(''task_id'', JStr ''t''), (''state'', JStr ''NEW'')]" by code_simp
  have "list_all (\<lambda>row. inbox_key row \<noteq> (''u'', ''m9'')) (t_rows (inbox sample_created))" by code_simp
  then have fresh: "\<forall>row \<in> set (t_rows (inbox sample_created)). inbox_key row \<noteq> (actor_id sample_human, ''m9'')"
    by (simp add: list_all_iff sample_human_def)
  have t: "command_task_id ''create_task'' p sample_created = (Inr [], sample_created)" for p
    by (simp add: command_task_id_def)
  have a: "authorize_run_command ''create_task'' sample_human p sample_created = (Inr (), sample_created)" for p
    by (simp add: authorize_run_command_def RUN_COMMANDS_def)
  have k: "idem_key ?row = (principal_id sample_human, (if ''create_task'' = ''create_task'' then [] else []),
    ''create_task'', ''m1'')" by (simp add: key sample_human_def)
  show ?thesis using idempotency_key_replayed [OF c t a fresh row k refl] by (auto simp: data)
qed

end
