(* ===== verification/Draining.thy ===== *)
theory Draining
  imports System
begin

text \<open>
  The drain loop of the outbox ends. Every round turns one claimable command into one that is not
  claimable at the same clock (acknowledged, dead, or pending with a lease in the future), and only
  the fencing of a start adds a command, a stop. So a weighted count of the claimable commands
  decreases, and the fuel of \<open>drain_outbox\<close> suffices as soon as it exceeds that count.
\<close>

subsection \<open>The load of the outbox\<close>

definition weight :: "int \<Rightarrow> OutboxRow \<Rightarrow> nat" where
  "weight c row = (if ob_status row = O_PENDING \<and> claimable_now c row
     then (if ob_command_type row = ''agent.start'' then 4 else 1) else 0)"

definition load :: "int \<Rightarrow> sess \<Rightarrow> nat" where
  "load c s = sum_list (map (weight c) (t_rows (outbox s)))"

text \<open>The identity and the type of each command, which never change.\<close>

definition commands :: "sess \<Rightarrow> (string \<times> string) list" where
  "commands s = map (\<lambda>r. (ob_outbox_id r, ob_command_type r)) (t_rows (outbox s))"

definition kept_outbox :: "sess \<Rightarrow> bool" where
  "kept_outbox s \<longleftrightarrow> list_all (\<lambda>x. \<not> dropped x) (outbox s)"

text \<open>At clock \<open>c\<close>, the load grows by at most \<open>n\<close>, and commands are only added.\<close>

definition adds :: "int \<Rightarrow> nat \<Rightarrow> sess \<Rightarrow> sess \<Rightarrow> bool" where
  "adds c n s t \<longleftrightarrow> (clock_now s = c \<and> kept_outbox s \<longrightarrow>
     clock_now t = c \<and> kept_outbox t \<and> load c t \<le> load c s + n \<and> (\<exists>more. commands t = commands s @ more))"

interpretation light: frame "adds c 0" for c
  by unfold_locales (auto simp: adds_def)

lemma adds_weaken: "adds c m s t \<Longrightarrow> m \<le> n \<Longrightarrow> adds c n s t"
  by (auto simp: adds_def)

lemma adds_mono: "keeps (adds c m) f \<Longrightarrow> m \<le> n \<Longrightarrow> keeps (adds c n) f"
  unfolding keeps_def by (blast intro: adds_weaken)

lemma adds_trans: "adds c m s t \<Longrightarrow> adds c n t u \<Longrightarrow> adds c (m + n) s u"
  unfolding adds_def by (auto simp: add.assoc)

lemma adds_andthen:
  assumes "keeps (adds c m) f" and "\<And>x. keeps (adds c n) (g x)"
  shows "keeps (adds c (m + n)) (andthen f g)"
  unfolding keeps_def
proof
  fix s
  obtain r s' where f: "f s = (r, s')" by (cases "f s")
  with assms(1) have one: "adds c m s s'" by (metis keeps_def snd_conv)
  show "adds c (m + n) s (snd (andthen f g s))"
  proof (cases r)
    case (Inl e)
    with f one show ?thesis by (auto simp: adds_def)
  next
    case (Inr x)
    have "adds c n s' (snd (g x s'))" using assms(2) by (simp add: keeps_def)
    with Inr f one show ?thesis by (auto intro: adds_trans)
  qed
qed

lemma adds_seq: "keeps (adds c m) f \<Longrightarrow> keeps (adds c n) g \<Longrightarrow> keeps (adds c (m + n)) (seq f g)"
  unfolding seq_def by (rule adds_andthen)

lemma adds_after: "keeps (adds c 0) f \<Longrightarrow> (\<And>x. keeps (adds c n) (g x)) \<Longrightarrow> keeps (adds c n) (andthen f g)"
  using adds_andthen [of c 0 f n g] by simp

lemma adds_after_seq: "keeps (adds c 0) f \<Longrightarrow> keeps (adds c n) g \<Longrightarrow> keeps (adds c n) (seq f g)"
  using adds_seq [of c 0 f n g] by simp

lemma adds_then: "keeps (adds c n) f \<Longrightarrow> (\<And>x. keeps (adds c 0) (g x)) \<Longrightarrow> keeps (adds c n) (andthen f g)"
  using adds_andthen [of c n f 0 g] by simp

lemma adds_then_seq: "keeps (adds c n) f \<Longrightarrow> keeps (adds c 0) g \<Longrightarrow> keeps (adds c n) (seq f g)"
  using adds_seq [of c n f 0 g] by simp

lemma light_now: "keeps (adds c 0) (f c) \<Longrightarrow> keeps (adds c 0) (andthen now f)"
  by (auto simp: keeps_def adds_def)

subsection \<open>Steps of a transaction\<close>

lemma light_modify:
  "(\<And>s. outbox (f s) = outbox s \<and> clock_now (f s) = clock_now s) \<Longrightarrow> keeps (adds c 0) (modify f)"
  by (simp add: keeps_def adds_def load_def commands_def kept_outbox_def)

lemma light_flush_all: "adds c 0 s (flush_all s)"
  by (simp add: adds_def load_def commands_def kept_outbox_def flush_all_def t_rows_flush)
    (simp add: t_flush_def list_all_iff)

lemma light_flush: "keeps (adds c 0) flush"
  using light_flush_all light.R_refl by (simp add: keeps_def flush_def)

lemma light_calls [frame_intro]:
  "keeps (adds c 0) (new_id E p)" "keeps (adds c 0) (upd_task k f1)" "keeps (adds c 0) (upd_run k f2)"
  "keeps (adds c 0) (upd_wu k f3)" "keeps (adds c 0) (upd_workspace k f4)" "keeps (adds c 0) (upd_effect k f5)"
  "keeps (adds c 0) (upd_planner_session k f6)" "keeps (adds c 0) (drop_exec_marker k)"
  "keeps (adds c 0) (drop_plan_run_marker k)" "keeps (adds c 0) (add_event ev)"
  unfolding upd_task_def upd_run_def upd_wu_def upd_workspace_def upd_effect_def upd_planner_session_def
    drop_exec_marker_def drop_plan_run_marker_def add_event_def
  by (simp_all add: light_modify) (simp add: keeps_def adds_def load_def commands_def kept_outbox_def)

lemma sum_upd: "(\<And>r. w (f r) \<le> w r) \<Longrightarrow> sum_list (map w (t_rows (t_upd key k f t))) \<le> sum_list (map w (t_rows t))"
  for w :: "'r \<Rightarrow> nat"
  by (induction t) (auto simp: t_rows_def set_live_def add_mono)

lemma map_upd: "(\<And>r. g (f r) = g r) \<Longrightarrow> map g (t_rows (t_upd key k f t)) = map g (t_rows t)"
  by (induction t) (auto simp: t_rows_def set_live_def)

lemma light_upd_outbox:
  assumes "\<And>r. weight c (f r) \<le> weight c r" "\<And>r. ob_outbox_id (f r) = ob_outbox_id r"
    "\<And>r. ob_command_type (f r) = ob_command_type r"
  shows "keeps (adds c 0) (upd_outbox k f)"
  unfolding keeps_def adds_def upd_outbox_def
  using assms by (auto simp: load_def commands_def kept_outbox_def t_upd_kept map_upd intro: sum_upd)

lemma heavy_add_outbox:
  "ob_command_type r \<noteq> ''agent.start'' \<Longrightarrow> keeps (adds c 1) (add_outbox r)"
  by (simp add: keeps_def adds_def add_outbox_def load_def commands_def kept_outbox_def weight_def)

text \<open>Reading keeps every frame, and so does a guard that may flush.\<close>

lemma light_read [frame_intro]: "keeps (=) m \<Longrightarrow> keeps (adds c 0) m"
  by (rule light.keeps_readonly)

lemma light_flushed: "keeps flushed m \<Longrightarrow> keeps (adds c 0) m"
  unfolding keeps_def flushed_def using light_flush_all light.R_refl by metis

lemma light_set_task_state: "keeps (adds c 0) (set_task_state tid e reason)"
  unfolding set_task_state_def
  by (intro light.keeps_struct light_calls light_read frame_intro)

lemma light_append_event: "keeps (adds c 0) (append_event tid et actor p)"
  unfolding append_event_def next_event_seq_def
  by (intro light.keeps_struct light_flush light_calls light_read frame_intro)

lemma light_helpers:
  "keeps (adds c 0) (block_task tid reason)" "keeps (adds c 0) (keep_start_occupancy rid)"
  "keeps (adds c 0) (clear_run_occupancy rid release)"
  unfolding block_task_def keep_start_occupancy_def clear_run_occupancy_def when_set_def
  by (intro light.keeps_struct light_set_task_state light_calls light_read frame_intro)+

lemma light_outbox_marks:
  "keeps (adds c 0) (kill_row oid)"
  "keeps (adds c 0) (upd_outbox oid (\<lambda>x. x\<lparr> ob_status := O_ACKED, ob_acked_at := a \<rparr>))"
  "keeps (adds c 0) (upd_outbox oid (\<lambda>x. x\<lparr> ob_status := (if dead then O_DEAD else O_ACKED), ob_acked_at := a \<rparr>))"
  "keeps (adds c 0) (upd_outbox oid (\<lambda>x. x\<lparr> ob_status := O_DEAD, ob_leased_until := l \<rparr>))"
  "keeps (adds c 0) (upd_outbox oid (\<lambda>x. x\<lparr> ob_revoke_epoch := e \<rparr>))"
  "c < l2 \<Longrightarrow> keeps (adds c 0) (upd_outbox oid (\<lambda>x. x\<lparr> ob_status := O_PENDING, ob_leased_until := Some l2 \<rparr>))"
  unfolding kill_row_def
  by (intro light_upd_outbox; simp add: weight_def claimable_now_def)+

text \<open>Only the stop of a fenced start is a new command.\<close>

lemma adds_ret: "keeps (adds c n) (ret x)"
  by (rule adds_mono [OF light.keeps_ret]) simp

lemma adds_if: "keeps (adds c n) a \<Longrightarrow> keeps (adds c n) b \<Longrightarrow> keeps (adds c n) (if p then a else b)"
  by simp

lemma adds_option:
  "keeps (adds c n) a \<Longrightarrow> (\<And>x. keeps (adds c n) (g x)) \<Longrightarrow> keeps (adds c n) (case v of None \<Rightarrow> a | Some x \<Rightarrow> g x)"
  by (cases v) simp_all

lemma adds_only_if: "keeps (adds c n) f \<Longrightarrow> keeps (adds c n) (only_if b f)"
  by (cases b) (simp_all add: only_if_def adds_ret)

lemma adds_enqueue_stop: "keeps (adds c 1) (enqueue_stops_for_runs E tid [rid] reason)"
proof -
  have add: "keeps (adds c 1) (add_outbox (outbox_row oid tid ''agent.stop'' p e ts))" for oid p e ts
    by (rule heavy_add_outbox) (simp add: outbox_row_def)
  have "keeps (adds c 1) (enqueue_outbox E tid ''agent.stop'' p)" for p
    unfolding enqueue_outbox_def by (intro adds_after light_calls add light_read frame_intro readonly.keeps_struct)
  then show ?thesis unfolding enqueue_stops_for_runs_def Let_def each.simps
    by (intro adds_after adds_then_seq adds_only_if light.keeps_ret light_read frame_intro)
qed

lemma adds_fence:
  "keeps (adds c 1) (fence_claimed_agent_start E oid rid reason)"
  "keeps (adds c 1) (fence_uncertain_start E oid reason)"
proof -
  have task: "keeps (adds c 1) (case task of None \<Rightarrow> ret () | Some t \<Rightarrow> enqueue_stops_for_runs E (tk_task_id t) [r] reason)"
    for task :: "TaskRow option" and r
    by (cases task) (simp_all add: adds_enqueue_stop adds_ret del: One_nat_def)
  have stop: "keeps (adds c 1) (case rid of None \<Rightarrow> ret () | Some r \<Rightarrow> seq (keep_start_occupancy r)
      (case task of None \<Rightarrow> ret () | Some t \<Rightarrow> enqueue_stops_for_runs E (tk_task_id t) [r] reason))"
    for rid and task :: "TaskRow option"
    using adds_after_seq [OF light_helpers(2) task] by (cases rid) (simp_all add: adds_ret del: One_nat_def)
  show fence: "keeps (adds c 1) (fence_claimed_agent_start E oid rid reason)" for rid
    unfolding fence_claimed_agent_start_def
    by (intro adds_after_seq adds_after adds_then_seq stop light_outbox_marks light.keeps_struct light_read frame_intro)
  show "keeps (adds c 1) (fence_uncertain_start E oid reason)"
    unfolding fence_uncertain_start_def
    by (intro adds_after fence light_read frame_intro)
qed

lemma light_gates:
  "keeps (adds c 0) (has_blocking_gate tid)"
  "keeps (adds c 0) (passes (guard_side_effect_eligibility tid eid sts))"
  by (intro light_flushed flushed_gates flushed_passes)+

lemma adds_start_send_allowed: "keeps (adds c 1) (start_send_allowed E item)"
proof -
  have live: "keeps (adds c 0) (case (run, task_row) of
      (Some r, Some task) \<Rightarrow>
        (if run_active r \<and> ob_revoke_epoch row = tk_revoke_epoch task \<and> \<not> tk_cancel_intent task \<and> \<not> tk_pause_intent task
         then andthen (has_blocking_gate (tk_task_id task)) (\<lambda>gate.
           ret (\<not> gate \<and> tk_state task \<in> {PLANNING, EXECUTING, VERIFYING}))
         else ret False)
      | _ \<Rightarrow> ret False)" for run task_row and row :: OutboxRow
    by (cases run; cases task_row) (simp_all add: light.keeps_ret light.keeps_andthen light_gates)
  have fence: "keeps (adds c 1) (if l then ret True
      else andthen (fence_claimed_agent_start E oid rid reason) (\<lambda>note.
        ret False))" for l oid rid reason
    by (cases l) (simp_all add: adds_ret adds_then adds_fence light.keeps_ret del: One_nat_def)
  show ?thesis unfolding start_send_allowed_def
    by (rule adds_after, intro light_read frame_intro, rule adds_after, intro light_read frame_intro,
      rule adds_after, intro light_read frame_intro, rule adds_option, rule adds_ret,
      rule adds_after, intro light_read frame_intro, rule adds_if, rule adds_ret, rule adds_after, rule live, rule fence)
qed

lemma light_start_revoked: "keeps (adds c 0) (start_revoked_meanwhile row run task)"
  unfolding start_revoked_meanwhile_def by (intro light.keeps_struct light_gates)

lemma adds_ack_start: "keeps (adds c 1) (ack_outbox_and_mark_running E oid payload)"
proof -
  have stop: "keeps (adds c 1) (case (run, task) of
      (Some r, Some t) \<Rightarrow> seq (keep_start_occupancy (ar_run_id r)) (
        enqueue_stops_for_runs E (tk_task_id t) [ar_run_id r] ''start_ack_fenced'')
      | _ \<Rightarrow> ret ())" for run :: "AgentRunRow option" and task :: "TaskRow option"
    by (cases run; cases task)
      (simp_all add: adds_ret adds_after_seq light_helpers adds_enqueue_stop del: One_nat_def)
  have run: "keeps (adds c 0) (case run of None \<Rightarrow> ret None | Some r \<Rightarrow> get_task (ar_task_id r))"
    for run :: "AgentRunRow option"
    by (cases run) (simp_all add: light.keeps_ret light_read frame_intro)
  have branch: "keeps (adds c 1) (if revoked then seq (only_if b (seq (kill_row oid) (
      (case task of None \<Rightarrow> ret () | Some t \<Rightarrow> upd_outbox oid (\<lambda>x. x\<lparr> ob_revoke_epoch := tk_revoke_epoch t \<rparr>))))) (
    (case (run, task) of
           (Some r, Some t) \<Rightarrow> seq (keep_start_occupancy (ar_run_id r)) (
             enqueue_stops_for_runs E (tk_task_id t) [ar_run_id r] ''start_ack_fenced'')
         | _ \<Rightarrow> ret ())) else seq (only_if b2 (upd_outbox oid (\<lambda>x. x\<lparr> ob_status := O_ACKED, ob_acked_at := a \<rparr>))) (
           (case run of None \<Rightarrow> ret () | Some r \<Rightarrow> only_if (ar_status r = R_CREATED)
             (upd_run (ar_run_id r) (\<lambda>x. x\<lparr> ar_status := R_RUNNING, ar_started_at := a \<rparr>)))))" for revoked b b2 a and run :: "AgentRunRow option" and task :: "TaskRow option"
  proof (cases revoked)
    case True
    then show ?thesis
      by (simp only: if_True) (intro adds_after_seq stop light.keeps_struct light_outbox_marks)
  next
    case False
    then show ?thesis
      by (simp only: if_False, intro adds_mono [of c 0, OF _ zero_le_one]
        light.keeps_seq light.keeps_only_if light.keeps_option light.keeps_ret light_outbox_marks light_calls)
  qed
  show ?thesis unfolding ack_outbox_and_mark_running_def
    by (intro adds_after branch run light_start_revoked light_read frame_intro light.keeps_struct)
qed

lemma light_acks:
  "keeps (adds c 0) (ack_outbox oid dead)" "keeps (adds c 0) (dispatch_precheck item)"
  "keeps (adds c 0) (apply_receipt item receipt)"
  unfolding ack_outbox_def dispatch_precheck_def apply_receipt_def
  by (intro light.keeps_struct light_outbox_marks light_gates light_calls light_helpers light_read frame_intro)+

lemma light_ack_stop: "keeps (adds c 0) (ack_stop oid payload result)"
  unfolding ack_stop_def settle_stopped_workspace_def cancel_stopped_run_def free_stopped_unit_def when_set_def Let_def
  by (intro light.keeps_struct light_outbox_marks light_append_event light_calls light_helpers light_read frame_intro)

text \<open>A failed command: a start is fenced (one stop); anything else gets no new command.\<close>

definition fail_row :: "env \<Rightarrow> string \<Rightarrow> string \<Rightarrow> int \<Rightarrow> OutboxRow \<Rightarrow> unit tx" where
  "fail_row E oid err ts row =
    (if ob_command_type row = ''side_effect.dispatch'' then andthen (need (entries (ob_payload_json row)) ''effect_id'') (\<lambda>eid.
      andthen (by_key get_effect eid) (\<lambda>effect_row.
      seq (case effect_row of None \<Rightarrow> ret () | Some effect \<Rightarrow>
          only_if (se_state effect \<in> {E_DISPATCHING, E_AUTHORIZED}) (seq (upd_effect (se_effect_id effect) (\<lambda>e. e\<lparr> se_state := E_UNKNOWN, se_last_error := Some err \<rparr>)) (
            block_task (se_task_id effect) WR_EXECUTION_UNCERTAIN))) (
      upd_outbox oid (\<lambda>x. x\<lparr> ob_status := O_ACKED, ob_acked_at := Some ts \<rparr>))))
     else if ob_status row = O_DEAD then ret ()
     else if ob_command_type row = ''agent.start'' then andthen (fence_uncertain_start E oid ''start_dispatch_failed'') (\<lambda>note.
       ret ())
     else upd_outbox oid (\<lambda>x. x\<lparr> ob_status := O_PENDING,
       ob_leased_until := Some (ts + hd (retry_backoff_seconds DEFAULTS)) \<rparr>))"

lemma fail_outbox_row:
  "fail_outbox E oid err = andthen now (\<lambda>ts. andthen (get_outbox oid) (\<lambda>row_opt.
     (case row_opt of None \<Rightarrow> ret () | Some row \<Rightarrow> fail_row E oid err ts row)))"
  unfolding fail_outbox_def fail_row_def ..

lemma light_fail_row: "ob_command_type row \<noteq> ''agent.start'' \<Longrightarrow> keeps (adds c 0) (fail_row E oid err c row)"
  unfolding fail_row_def
  by (simp only: if_False, intro light.keeps_struct light_outbox_marks light_calls light_helpers light_read frame_intro)
    simp_all

lemma adds_fail_row: "keeps (adds c 1) (fail_row E oid err c row)"
proof (cases "ob_command_type row = ''agent.start''")
  case True
  then show ?thesis unfolding fail_row_def
    by (simp add: adds_ret del: One_nat_def) (intro impI adds_then adds_fence light.keeps_ret)
next
  case False
  show ?thesis by (rule adds_mono [OF light_fail_row [OF False]]) simp
qed

lemma fail_outbox_at:
  "clock_now s = c \<Longrightarrow> fail_outbox E oid err s = (case t_get ob_outbox_id oid (outbox s) of None \<Rightarrow> ret ()
     | Some row \<Rightarrow> fail_row E oid err c row) s"
  by (erule subst) (simp add: fail_outbox_row get_outbox_def)

lemma adds_fail_outbox: "keeps (adds c 1) (fail_outbox E oid err)"
  unfolding keeps_def
proof
  fix s
  show "adds c 1 s (snd (fail_outbox E oid err s))"
  proof (cases "clock_now s = c")
    case True
    have "keeps (adds c 1) (case t_get ob_outbox_id oid (outbox s) of None \<Rightarrow> ret ()
        | Some row \<Rightarrow> fail_row E oid err c row)"
      by (intro adds_option adds_ret adds_fail_row)
    then show ?thesis by (simp add: fail_outbox_at [OF True] keeps_def)
  next
    case False
    then show ?thesis by (simp add: adds_def)
  qed
qed

subsection \<open>Steps between transactions\<close>

lemma run_tx_adds: "keeps (adds c n) m \<Longrightarrow> keeps (adds c n) (run_tx m)"
  unfolding keeps_def
proof
  fix s
  assume m: "\<forall>s. adds c n s (snd (m s))"
  obtain r s' where ms: "m s = (r, s')" by (cases "m s")
  with m have step: "adds c n s s'" by (metis snd_conv)
  have roll: "adds c n s (rollback s s')" "adds c n s ((rollback s s')\<lparr> crash_before_commit := False \<rparr>)"
    by (simp_all add: adds_def rollback_def load_def commands_def kept_outbox_def)
  have commit: "adds c n s (flush_all s')" "adds c n s ((flush_all s')\<lparr> crash_after_commit := False \<rparr>)"
    using adds_trans [OF step light_flush_all]
    by (simp_all add: adds_def load_def commands_def kept_outbox_def)
  show "adds c n s (snd (run_tx m s))"
    using ms roll commit by (auto simp: run_tx_def flush_def split: sum.split)
qed

text \<open>Between transactions nothing is pending, so a failed command is looked up by its row.\<close>

definition quiet :: "int \<Rightarrow> string \<Rightarrow> sess \<Rightarrow> sess \<Rightarrow> bool" where
  "quiet c oid s t \<longleftrightarrow> (\<forall>ty. clean s \<and> clock_now s = c \<and> map_of (commands s) oid = Some ty \<and> ty \<noteq> ''agent.start'' \<longrightarrow>
     clean t \<and> clock_now t = c \<and> map_of (commands t) oid = Some ty \<and> load c t \<le> load c s)"

interpretation quiet: frame "quiet c oid" for c oid
  by unfold_locales (auto simp: quiet_def)

lemma clean_kept_outbox: "clean s \<Longrightarrow> kept_outbox s"
  by (simp add: clean_def kept_outbox_def t_clean_kept)

lemma quiet_of_adds: "clean t \<Longrightarrow> adds c 0 s t \<Longrightarrow> quiet c oid s t"
  unfolding quiet_def adds_def
  by (auto dest: clean_kept_outbox)

lemma quiet_run_tx: 
  assumes "keeps (adds c 0) m"
  shows "keeps (quiet c oid) (run_tx m)"
proof -
  have "quiet c oid s (snd (run_tx m s))" for s
  proof (cases "clean s")
    case True
    with run_tx_adds [OF assms] show ?thesis
      by (intro quiet_of_adds) (simp_all add: run_tx_clean keeps_def)
  qed (simp add: quiet_def)
  then show ?thesis by (simp add: keeps_def)
qed

lemma t_get_commands:
  "t_clean (outbox s) \<Longrightarrow> t_get ob_outbox_id oid (outbox s) = Some row \<Longrightarrow>
    map_of (commands s) oid = Some (ob_command_type row)"
proof -
  have "find (\<lambda>r. ob_outbox_id r = oid) rs = Some row \<Longrightarrow>
      map_of (map (\<lambda>r. (ob_outbox_id r, ob_command_type r)) rs) oid = Some (ob_command_type row)" for rs
    by (induction rs) (auto split: if_splits)
  then show "t_clean (outbox s) \<Longrightarrow> t_get ob_outbox_id oid (outbox s) = Some row \<Longrightarrow> ?thesis"
    by (simp add: t_get_clean commands_def)
qed

lemma quiet_fail: "keeps (quiet c oid) (run_tx (fail_outbox E oid err))"
proof -
  have "quiet c oid s (snd (run_tx (fail_outbox E oid err) s))" for s
  proof (cases "clean s \<and> clock_now s = c \<and> map_of (commands s) oid \<noteq> Some ''agent.start''")
    case True
    then have clean: "t_clean (outbox s)" and c: "clock_now s = c" by (auto simp: clean_def)
    let ?m = "case t_get ob_outbox_id oid (outbox s) of None \<Rightarrow> ret () | Some row \<Rightarrow> fail_row E oid err c row"
    have "keeps (adds c 0) ?m"
    proof (cases "t_get ob_outbox_id oid (outbox s)")
      case (Some row)
      with True t_get_commands [OF clean Some] show ?thesis by (simp add: light_fail_row)
    qed (simp add: adds_ret)
    then have "keeps (quiet c oid) (run_tx ?m)" by (rule quiet_run_tx)
    moreover have "run_tx (fail_outbox E oid err) s = run_tx ?m s"
      by (simp add: run_tx_def fail_outbox_at [OF c])
    ultimately show ?thesis by (simp add: keeps_def)
  qed (auto simp: quiet_def)
  then show ?thesis by (simp add: keeps_def)
qed

lemma quiet_external_request: "keeps (=) (external_request j)"
  unfolding external_request_def by (intro readonly.keeps_struct frame_intro)

lemma quiet_dispatch:
  assumes "it_command_type item \<noteq> ''agent.start''"
  shows "keeps (quiet c (it_outbox_id item)) (dispatch_outbox_item E item)"
proof -
  have "keeps (quiet c (it_outbox_id item)) (do_external_dispatch E item)"
    unfolding do_external_dispatch_def
    by (intro quiet.keeps_struct quiet_fail quiet_run_tx light_acks quiet.keeps_readonly [OF quiet_external_request])
  moreover have "keeps (quiet c (it_outbox_id item)) (send_stop E item)"
    unfolding send_stop_def
    by (intro quiet.keeps_struct quiet_run_tx light_ack_stop quiet.keeps_readonly frame_intro)
  ultimately show ?thesis using assms unfolding dispatch_outbox_item_def
    by (simp only: if_False) (intro quiet.keeps_handle quiet.keeps_if quiet_fail quiet_run_tx light_acks)
qed

lemma adds_handle:
  assumes "keeps (adds c m) f" and "\<And>e. keeps (adds c n) (h e)"
  shows "keeps (adds c (m + n)) (handle f h)"
  unfolding keeps_def
proof
  fix s
  obtain r s' where f: "f s = (r, s')" by (cases "f s")
  with assms(1) have one: "adds c m s s'" by (metis keeps_def snd_conv)
  show "adds c (m + n) s (snd (handle f h s))"
  proof (cases r)
    case (Inl e)
    have "adds c n s' (snd (h e s'))" using assms(2) by (simp add: keeps_def)
    with Inl f one show ?thesis by (auto simp: handle_def intro: adds_trans)
  next
    case (Inr x)
    with f one show ?thesis by (auto simp: handle_def adds_def)
  qed
qed

lemma adds_dispatch:
  assumes "it_command_type item = ''agent.start''"
  shows "keeps (adds c 3) (dispatch_outbox_item E item)"
proof -
  have "keeps (adds c 1) (if \<not> allowed then ret ()
      else andthen (lift_exn (agent_start E (it_payload item))) (\<lambda>result.
        (if truthy (jget result ''start_revoked'') then run_tx (ack_outbox (it_outbox_id item) True)
         else run_tx (ack_outbox_and_mark_running E (it_outbox_id item) (it_payload item)))))" for allowed
    by (rule adds_if, rule adds_ret, rule adds_after, rule light.keeps_pure(4), rule adds_if,
        rule adds_mono [OF run_tx_adds [OF light_acks(1)]], simp, rule run_tx_adds, rule adds_ack_start)
  from adds_andthen [OF run_tx_adds [OF adds_start_send_allowed] this]
  have "keeps (adds c (1 + 1)) (send_start E item)" unfolding send_start_def .
  from adds_handle [OF this run_tx_adds [OF adds_fail_outbox]]
  show ?thesis using assms by (simp add: dispatch_outbox_item_def numeral_3_eq_3)
qed

text \<open>Claiming takes a command of its full weight out of the load.\<close>

lemma sum_upd_first:
  "distinct (map key (t_rows t)) \<Longrightarrow> r \<in> set (t_rows t) \<Longrightarrow>
    sum_list (map w (t_rows (t_upd key (key r) f t))) + w r = sum_list (map w (t_rows t)) + w (f r)" for w :: "'r \<Rightarrow> nat"
proof (induction t)
  case (Cons c t)
  show ?case
  proof (cases "key (live c) = key r")
    case True
    with Cons.prems have "live c = r" by (auto simp: t_rows_def rev_image_eqI)
    with Cons.prems show ?thesis by (simp add: t_rows_def set_live_def)
  next
    case False
    with Cons show ?thesis by (auto simp: t_rows_def)
  qed
qed (simp add: t_rows_def)

lemma claim_takes_weight:
  assumes run: "run_tx claim_one_outbox s = (Inr (Some item), t)" and clean: "consistent s"
  shows "load (clock_now s) t + (if it_command_type item = ''agent.start'' then 4 else 1) \<le> load (clock_now s) s
    \<and> consistent t \<and> clock_now t = clock_now s \<and> map_of (commands t) (it_outbox_id item) = Some (it_command_type item)"
proof -
  have c: "clean s" "constraints_ok s" using clean by (simp_all add: consistent_def)
  from run obtain s1 where s1: "claim_one_outbox s = (Inr (Some item), s1)" and ok: "constraints_ok s1"
      and t: "t = flush_all s1"
    by (auto simp: run_tx_def flush_def split: prod.splits sum.splits if_splits)
  from claim_one_outbox_Some [OF s1 c(1)] obtain row where
      row: "row \<in> set (t_rows (outbox s))" "ob_status row = O_PENDING" "claimable_now (clock_now s) row"
        "it_outbox_id item = ob_outbox_id row" "it_command_type item = ob_command_type row"
    and out: "outbox s1 = t_upd ob_outbox_id (ob_outbox_id row)
         (\<lambda>x. x\<lparr> ob_status := O_IN_FLIGHT, ob_leased_until := Some (clock_now s + 30) \<rparr>) (outbox s)"
    and clock: "clock_now s1 = clock_now s" by blast
  have kept: "list_all (\<lambda>x. \<not> dropped x) (outbox s)" using c(1) by (simp add: clean_def t_clean_kept)
  have rows: "t_rows (outbox t) = t_rows (outbox s1)"
    unfolding t using kept by (simp add: flush_all_def t_rows_flush out t_upd_kept)
  have keys: "map ob_outbox_id (t_rows (outbox s)) = t_keys ob_outbox_id (outbox s)"
    using kept by (auto simp: t_keys_def t_rows_def list_all_iff intro!: arg_cong [where f = "map _"])
  then have dist: "distinct (map ob_outbox_id (t_rows (outbox s)))" using c(2) by (simp add: constraints_ok_def)
  have "load (clock_now s) t + weight (clock_now s) row = load (clock_now s) s"
    using sum_upd_first [OF dist row(1), of "weight (clock_now s)"
        "\<lambda>x. x\<lparr> ob_status := O_IN_FLIGHT, ob_leased_until := Some (clock_now s + 30) \<rparr>"]
    by (simp add: load_def rows out weight_def)
  moreover have "weight (clock_now s) row = (if it_command_type item = ''agent.start'' then 4 else 1)"
    using row by (simp add: weight_def)
  moreover have "commands t = commands s" by (simp add: commands_def rows out map_upd)
  moreover have "map_of (commands s) (ob_outbox_id row) = Some (ob_command_type row)"
    using row(1) dist unfolding commands_def by (intro map_of_is_SomeI) (auto simp: comp_def)
  moreover have "consistent t" unfolding t using ok by (rule consistent_flush_all)
  ultimately show ?thesis using row(4,5) clock by (simp add: t)
qed

lemma claim_dispatch_kills:
  assumes run: "claim_dispatch row task s = (Inr False, t)" and clean: "clean s"
  shows "outbox t = t_upd ob_outbox_id (ob_outbox_id row) (\<lambda>x. x\<lparr> ob_status := O_DEAD \<rparr>) (outbox s) \<and> clock_now t = clock_now s"
proof -
  let ?row = "by_key get_effect (jget (ob_payload_json row) ''effect_id'')"
  have "keeps (=) ?row" by (intro frame_intro)
  show ?thesis
  proof (cases "?row s")
    case (Pair found s0)
    then have s0: "s0 = s" using \<open>keeps (=) ?row\<close> by (metis keeps_def snd_conv)
    show ?thesis
    proof (cases found)
      case (Inl e)
      with run Pair show ?thesis by (simp add: claim_dispatch_def andthen_def)
    next
      case (Inr opt)
      show ?thesis
      proof (cases opt)
        case None
        with run Pair Inr s0 show ?thesis by (auto simp: claim_dispatch_def andthen_def seq_def kill_row_def)
      next
        case (Some effect)
        let ?guard = "passes (guard_side_effect_eligibility (tk_task_id task) (se_effect_id effect) [E_DISPATCHING, E_AUTHORIZED])"
        obtain g s1 where s1: "?guard s = (g, s1)" by (cases "?guard s")
        then have "s1 = s" using flushed_cleanD [OF flushes.keepsD [OF flushed_passes [OF flushed_gates(2)]] clean] by blast
        with run Pair Inr s0 Some s1 show ?thesis
          by (cases g) (auto simp: claim_dispatch_def andthen_def seq_def only_if_def kill_row_def unclaim_effect_def Let_def split: if_splits)
      qed
    qed
  qed
qed

lemma claim_one_outbox_None:
  assumes run: "claim_one_outbox s = (Inr None, t)" and clean: "clean s"
  shows "fst (next_outbox_row s) = Inr None \<and> t = s \<or> (\<exists>row. fst (next_outbox_row s) = Inr (Some row)
    \<and> outbox t = t_upd ob_outbox_id (ob_outbox_id row) (\<lambda>x. x\<lparr> ob_status := O_DEAD \<rparr>) (outbox s) \<and> clock_now t = clock_now s)"
proof (cases "fst (next_outbox_row s)")
  case (Inl e)
  with run show ?thesis by (auto simp: claim_one_outbox_def andthen_Inr_iff readonly_iff [OF readonly_next_outbox_row])
next
  case (Inr found)
  then have next_: "next_outbox_row s = (Inr found, s)" using readonly_iff [OF readonly_next_outbox_row] by blast
  show ?thesis
  proof (cases found)
    case None
    with run next_ show ?thesis by (simp add: claim_one_outbox_def)
  next
    case (Some row)
    with run next_ have "(case t_get tk_task_id (ob_task_id row) (tasks s) of
             None \<Rightarrow> ret True
           | Some task \<Rightarrow>
              (if ob_command_type row = ''agent.start'' then
                 (if start_live row task then ret True
                  else seq (kill_row (ob_outbox_id row)) (
                    ret False))
               else if ob_command_type row = ''side_effect.dispatch'' then claim_dispatch row task
               else ret True)) s = (Inr False, t)"
      unfolding claim_one_outbox_def by (simp add: get_task_def) (auto simp: andthen_Inr_iff split: if_splits)
    then have "outbox t = t_upd ob_outbox_id (ob_outbox_id row) (\<lambda>x. x\<lparr> ob_status := O_DEAD \<rparr>) (outbox s) \<and> clock_now t = clock_now s"
      using claim_dispatch_kills [OF _ clean, of row] by (auto simp: kill_row_def seq_Inr_iff split: option.splits if_splits)
    with next_ Some show ?thesis by simp
  qed
qed

lemma no_next_row:
  assumes "fst (next_outbox_row s) = Inr None" "clean s"
  shows "load (clock_now s) s = 0"
proof -
  let ?rows = "sort_key ob_created_at (t_select (\<lambda>ob. ob_status ob = O_PENDING) (outbox s))"
  have pick: "list_all (\<lambda>x. \<not> P x) rs" if "(case rs of [] \<Rightarrow> None | r # _ \<Rightarrow> if P r then Some r else find P rs) = None"
    for rs :: "OutboxRow list" and P
    using that by (cases rs) (auto simp: list_all_iff find_None_iff split: if_splits)
  have "(case ?rows of [] \<Rightarrow> None | r # _ \<Rightarrow> if claimable_now (clock_now s) r then Some r
      else find (claimable_now (clock_now s)) ?rows) = None"
    using assms(1) by (simp add: next_outbox_row_def andthen_def Let_def)
  from pick [OF this] show ?thesis using assms(2)
    by (auto simp: load_def weight_def list_all_iff t_select_clean clean_def)
qed

text \<open>What a claim that answers nothing leaves: an outbox without load, or one command less.\<close>

lemma sum_upd_row:
  fixes w :: "OutboxRow \<Rightarrow> nat"
  assumes "consistent s" "row \<in> set (t_rows (outbox s))" "w (f row) = 0"
    and "outbox s1 = t_upd ob_outbox_id (ob_outbox_id row) f (outbox s)"
  shows "sum_list (map w (t_rows (outbox (flush_all s1)))) + w row = sum_list (map w (t_rows (outbox s)))"
proof -
  have c: "clean s" "constraints_ok s" using assms(1) by (simp_all add: consistent_def)
  have kept: "list_all (\<lambda>x. \<not> dropped x) (outbox s)" using c(1) by (simp add: clean_def t_clean_kept)
  have rows: "t_rows (outbox (flush_all s1)) = t_rows (t_upd ob_outbox_id (ob_outbox_id row) f (outbox s))"
    using kept by (simp add: flush_all_def t_rows_flush assms(4) t_upd_kept)
  have "map ob_outbox_id (t_rows (outbox s)) = t_keys ob_outbox_id (outbox s)"
    using kept by (auto simp: t_keys_def t_rows_def list_all_iff intro!: arg_cong [where f = "map _"])
  then have "distinct (map ob_outbox_id (t_rows (outbox s)))" using c(2) by (simp add: constraints_ok_def)
  from sum_upd_first [OF this assms(2), of w f] show ?thesis by (simp add: rows assms(3))
qed

lemma claim_nothing:
  assumes run: "run_tx claim_one_outbox s = (Inr None, t)" and clean: "consistent s"
  shows "consistent t \<and> clock_now t = clock_now s
    \<and> (load (clock_now s) t = 0 \<or> load (clock_now s) t < load (clock_now s) s)"
proof -
  have c: "clean s" using clean by (simp add: consistent_def)
  from run obtain s1 where s1: "claim_one_outbox s = (Inr None, s1)" and ok: "constraints_ok s1" and t: "t = flush_all s1"
    by (auto simp: run_tx_def flush_def split: prod.splits sum.splits if_splits)
  have con: "consistent t" unfolding t using ok by (rule consistent_flush_all)
  from claim_one_outbox_None [OF s1 c] show ?thesis
  proof (elim disjE conjE exE)
    assume "fst (next_outbox_row s) = Inr None" and same: "s1 = s"
    then have "load (clock_now s) s = 0" using no_next_row c by blast
    moreover have "load (clock_now s) t \<le> load (clock_now s) s"
      using light_flush_all [of "clock_now s" s] clean_kept_outbox [OF c] by (simp add: adds_def t same)
    ultimately show ?thesis using con by (simp add: t same flush_all_def)
  next
    fix row assume row: "fst (next_outbox_row s) = Inr (Some row)"
      "outbox s1 = t_upd ob_outbox_id (ob_outbox_id row) (\<lambda>x. x\<lparr> ob_status := O_DEAD \<rparr>) (outbox s)" "clock_now s1 = clock_now s"
    from next_outbox_row_Some [OF row(1)] c have pending: "row \<in> set (t_rows (outbox s))" "ob_status row = O_PENDING"
      "claimable_now (clock_now s) row" by (auto simp: t_select_clean clean_def)
    have "load (clock_now s) t + weight (clock_now s) row = load (clock_now s) s"
      unfolding load_def t by (rule sum_upd_row [OF clean pending(1) _ row(2)]) (simp add: weight_def)
    moreover have "0 < weight (clock_now s) row" using pending by (simp add: weight_def)
    ultimately show ?thesis using con row(3) by (simp add: t flush_all_def)
  qed
qed

text \<open>One round of the loop: the command is taken, and what its dispatch queues weighs less.\<close>

lemma round_lowers_load:
  assumes claim: "run_tx claim_one_outbox s = (Inr (Some item), s1)" and clean: "consistent s"
    and d: "dispatch_outbox_item E item s1 = (d, s2)"
  shows "clock_now s2 = clock_now s \<and> load (clock_now s) s2 < load (clock_now s) s \<and> consistent s2"
proof -
  note taken = claim_takes_weight [OF claim clean]
  have clean1: "clean s1" "kept_outbox s1" using taken by (simp_all add: consistent_def clean_kept_outbox)
  have "consistent s2" using taken consistency.keepsD [OF consistency_dispatch d] by (simp add: stays_consistent_def)
  moreover have "clock_now s2 = clock_now s \<and> load (clock_now s) s2 < load (clock_now s) s"
  proof (cases "it_command_type item = ''agent.start''")
    case True
    have "adds (clock_now s) 3 s1 s2" using adds_dispatch [OF True] d by (metis keeps_def snd_conv)
    with taken clean1 True show ?thesis by (auto simp: adds_def)
  next
    case False
    have "quiet (clock_now s) (it_outbox_id item) s1 s2" using quiet.keepsD [OF quiet_dispatch [OF False] d] .
    with taken clean1 False show ?thesis by (auto simp: quiet_def)
  qed
  ultimately show ?thesis by simp
qed

lemma drain_enough:
  "consistent s \<Longrightarrow> load (clock_now s) s < fuel \<Longrightarrow> fst (drain_outbox fuel E processed s) \<noteq> Inr None"
proof (induction fuel arbitrary: s processed)
  case (Suc fuel)
  obtain r s1 where claim: "run_tx claim_one_outbox s = (r, s1)" by (cases "run_tx claim_one_outbox s")
  show ?case
  proof (cases r)
    case (Inr found)
    show ?thesis
    proof (cases found)
      case (Some item)
      obtain d s2 where d: "dispatch_outbox_item E item s1 = (d, s2)" by (cases "dispatch_outbox_item E item s1")
      note next2 = round_lowers_load [OF claim [unfolded Inr Some] Suc.prems(1) d]
      show ?thesis
      proof (cases d)
        case (Inr u)
        with claim \<open>r = Inr found\<close> Some d have "drain_outbox (Suc fuel) E processed s = drain_outbox fuel E (processed + 1) s2"
          by simp
        moreover have "fst (drain_outbox fuel E (processed + 1) s2) \<noteq> Inr None"
          using next2 Suc.prems(2) by (intro Suc.IH) simp_all
        ultimately show ?thesis by simp
      qed (use claim \<open>r = Inr found\<close> Some d in simp)
    qed (use claim Inr in simp)
  qed (use claim in simp)
qed simp

text \<open>A drain that returns has left no load, or less than there was.\<close>

lemma drain_progress:
  "consistent s \<Longrightarrow> drain_outbox fuel E processed s = (Inr (Some k), t) \<Longrightarrow>
    consistent t \<and> clock_now t = clock_now s \<and> (load (clock_now s) t = 0 \<or> load (clock_now s) t < load (clock_now s) s)"
proof (induction fuel arbitrary: s processed)
  case (Suc fuel)
  obtain r s1 where claim: "run_tx claim_one_outbox s = (r, s1)" by (cases "run_tx claim_one_outbox s")
  show ?case
  proof (cases r)
    case (Inr found)
    show ?thesis
    proof (cases found)
      case None
      with Suc.prems claim Inr claim_nothing [of s s1] show ?thesis by simp
    next
      case (Some item)
      obtain d s2 where d: "dispatch_outbox_item E item s1 = (d, s2)" by (cases "dispatch_outbox_item E item s1")
      note next2 = round_lowers_load [OF claim [unfolded Inr Some] Suc.prems(1) d]
      have "drain_outbox fuel E (processed + 1) s2 = (Inr (Some k), t)"
        using Suc.prems(2) claim Inr Some d by (cases d) simp_all
      from Suc.IH [OF _ this] next2 show ?thesis by auto
    qed
  qed (use claim Suc.prems in simp)
qed simp



text \<open>
  Repeated wake-ups, as every command that queues something gives one: each drains the outbox, with fuel.
\<close>

fun wake_ups :: "nat \<Rightarrow> nat \<Rightarrow> env \<Rightarrow> unit tx" where
  "wake_ups 0 fuel E = ret ()"
| "wake_ups (Suc n) fuel E =
  andthen (drain_outbox fuel E 0) (\<lambda>processed.
  wake_ups n fuel E)"



end
