(* ===== verification/Refinement.thy ===== *)
theory Refinement
  imports System
begin

text \<open>
  The abstract specification of the service: a book of Tasks, each with its owner and its state. A
  step opens a Task in the state NEW or moves one along the transition table; nothing else happens to
  a Task, and none is ever closed or handed over. Every step of the service implements a finite
  number of steps of the book.
\<close>

type_synonym book = "string \<Rightarrow> (string \<times> TaskState) option"

inductive book_step :: "book \<Rightarrow> book \<Rightarrow> bool" where
  opened: "b tid = None \<Longrightarrow> book_step b (b(tid := Some (owner, NEW)))"
| moved: "b tid = Some (owner, q) \<Longrightarrow> step_in TASK_TRANSITIONS q q' \<Longrightarrow> book_step b (b(tid := Some (owner, q')))"

text \<open>The book of a database.\<close>

definition book_of :: "sess \<Rightarrow> book" where
  "book_of s tid = map_option (\<lambda>r. (tk_principal_id r, tk_state r)) (t_get tk_task_id tid (tasks s))"

text \<open>One entry at a time.\<close>

lemma book_moves:
  "can_become TASK_TRANSITIONS q q' \<Longrightarrow> b tid = Some (owner, q) \<Longrightarrow> book_step\<^sup>*\<^sup>* b (b(tid := Some (owner, q')))"
proof (induction rule: can_become.induct)
  case (stay q)
  then have "b(tid := Some (owner, q)) = b" by auto
  then show ?case by simp
next
  case (move q q' q'')
  have "book_step (b(tid := Some (owner, q'))) ((b(tid := Some (owner, q')))(tid := Some (owner, q'')))"
    by (rule book_step.moved [OF _ move.hyps(2)]) simp
  then have "book_step (b(tid := Some (owner, q'))) (b(tid := Some (owner, q'')))" by simp
  with move.IH [OF move.prems] show ?case by (metis rtranclp.rtrancl_into_rtrancl)
qed

lemma new_can_become: "can_become TASK_TRANSITIONS NEW q"
proof -
  have one: "transition TASK_TRANSITIONS st e = Inr st' \<Longrightarrow> can_become TASK_TRANSITIONS NEW st \<Longrightarrow>
      can_become TASK_TRANSITIONS NEW st'" for e st st'
    by (blast intro: can_become_trans can_become_step)
  have human: "can_become TASK_TRANSITIONS NEW WAITING_HUMAN"
    by (rule one [OF _ can_become.stay, where e = "''contract.submitted''"]) code_simp
  have exec: "can_become TASK_TRANSITIONS NEW EXECUTING"
    by (rule one [OF _ human, where e = "''contract.approved_simple''"]) code_simp
  have pausing: "can_become TASK_TRANSITIONS NEW PAUSING"
    by (rule one [OF _ human, where e = "''pause.requested''"]) code_simp
  have cancelling: "can_become TASK_TRANSITIONS NEW CANCELLING"
    by (rule one [OF _ human, where e = "''cancel.requested''"]) code_simp
  show ?thesis
  proof (cases q)
    case NEW then show ?thesis by (simp add: can_become.stay)
  next
    case PLANNING
    show ?thesis unfolding PLANNING by (rule one [OF _ human, where e = "''contract.approved''"]) code_simp
  next
    case VERIFYING
    show ?thesis unfolding VERIFYING by (rule one [OF _ exec, where e = "''required_outputs.ready''"]) code_simp
  next
    case PAUSED
    show ?thesis unfolding PAUSED by (rule one [OF _ pausing, where e = "''runtime.quiescent''"]) code_simp
  next
    case COMPLETED
    show ?thesis unfolding COMPLETED by (rule one [OF _ human, where e = "''final.accepted''"]) code_simp
  next
    case T_FAILED
    show ?thesis unfolding T_FAILED by (rule one [OF _ human, where e = "''task.failed''"]) code_simp
  next
    case ABORTED
    show ?thesis unfolding ABORTED by (rule one [OF _ cancelling, where e = "''cancellation.settled''"]) code_simp
  qed (simp_all add: human exec pausing cancelling)
qed

text \<open>An entry that the later book has, brought up to date.\<close>

definition entry_le :: "(string \<times> TaskState) option \<Rightarrow> (string \<times> TaskState) option \<Rightarrow> bool" where
  "entry_le e e' \<longleftrightarrow> (case e of None \<Rightarrow> True
     | Some (owner, q) \<Rightarrow> (\<exists>q'. e' = Some (owner, q') \<and> can_become TASK_TRANSITIONS q q'))"

lemma book_entry:
  assumes "entry_le (b tid) e"
  shows "book_step\<^sup>*\<^sup>* b (b(tid := e))"
proof (cases "b tid")
  case None
  show ?thesis
  proof (cases e)
    case None
    with \<open>b tid = None\<close> have "b(tid := e) = b" by auto
    then show ?thesis by simp
  next
    case (Some p)
    obtain owner q where p: "p = (owner, q)" by (cases p)
    have "book_step b (b(tid := Some (owner, NEW)))" using \<open>b tid = None\<close> by (rule book_step.opened)
    moreover have "book_step\<^sup>*\<^sup>* (b(tid := Some (owner, NEW))) ((b(tid := Some (owner, NEW)))(tid := Some (owner, q)))"
      by (rule book_moves [OF new_can_become]) simp
    ultimately show ?thesis using Some p by (simp add: converse_rtranclp_into_rtranclp)
  qed
next
  case (Some p)
  with assms obtain owner q q' where "b tid = Some (owner, q)" "e = Some (owner, q')" "can_become TASK_TRANSITIONS q q'"
    by (cases p) (auto simp: entry_le_def)
  then show ?thesis using book_moves by blast
qed

lemma book_entries:
  assumes "finite T" and "\<forall>tid. entry_le (b tid) (b' tid)" and "\<forall>tid. tid \<notin> T \<longrightarrow> b tid = b' tid"
  shows "book_step\<^sup>*\<^sup>* b b'"
  using assms
proof (induction T arbitrary: b rule: finite_induct)
  case empty
  then have "b = b'" by auto
  then show ?case by simp
next
  case (insert tid T)
  have "book_step\<^sup>*\<^sup>* (b(tid := b' tid)) b'"
  proof (rule insert.IH)
    show "\<forall>k. entry_le ((b(tid := b' tid)) k) (b' k)"
      using insert.prems(1) by (auto simp: entry_le_def can_become.stay split: option.split)
    show "\<forall>k. k \<notin> T \<longrightarrow> (b(tid := b' tid)) k = b' k" using insert.prems(2) by auto
  qed
  moreover have "book_step\<^sup>*\<^sup>* b (b(tid := b' tid))" using insert.prems(1) by (blast intro: book_entry)
  ultimately show ?case by (blast intro: rtranclp_trans)
qed

lemma book_of_dom: "finite {tid. book_of s tid \<noteq> None}"
proof -
  have "{tid. book_of s tid \<noteq> None} \<subseteq> tk_task_id ` set (t_rows (tasks s))"
    by (auto simp: book_of_def dest!: t_get_in)
  then show ?thesis by (rule finite_subset) simp
qed

text \<open>
  C12. The service implements the book of Tasks: whatever it does between two committed states
  (commands of any actor, drains of the outbox with any answer of the adapters, startup
  reconciliation, injected crashes), the Tasks of the database change only as the book allows. Each
  is opened once, keeps its owner, moves along the transition table, and never disappears.
\<close>

theorem service_refines_book:
  assumes "reachable s" and "service_step\<^sup>*\<^sup>* s t"
  shows "book_step\<^sup>*\<^sup>* (book_of s) (book_of t)"
proof (rule book_entries)
  show "finite ({tid. book_of s tid \<noteq> None} \<union> {tid. book_of t tid \<noteq> None})"
    using book_of_dom by simp
  show "\<forall>tid. entry_le (book_of s tid) (book_of t tid)"
  proof
    fix tid
    show "entry_le (book_of s tid) (book_of t tid)"
    proof (cases "t_get tk_task_id tid (tasks s)")
      case (Some r)
      from steps_task_le [OF reachable_consistent [OF assms(1)] assms(2) Some] obtain r' where
          "t_get tk_task_id tid (tasks t) = Some r'" "task_le r r'" by blast
      with Some show ?thesis by (simp add: entry_le_def book_of_def task_le_def)
    qed (simp add: entry_le_def book_of_def)
  qed
  show "\<forall>tid. tid \<notin> {tid. book_of s tid \<noteq> None} \<union> {tid. book_of t tid \<noteq> None} \<longrightarrow> book_of s tid = book_of t tid"
    by (metis (mono_tags, lifting) UnCI mem_Collect_eq)
qed

theorem service_refines_book_witness:
  "book_step\<^sup>*\<^sup>* (\<lambda>_. None) (book_of sample_created) \<and> book_of sample_created ''t'' = Some (''p'', NEW)"
proof -
  have "service_step init_sess sample_created"
    unfolding sample_created_def sample_cmd_def by (rule service_step.command)
  then have "book_step\<^sup>*\<^sup>* (book_of init_sess) (book_of sample_created)"
    by (intro service_refines_book [OF reachable_init] r_into_rtranclp)
  moreover have "book_of init_sess = (\<lambda>_. None)" by (auto simp: book_of_def init_sess_def t_get_def)
  moreover have "map_option tk_state (t_get tk_task_id ''t'' (tasks sample_created)) = Some NEW" by code_simp
  moreover have "map_option tk_principal_id (t_get tk_task_id ''t'' (tasks sample_created)) = Some ''p''" by code_simp
  ultimately show ?thesis by (auto simp: book_of_def)
qed

end
