(* ===== verification/Reads.thy ===== *)
theory Reads
  imports Artifacts Service
begin

text \<open>
  The read helpers of \<open>application/service.py\<close>: what clients, runners and the worker see of a Task.
  Every one is a transaction that writes nothing. \<open>get_run_context\<close> gives a worker its manifest, the
  text of the mandatory references and the admitted appends; artifacts are listed, verified against
  their bytes, and reported when their bytes are missing or belong to no Task.

  Parameters: the text of \<open>json.dumps\<close> with its default layout (\<open>dumps\<close>), Python's UTF-8 decoder with
  replacement (\<open>decode\<close>), \<open>datetime.isoformat\<close> (\<open>isoformat\<close>).
\<close>

subsection \<open>Enumeration members as text\<close>

fun work_unit_status_str :: "WorkUnitStatus \<Rightarrow> string" where
  "work_unit_status_str W_PENDING = ''PENDING''"
| "work_unit_status_str W_RUNNING = ''RUNNING''"
| "work_unit_status_str W_BLOCKED = ''BLOCKED''"
| "work_unit_status_str W_DONE = ''DONE''"
| "work_unit_status_str W_FAILED = ''FAILED''"
| "work_unit_status_str W_CANCELLED = ''CANCELLED''"

fun plan_status_str :: "PlanStatus \<Rightarrow> string" where
  "plan_status_str P_PROPOSED = ''PROPOSED''"
| "plan_status_str P_ACTIVE = ''ACTIVE''"
| "plan_status_str P_SUPERSEDED = ''SUPERSEDED''"
| "plan_status_str P_REJECTED = ''REJECTED''"

fun decision_kind_str :: "DecisionKind \<Rightarrow> string" where
  "decision_kind_str CONTRACT_APPROVAL = ''CONTRACT_APPROVAL''"
| "decision_kind_str CONTRACT_DELTA = ''CONTRACT_DELTA''"
| "decision_kind_str SIDE_EFFECT_APPROVAL = ''SIDE_EFFECT_APPROVAL''"
| "decision_kind_str FINAL_ACCEPTANCE = ''FINAL_ACCEPTANCE''"
| "decision_kind_str CLARIFICATION = ''CLARIFICATION''"
| "decision_kind_str RESOURCE_LIMIT = ''RESOURCE_LIMIT''"

fun gate_lifecycle_str :: "GateLifecycle \<Rightarrow> string" where
  "gate_lifecycle_str OPEN = ''OPEN''"
| "gate_lifecycle_str APPROVED_PENDING_APPLY = ''APPROVED_PENDING_APPLY''"
| "gate_lifecycle_str RESOLVED = ''RESOLVED''"

subsection \<open>Rows\<close>

definition read_task :: "string \<Rightarrow> (string \<times> json) list tx" where
  "read_task task_id = run_tx (andthen (svc_get_task (JStr task_id)) (\<lambda>task.
    ret [(''task_id'', JStr (tk_task_id task)), (''state'', JStr (task_state_str (tk_state task))),
       (''state_reason'', jopt (tk_state_reason task)),
       (''contract_version'', jint_opt (tk_contract_version task)),
       (''plan_version'', jint_opt (tk_plan_version task)),
       (''state_revision'', JInt (tk_state_revision task)), (''revoke_epoch'', JInt (tk_revoke_epoch task)),
       (''model_calls_used'', JInt (tk_model_calls_used task)),
       (''model_call_limit'', JInt (tk_model_call_limit task))]))"

definition run_summary :: "AgentRunRow \<Rightarrow> json" where
  "run_summary r = JObj [(''run_id'', JStr (ar_run_id r)), (''status'', JStr (run_status_str (ar_status r))),
     (''assignment_kind'', JStr (kind_str (ar_assignment_kind r))),
     (''work_unit_id'', jopt (ar_work_unit_id r)), (''profile_version'', JInt (ar_profile_version r)),
     (''fencing_epoch'', JInt (ar_fencing_epoch r)), (''late_arrival'', JBool (ar_late_arrival r)),
     (''result_json'', (case ar_result_json r of None \<Rightarrow> JNull | Some j \<Rightarrow> j)),
     (''sandbox_exit_unconfirmed'', JBool (ar_sandbox_exit_unconfirmed r))]"

definition list_runs :: "string \<Rightarrow> json list tx" where
  "list_runs task_id = run_tx (andthen (select_run (\<lambda>r. ar_task_id r = task_id)) (\<lambda>rows.
    ret (map run_summary rows)))"

text \<open>The type of a unit is that of the specification version it runs; with two such rows the later one counts.\<close>

definition unit_type :: "WorkUnitSpecRow list \<Rightarrow> WorkUnitExecutionRow \<Rightarrow> json" where
  "unit_type specs wu =
    (case find (\<lambda>s. wsp_work_unit_id s = wu_work_unit_id wu \<and> wsp_spec_version s = wu_spec_version wu) (rev specs) of
       None \<Rightarrow> JNull | Some s \<Rightarrow> JStr (wsp_work_type s))"

definition unit_summary :: "WorkUnitSpecRow list \<Rightarrow> WorkUnitExecutionRow \<Rightarrow> json" where
  "unit_summary specs wu = JObj [(''work_unit_id'', JStr (wu_work_unit_id wu)),
     (''status'', JStr (work_unit_status_str (wu_status wu))), (''selected_verdict'', jopt (wu_selected_verdict wu)),
     (''verified_artifact_hash'', jopt (wu_verified_artifact_hash wu)),
     (''active_run_id'', jopt (wu_active_run_id wu)), (''blocked_reason'', jopt (wu_blocked_reason wu)),
     (''spec_version'', JInt (wu_spec_version wu)), (''work_type'', unit_type specs wu)]"

definition list_work_units :: "string \<Rightarrow> json list tx" where
  "list_work_units task_id = run_tx (andthen (select_wu (\<lambda>w. wu_task_id w = task_id)) (\<lambda>rows.
    andthen (select_wu_spec (\<lambda>s. wsp_task_id s = task_id)) (\<lambda>specs.
    ret (map (unit_summary specs) rows))))"

definition get_active_plan :: "string \<Rightarrow> json tx" where
  "get_active_plan task_id = run_tx (andthen (get_plan_marker task_id) (\<lambda>marker.
    (case marker of
        None \<Rightarrow> ret JNull
      | Some m \<Rightarrow> andthen (select_plan (\<lambda>p. pl_task_id p = task_id \<and> pl_plan_version p = apm_plan_version m)) (\<lambda>plans.
        ret (case first_of plans of None \<Rightarrow> JNull | Some plan \<Rightarrow>
            JObj [(''task_id'', JStr task_id), (''plan_version'', JInt (pl_plan_version plan)),
              (''status'', JStr (plan_status_str (pl_status plan))),
              (''nodes'', JList (json_list (pl_nodes_json plan) None)),
              (''edges'', JList (json_list (pl_edges_json plan) None))])))))"

definition artifact_summary :: "ArtifactRow \<Rightarrow> json" where
  "artifact_summary row = JObj [(''artifact_hash'', JStr (af_artifact_hash row)),
     (''artifact_uri'', jopt (af_artifact_uri row)), (''run_id'', jopt (af_run_id row))]"

definition list_task_artifacts :: "string \<Rightarrow> json list tx" where
  "list_task_artifacts task_id = run_tx (andthen (select_artifact (\<lambda>a. af_task_id a = task_id)) (\<lambda>rows.
    ret (map artifact_summary rows)))"

definition message_summary :: "TaskMessageRow \<Rightarrow> json" where
  "message_summary row = JObj [(''sequence_no'', JInt (tm_sequence_no row)), (''kind'', JStr (tm_kind row)),
     (''sender_run_id'', jopt (tm_sender_run_id row)), (''body'', tm_body_json row)]"

definition list_task_messages :: "string \<Rightarrow> json list tx" where
  "list_task_messages task_id = run_tx (andthen (select_message (\<lambda>m. tm_task_id m = task_id)) (\<lambda>rows.
    ret (map message_summary (sort_key tm_sequence_no rows))))"

definition event_summary :: "EventRow \<Rightarrow> json" where
  "event_summary e = JObj [(''sequence_no'', JInt (ev_sequence_no e)), (''event_type'', JStr (ev_event_type e)),
     (''payload'', ev_payload_json e)]"

definition list_events :: "string \<Rightarrow> json list tx" where
  "list_events task_id = run_tx (andthen (select_event (\<lambda>e. ev_task_id e = task_id)) (\<lambda>rows.
    ret (map event_summary (sort_key ev_sequence_no rows))))"

definition read_decision :: "string \<Rightarrow> (string \<times> json) list tx" where
  "read_decision decision_id = run_tx (andthen (get_decision decision_id) (\<lambda>row.
    andthen (the_or (NotFoundError ''not_found'') row) (\<lambda>d.
    ret [(''decision_id'', JStr (de_decision_id d)), (''status'', JStr (decision_status_str (de_status d))),
       (''choice'', jopt (de_choice d)), (''target_version'', JInt (de_target_version d)),
       (''target_hash'', JStr (de_target_hash d)), (''decision_kind'', JStr (decision_kind_str (de_decision_kind d))),
       (''task_id'', JStr (de_task_id d)), (''gate_lifecycle'', JStr (gate_lifecycle_str (de_gate_lifecycle d)))])))"

definition read_side_effect :: "string \<Rightarrow> (string \<times> json) list tx" where
  "read_side_effect effect_id = run_tx (andthen (get_effect effect_id) (\<lambda>row.
    andthen (the_or (NotFoundError ''not_found'') row) (\<lambda>e.
    ret [(''effect_id'', JStr (se_effect_id e)), (''state'', JStr (effect_state_str (se_state e))),
       (''logical_action_key'', JStr (se_logical_action_key e)), (''action_digest'', JStr (se_action_digest e)),
       (''dispatch_attempts'', JInt (se_dispatch_attempts e)),
       (''external_idempotency_key'', JStr (se_external_idempotency_key e))])))"

definition read_workspace :: "string \<Rightarrow> (string \<times> json) list tx" where
  "read_workspace workspace_id = run_tx (andthen (get_workspace workspace_id) (\<lambda>row.
    andthen (the_or (NotFoundError ''not_found'') row) (\<lambda>ws.
    ret [(''workspace_id'', JStr (ws_workspace_id ws)), (''state'', JStr (workspace_state_str (ws_state ws))),
       (''owner_run_id'', jopt (ws_owner_run_id ws)), (''writer_alive'', JBool (ws_writer_alive ws)),
       (''fencing_epoch'', JInt (ws_fencing_epoch ws))])))"

definition read_work_unit :: "string \<Rightarrow> (string \<times> json) list tx" where
  "read_work_unit work_unit_id = run_tx (andthen (get_wu work_unit_id) (\<lambda>row.
    andthen (the_or (NotFoundError ''not_found'') row) (\<lambda>wu.
    ret [(''work_unit_id'', JStr (wu_work_unit_id wu)), (''status'', JStr (work_unit_status_str (wu_status wu))),
       (''active_run_id'', jopt (wu_active_run_id wu)), (''selected_verdict'', jopt (wu_selected_verdict wu)),
       (''verified_artifact_hash'', jopt (wu_verified_artifact_hash wu)),
       (''attempt_count'', JInt (wu_attempt_count wu)), (''blocked_reason'', jopt (wu_blocked_reason wu))])))"

definition count_outbox :: "OutboxStatus option \<Rightarrow> string option \<Rightarrow> int tx" where
  "count_outbox status task_id = run_tx (andthen (select_outbox (\<lambda>ob. (status = None \<or> status = Some (ob_status ob))
       \<and> (\<not> is_set task_id \<or> task_id = Some (ob_task_id ob)))) (\<lambda>rows.
    ret (int (length rows))))"

definition count_inbox :: "int tx" where
  "count_inbox = run_tx (andthen (select_inbox (\<lambda>_. True)) (\<lambda>rows.
    ret (int (length rows))))"

subsection \<open>The Run's own reads\<close>

definition get_run_input_read :: "AuthContext \<Rightarrow> string \<Rightarrow> json tx" where
  "get_run_input_read auth run_id = run_tx (get_run_input_tx auth run_id)"

text \<open>
  \<open>_materialize_mandatory_context\<close>. Reading a dependency's bytes may be refused or find a wrong address or
  hash: then the entry has no text.
\<close>

definition hash_fits :: "dict \<Rightarrow> string \<Rightarrow> bool" where
  "hash_fits ref digest \<longleftrightarrow> \<not> truthy (dget ref ''hash'') \<or> dget ref ''hash'' = JStr digest"

definition mandatory_entry :: "(json \<Rightarrow> string) \<Rightarrow> string \<Rightarrow> dict \<Rightarrow> json tx" where
  "mandatory_entry dumps task_id ref =
    (let entry = (\<lambda>h t. JObj [(''kind'', dget ref ''kind''), (''ref'', dget ref ''ref''), (''hash'', h), (''text'', t)]);
         plain_entry = entry (dget ref ''hash'') JNull
     in if dget ref ''kind'' = JStr ''contract'' then andthen (select_contract (\<lambda>c. ct_task_id c = task_id \<and> JInt (ct_contract_version c) = dget ref ''version'')) (\<lambda>rows.
       ret (case first_of rows of
             None \<Rightarrow> plain_entry
           | Some c \<Rightarrow> if hash_fits ref (ct_content_hash c)
               then entry (JStr (ct_content_hash c)) (JStr (canonical_json (ct_content_json c)))
               else plain_entry))
        else if dget ref ''kind'' = JStr ''plan'' then andthen (select_plan (\<lambda>p. pl_task_id p = task_id \<and> JInt (pl_plan_version p) = dget ref ''version'')) (\<lambda>rows.
          ret (case first_of rows of
             None \<Rightarrow> plain_entry
           | Some p \<Rightarrow> if hash_fits ref (pl_content_hash p)
               then entry (JStr (pl_content_hash p))
                 (JStr (dumps (JObj [(''nodes'', pl_nodes_json p), (''edges'', pl_edges_json p)])))
               else plain_entry))
        else if dget ref ''kind'' = JStr ''deliverable'' then ret (entry (dget ref ''hash'') (JStr (dumps (JObj ref))))
        else ret plain_entry)"

definition dependency_text :: "env \<Rightarrow> (string \<Rightarrow> string) \<Rightarrow> string \<Rightarrow> json \<Rightarrow> json tx" where
  "dependency_text E decode task_id digest =
    (if \<not> truthy digest then ret JNull
     else handle (andthen (read_task_artifact_bytes E task_id (''artifact://'' @ py_str digest)) (\<lambda>r.
       ret (JStr (decode (fst r))))) (\<lambda>e. case e of
         PreconditionError _ \<Rightarrow> ret JNull
       | NotFoundError _ \<Rightarrow> ret JNull
       | ConflictError _ \<Rightarrow> ret JNull
       | ValueError \<Rightarrow> ret JNull
       | _ \<Rightarrow> raise e))"

definition dependency_entry :: "env \<Rightarrow> (string \<Rightarrow> string) \<Rightarrow> string \<Rightarrow> dict \<Rightarrow> json tx" where
  "dependency_entry E decode task_id dep =
    andthen (dependency_text E decode task_id (dget dep ''hash'')) (\<lambda>t.
    ret (JObj [(''kind'', JStr ''dependency_result''), (''ref'', dget dep ''ref''),
       (''work_unit_id'', dget dep ''work_unit_id''), (''hash'', dget dep ''hash''), (''text'', t)]))"

definition materialize_mandatory_context :: "env \<Rightarrow> (json \<Rightarrow> string) \<Rightarrow> (string \<Rightarrow> string) \<Rightarrow> string
    \<Rightarrow> ContextManifestRow option \<Rightarrow> json list tx" where
  "materialize_mandatory_context E dumps decode task_id manifest =
    (case manifest of
       None \<Rightarrow> ret []
     | Some m \<Rightarrow> andthen (as_obj (cm_content_json m)) (\<lambda>body.
       andthen (elems (jor (dget body ''mandatory_refs'') (JList []))) (\<lambda>refs.
       andthen (collect refs (\<lambda>r. andthen (as_obj r) (\<lambda>ref.
         mandatory_entry dumps task_id ref))) (\<lambda>mandatory.
       andthen (elems (jor (dget body ''dependency_result_refs'') (JList []))) (\<lambda>deps.
       andthen (collect deps (\<lambda>d. andthen (as_obj d) (\<lambda>dep.
         dependency_entry E decode task_id dep))) (\<lambda>results.
       ret (mandatory @ results)))))))"

definition append_summary :: "ContextAppendRow \<Rightarrow> json" where
  "append_summary a = JObj [(''sequence_no'', JInt (ca_sequence_no a)), (''reason'', JStr (ca_reason a)),
     (''authorized_ref'', JStr (ca_authorized_ref a)), (''version'', jopt (ca_version a)),
     (''content_hash'', jopt (ca_content_hash a)), (''materialized_hash'', jopt (ca_materialized_hash a))]"

definition get_run_context :: "env \<Rightarrow> (json \<Rightarrow> string) \<Rightarrow> (string \<Rightarrow> string) \<Rightarrow> AuthContext \<Rightarrow> string \<Rightarrow> dict tx" where
  "get_run_context E dumps decode auth run_id = run_tx (andthen (the_run (JStr run_id)) (\<lambda>run.
    seq (assert_run_write_binding auth run [(''run_id'', JStr run_id)] False) (
    andthen (select_manifest (\<lambda>m. cm_run_id m = run_id)) (\<lambda>manifests.
    let manifest = first_of manifests in
    andthen (select_context_append (\<lambda>a. ca_run_id a = run_id)) (\<lambda>appends.
    andthen (handle (materialize_mandatory_context E dumps decode (ar_task_id run) manifest) (\<lambda>_. ret [])) (\<lambda>materialized.
    ret [(''run_id'', JStr run_id),
       (''manifest_id'', (case manifest of None \<Rightarrow> JNull | Some m \<Rightarrow> JStr (cm_context_manifest_id m))),
       (''manifest_hash'', (case manifest of None \<Rightarrow> JNull | Some m \<Rightarrow> JStr (cm_manifest_hash m))),
       (''manifest'', (case manifest of None \<Rightarrow> JNull | Some m \<Rightarrow> cm_content_json m)),
       (''materialized'', JList materialized),
       (''appends'', JList (map append_summary (sort_key ca_sequence_no appends)))]))))))"

definition materialize_context_append :: "env \<Rightarrow> AuthContext \<Rightarrow> string \<Rightarrow> dict \<Rightarrow> json tx" where
  "materialize_context_append E auth run_id entry = run_tx (materialize_append_tx E auth run_id entry)"

subsection \<open>Artifacts\<close>

definition artifact_row :: "string \<Rightarrow> string \<Rightarrow> ArtifactRow tx" where
  "artifact_row task_id artifact_hash =
    andthen (get_artifact (task_id, artifact_hash)) (\<lambda>row.
    the_or (NotFoundError ''artifact_not_found'') row)"

definition artifact_dict :: "(int \<Rightarrow> string) \<Rightarrow> ArtifactRow \<Rightarrow> dict" where
  "artifact_dict isoformat row = [(''task_id'', JStr (af_task_id row)), (''artifact_hash'', JStr (af_artifact_hash row)),
     (''uri'', jopt (af_artifact_uri row)), (''size'', jint_opt (af_size_bytes row)),
     (''mime_type'', jopt (af_mime_type row)), (''work_unit_id'', jopt (af_work_unit_id row)),
     (''run_id'', jopt (af_run_id row)), (''source_path'', jopt (af_source_path row)),
     (''created_at'', JStr (isoformat (af_created_at row)))]"

definition read_artifact :: "(int \<Rightarrow> string) \<Rightarrow> string \<Rightarrow> string \<Rightarrow> dict tx" where
  "read_artifact isoformat task_id artifact_hash = run_tx (andthen (artifact_row task_id artifact_hash) (\<lambda>row.
    ret (artifact_dict isoformat row)))"

definition verify_artifact_content :: "env \<Rightarrow> (exn \<Rightarrow> string) \<Rightarrow> (int \<Rightarrow> string) \<Rightarrow> string \<Rightarrow> string \<Rightarrow> dict tx" where
  "verify_artifact_content E describe isoformat task_id artifact_hash =
    andthen (read_artifact isoformat task_id artifact_hash) (\<lambda>meta.
    (if \<not> truthy (dget meta ''uri'') then
        ret [(''verified'', JBool False), (''reason'', JStr ''no_uri''), (''artifact_hash'', JStr artifact_hash)]
      else handle (andthen (artifact_store_get E (py_str (dget meta ''uri''))) (\<lambda>content.
        ret [(''verified'', JBool (sha E content = artifact_hash)), (''artifact_hash'', JStr artifact_hash),
            (''actual_hash'', JStr (sha E content)), (''size'', JInt (int (length content)))])) (\<lambda>e. ret [(''verified'', JBool False), (''reason'', JStr (''unreadable:'' @ describe e)),
            (''artifact_hash'', JStr artifact_hash)])))"

definition unbacked_summary :: "ArtifactRow \<Rightarrow> dict" where
  "unbacked_summary a = [(''artifact_hash'', JStr (af_artifact_hash a)), (''uri'', jopt (af_artifact_uri a)),
     (''run_id'', jopt (af_run_id a))]"

definition list_unbacked_artifacts :: "string \<Rightarrow> dict list tx" where
  "list_unbacked_artifacts task_id =
    andthen (run_tx (andthen (select_artifact (\<lambda>a. af_task_id a = task_id)) (\<lambda>found.
      ret (map unbacked_summary found)))) (\<lambda>rows.
    ret (filter (\<lambda>row. \<not> truthy (dget row ''uri'')) rows))"

text \<open>
  The files of the store's root directory, with whether each is a regular file; \<open>None\<close>: there is no such
  directory. \<open>Path.suffix\<close> is the part from the last dot, unless that is the first or last character.
\<close>

definition is_tmp :: "string \<Rightarrow> bool" where
  "is_tmp name \<longleftrightarrow> 4 < length name \<and> drop (length name - 4) name = ''.tmp''"

definition list_orphan_artifacts :: "env \<Rightarrow> (string \<times> bool) list option \<Rightarrow> string list tx" where
  "list_orphan_artifacts E store_files =
    (if store_get E = None then ret []
     else case store_files of
       None \<Rightarrow> ret []
     | Some files \<Rightarrow> andthen (run_tx (select_artifact (\<lambda>_. True))) (\<lambda>rows.
       ret (map fst (filter (\<lambda>(name, is_file). is_file \<and> \<not> is_tmp name \<and> name \<notin> set (map af_artifact_hash rows))
           (sort_key fst files)))))"

subsection \<open>Reads write nothing\<close>

lemma readonly_artifact_bytes [frame_intro]: "keeps (=) (read_task_artifact_bytes E task_id uri)"
  unfolding read_task_artifact_bytes_def by (intro readonly.keeps_struct frame_intro; simp split: sum.split)

lemma readonly_materialize [frame_intro]:
  "keeps (=) (mandatory_entry dumps task_id ref)"
  "keeps (=) (dependency_text E decode task_id digest)"
  "keeps (=) (dependency_entry E decode task_id dep)"
  "keeps (=) (materialize_mandatory_context E dumps decode task_id manifest)"
proof -
  show entry: "keeps (=) (mandatory_entry dumps task_id ref)" for ref
    unfolding mandatory_entry_def Let_def by (intro readonly.keeps_struct frame_intro)
  have dep_text: "keeps (=) (dependency_text E decode task_id digest)" for digest
    unfolding dependency_text_def
    by (intro readonly.keeps_struct frame_intro) (auto split: exn.split intro: readonly.keeps_struct)
  then show "keeps (=) (dependency_text E decode task_id digest)" .
  show dep: "keeps (=) (dependency_entry E decode task_id dep)" for dep
    unfolding dependency_entry_def by (intro readonly.keeps_struct dep_text)
  have obj: "keeps (=) (as_obj v)" for v by (simp add: keeps_def as_obj_def split: json.split)
  show "keeps (=) (materialize_mandatory_context E dumps decode task_id manifest)"
    unfolding materialize_mandatory_context_def elems_def
    by (intro readonly.keeps_struct obj entry dep)
qed

lemma run_tx_readonly:
  assumes m: "keeps (=) m" and s: "clean s"
  shows "same_db s (snd (run_tx m s))"
proof -
  have "snd (m s) = s" using m by (simp add: keeps_def)
  then obtain r where "m s = (r, s)" by (cases "m s") auto
  then show ?thesis
    by (cases r) (auto simp: run_tx_def flush_def flush_all_clean [OF s] same_db_def rollback_def)
qed

text \<open>
  Reading changes nothing. Whatever a read answers (a row, a list, a Run's input or context, an artifact,
  or an error), every table is as it was; so a client, a runner or a worker may read at any time.
\<close>

theorem reads_write_nothing:
  assumes "clean s"
  shows "same_db s (snd (read_task task_id s)) \<and> same_db s (snd (list_runs task_id s))
    \<and> same_db s (snd (list_work_units task_id s)) \<and> same_db s (snd (get_active_plan task_id s))
    \<and> same_db s (snd (list_task_artifacts task_id s)) \<and> same_db s (snd (list_task_messages task_id s))
    \<and> same_db s (snd (list_events task_id s)) \<and> same_db s (snd (read_decision d s))
    \<and> same_db s (snd (read_side_effect e s)) \<and> same_db s (snd (read_workspace w s))
    \<and> same_db s (snd (read_work_unit u s)) \<and> same_db s (snd (count_outbox st tid s))
    \<and> same_db s (snd (count_inbox s)) \<and> same_db s (snd (get_run_input_read auth rid s))
    \<and> same_db s (snd (get_run_context E dumps decode auth rid s))
    \<and> same_db s (snd (materialize_context_append E auth rid entry s))
    \<and> same_db s (snd (read_artifact isoformat task_id h s))"
  unfolding read_task_def list_runs_def list_work_units_def get_active_plan_def list_task_artifacts_def
    list_task_messages_def list_events_def read_decision_def read_side_effect_def read_workspace_def
    read_work_unit_def count_outbox_def count_inbox_def get_run_input_read_def get_run_context_def
    materialize_context_append_def read_artifact_def artifact_row_def get_run_input_tx_def materialize_append_tx_def
    Let_def
  by (intro conjI run_tx_readonly assms readonly.keeps_struct frame_intro)

lemma reads_write_nothing_witness: "same_db init_sess (snd (read_task ''t'' init_sess))"
  using reads_write_nothing [OF clean_init] by blast

subsection \<open>What a worker is given to read\<close>

lemma collect_readonly:
  assumes "\<And>x. keeps (=) (f x)" and "collect xs f s = (Inr ys, t)" and "y \<in> set ys"
  shows "\<exists>x \<in> set xs. f x s = (Inr y, s)"
  using assms(2,3)
proof (induction xs arbitrary: ys)
  case (Cons x xs)
  then obtain z zs where "f x s = (Inr z, s)" "collect xs f s = (Inr zs, t)" "ys = z # zs"
    using assms(1) by (auto simp: andthen_Inr_iff readonly_iff)
  with Cons show ?case by auto
qed simp

lemma dependency_text_verified:
  assumes "dependency_text E decode task_id digest s = (Inr (JStr w), t)"
  shows "\<exists>content row. decode content = w \<and> sha E content = py_str digest
    \<and> t_get artifact_key (task_id, py_str digest) (artifacts s) = Some row"
proof -
  from assms obtain content d where r: "read_task_artifact_bytes E task_id (''artifact://'' @ py_str digest) s
      = (Inr (content, d), s)" and w: "decode content = w"
    by (auto simp: dependency_text_def handle_def andthen_def readonly_iff [OF readonly_artifact_bytes]
        split: prod.splits sum.splits if_splits exn.splits)
  from artifact_read_hash [OF r] obtain row where row: "sha E content = d"
      "store_put d = Inr (''artifact://'' @ py_str digest)"
      "t_get artifact_key (task_id, d) (artifacts s) = Some row" by blast
  then have "d = py_str digest" by (auto simp: store_put_def split: if_splits)
  with row w show ?thesis by (intro exI [of _ content] exI [of _ row]) simp
qed

lemma mandatory_entry_kind:
  assumes "mandatory_entry dumps task_id ref s = (Inr (JObj x), t)" and "dget x ''text'' \<noteq> JNull"
  shows "dget x ''kind'' \<in> {JStr ''contract'', JStr ''plan'', JStr ''deliverable''}"
  using assms by (auto simp: mandatory_entry_def Let_def andthen_Inr_iff split: if_splits option.splits)

lemma dependency_in_context:
  assumes run: "materialize_mandatory_context E dumps decode task_id manifest s = (Inr xs, t)"
    and x: "JObj x \<in> set xs" "dget x ''kind'' = JStr ''dependency_result''" "dget x ''text'' = JStr w"
  shows "\<exists>content row. decode content = w \<and> sha E content = py_str (dget x ''hash'')
    \<and> t_get artifact_key (task_id, py_str (dget x ''hash'')) (artifacts s) = Some row"
proof -
  let ?mandatory = "\<lambda>r. andthen (as_obj r) (\<lambda>ref. mandatory_entry dumps task_id ref)"
  let ?result = "\<lambda>d. andthen (as_obj d) (\<lambda>dep. dependency_entry E decode task_id dep)"
  have obj: "keeps (=) (as_obj v)" for v by (simp add: keeps_def as_obj_def split: json.split)
  have ro: "keeps (=) (?mandatory r)" "keeps (=) (?result r)" for r
    by (intro readonly.keeps_struct obj frame_intro)+
  from run x(1) obtain refs deps ys zs u where ys: "collect refs ?mandatory s = (Inr ys, u)"
    and zs: "collect deps ?result u = (Inr zs, t)" and xs: "xs = ys @ zs"
    by (cases manifest) (auto simp: materialize_mandatory_context_def andthen_Inr_iff elems_def as_obj_def the_or_def
        split: json.splits option.splits)
  have u: "u = s" using ys readonly.keeps_collect [OF ro(1), of refs] by (simp add: readonly_iff)
  have "JObj x \<notin> set ys"
  proof
    assume "JObj x \<in> set ys"
    from collect_readonly [OF ro(1) ys this] obtain r where "?mandatory r s = (Inr (JObj x), s)" by blast
    then obtain ref where "mandatory_entry dumps task_id ref s = (Inr (JObj x), s)"
      by (auto simp: andthen_Inr_iff as_obj_def split: json.splits)
    from mandatory_entry_kind [OF this] x(2,3) show False by auto
  qed
  with x(1) xs have "JObj x \<in> set zs" by simp
  from collect_readonly [OF ro(2) zs this] obtain d where "?result d s = (Inr (JObj x), s)" using u by blast
  then obtain dep w' where "dependency_text E decode task_id (dget dep ''hash'') s = (Inr w', s)"
      and e: "x = [(''kind'', JStr ''dependency_result''), (''ref'', dget dep ''ref''),
        (''work_unit_id'', dget dep ''work_unit_id''), (''hash'', dget dep ''hash''), (''text'', w')]"
    by (auto simp: andthen_Inr_iff as_obj_def dependency_entry_def readonly_iff [OF readonly_materialize(2)]
        split: json.splits)
  with x(3) dependency_text_verified show ?thesis by fastforce
qed


text \<open>
  An artifact is reported as verified exactly when it is registered for the Task with an address, the
  store has bytes under that address, and those bytes hash to the registered digest.
\<close>

theorem verified_iff_bytes_match:
  assumes "verify_artifact_content E describe isoformat task_id h s = (Inr r, t)"
  shows "dget r ''verified'' = JBool True \<longleftrightarrow>
    (\<exists>row uri content. t_get artifact_key (task_id, h) (artifacts s) = Some row \<and> af_artifact_uri row = Some uri
       \<and> uri \<noteq> [] \<and> fst (artifact_store_get E uri s) = Inr content \<and> sha E content = h)"
proof -
  have same: "fst (artifact_store_get E uri u) = fst (artifact_store_get E uri s)" for uri u
    by (simp add: artifact_store_get_def andthen_def the_or_def lift_exn_def ret_def raise_def
        split: option.split sum.split prod.split)
  from assms obtain meta u where meta: "read_artifact isoformat task_id h s = (Inr meta, u)"
    and rest: "(if \<not> truthy (dget meta ''uri'') then
        ret [(''verified'', JBool False), (''reason'', JStr ''no_uri''), (''artifact_hash'', JStr h)]
      else handle (andthen (artifact_store_get E (py_str (dget meta ''uri''))) (\<lambda>content.
        ret [(''verified'', JBool (sha E content = h)), (''artifact_hash'', JStr h),
            (''actual_hash'', JStr (sha E content)), (''size'', JInt (int (length content)))])) (\<lambda>e. ret [(''verified'', JBool False), (''reason'', JStr (''unreadable:'' @ describe e)),
            (''artifact_hash'', JStr h)])) u = (Inr r, t)"
    unfolding verify_artifact_content_def by (auto simp only: andthen_Inr_iff)
  from run_tx_Inr [OF meta [unfolded read_artifact_def artifact_row_def]] obtain row where
    row: "t_get artifact_key (task_id, h) (artifacts s) = Some row" and uri: "dget meta ''uri'' = jopt (af_artifact_uri row)"
    by (auto simp: andthen_Inr_iff artifact_dict_def)
  show ?thesis
  proof (cases "is_set (af_artifact_uri row)")
    case False
    then have "\<not> truthy (dget meta ''uri'')" using uri by (auto simp: is_set_def jopt_def split: option.splits)
    with rest row False show ?thesis by (auto simp: is_set_def)
  next
    case True
    then obtain a where a: "af_artifact_uri row = Some a" "a \<noteq> []" by (auto simp: is_set_def split: option.splits)
    with uri have "dget meta ''uri'' = JStr a" by (simp add: jopt_def)
    with rest a row same [of a u] show ?thesis
      by (cases "artifact_store_get E a u") (auto simp: handle_def andthen_def split: sum.splits)
  qed
qed

lemma verified_iff_bytes_match_witness:
  "\<exists>row uri content. t_get artifact_key (''t'', sample_digest) (artifacts ((sample_running R_RUNNING)
       \<lparr> artifacts := t_of [sample_artifact] \<rparr>)) = Some row \<and> af_artifact_uri row = Some uri \<and> uri \<noteq> []
     \<and> sha sample_files content = sample_digest"
proof -
  let ?s = "(sample_running R_RUNNING)\<lparr> artifacts := t_of [sample_artifact] \<rparr>"
  let ?m = "verify_artifact_content sample_files (\<lambda>_. []) (\<lambda>_. []) ''t'' sample_digest"
  have ok: "case fst (?m ?s) of Inl e \<Rightarrow> False | Inr r \<Rightarrow> dget r ''verified'' = JBool True" by code_simp
  then obtain r where r: "fst (?m ?s) = Inr r" "dget r ''verified'' = JBool True" by (cases "fst (?m ?s)") auto
  from verified_iff_bytes_match [OF run_result [where m = ?m, OF r(1)]] r(2) show ?thesis by blast
qed

definition sample_manifest :: ContextManifestRow where
  "sample_manifest = \<lparr> cm_context_manifest_id = ''cm'', cm_task_id = ''t'', cm_run_id = ''r'',
     cm_contract_version = 1, cm_plan_version = Some 1,
     cm_content_json = JObj [(''mandatory_refs'', JList []),
        (''dependency_result_refs'', JList [JObj [(''ref'', JStr ''dep''), (''hash'', JStr sample_digest)]])],
     cm_manifest_hash = ''mh'', cm_created_at = 0 \<rparr>"


text \<open>
  A dependency whose bytes are gone from the store: reading the file raises an \<open>OSError\<close>, which the code does
  not catch here, so the whole mandatory context is replaced by the empty list.
\<close>

lemma missing_bytes_hide_context:
  assumes "store_get E = Some f" and "f digest = None" and "is_sha256_hex digest"
    and "t_get artifact_key (task_id, digest) (artifacts s) = Some row"
    and "af_artifact_uri row = Some (''artifact://'' @ digest)"
  shows "fst (dependency_text E decode task_id (JStr digest) s) = Inl OSError"
proof -
  have d: "artifact_digest (''artifact://'' @ digest) = Inr digest"
    using assms(3) by (simp add: artifact_digest_def starts_with_def)
  have "digest \<noteq> []" using assms(3) by (auto simp: is_sha256_hex_def)
  with assms d show ?thesis
    by (simp add: dependency_text_def handle_def read_task_artifact_bytes_def artifact_store_get_def andthen_def
        seq_def is_set_def the_or_def lift_exn_def)
qed

end
