(* ===== verification/Replies.thy ===== *)
theory Replies
  imports Helpers
begin

text \<open>
  The first half of \<open>runtime/api_agent.py\<close>: how a worker reads the model's final reply and turns it into
  the Run's result. Markers are found and tested for negation, complete JSON objects are cut out of the
  prose, and \<open>_submit_result\<close> combines what the reply says with what the Run has published.

  Reply texts are ASCII here: the character classes, the case folding and the window lengths of the regular
  expression are those of ASCII text. \<open>json.loads\<close> is a parameter \<open>loads\<close>; \<open>None\<close> stands for the
  \<open>ValueError\<close> it raises.
\<close>

subsection \<open>Substrings\<close>

text \<open>\<open>s.startswith(p, i)\<close>, every position at which \<open>s.find\<close> stops when it is restarted one further, and \<open>s.rfind\<close>.\<close>

definition at :: "string \<Rightarrow> string \<Rightarrow> nat \<Rightarrow> bool" where
  "at p s i = starts_with p (drop i s)"

definition occurrences :: "string \<Rightarrow> string \<Rightarrow> nat list" where
  "occurrences p s = filter (at p s) [0..<length s]"

definition rfind :: "string \<Rightarrow> string \<Rightarrow> nat option" where
  "rfind p s = find (at p s) (rev [0..<Suc (length s)])"

definition ends_with :: "string \<Rightarrow> string \<Rightarrow> bool" where
  "ends_with p s = starts_with (rev p) (rev s)"

definition to_lower :: "char \<Rightarrow> char" where
  "to_lower c = (if 65 \<le> (of_char c :: nat) \<and> (of_char c :: nat) \<le> 90 then char_of ((of_char c :: nat) + 32) else c)"

definition to_upper :: "char \<Rightarrow> char" where
  "to_upper c = (if 97 \<le> (of_char c :: nat) \<and> (of_char c :: nat) \<le> 122 then char_of ((of_char c :: nat) - 32) else c)"

definition is_lower :: "char \<Rightarrow> bool" where
  "is_lower c \<longleftrightarrow> 97 \<le> (of_char c :: nat) \<and> (of_char c :: nat) \<le> 122"

definition is_word :: "char \<Rightarrow> bool" where
  "is_word c \<longleftrightarrow> is_lower (to_lower c) \<or> is_digit c \<or> c = CHR ''_''"

subsection \<open>Regular expressions\<close>

text \<open>
  A pattern maps a position (the character before it and the rest of the text) to the positions at which a
  match starting there can end; backtracking explores them all. \<open>re_search\<close> is \<open>pattern.search(s) is not
  None\<close>.
\<close>

type_synonym position = "char option \<times> string"
type_synonym pattern = "position \<Rightarrow> position list"

definition re_seq :: "pattern \<Rightarrow> pattern \<Rightarrow> pattern" where
  "re_seq m n p = concat (map n (m p))"

definition re_alt :: "pattern list \<Rightarrow> pattern" where
  "re_alt ms p = concat (map (\<lambda>m. m p) ms)"

definition re_opt :: "pattern \<Rightarrow> pattern" where
  "re_opt m p = m p @ [p]"

fun re_lit :: "string \<Rightarrow> pattern" where
  "re_lit [] p = [p]"
| "re_lit (c # cs) (b, []) = []"
| "re_lit (c # cs) (b, d # s) = (if to_lower c = to_lower d then re_lit cs (Some d, s) else [])"

fun re_upto :: "nat \<Rightarrow> (char \<Rightarrow> bool) \<Rightarrow> pattern" where
  "re_upto 0 P p = [p]"
| "re_upto (Suc n) P (b, []) = [(b, [])]"
| "re_upto (Suc n) P (b, d # s) = (b, d # s) # (if P d then re_upto n P (Some d, s) else [])"

definition re_star :: "(char \<Rightarrow> bool) \<Rightarrow> pattern" where
  "re_star P p = re_upto (length (snd p)) P p"

definition re_plus :: "(char \<Rightarrow> bool) \<Rightarrow> pattern" where
  "re_plus P p = (case p of (b, d # s) \<Rightarrow> if P d then re_star P (Some d, s) else [] | _ \<Rightarrow> [])"

definition re_boundary :: pattern where
  "re_boundary p = (if (case fst p of None \<Rightarrow> False | Some c \<Rightarrow> is_word c)
     \<noteq> (case snd p of [] \<Rightarrow> False | d # _ \<Rightarrow> is_word d) then [p] else [])"

fun re_search_from :: "pattern \<Rightarrow> char option \<Rightarrow> string \<Rightarrow> bool" where
  "re_search_from m b [] \<longleftrightarrow> m (b, []) \<noteq> []"
| "re_search_from m b (c # s) \<longleftrightarrow> m (b, c # s) \<noteq> [] \<or> re_search_from m (Some c) s"

definition re_search :: "pattern \<Rightarrow> string \<Rightarrow> bool" where
  "re_search m s = re_search_from m None s"

subsection \<open>Markers\<close>

definition BLOCKED_MARKER :: string where
  "BLOCKED_MARKER = ''[[HIBIKI:BLOCKED]]''"

definition FAIL_MARKER :: string where
  "FAIL_MARKER = ''[[HIBIKI:FAIL]]''"

definition PASS_MARKER :: string where
  "PASS_MARKER = ''[[HIBIKI:PASS]]''"

definition PRE_MARKER_CUES :: "string list" where
  "PRE_MARKER_CUES = []"

definition NEGATION_HEADS :: "string list" where
  "NEGATION_HEADS = [''applicable'', ''needed'', ''required'', ''relevant'']"

text \<open>A cue as a whole token: \<open>(?<![a-z])(cue)(?![a-z])\<close>; with no cues the pattern never matches.\<close>

definition whole_token :: "string \<Rightarrow> string \<Rightarrow> nat \<Rightarrow> bool" where
  "whole_token cue s i \<longleftrightarrow> at cue s i \<and> (i = 0 \<or> \<not> is_lower (s ! (i - 1)))
     \<and> (length s \<le> i + length cue \<or> \<not> is_lower (s ! (i + length cue)))"

definition pre_marker :: "string \<Rightarrow> bool" where
  "pre_marker s = list_ex (\<lambda>cue. list_ex (whole_token cue s) [0..<Suc (length s)]) PRE_MARKER_CUES"

definition APOSTROPHE :: char where
  "APOSTROPHE = char_of (39 :: nat)"

definition post_marker_negation :: pattern where
  "post_marker_negation =
    re_seq (re_lit '']'')
    (re_seq (re_upto 40 (\<lambda>c. c \<noteq> CHR ''.'' \<and> c \<noteq> char_of (10 :: nat)))
    (re_seq re_boundary
    (re_seq (re_opt (re_alt (map re_lit [''is'', ''was'', ''are'', ''were'',
       ''isn'' @ [APOSTROPHE] @ ''t'', ''wasn'' @ [APOSTROPHE] @ ''t''])))
    (re_seq (re_star is_space)
    (re_seq (re_opt (re_alt [re_seq (re_lit ''not'') (re_plus is_space), re_seq (re_lit ''no'') (re_plus is_space)]))
    (re_seq (re_alt (map re_lit NEGATION_HEADS)) re_boundary))))))"

text \<open>The clause that holds the marker, as far as it lies before it.\<close>

definition SEPARATORS :: "string list" where
  "SEPARATORS = [''. '', [CHR ''.'', char_of (10 :: nat)], ''! '', ''? '', ''; '', [char_of (10 :: nat)], ''.'']"

definition cut_after :: "string \<Rightarrow> string \<Rightarrow> string" where
  "cut_after separator s = (case rfind separator s of None \<Rightarrow> s | Some i \<Rightarrow> drop (i + length separator) s)"

definition clause_before :: "string \<Rightarrow> nat \<Rightarrow> string" where
  "clause_before txt index =
    (let before = drop (index - 60) (take index txt);
         before = (case rfind ''[[HIBIKI:'' before of None \<Rightarrow> before | Some i \<Rightarrow> take i before)
     in fold cut_after SEPARATORS (map to_lower before))"

definition marker_is_negated :: "string \<Rightarrow> nat \<Rightarrow> bool" where
  "marker_is_negated txt index =
    (if pre_marker (clause_before txt index) then True
     else re_search post_marker_negation (take 80 (drop index txt)))"

definition asserted :: "string \<Rightarrow> string \<Rightarrow> bool" where
  "asserted token txt \<longleftrightarrow> \<not> list_all (marker_is_negated txt) (occurrences token txt)"

definition marker_verdict :: "string \<Rightarrow> string option" where
  "marker_verdict txt =
    (if asserted FAIL_MARKER txt then Some ''FAIL''
     else if asserted PASS_MARKER txt then Some ''PASS''
     else None)"

definition asserted_blocked :: "string \<Rightarrow> bool" where
  "asserted_blocked txt = asserted BLOCKED_MARKER txt"

subsection \<open>JSON objects in prose\<close>

definition QUOTE :: char where
  "QUOTE = CHR 0x22"

definition BACKSLASH :: char where
  "BACKSLASH = CHR 0x5C"

record scan =
  sc_depth :: nat
  sc_start :: "nat option"
  sc_in_string :: bool
  sc_escaped :: bool
  sc_found :: "string list"

definition scan_char :: "string \<Rightarrow> nat \<Rightarrow> char \<Rightarrow> scan \<Rightarrow> scan" where
  "scan_char txt index c st =
    (if sc_in_string st then
       (if sc_escaped st then st\<lparr> sc_escaped := False \<rparr>
        else if c = BACKSLASH then st\<lparr> sc_escaped := True \<rparr>
        else if c = QUOTE then st\<lparr> sc_in_string := False \<rparr>
        else st)
     else if c = QUOTE then st\<lparr> sc_in_string := True \<rparr>
     else if c = CHR ''{'' then
       st\<lparr> sc_start := (if sc_depth st = 0 then Some index else sc_start st), sc_depth := sc_depth st + 1 \<rparr>
     else if c = CHR ''}'' \<and> 0 < sc_depth st then
       (if sc_depth st = 1 then
          (case sc_start st of
             None \<Rightarrow> st\<lparr> sc_depth := 0 \<rparr>
           | Some i \<Rightarrow> st\<lparr> sc_depth := 0, sc_start := None,
               sc_found := sc_found st @ [drop i (take (index + 1) txt)] \<rparr>)
        else st\<lparr> sc_depth := sc_depth st - 1 \<rparr>)
     else st)"

fun scan_from :: "string \<Rightarrow> nat \<Rightarrow> string \<Rightarrow> scan \<Rightarrow> scan" where
  "scan_from txt index [] st = st"
| "scan_from txt index (c # cs) st = scan_from txt (index + 1) cs (scan_char txt index c st)"

definition scan_init :: scan where
  "scan_init = \<lparr> sc_depth = 0, sc_start = None, sc_in_string = False, sc_escaped = False, sc_found = [] \<rparr>"

definition json_object_candidates :: "string \<Rightarrow> string list" where
  "json_object_candidates txt = rev (sc_found (scan_from txt 0 txt scan_init))"

subsection \<open>What a reply says\<close>

definition valid_evidence_items :: "json \<Rightarrow> json list" where
  "valid_evidence_items raw = (case raw of JList xs \<Rightarrow> filter is_obj xs | _ \<Rightarrow> [])"

text \<open>
  \<open>payload.get(k) in {...}\<close>: a list or an object is not hashable, and the \<open>TypeError\<close> is not caught
  (\<open>None\<close>).
\<close>

definition in_words :: "json \<Rightarrow> string list \<Rightarrow> bool option" where
  "in_words v ws = (case v of JList _ \<Rightarrow> None | JObj _ \<Rightarrow> None | JStr w \<Rightarrow> Some (w \<in> set ws) | _ \<Rightarrow> Some False)"

definition payload_fields :: "dict \<Rightarrow> dict option" where
  "payload_fields payload =
    (case in_words (dget payload ''verdict'') [''PASS'', ''FAIL''] of
       None \<Rightarrow> None
     | Some has_verdict \<Rightarrow>
        (case in_words (dget payload ''outcome'') [''COMPLETED'', ''BLOCKED''] of
           None \<Rightarrow> None
         | Some has_outcome \<Rightarrow> Some (
             (if has_verdict then [(''verdict'', JStr (py_str (dget payload ''verdict'')))] else []) @
             (if has_outcome then [(''outcome'', JStr (py_str (dget payload ''outcome'')))] else []) @
             (if is_list (dget payload ''acceptance_evidence'')
              then [(''acceptance_evidence'', JList (valid_evidence_items (dget payload ''acceptance_evidence'')))]
              else []))))"

fun pick_payload :: "(string \<Rightarrow> json option) \<Rightarrow> string list \<Rightarrow> dict \<Rightarrow> dict option" where
  "pick_payload loads [] evidence_only = Some evidence_only"
| "pick_payload loads (c # cs) evidence_only =
    (case loads c of
       Some (JObj payload) \<Rightarrow>
         (case payload_fields payload of
            None \<Rightarrow> None
          | Some found \<Rightarrow>
             (if found = [] then pick_payload loads cs evidence_only
              else if dhas found ''verdict'' \<or> dhas found ''outcome'' then Some found
              else pick_payload loads cs found))
     | _ \<Rightarrow> pick_payload loads cs evidence_only)"

definition parse_explicit_result :: "(string \<Rightarrow> json option) \<Rightarrow> string option \<Rightarrow> dict option" where
  "parse_explicit_result loads final_content =
    (case final_content of
       None \<Rightarrow> Some []
     | Some content \<Rightarrow>
        (if content = [] then Some []
         else let candidates = json_object_candidates (strip content) in
           (if candidates \<noteq> [] then pick_payload loads candidates []
            else case marker_verdict content of
               None \<Rightarrow> Some []
             | Some m \<Rightarrow> Some [(''verdict'', JStr m), (''outcome'', JStr ''COMPLETED'')])))"

subsection \<open>The result of a Run\<close>

text \<open>The frozen spec's lists.\<close>

definition expected_outputs :: "dict \<Rightarrow> string list" where
  "expected_outputs spec = map py_str (filter truthy (items (dget spec ''expected_outputs'')))"

definition required_specs :: "dict \<Rightarrow> dict list" where
  "required_specs spec = map entries (filter (\<lambda>c. is_obj c \<and> truthy (dget_or (entries c) ''required'' (JBool True)))
     (items (dget spec ''acceptance_criteria'')))"

definition covered :: "string list \<Rightarrow> string \<Rightarrow> bool" where
  "covered published_paths item = list_ex (\<lambda>path. path = item \<or> ends_with item path) published_paths"

definition missing_outputs :: "dict \<Rightarrow> string list \<Rightarrow> string list \<Rightarrow> string list" where
  "missing_outputs spec published published_paths =
    filter (\<lambda>item. \<not> covered published_paths item \<and> item \<notin> set published) (expected_outputs spec)"

text \<open>Whether the delivery falls short before the reply's own verdict is read, and why.\<close>

definition delivery_blocked :: "dict \<Rightarrow> string list \<Rightarrow> string list \<Rightarrow> string option \<Rightarrow> string option \<Rightarrow> bool" where
  "delivery_blocked spec published published_paths final_content error \<longleftrightarrow>
     is_set error \<or> final_content = None
     \<or> (is_set final_content \<and> asserted_blocked (or_else final_content []))
     \<or> missing_outputs spec published published_paths \<noteq> []
     \<or> (expected_outputs spec \<noteq> [] \<and> published = [])"

definition delivery_error :: "dict \<Rightarrow> string list \<Rightarrow> string list \<Rightarrow> string option \<Rightarrow> string option" where
  "delivery_error spec published published_paths error =
    (if is_set error then error
     else if missing_outputs spec published published_paths \<noteq> [] then
       Some (''missing_expected_artifacts:'' @ join '','' (missing_outputs spec published published_paths))
     else if expected_outputs spec \<noteq> [] \<and> published = [] then Some ''missing_expected_artifacts''
     else error)"

definition said :: "dict \<Rightarrow> string \<Rightarrow> string list \<Rightarrow> string \<Rightarrow> string" where
  "said explicit key words fallback =
    (if dget explicit key \<in> set (map JStr words) then py_str (dget explicit key) else fallback)"

definition explicit_evidence :: "json list \<Rightarrow> string \<Rightarrow> json list" where
  "explicit_evidence raw verdict =
    map (\<lambda>item. let d = entries item in JObj [
        (''criterion_id'', JStr (py_str (dget d ''criterion_id''))),
        (''artifact_hash'', dget d ''artifact_hash''),
        (''verdict'', JStr (py_str (jor (dget d ''verdict'') (JStr verdict)))),
        (''check'', dget d ''check'')])
      (filter (\<lambda>item. is_obj item \<and> truthy (dget (entries item) ''criterion_id'')) raw)"

fun bind_criteria :: "string list \<Rightarrow> nat \<Rightarrow> dict list \<Rightarrow> json list" where
  "bind_criteria published index [] = []"
| "bind_criteria published index (crit # cs) =
    (if \<not> truthy (dget crit ''criterion_id'') then bind_criteria published (index + 1) cs
     else JObj [
        (''criterion_id'', JStr (py_str (dget crit ''criterion_id''))),
        (''artifact_hash'', JStr (if index < length published then published ! index else hd published)),
        (''verdict'', JStr ''PASS'')] # bind_criteria published (index + 1) cs)"

definition result_evidence :: "dict \<Rightarrow> string list \<Rightarrow> dict \<Rightarrow> string \<Rightarrow> bool \<Rightarrow> json list" where
  "result_evidence spec published explicit verdict blocked =
    (if is_list (dget explicit ''acceptance_evidence'') then
       explicit_evidence (items (dget explicit ''acceptance_evidence'')) verdict
     else if verdict = ''PASS'' \<and> \<not> blocked
        \<and> map to_upper (py_str (jor (dget spec ''work_type'') (JStr []))) \<noteq> ''VERIFY''
        \<and> published \<noteq> [] \<and> required_specs spec \<noteq> [] then
       bind_criteria published 0 (required_specs spec)
     else [])"

text \<open>How the Run ended: the code's local variables after the last check.\<close>

record ending =
  en_blocked :: bool
  en_outcome :: string
  en_verdict :: string
  en_evidence :: "json list"
  en_error :: "string option"

definition run_ending :: "dict \<Rightarrow> dict \<Rightarrow> string list \<Rightarrow> string list \<Rightarrow> string option \<Rightarrow> string option \<Rightarrow> ending" where
  "run_ending explicit spec published published_paths final_content error =
    (let blocked = delivery_blocked spec published published_paths final_content error;
         error = delivery_error spec published published_paths error;
         verdict = said explicit ''verdict'' [''PASS'', ''FAIL''] (if blocked then ''FAIL'' else ''PASS'');
         outcome = said explicit ''outcome'' [''COMPLETED'', ''BLOCKED''] (if blocked then ''BLOCKED'' else ''COMPLETED'');
         blocked = (if outcome = ''COMPLETED'' \<and> verdict = ''FAIL'' then False else blocked);
         evidence = result_evidence spec published explicit verdict blocked
     in if outcome = ''COMPLETED'' \<and> verdict = ''PASS'' \<and> expected_outputs spec \<noteq> []
          \<and> required_specs spec \<noteq> [] \<and> evidence = []
        then \<lparr> en_blocked = True, en_outcome = ''BLOCKED'', en_verdict = ''FAIL'', en_evidence = evidence,
           en_error = Some (or_else error ''missing_acceptance_evidence'') \<rparr>
        else \<lparr> en_blocked = blocked, en_outcome = outcome, en_verdict = verdict, en_evidence = evidence,
           en_error = error \<rparr>)"

definition ending_result :: "ending \<Rightarrow> string list \<Rightarrow> string list \<Rightarrow> string option \<Rightarrow> dict" where
  "ending_result e published published_paths final_content =
    [(''outcome'', JStr (if en_blocked e then ''BLOCKED'' else en_outcome e)),
     (''summary'', JStr (take 20000 (case final_content of Some c \<Rightarrow> c | None \<Rightarrow> or_else (en_error e) []))),
     (''verdict'', JStr (if en_blocked e \<and> en_outcome e \<noteq> ''COMPLETED'' then ''FAIL'' else en_verdict e)),
     (''artifact_refs'', jstrs published),
     (''acceptance_evidence'', JList (if en_blocked e \<and> en_outcome e \<noteq> ''COMPLETED'' then [] else en_evidence e)),
     (''published_paths'', jstrs published_paths),
     (''marker'', jopt (if is_set final_content then marker_verdict (or_else final_content []) else None)),
     (''blocked_marker_asserted'', JBool (is_set final_content \<and> asserted_blocked (or_else final_content [])))] @
    (if en_blocked e then
       [(''blockers'', jstrs [or_else (en_error e) ''blocked_by_model'']),
        (''error_class'', JStr (or_else (en_error e) ''blocked_by_model''))]
     else [])"

text \<open>The \<open>result\<close> that \<open>_submit_result\<close> sends; \<open>None\<close> where reading the reply raises.\<close>

definition worker_result :: "(string \<Rightarrow> json option) \<Rightarrow> dict \<Rightarrow> string list \<Rightarrow> string list \<Rightarrow> string option
    \<Rightarrow> string option \<Rightarrow> dict option" where
  "worker_result loads spec published published_paths final_content error =
    (case parse_explicit_result loads final_content of
       None \<Rightarrow> None
     | Some explicit \<Rightarrow> Some (ending_result (run_ending explicit spec published published_paths final_content error)
         published published_paths final_content))"


subsection \<open>The scanner finds the object a reply carries\<close>

text \<open>A piece of text that leaves the scanner, inside an object, where it was.\<close>

definition neutral :: "string \<Rightarrow> bool" where
  "neutral w \<longleftrightarrow> (\<forall>txt i st. 0 < sc_depth st \<and> \<not> sc_in_string st \<and> \<not> sc_escaped st
     \<longrightarrow> scan_from txt i w st = st)"

lemma scan_append:
  "scan_from txt i (a @ b) st = scan_from txt (i + length a) b (scan_from txt i a st)"
  by (induction a arbitrary: i st) simp_all

lemma neutral_append: "neutral a \<Longrightarrow> neutral b \<Longrightarrow> neutral (a @ b)"
  by (simp add: neutral_def scan_append)

lemma neutral_Nil [simp]: "neutral []"
  by (simp add: neutral_def)

lemma neutral_plain:
  assumes "\<forall>c \<in> set w. c \<notin> {QUOTE, CHR ''{'', CHR ''}''}"
  shows "neutral w"
  using assms
proof (induction w)
  case (Cons c w)
  then have "neutral [c]" and "neutral w" by (auto simp: neutral_def scan_char_def)
  then have "neutral ([c] @ w)" by (rule neutral_append)
  then show ?case by simp
qed simp

lemma neutral_join: "\<forall>x \<in> set xs. neutral x \<Longrightarrow> neutral sep \<Longrightarrow> neutral (join sep xs)"
  by (induction sep xs rule: join.induct) (auto intro!: neutral_append)

text \<open>Inside a string literal.\<close>

lemma of_char_eq: "n < 256 \<Longrightarrow> (of_char c :: nat) = n \<longleftrightarrow> c = char_of n"
  by (metis char_of_char of_char_of of_char_mod_256 mod_less)

lemma char_of_marks: "char_of (34 :: nat) = QUOTE" "char_of (92 :: nat) = BACKSLASH"
  by (simp_all add: QUOTE_def BACKSLASH_def char_of_def bit_0)

lemma QUOTE_iff: "c = QUOTE \<longleftrightarrow> (of_char c :: nat) = 34"
  by (simp add: of_char_eq char_of_marks)

lemma BACKSLASH_iff: "c = BACKSLASH \<longleftrightarrow> (of_char c :: nat) = 92"
  by (simp add: of_char_eq char_of_marks)

lemma hex_digit_plain: "n < 16 \<Longrightarrow> hex_digit n \<notin> {QUOTE, BACKSLASH}"
  by (auto simp: hex_digit_def QUOTE_iff BACKSLASH_iff)

lemma scan_unescape [simp]: "\<not> sc_escaped st \<Longrightarrow> st\<lparr> sc_escaped := False \<rparr> = st"
  by (cases st) simp

lemma scan_in_string [simp]: "sc_in_string st \<Longrightarrow> st\<lparr> sc_in_string := True \<rparr> = st"
  by (cases st) simp

lemma scan_escape_pair:
  assumes "sc_in_string st" and "\<not> sc_escaped st"
  shows "scan_from txt i [BACKSLASH, c] st = st"
  using assms by (simp add: scan_char_def)

lemma scan_string_plain:
  assumes "sc_in_string st" and "\<not> sc_escaped st" and "\<forall>c \<in> set w. c \<notin> {QUOTE, BACKSLASH}"
  shows "scan_from txt i w st = st"
  using assms by (induction w arbitrary: i) (simp_all add: scan_char_def)

lemma esc_char_cases:
  "(\<exists>x. esc_char c = [BACKSLASH, x])
   \<or> (\<exists>h l. esc_char c = [BACKSLASH, CHR ''u'', CHR ''0'', CHR ''0'', h, l] \<and> QUOTE \<notin> {h, l} \<and> BACKSLASH \<notin> {h, l})
   \<or> (esc_char c = [c] \<and> c \<notin> {QUOTE, BACKSLASH})"
proof -
  have hex: "QUOTE \<noteq> hex_digit n \<and> BACKSLASH \<noteq> hex_digit n" if "n < 16" for n
    using hex_digit_plain [OF that] by auto
  have "(of_char c :: nat) div 16 < 16" if "(of_char c :: nat) < 32" using that by auto
  note digits = hex [OF this] hex [of "(of_char c :: nat) mod 16", simplified]
  have "c = BACKSLASH" if "(of_char c :: nat) = 92" using that by (simp add: BACKSLASH_iff)
  moreover have "c \<noteq> QUOTE \<and> c \<noteq> BACKSLASH" if "(of_char c :: nat) \<noteq> 34" "(of_char c :: nat) \<noteq> 92"
    using that by (simp add: QUOTE_iff BACKSLASH_iff)
  ultimately show ?thesis
    using digits unfolding esc_char_def Let_def char_of_marks by simp
qed

lemma scan_string_char:
  assumes "sc_in_string st" and "\<not> sc_escaped st"
  shows "scan_from txt i (esc_char c) st = st"
  using esc_char_cases [of c]
proof (elim disjE exE conjE)
  fix x assume "esc_char c = [BACKSLASH, x]"
  then show ?thesis using scan_escape_pair [OF assms] by simp
next
  fix h l assume e: "esc_char c = [BACKSLASH, CHR ''u'', CHR ''0'', CHR ''0'', h, l]"
    and hl: "QUOTE \<notin> {h, l}" "BACKSLASH \<notin> {h, l}"
  have "scan_from txt (i + 2) [CHR ''0'', CHR ''0'', h, l] st = st"
    using hl by (intro scan_string_plain assms) (auto simp: QUOTE_def BACKSLASH_def)
  then show ?thesis
    using e scan_append [of "txt" i "[BACKSLASH, CHR ''u'']" "[CHR ''0'', CHR ''0'', h, l]" st]
      scan_escape_pair [OF assms] by simp
next
  assume "esc_char c = [c]" and "c \<notin> {QUOTE, BACKSLASH}"
  then show ?thesis using scan_string_plain [OF assms, of "[c]"] by simp
qed

lemma scan_string_body:
  "sc_in_string st \<Longrightarrow> \<not> sc_escaped st \<Longrightarrow> scan_from txt i (concat (map esc_char s)) st = st"
  by (induction s arbitrary: i) (simp_all add: scan_append scan_string_char)

lemma neutral_quote: "neutral (quote_str s)"
  unfolding neutral_def
proof (intro allI impI)
  fix source i and st :: scan
  assume st: "0 < sc_depth st \<and> \<not> sc_in_string st \<and> \<not> sc_escaped st"
  let ?in = "st\<lparr> sc_in_string := True \<rparr>"
  have "scan_from source (i + 1) (concat (map esc_char s)) ?in = ?in"
    using st by (intro scan_string_body) simp_all
  moreover have "?in\<lparr> sc_in_string := False \<rparr> = st" using st by (cases st) simp
  ultimately show "scan_from source i (quote_str s) st = st"
    using st by (simp add: quote_str_def scan_append scan_char_def char_of_marks)
      (simp add: QUOTE_def BACKSLASH_def)
qed

lemma neutral_nested:
  assumes "neutral w"
  shows "neutral ([CHR ''{''] @ w @ [CHR ''}''])"
  unfolding neutral_def
proof (intro allI impI)
  fix source i and st :: scan
  assume st: "0 < sc_depth st \<and> \<not> sc_in_string st \<and> \<not> sc_escaped st"
  let ?in = "st\<lparr> sc_start := sc_start st, sc_depth := sc_depth st + 1 \<rparr>"
  have "scan_from source (i + 1) w ?in = ?in" using st assms by (simp add: neutral_def)
  moreover have "?in\<lparr> sc_depth := sc_depth st \<rparr> = st" by (cases st) simp
  ultimately show "scan_from source i ([CHR ''{''] @ w @ [CHR ''}'']) st = st"
    using st by (simp add: scan_append scan_char_def QUOTE_def)
qed

lemma show_nat_digits: "\<forall>c \<in> set (show_nat n). is_digit c"
proof (induction n rule: show_nat.induct)
  case (1 n)
  then show ?case by (subst show_nat.simps) (auto simp: is_digit_def)
qed

lemma digit_plain: "is_digit c \<Longrightarrow> c \<notin> {QUOTE, CHR ''{'', CHR ''}''}"
  by (auto simp: is_digit_def QUOTE_def)

lemma neutral_nat: "neutral (show_nat n)"
  using show_nat_digits digit_plain by (intro neutral_plain) blast

lemma neutral_int: "neutral (show_int i)"
proof -
  have "neutral ''-''" by (rule neutral_plain) (simp add: QUOTE_def)
  then show ?thesis by (simp only: show_int_def neutral_append neutral_nat split: if_split) simp
qed

lemma neutral_members:
  assumes "\<forall>p \<in> set ps. neutral (snd p)"
  shows "neutral (join '','' (map (\<lambda>(k, t). quote_str k @ '':'' @ t) (sort_key fst ps)))"
proof (rule neutral_join)
  have "neutral '':''" by (rule neutral_plain) (simp add: QUOTE_def)
  then show "\<forall>x \<in> set (map (\<lambda>(k, t). quote_str k @ '':'' @ t) (sort_key fst ps)). neutral x"
    using assms by (auto intro!: neutral_append neutral_quote neutral_append [of "'':''", simplified])
  show "neutral '',''" by (rule neutral_plain) (simp add: QUOTE_def)
qed

lemma neutral_json: "neutral (canonical_json v)"
proof (induction v rule: canonical_json.induct)
  case (5 xs)
  have "neutral ''[''" "neutral '']''" "neutral '',''" by (rule neutral_plain; simp add: QUOTE_def)+
  moreover have "neutral (join '','' (map canonical_json xs))"
    by (rule neutral_join) (use 5 \<open>neutral '',''\<close> in auto)
  ultimately show ?case by (simp only: canonical_json.simps neutral_append)
next
  case (6 ps)
  have "neutral (join '','' (map (\<lambda>(k, t). quote_str k @ '':'' @ t)
      (sort_key fst (map (\<lambda>p. (fst p, canonical_json (snd p))) ps))))"
    by (rule neutral_members) (use 6 in auto)
  from neutral_nested [OF this] show ?case by simp
next
  case 2
  show ?case by (rule neutral_plain) (simp add: QUOTE_def)
qed (simp_all add: neutral_int neutral_quote neutral_plain QUOTE_def)

text \<open>An object surrounded by prose without quotes or opening braces.\<close>

definition prose :: "string \<Rightarrow> bool" where
  "prose w \<longleftrightarrow> QUOTE \<notin> set w \<and> CHR ''{'' \<notin> set w"

lemma scan_prose:
  "sc_depth st = 0 \<Longrightarrow> \<not> sc_in_string st \<Longrightarrow> prose w \<Longrightarrow> scan_from source i w st = st"
  by (induction w arbitrary: i) (auto simp: scan_char_def prose_def)

lemma candidates_of_object:
  assumes pre: "prose pre" and post: "prose post"
  shows "json_object_candidates (pre @ canonical_json (JObj ps) @ post) = [canonical_json (JObj ps)]"
proof -
  let ?obj = "canonical_json (JObj ps)" and ?st = scan_init
  let ?source = "pre @ ?obj @ post" and ?n = "length pre"
  obtain body where obj: "?obj = [CHR ''{''] @ body @ [CHR ''}'']" and body: "neutral body"
  proof
    show "?obj = [CHR ''{''] @ join '','' (map (\<lambda>(k, t). quote_str k @ '':'' @ t)
        (sort_key fst (map (\<lambda>p. (fst p, canonical_json (snd p))) ps))) @ [CHR ''}'']" by simp
  qed (rule neutral_members, auto intro: neutral_json)
  let ?in = "scan_init\<lparr> sc_start := Some ?n, sc_depth := 1 \<rparr>"
  have "scan_from ?source 0 pre ?st = ?st" using pre by (intro scan_prose) (simp_all add: scan_init_def)
  moreover have "scan_from ?source (?n + 1) body ?in = ?in" using body by (simp add: neutral_def scan_init_def)
  moreover have "drop ?n (take (Suc (Suc (?n + length body))) ?source) = ?obj"
    using obj by simp
  ultimately have "scan_from ?source 0 (pre @ ?obj) ?st = ?st\<lparr> sc_found := [?obj] \<rparr>"
    by (simp only: scan_append obj) (simp add: scan_char_def scan_init_def QUOTE_def)
  moreover have "scan_from ?source (?n + length ?obj) post (?st\<lparr> sc_found := [?obj] \<rparr>) = ?st\<lparr> sc_found := [?obj] \<rparr>"
    using post by (intro scan_prose) (simp_all add: scan_init_def)
  ultimately have "scan_from ?source 0 ((pre @ ?obj) @ post) ?st = ?st\<lparr> sc_found := [?obj] \<rparr>"
    by (simp only: scan_append length_append add_0)
  then show ?thesis by (simp add: json_object_candidates_def)
qed

lemma dropWhile_middle: "\<not> P x \<Longrightarrow> dropWhile P (a @ x # w) = dropWhile P a @ x # w"
  by (induction a) auto

lemma strip_around:
  assumes "m \<noteq> []" and "\<not> is_space (hd m)" and "\<not> is_space (last m)"
  shows "\<exists>a' b'. strip (a @ m @ b) = a' @ m @ b' \<and> set a' \<subseteq> set a \<and> set b' \<subseteq> set b"
proof -
  have first: "dropWhile is_space (a @ m @ b) = dropWhile is_space a @ m @ b"
    using assms(1,2) by (cases m) (auto simp: dropWhile_middle)
  have "rev m \<noteq> []" and "\<not> is_space (hd (rev m))" using assms(1,3) by (simp_all add: hd_rev)
  then have "dropWhile is_space (rev b @ rev m @ rev (dropWhile is_space a))
      = dropWhile is_space (rev b) @ rev m @ rev (dropWhile is_space a)"
    by (cases "rev m") (auto simp: dropWhile_middle)
  then have "strip (a @ m @ b) = dropWhile is_space a @ m @ rev (dropWhile is_space (rev b))"
    by (simp add: strip_def first)
  then show ?thesis by (metis set_dropWhileD set_rev subsetI)
qed

lemma prose_subset: "prose w \<Longrightarrow> set w' \<subseteq> set w \<Longrightarrow> prose w'"
  by (auto simp: prose_def)



subsection \<open>What a result claims\<close>

lemma said_cases: "said explicit key ws d = d \<or> said explicit key ws d \<in> set ws"
  by (auto simp: said_def)

lemma dget_ending_result [simp]:
  "dget (ending_result e published paths final) ''outcome'' = JStr (if en_blocked e then ''BLOCKED'' else en_outcome e)"
  "dget (ending_result e published paths final) ''verdict''
     = JStr (if en_blocked e \<and> en_outcome e \<noteq> ''COMPLETED'' then ''FAIL'' else en_verdict e)"
  "dget (ending_result e published paths final) ''acceptance_evidence''
     = JList (if en_blocked e \<and> en_outcome e \<noteq> ''COMPLETED'' then [] else en_evidence e)"
  by (simp_all add: ending_result_def)


text \<open>A text without an opening bracket asserts no marker.\<close>

lemma no_occurrence: "c \<notin> set s \<Longrightarrow> occurrences (c # p) s = []"
  by (auto simp: occurrences_def at_def starts_with_iff filter_empty_conv dest: in_set_dropD)
    (metis Cons_eq_appendI in_set_dropD list.set_intros(1))

lemma no_marker:
  assumes "CHR ''['' \<notin> set s"
  shows "asserted_blocked s = False" and "marker_verdict s = None"
  using no_occurrence [OF assms]
  by (simp_all add: asserted_blocked_def marker_verdict_def asserted_def BLOCKED_MARKER_def FAIL_MARKER_def PASS_MARKER_def)

lemma sample_spec:
  "worker_result (\<lambda>_. None) [(''expected_outputs'', JList [JStr ''report.md'']),
       (''acceptance_criteria'', JList [JObj [(''criterion_id'', JStr ''c1'')]])]
     [''h1''] [''out/report.md''] (Some ''Report written.'') None
   = Some [(''outcome'', JStr ''COMPLETED''), (''summary'', JStr ''Report written.''),
       (''verdict'', JStr ''PASS''), (''artifact_refs'', JList [JStr ''h1'']),
       (''acceptance_evidence'', JList [JObj [(''criterion_id'', JStr ''c1''),
          (''artifact_hash'', JStr ''h1''), (''verdict'', JStr ''PASS'')]]),
       (''published_paths'', JList [JStr ''out/report.md'']),
       (''marker'', JNull), (''blocked_marker_asserted'', JBool False)]"
proof -
  have "json_object_candidates (strip ''Report written.'') = []" by code_simp
  moreover have "asserted_blocked ''Report written.'' = False" "marker_verdict ''Report written.'' = None"
    by (simp_all add: no_marker)
  moreover have "covered [''out/report.md''] ''report.md''" by code_simp
  ultimately show ?thesis
    by (simp add: worker_result_def parse_explicit_result_def run_ending_def delivery_blocked_def
      delivery_error_def missing_outputs_def expected_outputs_def required_specs_def said_def result_evidence_def
      is_list_def is_set_def or_else_def dget_or_def ending_result_def jstrs_def jopt_def Let_def)
qed


text \<open>Evidence the worker adds on its own names a published artifact.\<close>

lemma bind_criteria_published:
  "published \<noteq> [] \<Longrightarrow> x \<in> set (bind_criteria published i cs)
    \<Longrightarrow> dget (entries x) ''artifact_hash'' \<in> JStr ` set published"
  by (induction cs arbitrary: i) (auto split: if_splits)

text \<open>
  Evidence is never made up: if the reply has no evidence list, the result of a VERIFY unit carries none, and what the result of another unit carries names artifacts the Run has published.
\<close>

theorem evidence_is_backed:
  assumes "parse_explicit_result loads final = Some explicit" and "\<not> is_list (dget explicit ''acceptance_evidence'')"
    and "worker_result loads spec published paths final error = Some r"
    and "x \<in> set (items (dget r ''acceptance_evidence''))"
  shows "map to_upper (py_str (jor (dget spec ''work_type'') (JStr []))) \<noteq> ''VERIFY''
     \<and> dget (entries x) ''artifact_hash'' \<in> JStr ` set published"
proof -
  let ?e = "run_ending explicit spec published paths final error"
  have "x \<in> set (en_evidence ?e)" using assms by (auto simp: worker_result_def split: if_splits)
  then obtain verdict blocked where "x \<in> set (result_evidence spec published explicit verdict blocked)"
    by (auto simp: run_ending_def Let_def split: if_splits)
  then show ?thesis
    using assms(2) by (auto simp: result_evidence_def dest: bind_criteria_published split: if_splits)
qed

lemma evidence_is_backed_witness:
  "dget (entries (JObj [(''criterion_id'', JStr ''c1''), (''artifact_hash'', JStr ''h1''), (''verdict'', JStr ''PASS'')]))
     ''artifact_hash'' \<in> JStr ` set [''h1'']"
proof -
  have "json_object_candidates (strip ''Report written.'') = []" by code_simp
  then have "parse_explicit_result (\<lambda>_. None) (Some ''Report written.'') = Some []"
    by (simp add: parse_explicit_result_def no_marker)
  from evidence_is_backed [OF this _ sample_spec] show ?thesis by (simp add: is_list_def)
qed

subsection \<open>Where the reading goes wrong\<close>

text \<open>
  The expression for a negated marker makes the negation optional, so a word such as \<open>required\<close> within
  forty characters is enough: a worker that asserts the block marker and says why is taken to deny it.
\<close>

lemma marker_excused_without_negation:
  "asserted_blocked ''[[HIBIKI:BLOCKED]]''"
  "\<not> asserted_blocked ''[[HIBIKI:BLOCKED]] a required file is missing''"
  by code_simp+

lemma blocked_reply_completes:
  "map_option (\<lambda>r. (dget r ''outcome'', dget r ''verdict''))
     (worker_result (\<lambda>_. None) [] [] [] (Some ''[[HIBIKI:BLOCKED]] a required file is missing'') None)
   = Some (JStr ''COMPLETED'', JStr ''PASS'')"
proof -
  have "json_object_candidates (strip ''[[HIBIKI:BLOCKED]] a required file is missing'') = []" by code_simp
  moreover have "marker_verdict ''[[HIBIKI:BLOCKED]] a required file is missing'' = None" by code_simp
  ultimately show ?thesis
    using marker_excused_without_negation(2)
    by (simp add: worker_result_def parse_explicit_result_def run_ending_def delivery_blocked_def
      delivery_error_def missing_outputs_def expected_outputs_def said_def is_set_def or_else_def Let_def)
qed

text \<open>
  A reply whose object says only that the outcome is BLOCKED gets the verdict PASS and, outside VERIFY
  units, evidence that every required criterion passed.
\<close>

lemma blocked_outcome_mints_pass:
  assumes "parse_explicit_result loads final = Some [(''outcome'', JStr ''BLOCKED'')]"
    and "\<not> delivery_blocked spec published paths final error"
    and "map to_upper (py_str (jor (dget spec ''work_type'') (JStr []))) \<noteq> ''VERIFY''"
    and "published \<noteq> []" and "required_specs spec \<noteq> []"
  shows "\<exists>r. worker_result loads spec published paths final error = Some r
     \<and> dget r ''outcome'' = JStr ''BLOCKED'' \<and> dget r ''verdict'' = JStr ''PASS''
     \<and> dget r ''acceptance_evidence'' = JList (bind_criteria published 0 (required_specs spec))"
  using assms by (simp add: worker_result_def run_ending_def Let_def said_def result_evidence_def is_list_def)

text \<open>A verdict that is a list or an object makes reading the reply raise, and no result is sent.\<close>

lemma unhashable_verdict_raises:
  assumes "loads (canonical_json (JObj ps)) = Some (JObj ps)" and "dget ps ''verdict'' = JList xs"
  shows "pick_payload loads [canonical_json (JObj ps)] [] = None"
  using assms by (simp add: payload_fields_def in_words_def del: canonical_json.simps)

end
