(* ===== verification/Client.thy ===== *)
theory Client
  imports Replies "HOL-Library.Sublist"
begin

text \<open>
  \<open>runtime/openai_client.py\<close>: one chat completion over HTTP, with classified errors and a bounded retry.
  The transport is a parameter that answers the n-th request (\<open>httpx\<close>'s exceptions or a response);
  \<open>json.loads\<close> and \<open>json.dumps\<close> are parameters (a refused text has an error message), and sleeping is
  recorded as the list of delays, in milliseconds. Texts are ASCII.
\<close>

subsection \<open>Messages and replies\<close>

record ChatMessage =
  msg_role :: string
  msg_content :: "string option"
  msg_tool_call_id :: "string option"
  msg_name :: "string option"
  msg_tool_calls :: "dict list"

record ModelReply =
  rep_content :: "string option"
  rep_tool_calls :: "dict list"
  rep_finish_reason :: "string option"
  rep_usage :: dict
  rep_raw :: dict

record ModelClientError =
  err_kind :: string
  err_message :: string
  err_retryable :: bool
  err_status :: "int option"

definition protocol_error :: "string \<Rightarrow> ModelClientError" where
  "protocol_error m = \<lparr> err_kind = ''protocol'', err_message = m, err_retryable = False, err_status = None \<rparr>"

definition classify_status :: "int \<Rightarrow> string \<times> bool" where
  "classify_status status =
    (if status = 429 then (''rate_limit'', True)
     else if status \<in> {401, 403} then (''auth'', False)
     else if 500 \<le> status \<and> status \<le> 599 then (''server'', True)
     else if 400 \<le> status \<and> status \<le> 499 then (''bad_request'', False)
     else (''protocol'', False))"

record codec =
  cd_loads :: "string \<Rightarrow> string + json"
  cd_dumps :: "json \<Rightarrow> string"

definition normalize_tool_call :: "codec \<Rightarrow> json \<Rightarrow> string + dict" where
  "normalize_tool_call C call =
    (case call of JObj c \<Rightarrow>
       (case dget c ''function'' of JObj f \<Rightarrow>
          (case dget f ''name'' of JStr name \<Rightarrow>
             (if name = [] then Inl ''tool call is missing a function name''
              else case (case dget_or f ''arguments'' (JStr ''{}'') of JObj a \<Rightarrow> JStr (cd_dumps C (JObj a)) | a \<Rightarrow> a) of
                JStr arguments \<Rightarrow>
                  (case cd_loads C arguments of
                     Inl e \<Rightarrow> Inl e
                   | Inr _ \<Rightarrow> Inr (dset ''function'' (JObj [(''name'', JStr name), (''arguments'', JStr arguments)])
                       (dset ''type'' (jor (dget c ''type'') (JStr ''function'')) c)))
              | _ \<Rightarrow> Inl ''tool call arguments must be a JSON string'')
           | _ \<Rightarrow> Inl ''tool call is missing a function name'')
        | _ \<Rightarrow> Inl ''tool call is missing its function object'')
     | _ \<Rightarrow> Inl ''tool call must be an object'')"

fun normalize_all :: "codec \<Rightarrow> json list \<Rightarrow> string + dict list" where
  "normalize_all C [] = Inr []"
| "normalize_all C (c # cs) =
    (case normalize_tool_call C c of
       Inl e \<Rightarrow> Inl e
     | Inr d \<Rightarrow> (case normalize_all C cs of Inl e \<Rightarrow> Inl e | Inr ds \<Rightarrow> Inr (d # ds)))"

definition text_or_none :: "json \<Rightarrow> string option" where
  "text_or_none v = (case v of JNull \<Rightarrow> None | JStr s \<Rightarrow> Some s | _ \<Rightarrow> Some (py_str v))"

text \<open>A message of the older form, with one \<open>function_call\<close>, counts as a list of one call.\<close>

definition raw_calls :: "dict \<Rightarrow> json" where
  "raw_calls message =
    (if dget message ''tool_calls'' \<noteq> JNull then dget message ''tool_calls''
     else if dget message ''function_call'' \<noteq> JNull then
       JList [JObj [(''id'', JStr ''legacy_call_1''), (''type'', JStr ''function''),
         (''function'', dget message ''function_call'')]]
     else JList [])"

definition parse_reply :: "codec \<Rightarrow> json \<Rightarrow> ModelClientError + ModelReply" where
  "parse_reply C payload =
    (case payload of JObj p \<Rightarrow>
       (case dget p ''choices'' of JList (choice # _) \<Rightarrow>
          (case choice of JObj ch \<Rightarrow>
             (case dget ch ''message'' of JObj message \<Rightarrow>
                (case raw_calls message of JList calls \<Rightarrow>
                   (case normalize_all C calls of
                      Inl e \<Rightarrow> Inl (protocol_error (''malformed tool call: '' @ e))
                    | Inr tool_calls \<Rightarrow> Inr \<lparr> rep_content = text_or_none (dget message ''content''),
                        rep_tool_calls = tool_calls, rep_finish_reason = text_or_none (dget ch ''finish_reason''),
                        rep_usage = entries (dget p ''usage''), rep_raw = p \<rparr>)
                 | _ \<Rightarrow> Inl (protocol_error (''model '' @ [APOSTROPHE] @ ''tool_calls'' @ [APOSTROPHE] @ '' is not a list'')))
              | _ \<Rightarrow> Inl (protocol_error (''model choice is missing '' @ [APOSTROPHE] @ ''message'' @ [APOSTROPHE])))
           | _ \<Rightarrow> Inl (protocol_error ''model choice is not an object''))
        | _ \<Rightarrow> Inl (protocol_error (''model response is missing '' @ [APOSTROPHE] @ ''choices'' @ [APOSTROPHE])))
     | _ \<Rightarrow> Inl (protocol_error ''model response is not a JSON object''))"

definition dump_message :: "ChatMessage \<Rightarrow> dict" where
  "dump_message m = [(''role'', JStr (msg_role m)), (''content'', jopt (msg_content m))] @
    (case msg_name m of None \<Rightarrow> [] | Some n \<Rightarrow> [(''name'', JStr n)]) @
    (case msg_tool_call_id m of None \<Rightarrow> [] | Some i \<Rightarrow> [(''tool_call_id'', JStr i)]) @
    (if msg_tool_calls m = [] then [] else [(''tool_calls'', JList (map JObj (msg_tool_calls m)))])"

subsection \<open>Error texts without the key\<close>

text \<open>\<open>str.split()\<close> and \<open>str.replace\<close>.\<close>

fun words :: "string \<Rightarrow> string \<Rightarrow> string list" where
  "words acc [] = (if acc = [] then [] else [rev acc])"
| "words acc (c # s) = (if is_space c then (if acc = [] then words [] s else rev acc # words [] s) else words (c # acc) s)"

function replace_all :: "string \<Rightarrow> string \<Rightarrow> string \<Rightarrow> string" where
  "replace_all key new [] = []"
| "replace_all key new (c # s) =
    (if key \<noteq> [] \<and> starts_with key (c # s) then new @ replace_all key new (drop (length key - 1) s)
     else c # replace_all key new s)"
  by pat_completeness auto
termination by (relation "measure (\<lambda>(k, b, s). length s)") auto

definition short :: "string \<Rightarrow> nat \<Rightarrow> string" where
  "short s limit =
    (let collapsed = join '' '' (words [] s)
     in if length collapsed \<le> limit then collapsed else take limit collapsed @ ''...'')"

definition redact :: "string \<Rightarrow> string \<Rightarrow> string" where
  "redact api_key s = (if api_key = [] then s else replace_all api_key ''***'' s)"

subsection \<open>The client\<close>

record client =
  cl_base_url :: string
  cl_api_key :: string
  cl_model :: string
  cl_max_retries :: nat
  cl_codec :: codec

text \<open>What the transport answers to a request.\<close>

datatype http_result =
    TimedOut
  | TransportFailed string
  | HttpFailed string
  | Response int string

definition attempt_result :: "client \<Rightarrow> http_result \<Rightarrow> ModelClientError + ModelReply" where
  "attempt_result K answer =
    (case answer of
       TimedOut \<Rightarrow> Inl \<lparr> err_kind = ''timeout'', err_message = ''model request timed out'', err_retryable = True,
         err_status = None \<rparr>
     | TransportFailed name \<Rightarrow> Inl \<lparr> err_kind = ''connection'',
         err_message = ''model connection failed ('' @ name @ '')'', err_retryable = True, err_status = None \<rparr>
     | HttpFailed name \<Rightarrow> Inl \<lparr> err_kind = ''connection'',
         err_message = ''model transport failed ('' @ name @ '')'', err_retryable = True, err_status = None \<rparr>
     | Response status body \<Rightarrow>
         (if 400 \<le> status then
            Inl \<lparr> err_kind = fst (classify_status status),
              err_message = ''model request failed with status '' @ show_int status @ '': ''
                @ redact (cl_api_key K) (short body 400),
              err_retryable = snd (classify_status status), err_status = Some status \<rparr>
          else case cd_loads (cl_codec K) body of
            Inl _ \<Rightarrow> Inl (protocol_error ''model response body is not JSON'')
          | Inr payload \<Rightarrow> parse_reply (cl_codec K) payload))"

definition request_body :: "client \<Rightarrow> ChatMessage list \<Rightarrow> json list \<Rightarrow> json \<Rightarrow> dict" where
  "request_body K msgs tools temperature =
    [(''model'', JStr (cl_model K)), (''messages'', JList (map (JObj o dump_message) msgs)),
     (''temperature'', temperature)] @ (if tools = [] then [] else [(''tools'', JList tools)])"

definition BACKOFF_BASE_MS :: nat where
  "BACKOFF_BASE_MS = 250"

definition BACKOFF_MAX_MS :: nat where
  "BACKOFF_MAX_MS = 2000"

text \<open>
  The loop of \<open>chat\<close>: \<open>left\<close> retries remain after this attempt. The result comes with the delays slept and
  the number of requests made.
\<close>

fun attempts :: "client \<Rightarrow> (nat \<Rightarrow> http_result) \<Rightarrow> nat \<Rightarrow> nat \<Rightarrow> (ModelClientError + ModelReply) \<times> nat list \<times> nat" where
  "attempts K http i left =
    (case attempt_result K (http i) of
       Inr reply \<Rightarrow> (Inr reply, [], i + 1)
     | Inl e \<Rightarrow>
         (if \<not> err_retryable e then (Inl e, [], i + 1)
          else case left of
            0 \<Rightarrow> (Inl e, [], i + 1)
          | Suc l \<Rightarrow> (case attempts K http (i + 1) l of (r, delays, n) \<Rightarrow>
              (r, min (BACKOFF_BASE_MS * 2 ^ i) BACKOFF_MAX_MS # delays, n))))"

text \<open>\<open>timeout_s\<close> is an argument of \<open>chat\<close> that its body does not read.\<close>

definition chat :: "client \<Rightarrow> (dict \<Rightarrow> nat \<Rightarrow> http_result) \<Rightarrow> ChatMessage list \<Rightarrow> json list \<Rightarrow> json \<Rightarrow> int option
    \<Rightarrow> (ModelClientError + ModelReply) \<times> nat list \<times> nat" where
  "chat K post msgs tools temperature timeout_ms =
    attempts K (post (request_body K msgs tools temperature)) 0 (cl_max_retries K)"

subsection \<open>Retries\<close>

lemma attempts_spec:
  assumes "attempts K http i left = (r, delays, n)"
  shows "i < n \<and> n \<le> i + left + 1 \<and> length delays = n - i - 1 \<and> (\<forall>d \<in> set delays. d \<le> BACKOFF_MAX_MS)
    \<and> r = attempt_result K (http (n - 1))
    \<and> (\<forall>j. i \<le> j \<and> j < n - 1 \<longrightarrow> (\<exists>e. attempt_result K (http j) = Inl e \<and> err_retryable e))
    \<and> (case r of Inr _ \<Rightarrow> True | Inl e \<Rightarrow> \<not> err_retryable e \<or> n = i + left + 1)"
  using assms
proof (induction left arbitrary: i r delays n)
  case 0
  then show ?case by (auto split: sum.splits if_splits)
next
  case (Suc l)
  show ?case
  proof (cases "\<exists>e. attempt_result K (http i) = Inl e \<and> err_retryable e")
    case False
    with Suc.prems show ?thesis by (auto split: sum.splits if_splits)
  next
    case True
    then obtain e where e: "attempt_result K (http i) = Inl e" "err_retryable e" by blast
    with Suc.prems obtain ds where rest: "attempts K http (i + 1) l = (r, ds, n)"
      and delays: "delays = min (BACKOFF_BASE_MS * 2 ^ i) BACKOFF_MAX_MS # ds"
      by (auto split: prod.splits)
    note ih = Suc.IH [OF rest]
    have "\<exists>e. attempt_result K (http j) = Inl e \<and> err_retryable e" if "i \<le> j" "j < n - 1" for j
      using that e ih by (cases "j = i") auto
    with ih delays show ?thesis by (auto split: sum.splits)
  qed
qed

text \<open>
  A model call is tried a bounded number of times. Some number n of requests, at least one and at most one
  more than the configured retries, is made; all but the last failed with a retryable error; the answer is that
  of the last, which is a reply, an error that must not be retried, or the failure of the last permitted try.
  Between two requests the client sleeps once, never longer than two seconds.
\<close>

theorem chat_retries_bounded:
  assumes "chat K post msgs tools temperature timeout_ms = (r, delays, n)"
  shows "\<exists>http. http = post (request_body K msgs tools temperature)
    \<and> 1 \<le> n \<and> n \<le> cl_max_retries K + 1 \<and> length delays = n - 1 \<and> (\<forall>d \<in> set delays. d \<le> 2000)
    \<and> (\<forall>j < n - 1. \<exists>e. attempt_result K (http j) = Inl e \<and> err_retryable e)
    \<and> r = attempt_result K (http (n - 1))
    \<and> (case r of Inr _ \<Rightarrow> True | Inl e \<Rightarrow> \<not> err_retryable e \<or> n = cl_max_retries K + 1)"
  using attempts_spec [OF assms [unfolded chat_def]] by (auto simp: BACKOFF_MAX_MS_def split: sum.splits)

definition sample_codec :: codec where
  "sample_codec = \<lparr> cd_loads = (\<lambda>_. Inr (JObj [(''choices'', JList [JObj [(''message'', JObj [(''content'', JStr ''Hi'')])]])])),
     cd_dumps = canonical_json \<rparr>"

definition sample_client :: client where
  "sample_client = \<lparr> cl_base_url = ''http://m'', cl_api_key = ''sk'', cl_model = ''m'', cl_max_retries = 2,
     cl_codec = sample_codec \<rparr>"

lemma chat_retries_bounded_witness:
  "\<exists>r. chat sample_client (\<lambda>_ i. if i = 0 then TimedOut else Response 200 ''ok'') [] [] (JInt 0) None = (r, [250], 2)
    \<and> (case r of Inr rep \<Rightarrow> rep_content rep = Some ''Hi'' | Inl _ \<Rightarrow> False) \<and> (2 :: nat) \<le> 3"
proof -
  let ?chat = "chat sample_client (\<lambda>_ i. if i = 0 then TimedOut else Response 200 ''ok'') [] [] (JInt 0) None"
  have run: "?chat = (fst ?chat, [250], 2)" by code_simp
  have "case fst ?chat of Inr rep \<Rightarrow> rep_content rep = Some ''Hi'' | Inl _ \<Rightarrow> False" by code_simp
  with run chat_retries_bounded [OF run] show ?thesis
    by (intro exI [of _ "fst ?chat"]) (simp add: sample_client_def)
qed

text \<open>What a failed request says about a retry.\<close>

lemma retryable_status:
  "snd (classify_status status) \<longleftrightarrow> status = 429 \<or> (500 \<le> status \<and> status \<le> 599)"
  by (auto simp: classify_status_def)

text \<open>
  The cap on one call that a worker passes (so that a stop is not held open by the provider) has no effect:
  the argument is not read, and the client's own timeout applies to each of the attempts.
\<close>

lemma call_timeout_ignored:
  "chat K post msgs tools temperature a = chat K post msgs tools temperature b"
  by (simp add: chat_def)

subsection \<open>The key stays out of error texts\<close>

lemma replace_prefix:
  "CHR ''*'' \<notin> set p \<Longrightarrow> prefix p (replace_all key ''***'' s) \<Longrightarrow> prefix p s"
proof (induction s arbitrary: p)
  case (Cons c s)
  show ?case
  proof (cases p)
    case p: (Cons d q)
    with Cons.prems have "\<not> (key \<noteq> [] \<and> starts_with key (c # s))" by (auto split: if_splits)
    with Cons p show ?thesis by (auto split: if_splits)
  qed simp
qed simp

lemma starts_with_prefix: "starts_with k s \<longleftrightarrow> prefix k s"
  unfolding starts_with_iff by (metis append_eq_conv_conj prefix_def)

lemma replaced_hides_key:
  assumes "key \<noteq> []" and "CHR ''*'' \<notin> set key"
  shows "\<not> sublist key (replace_all key ''***'' s)"
  using assms
proof (induction key "''***''" s rule: replace_all.induct)
  case (2 key c s)
  show ?case
  proof (cases "starts_with key (c # s)")
    case True
    have "\<not> prefix key (CHR ''*'' # w)" for w using "2.prems" by (cases key) auto
    with True 2 show ?thesis by (simp add: sublist_Cons_right)
  next
    case False
    have "prefix key (c # s)" if "prefix key (c # replace_all key ''***'' s)"
      using that "2.prems" by (cases key) (auto dest: replace_prefix)
    then have "\<not> prefix key (c # replace_all key ''***'' s)" using False by (auto simp: starts_with_prefix)
    with False 2 show ?thesis by (simp add: sublist_Cons_right)
  qed
qed simp

text \<open>
  Redaction removes the key. Unless the key itself has an asterisk, the redacted text of an error response
  does not contain it.
\<close>

theorem redacted_text_hides_key:
  assumes "api_key \<noteq> []" and "CHR ''*'' \<notin> set api_key"
  shows "\<not> sublist api_key (redact api_key s)"
  using replaced_hides_key [OF assms] assms(1) by (simp add: redact_def)

lemma redacted_text_hides_key_witness: "\<not> sublist ''sk-1'' (redact ''sk-1'' ''bad key sk-1'')"
  by (rule redacted_text_hides_key) simp_all

text \<open>
  But a long text is cut to 400 characters before it is redacted: a key that the cut divides is no longer
  found, and its beginning stays in the message.
\<close>

lemma cut_key_survives: "redact ''sk-12345'' (short ''denied for sk-12345'' 15) = ''denied for sk-1...''"
  by code_simp

end
