(* ===== verification/Worker.thy ===== *)
theory Worker
  imports System Reads Client
begin

text \<open>
  The second half of \<open>runtime/api_agent.py\<close>: the worker thread of a Run. It reads its frozen input from the
  core, waits to be RUNNING, and then loops: account a model call, ask the model, carry out the tool calls of
  the reply through the broker, the sandbox and the core; at the end it submits a result and confirms its exit.

  The worker runs over a world: its own record, the database, the file system and the monotonic clock (in
  milliseconds). Other threads (the adapter's \<open>stop\<close> and \<open>send\<close>, the core, other Runs) act whenever the worker
  looks at shared state: \<open>h_others n\<close> is what they do before its n-th look. The model, the sandbox, the codec
  and the texts of exceptions are parameters. A Python exception is its text, \<open>Type: message\<close>.
\<close>

subsection \<open>The worker's world\<close>

record RunRecord =
  rr_run_id :: string
  rr_spec :: dict
  rr_task_id :: "string option"
  rr_stop_event :: bool
  rr_status :: string
  rr_start_revoked :: bool
  rr_alive :: bool
  rr_writer_alive :: bool
  rr_finished_writes :: bool
  rr_result_submitted :: bool
  rr_error :: "string option"
  rr_stop_reason :: "string option"
  rr_model_calls :: int
  rr_tool_calls :: int
  rr_tool_seq :: int
  rr_artifact_refs :: "string list"
  rr_published_paths :: "string list"
  rr_pending_messages :: "dict list"
  rr_sandbox_exit_unconfirmed :: bool
  rr_last_container_id :: "string option"

record world =
  wd_run :: RunRecord
  wd_db :: sess
  wd_fs :: fsys
  wd_clock :: int
  wd_looks :: nat

text \<open>
  The injected sandbox: whether it has a specification (then it is rebuilt around the Run's own workspace), and
  what it answers to the n-th command in a workspace.
\<close>

record sandbox =
  sb_has_spec :: bool
  sb_execute :: "nat \<Rightarrow> string \<Rightarrow> dict \<Rightarrow> string + dict"

record host =
  h_env :: "nat \<Rightarrow> env"
  h_fuel :: nat
  h_dispatch :: bool
  h_others :: "nat \<Rightarrow> world \<Rightarrow> world"
  h_broker :: "broker option"
  h_sandbox :: "sandbox option"
  h_model :: "nat \<Rightarrow> ChatMessage list \<Rightarrow> json list \<Rightarrow> int \<Rightarrow> string + ModelReply"
  h_codec :: codec
  h_shlex :: "string \<Rightarrow> string + string list"
  h_exn_text :: "exn \<Rightarrow> string"
  h_decode :: "string \<Rightarrow> string"
  h_system_prompt :: string
  h_cwd :: "string list"
  h_max_turns :: int
  h_max_model_calls :: int
  h_poll_ms :: int
  h_model_call_timeout_ms :: int
  h_stop_call_timeout_ms :: int

type_synonym 'a wop = "world \<Rightarrow> (string + 'a) \<times> world"

definition a_ret :: "'a \<Rightarrow> 'a wop" where
  "a_ret x = (\<lambda>w. (Inr x, w))"

definition a_raise :: "string \<Rightarrow> 'a wop" where
  "a_raise e = (\<lambda>w. (Inl e, w))"

definition a_then :: "'a wop \<Rightarrow> ('a \<Rightarrow> 'b wop) \<Rightarrow> 'b wop" where
  "a_then m f = (\<lambda>w. case m w of (Inl e, w') \<Rightarrow> (Inl e, w') | (Inr x, w') \<Rightarrow> f x w')"

definition a_seq :: "unit wop \<Rightarrow> 'b wop \<Rightarrow> 'b wop" where
  "a_seq m k = a_then m (\<lambda>_. k)"

definition a_catch :: "'a wop \<Rightarrow> (string \<Rightarrow> 'a wop) \<Rightarrow> 'a wop" where
  "a_catch m h = (\<lambda>w. case m w of (Inl e, w') \<Rightarrow> h e w' | (Inr x, w') \<Rightarrow> (Inr x, w'))"

text \<open>Reading and writing the worker's own record.\<close>

definition a_get :: "(RunRecord \<Rightarrow> 'a) \<Rightarrow> 'a wop" where
  "a_get f = (\<lambda>w. (Inr (f (wd_run w)), w))"

definition a_put :: "(RunRecord \<Rightarrow> RunRecord) \<Rightarrow> unit wop" where
  "a_put g = (\<lambda>w. (Inr (), w\<lparr> wd_run := g (wd_run w) \<rparr>))"

text \<open>Looking at shared state: the others have acted before.\<close>

definition a_look :: "host \<Rightarrow> unit wop" where
  "a_look H = (\<lambda>w. (Inr (), (h_others H (wd_looks w) w)\<lparr> wd_looks := Suc (wd_looks w) \<rparr>))"

definition stopping :: "host \<Rightarrow> bool wop" where
  "stopping H = a_seq (a_look H) (a_get rr_stop_event)"

definition monotonic :: "host \<Rightarrow> int wop" where
  "monotonic H = a_seq (a_look H) (\<lambda>w. (Inr (wd_clock w), w))"

definition a_tx :: "host \<Rightarrow> 'a tx \<Rightarrow> 'a wop" where
  "a_tx H m = (\<lambda>w. case m (wd_db w) of
       (Inl e, s) \<Rightarrow> (Inl (h_exn_text H e), w\<lparr> wd_db := s \<rparr>) | (Inr x, s) \<Rightarrow> (Inr x, w\<lparr> wd_db := s \<rparr>))"

definition now_env :: "host \<Rightarrow> env wop" where
  "now_env H = (\<lambda>w. (Inr (h_env H (wd_looks w)), w))"

text \<open>\<open>core.execute\<close>, and a read of the core.\<close>

definition core_execute :: "host \<Rightarrow> string \<Rightarrow> AuthContext \<Rightarrow> dict \<Rightarrow> CommandResult wop" where
  "core_execute H operation auth payload =
    a_seq (a_look H) (
    a_then (now_env H) (\<lambda>E.
    a_tx H (execute (h_fuel H) E (h_dispatch H) operation auth payload None None)))"

definition core_read :: "host \<Rightarrow> (env \<Rightarrow> 'a tx) \<Rightarrow> 'a wop" where
  "core_read H m =
    a_seq (a_look H) (
    a_then (now_env H) (\<lambda>E.
    a_tx H (m E)))"

definition a_int :: "json \<Rightarrow> int wop" where
  "a_int v = (case py_int v of None \<Rightarrow> a_raise ''ValueError'' | Some i \<Rightarrow> a_ret i)"

text \<open>\<open>spec.get("task_id") or record.task_id\<close>.\<close>

definition task_ref :: "dict \<Rightarrow> RunRecord \<Rightarrow> json" where
  "task_ref spec rec = jor (dget spec ''task_id'') (jopt (rr_task_id rec))"

subsection \<open>Tools on the wire\<close>

definition FUNCTION_NAMES :: "(string \<times> string) list" where
  "FUNCTION_NAMES = [(''fs.read'', ''fs_read''), (''fs.write'', ''fs_write''), (''fs.list'', ''fs_list''),
     (''shell.run'', ''shell_run''), (''artifact.publish'', ''artifact_publish'')]"

definition TOOL_NAMES :: "(string \<times> string) list" where
  "TOOL_NAMES = map (\<lambda>(tool, alias). (alias, tool)) FUNCTION_NAMES"

definition prop_type :: "string \<Rightarrow> json" where
  "prop_type t = JObj [(''type'', JStr t)]"

definition prop_described :: "string \<Rightarrow> string \<Rightarrow> json" where
  "prop_described t d = JObj [(''type'', JStr t), (''description'', JStr d)]"

definition prop_positive :: json where
  "prop_positive = JObj [(''type'', JStr ''integer''), (''minimum'', JInt 1)]"

definition params_object :: "dict \<Rightarrow> json \<Rightarrow> json" where
  "params_object properties needed = JObj ([(''type'', JStr ''object''), (''properties'', JObj properties)] @
     (if needed = JNull then [] else [(''required'', needed)]) @ [(''additionalProperties'', JBool False)])"

definition TOOL_PARAMETERS :: dict where
  "TOOL_PARAMETERS = [
     (''fs.read'', params_object [(''path'', prop_described ''string'' ''Workspace-relative file path.''),
        (''max_bytes'', prop_positive)] (jstrs [''path''])),
     (''fs.list'', params_object [(''path'', prop_described ''string'' ''Workspace-relative directory.'')] (jstrs [''path''])),
     (''fs.write'', params_object [(''path'', prop_described ''string'' ''Workspace-relative file path.''),
        (''content'', prop_type ''string'')] (jstrs [''path'', ''content''])),
     (''shell.run'', params_object [(''command'', prop_described ''string'' ''Command line (argv-split, no shell).''),
        (''argv'', JObj [(''type'', JStr ''array''), (''items'', prop_type ''string'')]),
        (''stdin'', prop_type ''string''), (''timeout_s'', prop_positive)] JNull),
     (''artifact.publish'', params_object [(''path'', prop_described ''string'' ''Workspace-relative file to publish.''),
        (''expected_hash'', prop_type ''string'')] (jstrs [''path'']))]"

definition tool_schema :: "string \<Rightarrow> json list" where
  "tool_schema tool =
    (case (map_of FUNCTION_NAMES tool, map_of TOOL_PARAMETERS tool) of
       (Some function_name, Some parameters) \<Rightarrow>
         [JObj [(''type'', JStr ''function''), (''function'', JObj [(''name'', JStr function_name),
            (''description'', JStr (''HIBIKI tool '' @ tool)), (''parameters'', parameters)])]]
     | _ \<Rightarrow> [])"

definition tool_schemas :: "string list \<Rightarrow> json list" where
  "tool_schemas granted = concat (map tool_schema granted)"

text \<open>Result keys that name an artifact; a plain file digest is not one.\<close>

definition artifact_ref :: "dict \<Rightarrow> string option" where
  "artifact_ref result =
    (if py_str (jor (dget result ''status'') (JStr [])) \<notin> {''ok'', ''published''} then None
     else case filter (\<lambda>v. v \<noteq> []) (map (\<lambda>k. case dget result k of JStr v \<Rightarrow> v | _ \<Rightarrow> []) [''artifact_hash'', ''artifact_ref'']) of
       [] \<Rightarrow> None | v # _ \<Rightarrow> Some v)"

definition SANDBOX_WORKSPACE :: string where
  "SANDBOX_WORKSPACE = ''/workspace''"

definition no_command_error :: string where
  "no_command_error = ''ValueError: shell.run requires a non-empty '' @ [APOSTROPHE] @ ''command'' @ [APOSTROPHE]
     @ '' or '' @ [APOSTROPHE] @ ''argv'' @ [APOSTROPHE]"

definition command_line_args :: "host \<Rightarrow> dict \<Rightarrow> string + string list" where
  "command_line_args H parameters =
    (case dget parameters ''command'' of
       JStr command \<Rightarrow> if strip command = [] then Inl no_command_error
         else h_shlex H command
     | _ \<Rightarrow> Inl no_command_error)"

definition command_args :: "host \<Rightarrow> dict \<Rightarrow> string + string list" where
  "command_args H parameters =
    (case dget parameters ''argv'' of
       JList (a # rest) \<Rightarrow> if list_all (\<lambda>x. case x of JStr _ \<Rightarrow> True | _ \<Rightarrow> False) (a # rest)
         then Inr (map py_str (a # rest)) else command_line_args H parameters
     | _ \<Rightarrow> command_line_args H parameters)"

text \<open>\<open>timeout_s\<close> counts only as a positive integer that is not a \<open>bool\<close>.\<close>

definition sandbox_command :: "host \<Rightarrow> dict \<Rightarrow> string + dict" where
  "sandbox_command H parameters =
    (case command_args H parameters of
       Inl e \<Rightarrow> Inl e
     | Inr args \<Rightarrow>
        (if args = [] then Inl ''ValueError: shell.run resolved to an empty argv''
         else Inr ([(''argv'', jstrs args), (''cwd'', JStr SANDBOX_WORKSPACE)] @
           (case dget parameters ''stdin'' of JStr t \<Rightarrow> [(''stdin'', JStr t)] | _ \<Rightarrow> []) @
           (case dget parameters ''timeout_s'' of JInt n \<Rightarrow> if 0 < n then [(''timeout_s'', JInt n)] else [] | _ \<Rightarrow> []))))"

subsection \<open>Tool calls\<close>

definition error_result :: "string \<Rightarrow> dict" where
  "error_result e = [(''status'', JStr ''error''), (''error'', JStr e)]"

definition tool_error_result :: "string \<Rightarrow> string \<Rightarrow> dict" where
  "tool_error_result e tool = error_result e @ [(''tool'', JStr tool)]"

definition int_or_zero :: "json \<Rightarrow> int wop" where
  "int_or_zero v = (if truthy v then a_int v else a_ret 0)"

definition tool_request :: "dict \<Rightarrow> string \<Rightarrow> dict \<Rightarrow> ToolRequest wop" where
  "tool_request spec tool_name parameters =
    a_then (a_get id) (\<lambda>rec.
    a_then (int_or_zero (dget spec ''grant_epoch'')) (\<lambda>grant_epoch.
    a_then (int_or_zero (dget spec ''fencing_epoch'')) (\<lambda>fencing_epoch.
    a_ret \<lparr> tr_run_id = rr_run_id rec, tr_task_id = py_str (jor (task_ref spec rec) (JStr [])),
       tr_work_unit_id = opt_str (dget spec ''work_unit_id''), tr_tool_name = tool_name,
       tr_parameters = JObj parameters, tr_grant_epoch = grant_epoch, tr_fencing_epoch = fencing_epoch,
       tr_sequence_no = rr_tool_seq rec \<rparr>)))"

definition broker_authorize :: "host \<Rightarrow> AuthContext \<Rightarrow> ToolRequest \<Rightarrow> ToolDecision wop" where
  "broker_authorize H auth request =
    a_seq (a_look H) (
    a_then (now_env H) (\<lambda>E.
    a_tx H (authorize E auth request)))"

text \<open>Recording an outcome is best effort.\<close>

definition finish_invocation :: "host \<Rightarrow> AuthContext \<Rightarrow> ToolDecision \<Rightarrow> string \<Rightarrow> dict \<Rightarrow> unit wop" where
  "finish_invocation H auth decision outcome result =
    (if \<not> is_set (td_invocation_id decision) then a_ret ()
     else a_catch (a_seq (a_look H) (
       a_tx H (record_outcome auth (or_else (td_invocation_id decision) []) outcome (Some (JObj result))))) (\<lambda>_. a_ret ()))"

text \<open>A filesystem tool of the broker, over the database and the files.\<close>

definition broker_tool :: "host \<Rightarrow> (env \<Rightarrow> sess \<times> fsys \<Rightarrow> (exn + json) \<times> (sess \<times> fsys)) \<Rightarrow> dict wop" where
  "broker_tool H cl =
    a_seq (a_look H) (
    a_then (now_env H) (\<lambda>E.
    a_then (\<lambda>w. case cl E (wd_db w, wd_fs w) of
       (Inl e, (s, f)) \<Rightarrow> (Inl (h_exn_text H e), w\<lparr> wd_db := s, wd_fs := f \<rparr>)
     | (Inr j, (s, f)) \<Rightarrow> (Inr j, w\<lparr> wd_db := s, wd_fs := f \<rparr>)) (\<lambda>result.
    a_ret (entries result))))"

definition fs_helper :: "broker \<Rightarrow> string \<Rightarrow> (env \<Rightarrow> AuthContext \<Rightarrow> ToolRequest \<Rightarrow> sess \<times> fsys
    \<Rightarrow> (exn + json) \<times> (sess \<times> fsys)) option" where
  "fs_helper B tool =
    (if tool = ''fs.read'' then Some (\<lambda>E. execute_fs_read E B)
     else if tool = ''fs.list'' then Some (\<lambda>E. execute_fs_list E B)
     else if tool = ''fs.write'' then Some (\<lambda>E. execute_fs_write E B)
     else None)"

text \<open>What the model has read is registered as a context append; whether that succeeded.\<close>

definition append_payload :: "RunRecord \<Rightarrow> dict \<Rightarrow> dict \<Rightarrow> dict \<Rightarrow> dict" where
  "append_payload rec spec parameters result =
    [(''run_id'', JStr (rr_run_id rec)), (''task_id'', task_ref spec rec),
     (''fencing_epoch'', dget spec ''fencing_epoch''), (''reason'', JStr ''tool_fs_read''),
     (''authorized_ref'', JStr (py_str (jor (dget parameters ''path'') (JStr [])))),
     (''content_hash'', JStr (py_str (jor (dget result ''sha256'') (JStr [])))),
     (''materialized_hash'', JStr (py_str (jor (dget result ''sha256'') (JStr [])))),
     (''max_bytes'', jor (dget result ''bytes'') (dget parameters ''max_bytes'')),
     (''version'', dget result ''version'')]"

definition register_tool_read :: "host \<Rightarrow> AuthContext \<Rightarrow> dict \<Rightarrow> dict \<Rightarrow> dict \<Rightarrow> bool wop" where
  "register_tool_read H auth spec parameters result =
    (if py_str (jor (dget parameters ''path'') (JStr [])) = []
        \<or> py_str (jor (dget result ''sha256'') (JStr [])) = [] then a_ret False
     else a_catch (a_then (a_get id) (\<lambda>rec.
       a_then (core_execute H ''context_append'' auth (append_payload rec spec parameters result)) (\<lambda>response.
       a_ret (cr_ok response)))) (\<lambda>_. a_ret False))"

text \<open>The workspace of the sandbox is this Run's, or there is no sandbox.\<close>

definition sandbox_for :: "host \<Rightarrow> dict \<Rightarrow> (sandbox \<times> string) option" where
  "sandbox_for H spec =
    (let workspace = py_str (jor (dget spec ''workspace_path'') (JStr []))
     in if workspace = [] then None
        else case h_sandbox H of
          None \<Rightarrow> None
        | Some sb \<Rightarrow> Some (sb, if sb_has_spec sb then workspace else []))"

definition register_sandbox :: "host \<Rightarrow> AuthContext \<Rightarrow> dict \<Rightarrow> json \<Rightarrow> bool \<Rightarrow> unit wop" where
  "register_sandbox H auth spec container_id exit_confirmed =
    a_catch (a_then (a_get id) (\<lambda>rec.
      a_then (core_execute H ''register_sandbox_identity'' auth
        [(''run_id'', JStr (rr_run_id rec)), (''task_id'', task_ref spec rec),
         (''fencing_epoch'', dget spec ''fencing_epoch''), (''container_id'', container_id),
         (''exit_confirmed'', JBool exit_confirmed)]) (\<lambda>response.
      a_ret ()))) (\<lambda>_. a_ret ())"

text \<open>Whether the answer of the sandbox means that the container is gone.\<close>

definition exit_confirmed_by :: "dict \<Rightarrow> bool" where
  "exit_confirmed_by result =
    (if dhas result ''exit_confirmed'' then truthy (dget result ''exit_confirmed'')
     else dget result ''status'' \<in> set (map JStr [''ok'', ''cancelled'', ''error'', ''timeout'', ''unavailable'', ''denied'']))"

text \<open>The command's own timeout may not exceed what is left of the Run's wall time; \<open>None\<close>: nothing is left.\<close>

definition capped_command :: "dict \<Rightarrow> int \<Rightarrow> int \<Rightarrow> dict option" where
  "capped_command command deadline now_ms =
    (let remaining = max (deadline - now_ms) 0
     in if remaining \<le> 0 then None
        else let capped = max 1 (remaining div 1000)
          in Some (dset ''timeout_s'' (case dget command ''timeout_s'' of JInt n \<Rightarrow> JInt (min n capped) | _ \<Rightarrow> JInt capped) command))"

definition run_in_sandbox :: "host \<Rightarrow> sandbox \<Rightarrow> string \<Rightarrow> dict \<Rightarrow> dict wop" where
  "run_in_sandbox H sb workspace command =
    a_seq (a_look H) (
    (\<lambda>w. (sb_execute sb (wd_looks w) workspace command, w)))"

text \<open>
  The part of \<open>_dispatch_shell\<close> inside its \<open>try\<close>: \<open>Inl\<close> answers at once, \<open>Inr\<close> gives the sandbox's
  result and the identity registered before the call.
\<close>

definition shell_attempt :: "host \<Rightarrow> AuthContext \<Rightarrow> dict \<Rightarrow> ToolDecision \<Rightarrow> sandbox \<Rightarrow> string \<Rightarrow> dict \<Rightarrow> int
    \<Rightarrow> (dict + dict \<times> string) wop" where
  "shell_attempt H auth spec decision sb workspace parameters deadline =
    (case sandbox_command H parameters of
       Inl e \<Rightarrow> a_raise e
     | Inr command \<Rightarrow> a_then (monotonic H) (\<lambda>t.
       (case capped_command command deadline t of
            None \<Rightarrow> a_seq (finish_invocation H auth decision ''error'' [(''error'', JStr ''run_wall_timeout_exceeded'')]) (
              a_ret (Inl (error_result ''run_wall_timeout_exceeded'')))
          | Some capped \<Rightarrow> a_then (a_get id) (\<lambda>rec.
            let pending_id = ''pending:'' @ rr_run_id rec @ '':'' @ show_int t in
            a_seq (a_put (\<lambda>r. r\<lparr> rr_sandbox_exit_unconfirmed := True, rr_last_container_id := Some pending_id \<rparr>)) (
            a_seq (register_sandbox H auth spec (JStr pending_id) False) (
            a_then (run_in_sandbox H sb workspace capped) (\<lambda>result.
            a_ret (Inr (result, pending_id)))))))))"

text \<open>What the record keeps of the last container.\<close>

definition note_exit :: "bool \<Rightarrow> json \<Rightarrow> RunRecord \<Rightarrow> RunRecord" where
  "note_exit confirmed container_id r =
    (if confirmed then r\<lparr> rr_sandbox_exit_unconfirmed := False \<rparr>
     else r\<lparr> rr_sandbox_exit_unconfirmed := True, rr_last_container_id := (case container_id of
        JStr i \<Rightarrow> if i \<noteq> [] then Some i else rr_last_container_id r | _ \<Rightarrow> rr_last_container_id r) \<rparr>)"

definition dispatch_shell :: "host \<Rightarrow> AuthContext \<Rightarrow> dict \<Rightarrow> dict \<Rightarrow> int \<Rightarrow> dict wop" where
  "dispatch_shell H auth spec parameters deadline =
    a_then (tool_request spec ''shell.run'' parameters) (\<lambda>request.
    a_then (broker_authorize H auth request) (\<lambda>decision.
    (if \<not> td_allowed decision then a_ret [(''status'', JStr ''denied''), (''reason'', jopt (td_reason decision))]
      else case sandbox_for H spec of
        None \<Rightarrow> a_seq (finish_invocation H auth decision ''error'' [(''error'', JStr ''sandbox_unavailable'')]) (
          a_ret (error_result ''sandbox_unavailable''))
      | Some (sb, workspace) \<Rightarrow> a_then (a_catch (shell_attempt H auth spec decision sb workspace parameters deadline)
            (\<lambda>e. a_seq (finish_invocation H auth decision ''error'' [(''error'', JStr e)]) (
              a_ret (Inl (error_result e))))) (\<lambda>tried.
        (case tried of
             Inl answer \<Rightarrow> a_ret answer
           | Inr (result, pending_id) \<Rightarrow> (let confirmed = exit_confirmed_by result in
             let container_id = jor (dget result ''container_id'') (JStr pending_id) in
             a_seq (register_sandbox H auth spec container_id confirmed) (
             a_seq (a_put (note_exit confirmed container_id)) (
             a_seq (finish_invocation H auth decision
                 (if dget result ''status'' = JStr ''ok'' then ''ok'' else py_str (jor (dget result ''status'') (JStr ''error'')))
                 result) (
             a_ret result)))))))))"

definition publish_payload :: "RunRecord \<Rightarrow> dict \<Rightarrow> dict \<Rightarrow> dict" where
  "publish_payload rec spec parameters =
    [(''run_id'', JStr (rr_run_id rec)), (''task_id'', task_ref spec rec),
     (''fencing_epoch'', dget spec ''fencing_epoch''),
     (''path'', jor (dget parameters ''path'') (dget parameters ''relative_path''))] @
    (let claimed = jor (dget parameters ''expected_hash'') (dget parameters ''sha256'')
     in if truthy claimed then [(''expected_hash'', claimed)] else [])"

text \<open>The broker of this repository has no publishing helper of its own, so the core publishes.\<close>

definition dispatch_publish :: "host \<Rightarrow> AuthContext \<Rightarrow> dict \<Rightarrow> dict \<Rightarrow> dict wop" where
  "dispatch_publish H auth spec parameters =
    a_then (tool_request spec ''artifact.publish'' parameters) (\<lambda>request.
    a_then (broker_authorize H auth request) (\<lambda>decision.
    (if \<not> td_allowed decision then a_ret [(''status'', JStr ''denied''), (''reason'', jopt (td_reason decision))]
      else a_then (a_get id) (\<lambda>rec.
        a_then (a_catch (a_then (core_execute H ''publish_artifact'' auth (publish_payload rec spec parameters)) (\<lambda>response.
          a_ret (if cr_ok response then Inr (cr_data response) else Inl (jopt (cr_error_code response))))) (\<lambda>e. a_ret (Inl (JStr e)))) (\<lambda>outcome.
        (case outcome of
           Inl e \<Rightarrow> a_seq (finish_invocation H auth decision ''error'' [(''error'', e)]) (
             a_ret [(''status'', JStr ''error''), (''error'', e)])
         | Inr data \<Rightarrow> (let result = dset ''status'' (JStr ''ok'') data in
           a_seq (finish_invocation H auth decision ''ok'' result) (
           a_ret result))))))))"

text \<open>
  \<open>_dispatch_tool\<close>. Arguments come as text (the client normalizes them); an object is taken as it is.
\<close>

definition tool_arguments :: "host \<Rightarrow> json \<Rightarrow> dict option" where
  "tool_arguments H raw =
    (case raw of
       JStr t \<Rightarrow> (case cd_loads (h_codec H) t of
           Inl _ \<Rightarrow> None
         | Inr (JObj ps) \<Rightarrow> Some ps
         | Inr v \<Rightarrow> Some [(''value'', v)])
     | JObj ps \<Rightarrow> Some ps
     | v \<Rightarrow> if truthy v then None else Some [])"

definition dispatch_fs :: "host \<Rightarrow> AuthContext \<Rightarrow> dict \<Rightarrow> broker \<Rightarrow> string \<Rightarrow> dict \<Rightarrow> dict wop" where
  "dispatch_fs H auth spec B tool_name parameters =
    (case fs_helper B tool_name of
       None \<Rightarrow> a_ret (tool_error_result ''unsupported_tool'' tool_name)
     | Some helper \<Rightarrow> a_then (tool_request spec tool_name parameters) (\<lambda>request.
       a_then (a_catch (a_then (broker_tool H (\<lambda>E. helper E auth request)) (\<lambda>result.
         a_ret (Inr result))) (\<lambda>e. a_ret (Inl e))) (\<lambda>outcome.
       (case outcome of
            Inl e \<Rightarrow> a_ret (error_result e)
          | Inr result \<Rightarrow>
             (if tool_name = ''fs.read'' \<and> dget result ''status'' = JStr ''ok'' then a_then (register_tool_read H auth spec parameters result) (\<lambda>registered.
               a_ret (if registered then result
                  else tool_error_result ''context_append_failed'' tool_name @ [(''path'', dget parameters ''path'')])) else a_ret result)))))"

definition dispatch_tool :: "host \<Rightarrow> AuthContext \<Rightarrow> dict \<Rightarrow> dict \<Rightarrow> int \<Rightarrow> dict wop" where
  "dispatch_tool H auth spec cl deadline =
    (let fn = entries (jor (dget cl ''function'') (JObj []));
         raw_name = py_str (jor (dget fn ''name'') (jor (dget cl ''name'') (JStr [])));
         tool_name = (case map_of TOOL_NAMES raw_name of None \<Rightarrow> raw_name | Some t \<Rightarrow> t);
         raw_arguments = dget_or fn ''arguments'' (JStr ''{}'')
     in case tool_arguments H raw_arguments of
          None \<Rightarrow> a_ret (error_result ''invalid_tool_arguments'' @ [(''raw'', raw_arguments)])
        | Some parameters \<Rightarrow> a_seq (a_put (\<lambda>r. r\<lparr> rr_tool_calls := rr_tool_calls r + 1, rr_tool_seq := rr_tool_seq r + 1 \<rparr>)) (
          (case h_broker H of
               None \<Rightarrow> a_ret (tool_error_result ''broker_unavailable'' tool_name)
             | Some B \<Rightarrow>
                (if tool_name = ''shell.run'' then dispatch_shell H auth spec parameters deadline
                 else if tool_name = ''artifact.publish'' then dispatch_publish H auth spec parameters
                 else dispatch_fs H auth spec B tool_name parameters))))"

subsection \<open>The prompt\<close>

definition manifest_line :: "dict \<Rightarrow> string list" where
  "manifest_line ctx =
    (if truthy (dget ctx ''manifest_hash'') then
       [''[manifest '' @ py_str (dget ctx ''manifest_id'') @ '' sha256='' @ py_str (dget ctx ''manifest_hash'') @ '']'']
     else [])"

definition NEWLINE :: string where
  "NEWLINE = [char_of (10 :: nat)]"

definition mandatory_text :: "dict \<Rightarrow> string" where
  "mandatory_text item =
    (let head = ''['' @ py_str (dget item ''kind'') @ ''] '' @ py_str (dget item ''ref'') @ '' sha256='' @ py_str (dget item ''hash'')
     in if \<not> truthy (dget item ''text'') then head @ '' (unavailable)''
        else head @ NEWLINE @ py_str (dget item ''text''))"

definition run_context :: "host \<Rightarrow> AuthContext \<Rightarrow> string \<Rightarrow> dict wop" where
  "run_context H auth run_id =
    core_read H (\<lambda>E. get_run_context E (cd_dumps (h_codec H)) (h_decode H) auth run_id)"

definition materialized_mandatory_texts :: "host \<Rightarrow> AuthContext \<Rightarrow> string \<Rightarrow> string list wop" where
  "materialized_mandatory_texts H auth run_id =
    (if run_id = [] then a_ret []
     else a_catch (a_then (run_context H auth run_id) (\<lambda>ctx.
       a_ret (manifest_line ctx @ map (mandatory_text o entries) (items (dget ctx ''materialized''))))) (\<lambda>_. a_ret []))"

text \<open>One append, read again through the core, or a line that says it is unavailable.\<close>

definition append_text :: "host \<Rightarrow> AuthContext \<Rightarrow> string \<Rightarrow> dict \<Rightarrow> string wop" where
  "append_text H auth run_id entry =
    (let label = ''['' @ py_str (jor (dget entry ''reason'') (JStr ''append'')) @ ''] ''
           @ py_str (jor (dget entry ''authorized_ref'') (JStr []))
     in a_catch (a_then (core_read H (\<lambda>E. materialize_context_append E auth run_id entry)) (\<lambda>loaded.
       let d = entries loaded in
       a_ret (if \<not> truthy (dget d ''ok'') then
              label @ '' (unavailable:'' @ py_str (jor (dget d ''error'') (JStr ''refused'')) @ '')''
            else label @ '' sha256='' @ py_str (jor (dget d ''materialized_hash'') (jor (dget entry ''materialized_hash'') (JStr [])))
              @ NEWLINE @ py_str (dget d ''content'')))) (\<lambda>_. a_ret (label @ '' (unavailable)'')))"

fun append_texts :: "host \<Rightarrow> AuthContext \<Rightarrow> string \<Rightarrow> json list \<Rightarrow> string list wop" where
  "append_texts H auth run_id [] = a_ret []"
| "append_texts H auth run_id (x # xs) =
  a_then (append_text H auth run_id (entries x)) (\<lambda>t.
  a_then (append_texts H auth run_id xs) (\<lambda>ts.
  a_ret (t # ts)))"

definition context_append_texts :: "host \<Rightarrow> AuthContext \<Rightarrow> string \<Rightarrow> string list wop" where
  "context_append_texts H auth run_id =
    a_then (a_catch (run_context H auth run_id) (\<lambda>_. a_ret [])) (\<lambda>ctx.
    append_texts H auth run_id (items (dget ctx ''appends'')))"

definition granted_of :: "dict \<Rightarrow> dict \<Rightarrow> json list" where
  "granted_of spec run_input = items (jor (dget spec ''granted_tools'') (jor (dget run_input ''granted_tools'') (JList [])))"

definition spec_lines :: "host \<Rightarrow> dict \<Rightarrow> string list" where
  "spec_lines H spec =
    [''Task: '' @ py_str (dget spec ''task_id'')] @
    (if truthy (dget spec ''objective'') then [''Objective: '' @ py_str (dget spec ''objective'')] else []) @
    (if truthy (dget spec ''work_type'') then [''Work type: '' @ py_str (dget spec ''work_type'')] else []) @
    (if truthy (dget spec ''expected_outputs'') then
       [''Expected outputs: '' @ join '', '' (map py_str (items (dget spec ''expected_outputs'')))] else []) @
    (if truthy (dget spec ''acceptance_criteria'') then
       [''Acceptance criteria: '' @ cd_dumps (h_codec H) (dget spec ''acceptance_criteria'')] else [])"

definition plain_message :: "string \<Rightarrow> string \<Rightarrow> ChatMessage" where
  "plain_message role content = \<lparr> msg_role = role, msg_content = Some content, msg_tool_call_id = None,
     msg_name = None, msg_tool_calls = [] \<rparr>"

definition build_messages :: "host \<Rightarrow> AuthContext \<Rightarrow> dict \<Rightarrow> dict \<Rightarrow> ChatMessage list wop" where
  "build_messages H auth spec run_input =
    a_then (a_get id) (\<lambda>rec.
    a_then (materialized_mandatory_texts H auth (or_else (Some (rr_run_id rec)) (py_str (jor (dget spec ''run_id'') (JStr []))))) (\<lambda>materialized.
    a_then (context_append_texts H auth (py_str (jor (dget spec ''run_id'') (JStr (rr_run_id rec))))) (\<lambda>appends.
    let granted = map py_str (granted_of spec run_input) in
    let body = spec_lines H spec @
       (if materialized = [] then [] else [''Authorized context:'' @ NEWLINE @ join NEWLINE materialized]) @
       (if appends = [] then [] else [''Appended context:'' @ NEWLINE @ join NEWLINE appends]) @
       [''Granted tools: '' @ (if granted = [] then ''(none)'' else join '', '' granted)] in
    a_ret [plain_message ''system'' (h_system_prompt H), plain_message ''user'' (join NEWLINE body)])))"

definition pending_message :: "dict \<Rightarrow> ChatMessage" where
  "pending_message m = \<lparr> msg_role = py_str (jor (dget m ''role'') (JStr ''user'')), msg_content = opt_str (dget m ''content''),
     msg_tool_call_id = opt_str (dget m ''tool_call_id''), msg_name = opt_str (dget m ''name''), msg_tool_calls = [] \<rparr>"

definition drain_pending :: "host \<Rightarrow> ChatMessage list \<Rightarrow> ChatMessage list wop" where
  "drain_pending H conv =
    a_seq (a_look H) (
    a_then (a_get rr_pending_messages) (\<lambda>pending.
    a_seq (a_put (\<lambda>r. r\<lparr> rr_pending_messages := [] \<rparr>)) (
    a_ret (conv @ map pending_message pending))))"

subsection \<open>The loop\<close>

definition record_model_usage_of :: "host \<Rightarrow> AuthContext \<Rightarrow> dict \<Rightarrow> string option wop" where
  "record_model_usage_of H auth spec = a_catch (a_then (a_get id) (\<lambda>rec.
    a_then (core_execute H ''record_model_usage'' auth
         [(''task_id'', task_ref spec rec), (''run_id'', JStr (rr_run_id rec)), (''calls'', JInt 1)]) (\<lambda>response.
    a_ret (if cr_ok response then None else Some (or_else (cr_error_code response) ''model_usage_rejected''))))) (\<lambda>e. a_ret (Some (''model_usage_unrecorded: '' @ e)))"

text \<open>The cap on one call, in milliseconds.\<close>

definition model_call_timeout :: "host \<Rightarrow> int \<Rightarrow> int \<Rightarrow> int \<Rightarrow> int" where
  "model_call_timeout H wall_s deadline t =
    (let remaining = max (deadline - t) 0;
         budget = (if wall_s \<noteq> 0 then wall_s * 1000 else h_model_call_timeout_ms H);
         budget = (if 0 < remaining then (if budget \<noteq> 0 then min budget remaining else remaining) else budget);
         cap = h_stop_call_timeout_ms H;
         budget = (if 0 < cap then (if budget \<noteq> 0 then min budget cap else cap) else budget)
     in max budget 500)"

definition ask_model :: "host \<Rightarrow> ChatMessage list \<Rightarrow> json list \<Rightarrow> int \<Rightarrow> ModelReply wop" where
  "ask_model H conv tools timeout_ms =
    a_seq (a_look H) (
    (\<lambda>w. (h_model H (wd_looks w) conv tools timeout_ms, w)))"

text \<open>Expected outputs that are files of the workspace and were not published; links are followed.\<close>

definition is_regular :: "fnode \<Rightarrow> string list \<Rightarrow> string \<Rightarrow> bool" where
  "is_regular t cwd path = (case resolve_at t True cwd path of
       Inl _ \<Rightarrow> False | Inr p \<Rightarrow> (case node_at t p of Some (File _) \<Rightarrow> True | _ \<Rightarrow> False))"

definition expected_but_unpublished :: "host \<Rightarrow> dict \<Rightarrow> dict \<Rightarrow> string list wop" where
  "expected_but_unpublished H spec run_input =
    (let workspace = py_str (jor (dget run_input ''workspace_path'') (JStr [])) in
     if expected_outputs spec = [] \<or> workspace = [] then a_ret []
     else a_seq (a_look H) (
       (\<lambda>w. (Inr (filter (\<lambda>name. \<not> covered (rr_published_paths (wd_run w)) name
           \<and> is_regular (tree (wd_fs w)) (h_cwd H) (if starts_with ''/'' name then name else workspace @ ''/'' @ name))
         (expected_outputs spec)), w))))"

definition publish_nudge :: "string list \<Rightarrow> ChatMessage" where
  "publish_nudge unpublished = plain_message ''user''
    (''Your deliverable exists on disk but was never published, so it cannot count as evidence. Call artifact.publish for: ''
     @ join '', '' unpublished @ ''. Then reply with your final summary.'')"

text \<open>What the Run has published so far, after a tool's result.\<close>

definition note_artifact :: "dict \<Rightarrow> RunRecord \<Rightarrow> RunRecord" where
  "note_artifact result r =
    (case artifact_ref result of
       None \<Rightarrow> r
     | Some ref \<Rightarrow>
        (let path = (case jor (dget result ''path'') (dget result ''source_path'') of JStr p \<Rightarrow> p | _ \<Rightarrow> [])
         in r\<lparr> rr_artifact_refs := (if ref \<in> set (rr_artifact_refs r) then rr_artifact_refs r else rr_artifact_refs r @ [ref]),
              rr_published_paths := (if path = [] \<or> path \<in> set (rr_published_paths r) then rr_published_paths r
                else rr_published_paths r @ [path]) \<rparr>))"

text \<open>
  The tool calls of one reply: \<open>None\<close> once the Run is stopping, else the conversation and an error that
  ends the loop.
\<close>

fun tool_turn :: "host \<Rightarrow> AuthContext \<Rightarrow> dict \<Rightarrow> int \<Rightarrow> dict list \<Rightarrow> ChatMessage list
    \<Rightarrow> (ChatMessage list \<times> string option) option wop" where
  "tool_turn H auth spec deadline [] conv = a_ret (Some (conv, None))"
| "tool_turn H auth spec deadline (c # cs) conv =
  a_then (stopping H) (\<lambda>stop.
  (if stop then a_ret None
      else a_then (monotonic H) (\<lambda>t.
        (if truthy (dget spec ''wall_timeout_seconds'') \<and> deadline < t then
           a_ret (Some (conv, Some ''run_wall_timeout_exceeded''))
         else a_then (dispatch_tool H auth spec c deadline) (\<lambda>result.
           a_seq (a_put (note_artifact result)) (
           a_then (a_get id) (\<lambda>rec.
           tool_turn H auth spec deadline cs (conv @ [\<lparr> msg_role = ''tool'',
             msg_content = Some (cd_dumps (h_codec H) (JObj result)),
             msg_tool_call_id = Some (py_str (jor (dget c ''id'') (JStr (''call_'' @ show_int (rr_tool_calls rec))))),
             msg_name = None, msg_tool_calls = [] \<rparr>]))))))))"

text \<open>The loop's return value; a stopping Run has neither content nor error.\<close>

type_synonym loop_end = "string option \<times> string option"

definition finish_loop :: "host \<Rightarrow> string option \<Rightarrow> string option \<Rightarrow> loop_end wop" where
  "finish_loop H final_content error =
    a_then (stopping H) (\<lambda>stop.
    a_ret (if stop then (None, None)
       else (final_content, if error = None \<and> final_content = None then Some ''max_turns_exhausted'' else error)))"

record loop_input =
  li_auth :: AuthContext
  li_spec :: dict
  li_run_input :: dict
  li_tools :: "json list"
  li_deadline :: int
  li_wall_s :: int
  li_call_budget :: int

definition ask :: "host \<Rightarrow> loop_input \<Rightarrow> ChatMessage list \<Rightarrow> (string + ModelReply) wop" where
  "ask H L conv =
    a_then (monotonic H) (\<lambda>t.
    a_catch (a_then (ask_model H conv (li_tools L) (model_call_timeout H (li_wall_s L) (li_deadline L) t)) (\<lambda>reply.
      a_ret (Inr reply))) (\<lambda>e. a_ret (Inl e)))"

text \<open>The model behind the HTTP client of theory \<open>Client\<close>.\<close>

definition client_model :: "client \<Rightarrow> (nat \<Rightarrow> dict \<Rightarrow> nat \<Rightarrow> http_result) \<Rightarrow> nat \<Rightarrow> ChatMessage list \<Rightarrow> json list
    \<Rightarrow> int \<Rightarrow> string + ModelReply" where
  "client_model K post n conv tools timeout_ms =
    (case fst (chat K (post n) conv tools (JInt 0) (Some timeout_ms)) of
       Inl e \<Rightarrow> Inl (''ModelClientError: '' @ err_message e)
     | Inr reply \<Rightarrow> Inr reply)"

text \<open>
  The turns of the loop. \<open>nudges\<close> counts the corrective turns spent on unpublished deliverables. With no
  turn left the loop has exhausted its turns.
\<close>

fun loop_turns :: "host \<Rightarrow> loop_input \<Rightarrow> nat \<Rightarrow> nat \<Rightarrow> ChatMessage list \<Rightarrow> loop_end wop" where
  "loop_turns H L 0 nudges conv = finish_loop H None (Some ''max_turns_exhausted'')"
| "loop_turns H L (Suc n) nudges conv =
  a_then (stopping H) (\<lambda>stop.
  (if stop then a_ret (None, None)
      else a_then (monotonic H) (\<lambda>t.
        (if truthy (dget (li_spec L) ''wall_timeout_seconds'') \<and> li_deadline L < t then
           finish_loop H None (Some ''run_wall_timeout_exceeded'')
         else a_then (drain_pending H conv) (\<lambda>conv.
           a_then (stopping H) (\<lambda>stop.
           a_then (a_get rr_model_calls) (\<lambda>calls.
           (if stop then a_ret (None, None)
            else if li_call_budget L \<le> calls then finish_loop H None (Some ''model_call_budget_exhausted'')
            else a_then (record_model_usage_of H (li_auth L) (li_spec L)) (\<lambda>refused.
              (if is_set refused then finish_loop H None refused
               else a_seq (a_put (\<lambda>r. r\<lparr> rr_model_calls := rr_model_calls r + 1 \<rparr>)) (
                 a_then (ask H L conv) (\<lambda>answer.
                 (case answer of
                    Inl e \<Rightarrow> finish_loop H None (Some e)
                  | Inr reply \<Rightarrow> (let conv1 = conv @ [\<lparr> msg_role = ''assistant'', msg_content = rep_content reply,
                        msg_tool_call_id = None, msg_name = None, msg_tool_calls = rep_tool_calls reply \<rparr>] in
                    a_then (stopping H) (\<lambda>stop.
                    (if stop then a_ret (None, None)
                       else if rep_tool_calls reply = [] then
                         (if strip (or_else (rep_content reply) []) = [] then
                            finish_loop H None (Some ''empty_model_completion'')
                          else a_then (if nudges < 1 then expected_but_unpublished H (li_spec L) (li_run_input L)
                              else a_ret []) (\<lambda>unpublished.
                            (if unpublished \<noteq> [] then
                               loop_turns H L n (nudges + 1) (conv1 @ [publish_nudge unpublished])
                             else finish_loop H (Some (or_else (rep_content reply) [])) None)))
                       else a_then (tool_turn H (li_auth L) (li_spec L) (li_deadline L) (rep_tool_calls reply) conv1) (\<lambda>turn.
                         (case turn of
                            None \<Rightarrow> a_ret (None, None)
                          | Some (conv2, Some e) \<Rightarrow> finish_loop H None (Some e)
                          | Some (conv2, None) \<Rightarrow> loop_turns H L n nudges conv2))))))))))))))))))"

definition worker_loop :: "host \<Rightarrow> AuthContext \<Rightarrow> dict \<Rightarrow> dict \<Rightarrow> loop_end wop" where
  "worker_loop H auth spec run_input =
    a_then (build_messages H auth spec run_input) (\<lambda>conv.
    a_then (monotonic H) (\<lambda>t.
    a_then (int_or_zero (dget spec ''wall_timeout_seconds'')) (\<lambda>wall_s.
    a_then (a_int (jor (dget spec ''max_turns'') (JInt (h_max_turns H)))) (\<lambda>turns.
    a_then (a_int (jor (dget spec ''model_call_limit'') (JInt (h_max_model_calls H)))) (\<lambda>calls.
    loop_turns H \<lparr> li_auth = auth, li_spec = spec, li_run_input = run_input,
       li_tools = tool_schemas (map py_str (granted_of spec run_input)), li_deadline = t + max wall_s 0 * 1000,
       li_wall_s = wall_s, li_call_budget = max 1 (min (h_max_model_calls H) calls) \<rparr>
       (nat (max 1 (min (h_max_turns H) turns))) 0 conv)))))"

subsection \<open>The end of a Run\<close>

definition submit_worker_result :: "host \<Rightarrow> AuthContext \<Rightarrow> dict \<Rightarrow> string option \<Rightarrow> string option \<Rightarrow> unit wop" where
  "submit_worker_result H auth spec final_content error =
    a_then (a_get id) (\<lambda>rec.
    (case worker_result (\<lambda>t. case cd_loads (h_codec H) t of Inl _ \<Rightarrow> None | Inr v \<Rightarrow> Some v) spec
         (rr_artifact_refs rec) (rr_published_paths rec) final_content error of
        None \<Rightarrow> a_raise ''TypeError: unhashable type''
      | Some result \<Rightarrow> a_then (a_catch (a_then (core_execute H ''submit_result'' auth [(''run_id'', JStr (rr_run_id rec)),
                (''task_id'', task_ref spec rec), (''fencing_epoch'', dget spec ''fencing_epoch''),
                (''result'', JObj result)]) (\<lambda>response.
          a_ret (if cr_ok response then None else Some (py_str (jopt (cr_error_code response)))))) (\<lambda>e. a_ret (Some e))) (\<lambda>failed.
        a_put (\<lambda>r. case failed of
              None \<Rightarrow> r\<lparr> rr_result_submitted := True \<rparr>
            | Some e \<Rightarrow> r\<lparr> rr_error := Some (''submit_result_failed: '' @ e) \<rparr>))))"

definition confirm_exit :: "host \<Rightarrow> AuthContext \<Rightarrow> dict \<Rightarrow> unit wop" where
  "confirm_exit H auth spec =
    a_then (a_get id) (\<lambda>rec.
    a_catch (a_then (core_execute H ''confirm_run_exit'' auth [(''run_id'', JStr (rr_run_id rec)),
           (''task_id'', task_ref spec rec), (''fencing_epoch'', dget spec ''fencing_epoch'')]) (\<lambda>response.
      a_ret ())) (\<lambda>e. a_put (\<lambda>r. if rr_error r = None then r\<lparr> rr_error := Some (''confirm_run_exit_failed: '' @ e) \<rparr> else r)))"

text \<open>
  Waiting for the core to promote the Run: at most two seconds, one look per poll interval. A failed read
  ends the wait.
\<close>

definition STARTUP_GRACE_MS :: int where
  "STARTUP_GRACE_MS = 2000"

definition TERMINAL_WAIT_STATES :: "string list" where
  "TERMINAL_WAIT_STATES = [''SUCCEEDED'', ''FAILED'', ''CANCELLED'', ''LOST'', ''TIMED_OUT'']"

definition listed_status :: "string \<Rightarrow> json list \<Rightarrow> string option" where
  "listed_status run_id rows = map_option (\<lambda>row. py_str (jget row ''status''))
     (find (\<lambda>row. jget row ''run_id'' = JStr run_id) rows)"

fun await_running :: "nat \<Rightarrow> host \<Rightarrow> string \<Rightarrow> string \<Rightarrow> int \<Rightarrow> unit wop" where
  "await_running 0 H task_id run_id deadline = a_ret ()"
| "await_running (Suc n) H task_id run_id deadline =
  a_then (monotonic H) (\<lambda>t.
  (if deadline \<le> t then a_ret ()
      else a_then (stopping H) (\<lambda>stop.
        (if stop then a_ret ()
         else a_then (a_catch (a_then (core_read H (\<lambda>_. list_runs task_id)) (\<lambda>found.
             a_ret (Some found))) (\<lambda>_. a_ret None)) (\<lambda>rows.
           (case rows of
              None \<Rightarrow> a_ret ()
            | Some found \<Rightarrow>
               (if listed_status run_id found = Some ''RUNNING''
                   \<or> (\<exists>st \<in> set TERMINAL_WAIT_STATES. listed_status run_id found = Some st) then a_ret ()
                else a_seq (\<lambda>w. (Inr (), w\<lparr> wd_clock := wd_clock w + max 1 (h_poll_ms H) \<rparr>)) (
                  await_running n H task_id run_id deadline))))))))"

definition wait_for_running :: "host \<Rightarrow> unit wop" where
  "wait_for_running H =
    a_then (a_get id) (\<lambda>rec.
    (if \<not> is_set (rr_task_id rec) then a_ret ()
      else a_then (monotonic H) (\<lambda>t.
        await_running (nat STARTUP_GRACE_MS + 1) H (or_else (rr_task_id rec) []) (rr_run_id rec) (t + STARTUP_GRACE_MS))))"

definition build_auth :: "dict \<Rightarrow> string \<Rightarrow> string + AuthContext" where
  "build_auth run_spec run_id =
    (let missing = filter (\<lambda>k. dget run_spec k = JNull)
       [''principal_id'', ''agent_instance_id'', ''task_id'', ''fencing_epoch'', ''grant_epoch'']
     in if missing \<noteq> [] then Inl (''ValueError: run start payload missing '' @ join '', '' missing)
        else case (py_int (dget run_spec ''fencing_epoch''), py_int (dget run_spec ''grant_epoch'')) of
          (Some fencing, Some grant) \<Rightarrow> Inr \<lparr> principal_id = py_str (dget run_spec ''principal_id''),
            actor_id = py_str (dget run_spec ''agent_instance_id''), actor_type = INTERNAL,
            auth_context_id = ''run:'' @ run_id, scopes = [],
            bound_task_id = Some (py_str (dget run_spec ''task_id'')), bound_run_id = Some run_id,
            bound_fencing_epoch = Some fencing, bound_grant_epoch = Some grant \<rparr>
        | _ \<Rightarrow> Inl ''ValueError'')"

text \<open>The inner \<open>try\<close> and what follows it: nothing is submitted once the Run is stopping.\<close>

definition work_and_submit :: "host \<Rightarrow> AuthContext \<Rightarrow> dict \<Rightarrow> dict \<Rightarrow> unit wop" where
  "work_and_submit H auth spec run_input =
    a_then (a_catch (a_seq (wait_for_running H) (
      a_then (stopping H) (\<lambda>stop.
      (if stop then a_ret None
          else a_then (worker_loop H auth spec run_input) (\<lambda>e.
            a_ret (Some e)))))) (\<lambda>e. a_seq (a_put (\<lambda>r. r\<lparr> rr_error := Some e \<rparr>)) (
              a_ret (Some (None, Some e))))) (\<lambda>ended.
    (case ended of
        None \<Rightarrow> a_ret ()
      | Some (final_content, error) \<Rightarrow> a_then (stopping H) (\<lambda>stop.
        (if stop then a_ret () else submit_worker_result H auth spec final_content error))))"

text \<open>The \<open>finally\<close> block: what the thread reports of itself before and after it confirms its exit.\<close>

definition settle_writes :: "RunRecord \<Rightarrow> RunRecord" where
  "settle_writes r =
    (if rr_sandbox_exit_unconfirmed r then r\<lparr> rr_finished_writes := False, rr_writer_alive := True \<rparr>
     else r\<lparr> rr_finished_writes := True, rr_writer_alive := False \<rparr>)"

definition settle_status :: "RunRecord \<Rightarrow> RunRecord" where
  "settle_status r =
    (if rr_sandbox_exit_unconfirmed r then
       r\<lparr> rr_alive := True, rr_writer_alive := True, rr_status := ''STOP_UNCONFIRMED'' \<rparr>
     else r\<lparr> rr_alive := False, rr_writer_alive := False,
       rr_status := (if rr_error r \<noteq> None \<and> \<not> rr_start_revoked r then ''FAILED''
         else if rr_start_revoked r then ''STOPPED'' else ''EXITED'') \<rparr>)"

definition finish_worker :: "host \<Rightarrow> AuthContext option \<Rightarrow> dict \<Rightarrow> unit wop" where
  "finish_worker H auth spec =
    a_seq (a_look H) (
    a_seq (a_put settle_writes) (
    a_then (a_get id) (\<lambda>rec.
    a_seq (case auth of None \<Rightarrow> a_ret () | Some a \<Rightarrow> confirm_exit H a (if spec = [] then rr_spec rec else spec)) (
    a_seq (a_look H) (
    a_put settle_status)))))"

definition fail_worker :: "string \<Rightarrow> unit wop" where
  "fail_worker e = a_put (\<lambda>r. r\<lparr> rr_error := Some e \<rparr>)"

definition run_worker :: "host \<Rightarrow> unit wop" where
  "run_worker H =
    a_then (a_get id) (\<lambda>rec.
    (case build_auth (rr_spec rec) (rr_run_id rec) of
        Inl e \<Rightarrow> a_seq (fail_worker e) (
          finish_worker H None [])
      | Inr auth \<Rightarrow> a_then (a_catch (a_then (core_read H (\<lambda>_. get_run_input_read auth (rr_run_id rec))) (\<lambda>j.
          a_ret (Inr (entries j)))) (\<lambda>e. a_ret (Inl e))) (\<lambda>read.
        (case read of
             Inl e \<Rightarrow> a_seq (fail_worker e) (
               finish_worker H (Some auth) [])
           | Inr run_input \<Rightarrow> (let spec = entries (jor (dget run_input ''spec'') (JObj [])) in
             a_seq (a_put (\<lambda>r. r\<lparr> rr_spec := dupdate (rr_spec r) spec,
                 rr_task_id := str_or_none (jor (dget spec ''task_id'') (jor (jopt (rr_task_id r)) (JStr []))) \<rparr>)) (
             a_seq (a_catch (work_and_submit H auth spec run_input) fail_worker) (
             finish_worker H (Some auth) spec)))))))"

end
