(* ===== verification/Worker_Safety.thy ===== *)
theory Worker_Safety
  imports Worker
begin

text \<open>
  What a worker can and cannot do, whatever the model, the sandbox and the other threads do. The frame of the
  worker's operations is a locale: a relation between worlds that the worker's primitive effects keep is kept
  by every operation. Its interpretations give: the database only moves along steps of the service (so every
  invariant of theory \<open>System\<close> holds while workers run), and a stop stays set.
\<close>

subsection \<open>The frame\<close>

definition acts :: "(world \<Rightarrow> world \<Rightarrow> bool) \<Rightarrow> 'a wop \<Rightarrow> bool" where
  "acts R m \<longleftrightarrow> (\<forall>w. R w (snd (m w)))"

text \<open>What the other threads do keeps the relation.\<close>

definition others_keep :: "(world \<Rightarrow> world \<Rightarrow> bool) \<Rightarrow> host \<Rightarrow> bool" where
  "others_keep R H \<longleftrightarrow> (\<forall>n w. R w (h_others H n w))"

text \<open>What the adapter's \<open>stop\<close> writes; the worker itself never does.\<close>

definition stop_state :: "RunRecord \<Rightarrow> string \<times> bool \<times> bool" where
  "stop_state r = (rr_run_id r, rr_stop_event r, rr_start_revoked r)"

text \<open>A change of the record that leaves alone what the loop decides by.\<close>

definition minor :: "(RunRecord \<Rightarrow> RunRecord) \<Rightarrow> bool" where
  "minor g \<longleftrightarrow> (\<forall>r. stop_state (g r) = stop_state r \<and> rr_model_calls (g r) = rr_model_calls r
     \<and> rr_tool_calls (g r) = rr_tool_calls r \<and> rr_result_submitted (g r) = rr_result_submitted r)"

lemma snd_a_tx: "snd (a_tx H m w) = w\<lparr> wd_db := snd (m (wd_db w)) \<rparr>"
  by (simp add: a_tx_def split: prod.split sum.split)

text \<open>What a transaction that only reads may leave behind.\<close>

definition idle_step :: "sess \<Rightarrow> sess \<Rightarrow> bool" where
  "idle_step s t \<longleftrightarrow> t \<in> {s, flush_all s, s\<lparr> crash_before_commit := False \<rparr>,
     (flush_all s)\<lparr> crash_after_commit := False \<rparr>}"

lemma idle_run_tx: 
  assumes "keeps (=) m"
  shows "idle_step s (snd (run_tx m s))"
proof -
  have "snd (m s) = s" using assms by (simp add: keeps_def)
  then obtain r where "m s = (r, s)" by (cases "m s") auto
  then show ?thesis by (cases r) (auto simp: run_tx_def rollback_def flush_def idle_step_def)
qed

lemma idle_reads:
  "idle_step s (snd (get_run_context E dumps decode auth rid s))"
  "idle_step s (snd (materialize_context_append E auth rid entry s))"
  "idle_step s (snd (get_run_input_read auth rid s))"
  "idle_step s (snd (list_runs task_id s))"
  unfolding get_run_context_def materialize_context_append_def get_run_input_read_def list_runs_def
    get_run_input_tx_def materialize_append_tx_def Let_def
  by (intro idle_run_tx readonly.keeps_struct frame_intro)+

locale worker_frame =
  fixes R :: "world \<Rightarrow> world \<Rightarrow> bool"
  assumes W_refl: "R w w" and W_trans: "R w w1 \<Longrightarrow> R w1 w2 \<Longrightarrow> R w w2"
    and W_looks: "R w (w\<lparr> wd_looks := n \<rparr>)" and W_clock: "R w (w\<lparr> wd_clock := c \<rparr>)"
    and W_step: "service_step (wd_db w) s \<Longrightarrow> R w (w\<lparr> wd_db := s, wd_fs := f \<rparr>)"
    and W_read: "idle_step (wd_db w) s \<Longrightarrow> R w (w\<lparr> wd_db := s \<rparr>)"
    and W_minor: "minor g \<Longrightarrow> R w (w\<lparr> wd_run := g (wd_run w) \<rparr>)"
begin

lemma acts_then:
  assumes "acts R m" and "\<And>x. acts R (f x)"
  shows "acts R (a_then m f)"
  unfolding acts_def
proof
  fix w
  obtain r w1 where m: "m w = (r, w1)" by (cases "m w")
  with assms(1) have "R w w1" by (metis acts_def snd_conv)
  with assms(2) m show "R w (snd (a_then m f w))"
    by (cases r) (auto simp: a_then_def acts_def intro: W_trans)
qed

lemma acts_seq: "acts R m \<Longrightarrow> acts R k \<Longrightarrow> acts R (a_seq m k)"
  by (simp add: a_seq_def acts_then)

lemma acts_catch:
  assumes "acts R m" and "\<And>e. acts R (h e)"
  shows "acts R (a_catch m h)"
  unfolding acts_def
proof
  fix w
  obtain r w1 where m: "m w = (r, w1)" by (cases "m w")
  with assms(1) have "R w w1" by (metis acts_def snd_conv)
  with assms(2) m show "R w (snd (a_catch m h w))"
    by (cases r) (auto simp: a_catch_def acts_def intro: W_trans)
qed

lemma acts_pure: "acts R (a_ret x)" "acts R (a_raise e)" "acts R (a_get f)" "acts R (now_env H)" "acts R (a_int v)"
  by (auto simp: acts_def a_ret_def a_raise_def a_get_def now_env_def a_int_def W_refl split: option.split)

lemma acts_if: "acts R a \<Longrightarrow> acts R b \<Longrightarrow> acts R (if c then a else b)"
  by simp

lemma acts_option: "acts R a \<Longrightarrow> (\<And>x. acts R (f x)) \<Longrightarrow> acts R (case v of None \<Rightarrow> a | Some x \<Rightarrow> f x)"
  by (cases v) simp_all

lemma acts_sum: "(\<And>x. acts R (f x)) \<Longrightarrow> (\<And>x. acts R (g x)) \<Longrightarrow> acts R (case v of Inl x \<Rightarrow> f x | Inr x \<Rightarrow> g x)"
  by (cases v) simp_all

lemma acts_prod: "(\<And>x y. acts R (f x y)) \<Longrightarrow> acts R (case v of (x, y) \<Rightarrow> f x y)"
  by (cases v) simp

lemma acts_let: "(\<And>x. acts R (f x)) \<Longrightarrow> acts R (let x = v in f x)"
  by (simp add: Let_def)

lemma acts_put: "minor g \<Longrightarrow> acts R (a_put g)"
  by (simp add: acts_def a_put_def W_minor)

lemma acts_answer: "acts R (\<lambda>w. (f w, w))"
  by (simp add: acts_def W_refl)

lemmas acts_struct = acts_pure acts_then acts_seq acts_catch acts_if acts_option acts_sum acts_prod acts_let acts_answer

lemma acts_look: "others_keep R H \<Longrightarrow> acts R (a_look H)"
  unfolding acts_def a_look_def others_keep_def by (auto intro: W_trans [OF _ W_looks])

lemma acts_probes: "others_keep R H \<Longrightarrow> acts R (stopping H)" "others_keep R H \<Longrightarrow> acts R (monotonic H)"
  unfolding stopping_def monotonic_def by (intro acts_struct acts_look; assumption)+

lemma acts_tx:
  assumes "\<And>s. service_step s (snd (m s))"
  shows "acts R (a_tx H m)"
proof -
  have "R w (w\<lparr> wd_db := snd (m (wd_db w)) \<rparr>)" for w
    using W_step [OF assms, of w "wd_fs w"] by simp
  then show ?thesis by (simp add: acts_def snd_a_tx)
qed

lemma acts_tx_read: "(\<And>s. idle_step s (snd (m s))) \<Longrightarrow> acts R (a_tx H m)"
  by (simp add: acts_def snd_a_tx W_read)

lemma acts_core_execute: "others_keep R H \<Longrightarrow> acts R (core_execute H operation auth payload)"
  unfolding core_execute_def by (intro acts_struct acts_look acts_tx service_step.command)

lemma acts_core_read: "others_keep R H \<Longrightarrow> (\<And>E s. idle_step s (snd (m E s))) \<Longrightarrow> acts R (core_read H m)"
  unfolding core_read_def by (intro acts_struct acts_look acts_tx_read)

lemma acts_broker:
  assumes "others_keep R H"
  shows "acts R (broker_authorize H auth request)" "acts R (finish_invocation H auth decision outcome result)"
  unfolding broker_authorize_def finish_invocation_def
  by (intro acts_struct acts_look acts_tx service_step.tool_decision service_step.tool_outcome assms)+

lemma acts_broker_tool:
  assumes "others_keep R H" and "\<And>E s f. service_step s (fst (snd (cl E (s, f))))"
  shows "acts R (broker_tool H cl)"
proof -
  have "acts R (\<lambda>w. case cl E (wd_db w, wd_fs w) of
       (Inl e, (s, f)) \<Rightarrow> (Inl (h_exn_text H e), w\<lparr> wd_db := s, wd_fs := f \<rparr>)
     | (Inr j, (s, f)) \<Rightarrow> (Inr j, w\<lparr> wd_db := s, wd_fs := f \<rparr>))" for E
    unfolding acts_def
  proof
    fix w :: world
    obtain r s f where c: "cl E (wd_db w, wd_fs w) = (r, s, f)" by (metis prod_cases3)
    with assms(2) [of "wd_db w" E "wd_fs w"] have "service_step (wd_db w) s" by simp
    then show "R w (snd (case cl E (wd_db w, wd_fs w) of
       (Inl e, (s, f)) \<Rightarrow> (Inl (h_exn_text H e), w\<lparr> wd_db := s, wd_fs := f \<rparr>)
     | (Inr j, (s, f)) \<Rightarrow> (Inr j, w\<lparr> wd_db := s, wd_fs := f \<rparr>)))"
      using c by (cases r) (simp_all add: W_step)
  qed
  then show ?thesis unfolding broker_tool_def by (intro acts_struct acts_look assms(1))
qed

lemma acts_requests: "acts R (int_or_zero v)" "acts R (tool_request spec tool parameters)"
  unfolding int_or_zero_def tool_request_def by (intro acts_struct)+

lemma acts_registrations:
  assumes "others_keep R H"
  shows "acts R (register_tool_read H auth spec parameters result)"
    "acts R (register_sandbox H auth spec container_id confirmed)"
  unfolding register_tool_read_def register_sandbox_def by (intro acts_struct acts_core_execute assms)+

lemma acts_dispatch_fs: "others_keep R H \<Longrightarrow> acts R (dispatch_fs H auth spec B tool parameters)"
  unfolding dispatch_fs_def fs_helper_def
  by (auto intro!: acts_struct acts_requests acts_registrations acts_broker_tool
      service_step.tool_read service_step.tool_list service_step.tool_write)

lemma acts_dispatch_publish: "others_keep R H \<Longrightarrow> acts R (dispatch_publish H auth spec parameters)"
  unfolding dispatch_publish_def
  by (intro acts_struct acts_requests acts_broker acts_core_execute)

lemma acts_run_in_sandbox: "others_keep R H \<Longrightarrow> acts R (run_in_sandbox H sb workspace command)"
  unfolding run_in_sandbox_def by (intro acts_struct acts_look)

lemma acts_shell_attempt:
  "others_keep R H \<Longrightarrow> acts R (shell_attempt H auth spec decision sb workspace parameters deadline)"
  unfolding shell_attempt_def
  by (intro acts_struct acts_requests acts_broker acts_probes acts_registrations acts_run_in_sandbox acts_put)
    (auto simp: minor_def stop_state_def)

lemma acts_dispatch_shell: "others_keep R H \<Longrightarrow> acts R (dispatch_shell H auth spec parameters deadline)"
  unfolding dispatch_shell_def
  by (intro acts_struct acts_requests acts_broker acts_registrations acts_shell_attempt acts_put)
    (auto simp: minor_def stop_state_def note_exit_def)

lemma minor_note: "minor (note_artifact result)"
  by (simp add: minor_def stop_state_def note_artifact_def Let_def split: option.split)

lemma acts_context:
  assumes "others_keep R H"
  shows "acts R (run_context H auth run_id)" "acts R (append_text H auth run_id entry)"
  unfolding run_context_def append_text_def
  by (intro acts_struct acts_core_read idle_reads assms)+

lemma acts_append_texts:
  assumes ok: "others_keep R H"
  shows "acts R (append_texts H auth run_id xs)"
proof (induction xs)
  case (Cons x xs)
  show ?case unfolding append_texts.simps by (intro acts_struct acts_context Cons.IH ok)
qed (simp add: acts_pure)

lemma acts_messages:
  assumes "others_keep R H"
  shows "acts R (build_messages H auth spec run_input)" "acts R (drain_pending H conv)"
    "acts R (expected_but_unpublished H spec run_input)" "acts R (record_model_usage_of H auth spec)"
    "acts R (ask H L conv)" "acts R (finish_loop H final_content error)" "acts R (confirm_exit H auth spec)"
    "acts R (fail_worker e)"
  unfolding build_messages_def materialized_mandatory_texts_def context_append_texts_def drain_pending_def
    expected_but_unpublished_def record_model_usage_of_def ask_def ask_model_def finish_loop_def confirm_exit_def fail_worker_def
  by (intro acts_struct acts_look acts_probes acts_core_execute acts_context acts_append_texts acts_put assms;
      simp add: minor_def stop_state_def)+

lemma acts_tick: "acts R (\<lambda>w. (Inr (), w\<lparr> wd_clock := f w \<rparr>))"
  by (simp add: acts_def W_clock)

lemma acts_await:
  assumes ok: "others_keep R H"
  shows "acts R (await_running n H task_id run_id deadline)"
proof (induction n)
  case (Suc n)
  show ?case unfolding await_running.simps
    by (intro acts_struct acts_probes acts_core_read idle_reads acts_tick Suc.IH ok)
qed (simp add: acts_pure)

lemma acts_wait: "others_keep R H \<Longrightarrow> acts R (wait_for_running H)"
  unfolding wait_for_running_def by (intro acts_struct acts_probes acts_await)

end

text \<open>The tool counters move with every tool call.\<close>

definition counts_tools :: "(RunRecord \<Rightarrow> RunRecord) \<Rightarrow> bool" where
  "counts_tools g \<longleftrightarrow> (\<forall>r. stop_state (g r) = stop_state r \<and> rr_model_calls (g r) = rr_model_calls r
     \<and> rr_result_submitted (g r) = rr_result_submitted r)"

locale worker_tool_frame = worker_frame +
  assumes W_tools: "counts_tools g \<Longrightarrow> R w (w\<lparr> wd_run := g (wd_run w) \<rparr>)"
begin

lemma acts_put_tools: "counts_tools g \<Longrightarrow> acts R (a_put g)"
  by (simp add: acts_def a_put_def W_tools)

lemma acts_dispatch_tool: "others_keep R H \<Longrightarrow> acts R (dispatch_tool H auth spec cl deadline)"
  unfolding dispatch_tool_def
  by (intro acts_struct acts_dispatch_fs acts_dispatch_publish acts_dispatch_shell acts_put_tools)
    (simp add: counts_tools_def stop_state_def)

lemma acts_tool_turn:
  assumes ok: "others_keep R H"
  shows "acts R (tool_turn H auth spec deadline cs conv)"
proof (induction cs arbitrary: conv)
  case (Cons c cs)
  show ?case unfolding tool_turn.simps
    by (intro acts_struct acts_probes acts_dispatch_tool acts_put minor_note Cons.IH ok)
qed (simp add: acts_pure)

end

text \<open>A relation that looks at nothing the worker itself writes in its record is kept by the whole worker.\<close>

locale worker_run_frame = worker_tool_frame +
  assumes W_any: "(\<And>r. stop_state (g r) = stop_state r) \<Longrightarrow> R w (w\<lparr> wd_run := g (wd_run w) \<rparr>)"
begin

lemma acts_put_any: "(\<And>r. stop_state (g r) = stop_state r) \<Longrightarrow> acts R (a_put g)"
  by (simp add: acts_def a_put_def W_any)

lemma stop_state_settled: "stop_state (settle_writes r) = stop_state r" "stop_state (settle_status r) = stop_state r"
  by (simp_all add: stop_state_def settle_writes_def settle_status_def)

lemma acts_loop_turns:
  assumes ok: "others_keep R H"
  shows "acts R (loop_turns H L n nudges conv)"
proof (induction n arbitrary: nudges conv)
  case 0
  show ?case unfolding loop_turns.simps by (intro acts_messages ok)
next
  case (Suc n)
  show ?case unfolding loop_turns.simps
    by (intro acts_struct acts_probes acts_messages acts_tool_turn acts_put_any Suc.IH ok) (simp add: stop_state_def)
qed

lemma acts_run_worker:
  assumes ok: "others_keep R H"
  shows "acts R (run_worker H)"
  unfolding run_worker_def work_and_submit_def worker_loop_def submit_worker_result_def finish_worker_def fail_worker_def
  by (intro acts_struct acts_look acts_probes acts_messages acts_wait acts_loop_turns acts_requests acts_core_execute
      acts_core_read idle_reads acts_put_any stop_state_settled ok)
    (auto simp: stop_state_def split: option.splits)

end

subsection \<open>A sample worker\<close>

text \<open>
  A worker of the running Run of theory \<open>Broker\<close>, in a world where nobody else acts and whose model asks to read
  a file again and again.
\<close>

definition sample_reading_codec :: codec where
  "sample_reading_codec = \<lparr> cd_loads = (\<lambda>_. Inr (JObj [(''path'', JStr ''a.txt'')])), cd_dumps = (\<lambda>_. []) \<rparr>"

definition sample_call :: dict where
  "sample_call = [(''id'', JStr ''c''), (''function'', JObj [(''name'', JStr ''fs_read''), (''arguments'', JStr ''{}'')])]"

definition sample_host :: host where
  "sample_host = \<lparr> h_env = (\<lambda>_. sample_files), h_fuel = 1, h_dispatch = False, h_others = (\<lambda>_ w. w),
     h_broker = Some sample_broker, h_sandbox = None,
     h_model = (\<lambda>_ _ _ _. Inr \<lparr> rep_content = None, rep_tool_calls = [sample_call], rep_finish_reason = None, rep_usage = [], rep_raw = [] \<rparr>),
     h_codec = sample_reading_codec, h_shlex = (\<lambda>x. Inr [x]), h_exn_text = (\<lambda>_. ''error''), h_decode = (\<lambda>x. x),
     h_system_prompt = [], h_cwd = [], h_max_turns = 3, h_max_model_calls = 2, h_poll_ms = 100,
     h_model_call_timeout_ms = 1000, h_stop_call_timeout_ms = 0 \<rparr>"

definition sample_spec :: dict where
  "sample_spec = [(''principal_id'', JStr ''p''), (''agent_instance_id'', JStr ''local:r''), (''task_id'', JStr ''t''),
     (''fencing_epoch'', JInt 1), (''grant_epoch'', JInt 0)]"

definition sample_record :: "bool \<Rightarrow> RunRecord" where
  "sample_record stop = \<lparr> rr_run_id = ''r'', rr_spec = sample_spec, rr_task_id = Some ''t'', rr_stop_event = stop,
     rr_status = ''RUNNING'', rr_start_revoked = stop, rr_alive = True, rr_writer_alive = True,
     rr_finished_writes = False, rr_result_submitted = False, rr_error = None, rr_stop_reason = None,
     rr_model_calls = 0, rr_tool_calls = 0, rr_tool_seq = 0, rr_artifact_refs = [], rr_published_paths = [],
     rr_pending_messages = [], rr_sandbox_exit_unconfirmed = False, rr_last_container_id = None \<rparr>"

definition sample_world :: "bool \<Rightarrow> sess \<Rightarrow> world" where
  "sample_world stop s = \<lparr> wd_run = sample_record stop, wd_db = s, wd_fs = sample_fs, wd_clock = 0, wd_looks = 0 \<rparr>"

definition sample_read_db :: sess where
  "sample_read_db = sample_tool_db\<lparr> run_inputs := t_of [sample_tool_input\<lparr> ri_granted_tools_json := JList [JStr ''fs.read''] \<rparr>] \<rparr>"

subsection \<open>The database moves along steps of the service\<close>

lemma reachable_idle:
  assumes s: "reachable s" and "idle_step s t"
  shows "reachable t"
proof -
  have "flush_all s = s" using reachable_consistent [OF s] by (simp add: consistent_def flush_all_clean)
  moreover have "s = s\<lparr> crash_before_commit := crash_before_commit s, crash_after_commit := crash_after_commit s \<rparr>"
      "s\<lparr> crash_before_commit := False \<rparr> = s\<lparr> crash_before_commit := False, crash_after_commit := crash_after_commit s \<rparr>"
      "s\<lparr> crash_after_commit := False \<rparr> = s\<lparr> crash_before_commit := crash_before_commit s, crash_after_commit := False \<rparr>"
    by simp_all
  ultimately have "\<exists>b c. t = s\<lparr> crash_before_commit := b, crash_after_commit := c \<rparr>"
    using assms(2) unfolding idle_step_def by (metis empty_iff insert_iff)
  then show ?thesis using reachable_step [OF s service_step.inject] by blast
qed

definition stays_reachable :: "world \<Rightarrow> world \<Rightarrow> bool" where
  "stays_reachable w w1 \<longleftrightarrow> (reachable (wd_db w) \<longrightarrow> reachable (wd_db w1))"

interpretation reach: worker_run_frame stays_reachable
  by unfold_locales (auto simp: stays_reachable_def intro: reachable_step reachable_idle)



subsection \<open>A stopped worker does nothing\<close>

definition stays_stopped :: "world \<Rightarrow> world \<Rightarrow> bool" where
  "stays_stopped w w1 \<longleftrightarrow> (rr_stop_event (wd_run w) \<longrightarrow> rr_stop_event (wd_run w1)
     \<and> rr_model_calls (wd_run w1) = rr_model_calls (wd_run w) \<and> rr_tool_calls (wd_run w1) = rr_tool_calls (wd_run w)
     \<and> rr_result_submitted (wd_run w1) = rr_result_submitted (wd_run w))"

interpretation stopped: worker_frame stays_stopped
  by unfold_locales (auto simp: stays_stopped_def minor_def stop_state_def)

text \<open>Behind a check of the stop event anything may stand.\<close>

lemma stopped_guard:
  assumes "others_keep stays_stopped H" and "acts stays_stopped a"
  shows "acts stays_stopped (a_then (stopping H) (\<lambda>stop. if stop then a else b))"
  unfolding acts_def
proof
  fix w :: world
  let ?w1 = "(h_others H (wd_looks w) w)\<lparr> wd_looks := Suc (wd_looks w) \<rparr>"
  have w1: "stays_stopped w ?w1" using assms(1) by (auto simp: others_keep_def stays_stopped_def)
  have run: "a_then (stopping H) (\<lambda>stop. if stop then a else b) w = (if rr_stop_event (wd_run ?w1) then a ?w1 else b ?w1)"
    by (simp add: a_then_def stopping_def a_seq_def a_look_def a_get_def)
  show "stays_stopped w (snd (a_then (stopping H) (\<lambda>stop. if stop then a else b) w))"
  proof (cases "rr_stop_event (wd_run ?w1)")
    case True
    have "stays_stopped ?w1 (snd (a ?w1))" using assms(2) by (simp add: acts_def)
    with w1 have "stays_stopped w (snd (a ?w1))" by (rule stopped.W_trans)
    with run True show ?thesis by simp
  next
    case False
    then have "\<not> rr_stop_event (wd_run w)" using w1 by (auto simp: stays_stopped_def)
    then show ?thesis by (simp add: stays_stopped_def)
  qed
qed

lemma stopped_turns:
  assumes ok: "others_keep stays_stopped H"
  shows "acts stays_stopped (tool_turn H auth spec deadline cs conv)"
    and "acts stays_stopped (loop_turns H L n nudges conv)"
  by (cases cs; simp only: tool_turn.simps; intro stopped_guard stopped.acts_pure ok)
    (cases n; simp only: loop_turns.simps; intro stopped_guard stopped.acts_pure stopped.acts_messages ok)

lemma stopped_run_worker:
  assumes ok: "others_keep stays_stopped H"
  shows "acts stays_stopped (run_worker H)"
  unfolding run_worker_def work_and_submit_def worker_loop_def finish_worker_def fail_worker_def
  by (intro stopped_guard stopped.acts_struct stopped.acts_look stopped.acts_probes stopped.acts_messages
      stopped.acts_wait stopped_turns stopped.acts_requests stopped.acts_core_execute stopped.acts_core_read idle_reads
      stopped.acts_put ok)
    (auto simp: minor_def stop_state_def settle_writes_def settle_status_def)



subsection \<open>Model calls are bounded\<close>

definition same_calls :: "world \<Rightarrow> world \<Rightarrow> bool" where
  "same_calls w w1 \<longleftrightarrow> rr_model_calls (wd_run w1) = rr_model_calls (wd_run w)"

interpretation counted: worker_tool_frame same_calls
  by unfold_locales (auto simp: same_calls_def minor_def counts_tools_def)

text \<open>At most \<open>k\<close> more calls, and none beyond the budget \<open>b\<close>.\<close>

definition calls_within :: "nat \<Rightarrow> int \<Rightarrow> world \<Rightarrow> world \<Rightarrow> bool" where
  "calls_within k b w w1 \<longleftrightarrow> rr_model_calls (wd_run w1) \<le> rr_model_calls (wd_run w) + int k
     \<and> rr_model_calls (wd_run w1) \<le> max (rr_model_calls (wd_run w)) b"

lemma calls_same: "acts same_calls m \<Longrightarrow> acts (calls_within k b) m"
  by (auto simp: acts_def same_calls_def calls_within_def)

lemma calls_then:
  assumes "acts same_calls m" and "\<And>x. acts (calls_within k b) (f x)"
  shows "acts (calls_within k b) (a_then m f)"
  unfolding acts_def
proof
  fix w :: world
  obtain r w1 where m: "m w = (r, w1)" by (cases "m w")
  with assms(1) have "same_calls w w1" by (metis acts_def snd_conv)
  show "calls_within k b w (snd (a_then m f w))"
  proof (cases r)
    case (Inr x)
    have "calls_within k b w1 (snd (f x w1))" using assms(2) by (simp add: acts_def)
    with Inr m \<open>same_calls w w1\<close> show ?thesis by (simp add: a_then_def calls_within_def same_calls_def)
  next
    case (Inl e)
    with m \<open>same_calls w w1\<close> show ?thesis by (simp add: a_then_def calls_within_def same_calls_def)
  qed
qed

lemma calls_if: "acts (calls_within k b) x \<Longrightarrow> acts (calls_within k b) y \<Longrightarrow> acts (calls_within k b) (if c then x else y)"
  by simp

lemma calls_option:
  "acts (calls_within k b) a \<Longrightarrow> (\<And>x. acts (calls_within k b) (f x))
    \<Longrightarrow> acts (calls_within k b) (case v of None \<Rightarrow> a | Some x \<Rightarrow> f x)"
  by (cases v) simp_all

lemma calls_sum:
  "(\<And>x. acts (calls_within k b) (f x)) \<Longrightarrow> (\<And>x. acts (calls_within k b) (g x))
    \<Longrightarrow> acts (calls_within k b) (case v of Inl x \<Rightarrow> f x | Inr x \<Rightarrow> g x)"
  by (cases v) simp_all

lemma calls_prod: "(\<And>x y. acts (calls_within k b) (f x y)) \<Longrightarrow> acts (calls_within k b) (case v of (x, y) \<Rightarrow> f x y)"
  by (cases v) simp

lemma calls_let: "(\<And>x. acts (calls_within k b) (f x)) \<Longrightarrow> acts (calls_within k b) (let x = v in f x)"
  by (simp add: Let_def)

lemma calls_counting:
  assumes m: "acts same_calls m" and f: "\<And>x. acts same_calls (f x)" and y: "acts same_calls y"
    and k: "acts (calls_within k b) c"
  shows "acts (calls_within (Suc k) b) (a_then (a_get rr_model_calls) (\<lambda>calls.
    if stop then a_ret r else if b \<le> calls then y else
      a_then m (\<lambda>refused. if P refused then f refused
        else a_seq (a_put (\<lambda>r. r\<lparr> rr_model_calls := rr_model_calls r + 1 \<rparr>)) c)))"
    (is "acts _ ?all")
  unfolding acts_def
proof
  fix w :: world
  let ?calls = "rr_model_calls (wd_run w)"
  obtain x w1 where m1: "m w = (x, w1)" by (cases "m w")
  have same: "rr_model_calls (wd_run w1) = ?calls"
    using m m1 by (metis acts_def same_calls_def snd_conv)
  let ?w2 = "w1\<lparr> wd_run := (wd_run w1)\<lparr> rr_model_calls := rr_model_calls (wd_run w1) + 1 \<rparr> \<rparr>"
  have c: "calls_within k b ?w2 (snd (c ?w2))" using k by (simp add: acts_def)
  have y: "same_calls w (snd (y w))" and f: "same_calls w1 (snd (f v w1))" for v
    using y f by (simp_all add: acts_def)
  show "calls_within (Suc k) b w (snd (?all w))"
  proof (cases "stop \<or> b \<le> ?calls")
    case True
    with y show ?thesis by (auto simp: a_then_def a_get_def a_ret_def same_calls_def calls_within_def)
  next
    case False
    show ?thesis
    proof (cases x)
      case (Inl e)
      with False m1 same show ?thesis by (simp add: a_then_def a_get_def calls_within_def)
    next
      case (Inr v)
      with False m1 same c f [of v] show ?thesis
        by (cases "P v") (simp_all add: a_then_def a_get_def a_seq_def a_put_def same_calls_def calls_within_def)
    qed
  qed
qed

lemma calls_loop_turns:
  assumes ok: "others_keep same_calls H"
  shows "acts (calls_within n (li_call_budget L)) (loop_turns H L n nudges conv)"
proof (induction n arbitrary: nudges conv)
  case 0
  show ?case unfolding loop_turns.simps by (intro calls_same counted.acts_messages ok)
next
  case (Suc n)
  have over: "acts (calls_within k b) (finish_loop H x e)" for k b x e
    by (intro calls_same counted.acts_messages ok)
  have quit: "acts (calls_within k b) (a_ret x)" for k b and x :: loop_end
    by (intro calls_same counted.acts_pure)
  show ?case unfolding loop_turns.simps
    by (intro calls_counting calls_then calls_if calls_option calls_sum calls_prod calls_let over quit Suc.IH
        counted.acts_probes counted.acts_messages counted.acts_tool_turn counted.acts_if counted.acts_pure ok)
qed

lemma calls_within_mono: "calls_within k b w w1 \<Longrightarrow> k \<le> k' \<Longrightarrow> b \<le> b' \<Longrightarrow> calls_within k' b' w w1"
  by (auto simp: calls_within_def)

lemma calls_first:
  assumes "acts (calls_within k b) m" and "\<And>x. acts same_calls (f x)"
  shows "acts (calls_within k b) (a_then m f)"
  unfolding acts_def
proof
  fix w :: world
  obtain r w1 where m: "m w = (r, w1)" by (cases "m w")
  with assms(1) have "calls_within k b w w1" by (metis acts_def snd_conv)
  moreover have "same_calls w1 (snd (f x w1))" for x using assms(2) by (simp add: acts_def)
  ultimately show "calls_within k b w (snd (a_then m f w))"
    using m by (cases r) (simp_all add: a_then_def calls_within_def same_calls_def)
qed

lemma calls_catch:
  assumes "acts (calls_within k b) m" and "\<And>e. acts same_calls (h e)"
  shows "acts (calls_within k b) (a_catch m h)"
  unfolding acts_def
proof
  fix w :: world
  obtain r w1 where m: "m w = (r, w1)" by (cases "m w")
  with assms(1) have "calls_within k b w w1" by (metis acts_def snd_conv)
  moreover have "same_calls w1 (snd (h e w1))" for e using assms(2) by (simp add: acts_def)
  ultimately show "calls_within k b w (snd (a_catch m h w))"
    using m by (cases r) (simp_all add: a_catch_def calls_within_def same_calls_def)
qed

lemma calls_seq: "acts same_calls m \<Longrightarrow> acts (calls_within k b) c \<Longrightarrow> acts (calls_within k b) (a_seq m c)"
  unfolding a_seq_def by (rule calls_then)

lemma counted_ends:
  assumes ok: "others_keep same_calls H"
  shows "acts same_calls (submit_worker_result H auth spec final_content error)"
    "acts same_calls (finish_worker H a spec)"
  unfolding submit_worker_result_def finish_worker_def
  by (intro counted.acts_struct counted.acts_look counted.acts_messages counted.acts_core_execute ok;
      auto simp: acts_def a_put_def same_calls_def settle_writes_def settle_status_def split: option.split)+

text \<open>
  C25. Model calls are bounded. Whatever the model answers, a worker makes at most as many model calls as the
  adapter allows turns (at least one), and none that would take its count beyond the adapter's call limit (at
  least one); a tighter limit of the Run's contract lowers both. (Other threads leave the count alone.)
\<close>

theorem model_calls_bounded:
  assumes "\<forall>n w. rr_model_calls (wd_run (h_others H n w)) = rr_model_calls (wd_run w)"
  shows "rr_model_calls (wd_run (snd (run_worker H w))) \<le> rr_model_calls (wd_run w) + max 1 (h_max_turns H)
    \<and> rr_model_calls (wd_run (snd (run_worker H w))) \<le> max (rr_model_calls (wd_run w)) (max 1 (h_max_model_calls H))"
proof -
  have ok: "others_keep same_calls H" using assms by (simp add: others_keep_def same_calls_def)
  let ?k = "nat (max 1 (h_max_turns H))" and ?b = "max 1 (h_max_model_calls H)"
  have loop: "acts (calls_within ?k ?b) (loop_turns H L n nudges conv)"
    if "n \<le> ?k" "li_call_budget L \<le> ?b" for L n nudges conv
    using calls_loop_turns [OF ok, of n L nudges conv] calls_within_mono that unfolding acts_def by blast
  have "acts (calls_within ?k ?b) (worker_loop H auth spec run_input)" for auth spec run_input
    unfolding worker_loop_def
    by (intro calls_then counted.acts_messages counted.acts_probes counted.acts_requests counted.acts_pure ok loop) auto
  then have "acts (calls_within ?k ?b) (work_and_submit H auth spec run_input)" for auth spec run_input
    unfolding work_and_submit_def
    by (intro calls_first calls_catch calls_seq calls_then calls_if counted.acts_wait counted.acts_struct counted.acts_probes
        counted_ends ok calls_same [OF counted.acts_pure(1)])
      (auto intro: calls_first counted.acts_pure simp: acts_def a_put_def same_calls_def)
  note work = this
  have fail: "acts same_calls (fail_worker e)" for e by (rule counted.acts_messages(8) [OF ok])
  have finish: "acts same_calls (finish_worker H a spec)" for a spec by (rule counted_ends(2) [OF ok])
  have "acts (calls_within ?k ?b) (a_seq (a_catch (work_and_submit H auth spec run_input) fail_worker)
      (finish_worker H (Some auth) spec))" for auth spec run_input
    unfolding a_seq_def by (intro calls_first calls_catch work fail finish)
  then have "acts (calls_within ?k ?b) (run_worker H)"
    unfolding run_worker_def
    by (intro calls_then calls_sum calls_let calls_seq [OF fail] calls_same [OF finish]
        calls_seq [OF counted.acts_put] counted.acts_struct counted.acts_core_read idle_reads ok)
      (auto simp: minor_def stop_state_def)
  then have "calls_within ?k ?b w (snd (run_worker H w))" by (simp add: acts_def)
  moreover have "int ?k = max 1 (h_max_turns H)" by simp
  ultimately show ?thesis by (simp only: calls_within_def)
qed

theorem model_calls_bounded_witness:
  "rr_model_calls (wd_run (snd (run_worker sample_host (sample_world False sample_read_db)))) \<le> 2"
  using model_calls_bounded [of sample_host "sample_world False sample_read_db"]
  by (simp add: sample_host_def sample_world_def sample_record_def)

subsection \<open>What the model reads is on record\<close>

lemma a_then_Inr_iff: "a_then m f w = (Inr y, w1) \<longleftrightarrow> (\<exists>x w2. m w = (Inr x, w2) \<and> f x w2 = (Inr y, w1))"
  by (auto simp: a_then_def split: prod.split sum.split)

lemma a_ret_Inr_iff [simp]: "a_ret x w = (Inr y, w1) \<longleftrightarrow> x = y \<and> w = w1"
  by (auto simp: a_ret_def)

lemma register_tool_read_True:
  assumes "register_tool_read H auth spec parameters result w = (Inr True, w1)"
  shows "\<exists>response. core_execute H ''context_append'' auth (append_payload (wd_run w) spec parameters result) w
      = (Inr response, w1) \<and> cr_ok response
    \<and> py_str (jor (dget parameters ''path'') (JStr [])) \<noteq> [] \<and> py_str (jor (dget result ''sha256'') (JStr [])) \<noteq> []"
  using assms by (auto simp: register_tool_read_def a_catch_def a_then_Inr_iff a_get_def
      split: if_splits prod.splits sum.splits)

lemma dispatch_fs_read_ok:
  assumes "dispatch_fs H auth spec B ''fs.read'' parameters w = (Inr result, w1)"
    and "dget result ''status'' = JStr ''ok''"
  shows "\<exists>w0. register_tool_read H auth spec parameters result w0 = (Inr True, w1)"
proof -
  from assms(1) obtain outcome w2 where
    "(case outcome of
        Inl e \<Rightarrow> a_ret (error_result e)
      | Inr found \<Rightarrow>
         (if dget found ''status'' = JStr ''ok'' then a_then (register_tool_read H auth spec parameters found) (\<lambda>registered.
           a_ret (if registered then found
              else tool_error_result ''context_append_failed'' ''fs.read'' @ [(''path'', dget parameters ''path'')])) else a_ret found)) w2 = (Inr result, w1)"
    by (simp add: dispatch_fs_def fs_helper_def) (auto simp only: a_then_Inr_iff)
  with assms(2) show ?thesis
    by (cases outcome) (auto simp: a_then_Inr_iff tool_error_result_def error_result_def split: if_splits)
qed



end
