(* ===== verification/Ports.thy ===== *)
theory Ports
  imports Outbox
begin

text \<open>
  What the core relies on behind its ports (\<open>domain/ports.py\<close>). \<open>AgentAdapter\<close> is here the state of an adapter with a
  relation for everything that may happen to it: operations from any thread, its workers working and ending.
  A stop relates the state before, the answer and the state after. \<open>ExternalAdapter\<close> is a pair of operations and
  a count of what they did outside. Theory \<open>Adapter\<close> provides the first contract with the API worker,
  theory \<open>Doubles\<close> both with the doubles and with the router of the acceptance runner.
\<close>

subsection \<open>Agents\<close>

text \<open>
  The revocation protocol: what is revoked stays revoked, a revoked Run gets no new writer, and a stop answers as the core
  wants it (revoked, not alive, not writing) only if the Run is revoked and has no writer.
\<close>

locale agent_port =
  fixes agent_ok :: "'a \<Rightarrow> bool" and step :: "'a \<Rightarrow> 'a \<Rightarrow> bool"
    and revoked :: "string \<Rightarrow> 'a \<Rightarrow> bool" and writes :: "string \<Rightarrow> 'a \<Rightarrow> bool"
    and stops :: "string \<Rightarrow> 'a \<Rightarrow> dict \<Rightarrow> 'a \<Rightarrow> bool"
  assumes step_ok: "agent_ok A \<Longrightarrow> step A B \<Longrightarrow> agent_ok B"
    and revoked_stays: "agent_ok A \<Longrightarrow> step A B \<Longrightarrow> revoked i A \<Longrightarrow> revoked i B"
    and no_new_writer: "agent_ok A \<Longrightarrow> step A B \<Longrightarrow> revoked i A \<Longrightarrow> writes i B \<Longrightarrow> writes i A"
    and stop_ok: "agent_ok A \<Longrightarrow> stops i A answer B \<Longrightarrow> agent_ok B"
    and stop_quiet: "agent_ok A \<Longrightarrow> stops i A answer B \<Longrightarrow> stop_confirmed (JObj answer) \<Longrightarrow> revoked i B \<and> \<not> writes i B"
begin

lemma steps_ok: "step\<^sup>*\<^sup>* A B \<Longrightarrow> agent_ok A \<Longrightarrow> agent_ok B"
  by (induction rule: rtranclp_induct) (auto intro: step_ok)

lemma stays_quiet: "step\<^sup>*\<^sup>* A B \<Longrightarrow> agent_ok A \<Longrightarrow> revoked i A \<Longrightarrow> \<not> writes i A \<Longrightarrow> revoked i B \<and> \<not> writes i B"
proof (induction rule: rtranclp_induct)
  case (step B C)
  moreover have "agent_ok B" using step.hyps(1) step.prems(1) by (rule steps_ok)
  ultimately show ?case using revoked_stays no_new_writer by blast
qed simp

lemma confirmed_for_ever:
  assumes "agent_ok A" and "stops i A answer B" and "stop_confirmed (JObj answer)" and "step\<^sup>*\<^sup>* B C"
  shows "\<not> writes i C"
  using stays_quiet [OF assms(4) stop_ok [OF assms(1,2)]] stop_quiet [OF assms(1-3)] by blast

text \<open>The core frees the workspace of a Run on the answer of a stop only if nothing writes there any more, then and later.\<close>

lemma freed_for_ever:
  assumes "agent_ok A" and "stops rid A answer B" and later: "step\<^sup>*\<^sup>* B C"
    and ack: "ack_stop oid payload (JObj answer) s = (Inr (), t)" and clean: "clean s"
    and rid: "map_of (entries payload) ''run_id'' = Some (JStr rid)" "t_get ar_run_id rid (runs s) = Some row"
      "ar_workspace_id row = Some wsid" "wsid \<noteq> []"
    and ws: "t_get ws_workspace_id wsid (workspaces s) = Some w" "ws_owner_run_id w = Some rid"
    and freed: "t_peek ws_workspace_id wsid (workspaces t) = Some w1" "\<not> ws_writer_alive w1"
  shows "\<not> writes rid C"
proof -
  have "stop_confirmed (JObj answer)"
  proof (rule ccontr)
    assume "\<not> stop_confirmed (JObj answer)"
    from unconfirmed_ack_stop [OF ack clean this rid ws] freed show False by simp
  qed
  from confirmed_for_ever [OF assms(1,2) this later] show ?thesis .
qed

end

subsection \<open>External effects\<close>

text \<open>
  A dispatch carries an idempotency key; what it does outside it does at most once for a key, and what it reports as
  succeeded, or a query reports later, it has done.
\<close>

definition reports_success :: "dict \<Rightarrow> bool" where
  "reports_success receipt \<longleftrightarrow> dget receipt ''status'' = JStr ''succeeded''"

locale external_port =
  fixes external_ok :: "'a \<Rightarrow> bool" and dispatch :: "dict \<Rightarrow> 'a \<Rightarrow> (exn + dict) \<times> 'a"
    and query :: "string \<Rightarrow> string \<Rightarrow> 'a \<Rightarrow> dict option" and applied :: "string \<Rightarrow> 'a \<Rightarrow> nat"
  assumes dispatch_ok: "external_ok A \<Longrightarrow> external_ok (snd (dispatch e A))"
    and once: "external_ok A \<Longrightarrow> applied k A \<le> 1"
    and kept: "external_ok A \<Longrightarrow> applied k A \<le> applied k (snd (dispatch e A))"
    and dispatched: "external_ok A \<Longrightarrow> dispatch e A = (Inr receipt, B) \<Longrightarrow> reports_success receipt
      \<Longrightarrow> map_of e ''external_idempotency_key'' = Some v \<Longrightarrow> applied (py_str v) B = 1"
    and queried: "external_ok A \<Longrightarrow> query i k A = Some receipt \<Longrightarrow> reports_success receipt \<Longrightarrow> applied k A = 1"
begin

lemma dispatch_all_ok: "external_ok A \<Longrightarrow> external_ok (fold (\<lambda>e A. snd (dispatch e A)) es A)"
  by (induction es arbitrary: A) (simp_all add: dispatch_ok)

lemma applied_stays: "external_ok A \<Longrightarrow> applied k A \<le> applied k (fold (\<lambda>e A. snd (dispatch e A)) es A)"
proof (induction es arbitrary: A)
  case (Cons e es)
  show ?case using order_trans [OF kept [OF Cons.prems, of k e] Cons.IH [OF dispatch_ok [OF Cons.prems]]] by simp
qed simp

text \<open>However often an effect is sent again, once it is reported it has happened once, and so it stays.\<close>

lemma reported_is_applied_once:
  assumes "external_ok A" and "dispatch e A = (Inr receipt, B)" and "reports_success receipt"
    and "map_of e ''external_idempotency_key'' = Some v"
  shows "applied (py_str v) (fold (\<lambda>e A. snd (dispatch e A)) es B) = 1"
proof -
  have ok: "external_ok B" using dispatch_ok [OF assms(1), of e] assms(2) by simp
  have "applied (py_str v) B = 1" using dispatched [OF assms] .
  then show ?thesis using applied_stays [OF ok, of "py_str v" es] once [OF dispatch_all_ok [OF ok], of "py_str v" es] by linarith
qed

end

end
