(* ===== verification/Adapter.thy ===== *)
theory Adapter
  imports Worker_Safety Ports
begin

text \<open>
  \<open>ApiAgentAdapter\<close> of \<open>runtime/api_agent.py\<close> as the core sees it: \<open>start\<close>, \<open>send\<close>, \<open>stop\<close> and \<open>inspect\<close> over the
  table of Runs, each in the critical sections the lock gives it. \<open>stop\<close> is two of them with a join in between,
  during which other threads act. Whether a thread is alive is part of the state; a thread that has ended stays
  ended.
\<close>

subsection \<open>State and operations\<close>

record adapter =
  ad_runs :: "(string \<times> RunRecord) list"
  ad_threads :: "(string \<times> bool) list"
  ad_revoked :: "string list"
  ad_started :: "string list"

definition init_adapter :: adapter where
  "init_adapter = \<lparr> ad_runs = [], ad_threads = [], ad_revoked = [], ad_started = [] \<rparr>"

text \<open>A record as its constructor leaves it.\<close>

definition new_record :: "string \<Rightarrow> dict \<Rightarrow> RunRecord" where
  "new_record run_id run_spec = \<lparr> rr_run_id = run_id, rr_spec = run_spec, rr_task_id = None, rr_stop_event = False,
     rr_status = ''RUNNING'', rr_start_revoked = False, rr_alive = True, rr_writer_alive = True,
     rr_finished_writes = False, rr_result_submitted = False, rr_error = None, rr_stop_reason = None,
     rr_model_calls = 0, rr_tool_calls = 0, rr_tool_seq = 0, rr_artifact_refs = [], rr_published_paths = [],
     rr_pending_messages = [], rr_sandbox_exit_unconfirmed = False, rr_last_container_id = None \<rparr>"

definition thread_alive :: "adapter \<Rightarrow> string \<Rightarrow> bool" where
  "thread_alive A run_id \<longleftrightarrow> map_of (ad_threads A) run_id = Some True"

definition brief_state :: "string \<Rightarrow> bool \<Rightarrow> bool \<Rightarrow> string \<Rightarrow> bool \<Rightarrow> dict" where
  "brief_state run_id alive writer status revoked = [(''run_id'', JStr run_id), (''alive'', JBool alive),
     (''writer_alive'', JBool writer), (''status'', JStr status), (''start_revoked'', JBool revoked)]"

definition run_state :: "adapter \<Rightarrow> RunRecord \<Rightarrow> dict" where
  "run_state A r =
    (if rr_sandbox_exit_unconfirmed r \<or> rr_status r = ''STOP_UNCONFIRMED'' then
       [(''run_id'', JStr (rr_run_id r)), (''alive'', JBool True), (''writer_alive'', JBool True),
        (''status'', JStr ''STOP_UNCONFIRMED''), (''identity'', JStr (''local:'' @ rr_run_id r)),
        (''start_revoked'', JBool (rr_start_revoked r)), (''sandbox_exit_unconfirmed'', JBool True),
        (''container_id'', jopt (rr_last_container_id r))]
     else
       [(''run_id'', JStr (rr_run_id r)), (''alive'', JBool (thread_alive A (rr_run_id r))),
        (''writer_alive'', JBool (thread_alive A (rr_run_id r) \<and> rr_writer_alive r)),
        (''status'', JStr (rr_status r)), (''identity'', JStr (''local:'' @ rr_run_id r)),
        (''start_revoked'', JBool (rr_start_revoked r)), (''sandbox_exit_unconfirmed'', JBool False)])"

definition put_run :: "string \<Rightarrow> RunRecord \<Rightarrow> adapter \<Rightarrow> adapter" where
  "put_run run_id r A = A\<lparr> ad_runs := dset run_id r (ad_runs A) \<rparr>"

definition revoked_start_result :: "string \<Rightarrow> dict \<Rightarrow> adapter \<Rightarrow> dict \<times> adapter" where
  "revoked_start_result run_id run_spec A =
    (case map_of (ad_runs A) run_id of
       Some existing \<Rightarrow> (let r = existing\<lparr> rr_start_revoked := True \<rparr> in (run_state A r, put_run run_id r A))
     | None \<Rightarrow> (brief_state run_id False False ''REVOKED'' True,
         put_run run_id ((new_record run_id run_spec)\<lparr> rr_status := ''REVOKED'', rr_start_revoked := True,
           rr_alive := False, rr_writer_alive := False, rr_finished_writes := True \<rparr>) A))"

definition adapter_start :: "dict \<Rightarrow> adapter \<Rightarrow> (string + dict) \<times> adapter" where
  "adapter_start run_spec A =
    (case map_of run_spec ''run_id'' of
       None \<Rightarrow> (Inl ''KeyError: run_id'', A)
     | Some v \<Rightarrow>
        (let run_id = py_str v
         in if run_id \<in> set (ad_revoked A) then
              (let (answer, A1) = revoked_start_result run_id run_spec A in (Inr answer, A1))
            else case map_of (ad_runs A) run_id of
              Some existing \<Rightarrow> (Inr (run_state A existing), A)
            | None \<Rightarrow> (Inr (brief_state run_id True True ''RUNNING'' False),
                put_run run_id ((new_record run_id run_spec)\<lparr>
                    rr_task_id := str_or_none (jor (dget run_spec ''task_id'') (JStr [])) \<rparr>)
                  (A\<lparr> ad_started := ad_started A @ [run_id], ad_threads := dset run_id True (ad_threads A) \<rparr>))))"

definition adapter_send :: "string \<Rightarrow> dict \<Rightarrow> adapter \<Rightarrow> (string + unit) \<times> adapter" where
  "adapter_send run_id message A =
    (case map_of (ad_runs A) run_id of
       None \<Rightarrow> (Inl (''KeyError: '' @ run_id), A)
     | Some r \<Rightarrow> (Inr (), put_run run_id (r\<lparr> rr_pending_messages := rr_pending_messages r @ [message] \<rparr>) A))"

definition adapter_inspect :: "string \<Rightarrow> adapter \<Rightarrow> dict" where
  "adapter_inspect run_id A =
    (case map_of (ad_runs A) run_id of
       None \<Rightarrow> [(''run_id'', JStr run_id), (''alive'', JBool False), (''status'', JStr ''MISSING'')]
     | Some r \<Rightarrow> run_state A r)"

text \<open>
  The first critical section of \<open>stop\<close>: an answer, or nothing when the thread has to be joined. \<open>current\<close> is the
  Run whose worker calls, if any.
\<close>

definition unconfirmed_record :: "RunRecord \<Rightarrow> RunRecord" where
  "unconfirmed_record r = r\<lparr> rr_alive := True, rr_writer_alive := True, rr_status := ''STOP_UNCONFIRMED'' \<rparr>"

definition stop_begin :: "string option \<Rightarrow> string \<Rightarrow> string \<Rightarrow> adapter \<Rightarrow> dict option \<times> adapter" where
  "stop_begin current run_id reason A =
    (let A0 = A\<lparr> ad_revoked := (if run_id \<in> set (ad_revoked A) then ad_revoked A else ad_revoked A @ [run_id]) \<rparr>
     in case map_of (ad_runs A) run_id of
       None \<Rightarrow> (Some (brief_state run_id False False ''REVOKED'' True), A0)
     | Some found \<Rightarrow>
        (let r = found\<lparr> rr_start_revoked := True, rr_stop_reason := Some reason, rr_stop_event := True \<rparr>
         in if current = Some run_id \<and> rr_finished_writes r then
              (if rr_sandbox_exit_unconfirmed r then
                 (let r1 = unconfirmed_record r in (Some (run_state A r1), put_run run_id r1 A0))
               else (Some (brief_state run_id False False ''STOPPED'' True),
                 put_run run_id (r\<lparr> rr_alive := False, rr_writer_alive := False, rr_status := ''STOPPED'' \<rparr>) A0))
            else (None, put_run run_id r A0)))"

definition stop_end :: "string \<Rightarrow> adapter \<Rightarrow> dict \<times> adapter" where
  "stop_end run_id A =
    (case map_of (ad_runs A) run_id of
       None \<Rightarrow> ([], A)
     | Some r \<Rightarrow>
        (if rr_sandbox_exit_unconfirmed r then
           (let r1 = unconfirmed_record r in (run_state A r1, put_run run_id r1 A))
         else
           (let alive = thread_alive A run_id;
                r1 = r\<lparr> rr_alive := alive, rr_writer_alive := alive \<and> \<not> rr_finished_writes r,
                  rr_status := (if alive then rr_status r else ''STOPPED'') \<rparr>
            in (brief_state run_id alive (rr_writer_alive r1) (rr_status r1) True, put_run run_id r1 A))))"

text \<open>
  \<open>stop\<close>. \<open>during\<close> is what other threads do during the join. A thread that joins itself raises.
\<close>

definition adapter_stop :: "(adapter \<Rightarrow> adapter) \<Rightarrow> string option \<Rightarrow> string \<Rightarrow> string \<Rightarrow> adapter
    \<Rightarrow> (string + dict) \<times> adapter" where
  "adapter_stop during current run_id reason A =
    (case stop_begin current run_id reason A of
       (Some answer, A1) \<Rightarrow> (Inr answer, A1)
     | (None, A1) \<Rightarrow>
        (if map_of (ad_threads A1) run_id = None then (let (answer, A2) = stop_end run_id A1 in (Inr answer, A2))
         else if current = Some run_id then (Inl ''RuntimeError: cannot join current thread'', A1)
         else (let (answer, A2) = stop_end run_id (during A1) in (Inr answer, A2))))"

subsection \<open>Threads\<close>

text \<open>
  What happens between two looks at the table: an operation, a worker changing its own record (never what
  \<open>stop\<close> has written there), or a worker thread ending.
\<close>

inductive adapter_step :: "adapter \<Rightarrow> adapter \<Rightarrow> bool" where
  start: "adapter_step A (snd (adapter_start run_spec A))"
| send: "adapter_step A (snd (adapter_send run_id message A))"
| stop_first: "adapter_step A (snd (stop_begin current run_id reason A))"
| stop_last: "adapter_step A (snd (stop_end run_id A))"
| work: "map_of (ad_runs A) run_id = Some r \<Longrightarrow> stop_state r1 = stop_state r \<Longrightarrow> thread_alive A run_id
    \<Longrightarrow> adapter_step A (put_run run_id r1 A)"
| thread_end: "thread_alive A run_id \<Longrightarrow> adapter_step A (A\<lparr> ad_threads := dset run_id False (ad_threads A) \<rparr>)"

inductive_cases adapter_stepE: "adapter_step A B"

text \<open>The worker of theory \<open>Worker\<close> is such a worker: it never writes what \<open>stop\<close> has written.\<close>

definition own_record :: "world \<Rightarrow> world \<Rightarrow> bool" where
  "own_record w w1 \<longleftrightarrow> stop_state (wd_run w1) = stop_state (wd_run w)"

interpretation owned: worker_run_frame own_record
  by unfold_locales (auto simp: own_record_def minor_def counts_tools_def)

lemma worker_keeps_stop_state:
  assumes "\<forall>n w. stop_state (wd_run (h_others H n w)) = stop_state (wd_run w)"
  shows "stop_state (wd_run (snd (run_worker H w))) = stop_state (wd_run w)"
  using owned.acts_run_worker [of H] assms by (simp add: acts_def others_keep_def own_record_def)

subsection \<open>What the table keeps\<close>

definition adapter_ok :: "adapter \<Rightarrow> bool" where
  "adapter_ok A \<longleftrightarrow> distinct (ad_started A)
    \<and> (\<forall>i. map_of (ad_threads A) i \<noteq> None \<longleftrightarrow> i \<in> set (ad_started A))
    \<and> (\<forall>i \<in> set (ad_started A). map_of (ad_runs A) i \<noteq> None)
    \<and> (\<forall>i r. map_of (ad_runs A) i = Some r \<longrightarrow> rr_run_id r = i
        \<and> (i \<in> set (ad_revoked A) \<longrightarrow> rr_start_revoked r \<and> (i \<in> set (ad_started A) \<longrightarrow> rr_stop_event r)))"

lemma ad_put_run [simp]:
  "map_of (ad_runs (put_run i r A)) = (map_of (ad_runs A))(i |-> r)" "ad_threads (put_run i r A) = ad_threads A"
  "ad_revoked (put_run i r A) = ad_revoked A" "ad_started (put_run i r A) = ad_started A"
  by (simp_all add: put_run_def map_of_dset)

lemma adapter_ok_put:
  assumes "adapter_ok A" and "rr_run_id r = i"
    and "i \<in> set (ad_revoked A) \<Longrightarrow> rr_start_revoked r \<and> (i \<in> set (ad_started A) \<longrightarrow> rr_stop_event r)"
  shows "adapter_ok (put_run i r A)"
  using assms by (auto simp: adapter_ok_def)

lemma adapter_okD:
  assumes "adapter_ok A"
  shows "distinct (ad_started A)" "map_of (ad_threads A) i \<noteq> None \<longleftrightarrow> i \<in> set (ad_started A)"
    "map_of (ad_runs A) i = None \<Longrightarrow> i \<notin> set (ad_started A)"
    "map_of (ad_runs A) i = Some r \<Longrightarrow> rr_run_id r = i"
    "map_of (ad_runs A) i = Some r \<Longrightarrow> i \<in> set (ad_revoked A) \<Longrightarrow> rr_start_revoked r"
    "map_of (ad_runs A) i = Some r \<Longrightarrow> i \<in> set (ad_revoked A) \<Longrightarrow> i \<in> set (ad_started A) \<Longrightarrow> rr_stop_event r"
  using assms by (auto simp: adapter_ok_def)

text \<open>A record that differs only where the lock's sections of \<open>stop\<close> and the worker write.\<close>

lemma adapter_ok_same:
  assumes A: "adapter_ok A" and r: "map_of (ad_runs A) i = Some r" and same: "stop_state r1 = stop_state r"
  shows "adapter_ok (put_run i r1 A)"
  using adapter_okD [OF A] r same by (intro adapter_ok_put A) (auto simp: stop_state_def)

lemma start_ok: "adapter_ok A \<Longrightarrow> adapter_ok (snd (adapter_start run_spec A))"
proof (cases "map_of run_spec ''run_id''")
  case (Some v)
  assume A: "adapter_ok A"
  show ?thesis
  proof (cases "map_of (ad_runs A) (py_str v)")
    case None
    with A Some show ?thesis
      by (simp add: adapter_start_def revoked_start_result_def new_record_def Let_def)
        (auto simp: adapter_ok_def map_of_dset)
  next
    case (Some r)
    with A \<open>map_of run_spec ''run_id'' = Some v\<close> show ?thesis
      by (auto simp: adapter_start_def revoked_start_result_def Let_def intro!: adapter_ok_put dest: adapter_okD)
  qed
qed (simp add: adapter_start_def)

lemma stop_begin_ok: "adapter_ok A \<Longrightarrow> adapter_ok (snd (stop_begin current run_id reason A))"
  by (cases "map_of (ad_runs A) run_id")
    (auto simp: stop_begin_def adapter_ok_def unconfirmed_record_def Let_def)

lemma stop_end_ok: "adapter_ok A \<Longrightarrow> adapter_ok (snd (stop_end run_id A))"
  by (cases "map_of (ad_runs A) run_id")
    (auto simp: stop_end_def unconfirmed_record_def stop_state_def Let_def intro!: adapter_ok_same)

lemma adapter_step_ok: "adapter_step A B \<Longrightarrow> adapter_ok A \<Longrightarrow> adapter_ok B"
proof (induction rule: adapter_step.induct)
  case (send A run_id message)
  then show ?case
    by (cases "map_of (ad_runs A) run_id") (auto simp: adapter_send_def stop_state_def intro!: adapter_ok_same)
next
  case (thread_end A run_id)
  then show ?case by (auto simp: adapter_ok_def thread_alive_def map_of_dset)
qed (simp_all add: start_ok stop_begin_ok stop_end_ok adapter_ok_same)

definition adapter_reachable :: "adapter \<Rightarrow> bool" where
  "adapter_reachable A \<longleftrightarrow> adapter_step\<^sup>*\<^sup>* init_adapter A"

lemma adapter_steps_ok: "adapter_step\<^sup>*\<^sup>* A B \<Longrightarrow> adapter_ok A \<Longrightarrow> adapter_ok B"
  by (induction rule: rtranclp_induct) (auto intro: adapter_step_ok)

lemma adapter_ok_init: "adapter_ok init_adapter"
  unfolding adapter_ok_def init_adapter_def adapter.simps by simp

lemma adapter_reachable_ok: "adapter_reachable A \<Longrightarrow> adapter_ok A"
  unfolding adapter_reachable_def by (rule adapter_steps_ok [OF _ adapter_ok_init])

lemma adapter_reachable_steps: "adapter_reachable A \<Longrightarrow> adapter_step\<^sup>*\<^sup>* A B \<Longrightarrow> adapter_reachable B"
  unfolding adapter_reachable_def by (rule rtranclp_trans)

text \<open>Nothing is unrevoked, a revoked Run gets no thread, and a thread that ended stays ended.\<close>

definition adapter_le :: "adapter \<Rightarrow> adapter \<Rightarrow> bool" where
  "adapter_le A B \<longleftrightarrow> set (ad_revoked A) \<subseteq> set (ad_revoked B)
    \<and> (\<forall>i \<in> set (ad_revoked A). i \<in> set (ad_started B) \<longleftrightarrow> i \<in> set (ad_started A))
    \<and> (\<forall>i. map_of (ad_threads A) i = Some False \<longrightarrow> map_of (ad_threads B) i = Some False)"

lemma adapter_le_refl: "adapter_le A A"
  by (simp add: adapter_le_def)

lemma adapter_le_trans: "adapter_le A B \<Longrightarrow> adapter_le B C \<Longrightarrow> adapter_le A C"
  by (auto simp: adapter_le_def)

lemma adapter_le_put: "adapter_le A (put_run i r A)"
  by (simp add: adapter_le_def)

lemma adapter_step_le: "adapter_step A B \<Longrightarrow> adapter_ok A \<Longrightarrow> adapter_le A B"
proof (induction rule: adapter_step.induct)
  case (start A run_spec)
  have "map_of (ad_threads A) i = None" if "map_of (ad_runs A) i = None" for i
    using adapter_okD(2,3) [OF start, of i] that by blast
  then show ?case
    by (auto simp: adapter_start_def revoked_start_result_def Let_def adapter_le_def map_of_dset split: option.splits)
next
  case (send A run_id message)
  then show ?case by (simp add: adapter_send_def adapter_le_put adapter_le_refl split: option.split)
next
  case (stop_first A current run_id reason)
  then show ?case by (auto simp: stop_begin_def adapter_le_def Let_def split: option.split)
next
  case (stop_last A run_id)
  then show ?case by (auto simp: stop_end_def adapter_le_put adapter_le_refl Let_def split: option.split)
next
  case (work A run_id r r1)
  then show ?case by (simp add: adapter_le_put)
next
  case (thread_end A run_id)
  then show ?case by (auto simp: adapter_le_def map_of_dset)
qed

lemma adapter_steps_le: "adapter_step\<^sup>*\<^sup>* A B \<Longrightarrow> adapter_ok A \<Longrightarrow> adapter_le A B"
proof (induction rule: rtranclp_induct)
  case (step B C)
  then have "adapter_le A B" "adapter_le B C" by (auto intro: adapter_step_le adapter_steps_ok)
  then show ?case by (rule adapter_le_trans)
qed (rule adapter_le_refl)

subsection \<open>At most one thread, none after a stop\<close>

text \<open>
  A stopped Run never starts. However operations, workers and endings interleave, no Run is started twice;
  once a Run is revoked it is never started any more, its running worker has its stop event set for ever, and a
  thread that has ended never comes back.
\<close>

theorem revoked_never_starts:
  assumes "adapter_reachable A" and "adapter_step\<^sup>*\<^sup>* A B"
  shows "distinct (ad_started B) \<and> (\<forall>i \<in> set (ad_revoked A). (i \<in> set (ad_started B) \<longleftrightarrow> i \<in> set (ad_started A))
      \<and> (\<forall>r. map_of (ad_runs B) i = Some r \<and> i \<in> set (ad_started B) \<longrightarrow> rr_stop_event r))
    \<and> (\<forall>i. map_of (ad_threads A) i = Some False \<longrightarrow> \<not> thread_alive B i)"
proof -
  have A: "adapter_ok A" and B: "adapter_ok B"
    using assms adapter_reachable_ok adapter_reachable_steps by blast+
  note le = adapter_steps_le [OF assms(2) A]
  have "rr_stop_event r" if "i \<in> set (ad_revoked A)" "map_of (ad_runs B) i = Some r" "i \<in> set (ad_started B)" for i r
    using adapter_okD(6) [OF B that(2)] le that by (auto simp: adapter_le_def)
  with le adapter_okD(1) [OF B] show ?thesis by (auto simp: adapter_le_def thread_alive_def)
qed

definition sample_started :: adapter where
  "sample_started = snd (adapter_start [(''run_id'', JStr ''r'')] init_adapter)"

lemma sample_started_reachable: "adapter_reachable sample_started"
  unfolding adapter_reachable_def sample_started_def by (rule r_into_rtranclp) (rule adapter_step.start)

theorem revoked_never_starts_witness:
  "distinct (ad_started (snd (adapter_start [(''run_id'', JStr ''r'')] (snd (stop_begin None ''q'' ''why'' sample_started)))))
    \<and> ''q'' \<notin> set (ad_started (snd (adapter_start [(''run_id'', JStr ''q'')] (snd (stop_begin None ''q'' ''why'' sample_started)))))"
proof -
  let ?A = "snd (stop_begin None ''q'' ''why'' sample_started)"
  have A: "adapter_reachable ?A"
    by (rule adapter_reachable_steps [OF sample_started_reachable]) (rule r_into_rtranclp, rule adapter_step.stop_first)
  have step: "adapter_step\<^sup>*\<^sup>* ?A (snd (adapter_start spec ?A))" for spec
    by (rule r_into_rtranclp) (rule adapter_step.start)
  have "''q'' \<in> set (ad_revoked ?A)" "''q'' \<notin> set (ad_started ?A)" by code_simp+
  then show ?thesis
    using revoked_never_starts [OF A step, of "[(''run_id'', JStr ''r'')]"] revoked_never_starts [OF A step, of "[(''run_id'', JStr ''q'')]"]
    by blast
qed

subsection \<open>What a confirmed stop means\<close>

text \<open>
  The Run has no writer: it was never started or its thread has ended, or it is the Run's own worker that asks,
  with its writes finished; and no container of it is left unconfirmed.
\<close>

definition quiet :: "string option \<Rightarrow> string \<Rightarrow> adapter \<Rightarrow> bool" where
  "quiet current i A \<longleftrightarrow> i \<in> set (ad_revoked A)
    \<and> (case map_of (ad_runs A) i of None \<Rightarrow> True | Some r \<Rightarrow> \<not> rr_sandbox_exit_unconfirmed r)
    \<and> (thread_alive A i \<longrightarrow> current = Some i \<and> (case map_of (ad_runs A) i of None \<Rightarrow> False | Some r \<Rightarrow> rr_finished_writes r))"

lemma confirmed_brief [simp]:
  "stop_confirmed (JObj (brief_state i alive writer status revoked)) \<longleftrightarrow> revoked \<and> \<not> alive \<and> \<not> writer"
  by (auto simp: stop_confirmed_def brief_state_def jget_def)

lemma unconfirmed_run_state [simp]:
  "rr_sandbox_exit_unconfirmed r \<Longrightarrow> \<not> stop_confirmed (JObj (run_state A r))"
  by (simp add: stop_confirmed_def run_state_def jget_def)

lemma not_confirmed_empty [simp]: "\<not> stop_confirmed (JObj [])"
  by (simp add: stop_confirmed_def jget_def)

lemma stop_begin_quiet:
  assumes "adapter_ok A" and "stop_begin current i reason A = (Some answer, B)" and "stop_confirmed (JObj answer)"
  shows "quiet current i B"
proof (cases "map_of (ad_runs A) i")
  case None
  then have "\<not> thread_alive A i" using adapter_okD(2,3) [OF assms(1), of i] by (auto simp: thread_alive_def)
  with None assms(2) show ?thesis by (auto simp: stop_begin_def Let_def quiet_def thread_alive_def)
next
  case (Some r)
  with assms(2,3) show ?thesis
    by (auto simp: stop_begin_def Let_def quiet_def unconfirmed_record_def split: if_splits)
qed

lemma stop_end_quiet:
  assumes "stop_end i A = (answer, B)" and "stop_confirmed (JObj answer)" and "i \<in> set (ad_revoked A)"
  shows "quiet current i B"
  using assms
  by (auto simp: stop_end_def Let_def quiet_def unconfirmed_record_def thread_alive_def split: option.splits if_splits)

lemma quiet_after_stop:
  assumes A: "adapter_ok A" and during: "\<forall>A1. adapter_step\<^sup>*\<^sup>* A1 (during A1)"
    and stop: "adapter_stop during current i reason A = (Inr answer, B)" and c: "stop_confirmed (JObj answer)"
  shows "quiet current i B" and "adapter_ok B"
proof -
  obtain first A1 where begin1: "stop_begin current i reason A = (first, A1)" by (cases "stop_begin current i reason A")
  have A1: "adapter_step A A1" using adapter_step.stop_first [of A current i reason] begin1 by simp
  have ok1: "adapter_ok A1" using adapter_step_ok [OF A1 A] .
  have revoked: "i \<in> set (ad_revoked A1)"
    using begin1 by (auto simp: stop_begin_def Let_def split: option.splits if_splits)
  have ok2: "adapter_ok (during A1)" "i \<in> set (ad_revoked (during A1))"
    using adapter_steps_ok [of A1 "during A1"] adapter_steps_le [of A1 "during A1"] during ok1 revoked
    by (auto simp: adapter_le_def)
  have "quiet current i B \<and> adapter_ok B"
  proof (cases first)
    case (Some a)
    with stop begin1 have "a = answer" "A1 = B" by (auto simp: adapter_stop_def)
    with Some begin1 show ?thesis using stop_begin_quiet [OF A _ c] ok1 by simp
  next
    case None
    then obtain A2 where "adapter_ok A2" "i \<in> set (ad_revoked A2)" "stop_end i A2 = (answer, B)"
      using stop begin1 ok1 ok2 revoked by (auto simp: adapter_stop_def Let_def split: if_splits prod.splits)
    then show ?thesis using stop_end_quiet [OF _ c] stop_end_ok by (metis snd_conv)
  qed
  then show "quiet current i B" and "adapter_ok B" by blast+
qed

lemma quiet_for_ever:
  assumes "quiet current i B" and "adapter_ok B" and "adapter_step\<^sup>*\<^sup>* B C" and "current \<noteq> Some i"
  shows "\<not> thread_alive C i"
proof -
  have dead: "\<not> thread_alive B i" and rev: "i \<in> set (ad_revoked B)" using assms(1,4) by (auto simp: quiet_def)
  note le = adapter_steps_le [OF assms(3,2)]
  show ?thesis
  proof (cases "map_of (ad_threads B) i")
    case None
    then have "i \<notin> set (ad_started C)" using adapter_okD(2) [OF assms(2), of i] le rev by (auto simp: adapter_le_def)
    then show ?thesis using adapter_okD(2) [OF adapter_steps_ok [OF assms(3,2)], of i] by (auto simp: thread_alive_def)
  next
    case (Some alive)
    with dead le show ?thesis by (auto simp: thread_alive_def adapter_le_def)
  qed
qed

text \<open>
  A confirmed stop is quiet. Whatever other threads do while \<open>stop\<close> waits for the thread, if its answer is one
  the core takes for a confirmed stop (revoked, not alive, not writing) then the Run is revoked, has no container
  left unconfirmed, and its thread has ended, unless the caller is that Run's own worker with its writes finished;
  no later operation brings a thread of the Run back.
\<close>

theorem confirmed_stop_is_quiet:
  assumes "adapter_reachable A" and during: "\<forall>A1. adapter_step\<^sup>*\<^sup>* A1 (during A1)"
    and stop: "adapter_stop during current i reason A = (Inr answer, B)"
    and confirmed: "jget (JObj answer) ''start_revoked'' = JBool True" "jget (JObj answer) ''alive'' = JBool False"
      "jget (JObj answer) ''writer_alive'' = JBool False"
    and later: "adapter_step\<^sup>*\<^sup>* B C"
  shows "quiet current i B \<and> (thread_alive C i \<longrightarrow> current = Some i)"
proof -
  have "stop_confirmed (JObj answer)" using confirmed by (simp add: stop_confirmed_def)
  note quiet = quiet_after_stop [OF adapter_reachable_ok [OF assms(1)] during stop this]
  with quiet_for_ever [OF quiet later] show ?thesis by blast
qed

text \<open>While the stop of a sample Run waits, its thread ends.\<close>

definition sample_end :: "adapter \<Rightarrow> adapter" where
  "sample_end A = (if thread_alive A ''r'' then A\<lparr> ad_threads := dset ''r'' False (ad_threads A) \<rparr> else A)"

theorem confirmed_stop_is_quiet_witness:
  "quiet None ''r'' (snd (adapter_stop sample_end None ''r'' ''why'' sample_started))"
proof -
  let ?B = "snd (adapter_stop sample_end None ''r'' ''why'' sample_started)"
  let ?answer = "brief_state ''r'' False False ''STOPPED'' True"
  have "fst (adapter_stop sample_end None ''r'' ''why'' sample_started) = Inr ?answer" by code_simp
  then have stop: "adapter_stop sample_end None ''r'' ''why'' sample_started = (Inr ?answer, ?B)"
    by (metis prod.collapse)
  have during: "\<forall>A1. adapter_step\<^sup>*\<^sup>* A1 (sample_end A1)"
    by (auto simp: sample_end_def intro: r_into_rtranclp adapter_step.thread_end)
  have "jget (JObj ?answer) ''start_revoked'' = JBool True" "jget (JObj ?answer) ''alive'' = JBool False"
    "jget (JObj ?answer) ''writer_alive'' = JBool False" by code_simp+
  from confirmed_stop_is_quiet [OF sample_started_reachable during stop this rtranclp.rtrancl_refl] show ?thesis by blast
qed



subsection \<open>The adapter behind its port\<close>

text \<open>A stop from outside: the core asks, and other threads act while it waits.\<close>

definition adapter_stops :: "string \<Rightarrow> adapter \<Rightarrow> dict \<Rightarrow> adapter \<Rightarrow> bool" where
  "adapter_stops i A answer B \<longleftrightarrow> (\<exists>during reason. (\<forall>A1. adapter_step\<^sup>*\<^sup>* A1 (during A1))
     \<and> adapter_stop during None i reason A = (Inr answer, B))"

lemma stop_keeps_ok:
  assumes "adapter_ok A" and "\<forall>A1. adapter_step\<^sup>*\<^sup>* A1 (during A1)"
  shows "adapter_ok (snd (adapter_stop during current i reason A))"
proof -
  have ok: "adapter_ok (snd (stop_begin current i reason A))" using assms(1) by (rule stop_begin_ok)
  then have "adapter_ok (during (snd (stop_begin current i reason A)))" using adapter_steps_ok assms(2) by blast
  with ok show ?thesis
    by (auto simp: adapter_stop_def case_prod_beta Let_def stop_end_ok split: option.split)
qed

interpretation api: agent_port adapter_ok adapter_step "\<lambda>i A. i \<in> set (ad_revoked A)" "\<lambda>i A. thread_alive A i" adapter_stops
proof
  fix A B i assume ok: "adapter_ok A" and step: "adapter_step A B"
  show "adapter_ok B" using step ok by (rule adapter_step_ok)
  note le = adapter_step_le [OF step ok]
  show "i \<in> set (ad_revoked B)" if "i \<in> set (ad_revoked A)" using le that by (auto simp: adapter_le_def)
  show "thread_alive A i" if "i \<in> set (ad_revoked A)" "thread_alive B i"
  proof (rule ccontr)
    assume dead: "\<not> thread_alive A i"
    show False
    proof (cases "map_of (ad_threads A) i")
      case None
      then have "i \<notin> set (ad_started B)" using adapter_okD(2) [OF ok, of i] le that(1) by (auto simp: adapter_le_def)
      then show False using adapter_okD(2) [OF adapter_step_ok [OF step ok], of i] that(2) by (auto simp: thread_alive_def)
    next
      case (Some alive)
      with dead le that(2) show False by (auto simp: thread_alive_def adapter_le_def)
    qed
  qed
next
  fix A B i answer assume ok: "adapter_ok A" and stops: "adapter_stops i A answer B"
  then obtain during reason where during: "\<forall>A1. adapter_step\<^sup>*\<^sup>* A1 (during A1)"
    and stop: "adapter_stop during None i reason A = (Inr answer, B)" unfolding adapter_stops_def by blast
  show "adapter_ok B" using stop_keeps_ok [OF ok during, of None i reason] stop by simp
  assume "stop_confirmed (JObj answer)"
  from quiet_after_stop(1) [OF ok during stop this]
  show "i \<in> set (ad_revoked B) \<and> \<not> thread_alive B i" by (auto simp: quiet_def)
qed

text \<open>
  When a worker ends with a container unconfirmed, its own \<open>confirm_run_exit\<close> makes the core stop it on this very
  thread. The answer \<open>STOP_UNCONFIRMED\<close> that \<open>stop\<close> has for its own thread needs finished writes, which an
  unconfirmed container excludes; so the thread joins itself and \<open>stop\<close> raises.
\<close>

lemma own_unconfirmed_stop_raises:
  assumes "map_of (ad_runs A) i = Some (settle_writes r)" and "rr_sandbox_exit_unconfirmed r"
    and "thread_alive A i"
  shows "fst (adapter_stop during (Some i) i reason A) = Inl ''RuntimeError: cannot join current thread''"
  using assms by (simp add: adapter_stop_def stop_begin_def settle_writes_def thread_alive_def Let_def)

text \<open>A later container that is gone clears the mark an earlier one, never confirmed, has left.\<close>

lemma later_exit_clears_earlier:
  "rr_sandbox_exit_unconfirmed (note_exit False first r) \<and> \<not> rr_sandbox_exit_unconfirmed (note_exit True second (note_exit False first r))"
  by (simp add: note_exit_def)

end
