(* ===== verification/Sandbox.thy ===== *)
theory Sandbox
  imports Worker
begin

text \<open>
  \<open>tools/sandbox.py\<close>: one hardened container per command through the Docker command line. The driver checks its
  limits, its specification and every command, builds the argument list, and watches the client process until it
  ends, is cancelled, or runs out of time; then it decides whether the container is gone.

  The operating system and Docker are a record of answers: what each read of the pipes, each poll, each look at
  the clock (in milliseconds) and at the container id file gives, and what \<open>docker kill\<close> and \<open>docker inspect\<close>
  reply. The watching loop has fuel; \<open>None\<close> means that it ran out.
\<close>

subsection \<open>Values\<close>

text \<open>
  A Python value the driver is handed: of a \<open>float\<close> only what the code asks of it (is it at most zero, its
  integer part unless it is not a number or infinite, its text), an event, or plain data.
\<close>

record pyfloat =
  fl_at_most_zero :: bool
  fl_int :: "int option"
  fl_text :: string

datatype arg = Plain json | Float pyfloat | Event

definition arg_text :: "arg \<Rightarrow> string" where
  "arg_text v = (case v of Plain j \<Rightarrow> py_str j | Float x \<Rightarrow> fl_text x | Event \<Rightarrow> [])"

definition positive_int :: "arg \<Rightarrow> bool" where
  "positive_int v \<longleftrightarrow> (case v of Plain (JInt n) \<Rightarrow> 0 < n | _ \<Rightarrow> False)"

definition positive_number :: "arg \<Rightarrow> bool" where
  "positive_number v \<longleftrightarrow> (case v of Plain (JInt n) \<Rightarrow> 0 < n | Float x \<Rightarrow> \<not> fl_at_most_zero x | _ \<Rightarrow> False)"

text \<open>
  Lower case as a case-insensitive pattern sees it: besides the letters, the Kelvin sign is a \<open>k\<close>, and (for a
  pattern, not for \<open>str.lower\<close>) the long s an \<open>s\<close>.
\<close>

function fold_case :: "bool \<Rightarrow> string \<Rightarrow> string" where
  "fold_case pattern [] = []"
| "fold_case pattern (c # s) =
    (if starts_with (map char_of [226, 132, 170 :: nat]) (c # s) then CHR ''k'' # fold_case pattern (drop 2 s)
     else if pattern \<and> starts_with (map char_of [197, 191 :: nat]) (c # s) then CHR ''s'' # fold_case pattern (drop 1 s)
     else to_lower c # fold_case pattern s)"
  by pat_completeness auto

termination by (relation "measure (\<lambda>(_, s). length s)") auto

definition CREDENTIAL_WORDS :: "string list" where
  "CREDENTIAL_WORDS = [''key'', ''token'', ''secret'', ''password'', ''credential'']"

definition credential_key :: "string \<Rightarrow> bool" where
  "credential_key k \<longleftrightarrow> (\<exists>w \<in> set CREDENTIAL_WORDS. sublist w (fold_case True k))"

definition DAEMON_ERROR_MARKERS :: "string list" where
  "DAEMON_ERROR_MARKERS = [''cannot connect to the docker daemon'', ''is the docker daemon running'',
     ''error during connect'', ''docker daemon is not running'']"

definition looks_like_daemon_failure :: "string \<Rightarrow> bool" where
  "looks_like_daemon_failure stderr \<longleftrightarrow> (\<exists>m \<in> set DAEMON_ERROR_MARKERS. sublist m (fold_case False stderr))"

text \<open>The environment of the command line client: the process's own, less what looks like a credential.\<close>

definition docker_cli_env :: "(string \<times> string) list \<Rightarrow> (string \<times> string) list" where
  "docker_cli_env environ = filter (\<lambda>(k, _). \<not> credential_key k) environ"

subsection \<open>Limits, specification, commands\<close>

record SandboxLimits =
  lm_memory_mb :: arg
  lm_memory_swap_mb :: arg
  lm_cpus :: arg
  lm_pids :: arg
  lm_wall_timeout_s :: arg
  lm_stop_grace_s :: arg
  lm_nofile :: arg

definition default_limits :: SandboxLimits where
  "default_limits = \<lparr> lm_memory_mb = Plain (JInt 512), lm_memory_swap_mb = Plain (JInt 512),
     lm_cpus = Float \<lparr> fl_at_most_zero = False, fl_int = Some 1, fl_text = ''1.0'' \<rparr>, lm_pids = Plain (JInt 128),
     lm_wall_timeout_s = Plain (JInt 120), lm_stop_grace_s = Plain (JInt 5), lm_nofile = Plain (JInt 256) \<rparr>"

text \<open>The constructors' checks: the first complaint, if any.\<close>

definition limits_error :: "SandboxLimits \<Rightarrow> string option" where
  "limits_error L =
    (case find (\<lambda>(_, v). \<not> positive_int v) [(''memory_mb'', lm_memory_mb L), (''memory_swap_mb'', lm_memory_swap_mb L),
       (''pids'', lm_pids L), (''wall_timeout_s'', lm_wall_timeout_s L), (''stop_grace_s'', lm_stop_grace_s L),
       (''nofile'', lm_nofile L)] of
       Some (name, _) \<Rightarrow> Some name
     | None \<Rightarrow> if positive_number (lm_cpus L) then None else Some ''cpus'')"

record SandboxSpec =
  sp_image :: arg
  sp_workspace_host_path :: arg
  sp_readonly_host_paths :: "(arg \<times> arg) list"
  sp_limits :: SandboxLimits
  sp_env :: "(arg \<times> arg) list option"

definition WORKSPACE_MOUNT :: string where
  "WORKSPACE_MOUNT = ''/workspace''"

text \<open>\<open>real\<close> is \<open>os.path.realpath\<close>.\<close>

definition DOCKER_SOCKET_PATHS :: "(string \<Rightarrow> string) \<Rightarrow> string list" where
  "DOCKER_SOCKET_PATHS real = map real [''/var/run/docker.sock'', ''/run/docker.sock'']"

definition mount_path_error :: "(string \<Rightarrow> string) \<Rightarrow> arg \<Rightarrow> string \<Rightarrow> string option" where
  "mount_path_error real path label =
    (case path of
       Plain (JStr p) \<Rightarrow> if \<not> starts_with ''/'' p then Some label
         else if real p \<in> set (DOCKER_SOCKET_PATHS real) then Some (label @ '' socket'') else None
     | _ \<Rightarrow> Some label)"

definition env_error :: "arg \<times> arg \<Rightarrow> string option" where
  "env_error entry =
    (case entry of
       (Plain (JStr k), Plain (JStr v)) \<Rightarrow> if credential_key k then Some ''credential'' else None
     | _ \<Rightarrow> Some ''env'')"

definition readonly_error :: "(string \<Rightarrow> string) \<Rightarrow> arg \<times> arg \<Rightarrow> string option" where
  "readonly_error real entry =
    (case mount_path_error real (fst entry) ''readonly_host_paths'' of
       Some e \<Rightarrow> Some e
     | None \<Rightarrow> (case snd entry of
         Plain (JStr c) \<Rightarrow> if \<not> starts_with ''/'' c then Some ''container path''
           else if rstrip_slash c = WORKSPACE_MOUNT then Some ''shadow'' else None
       | _ \<Rightarrow> Some ''container path''))"

definition first_error :: "('a \<Rightarrow> string option) \<Rightarrow> 'a list \<Rightarrow> string option" where
  "first_error f xs = first_of (concat (map (\<lambda>x. case f x of None \<Rightarrow> [] | Some e \<Rightarrow> [e]) xs))"

definition spec_error :: "(string \<Rightarrow> string) \<Rightarrow> SandboxSpec \<Rightarrow> string option" where
  "spec_error real S =
    (case sp_image S of
       Plain (JStr (c # cs)) \<Rightarrow>
         (case sp_env S of
            None \<Rightarrow> Some ''env''
          | Some env \<Rightarrow>
             (case first_error env_error env of
                Some e \<Rightarrow> Some e
              | None \<Rightarrow>
                 (case mount_path_error real (sp_workspace_host_path S) ''workspace_host_path'' of
                    Some e \<Rightarrow> Some e
                  | None \<Rightarrow> first_error (readonly_error real) (sp_readonly_host_paths S))))
     | _ \<Rightarrow> Some ''image'')"

record sandbox_cmd =
  cm_argv :: "string list"
  cm_cwd :: string
  cm_stdin :: "string option"
  cm_timeout_s :: "int option"

type_synonym command = "(string \<times> arg) list"

definition arg_or :: "command \<Rightarrow> string \<Rightarrow> arg \<Rightarrow> arg" where
  "arg_or command k v = (case map_of command k of None \<Rightarrow> v | Some x \<Rightarrow> x)"

definition valid_argv :: "arg \<Rightarrow> string list option" where
  "valid_argv v =
    (case v of
       Plain (JList (x # xs)) \<Rightarrow>
         if list_all (\<lambda>i. case i of JStr s \<Rightarrow> s \<noteq> [] | _ \<Rightarrow> False) (x # xs) then Some (map py_str (x # xs)) else None
     | _ \<Rightarrow> None)"

definition valid_cwd :: "arg \<Rightarrow> string option" where
  "valid_cwd v = (case v of Plain (JStr c) \<Rightarrow> if starts_with ''/'' c then Some c else None | _ \<Rightarrow> None)"

text \<open>\<open>None\<close>: refused; \<open>Some None\<close>: not given. \<open>int()\<close> of a \<open>float\<close> drops the fraction.\<close>

definition valid_stdin :: "arg \<Rightarrow> string option option" where
  "valid_stdin v = (case v of Plain JNull \<Rightarrow> Some None | Plain (JStr t) \<Rightarrow> Some (Some t) | _ \<Rightarrow> None)"

definition valid_timeout :: "arg \<Rightarrow> int option option" where
  "valid_timeout v =
    (if v = Plain JNull then Some None
     else if \<not> positive_number v then None
     else case v of Plain (JInt n) \<Rightarrow> Some (Some n) | Float x \<Rightarrow> map_option Some (fl_int x) | _ \<Rightarrow> None)"

text \<open>A command that is refused raises.\<close>

definition validate_command :: "command \<Rightarrow> string + sandbox_cmd" where
  "validate_command command =
    (case (valid_argv (arg_or command ''argv'' (Plain JNull)), valid_cwd (arg_or command ''cwd'' (Plain (JStr WORKSPACE_MOUNT))),
        valid_stdin (arg_or command ''stdin'' (Plain JNull)), valid_timeout (arg_or command ''timeout_s'' (Plain JNull))) of
       (Some argv, Some cwd, Some stdin, Some timeout) \<Rightarrow>
         Inr \<lparr> cm_argv = argv, cm_cwd = cwd, cm_stdin = stdin, cm_timeout_s = timeout \<rparr>
     | _ \<Rightarrow> Inl ''refused'')"

definition wall_timeout :: "SandboxSpec \<Rightarrow> int" where
  "wall_timeout S = (case lm_wall_timeout_s (sp_limits S) of Plain (JInt n) \<Rightarrow> n | _ \<Rightarrow> 0)"

definition effective_timeout :: "sandbox_cmd \<Rightarrow> SandboxSpec \<Rightarrow> int" where
  "effective_timeout cmd S =
    (case cm_timeout_s cmd of None \<Rightarrow> wall_timeout S | Some t \<Rightarrow> min (wall_timeout S) t)"

subsection \<open>The argument list\<close>

definition mount_arg :: "arg \<times> arg \<Rightarrow> string" where
  "mount_arg mount = arg_text (fst mount) @ '':'' @ arg_text (snd mount) @ '':ro''"

definition env_arg :: "arg \<times> arg \<Rightarrow> string" where
  "env_arg entry = arg_text (fst entry) @ ''='' @ arg_text (snd entry)"

definition run_options :: "sandbox_cmd \<Rightarrow> SandboxSpec \<Rightarrow> string \<Rightarrow> string list" where
  "run_options cmd S cidfile =
    (let L = sp_limits S
     in [''--cidfile'', cidfile, ''--rm'', ''--init'', ''--read-only'', ''--tmpfs'', ''/tmp'', ''--user'', ''65534:65534'',
         ''--cap-drop=ALL'', ''--security-opt=no-new-privileges'', ''--network=none'',
         ''--pids-limit='' @ arg_text (lm_pids L), ''--memory='' @ arg_text (lm_memory_mb L) @ ''m'',
         ''--memory-swap='' @ arg_text (lm_memory_swap_mb L) @ ''m'', ''--cpus='' @ arg_text (lm_cpus L),
         ''--ulimit'', ''nofile='' @ arg_text (lm_nofile L), ''--stop-timeout='' @ arg_text (lm_stop_grace_s L),
         ''--workdir'', cm_cwd cmd,
         ''-v'', arg_text (sp_workspace_host_path S) @ '':'' @ WORKSPACE_MOUNT @ '':rw''] @
        concat (map (\<lambda>mount. [''-v'', mount_arg mount]) (sp_readonly_host_paths S)) @
        concat (map (\<lambda>entry. [''--env'', env_arg entry]) (case sp_env S of None \<Rightarrow> [] | Some env \<Rightarrow> env)))"

definition run_args :: "string \<Rightarrow> sandbox_cmd \<Rightarrow> SandboxSpec \<Rightarrow> string \<Rightarrow> string list" where
  "run_args docker_bin cmd S cidfile =
    [docker_bin, ''run''] @ run_options cmd S cidfile @ [arg_text (sp_image S)] @ cm_argv cmd"

definition build_run_args :: "string \<Rightarrow> SandboxSpec option \<Rightarrow> command \<Rightarrow> string \<Rightarrow> string + string list" where
  "build_run_args docker_bin spec command cidfile =
    (case spec of
       None \<Rightarrow> Inl ''refused''
     | Some S \<Rightarrow> (case validate_command command of Inl e \<Rightarrow> Inl e | Inr cmd \<Rightarrow> Inr (run_args docker_bin cmd S cidfile)))"

subsection \<open>Running a container\<close>

record docker =
  dk_popen_error :: "string option"
  dk_started :: int
  dk_ended :: int
  dk_out :: "nat \<Rightarrow> string"
  dk_err :: "nat \<Rightarrow> string"
  dk_exit :: "nat \<Rightarrow> int option"
  dk_cancel :: "nat \<Rightarrow> bool"
  dk_now :: "nat \<Rightarrow> int"
  dk_cid :: "nat \<Rightarrow> string option"
  dk_cid_now :: "nat \<Rightarrow> int"
  dk_cid_last :: "string option"
  dk_kill :: "int option"
  dk_inspect :: "(int \<times> string \<times> string) option"
  dk_reap :: "string \<times> string"
  dk_last :: "string \<times> string"
  dk_returncode :: "int option"
  dk_decode :: "string \<Rightarrow> string"

definition read_cidfile :: "string option \<Rightarrow> string option" where
  "read_cidfile content = (case content of None \<Rightarrow> None | Some t \<Rightarrow> if strip t = [] then None else Some (strip t))"

definition CIDFILE_WAIT_MS :: int where
  "CIDFILE_WAIT_MS = 2000"

fun wait_for_container_id :: "nat \<Rightarrow> docker \<Rightarrow> nat \<Rightarrow> string option option" where
  "wait_for_container_id 0 D i = None"
| "wait_for_container_id (Suc n) D i =
    (let container_id = read_cidfile (dk_cid D i)
     in if is_set container_id \<or> dk_cid_now D 0 + CIDFILE_WAIT_MS \<le> dk_cid_now D (Suc i) then Some container_id
        else wait_for_container_id n D (Suc i))"

text \<open>The first look at the clock sets the deadline.\<close>

definition kill_container :: "docker \<Rightarrow> string option \<Rightarrow> bool" where
  "kill_container D container_id = (is_set container_id \<and> dk_kill D = Some 0)"

definition docker_running :: "docker \<Rightarrow> string option \<Rightarrow> bool option" where
  "docker_running D container_id =
    (if \<not> is_set container_id then Some False
     else case dk_inspect D of
       None \<Rightarrow> None
     | Some (returncode, stdout, stderr) \<Rightarrow>
        (if returncode \<noteq> 0 then
           (if sublist ''No such object'' (stderr @ stdout) \<or> sublist ''No such container'' (stderr @ stdout)
            then Some False else None)
         else Some (fold_case False (strip stdout) \<in> {''true'', ''1''})))"

definition inspect_container :: "docker \<Rightarrow> string option \<Rightarrow> dict" where
  "inspect_container D container_id =
    (if \<not> is_set container_id then [(''container_id'', JNull), (''running'', JBool False), (''known'', JBool False),
       (''query_failed'', JBool False)]
     else case docker_running D container_id of
       None \<Rightarrow> [(''container_id'', jopt container_id), (''running'', JBool True), (''known'', JBool False),
         (''query_failed'', JBool True)]
     | Some running \<Rightarrow> [(''container_id'', jopt container_id), (''running'', JBool running), (''known'', JBool True),
         (''query_failed'', JBool False)])"

text \<open>
  \<open>_stop_container\<close>. What the pipes had given so far is replaced by what \<open>communicate\<close> returns. Without a
  container id the client's process group is killed, and nothing is confirmed.
\<close>

record watched =
  wt_out :: string
  wt_err :: string
  wt_container :: "string option"
  wt_cancelled :: bool
  wt_timed_out :: bool
  wt_confirmed :: bool

definition stop_container :: "nat \<Rightarrow> docker \<Rightarrow> (string \<times> string \<times> string option \<times> bool) option" where
  "stop_container n D =
    (case wait_for_container_id n D 0 of
       None \<Rightarrow> None
     | Some container_id \<Rightarrow>
        (let killed = kill_container D container_id;
             (out, err) = dk_reap D
         in if container_id = None then Some (out, err, None, False)
            else Some (out, err, container_id, killed \<and> docker_running D container_id = Some False)))"

definition stopped_by :: "bool \<Rightarrow> (string \<times> string \<times> string option \<times> bool) option \<Rightarrow> watched option" where
  "stopped_by cancelled stopped = (case stopped of
       None \<Rightarrow> None
     | Some (out, err, container_id, confirmed) \<Rightarrow> Some \<lparr> wt_out = out, wt_err = err, wt_container = container_id,
         wt_cancelled = cancelled, wt_timed_out = \<not> cancelled, wt_confirmed = confirmed \<rparr>)"

fun watch :: "nat \<Rightarrow> docker \<Rightarrow> bool \<Rightarrow> int \<Rightarrow> nat \<Rightarrow> string \<Rightarrow> string \<Rightarrow> watched option" where
  "watch 0 D cancellable deadline i out err = None"
| "watch (Suc n) D cancellable deadline i out err =
    (let out = out @ dk_out D i; err = err @ dk_err D i
     in if dk_exit D i \<noteq> None then
          Some \<lparr> wt_out = out, wt_err = err, wt_container = None, wt_cancelled = False, wt_timed_out = False,
            wt_confirmed = True \<rparr>
        else if cancellable \<and> dk_cancel D i then stopped_by True (stop_container n D)
        else if deadline \<le> dk_now D i then stopped_by False (stop_container n D)
        else watch n D cancellable deadline (Suc i) out err)"

definition run_result_dict :: "docker \<Rightarrow> string \<Rightarrow> json \<Rightarrow> string \<Rightarrow> string \<Rightarrow> string option \<Rightarrow> bool \<Rightarrow> dict" where
  "run_result_dict D status exit_code stdout stderr container_id oom_killed =
    [(''status'', JStr status), (''exit_code'', exit_code), (''stdout'', JStr stdout), (''stderr'', JStr stderr),
     (''duration_ms'', JInt (dk_ended D - dk_started D)), (''container_id'', jopt container_id),
     (''oom_killed'', JBool oom_killed)]"

definition final_status :: "bool \<Rightarrow> bool \<Rightarrow> bool \<Rightarrow> int option \<Rightarrow> string \<Rightarrow> string" where
  "final_status cancelled timed_out confirmed exit_code stderr =
    (if cancelled then (if confirmed then ''cancelled'' else ''stop_unconfirmed'')
     else if timed_out then (if confirmed then ''timeout'' else ''stop_unconfirmed'')
     else if \<not> confirmed then ''stop_unconfirmed''
     else if exit_code = Some 0 then ''ok''
     else if looks_like_daemon_failure stderr then ''unavailable''
     else ''error'')"

definition watched_result :: "docker \<Rightarrow> watched \<Rightarrow> dict" where
  "watched_result D W =
    (let container_id = (if is_set (wt_container W) then wt_container W else read_cidfile (dk_cid_last D));
         confirmed = (if \<not> wt_cancelled W \<and> \<not> wt_timed_out W \<and> is_set container_id
           then docker_running D container_id = Some False else wt_confirmed W);
         stdout = dk_decode D (wt_out W @ fst (dk_last D));
         stderr = dk_decode D (wt_err W @ snd (dk_last D))
     in run_result_dict D (final_status (wt_cancelled W) (wt_timed_out W) confirmed (dk_returncode D) stderr)
          (jint_opt (dk_returncode D)) stdout stderr container_id (\<not> wt_timed_out W \<and> dk_returncode D = Some 137)
        @ [(''exit_confirmed'', JBool confirmed)])"

definition sandbox_execute :: "nat \<Rightarrow> SandboxSpec option \<Rightarrow> docker \<Rightarrow> command \<Rightarrow> (string + dict) option" where
  "sandbox_execute fuel spec D command =
    (case spec of
       None \<Rightarrow> Some (Inl ''refused'')
     | Some S \<Rightarrow>
        (case validate_command command of
           Inl e \<Rightarrow> Some (Inl e)
         | Inr cmd \<Rightarrow>
            (let event = arg_or command ''cancel_event'' (Plain JNull)
             in if event \<noteq> Plain JNull \<and> event \<noteq> Event then Some (Inl ''refused'')
                else case dk_popen_error D of
                  Some e \<Rightarrow> Some (Inr (run_result_dict D ''unavailable'' JNull [] (''docker unavailable: '' @ e) None False))
                | None \<Rightarrow> map_option (\<lambda>W. Inr (watched_result D W))
                    (watch fuel D (event = Event) (dk_started D + effective_timeout cmd S * 1000) 0 [] []))))"

subsection \<open>What a container is started with\<close>

text \<open>The arguments that follow an option.\<close>

fun values_of :: "string \<Rightarrow> string list \<Rightarrow> string list" where
  "values_of n [] = []"
| "values_of n [x] = []"
| "values_of n (x # y # zs) = (if x = n then [y] else []) @ values_of n (y # zs)"

lemma values_of_Cons: "x \<noteq> n \<Longrightarrow> values_of n (x # xs) = values_of n xs"
  by (cases xs) simp_all

lemma values_of_pairs:
  "(\<forall>x \<in> set xs. f x \<noteq> n)
    \<Longrightarrow> values_of n (concat (map (\<lambda>x. [k, f x]) xs) @ ys) = (if k = n then map f xs else []) @ values_of n ys"
  by (induction xs) (simp_all add: values_of_Cons)

lemma first_error_None: "first_error f xs = None \<Longrightarrow> x \<in> set xs \<Longrightarrow> f x = None"
  by (auto simp: first_error_def split: option.splits)

lemma mount_path_ok:
  assumes "mount_path_error real path label = None"
  obtains p where "path = Plain (JStr p)" "starts_with ''/'' p" "real p \<notin> set (DOCKER_SOCKET_PATHS real)"
  using assms by (auto simp: mount_path_error_def split: arg.splits json.splits if_splits)

lemma env_ok:
  assumes "env_error entry = None"
  obtains k v where "entry = (Plain (JStr k), Plain (JStr v))" "\<not> credential_key k"
  using assms by (auto simp: env_error_def split: prod.splits arg.splits json.splits if_splits)

lemma readonly_ok:
  assumes "readonly_error real entry = None"
  obtains h c where "entry = (Plain (JStr h), Plain (JStr c))" "starts_with ''/'' h"
    "real h \<notin> set (DOCKER_SOCKET_PATHS real)" "starts_with ''/'' c" "rstrip_slash c \<noteq> WORKSPACE_MOUNT"
  using assms by (cases entry) (auto simp: readonly_error_def elim!: mount_path_ok split: option.splits arg.splits json.splits if_splits)

lemma spec_ok:
  assumes "spec_error real S = None"
  obtains env where "sp_env S = Some env" "first_error env_error env = None"
    "mount_path_error real (sp_workspace_host_path S) ''workspace_host_path'' = None"
    "first_error (readonly_error real) (sp_readonly_host_paths S) = None"
  using assms by (auto simp: spec_error_def split: option.splits arg.splits json.splits list.splits)

lemma cwd_ok: "valid_cwd v = Some c \<Longrightarrow> starts_with ''/'' c"
  by (auto simp: valid_cwd_def split: arg.splits json.splits if_splits)

lemma validate_cwd: "validate_command command = Inr cmd \<Longrightarrow> starts_with ''/'' (cm_cwd cmd)"
  by (auto simp: validate_command_def cwd_ok split: option.splits)

lemma absolute_ne: "starts_with ''/'' p \<Longrightarrow> p @ x \<noteq> CHR ''-'' # y"
  by (cases p) (auto simp: starts_with_def)

lemma entries_ne: "CHR ''='' \<notin> set n \<Longrightarrow> env_arg e \<noteq> n" "CHR '':'' \<notin> set n \<Longrightarrow> mount_arg e \<noteq> n"
  by (auto simp: env_arg_def mount_arg_def)

text \<open>The options every container gets, whatever the command and the specification.\<close>

definition HARDENING :: "string list" where
  "HARDENING = [''--rm'', ''--init'', ''--read-only'', ''--cap-drop=ALL'', ''--security-opt=no-new-privileges'', ''--network=none'']"

lemma option_values:
  assumes "starts_with ''/'' cidfile" "starts_with ''/'' (cm_cwd cmd)" "sp_workspace_host_path S = Plain (JStr p)" "starts_with ''/'' p"
    "sp_env S = Some env"
  shows "values_of ''-v'' (run_options cmd S cidfile)
      = (p @ '':'' @ WORKSPACE_MOUNT @ '':rw'') # map mount_arg (sp_readonly_host_paths S)"
    "values_of ''--env'' (run_options cmd S cidfile) = map env_arg env"
    "values_of ''--user'' (run_options cmd S cidfile) = [''65534:65534'']"
proof -
  have ne: "cidfile \<noteq> CHR ''-'' # y" "cm_cwd cmd \<noteq> CHR ''-'' # y" "p @ x \<noteq> CHR ''-'' # y" for x y
    using assms(1,2,4) absolute_ne [of _ "[]"] absolute_ne by auto
  show "values_of ''-v'' (run_options cmd S cidfile)
      = (p @ '':'' @ WORKSPACE_MOUNT @ '':rw'') # map mount_arg (sp_readonly_host_paths S)"
    using assms(3,5) ne entries_ne values_of_pairs [of env env_arg "''-v''" "''--env''" "[]"]
    by (simp add: run_options_def Let_def arg_text_def values_of_Cons values_of_pairs)
  show "values_of ''--env'' (run_options cmd S cidfile) = map env_arg env"
    using assms(3,5) ne entries_ne values_of_pairs [of env env_arg "''--env''" "''--env''" "[]"]
    by (simp add: run_options_def Let_def arg_text_def values_of_Cons values_of_pairs)
  show "values_of ''--user'' (run_options cmd S cidfile) = [''65534:65534'']"
    using assms(3,5) ne entries_ne values_of_pairs [of env env_arg "''--user''" "''--env''" "[]"]
    by (simp add: run_options_def Let_def arg_text_def values_of_Cons values_of_pairs)
qed


definition sample_sandbox :: SandboxSpec where
  "sample_sandbox = \<lparr> sp_image = Plain (JStr ''python''), sp_workspace_host_path = Plain (JStr ''/ws''),
     sp_readonly_host_paths = [(Plain (JStr ''/data''), Plain (JStr ''/data''))], sp_limits = default_limits,
     sp_env = Some [(Plain (JStr ''LANG''), Plain (JStr ''C''))] \<rparr>"

definition sample_command :: command where
  "sample_command = [(''argv'', Plain (JList [JStr ''ls''])), (''timeout_s'', Plain (JInt 30))]"


subsection \<open>Watching ends\<close>

lemma clock_ahead:
  fixes t :: "nat \<Rightarrow> int"
  assumes "\<forall>i. t i + 50 \<le> t (Suc i)"
  shows "t 0 + 50 * int i \<le> t i"
proof (induction i)
  case (Suc i)
  with spec [OF assms, of i] show ?case by simp
qed simp

lemma wait_returns:
  assumes "\<forall>i. dk_cid_now D i + 50 \<le> dk_cid_now D (Suc i)"
  shows "40 \<le> n + i \<Longrightarrow> 0 < n \<Longrightarrow> wait_for_container_id n D i \<noteq> None"
proof (induction n arbitrary: i)
  case (Suc n)
  have "dk_cid_now D 0 + 50 * int (Suc i) \<le> dk_cid_now D (Suc i)" using clock_ahead [of "dk_cid_now D" "Suc i"] assms by simp
  then have "Suc i < 40" if "\<not> dk_cid_now D 0 + CIDFILE_WAIT_MS \<le> dk_cid_now D (Suc i)"
    using that by (simp add: CIDFILE_WAIT_MS_def)
  with Suc show ?case by (auto simp: Let_def)
qed simp

lemma stop_returns:
  "\<forall>i. dk_cid_now D i + 50 \<le> dk_cid_now D (Suc i) \<Longrightarrow> 40 \<le> n \<Longrightarrow> stopped_by c (stop_container n D) \<noteq> None"
  using wait_returns [of D n 0] by (auto simp: stop_container_def stopped_by_def Let_def split: option.splits prod.splits)

lemma watch_returns:
  assumes "\<forall>i. dk_now D i + 50 \<le> dk_now D (Suc i)" and stop: "\<forall>i. dk_cid_now D i + 50 \<le> dk_cid_now D (Suc i)"
  shows "deadline \<le> dk_now D i + 50 * int k \<Longrightarrow> 41 + k \<le> n \<Longrightarrow> watch n D cancellable deadline i out err \<noteq> None"
proof (induction k arbitrary: i n out err)
  case 0
  then obtain m where "n = Suc m" "40 \<le> m" by (cases n) auto
  with 0 stop_returns [OF stop] show ?case by (simp add: Let_def)
next
  case (Suc k)
  then obtain m where m: "n = Suc m" "41 + k \<le> m" by (cases n) auto
  have "deadline \<le> dk_now D (Suc i) + 50 * int k" using spec [OF assms(1), of i] Suc.prems(1) by simp
  with Suc.IH m stop_returns [OF stop] show ?case by (simp add: Let_def)
qed


text \<open>A container that never ends, and a Docker that answers.\<close>

definition sample_docker :: docker where
  "sample_docker = \<lparr> dk_popen_error = None, dk_started = 0, dk_ended = 120000, dk_out = (\<lambda>_. []), dk_err = (\<lambda>_. []),
     dk_exit = (\<lambda>_. None), dk_cancel = (\<lambda>_. False), dk_now = (\<lambda>i. 50 * int i), dk_cid = (\<lambda>_. Some ''c1''),
     dk_cid_now = (\<lambda>i. 50 * int i), dk_cid_last = Some ''c1'', dk_kill = Some 0,
     dk_inspect = Some (1, [], ''Error: No such object: c1''), dk_reap = ([], []), dk_last = ([], []),
     dk_returncode = Some 137, dk_decode = (\<lambda>x. x) \<rparr>"


subsection \<open>What a confirmed exit means\<close>

lemma read_cidfile_ne: "read_cidfile c \<noteq> Some []"
  by (auto simp: read_cidfile_def split: option.split)

lemma watch_end:
  "watch n D cancellable deadline i out err = Some W \<Longrightarrow>
    \<not> wt_cancelled W \<and> \<not> wt_timed_out W \<and> wt_confirmed W \<and> wt_container W = None \<and> (\<exists>j. dk_exit D j \<noteq> None)
    \<or> (wt_cancelled W \<or> wt_timed_out W) \<and> (wt_confirmed W \<longrightarrow> (\<exists>cid. wt_container W = Some cid \<and> cid \<noteq> []
        \<and> dk_kill D = Some 0 \<and> docker_running D (Some cid) = Some False))"
proof (induction n D cancellable deadline i out err rule: watch.induct)
  case (2 n D cancellable deadline i out err)
  have stopped: "(wt_cancelled W \<or> wt_timed_out W) \<and> (wt_confirmed W \<longrightarrow> (\<exists>cid. wt_container W = Some cid \<and> cid \<noteq> []
        \<and> dk_kill D = Some 0 \<and> docker_running D (Some cid) = Some False))"
    if "stopped_by c (stop_container n D) = Some W" for c
    using that
    by (auto simp: stopped_by_def stop_container_def kill_container_def is_set_def Let_def split: option.splits prod.splits if_splits)
  show ?case
  proof (cases "dk_exit D i \<noteq> None")
    case True
    with 2 show ?thesis by auto
  next
    case False
    with 2 stopped show ?thesis by (auto simp: Let_def split: if_splits)
  qed
qed simp


definition impatient :: command where
  "impatient = [(''argv'', Plain (JList [JStr ''ls''])),
     (''timeout_s'', Float \<lparr> fl_at_most_zero = False, fl_int = Some 0, fl_text = ''0.5'' \<rparr>)]"


subsection \<open>Where the driver does not do what it means to\<close>

text \<open>A positive timeout below one second is cut to zero, so the command is killed at the first poll.\<close>

lemma fraction_is_no_time:
  "\<exists>cmd. validate_command impatient = Inr cmd \<and> effective_timeout cmd sample_sandbox = 0"
proof -
  have "case validate_command impatient of Inl _ \<Rightarrow> False | Inr cmd \<Rightarrow> effective_timeout cmd sample_sandbox = 0" by code_simp
  then show ?thesis by (auto split: sum.splits)
qed

text \<open>
  The standard input of a command changes nothing in the client's arguments, and none of them is \<open>-i\<close>, without
  which Docker does not attach it: the text is written to the client and never reaches the command.
\<close>

lemma stdin_not_attached:
  "run_args docker_bin (cmd\<lparr> cm_stdin := t \<rparr>) S cidfile = run_args docker_bin cmd S cidfile"
  by (simp add: run_args_def run_options_def)

text \<open>What a command had written before it was stopped does not come back.\<close>

lemma stopped_output_lost:
  "dk_exit D i = None \<Longrightarrow> cancellable \<and> dk_cancel D i \<or> deadline \<le> dk_now D i
    \<Longrightarrow> watch (Suc n) D cancellable deadline i out err = watch (Suc n) D cancellable deadline i out' err'"
  by (auto simp: Let_def)

text \<open>The kill of a cancellation reads as a kill for lack of memory.\<close>

lemma cancelled_reads_as_oom:
  "wt_cancelled W \<Longrightarrow> \<not> wt_timed_out W \<Longrightarrow> dk_returncode D = Some 137
    \<Longrightarrow> dget (watched_result D W) ''oom_killed'' = JBool True"
  by (simp add: watched_result_def run_result_dict_def Let_def)

text \<open>The directory of the Docker socket can be mounted, and a mount can shadow the workspace under another spelling.\<close>

lemma socket_directory_accepted:
  "readonly_error (\<lambda>x. x) (Plain (JStr ''/var/run''), Plain (JStr ''/x'')) = None"
  by code_simp

lemma shadow_accepted:
  "readonly_error (\<lambda>x. x) (Plain (JStr ''/data''), Plain (JStr ''/workspace/.'')) = None"
  by code_simp

end
