(* ===== verification/Workspace.thy ===== *)
theory Workspace
  imports Paths
begin

text \<open>
  \<open>tools/workspace.py\<close>: the manager that creates the directory of a workspace, seeds it, and lists, hashes and
  marks what is in it. It works on paths, so the kernel follows links in the root and in the workspace's own
  name; inside the workspace it goes through \<open>WorkspacePaths\<close>. The record \<open>manager\<close> holds the root and what the
  manager asks of the world: git, the time, the digest, the parser of JSON, the random tokens. Permissions are
  not modelled, and a directory that cannot be listed neither.
\<close>

subsection \<open>The manager\<close>

record manager =
  wm_root :: "string list"
  wm_git :: "string \<Rightarrow> string list \<Rightarrow> string option"
  wm_path :: "string \<Rightarrow> string"
  wm_resolve :: "string \<Rightarrow> string"
  wm_now_iso :: string
  wm_sha :: "string \<Rightarrow> string"
  wm_pid :: string
  wm_token :: "nat \<Rightarrow> string"
  wm_loads :: "string \<Rightarrow> json option"

definition MANAGED_FILES :: "string list" where
  "MANAGED_FILES = [''baseline.json'', ''QUARANTINE.json'']"

definition validate_id :: "string \<Rightarrow> bool" where
  "validate_id workspace_id \<longleftrightarrow> workspace_id \<noteq> [] \<and> CHR 0x00 \<notin> set workspace_id
     \<and> workspace_id \<notin> {''.'', ''..''} \<and> CHR ''/'' \<notin> set workspace_id \<and> CHR 0x5C \<notin> set workspace_id"

subsection \<open>Paths of the host\<close>

text \<open>\<open>os.mkdir\<close>, \<open>os.stat\<close> and \<open>Path.is_dir\<close> of an absolute path.\<close>

definition os_mkdir :: "string list \<Rightarrow> unit fsop" where
  "os_mkdir p = k_mkdirat [] (path_string p)"

definition os_stat :: "string list \<Rightarrow> fnode fsop" where
  "os_stat p = syscall (\<lambda>s. case resolve_at (tree s) True [] (path_string p) of
       Inl e \<Rightarrow> (Inl (OsErr e), s)
     | Inr q \<Rightarrow> (case node_at (tree s) q of None \<Rightarrow> (Inl (OsErr ENOENT), s) | Some n \<Rightarrow> (Inr n, s)))"

definition is_dir_path :: "string list \<Rightarrow> bool fsop" where
  "is_dir_path p = fs_catch (fs_then (os_stat p) (\<lambda>n. fs_ret (is_dir n)))
     (\<lambda>e. if e \<in> {OsErr ENOENT, OsErr ENOTDIR, OsErr ELOOP} then fs_ret False else fs_raise e)"

text \<open>\<open>Path.mkdir(parents, exist_ok=True)\<close>; the path is given by its components, the last one first.\<close>

definition accept_dir :: "string list \<Rightarrow> path_error \<Rightarrow> unit fsop" where
  "accept_dir p e =
    fs_then (is_dir_path p) (\<lambda>there.
    fs_ensure there e)"

definition make_dir :: "string list \<Rightarrow> unit fsop" where
  "make_dir p = fs_catch (os_mkdir p) (\<lambda>e. if e = OsErr ENOENT then fs_raise e else accept_dir p e)"

fun make_dirs :: "string list \<Rightarrow> unit fsop" where
  "make_dirs [] = make_dir []"
| "make_dirs (c # upper) = fs_catch (os_mkdir (rev (c # upper))) (\<lambda>e.
     if e = OsErr ENOENT then fs_seq (make_dirs upper) (
       make_dir (rev (c # upper)))
     else accept_dir (rev (c # upper)) e)"

definition require_dir :: "manager \<Rightarrow> string \<Rightarrow> string list fsop" where
  "require_dir M workspace_id =
    fs_seq (fs_ensure (validate_id workspace_id) BadValue) (
    fs_then (is_dir_path (wm_root M @ [workspace_id])) (\<lambda>there.
    fs_seq (fs_ensure there (OsErr ENOENT)) (
    fs_ret (wm_root M @ [workspace_id]))))"

definition paths_of :: "string list \<Rightarrow> workspace_paths fsop" where
  "paths_of dir = open_workspace [] (path_string dir)"

subsection \<open>Materialization\<close>

text \<open>\<open>os.path.dirname\<close>.\<close>

definition dirname :: "string \<Rightarrow> string" where
  "dirname p = (let head = rev (dropWhile (\<lambda>c. c \<noteq> CHR ''/'') (rev p))
     in if list_all (\<lambda>c. c = CHR ''/'') head then head else rev (dropWhile (\<lambda>c. c = CHR ''/'') (rev head)))"

text \<open>What is there already is never written again; the n-th write uses the n-th token.\<close>

definition write_seed :: "manager \<Rightarrow> workspace_paths \<Rightarrow> nat \<Rightarrow> string \<times> string \<Rightarrow> unit fsop" where
  "write_seed M w i seed =
    fs_seq (if dirname (fst seed) = [] then fs_ret () else mkdir w (dirname (fst seed))) (
    fs_then (path_exists w (fst seed)) (\<lambda>there.
    (if there then fs_ret ()
      else fs_then (atomic_write (wm_sha M) (wm_pid M) (wm_token M i) w (fst seed) (snd seed)) (\<lambda>h.
        fs_ret ()))))"

fun write_each :: "manager \<Rightarrow> workspace_paths \<Rightarrow> nat \<Rightarrow> (string \<times> string) list \<Rightarrow> unit fsop" where
  "write_each M w i [] = fs_ret ()"
| "write_each M w i (seed # seeds) =
  fs_seq (write_seed M w i seed) (
  write_each M w (Suc i) seeds)"

definition write_seeds :: "manager \<Rightarrow> string list \<Rightarrow> (string \<times> string) list \<Rightarrow> unit fsop" where
  "write_seeds M dir seeds =
    fs_then (paths_of dir) (\<lambda>w.
    write_each M w 0 seeds)"

definition git_snapshot :: "manager \<Rightarrow> string \<Rightarrow> (string \<times> json) list" where
  "git_snapshot M base_ref =
    (case wm_git M (wm_path M base_ref) [''rev-parse'', ''HEAD''] of
       None \<Rightarrow> [(''base_ref'', JStr (wm_path M base_ref)), (''base_commit'', JNull), (''git_repo'', JBool False),
         (''worktree_diff'', JStr [])]
     | Some commit \<Rightarrow> [(''base_ref'', JStr (wm_resolve M base_ref)), (''base_commit'', JStr commit),
         (''git_repo'', JBool True),
         (''worktree_diff'', JStr (case wm_git M (wm_path M base_ref) [''diff''] of None \<Rightarrow> [] | Some d \<Rightarrow> d))])"

definition write_managed :: "manager \<Rightarrow> nat \<Rightarrow> string list \<Rightarrow> string \<Rightarrow> (string \<times> json) list \<Rightarrow> unit fsop" where
  "write_managed M i dir name content =
    fs_then (paths_of dir) (\<lambda>w.
    fs_then (atomic_write (wm_sha M) (wm_pid M) (wm_token M i) w name (canonical_json (JObj content))) (\<lambda>h.
    fs_ret ()))"

definition materialize :: "manager \<Rightarrow> string \<Rightarrow> string option \<Rightarrow> (string \<times> string) list \<Rightarrow> string fsop" where
  "materialize M workspace_id base_ref seeds =
    fs_seq (fs_ensure (validate_id workspace_id) BadValue) (
    fs_seq (make_dirs (rev (wm_root M))) (
    fs_seq (make_dirs (workspace_id # rev (wm_root M))) (
    fs_seq (if seeds = [] then fs_ret () else write_seeds M (wm_root M @ [workspace_id]) seeds) (
    fs_seq (case base_ref of
        None \<Rightarrow> fs_ret ()
      | Some b \<Rightarrow> write_managed M (length seeds) (wm_root M @ [workspace_id]) ''baseline.json''
          (git_snapshot M b @ [(''workspace_id'', JStr workspace_id), (''created_at'', JStr (wm_now_iso M))])) (
    fs_ret (path_string (wm_root M @ [workspace_id])))))))"

definition quarantine :: "manager \<Rightarrow> string \<Rightarrow> string \<Rightarrow> unit fsop" where
  "quarantine M workspace_id reason =
    fs_then (require_dir M workspace_id) (\<lambda>dir.
    write_managed M 0 dir ''QUARANTINE.json'' [(''workspace_id'', JStr workspace_id), (''reason'', JStr reason),
       (''quarantined_at'', JStr (wm_now_iso M))])"

definition release :: "manager \<Rightarrow> string \<Rightarrow> unit fsop" where
  "release M workspace_id =
    fs_then (require_dir M workspace_id) (\<lambda>dir.
    fs_ret ())"

subsection \<open>Inspection\<close>

text \<open>
  \<open>os.walk(followlinks=False)\<close> with links left out: the entries that are neither directories nor links, those
  of a directory before those of its subdirectories, each group in order.
\<close>

fun walk_node :: "string list \<Rightarrow> fnode \<Rightarrow> string list list"
  and walk_entries :: "string list \<Rightarrow> (string \<times> fnode) list \<Rightarrow> (string \<times> string list list) list" where
  "walk_node p (Dir es) = map (\<lambda>n. p @ [n]) (sort (map fst (filter (\<lambda>(_, x). \<not> is_dir x \<and> \<not> is_link x) es)))
     @ concat (map snd (sort_key fst (walk_entries p es)))"
| "walk_node p (File c) = []"
| "walk_node p (Link l) = []"
| "walk_node p Special = []"
| "walk_entries p [] = []"
| "walk_entries p ((n, x) # es) = (if is_dir x then [(n, walk_node (p @ [n]) x)] else []) @ walk_entries p es"

definition refused :: "path_error \<Rightarrow> bool" where
  "refused e \<longleftrightarrow> e \<noteq> BadValue"

fun readable_files :: "workspace_paths \<Rightarrow> string list \<Rightarrow> string list fsop" where
  "readable_files w [] = fs_ret []"
| "readable_files w (r # rs) =
  fs_then (fs_catch (fs_then (resolve_for_read w r) (\<lambda>p.
    fs_ret True)) (\<lambda>e. if refused e then fs_ret False else fs_raise e)) (\<lambda>ok.
  fs_then (readable_files w rs) (\<lambda>found.
  fs_ret (if ok then r # found else found)))"

definition list_files :: "manager \<Rightarrow> string \<Rightarrow> string list fsop" where
  "list_files M workspace_id =
    fs_then (require_dir M workspace_id) (\<lambda>dir.
    fs_then (paths_of dir) (\<lambda>w.
    fs_then (\<lambda>s. (Inr (case node_at (tree s) (wp_root w) of None \<Rightarrow> [] | Some n \<Rightarrow>
         filter (\<lambda>r. r \<notin> set MANAGED_FILES) (map (join ''/'') (walk_node [] n))), s)) (\<lambda>names.
    fs_then (readable_files w names) (\<lambda>found.
    fs_ret (sort found)))))"

text \<open>\<open>_hash_stream\<close> reads in chunks.\<close>

fun chunks :: "nat \<Rightarrow> nat \<Rightarrow> string \<Rightarrow> string list" where
  "chunks 0 k c = []"
| "chunks (Suc n) k c = (if c = [] then [] else take k c # chunks n k (drop k c))"

definition READ_CHUNK :: nat where
  "READ_CHUNK = 64 * 1024"

definition hash_stream :: "manager \<Rightarrow> string \<Rightarrow> string" where
  "hash_stream M content = wm_sha M (concat (chunks (length content) READ_CHUNK content))"

definition hash_file :: "manager \<Rightarrow> workspace_paths \<Rightarrow> string \<Rightarrow> string option fsop" where
  "hash_file M w r = fs_catch (fs_then (open_for_read w r) (\<lambda>fd.
    fs_then (k_read fd) (\<lambda>content.
    fs_ret (Some (hash_stream M content))))) (\<lambda>e. if refused e then fs_ret None else fs_raise e)"

fun manifest_entries :: "manager \<Rightarrow> workspace_paths \<Rightarrow> string list \<Rightarrow> (string \<times> string) list fsop" where
  "manifest_entries M w [] = fs_ret []"
| "manifest_entries M w (r # rs) =
  fs_then (hash_file M w r) (\<lambda>h.
  fs_then (manifest_entries M w rs) (\<lambda>rest.
  fs_ret (case h of None \<Rightarrow> rest | Some d \<Rightarrow> (r, d) # rest)))"

definition archive_manifest :: "manager \<Rightarrow> string \<Rightarrow> (string \<times> string) list fsop" where
  "archive_manifest M workspace_id =
    fs_then (require_dir M workspace_id) (\<lambda>dir.
    fs_then (paths_of dir) (\<lambda>w.
    fs_then (list_files M workspace_id) (\<lambda>files.
    fs_then (manifest_entries M w files) (\<lambda>entries.
    fs_ret (sort_key fst entries)))))"

text \<open>\<open>baseline\<close>: whatever goes wrong, there is none.\<close>

definition baseline :: "manager \<Rightarrow> string \<Rightarrow> json fsop" where
  "baseline M workspace_id =
    fs_then (require_dir M workspace_id) (\<lambda>dir.
    fs_catch (fs_then (paths_of dir) (\<lambda>w.
      fs_then (open_for_read w ''baseline.json'') (\<lambda>fd.
      fs_then (k_read fd) (\<lambda>content.
      fs_ret (case wm_loads M content of None \<Rightarrow> JObj [] | Some j \<Rightarrow> j))))) (\<lambda>_. fs_ret (JObj [])))"

subsection \<open>The content view\<close>

text \<open>\<open>f"{size:>10d}"\<close>.\<close>

definition right_justified :: "nat \<Rightarrow> string \<Rightarrow> string" where
  "right_justified k t = replicate (k - length t) (CHR '' '') @ t"

definition listing_line :: "string \<times> string \<times> nat \<Rightarrow> string" where
  "listing_line entry = (case entry of (relative, digest, bytes) \<Rightarrow>
     digest @ ''  '' @ right_justified 10 (show_nat bytes) @ ''  '' @ relative)"

text \<open>The size is that of the file the path names, links followed.\<close>

definition file_size_at :: "string list \<Rightarrow> string \<Rightarrow> nat fsop" where
  "file_size_at dir r = fs_then (os_stat (dir @ split_on (CHR ''/'') r))
     (\<lambda>n. fs_ret (case n of File c \<Rightarrow> length c | _ \<Rightarrow> 0))"

fun listing_entries :: "manager \<Rightarrow> workspace_paths \<Rightarrow> string list \<Rightarrow> string list \<Rightarrow> (string \<times> string \<times> nat) list fsop" where
  "listing_entries M w dir [] = fs_ret []"
| "listing_entries M w dir (r # rs) =
  fs_then (hash_file M w r) (\<lambda>h.
  (case h of
        None \<Rightarrow> listing_entries M w dir rs
      | Some digest \<Rightarrow> fs_then (file_size_at dir r) (\<lambda>bytes.
        fs_then (listing_entries M w dir rs) (\<lambda>rest.
        fs_ret ((r, digest, bytes) # rest)))))"

text \<open>Lines joined as the code joins them.\<close>

definition as_lines :: "string list \<Rightarrow> string" where
  "as_lines ls = (let newline = [char_of (10 :: nat)] in join newline ls @ (if ls = [] then [] else newline))"

definition listing_diff :: "manager \<Rightarrow> string \<Rightarrow> string fsop" where
  "listing_diff M workspace_id =
    fs_then (require_dir M workspace_id) (\<lambda>dir.
    fs_then (paths_of dir) (\<lambda>w.
    fs_then (list_files M workspace_id) (\<lambda>files.
    fs_then (listing_entries M w dir files) (\<lambda>entries.
    fs_ret (as_lines (map listing_line (sort_key fst entries)))))))"

text \<open>\<open>str.splitlines()\<close>, and the lines of git's output without those that name a managed file.\<close>

definition line_breaks :: "string list" where
  "line_breaks = map (map char_of) [[13, 10], [10], [11], [12], [13], [28], [29], [30], [194, 133], [226, 128, 168], [226, 128, 169 :: nat]]"

function split_lines :: "string \<Rightarrow> string \<Rightarrow> string list" where
  "split_lines acc [] = (if acc = [] then [] else [rev acc])"
| "split_lines acc (c # s) = (case find (\<lambda>b. starts_with b (c # s)) line_breaks of
       None \<Rightarrow> split_lines (c # acc) s
     | Some b \<Rightarrow> rev acc # split_lines [] (drop (length b - 1) s))"
  by pat_completeness auto
termination by (relation "measure (\<lambda>(_, s). length s)") auto

definition shown_lines :: "string \<Rightarrow> string list" where
  "shown_lines block = filter (\<lambda>line. strip line \<noteq> [] \<and> \<not> list_ex (\<lambda>name. sublist name line) MANAGED_FILES) (split_lines [] block)"

definition git_diff :: "manager \<Rightarrow> string \<Rightarrow> json \<Rightarrow> string" where
  "git_diff M dir recorded =
    (let out = (\<lambda>args. case wm_git M dir args of None \<Rightarrow> [] | Some t \<Rightarrow> t)
     in as_lines ((if truthy (jget recorded ''base_commit'') then [''# base_commit '' @ py_str (jget recorded ''base_commit'')] else [])
       @ concat (map (shown_lines o out) [[''status'', ''--porcelain=v1''], [''diff''], [''diff'', ''--cached'']])))"

text \<open>A recorded baseline that is not an object has no \<open>get\<close>.\<close>

definition workspace_diff :: "manager \<Rightarrow> string \<Rightarrow> string fsop" where
  "workspace_diff M workspace_id =
    fs_then (require_dir M workspace_id) (\<lambda>dir.
    fs_then (is_dir_path (dir @ [''.git''])) (\<lambda>repo.
    (if repo then fs_then (baseline M workspace_id) (\<lambda>recorded.
      fs_seq (fs_ensure (is_obj recorded) BadValue) (
      fs_ret (git_diff M (path_string dir) recorded))) else listing_diff M workspace_id)))"

text \<open>A line of a file that mentions the name of a managed file is not shown.\<close>

lemma mention_is_hidden: "shown_lines ''+baseline.json'' = []"
  by code_simp

subsection \<open>Leaves stay\<close>

text \<open>
  A fault is honest if it does not claim that something on the way is missing or not a directory. Under honest faults an operation keeps a
  leaf (a file, a link, a special file) if it is still there, unchanged, afterwards.
\<close>

definition honest :: "fsys \<Rightarrow> bool" where
  "honest s \<longleftrightarrow> set (faults s) \<inter> {Some ENOENT, Some ENOTDIR, Some ELOOP} = {}"

definition keeps_leaf :: "string list \<Rightarrow> fnode \<Rightarrow> fsys \<Rightarrow> fsys \<Rightarrow> bool" where
  "keeps_leaf q n s t \<longleftrightarrow> (honest s \<and> node_at (tree s) q = Some n \<and> \<not> is_dir n
     \<longrightarrow> honest t \<and> node_at (tree t) q = Some n)"

interpretation leaf: fs_frame "keeps_leaf q n" for q n
  by unfold_locales (auto simp: keeps_leaf_def honest_def)

lemma below_leaf: "node_at t p = Some x \<Longrightarrow> \<not> is_dir x \<Longrightarrow> node_at t (p @ c # r) = None"
  by (cases x) (simp_all add: node_at_append)

lemma leaf_apart:
  assumes q: "node_at t q = Some n" "\<not> is_dir n" and d: "node_at t d = Some (Dir es)"
    and p: "d @ [c] \<noteq> q" "case node_at t (d @ [c]) of None \<Rightarrow> True | Some x \<Rightarrow> \<not> is_dir x"
  shows "\<not> prefix (d @ [c]) q" "\<not> prefix q (d @ [c])"
proof -
  show "\<not> prefix (d @ [c]) q"
  proof
    assume "prefix (d @ [c]) q"
    then obtain r where r: "q = (d @ [c]) @ r" by (auto simp: prefix_def)
    then obtain k r' where "r = k # r'" using p(1) by (cases r) auto
    with r have "q = (d @ [c]) @ k # r'" by simp
    then show False using q(1) p(2) below_leaf [of t "d @ [c]" _ k r'] node_at_append [of t "d @ [c]" "k # r'"]
      by (auto split: option.splits)
  qed
  show "\<not> prefix q (d @ [c])"
  proof
    assume "prefix q (d @ [c])"
    then have "prefix q d" using p(1) by (simp add: prefix_snoc)
    then obtain r where "d = q @ r" by (auto simp: prefix_def)
    then show False using d q by (cases r) (auto simp: below_leaf)
  qed
qed

lemma leaf_put:
  assumes "node_at t q = Some n" "\<not> is_dir n" "node_at t d = Some (Dir es)" "d @ [c] \<noteq> q"
    "case node_at t (d @ [c]) of None \<Rightarrow> True | Some x \<Rightarrow> \<not> is_dir x"
  shows "node_at (put_at t (d @ [c]) x) q = Some n" "node_at (del_at t (d @ [c])) q = Some n"
  using leaf_apart [OF assms] assms(1) by (simp_all add: node_at_put_other node_at_del_other)

lemma honest_mono: "set (faults t) \<subseteq> set (faults s) \<Longrightarrow> honest s \<Longrightarrow> honest t"
  unfolding honest_def by blast

lemma same_tree_keeps_leaf: "same_tree s t \<Longrightarrow> keeps_leaf q n s t"
  by (auto simp: keeps_leaf_def same_tree_def intro: honest_mono)

lemma leaf_same_tree: "fs_ok same_tree Q m \<Longrightarrow> fs_ok (keeps_leaf q n) Q m"
  by (simp add: fs_ok_def same_tree_keeps_leaf)

text \<open>The calls that write, at a name \<open>c\<close> in a directory \<open>d\<close> that is not the leaf.\<close>

lemma keeps_leaf_put:
  assumes "node_at (tree s) d = Some (Dir es)" "d @ [c] \<noteq> q" "case node_at (tree s) (d @ [c]) of None \<Rightarrow> True | Some x \<Rightarrow> \<not> is_dir x"
  shows "keeps_leaf q n s (s\<lparr> tree := put_at (tree s) (d @ [c]) x \<rparr>)" "keeps_leaf q n s (s\<lparr> tree := del_at (tree s) (d @ [c]) \<rparr>)"
  using leaf_put [OF _ _ assms] by (auto simp: keeps_leaf_def honest_def)

lemma keeps_leaf_sizes: "keeps_leaf q n s (t\<lparr> write_sizes := z \<rparr>) = keeps_leaf q n s t"
  by (simp add: keeps_leaf_def honest_def)

lemma keeps_leaf_new:
  assumes "node_at (tree s) d = Some (Dir es)" "node_at (tree s) (d @ [c]) = None"
  shows "keeps_leaf q n s (s\<lparr> tree := put_at (tree s) (d @ [c]) x \<rparr>)"
proof (cases "d @ [c] = q")
  case True
  with assms(2) show ?thesis by (simp add: keeps_leaf_def)
next
  case False
  then show ?thesis using keeps_leaf_put(1) [OF assms(1)] assms(2) by simp
qed

lemma leaf_mkdirat: "plain c \<Longrightarrow> fs_ok (keeps_leaf q n) (\<lambda>_. True) (k_mkdirat d c)"
  unfolding k_mkdirat_def
  by (rule leaf.ok_syscall) (auto simp: fs_ok_def resolve_plain leaf.R_refl intro!: keeps_leaf_new split: call_splits)

lemma leaf_create:
  "plain c \<Longrightarrow> o_creat fl \<Longrightarrow> o_excl fl \<Longrightarrow> fs_ok (keeps_leaf q n) (\<lambda>p. p = d @ [c]) (k_openat fl d c)"
  unfolding k_openat_def
  by (rule leaf.ok_syscall) (auto simp: fs_ok_def resolve_plain leaf.R_refl intro!: keeps_leaf_new split: call_splits)

lemma leaf_unlinkat: "plain c \<Longrightarrow> d @ [c] \<noteq> q \<Longrightarrow> fs_ok (keeps_leaf q n) (\<lambda>_. True) (k_unlinkat d c)"
  unfolding k_unlinkat_def
  by (rule leaf.ok_syscall) (auto simp: fs_ok_def resolve_plain leaf.R_refl intro!: keeps_leaf_put split: call_splits)

lemma leaf_write: "d @ [c] \<noteq> q \<Longrightarrow> fs_ok (keeps_leaf q n) (\<lambda>_. True) (k_write (d @ [c]) data)"
  unfolding k_write_def
  by (rule leaf.ok_syscall)
    (auto simp: fs_ok_def Let_def leaf.R_refl keeps_leaf_sizes intro!: keeps_leaf_put dest!: node_at_parent split: call_splits list.splits)

lemma leaf_write_all: "d @ [c] \<noteq> q \<Longrightarrow> fs_ok (keeps_leaf q n) (\<lambda>_. True) (write_all k (d @ [c]) data)"
  by (induction k "d @ [c]" data rule: write_all.induct)
    (auto intro: leaf.ok_ret leaf.ok_raise leaf.ok_then [OF leaf_write])

text \<open>Writing a file that is not the leaf, under a temporary name that is not the leaf's.\<close>

lemma leaf_write_tmp:
  assumes "plain tmp" "d @ [tmp] \<noteq> q"
  shows "fs_ok (keeps_leaf q n) (\<lambda>_. True) (write_tmp d name tmp data)"
  unfolding write_tmp_def
proof (intro leaf.ok_then [OF leaf_same_tree [OF reads_is_symlink]] leaf.ok_seq leaf.ok_then [OF leaf_create])
  fix fd assume "fd = d @ [tmp]"
  then show "fs_ok (keeps_leaf q n) (\<lambda>_. True) (write_all (length data) fd data)"
    using assms by (simp add: leaf_write_all)
qed (simp_all add: assms leaf.ok_ensure leaf_same_tree [OF reads_calls(3)])

lemma keeps_leaf_trans: "keeps_leaf q n s t \<Longrightarrow> keeps_leaf q n t u \<Longrightarrow> keeps_leaf q n s u"
  by (rule leaf.R_trans)

lemma leaf_rename:
  assumes mv: "k_renameat d tmp d name u = (r, v)" and names: "plain tmp" "plain name"
    and ne: "d @ [tmp] \<noteq> q" "d @ [name] \<noteq> q" and src: "node_at (tree u) (d @ [tmp]) = Some (File c)"
  shows "keeps_leaf q n u v"
proof (cases "tmp = name")
  case True
  then have "tree v = tree u \<and> set (faults v) \<subseteq> set (faults u)"
    using mv by (auto simp: k_renameat_def syscall_def split: list.splits option.splits sum.splits if_splits)
  then show ?thesis by (auto simp: keeps_leaf_def honest_def)
next
  case False
  obtain es where es: "node_at (tree u) d = Some (Dir es)" using node_at_parent [OF src] by blast
  have same_target: "node_at (del_at (tree u) (d @ [tmp])) (d @ [name]) = node_at (tree u) (d @ [name])"
    using siblings [of tmp name d] False by (simp add: node_at_del_other)
  obtain es' where es': "node_at (del_at (tree u) (d @ [tmp])) d = Some (Dir es')" using dir_del [OF es] by blast
  have leaf: "keeps_leaf q n u (u\<lparr> tree := put_at (del_at (tree u) (d @ [tmp])) (d @ [name]) (File c) \<rparr>)"
    if target: "case node_at (tree u) (d @ [name]) of None \<Rightarrow> True | Some x \<Rightarrow> \<not> is_dir x"
  proof (rule keeps_leaf_trans)
    show "keeps_leaf q n u (u\<lparr> tree := del_at (tree u) (d @ [tmp]) \<rparr>)"
      using keeps_leaf_put(2) [OF es ne(1)] src by simp
    have "keeps_leaf q n (u\<lparr> tree := del_at (tree u) (d @ [tmp]) \<rparr>)
       ((u\<lparr> tree := del_at (tree u) (d @ [tmp]) \<rparr>)\<lparr> tree := put_at (tree (u\<lparr> tree := del_at (tree u) (d @ [tmp]) \<rparr>)) (d @ [name]) (File c) \<rparr>)"
      by (rule keeps_leaf_put(1)) (use es' ne(2) target same_target in simp_all)
    then show "keeps_leaf q n (u\<lparr> tree := del_at (tree u) (d @ [tmp]) \<rparr>)
       (u\<lparr> tree := put_at (del_at (tree u) (d @ [tmp])) (d @ [name]) (File c) \<rparr>)" by simp
  qed
  have "tree v = tree u \<or> (case node_at (tree u) (d @ [name]) of None \<Rightarrow> True | Some x \<Rightarrow> \<not> is_dir x)
      \<and> tree v = put_at (del_at (tree u) (d @ [tmp])) (d @ [name]) (File c)"
    using mv es src names False by (auto simp: k_renameat_def syscall_def resolve_plain split: list.splits option.splits if_splits)
  moreover have "set (faults v) \<subseteq> set (faults u)"
    using mv by (auto simp: k_renameat_def syscall_def split: list.splits option.splits if_splits sum.splits)
  ultimately show ?thesis using leaf leaf.R_refl [of q n u] by (auto simp: keeps_leaf_def honest_def)
qed

lemma leaf_write_and_rename:
  assumes names: "plain tmp" "plain name" and ne: "d @ [tmp] \<noteq> q" "d @ [name] \<noteq> q"
  shows "fs_ok (keeps_leaf q n) (\<lambda>_. True) (write_and_rename d name tmp data)"
  unfolding fs_ok_def
proof (intro allI conjI impI TrueI)
  fix s
  obtain r1 u where tmp: "write_tmp d name tmp data s = (r1, u)" by (cases "write_tmp d name tmp data s")
  have 1: "keeps_leaf q n s u" using fs_okD [OF leaf_write_tmp [OF names(1) ne(1)] tmp] by simp
  show "keeps_leaf q n s (snd (write_and_rename d name tmp data s))"
  proof (cases r1)
    case (Inl e)
    with tmp 1 show ?thesis by (simp add: write_and_rename_def)
  next
    case (Inr x)
    then have src: "node_at (tree u) (d @ [tmp]) = Some (File data)" using write_tmp_Inr names(1) tmp by simp
    obtain r2 v where mv: "k_renameat d tmp d name u = (r2, v)" by (cases "k_renameat d tmp d name u")
    have 2: "keeps_leaf q n s v" by (rule keeps_leaf_trans [OF 1 leaf_rename [OF mv names ne src]])
    obtain r3 t where sync: "k_fsync d v = (r3, t)" by (cases "k_fsync d v")
    have "keeps_leaf q n s t"
      using keeps_leaf_trans [OF 2] fs_okD [OF leaf_same_tree [OF reads_calls(3)] sync] by blast
    with 2 tmp Inr mv sync show ?thesis by (cases r2) (simp_all add: write_and_rename_def)
  qed
qed

lemma leaf_atomic_write:
  assumes tmp: "plain (tmp_name pid token)" and valid: "validate_path relative = Inr parts"
    and ne: "wp_root w @ parts \<noteq> q" "q = [] \<or> last q \<noteq> tmp_name pid token"
  shows "fs_ok (keeps_leaf q n) (\<lambda>_. True) (atomic_write sha_fn pid token w relative data)"
  unfolding atomic_write_def ensure_open_def
proof (intro leaf.ok_seq leaf.ok_ensure TrueI leaf.ok_then [OF leaf.ok_lift [where Q = "\<lambda>ps. ps = parts"]]
    leaf.ok_then [OF leaf_same_tree [OF reads_walk]] leaf.ok_let)
  note parts = plain_parts [OF valid]
  fix ps assume ps: "ps = parts"
  then show "list_all plain (butlast ps)" using parts(2) by simp
  fix parent t assume parent: "parent = wp_root w @ butlast ps" and t: "t = tmp_name pid token"
  have target: "parent @ [last ps] \<noteq> q" using ne(1) parts(4) ps parent by simp
  have tq: "parent @ [t] \<noteq> q" using ne(2) t by auto
  show "fs_ok (keeps_leaf q n) (\<lambda>_. True)
      (fs_catch (write_and_rename parent (last ps) t data) (discard_tmp parent t))"
    unfolding discard_tmp_def
    by (intro leaf.ok_struct leaf_write_and_rename leaf_unlinkat target tq TrueI) (use tmp t ps parts(3) in simp_all)
qed (simp_all add: valid leaf.ok_ret)

text \<open>Directories are only added.\<close>

lemma leaf_dir_error: "fs_ok (keeps_leaf q n) Q (reraise_dir d c e)"
  by (rule leaf_same_tree [OF reads_dir_error])

lemma leaf_open_dir: "plain c \<Longrightarrow> fs_ok (keeps_leaf q n) (\<lambda>p. p = d @ [c]) (open_dir d c create)"
proof -
  assume c: "plain c"
  have open_: "fs_ok (keeps_leaf q n) (\<lambda>p. p = d @ [c]) (k_openat dir_flags d c)"
    by (rule leaf_same_tree [OF reads_openat]) (simp_all add: c dir_flags_def O_RDONLY_def)
  show ?thesis unfolding open_dir_def
    by (intro leaf.ok_struct leaf_mkdirat c open_ leaf_dir_error) simp_all
qed

lemma leaf_walk_from: "list_all plain names \<Longrightarrow> fs_ok (keeps_leaf q n) (\<lambda>_. True) (walk_from fd names create)"
proof (induction names arbitrary: fd)
  case (Cons c names)
  then show ?case unfolding walk_from.simps by (intro leaf.ok_then [OF leaf_open_dir]) simp_all
qed (simp add: leaf.ok_ret)

lemma leaf_mkdir: "fs_ok (keeps_leaf q n) (\<lambda>_. True) (mkdir w relative)"
  unfolding mkdir_def ensure_open_def walk_def
  by (intro leaf.ok_seq leaf.ok_ensure TrueI leaf.ok_then [OF leaf.ok_lift [where Q = "\<lambda>ps. validate_path relative = Inr ps"]]
      leaf.ok_then [OF leaf.ok_then [OF leaf_same_tree [OF reads_calls(4)] leaf_walk_from]] leaf.ok_ret) (simp_all add: validate_plain)

text \<open>A path that does not lead to a node leads into a directory.\<close>

lemma resolve_fresh:
  "resolve k t follow cur cs = Inr p \<Longrightarrow> node_at t cur \<noteq> None \<Longrightarrow> node_at t p = None \<Longrightarrow>
    \<exists>d c es. p = d @ [c] \<and> node_at t d = Some (Dir es)"
proof (induction k t follow cur cs rule: resolve.induct)
  case (2 k t follow cur c cs)
  obtain es where es: "node_at t cur = Some (Dir es)"
    using "2.prems"(1) by (simp split: option.splits fnode.splits)
  note run = "2.prems"(1) [unfolded resolve.simps(2) es option.case fnode.case]
  have up: "node_at t (butlast cur) \<noteq> None"
    using es dir_above [of t "butlast cur" "[last cur]"] by (cases "cur = []") auto
  have child: "map_of es c = Some x \<Longrightarrow> node_at t (cur @ [c]) = Some x" for x
    using es by (simp add: node_at_append)
  consider "c = [] \<or> c = ''.''" | "c = ''..''" | "c \<noteq> []" "c \<noteq> ''.''" "c \<noteq> ''..''" by blast
  then show ?case
  proof cases
    case 1
    then show ?thesis using "2.IH"(1) [OF es refl 1] run es "2.prems"(3) by auto
  next
    case 2
    then show ?thesis using "2.IH"(2) [OF es refl _ 2] run up "2.prems"(3) by auto
  next
    case 3
    show ?thesis using 3 es run child up "2.IH" "2.prems"(3)
      by (auto split: option.splits fnode.splits if_splits nat.splits simp del: split_on.simps)
  qed
qed simp

lemma leaf_os_mkdir: "fs_ok (keeps_leaf q n) (\<lambda>_. True) (os_mkdir p)"
  unfolding os_mkdir_def k_mkdirat_def
proof (rule leaf.ok_syscall, unfold fs_ok_def, intro allI conjI impI TrueI)
  fix s
  show "keeps_leaf q n s (snd (case resolve_at (tree s) False [] (path_string p) of
       Inl e \<Rightarrow> (Inl (OsErr e), s)
     | Inr p \<Rightarrow> (case node_at (tree s) p of
          Some _ \<Rightarrow> (Inl (OsErr EEXIST), s)
        | None \<Rightarrow> (Inr (), s\<lparr> tree := put_at (tree s) p (Dir []) \<rparr>))))"
  proof (cases "\<exists>r. resolve_at (tree s) False [] (path_string p) = Inr r \<and> node_at (tree s) r = None")
    case True
    then obtain r where r: "resolve_at (tree s) False [] (path_string p) = Inr r" "node_at (tree s) r = None" by blast
    have run: "resolve 40 (tree s) False [] (split_on (CHR ''/'') (path_string p)) = Inr r"
      using r(1) by (simp add: resolve_at_def split: if_splits)
    have top: "node_at (tree s) [] \<noteq> None" by simp
    obtain d c es where "r = d @ [c]" "node_at (tree s) d = Some (Dir es)"
      using resolve_fresh [OF run top r(2)] by blast
    with r keeps_leaf_new [of s d es c q n "Dir []"] show ?thesis by simp
  next
    case False
    then show ?thesis by (auto simp: leaf.R_refl split: sum.split option.split)
  qed
qed

lemma reads_os_stat: "fs_ok same_tree (\<lambda>_. True) (os_stat p)"
  unfolding os_stat_def by (rule reads.ok_syscall) (auto simp: fs_ok_def reads.R_refl split: call_splits)

lemma reads_is_dir_path: "fs_ok same_tree (\<lambda>_. True) (is_dir_path p)"
  unfolding is_dir_path_def by (intro reads.ok_struct reads.ok_then [OF reads_os_stat] TrueI)

lemma leaf_accept_dir: "fs_ok (keeps_leaf q n) (\<lambda>_. True) (accept_dir p e)"
  unfolding accept_dir_def
  by (rule leaf.ok_then [OF leaf_same_tree [OF reads_is_dir_path]]) (simp add: leaf.ok_ensure)

lemma leaf_make_dir: "fs_ok (keeps_leaf q n) (\<lambda>_. True) (make_dir p)"
  unfolding make_dir_def
  by (rule leaf.ok_catch [OF leaf_os_mkdir]) (simp add: leaf.ok_raise leaf_accept_dir)

lemma leaf_make_dirs: "fs_ok (keeps_leaf q n) (\<lambda>_. True) (make_dirs p)"
proof (induction p)
  case Nil
  show ?case by (simp add: leaf_make_dir)
next
  case (Cons c upper)
  show ?case unfolding make_dirs.simps
    by (rule leaf.ok_catch [OF leaf_os_mkdir]) (simp add: leaf.ok_seq [OF Cons.IH leaf_make_dir] leaf_accept_dir)
qed

lemma reads_open_workspace: "fs_ok same_tree (\<lambda>_. True) (open_workspace cwd raw)"
  unfolding open_workspace_def
proof (intro reads.ok_seq reads.ok_ensure reads.ok_then [where P = "\<lambda>_. True"] reads.ok_ret TrueI reads.ok_syscall)
qed (auto simp: fs_ok_def reads.R_refl fs_ret_def split: sum.split option.split)

lemma reads_path_exists: "fs_ok same_tree (\<lambda>_. True) (path_exists w relative)"
  unfolding path_exists_def ensure_open_def
proof (rule reads.ok_seq [OF reads.ok_ensure], simp, rule reads.ok_then [OF reads.ok_lift [where Q = "\<lambda>ps. validate_path relative = Inr ps"]], assumption)
  fix parts assume "validate_path relative = Inr parts"
  then have walk: "fs_ok same_tree (\<lambda>_. True) (walk w (butlast parts) False)"
    by (intro reads.ok_weaken [OF reads_walk] plain_parts(2)) simp_all
  have parent: "fs_ok same_tree (\<lambda>_. True) (fs_catch (fs_then (walk w (butlast parts) False) (\<lambda>fd. fs_ret (Some fd)))
       (\<lambda>e. if e = OsErr ENOENT \<or> e = OsErr ENOTDIR then fs_ret None else fs_raise e))"
    by (intro reads.ok_catch reads.ok_then [OF walk] reads.ok_ret reads.ok_if reads.ok_raise TrueI)
  have stat: "fs_ok same_tree (\<lambda>_. True) (fs_catch (fs_then (k_statat fd (last parts)) (\<lambda>n. fs_ret (Some n)))
            (\<lambda>e. if e = OsErr ENOENT then fs_ret None else fs_raise e))" for fd
    by (intro reads.ok_catch reads.ok_then [OF reads_calls(1)] reads.ok_ret reads.ok_if reads.ok_raise TrueI)
  show "fs_ok same_tree (\<lambda>_. True) (fs_then (fs_catch (fs_then (walk w (butlast parts) False) (\<lambda>fd. fs_ret (Some fd)))
       (\<lambda>e. if e = OsErr ENOENT \<or> e = OsErr ENOTDIR then fs_ret None else fs_raise e)) (\<lambda>parent.
     case parent of
        None \<Rightarrow> fs_ret False
      | Some fd \<Rightarrow> fs_then (fs_catch (fs_then (k_statat fd (last parts)) (\<lambda>n. fs_ret (Some n)))
            (\<lambda>e. if e = OsErr ENOENT then fs_ret None else fs_raise e)) (\<lambda>st.
          case st of
             None \<Rightarrow> fs_ret False
           | Some n \<Rightarrow> if is_link n then fs_raise PathSafetyError else fs_ret True)))"
    by (intro reads.ok_then [OF parent] reads.ok_option reads.ok_then [OF stat] reads.ok_ret reads.ok_if reads.ok_raise TrueI)
qed

text \<open>With honest faults a call on what is there succeeds, or fails for another reason.\<close>

definition told :: "errno \<Rightarrow> bool" where
  "told e \<longleftrightarrow> e \<in> {ENOENT, ENOTDIR, ELOOP}"

definition tells :: "fsys \<Rightarrow> 'a \<Rightarrow> (path_error + 'a) \<times> fsys \<Rightarrow> bool" where
  "tells s x rt \<longleftrightarrow> tree (snd rt) = tree s \<and> honest (snd rt)
     \<and> (fst rt = Inr x \<or> (\<exists>e. fst rt = Inl (OsErr e) \<and> \<not> told e))"

lemma syscall_tells: "honest s \<Longrightarrow> (\<And>u. tree u = tree s \<Longrightarrow> m u = (Inr x, u)) \<Longrightarrow> tells s x (syscall m s)"
  by (cases "faults s") (auto simp: tells_def syscall_def honest_def told_def split: option.split)

lemma tellsE:
  assumes "tells s x (m s)"
  obtains u where "m s = (Inr x, u)" "tree u = tree s" "honest u"
  | e u where "m s = (Inl (OsErr e), u)" "tree u = tree s" "honest u" "\<not> told e"
  using assms by (cases "m s") (auto simp: tells_def)

lemma open_dir_tells:
  assumes s: "honest s" and there: "node_at (tree s) (d @ [c]) = Some (Dir es)" "plain c"
  shows "tells s (d @ [c]) (open_dir d c False s)"
proof -
  obtain ds where d: "node_at (tree s) d = Some (Dir ds)" using node_at_parent [OF there(1)] by blast
  have "tells s (d @ [c]) (k_openat dir_flags d c s)"
    unfolding k_openat_def by (rule syscall_tells [OF s]) (simp add: dir_flags_def O_RDONLY_def resolve_plain there d)
  then show ?thesis
    by (rule tellsE) (auto simp: tells_def open_dir_def fs_catch_def told_def reraise_dir_def dir_error_def fs_raise_def)
qed

lemma walk_tells:
  "honest s \<Longrightarrow> list_all plain names \<Longrightarrow> node_at (tree s) (fd @ names) = Some (Dir es) \<Longrightarrow>
    tells s (fd @ names) (walk_from fd names False s)"
proof (induction names arbitrary: fd s)
  case Nil
  then show ?case by (simp add: tells_def fs_ret_def)
next
  case (Cons c names)
  obtain ds where "node_at (tree s) (fd @ [c]) = Some (Dir ds)"
    using dir_above [of "tree s" "fd @ [c]" names] Cons.prems(3) by auto
  then have "tells s (fd @ [c]) (open_dir fd c False s)" using Cons.prems by (intro open_dir_tells) simp_all
  then show ?case
  proof (rule tellsE)
    fix u assume u: "open_dir fd c False s = (Inr (fd @ [c]), u)" "tree u = tree s" "honest u"
    have "tells u ((fd @ [c]) @ names) (walk_from (fd @ [c]) names False u)"
      using Cons.prems u by (intro Cons.IH) simp_all
    then show ?thesis using u by (simp add: fs_then_def tells_def)
  next
    fix e u assume "open_dir fd c False s = (Inl (OsErr e), u)" "tree u = tree s" "honest u" "\<not> told e"
    then show ?thesis by (simp add: fs_then_def tells_def)
  qed
qed

text \<open>So what is there is not said to be missing.\<close>

lemma exists_tells:
  assumes s: "honest s" and valid: "validate_path relative = Inr parts"
    and there: "node_at (tree s) (wp_root w @ parts) = Some n"
  shows "fst (path_exists w relative s) \<noteq> Inr False"
proof -
  note parts = plain_parts [OF valid]
  have node: "node_at (tree s) ((wp_root w @ butlast parts) @ [last parts]) = Some n" using there parts(4) by simp
  obtain es where dirs: "node_at (tree s) (wp_root w @ butlast parts) = Some (Dir es)" using node_at_parent [OF node] by blast
  have dup: "tells s (wp_root w) (k_dup (wp_root w) s)"
    unfolding k_dup_def by (rule syscall_tells [OF s]) (simp add: fs_ret_def)
  have walk: "tells s (wp_root w @ butlast parts) (walk w (butlast parts) False s)"
    using dup
  proof (rule tellsE)
    fix u assume u: "k_dup (wp_root w) s = (Inr (wp_root w), u)" "tree u = tree s" "honest u"
    then show ?thesis using walk_tells [of u "butlast parts" "wp_root w" es] parts(2) dirs
      by (simp add: walk_def fs_then_def tells_def)
  next
    fix e u assume "k_dup (wp_root w) s = (Inl (OsErr e), u)" "tree u = tree s" "honest u" "\<not> told e"
    then show ?thesis by (simp add: walk_def fs_then_def tells_def)
  qed
  show ?thesis using walk
  proof (rule tellsE)
    fix u assume u: "walk w (butlast parts) False s = (Inr (wp_root w @ butlast parts), u)" "tree u = tree s" "honest u"
    have "tells u n (k_statat (wp_root w @ butlast parts) (last parts) u)"
      unfolding k_statat_def by (rule syscall_tells [OF u(3)]) (use u(2) node dirs parts(3) in \<open>simp add: resolve_plain\<close>)
    then show ?thesis
      by (rule tellsE) (use u valid in \<open>auto simp: path_exists_def ensure_open_def fs_ensure_def fs_seq_def fs_lift_def fs_then_def
          fs_catch_def fs_ret_def fs_raise_def told_def split: if_splits\<close>)
  next
    fix e u assume "walk w (butlast parts) False s = (Inl (OsErr e), u)" "tree u = tree s" "honest u" "\<not> told e"
    then show ?thesis using valid
      by (auto simp: path_exists_def ensure_open_def fs_ensure_def fs_seq_def fs_lift_def fs_then_def
          fs_catch_def fs_ret_def fs_raise_def told_def split: if_splits)
  qed
qed

lemma plain_tmp_name: "CHR ''/'' \<notin> set pid \<Longrightarrow> CHR ''/'' \<notin> set token \<Longrightarrow> plain (tmp_name pid token)"
  by (auto simp: plain_def tmp_name_def)

definition temporary :: "manager \<Rightarrow> string \<Rightarrow> bool" where
  "temporary M name \<longleftrightarrow> (\<exists>i. name = tmp_name (wm_pid M) (wm_token M i))"

text \<open>The names the manager draws are names.\<close>

definition names_ok :: "manager \<Rightarrow> bool" where
  "names_ok M \<longleftrightarrow> CHR ''/'' \<notin> set (wm_pid M) \<and> (\<forall>i. CHR ''/'' \<notin> set (wm_token M i))"

lemma leaf_manager_write:
  assumes M: "names_ok M" and q: "q = [] \<or> \<not> temporary M (last q)"
    and ne: "\<And>parts. validate_path r = Inr parts \<Longrightarrow> wp_root w @ parts \<noteq> q"
  shows "fs_ok (keeps_leaf q n) (\<lambda>_. True) (atomic_write sha_fn (wm_pid M) (wm_token M i) w r data)"
proof (cases "validate_path r")
  case (Inl e)
  then have "fst (atomic_write sha_fn (wm_pid M) (wm_token M i) w r data s) = Inl (if wp_closed w then BadValue else e)
      \<and> snd (atomic_write sha_fn (wm_pid M) (wm_token M i) w r data s) = s" for s
    by (simp add: atomic_write_def ensure_open_def fs_ensure_def fs_seq_def fs_then_def fs_lift_def fs_raise_def fs_ret_def)
  then show ?thesis by (simp add: fs_ok_def leaf.R_refl)
next
  case (Inr parts)
  have "q = [] \<or> last q \<noteq> tmp_name (wm_pid M) (wm_token M i)" using q by (auto simp: temporary_def)
  moreover have "plain (tmp_name (wm_pid M) (wm_token M i))" using M by (intro plain_tmp_name) (simp_all add: names_ok_def)
  ultimately show ?thesis using leaf_atomic_write [OF _ Inr ne [OF Inr]] by blast
qed

lemma leaf_step: "keeps_leaf q n s t \<Longrightarrow> (honest t \<Longrightarrow> node_at (tree t) q = Some n \<Longrightarrow> \<not> is_dir n \<Longrightarrow> keeps_leaf q n t u) \<Longrightarrow> keeps_leaf q n s u"
  by (auto simp: keeps_leaf_def)

lemma leaf_seed_rest:
  assumes M: "names_ok M" and q: "q = [] \<or> \<not> temporary M (last q)"
  shows "fs_ok (keeps_leaf q n) (\<lambda>_. True) (fs_then (path_exists w r) (\<lambda>there. if there then fs_ret ()
      else fs_then (atomic_write sha_fn (wm_pid M) (wm_token M i) w r data) (\<lambda>h. fs_ret ())))"
    (is "fs_ok _ _ ?m")
  unfolding fs_ok_def
proof (intro allI conjI impI TrueI)
  fix s
  obtain a t where probe: "path_exists w r s = (a, t)" by (cases "path_exists w r s")
  have st: "keeps_leaf q n s t" using fs_okD [OF leaf_same_tree [OF reads_path_exists] probe] by blast
  show "keeps_leaf q n s (snd (?m s))"
  proof (cases "a = Inr False")
    case False
    then show ?thesis using probe st by (cases a) (auto simp: fs_then_def fs_ret_def)
  next
    case True
    show ?thesis
    proof (cases "honest s \<and> node_at (tree s) q = Some n")
      case False
      then show ?thesis unfolding keeps_leaf_def by blast
    next
      case there: True
      have "wp_root w @ parts \<noteq> q" if "validate_path r = Inr parts" for parts
        using exists_tells [OF _ that, of s w n] there probe True by auto
      then have "fs_ok (keeps_leaf q n) (\<lambda>_. True) (fs_then (atomic_write sha_fn (wm_pid M) (wm_token M i) w r data) (\<lambda>h. fs_ret ()))"
        by (intro leaf.ok_then [OF leaf_manager_write [OF M q]]) (simp_all add: leaf.ok_ret)
      then have "keeps_leaf q n t (snd (fs_then (atomic_write sha_fn (wm_pid M) (wm_token M i) w r data) (\<lambda>h. fs_ret ()) t))"
        by (simp add: fs_ok_def)
      from keeps_leaf_trans [OF st this] show ?thesis using probe True by (simp add: fs_then_def)
    qed
  qed
qed

lemma leaf_write_seed:
  "names_ok M \<Longrightarrow> q = [] \<or> \<not> temporary M (last q) \<Longrightarrow> fs_ok (keeps_leaf q n) (\<lambda>_. True) (write_seed M w i seed)"
  unfolding write_seed_def
  by (rule leaf.ok_seq) (simp_all add: leaf.ok_ret leaf_mkdir leaf_seed_rest)

lemma leaf_write_each:
  "names_ok M \<Longrightarrow> q = [] \<or> \<not> temporary M (last q) \<Longrightarrow> fs_ok (keeps_leaf q n) (\<lambda>_. True) (write_each M w i seeds)"
  by (induction seeds arbitrary: i) (simp_all add: leaf.ok_ret leaf.ok_seq leaf_write_seed)

lemma leaf_write_seeds:
  "names_ok M \<Longrightarrow> q = [] \<or> \<not> temporary M (last q) \<Longrightarrow> fs_ok (keeps_leaf q n) (\<lambda>_. True) (write_seeds M dir seeds)"
  unfolding write_seeds_def paths_of_def
  by (rule leaf.ok_then [OF leaf_same_tree [OF reads_open_workspace]]) (simp add: leaf_write_each)

lemma managed_parts: "name \<in> set MANAGED_FILES \<Longrightarrow> validate_path name = Inr parts \<Longrightarrow> parts = [name]"
proof -
  have "validate_path ''baseline.json'' = Inr [''baseline.json'']" "validate_path ''QUARANTINE.json'' = Inr [''QUARANTINE.json'']"
    by code_simp+
  then show "name \<in> set MANAGED_FILES \<Longrightarrow> validate_path name = Inr parts \<Longrightarrow> parts = [name]" by (auto simp: MANAGED_FILES_def)
qed

lemma leaf_write_managed:
  assumes "names_ok M" "q = [] \<or> \<not> temporary M (last q) \<and> last q \<noteq> name" "name \<in> set MANAGED_FILES"
  shows "fs_ok (keeps_leaf q n) (\<lambda>_. True) (write_managed M i dir name content)"
  unfolding write_managed_def paths_of_def
proof (rule leaf.ok_then [OF leaf_same_tree [OF reads_open_workspace]], rule leaf.ok_then [OF leaf_manager_write])
  fix w :: workspace_paths and parts assume "validate_path name = Inr parts"
  then have "parts = [name]" using managed_parts [OF assms(3)] by blast
  then show "wp_root w @ parts \<noteq> q" using assms(2) by auto
qed (use assms in \<open>auto simp: leaf.ok_ret\<close>)

text \<open>The names that materializing and quarantining may write.\<close>

definition kept_name :: "manager \<Rightarrow> string option \<Rightarrow> string \<Rightarrow> bool" where
  "kept_name M managed name \<longleftrightarrow> \<not> temporary M name \<and> managed \<noteq> Some name"

lemma leaf_materialize:
  assumes "names_ok M" "q = [] \<or> kept_name M (if base_ref = None then None else Some ''baseline.json'') (last q)"
  shows "fs_ok (keeps_leaf q n) (\<lambda>_. True) (materialize M workspace_id base_ref seeds)"
  unfolding materialize_def
proof (intro leaf.ok_seq leaf.ok_ensure leaf_make_dirs leaf.ok_ret TrueI leaf.ok_if leaf.ok_option)
  show "fs_ok (keeps_leaf q n) (\<lambda>_. True) (write_seeds M (wm_root M @ [workspace_id]) seeds)"
    using assms by (auto simp: kept_name_def intro: leaf_write_seeds)
  fix b assume "base_ref = Some b"
  then show "fs_ok (keeps_leaf q n) (\<lambda>_. True) (write_managed M (length seeds) (wm_root M @ [workspace_id]) ''baseline.json''
      (git_snapshot M b @ [(''workspace_id'', JStr workspace_id), (''created_at'', JStr (wm_now_iso M))]))"
    using assms by (intro leaf_write_managed) (auto simp: kept_name_def MANAGED_FILES_def)
qed

lemma leaf_quarantine:
  assumes "names_ok M" "q = [] \<or> kept_name M (Some ''QUARANTINE.json'') (last q)"
  shows "fs_ok (keeps_leaf q n) (\<lambda>_. True) (quarantine M workspace_id reason)"
  unfolding quarantine_def require_dir_def
proof (rule leaf.ok_then [where P = "\<lambda>_. True"])
  show "fs_ok (keeps_leaf q n) (\<lambda>_. True) (fs_seq (fs_ensure (validate_id workspace_id) BadValue)
     (fs_then (is_dir_path (wm_root M @ [workspace_id])) (\<lambda>there. fs_seq (fs_ensure there (OsErr ENOENT)) (fs_ret (wm_root M @ [workspace_id])))))"
    by (intro leaf.ok_seq leaf.ok_ensure leaf.ok_then [OF leaf_same_tree [OF reads_is_dir_path]] leaf.ok_ret TrueI)
  show "fs_ok (keeps_leaf q n) (\<lambda>_. True) (write_managed M 0 dir ''QUARANTINE.json'' [(''workspace_id'', JStr workspace_id),
      (''reason'', JStr reason), (''quarantined_at'', JStr (wm_now_iso M))])" for dir
    using assms by (intro leaf_write_managed) (auto simp: kept_name_def MANAGED_FILES_def)
qed

subsection \<open>What a listing holds\<close>

text \<open>The walk finds the files: every entry that is neither a directory nor a link, by its path.\<close>

fun plain_names :: "fnode \<Rightarrow> bool" where
  "plain_names (Dir es) = list_all (\<lambda>(name, x). plain name \<and> plain_names x) es"
| "plain_names _ = True"

lemma walk_entries_mem: "(c, x) \<in> set es \<Longrightarrow> is_dir x \<Longrightarrow> (c, walk_node (p @ [c]) x) \<in> set (walk_entries p es)"
  by (induction p es rule: walk_node_walk_entries.induct(2) [where P = "\<lambda>_ _. True"]) auto

lemma walk_complete:
  "node_at n r = Some x \<Longrightarrow> \<not> is_dir x \<Longrightarrow> \<not> is_link x \<Longrightarrow> r \<noteq> [] \<Longrightarrow> p @ r \<in> set (walk_node p n)"
proof (induction r arbitrary: n p)
  case (Cons c r)
  then obtain es y where n: "n = Dir es" "map_of es c = Some y" "node_at y r = Some x"
    by (cases n) (auto split: option.splits)
  then have mem: "(c, y) \<in> set es" by (simp add: map_of_SomeD)
  show ?case
  proof (cases r)
    case Nil
    then show ?thesis using n mem Cons.prems by (force simp: image_iff)
  next
    case (Cons d rs)
    then have "is_dir y" using n(3) by (cases y) auto
    from walk_entries_mem [OF mem this, of p] have "(c, walk_node (p @ [c]) y) \<in> set (walk_entries p es)" .
    moreover have "(p @ [c]) @ r \<in> set (walk_node (p @ [c]) y)"
      using Cons.IH [OF n(3)] Cons.prems Cons by blast
    ultimately show ?thesis using n(1) by force
  qed
qed simp

lemma walk_sound:
  "q \<in> set (walk_node p n) \<Longrightarrow> plain_names n \<Longrightarrow> \<exists>r. q = p @ r \<and> r \<noteq> [] \<and> list_all plain r"
  "(c, qs) \<in> set (walk_entries p es) \<Longrightarrow> q \<in> set qs \<Longrightarrow> list_all (\<lambda>(name, x). plain name \<and> plain_names x) es \<Longrightarrow>
    \<exists>r. q = p @ r \<and> r \<noteq> [] \<and> list_all plain r"
proof (induction p n and p es arbitrary: q and c qs q rule: walk_node_walk_entries.induct)
  case (1 p es)
  then show ?case by (fastforce simp: list_all_iff)
next
  case (6 p c x es)
  then show ?case by (fastforce split: if_splits)
qed auto

lemma concat_chunks: "length c \<le> k \<Longrightarrow> 0 < z \<Longrightarrow> concat (chunks k z c) = c"
proof (induction k arbitrary: c)
  case (Suc k)
  then show ?case by (cases c) (simp_all add: Suc.IH)
qed simp

text \<open>Reading a file of the workspace, without faults.\<close>

definition file_at :: "fnode \<Rightarrow> string list \<Rightarrow> string \<Rightarrow> string option" where
  "file_at t root r = (case validate_path r of
       Inl _ \<Rightarrow> None
     | Inr parts \<Rightarrow> (case node_at t (root @ parts) of Some (File c) \<Rightarrow> Some c | _ \<Rightarrow> None))"

lemma file_at_Some: "file_at t root r = Some c \<longleftrightarrow> (\<exists>parts. validate_path r = Inr parts \<and> node_at t (root @ parts) = Some (File c))"
  by (auto simp: file_at_def split: sum.splits option.splits fnode.splits)

definition never_bad :: "'a fsop \<Rightarrow> bool" where
  "never_bad m \<longleftrightarrow> (\<forall>s. fst (m s) \<noteq> Inl BadValue)"

lemma bad_ret: "never_bad (fs_ret x)"
  by (simp add: never_bad_def fs_ret_def)

lemma bad_raise: "e \<noteq> BadValue \<Longrightarrow> never_bad (fs_raise e)"
  by (simp add: never_bad_def fs_raise_def)

lemma bad_then: "never_bad m \<Longrightarrow> (\<And>x. never_bad (f x)) \<Longrightarrow> never_bad (fs_then m f)"
  by (auto simp: never_bad_def fs_then_def split: prod.splits sum.splits) (metis fst_conv)+

lemma bad_catch: "(\<And>e. never_bad (h e)) \<Longrightarrow> never_bad (fs_catch m h)"
  by (auto simp: never_bad_def fs_catch_def split: prod.splits sum.splits)

lemma bad_catch_keep: "never_bad m \<Longrightarrow> (\<And>e. e \<noteq> BadValue \<Longrightarrow> never_bad (h e)) \<Longrightarrow> never_bad (fs_catch m h)"
  by (auto simp: never_bad_def fs_catch_def split: prod.splits sum.splits) (metis fst_conv)

lemma bad_calls: "never_bad (k_openat fl d c)" "never_bad (k_statat d c)" "never_bad (k_dup d)" "never_bad (k_fstat d)"
  by (auto simp: never_bad_def k_openat_def k_statat_def k_dup_def k_fstat_def syscall_def fs_ret_def
      split: list.splits option.splits call_splits)

lemma bad_is_symlink: "never_bad (is_symlink d c)"
  unfolding is_symlink_def
  by (intro bad_catch_keep bad_then bad_calls bad_ret) (auto simp: bad_ret bad_raise split: path_error.split)

lemma bad_reraise: "e \<noteq> BadValue \<Longrightarrow> never_bad (reraise_dir d c e)"
  by (cases e) (auto simp: reraise_dir_def dir_error_def intro!: bad_raise bad_then [OF bad_is_symlink] split: if_splits)

lemma bad_open_dir: "never_bad (open_dir d c False)"
  unfolding open_dir_def by (rule bad_catch_keep) (auto simp: bad_calls bad_raise bad_reraise)

lemma bad_walk_from: "never_bad (walk_from fd names False)"
  by (induction names arbitrary: fd) (simp_all add: bad_ret bad_then [OF bad_open_dir])

lemma bad_open_final: "never_bad (open_final d c fl)"
  unfolding open_final_def
  by (rule bad_catch_keep) (auto simp: bad_calls intro!: bad_raise bad_then [OF bad_is_symlink] split: path_error.split if_splits)

lemma bad_require_regular: "never_bad (require_regular fd)"
  unfolding require_regular_def
  by (rule bad_then [OF bad_calls(4)]) (auto simp: bad_ret bad_raise split: fnode.split)

lemma bad_lift: "r \<noteq> Inl BadValue \<Longrightarrow> never_bad (fs_lift r)"
  by (simp add: never_bad_def fs_lift_def)

lemma validate_not_bad: "validate_path r \<noteq> Inl BadValue"
  by (simp add: validate_path_def Let_def)

lemma bad_opened:
  assumes "\<not> wp_closed w"
  shows "never_bad (open_for_read w r)" "never_bad (resolve_for_read w r)"
  unfolding open_for_read_def resolve_for_read_def ensure_open_def fs_ensure_def fs_seq_def walk_def absolute_path_def Let_def
  by (auto simp: assms bad_ret validate_not_bad intro!: bad_raise bad_then bad_lift bad_calls bad_walk_from bad_open_final bad_require_regular)

lemma reads_opened: "fs_ok same_tree (\<lambda>_. True) (open_for_read w r)" "fs_ok same_tree (\<lambda>_. True) (resolve_for_read w r)"
proof -
  show "fs_ok same_tree (\<lambda>_. True) (open_for_read w r)" by (rule reads.ok_weaken [OF reads_open_for_read]) simp
  have "snd (resolve_for_read w r s) = snd (open_for_read w r s)" for s
    by (simp add: open_for_read_def resolve_for_read_def fs_seq_def fs_then_def fs_ret_def absolute_path_def Let_def split: prod.split sum.split)
  with this show "fs_ok same_tree (\<lambda>_. True) (resolve_for_read w r)"
    using reads.ok_weaken [OF reads_open_for_read [of r w]] by (simp add: fs_ok_def)
qed

lemma opened_Inr: "(\<exists>p. fst (resolve_for_read w r s) = Inr p) \<longleftrightarrow> (\<exists>p. fst (open_for_read w r s) = Inr p)"
  by (auto simp: open_for_read_def resolve_for_read_def fs_seq_def fs_then_def fs_ret_def absolute_path_def Let_def split: prod.splits sum.splits)

text \<open>Without faults an opened path is a file of the tree, and the state stays.\<close>

lemma opened_file:
  assumes "faults s = []" "\<not> wp_closed w"
  shows "(\<exists>p. fst (open_for_read w r s) = Inr p) \<longleftrightarrow> file_at (tree s) (wp_root w) r \<noteq> None"
    and "snd (open_for_read w r s) = s" "snd (resolve_for_read w r s) = s"
proof -
  have "same_tree s (snd (open_for_read w r s))" "same_tree s (snd (resolve_for_read w r s))"
    using reads_opened [of w r] by (simp_all add: fs_ok_def)
  then show keep: "snd (open_for_read w r s) = s" "snd (resolve_for_read w r s) = s"
    using assms(1) by (simp_all add: same_tree_def)
  have inr: "fst (open_for_read w r s) = Inr p \<longleftrightarrow> open_for_read w r s = (Inr p, s)" for p
    using keep(1) by (metis fst_conv prod.collapse)
  have "open_for_read w r s = (Inr p, s) \<longleftrightarrow> (\<exists>parts c. validate_path r = Inr parts \<and> p = wp_root w @ parts
      \<and> node_at (tree s) p = Some (File c))" for p
    using open_for_read_iff [OF assms(1), of w r p s] assms(2) by simp
  then have "(\<exists>p. fst (open_for_read w r s) = Inr p) \<longleftrightarrow> (\<exists>p parts c. validate_path r = Inr parts \<and> p = wp_root w @ parts
      \<and> node_at (tree s) p = Some (File c))"
    unfolding inr by simp
  also have "... \<longleftrightarrow> (\<exists>c. file_at (tree s) (wp_root w) r = Some c)" unfolding file_at_Some by fast
  finally have "(\<exists>p. fst (open_for_read w r s) = Inr p) \<longleftrightarrow> (\<exists>c. file_at (tree s) (wp_root w) r = Some c)" .
  then show "(\<exists>p. fst (open_for_read w r s) = Inr p) \<longleftrightarrow> file_at (tree s) (wp_root w) r \<noteq> None" by simp
qed

lemma readable_files_run:
  assumes "faults s = []" "\<not> wp_closed w"
  shows "readable_files w rs s = (Inr (filter (\<lambda>r. file_at (tree s) (wp_root w) r \<noteq> None) rs), s)"
proof (induction rs)
  case (Cons r rs)
  obtain a where run: "resolve_for_read w r s = (a, s)" using opened_file(3) [OF assms, of r] by (metis prod.collapse)
  have ok: "(\<exists>p. a = Inr p) \<longleftrightarrow> file_at (tree s) (wp_root w) r \<noteq> None"
    using opened_file(1) [OF assms, of r] opened_Inr [of w r s] run by simp
  have "a \<noteq> Inl BadValue" using bad_opened(2) [OF assms(2), of r] run by (auto simp: never_bad_def dest: spec [of _ s])
  then have "fs_catch (fs_then (resolve_for_read w r) (\<lambda>p. fs_ret True)) (\<lambda>e. if refused e then fs_ret False else fs_raise e) s
      = (Inr (file_at (tree s) (wp_root w) r \<noteq> None), s)"
    using run ok by (cases a) (auto simp: fs_catch_def fs_then_def fs_ret_def refused_def)
  then show ?case using Cons.IH by (simp add: fs_then_def fs_ret_def)
qed (simp add: fs_ret_def)

lemma hash_file_run:
  assumes "faults s = []" "\<not> wp_closed w"
  shows "hash_file M w r s = (Inr (map_option (wm_sha M) (file_at (tree s) (wp_root w) r)), s)"
proof -
  obtain a where run: "open_for_read w r s = (a, s)" using opened_file(2) [OF assms, of r] by (metis prod.collapse)
  show ?thesis
  proof (cases a)
    case (Inl e)
    then have "file_at (tree s) (wp_root w) r = None" using opened_file(1) [OF assms, of r] run by auto
    moreover have "e \<noteq> BadValue" using bad_opened(1) [OF assms(2), of r] run Inl by (auto simp: never_bad_def dest: spec [of _ s])
    ultimately show ?thesis using run Inl by (simp add: hash_file_def fs_catch_def fs_then_def fs_ret_def refused_def)
  next
    case (Inr fd)
    then obtain parts c where c: "validate_path r = Inr parts" "fd = wp_root w @ parts" "node_at (tree s) fd = Some (File c)"
      using run open_for_read_iff [OF assms(1), of w r fd s] by auto
    then have "k_read fd s = (Inr c, s)" by (simp add: k_read_def syscall_no_faults assms)
    moreover have "hash_stream M c = wm_sha M c"
      by (simp add: hash_stream_def concat_chunks READ_CHUNK_def)
    ultimately show ?thesis using run Inr c by (simp add: hash_file_def fs_then_def fs_ret_def file_at_def fs_catch_def)
  qed
qed

lemma set_of_map_filter: "set (List.map_filter f xs) = {y. \<exists>x \<in> set xs. f x = Some y}"
  by (induction xs) (auto simp: map_filter_simps split: option.splits)

lemma manifest_entries_run:
  assumes "faults s = []" "\<not> wp_closed w"
  shows "manifest_entries M w rs s
    = (Inr (List.map_filter (\<lambda>r. map_option (\<lambda>c. (r, wm_sha M c)) (file_at (tree s) (wp_root w) r)) rs), s)"
  by (induction rs) (auto simp: fs_then_def fs_ret_def hash_file_run [OF assms] map_filter_simps split: option.split)

text \<open>The directory of a workspace.\<close>

lemma resolve_path_string:
  assumes "list_all plain p" "p \<noteq> []"
  shows "resolve_at t True [] (path_string p) = resolve 40 t True [] p"
proof -
  have "split_on (CHR ''/'') (join ''/'' p) = p"
    using split_join [OF assms(2), of "CHR ''/''"] assms(1) by (auto simp: list_all_iff plain_def)
  moreover obtain c cs where "p = c # cs" using assms(2) by (cases p) auto
  ultimately show ?thesis by (cases t) (simp_all add: resolve_at_def path_string_def starts_with_def)
qed

definition workspace_at :: "manager \<Rightarrow> string \<Rightarrow> fsys \<Rightarrow> string list \<Rightarrow> bool" where
  "workspace_at M workspace_id s root \<longleftrightarrow> validate_id workspace_id \<and> list_all plain (wm_root M @ [workspace_id])
     \<and> resolve 40 (tree s) True [] (wm_root M @ [workspace_id]) = Inr root
     \<and> (\<exists>es. node_at (tree s) root = Some (Dir es))"

lemma workspace_run:
  assumes "faults s = []" and at: "workspace_at M workspace_id s root"
  shows "require_dir M workspace_id s = (Inr (wm_root M @ [workspace_id]), s)"
    and "paths_of (wm_root M @ [workspace_id]) s = (Inr \<lparr> wp_root = root, wp_closed = False \<rparr>, s)"
proof -
  let ?p = "wm_root M @ [workspace_id]"
  obtain es where at: "validate_id workspace_id" "list_all plain ?p" "resolve 40 (tree s) True [] ?p = Inr root"
    "node_at (tree s) root = Some (Dir es)" using at by (auto simp: workspace_at_def)
  have "os_stat ?p s = (Inr (Dir es), s)"
    using resolve_path_string [OF at(2), of "tree s"] at(3,4) by (simp add: os_stat_def syscall_no_faults assms(1))
  then show "require_dir M workspace_id s = (Inr ?p, s)"
    by (simp add: require_dir_def is_dir_path_def fs_catch_def fs_then_def fs_ret_def fs_seq_def fs_ensure_def at(1))
  have "path_string ?p \<noteq> []" by (simp add: path_string_def)
  then show "paths_of ?p s = (Inr \<lparr> wp_root = root, wp_closed = False \<rparr>, s)"
    using at(3,4) abspath_plain [OF at(2)]
    by (simp add: paths_of_def open_workspace_def path_string_def fs_then_def fs_seq_def fs_ret_def fs_ensure_def syscall_no_faults assms(1))
qed

text \<open>The files of a tree that a validated path can name.\<close>

definition named_files :: "fnode \<Rightarrow> (string \<times> string) set" where
  "named_files n = {(r, c). r \<notin> set MANAGED_FILES \<and> (\<exists>p. r = join ''/'' p \<and> validate_path r = Inr p \<and> node_at n p = Some (File c))}"

lemma join_components:
  assumes "list_all plain p" "validate_path (join ''/'' p) = Inr parts"
  shows "parts = p"
proof (cases "p = []")
  case True
  then show ?thesis using assms(2) by (simp add: validate_path_def)
next
  case False
  have "split_on (CHR ''/'') (join ''/'' p) = p"
    using split_join [OF False, of "CHR ''/''"] assms(1) by (auto simp: list_all_iff plain_def)
  moreover have "filter (\<lambda>p. p \<noteq> [] \<and> p \<noteq> ''.'') p = p" using assms(1) by (auto simp: list_all_iff plain_def filter_id_conv)
  ultimately show ?thesis using assms(2) validate_path_iff by (auto simp: validate_path_iff components_def)
qed

lemma walked_files:
  assumes "node_at t root = Some n" "plain_names n"
  shows "{(r, c). r \<in> set (filter (\<lambda>r. r \<notin> set MANAGED_FILES) (map (join ''/'') (walk_node [] n)))
      \<and> file_at t root r = Some c} = named_files n" (is "?L = ?R")
proof
  show "?L \<subseteq> ?R"
  proof clarify
    fix r c assume r: "r \<in> set (filter (\<lambda>r. r \<notin> set MANAGED_FILES) (map (join ''/'') (walk_node [] n)))" "file_at t root r = Some c"
    then obtain q where q: "q \<in> set (walk_node [] n)" "r = join ''/'' q" "r \<notin> set MANAGED_FILES" by auto
    have "list_all plain q" using walk_sound(1) [OF q(1) assms(2)] by auto
    moreover obtain parts where parts: "validate_path r = Inr parts" "node_at t (root @ parts) = Some (File c)"
      using r(2) by (auto simp: file_at_Some)
    ultimately have "parts = q" using join_components q(2) by blast
    moreover have "node_at n parts = Some (File c)" using parts(2) assms(1) by (simp add: node_at_append)
    ultimately show "(r, c) \<in> named_files n" using q parts(1) by (auto simp: named_files_def)
  qed
  show "?R \<subseteq> ?L"
  proof clarify
    fix r c assume "(r, c) \<in> named_files n"
    then obtain p where p: "r \<notin> set MANAGED_FILES" "r = join ''/'' p" "validate_path r = Inr p" "node_at n p = Some (File c)"
      by (auto simp: named_files_def)
    have "p \<noteq> []" using plain_parts(1) [OF p(3)] .
    then have "p \<in> set (walk_node [] n)" using walk_complete [OF p(4), of "[]"] by simp
    moreover have "file_at t root r = Some c" using p(3,4) assms(1) by (auto simp: file_at_Some node_at_append)
    ultimately show "r \<in> set (filter (\<lambda>r. r \<notin> set MANAGED_FILES) (map (join ''/'') (walk_node [] n))) \<and> file_at t root r = Some c"
      using p(1,2) by auto
  qed
qed

subsection \<open>What the manager does\<close>

text \<open>
  C34. Nothing that is in a workspace is lost or overwritten by materializing it again or by quarantining it. Whatever
  seeds, baseline and reason, and whatever call fails on the way, every file, link or special file keeps its node, unless it is the
  manager's own file or has the name of a temporary file. The faults may be any, except that none claims
  that an entry is missing.
\<close>

theorem manager_keeps_files:
  assumes "names_ok M" and "honest s" and "node_at (tree s) q = Some n" and "\<not> is_dir n"
  shows "(kept_name M (if base_ref = None then None else Some ''baseline.json'') (last q) \<longrightarrow>
      node_at (tree (snd (materialize M workspace_id base_ref seeds s))) q = Some n) \<and>
    (kept_name M (Some ''QUARANTINE.json'') (last q) \<longrightarrow>
      node_at (tree (snd (quarantine M workspace_id reason s))) q = Some n)"
  using leaf_materialize [OF assms(1), of q base_ref n workspace_id seeds] leaf_quarantine [OF assms(1), of q n workspace_id reason] assms(2-)
  by (auto simp: fs_ok_def keeps_leaf_def)

text \<open>A workspace with a file, one whose name looks like a drive, a directory and a link out; a seed for the file.\<close>

definition sample_manager :: manager where
  "sample_manager = \<lparr> wm_root = [''ws''], wm_git = \<lambda>_ _. None, wm_path = \<lambda>x. x, wm_resolve = \<lambda>x. x, wm_now_iso = ''T'',
     wm_sha = \<lambda>x. ''h'' @ x, wm_pid = ''1'', wm_token = \<lambda>_. ''t'', wm_loads = \<lambda>_. None \<rparr>"

definition sample_content :: fnode where
  "sample_content = Dir [(''a.txt'', File ''mine''), (''a:b'', File ''unseen''), (''d'', Dir [(''b'', File ''deep'')]), (''out'', Link ''/etc''), (''baseline.json'', File ''x'')]"

definition sample_disk :: "errno option list \<Rightarrow> fsys" where
  "sample_disk faulty = \<lparr> tree = Dir [(''etc'', Dir [(''passwd'', File ''root'')]), (''ws'', Dir [(''w'', sample_content)])], faults = faulty, write_sizes = [] \<rparr>"

theorem manager_keeps_files_witness:
  "node_at (tree (snd (materialize sample_manager ''w'' None [(''a.txt'', ''seed''), (''c'', ''seed'')] (sample_disk [None, Some EIO]))))
    [''ws'', ''w'', ''a.txt''] = Some (File ''mine'')"
proof -
  have "names_ok sample_manager" by (simp add: names_ok_def sample_manager_def)
  moreover have "honest (sample_disk [None, Some EIO])" by (simp add: honest_def sample_disk_def)
  moreover have "node_at (tree (sample_disk [None, Some EIO])) [''ws'', ''w'', ''a.txt''] = Some (File ''mine'')"
    by (simp add: sample_disk_def sample_content_def)
  moreover have "kept_name sample_manager None (last [''ws'', ''w'', ''a.txt''])"
    by (simp add: kept_name_def temporary_def tmp_name_def)
  ultimately show ?thesis
    using manager_keeps_files [of sample_manager "sample_disk [None, Some EIO]" "[''ws'', ''w'', ''a.txt'']" "File ''mine''"
      None "''w''" "[(''a.txt'', ''seed''), (''c'', ''seed'')]"] by simp
qed

text \<open>The second seed is written, the first is not.\<close>

lemma materialize_writes_missing:
  "node_at (tree (snd (materialize sample_manager ''w'' None [(''a.txt'', ''seed''), (''e/c'', ''seed'')] (sample_disk []))))
    [''ws'', ''w'', ''e'', ''c''] = Some (File ''seed'')"
  by code_simp

text \<open>
  C35. The manifest is the content. Without faults, for a workspace that is there, listing and manifest succeed and
  change nothing. Both are sorted. The manifest holds exactly the regular files below the workspace, by a path that leads
  through directories only and is a valid relative path, except the manager's own two, each with the digest of its whole content; the listing
  names the same files. So no link is followed, and no file outside the workspace is listed.
\<close>

theorem manifest_is_the_content:
  assumes "faults s = []" and "workspace_at M workspace_id s root"
    and "node_at (tree s) root = Some n" and "plain_names n"
  shows "\<exists>fs m. list_files M workspace_id s = (Inr fs, s) \<and> archive_manifest M workspace_id s = (Inr m, s)
    \<and> sorted fs \<and> sorted (map fst m) \<and> set m = (\<lambda>(r, c). (r, wm_sha M c)) ` named_files n \<and> set fs = fst ` named_files n"
proof -
  let ?w = "\<lparr> wp_root = root, wp_closed = False \<rparr>"
  let ?names = "filter (\<lambda>r. r \<notin> set MANAGED_FILES) (map (join ''/'') (walk_node [] n))"
  let ?fs = "sort (filter (\<lambda>r. file_at (tree s) root r \<noteq> None) ?names)"
  let ?m = "List.map_filter (\<lambda>r. map_option (\<lambda>c. (r, wm_sha M c)) (file_at (tree s) root r)) ?fs"
  note run = workspace_run [OF assms(1,2)]
  have w: "\<not> wp_closed ?w" "wp_root ?w = root" by simp_all
  have fs: "list_files M workspace_id s = (Inr ?fs, s)"
    using run readable_files_run [OF assms(1) w(1), of ?names] assms(3)
    by (simp add: list_files_def fs_then_def fs_ret_def)
  have m: "archive_manifest M workspace_id s = (Inr (sort_key fst ?m), s)"
    using run fs manifest_entries_run [OF assms(1) w(1), of M ?fs]
    by (simp add: archive_manifest_def fs_then_def fs_ret_def)
  have files: "(r, c) \<in> named_files n \<longleftrightarrow> r \<in> set ?names \<and> file_at (tree s) root r = Some c" for r c
    unfolding walked_files [OF assms(3,4), symmetric] by blast
  have "set ?fs = {r. \<exists>c. (r, c) \<in> named_files n}" unfolding files by auto
  then have set_fs: "set ?fs = fst ` named_files n" by force
  have "set ?m = (\<lambda>(r, c). (r, wm_sha M c)) ` named_files n"
  proof (intro set_eqI iffI; clarify)
    fix r d assume "(r, d) \<in> set ?m"
    then obtain c where "r \<in> set ?fs" "file_at (tree s) root r = Some c" "d = wm_sha M c" by (auto simp: set_of_map_filter)
    then have "(r, c) \<in> named_files n" "d = wm_sha M c" unfolding files by simp_all
    then show "(r, d) \<in> (\<lambda>(r, c). (r, wm_sha M c)) ` named_files n" by (auto simp: image_iff intro!: bexI [of _ "(r, c)"])
  next
    fix r c assume "(r, c) \<in> named_files n"
    then have "r \<in> set ?fs" "file_at (tree s) root r = Some c" unfolding files by simp_all
    then show "(r, wm_sha M c) \<in> set ?m" by (force simp: set_of_map_filter)
  qed
  then have "set (sort_key fst ?m) = (\<lambda>(r, c). (r, wm_sha M c)) ` named_files n" by simp
  moreover have "sorted ?fs" "sorted (map fst (sort_key fst ?m))" by simp_all
  ultimately show ?thesis using fs m set_fs by blast
qed

theorem manifest_is_the_content_witness:
  "\<exists>fs m. list_files sample_manager ''w'' (sample_disk []) = (Inr fs, sample_disk [])
    \<and> archive_manifest sample_manager ''w'' (sample_disk []) = (Inr m, sample_disk [])
    \<and> set fs = fst ` named_files sample_content"
proof -
  have "workspace_at sample_manager ''w'' (sample_disk []) [''ws'', ''w'']"
    by (simp add: workspace_at_def sample_manager_def sample_disk_def sample_content_def validate_id_def plain_def)
  moreover have "plain_names sample_content" by (simp add: sample_content_def plain_def)
  ultimately show ?thesis
    using manifest_is_the_content [of "sample_disk []" sample_manager "''w''" "[''ws'', ''w'']" sample_content]
    by (fastforce simp: sample_disk_def)
qed

text \<open>A file whose name begins like a drive or with a backslash is never listed.\<close>

lemma odd_names_are_hidden: "has_drive r \<or> r \<noteq> [] \<and> is_sep (hd r) \<Longrightarrow> r \<notin> fst ` named_files n"
  by (auto simp: named_files_def validate_path_iff)

lemma drive_name_is_hidden:
  "node_at sample_content [''a:b''] = Some (File ''unseen'')" "''a:b'' \<notin> fst ` named_files sample_content"
  by (simp add: sample_content_def) (simp add: odd_names_are_hidden has_drive_def is_sep_def)

end
