(* ===== verification/Topology.thy ===== *)
theory Topology
  imports Reads
begin

text \<open>
  The plans of the acceptance runner (\<open>interfaces/m2_runner.py\<close>): how a task definition becomes the nodes and
  edges of a plan, which bytes a scripted worker publishes, which nodes are held back until the digest they
  verify exists, and the revision that adds them. Nodes and edges are dicts; a missing key and a value of the
  wrong kind raise, as in the code. \<open>any\<close> is the choice of \<open>next(iter(s), ''''\<close> on a set of strings.
\<close>

subsection \<open>From a task definition to a plan\<close>

definition upper_text :: "json \<Rightarrow> string" where
  "upper_text v = map upper_char (py_str v)"

definition type_of :: "dict \<Rightarrow> string \<Rightarrow> string" where
  "type_of n d = upper_text (jor (dget n ''work_type'') (JStr d))"

definition list_value :: "json \<Rightarrow> json list tx" where
  "list_value v = (case v of JList xs \<Rightarrow> ret xs | _ \<Rightarrow> raise ValueError)"

definition dicts_of :: "json \<Rightarrow> dict list tx" where
  "dicts_of v =
    andthen (elems v) (\<lambda>xs.
    collect xs as_obj)"

definition topo_uid :: "string \<Rightarrow> json \<Rightarrow> string" where
  "topo_uid prefix raw = prefix @ ''_'' @ py_str raw"

definition task_prefix :: "json \<Rightarrow> string tx" where
  "task_prefix v = (case v of
       JStr t \<Rightarrow> ret (map (\<lambda>c. if c = CHR ''-'' then CHR ''_'' else c) t)
     | _ \<Rightarrow> raise ValueError)"

definition renamed_node :: "string \<Rightarrow> dict \<Rightarrow> dict tx" where
  "renamed_node prefix raw =
    andthen (need raw ''work_unit_id'') (\<lambda>w.
    ret (dset ''work_unit_id'' (JStr (topo_uid prefix w)) raw))"

definition KEPT_LISTS :: "string list" where
  "KEPT_LISTS = [''input_refs'', ''expected_outputs'', ''acceptance_criteria'']"

definition keep_list :: "dict \<Rightarrow> dict \<Rightarrow> string \<Rightarrow> dict tx" where
  "keep_list raw n k = (if dget raw k = JNull then ret n
     else andthen (elems (dget raw k)) (\<lambda>xs.
       ret (dset k (JList xs) n)))"

definition keep_fields :: "dict \<times> dict \<Rightarrow> dict tx" where
  "keep_fields pair = (case pair of (n, raw) \<Rightarrow>
     accumulate KEPT_LISTS
       (if truthy (dget raw ''objective'') then dset ''objective'' (dget raw ''objective'') n else n) (keep_list raw))"

definition renamed_edge :: "string \<Rightarrow> dict \<Rightarrow> dict tx" where
  "renamed_edge prefix e =
    andthen (need e ''from_work_unit_id'') (\<lambda>src.
    andthen (need e ''to_work_unit_id'') (\<lambda>dst.
    ret (dset ''to_work_unit_id'' (JStr (topo_uid prefix dst))
       (dset ''from_work_unit_id'' (JStr (topo_uid prefix src)) e))))"

text \<open>\<open>node_by_id\<close>: the last node of that name; changing it changes it in the list of nodes, which shares it.\<close>

definition named :: "json \<Rightarrow> dict \<Rightarrow> bool" where
  "named v n \<longleftrightarrow> dget n ''work_unit_id'' = v"

definition node_named :: "dict list \<Rightarrow> json \<Rightarrow> dict option" where
  "node_named nodes v = find (named v) (rev nodes)"

fun upd_first :: "('a \<Rightarrow> bool) \<Rightarrow> ('a \<Rightarrow> 'a) \<Rightarrow> 'a list \<Rightarrow> 'a list" where
  "upd_first P f [] = []"
| "upd_first P f (x # xs) = (if P x then f x # xs else x # upd_first P f xs)"

definition upd_node :: "json \<Rightarrow> (dict \<Rightarrow> dict) \<Rightarrow> dict list \<Rightarrow> dict list" where
  "upd_node v f nodes = rev (upd_first (named v) f (rev nodes))"

definition add_path :: "dict list \<Rightarrow> json \<Rightarrow> dict \<Rightarrow> string \<Rightarrow> dict list tx" where
  "add_path nodes v dst name =
    andthen (if dhas dst ''_upstream_paths'' then list_value (dget dst ''_upstream_paths'') else ret []) (\<lambda>paths.
    ret (upd_node v (dset ''_upstream_paths'' (JList (paths @ [JStr name]))) nodes))"

definition add_upstream :: "dict list \<Rightarrow> dict \<Rightarrow> dict list tx" where
  "add_upstream nodes e =
    (case node_named nodes (dget e ''from_work_unit_id'') of
       None \<Rightarrow> ret nodes
     | Some src \<Rightarrow> (case node_named nodes (dget e ''to_work_unit_id'') of
          None \<Rightarrow> ret nodes
        | Some dst \<Rightarrow> andthen (elems (jor (dget src ''expected_outputs'') (JList []))) (\<lambda>outputs.
          (case outputs of
               [] \<Rightarrow> ret nodes
             | name # _ \<Rightarrow> add_path nodes (dget e ''to_work_unit_id'') dst (py_str name)))))"

subsection \<open>What a scripted worker publishes\<close>

definition content_lines :: "string \<Rightarrow> string \<Rightarrow> string \<Rightarrow> string list \<Rightarrow> string list" where
  "content_lines unit work_type objective paths =
     [''# '' @ unit, ''work_type: '' @ work_type, ''objective: '' @ objective]
     @ (if work_type = ''INTEGRATE'' then [[], ''## integrated inputs''] @ map (\<lambda>p. ''- merged '' @ p) (sort paths) else [])
     @ (if work_type = ''REPAIR'' then [[], ''## repaired'', ''- supersedes the previous revision of '' @ unit] else [])"

definition content_of :: "dict \<Rightarrow> string tx" where
  "content_of node =
    (let unit = py_str (jor (dget node ''_content_node_id'') (jor (dget node ''work_unit_id'') (JStr ''wu''))) in
    let work_type = upper_text (jor (dget node ''_content_work_type'') (jor (dget node ''work_type'') (JStr ''EXECUTE''))) in
    andthen (elems (jor (dget node ''_upstream_paths'') (JList []))) (\<lambda>paths.
    let newline = [char_of (10 :: nat)] in
    ret (join newline (content_lines unit work_type (py_str (jor (dget node ''objective'') (JStr []))) (map py_str paths)) @ newline)))"

definition output_names :: "dict \<Rightarrow> string list tx" where
  "output_names node =
    andthen (elems (jor (dget node ''expected_outputs'') (JList []))) (\<lambda>outputs.
    let work_type = upper_text (jor (dget node ''_content_work_type'') (jor (dget node ''work_type'') (JStr ''EXECUTE''))) in
    ret (if outputs = [] then [if work_type = ''VERIFY'' then ''verify.md'' else ''result.md''] else map py_str outputs))"

definition fake_worker_outputs :: "dict \<Rightarrow> (string \<times> string) list tx" where
  "fake_worker_outputs node =
    andthen (content_of node) (\<lambda>body.
    andthen (output_names node) (\<lambda>names.
    ret (foldl (\<lambda>d name. dset name body d) [] names)))"

definition outputs_digest :: "env \<Rightarrow> (string \<times> string) list \<Rightarrow> string" where
  "outputs_digest E outputs = sha E (snd (hd outputs))"

definition pin_edge :: "env \<Rightarrow> dict list \<Rightarrow> bool \<Rightarrow> dict \<Rightarrow> dict tx" where
  "pin_edge E nodes pin e =
    (if dget e ''artifact_hash'' \<noteq> JStr ''PLACEHOLDER_INTEG'' then ret e
     else (case node_named nodes (dget e ''from_work_unit_id'') of
        None \<Rightarrow> raise ValueError
      | Some upstream \<Rightarrow>
          (if pin then andthen (fake_worker_outputs upstream) (\<lambda>outputs.
            ret (dset ''artifact_hash'' (JStr (outputs_digest E outputs)) e)) else ret (filter (\<lambda>(k, v). k \<noteq> ''artifact_hash'') e))))"

definition prepare_topology :: "env \<Rightarrow> dict \<Rightarrow> bool \<Rightarrow> (dict list \<times> dict list) tx" where
  "prepare_topology E task_def pin =
    andthen (need task_def ''topology'') (\<lambda>t.
    andthen (as_obj t) (\<lambda>topo.
    andthen (need task_def ''task_id'') (\<lambda>tid.
    andthen (task_prefix tid) (\<lambda>prefix.
    andthen (need topo ''nodes'') (\<lambda>ns.
    andthen (dicts_of ns) (\<lambda>raw_nodes.
    andthen (collect raw_nodes (renamed_node prefix)) (\<lambda>renamed.
    andthen (collect (zip renamed raw_nodes) keep_fields) (\<lambda>nodes.
    andthen (need topo ''edges'') (\<lambda>es.
    andthen (dicts_of es) (\<lambda>raw_edges.
    andthen (collect raw_edges (renamed_edge prefix)) (\<lambda>edges.
    andthen (accumulate edges nodes add_upstream) (\<lambda>merged.
    andthen (collect edges (pin_edge E merged pin)) (\<lambda>pinned.
    ret (merged, pinned))))))))))))))"

subsection \<open>Holding the verification back\<close>

record stage =
  sg_nodes :: "dict list"
  sg_edges :: "dict list"
  sg_held_nodes :: "dict list"
  sg_held_edges :: "dict list"

definition is_verify :: "dict \<Rightarrow> bool" where
  "is_verify n \<longleftrightarrow> type_of n [] = ''VERIFY''"

definition unit_name :: "dict \<Rightarrow> string tx" where
  "unit_name n =
    andthen (need n ''work_unit_id'') (\<lambda>w.
    ret (py_str w))"

definition edge_to :: "dict \<Rightarrow> string" where
  "edge_to e = py_str (dget e ''to_work_unit_id'')"

definition split_verification_stage :: "dict list \<Rightarrow> dict list \<Rightarrow> stage tx" where
  "split_verification_stage nodes edges =
    andthen (collect (filter is_verify nodes) unit_name) (\<lambda>verify_ids.
    (if verify_ids = [] then
        ret \<lparr> sg_nodes = nodes, sg_edges = edges, sg_held_nodes = [], sg_held_edges = [] \<rparr>
      else andthen (collect nodes unit_name) (\<lambda>ids.
        ret \<lparr> sg_nodes = map snd (filter (\<lambda>(i, n). i \<notin> set verify_ids) (zip ids nodes)),
          sg_edges = filter (\<lambda>e. edge_to e \<notin> set verify_ids) edges,
          sg_held_nodes = map snd (filter (\<lambda>(i, n). i \<in> set verify_ids) (zip ids nodes)),
          sg_held_edges = filter (\<lambda>e. edge_to e \<in> set verify_ids) edges \<rparr>)))"

subsection \<open>The revision that adds it\<close>

definition name_or_empty :: "dict \<Rightarrow> string \<Rightarrow> string" where
  "name_or_empty d k = py_str (jor (dget d k) (JStr []))"

definition unit_of_type :: "dict list \<Rightarrow> string \<Rightarrow> string option" where
  "unit_of_type nodes wanted = map_option (\<lambda>n. py_str (dget n ''work_unit_id''))
     (find (\<lambda>n. type_of n [] = wanted \<and> py_str (dget n ''work_unit_id'') \<in> set (map (\<lambda>m. name_or_empty m ''work_unit_id'') nodes)) nodes)"

definition producer :: "(string list \<Rightarrow> string) \<Rightarrow> dict list \<Rightarrow> string" where
  "producer any nodes =
    (case unit_of_type nodes ''REPAIR'' of
       Some (c # r) \<Rightarrow> c # r
     | _ \<Rightarrow> (case unit_of_type nodes ''INTEGRATE'' of
          Some (c # r) \<Rightarrow> c # r
        | _ \<Rightarrow> any (map (\<lambda>m. name_or_empty m ''work_unit_id'') nodes)))"

definition mint :: "env \<Rightarrow> string option \<Rightarrow> dict \<Rightarrow> (string \<times> string \<times> dict) tx" where
  "mint E given held =
    andthen (unit_name held) (\<lambda>old.
    andthen (case given of Some v \<Rightarrow> ret v | None \<Rightarrow> new_id E ''wu'') (\<lambda>fresh.
    ret (old, fresh, (''work_unit_id'', JStr fresh) # filter (\<lambda>(k, v). k \<noteq> ''work_unit_id'') held)))"

definition moved_edge :: "(string list \<Rightarrow> string) \<Rightarrow> dict list \<Rightarrow> (string \<Rightarrow> string option) \<Rightarrow> string \<Rightarrow> dict \<Rightarrow> dict" where
  "moved_edge any nodes minted artifact_hash edge =
    (let target = name_or_empty edge ''to_work_unit_id'';
         source = name_or_empty edge ''from_work_unit_id'';
         m1 = (case minted target of None \<Rightarrow> edge | Some f \<Rightarrow> dset ''to_work_unit_id'' (JStr f) edge);
         m2 = (case minted source of None \<Rightarrow> m1 | Some f \<Rightarrow> dset ''from_work_unit_id'' (JStr f) m1);
         p = producer any nodes
     in if upper_text (jor (dget m2 ''predicate'') (JStr [])) = ''VERDICT_PASS'' then
          dset ''artifact_hash'' (JStr artifact_hash) (if p = [] then m2 else dset ''from_work_unit_id'' (JStr p) m2)
        else if source \<notin> set (map (\<lambda>m. name_or_empty m ''work_unit_id'') nodes) then dset ''from_work_unit_id'' (JStr p) m2
        else m2)"

definition pinned_stage :: "env \<Rightarrow> (string list \<Rightarrow> string) \<Rightarrow> dict list \<Rightarrow> dict list \<Rightarrow> dict list \<Rightarrow> string
    \<Rightarrow> string option \<Rightarrow> (dict list \<times> dict list) tx" where
  "pinned_stage E any nodes held_nodes held_edges artifact_hash verify_work_unit_id =
    (let given = (if length held_nodes = 1 \<and> is_set verify_work_unit_id then verify_work_unit_id else None) in
    andthen (collect held_nodes (mint E given)) (\<lambda>minted.
    let fresh = map_of (rev (map (\<lambda>(old, new_name, node). (old, new_name)) minted)) in
    ret (map (\<lambda>(old, new_name, node). node) minted, map (moved_edge any nodes fresh artifact_hash) held_edges)))"

text \<open>\<open>run_auth\<close> of \<open>tests/helpers.py\<close>: the credential of a Run.\<close>

definition run_auth :: "string \<Rightarrow> AuthContext tx" where
  "run_auth run_id = run_tx (andthen (get_run run_id) (\<lambda>found.
    andthen (the_or AssertionError found) (\<lambda>run.
    andthen (get_task (ar_task_id run)) (\<lambda>task_row.
    andthen (the_or AssertionError task_row) (\<lambda>task.
    seq (ensure (is_set (ar_agent_instance_id run)) AssertionError) (
    ret \<lparr> principal_id = tk_principal_id task, actor_id = or_else (ar_agent_instance_id run) [], actor_type = INTERNAL,
       auth_context_id = ''run:'' @ run_id, scopes = [], bound_task_id = Some (ar_task_id run), bound_run_id = Some (ar_run_id run),
       bound_fencing_epoch = Some (ar_fencing_epoch run), bound_grant_epoch = Some (ar_grant_epoch run) \<rparr>))))))"

text \<open>
  \<open>_propose_verification_revision\<close>: the plan as it is now, without the edges of the held stage, and the held
  stage again under fresh names, proposed by a planner Run of its own.
\<close>

definition revision_base :: "string list \<Rightarrow> json \<Rightarrow> (dict list \<times> dict list) tx" where
  "revision_base held_ids current =
    andthen (dicts_of (jor (jget current ''nodes'') (JList []))) (\<lambda>nodes.
    andthen (dicts_of (jor (jget current ''edges'') (JList []))) (\<lambda>edges.
    ret (nodes, filter (\<lambda>e. name_or_empty e ''to_work_unit_id'' \<notin> set held_ids
       \<and> name_or_empty e ''from_work_unit_id'' \<notin> set held_ids) edges)))"

definition submit_revision :: "nat \<Rightarrow> env \<Rightarrow> bool \<Rightarrow> string \<Rightarrow> dict \<Rightarrow> json \<Rightarrow> dict list \<Rightarrow> dict list \<Rightarrow> CommandResult tx" where
  "submit_revision fuel E dispatch_enabled task_id dispatched rid nodes edges =
    andthen (run_auth (py_str rid)) (\<lambda>planner.
    andthen (need dispatched ''generation'') (\<lambda>generation.
    andthen (execute fuel E dispatch_enabled ''submit_plan_proposal'' planner [(''task_id'', JStr task_id),
       (''generation'', generation), (''nodes'', JList (map JObj nodes)), (''edges'', JList (map JObj edges))] None None) (\<lambda>proposal.
    andthen (execute fuel E dispatch_enabled ''submit_result'' planner [(''run_id'', rid),
       (''fencing_epoch'', jint_opt (bound_fencing_epoch planner)),
       (''result'', JObj [(''outcome'', JStr ''COMPLETED''), (''verdict'', JStr ''PASS'')])] None None) (\<lambda>done.
    ret proposal))))"

definition propose_verification_revision :: "nat \<Rightarrow> env \<Rightarrow> bool \<Rightarrow> (string list \<Rightarrow> string) \<Rightarrow> AuthContext \<Rightarrow> string
    \<Rightarrow> dict list \<Rightarrow> dict list \<Rightarrow> string \<Rightarrow> string option \<Rightarrow> dict tx" where
  "propose_verification_revision fuel E dispatch_enabled any auth task_id held_nodes held_edges artifact_hash verify_work_unit_id =
    andthen (get_active_plan task_id) (\<lambda>current.
    andthen (collect held_nodes unit_name) (\<lambda>held_ids.
    andthen (revision_base held_ids (jor current (JObj []))) (\<lambda>base.
    andthen (execute fuel E dispatch_enabled ''dispatch_planner_run'' auth [(''task_id'', JStr task_id)] None None) (\<lambda>dispatched.
    (if \<not> cr_ok dispatched then
        ret [(''ok'', JBool False), (''error'', jopt (cr_error_code dispatched)), (''stage'', JStr ''dispatch'')]
      else andthen (need (cr_data dispatched) ''run_id'') (\<lambda>rid.
        andthen (drain_outbox fuel E 0) (\<lambda>processed.
        andthen (pinned_stage E any (fst base) held_nodes held_edges artifact_hash verify_work_unit_id) (\<lambda>added.
        andthen (submit_revision fuel E dispatch_enabled task_id (cr_data dispatched) rid
          (fst base @ fst added) (snd base @ snd added)) (\<lambda>proposal.
        ret [(''ok'', JBool (cr_ok proposal)), (''error'', jopt (cr_error_code proposal)),
          (''plan_version'', (if cr_ok proposal then dget (cr_data proposal) ''plan_version'' else JNull)),
          (''node_count'', JInt (int (length (fst base @ fst added)))),
          (''new_verify_work_units'', JList (map (\<lambda>n. JStr (py_str (dget n ''work_unit_id''))) (filter is_verify (fst added)))),
          (''pinned_artifact_hash'', JStr artifact_hash)])))))))))"

subsection \<open>Pins name what is published\<close>

lemma readonly_values [frame_intro]: "keeps (=) (list_value v)" "keeps (=) (task_prefix v)"
  by (simp_all add: list_value_def task_prefix_def readonly.keeps_struct split: json.split)

lemma readonly_fields [frame_intro]:
  "keeps (=) (dicts_of v)" "keeps (=) (renamed_node p raw)" "keeps (=) (keep_list raw n k)" "keeps (=) (renamed_edge p e)"
  "keeps (=) (add_path nodes v dst name)" "keeps (=) (content_of n)" "keeps (=) (output_names n)" "keeps (=) (unit_name n)"
  unfolding dicts_of_def renamed_node_def keep_list_def renamed_edge_def add_path_def content_of_def output_names_def unit_name_def
  by (intro readonly.keeps_struct frame_intro)+

lemma readonly_keep_fields [frame_intro]: "keeps (=) (keep_fields pair)"
  unfolding keep_fields_def by (intro readonly.keeps_struct frame_intro)

lemma readonly_outputs [frame_intro]: "keeps (=) (fake_worker_outputs n)"
  unfolding fake_worker_outputs_def by (intro readonly.keeps_struct frame_intro)

lemma readonly_add_upstream [frame_intro]: "keeps (=) (add_upstream nodes e)"
proof -
  have "keeps (=) (case xs of [] \<Rightarrow> ret nodes | name # _ \<Rightarrow> add_path nodes v dst (py_str name))" for xs v dst
    by (cases xs) (simp_all add: readonly.keeps_struct frame_intro)
  then show ?thesis unfolding add_upstream_def by (intro readonly.keeps_struct frame_intro)
qed

lemma readonly_pin_edge [frame_intro]: "keeps (=) (pin_edge E nodes pin e)"
  unfolding pin_edge_def by (intro readonly.keeps_struct frame_intro)

lemma collect_each:
  assumes "\<And>x. keeps (=) (f x)" and "collect xs f s = (Inr ys, t)"
  shows "t = s \<and> list_all2 (\<lambda>x y. f x s = (Inr y, s)) xs ys"
  using assms(2)
proof (induction xs arbitrary: ys)
  case (Cons x xs)
  then obtain y s1 zs s2 where run: "f x s = (Inr y, s1)" "collect xs f s1 = (Inr zs, s2)" "ys = y # zs" "t = s2"
    by (auto simp: andthen_Inr_iff)
  have "s1 = s" using assms(1) [of x] run(1) by (metis keeps_def snd_conv)
  with run Cons.IH show ?case by auto
qed simp

text \<open>What renaming and pinning do to an edge.\<close>

lemma dget_dset: "dget (dset k v d) k2 = (if k2 = k then v else dget d k2)"
  by (simp add: dget_def map_of_dset)

lemma dget_drop: "dget (filter (\<lambda>(k, v). k \<noteq> k1) d) k2 = (if k2 = k1 then JNull else dget d k2)"
  by (induction d) (auto simp: dget_def)

lemma renamed_edge_hash: "renamed_edge p e s = (Inr e2, t) \<Longrightarrow> dget e2 ''artifact_hash'' = dget e ''artifact_hash''"
  by (auto simp: renamed_edge_def andthen_Inr_iff dget_dset)

lemma pin_edge_Inr:
  assumes "pin_edge E nodes pin e s = (Inr e2, t)"
  shows "dget e2 ''from_work_unit_id'' = dget e ''from_work_unit_id''
    \<and> (if dget e ''artifact_hash'' = JStr ''PLACEHOLDER_INTEG'' then \<exists>n. node_named nodes (dget e ''from_work_unit_id'') = Some n
         \<and> (if pin then \<exists>outs. fake_worker_outputs n s = (Inr outs, s) \<and> dget e2 ''artifact_hash'' = JStr (outputs_digest E outs)
             else dget e2 ''artifact_hash'' = JNull)
       else e2 = e)"
proof (cases "dget e ''artifact_hash'' = JStr ''PLACEHOLDER_INTEG''")
  case True
  with assms obtain n where n: "node_named nodes (dget e ''from_work_unit_id'') = Some n"
    by (auto simp: pin_edge_def raise_def split: option.splits)
  have "fake_worker_outputs n s = (Inr outs, u) \<Longrightarrow> u = s" for outs u by (rule readonlyD [OF readonly_outputs])
  with assms True n show ?thesis
    by (auto simp: pin_edge_def andthen_Inr_iff dget_dset dget_drop split: if_splits)
next
  case False
  with assms show ?thesis by (simp add: pin_edge_def)
qed

text \<open>
  C37. A pin is the digest of what will be published. In the plan made of a task definition, an edge whose hash
  was the placeholder names the digest of the bytes that the scripted worker of its source node writes,
  with the inputs merged into that node (or no digest, when pins are switched off); every other edge keeps its hash.
\<close>

theorem pinned_digest_is_published:
  assumes run: "prepare_topology E task_def pin s = (Inr (nodes, edges), t)"
    and topo: "map_of task_def ''topology'' = Some (JObj topo)" "map_of topo ''edges'' = Some (JList (map JObj raws))"
  shows "t = s \<and> list_all2 (\<lambda>raw e. if dget raw ''artifact_hash'' = JStr ''PLACEHOLDER_INTEG''
      then \<exists>n. node_named nodes (dget e ''from_work_unit_id'') = Some n
        \<and> (if pin then \<exists>outs. fake_worker_outputs n s = (Inr outs, s) \<and> dget e ''artifact_hash'' = JStr (sha E (snd (hd outs)))
            else dget e ''artifact_hash'' = JNull)
      else dget e ''artifact_hash'' = dget raw ''artifact_hash'') raws edges"
proof -
  have objs: "collect (map JObj raws) as_obj u = (Inr raws, u)" for u
    by (induction raws) (simp_all add: as_obj_def)
  obtain renamed where same: "t = s" and renamed: "list_all2 (\<lambda>raw e. \<exists>p. renamed_edge p raw s = (Inr e, s)) raws renamed"
    and pinned: "list_all2 (\<lambda>e e2. pin_edge E nodes pin e s = (Inr e2, s)) renamed edges"
  proof -
    from run topo(1) obtain tid s1 prefix s2 ns s3 raw_nodes s4 rn s5 kept s6 es s7 raws' s8 renamed s9 s10 s11 where
      steps: "need task_def ''task_id'' s = (Inr tid, s1)" "task_prefix tid s1 = (Inr prefix, s2)"
        "need topo ''nodes'' s2 = (Inr ns, s3)" "dicts_of ns s3 = (Inr raw_nodes, s4)"
        "collect raw_nodes (renamed_node prefix) s4 = (Inr rn, s5)" "collect (zip rn raw_nodes) keep_fields s5 = (Inr kept, s6)"
        "need topo ''edges'' s6 = (Inr es, s7)" "dicts_of es s7 = (Inr raws', s8)"
        "collect raws' (renamed_edge prefix) s8 = (Inr renamed, s9)" "accumulate renamed kept add_upstream s9 = (Inr nodes, s10)"
        "collect renamed (pin_edge E nodes pin) s10 = (Inr edges, s11)" "t = s11"
      by (auto simp: prepare_topology_def andthen_Inr_iff as_obj_def)
    have ro: "keeps (=) (need task_def ''task_id'')" "keeps (=) (task_prefix tid)" "keeps (=) (need topo ''nodes'')" "keeps (=) (dicts_of ns)"
      "keeps (=) (collect raw_nodes (renamed_node prefix))" "keeps (=) (collect (zip rn raw_nodes) keep_fields)"
      "keeps (=) (need topo ''edges'')" "keeps (=) (dicts_of es)" "keeps (=) (collect raws' (renamed_edge prefix))"
      "keeps (=) (accumulate renamed kept add_upstream)" "keeps (=) (collect renamed (pin_edge E nodes pin))"
      by (intro readonly.keeps_struct frame_intro)+
    have eqs: "s1 = s" "s2 = s1" "s3 = s2" "s4 = s3" "s5 = s4" "s6 = s5" "s7 = s6" "s8 = s7" "s9 = s8" "s10 = s9" "s11 = s10"
      by (rule readonlyD [OF ro(1) steps(1)], rule readonlyD [OF ro(2) steps(2)], rule readonlyD [OF ro(3) steps(3)], rule readonlyD [OF ro(4) steps(4)], rule readonlyD [OF ro(5) steps(5)], rule readonlyD [OF ro(6) steps(6)], rule readonlyD [OF ro(7) steps(7)], rule readonlyD [OF ro(8) steps(8)], rule readonlyD [OF ro(9) steps(9)], rule readonlyD [OF ro(10) steps(10)], rule readonlyD [OF ro(11) steps(11)])
    have "es = JList (map JObj raws)" using steps(7) topo(2) by simp
    then have "raws' = raws" using steps(8) objs by (simp add: dicts_of_def elems_def)
    then show thesis
      using that steps(12) collect_each [OF _ steps(9)] collect_each [OF _ steps(11)] eqs readonly_fields(4) readonly_pin_edge
      by (auto intro: list_all2_mono)
  qed
  have "list_all2 (\<lambda>raw e. if dget raw ''artifact_hash'' = JStr ''PLACEHOLDER_INTEG''
      then \<exists>n. node_named nodes (dget e ''from_work_unit_id'') = Some n
        \<and> (if pin then \<exists>outs. fake_worker_outputs n s = (Inr outs, s) \<and> dget e ''artifact_hash'' = JStr (sha E (snd (hd outs)))
            else dget e ''artifact_hash'' = JNull)
      else dget e ''artifact_hash'' = dget raw ''artifact_hash'') raws edges"
    by (rule list_all2_trans [OF _ renamed pinned])
      (auto dest!: renamed_edge_hash pin_edge_Inr simp: outputs_digest_def split: if_splits)
  with same show ?thesis by simp
qed

text \<open>A plan of three nodes: the summary, its integration, the verification of that.\<close>

definition sample_definition :: dict where
  "sample_definition = [(''task_id'', JStr ''c-1''), (''topology'', JObj [
     (''nodes'', JList [
       JObj [(''work_unit_id'', JStr ''a''), (''expected_outputs'', JList [JStr ''a.md''])],
       JObj [(''work_unit_id'', JStr ''i''), (''work_type'', JStr ''INTEGRATE''), (''expected_outputs'', JList [JStr ''r.md''])],
       JObj [(''work_unit_id'', JStr ''v''), (''work_type'', JStr ''verify'')]]),
     (''edges'', JList [
       JObj [(''from_work_unit_id'', JStr ''a''), (''to_work_unit_id'', JStr ''i'')],
       JObj [(''from_work_unit_id'', JStr ''i''), (''to_work_unit_id'', JStr ''v''), (''predicate'', JStr ''VERDICT_PASS''),
         (''artifact_hash'', JStr ''PLACEHOLDER_INTEG'')]])])]"

definition plain_sha :: "env \<Rightarrow> env" where
  "plain_sha E = E\<lparr> sha := \<lambda>x. x \<rparr>"

theorem pinned_digest_is_published_witness:
  "\<exists>nodes edges n outs. prepare_topology (plain_sha sample_env) sample_definition True init_sess = (Inr (nodes, edges), init_sess)
    \<and> node_named nodes (JStr ''c_1_i'') = Some n \<and> fake_worker_outputs n init_sess = (Inr outs, init_sess)
    \<and> dget (edges ! 1) ''artifact_hash'' = JStr (snd (hd outs))"
proof -
  let ?run = "prepare_topology (plain_sha sample_env) sample_definition True init_sess"
  have ok: "case fst ?run of Inl e \<Rightarrow> False | Inr (nodes, edges) \<Rightarrow> dget (edges ! 1) ''from_work_unit_id'' = JStr ''c_1_i''" by code_simp
  then obtain nodes edges where r: "?run = (Inr (nodes, edges), snd ?run)" and src: "dget (edges ! 1) ''from_work_unit_id'' = JStr ''c_1_i''"
    by (cases ?run) (auto split: sum.splits)
  let ?topo = "entries (dget sample_definition ''topology'')"
  let ?raws = "map entries (the (py_list (dget ?topo ''edges'')))"
  have topo: "map_of sample_definition ''topology'' = Some (JObj ?topo)" "map_of ?topo ''edges'' = Some (JList (map JObj ?raws))"
    by (simp_all add: sample_definition_def dget_def)
  have raw: "dget (?raws ! 1) ''artifact_hash'' = JStr ''PLACEHOLDER_INTEG''" "length ?raws = 2"
    by (simp_all add: sample_definition_def dget_def)
  from pinned_digest_is_published [OF r topo] raw(2)
  have "snd ?run = init_sess" and "if dget (?raws ! 1) ''artifact_hash'' = JStr ''PLACEHOLDER_INTEG''
      then \<exists>n. node_named nodes (dget (edges ! 1) ''from_work_unit_id'') = Some n
        \<and> (if True then \<exists>outs. fake_worker_outputs n init_sess = (Inr outs, init_sess)
              \<and> dget (edges ! 1) ''artifact_hash'' = JStr (sha (plain_sha sample_env) (snd (hd outs)))
            else dget (edges ! 1) ''artifact_hash'' = JNull)
      else dget (edges ! 1) ''artifact_hash'' = dget (?raws ! 1) ''artifact_hash''"
    by (auto dest!: list_all2_nthD [where p = 1])
  then show ?thesis using r raw(1) src by (auto simp: plain_sha_def)
qed

subsection \<open>What is held back\<close>

definition unit_of :: "dict \<Rightarrow> string" where
  "unit_of n = py_str (dget n ''work_unit_id'')"

definition edge_from :: "dict \<Rightarrow> string" where
  "edge_from e = py_str (dget e ''from_work_unit_id'')"

definition edges_inside :: "dict list \<Rightarrow> dict list \<Rightarrow> bool" where
  "edges_inside nodes edges \<longleftrightarrow> (\<forall>e \<in> set edges. edge_from e \<in> unit_of ` set nodes \<and> edge_to e \<in> unit_of ` set nodes)"

lemma unit_name_Inr: "unit_name n s = (Inr w, t) \<Longrightarrow> w = unit_of n"
  by (auto simp: unit_name_def unit_of_def andthen_Inr_iff need_def the_or_def dget_def raise_def split: option.splits)

lemma collect_unit_name: "collect ns unit_name s = (Inr ws, t) \<Longrightarrow> t = s \<and> ws = map unit_of ns"
proof -
  assume run: "collect ns unit_name s = (Inr ws, t)"
  have "list_all2 (\<lambda>n w. w = unit_of n) ns ws"
    using collect_each [OF readonly_fields(8) run] by (auto intro: list_all2_mono dest: unit_name_Inr)
  then have "ws = map unit_of ns" by (induction ns ws rule: list_all2_induct) simp_all
  then show ?thesis using collect_each [OF readonly_fields(8) run] by blast
qed

lemma filter_by_name: "map snd (filter (\<lambda>(i, n). P i) (zip (map f ns) ns)) = filter (\<lambda>n. P (f n)) ns"
  by (induction ns) auto

lemma mset_split: "mset (filter P xs) + mset (filter (\<lambda>x. \<not> P x) xs) = mset xs"
  by (induction xs) auto

text \<open>
  Holding the verification back splits the plan without loss: the base holds the nodes that are not VERIFY, the rest is held,
  and every edge is in exactly one of the two. If all edges of the plan ran between its nodes then those of the base run between nodes of the
  base exactly if no VERIFY node has a successor that is not itself held back.
\<close>

theorem split_is_a_plan:
  assumes run: "split_verification_stage nodes edges s = (Inr g, t)"
    and ids: "distinct (map unit_of nodes)" and inside: "edges_inside nodes edges"
  shows "t = s \<and> sg_nodes g = filter (\<lambda>n. \<not> is_verify n) nodes \<and> sg_held_nodes g = filter is_verify nodes
    \<and> mset (sg_edges g) + mset (sg_held_edges g) = mset edges
    \<and> (edges_inside (sg_nodes g) (sg_edges g) \<longleftrightarrow>
        \<not> (\<exists>e \<in> set edges. edge_from e \<in> unit_of ` set (sg_held_nodes g) \<and> edge_to e \<notin> unit_of ` set (sg_held_nodes g)))"
proof -
  let ?V = "unit_of ` set (filter is_verify nodes)"
  from run have same: "t = s" and g: "g = \<lparr> sg_nodes = filter (\<lambda>n. unit_of n \<notin> ?V) nodes, sg_edges = filter (\<lambda>e. edge_to e \<notin> ?V) edges,
      sg_held_nodes = filter (\<lambda>n. unit_of n \<in> ?V) nodes, sg_held_edges = filter (\<lambda>e. edge_to e \<in> ?V) edges \<rparr>"
  proof -
    from run obtain vs s1 where vs: "collect (filter is_verify nodes) unit_name s = (Inr vs, s1)"
      and rest: "(if vs = [] then ret \<lparr> sg_nodes = nodes, sg_edges = edges, sg_held_nodes = [], sg_held_edges = [] \<rparr>
        else andthen (collect nodes unit_name) (\<lambda>ids.
          ret \<lparr> sg_nodes = map snd (filter (\<lambda>(i, n). i \<notin> set vs) (zip ids nodes)),
            sg_edges = filter (\<lambda>e. edge_to e \<notin> set vs) edges,
            sg_held_nodes = map snd (filter (\<lambda>(i, n). i \<in> set vs) (zip ids nodes)),
            sg_held_edges = filter (\<lambda>e. edge_to e \<in> set vs) edges \<rparr>)) s1 = (Inr g, t)"
      by (auto simp: split_verification_stage_def andthen_Inr_iff)
    have v: "s1 = s" "vs = map unit_of (filter is_verify nodes)" using collect_unit_name [OF vs] by simp_all
    then have sv: "set vs = ?V" by simp
    show "t = s" and "g = \<lparr> sg_nodes = filter (\<lambda>n. unit_of n \<notin> ?V) nodes, sg_edges = filter (\<lambda>e. edge_to e \<notin> ?V) edges,
        sg_held_nodes = filter (\<lambda>n. unit_of n \<in> ?V) nodes, sg_held_edges = filter (\<lambda>e. edge_to e \<in> ?V) edges \<rparr>"
      using rest v(1) unfolding sv [symmetric]
      by (cases "vs = []"; auto simp: andthen_Inr_iff filter_by_name dest!: collect_unit_name)+
  qed
  have mem: "unit_of n \<in> ?V \<longleftrightarrow> is_verify n" if "n \<in> set nodes" for n
    using ids that by (auto simp: distinct_map inj_on_def)
  then have nodes: "filter (\<lambda>n. unit_of n \<notin> ?V) nodes = filter (\<lambda>n. \<not> is_verify n) nodes"
      "filter (\<lambda>n. unit_of n \<in> ?V) nodes = filter is_verify nodes"
    by (auto intro: filter_cong)
  have base: "unit_of ` set (filter (\<lambda>n. \<not> is_verify n) nodes) = unit_of ` set nodes - ?V"
    using mem by auto
  have "edges_inside (filter (\<lambda>n. \<not> is_verify n) nodes) (filter (\<lambda>e. edge_to e \<notin> ?V) edges)
      \<longleftrightarrow> \<not> (\<exists>e \<in> set edges. edge_from e \<in> ?V \<and> edge_to e \<notin> ?V)"
    using inside unfolding edges_inside_def base by auto
  then show ?thesis using same g nodes mset_split [of "\<lambda>e. edge_to e \<notin> ?V" edges] by simp
qed

definition sample_part :: "string \<Rightarrow> dict list" where
  "sample_part k = map entries (the (py_list (dget (entries (dget sample_definition ''topology'')) k)))"

theorem split_is_a_plan_witness:
  "\<exists>g. split_verification_stage (sample_part ''nodes'') (sample_part ''edges'') init_sess = (Inr g, init_sess)
    \<and> edges_inside (sg_nodes g) (sg_edges g) \<and> map unit_of (sg_held_nodes g) = [''v'']"
proof -
  let ?run = "split_verification_stage (sample_part ''nodes'') (sample_part ''edges'') init_sess"
  have ok: "case fst ?run of Inl e \<Rightarrow> False | Inr g \<Rightarrow> map unit_of (sg_held_nodes g) = [''v'']" by code_simp
  then obtain g where g: "?run = (Inr g, snd ?run)" "map unit_of (sg_held_nodes g) = [''v'']"
    by (cases ?run) (auto split: sum.splits)
  have d: "distinct (map unit_of (sample_part ''nodes''))" by code_simp
  have inside: "edges_inside (sample_part ''nodes'') (sample_part ''edges'')" by code_simp
  have last: "\<forall>e \<in> set (sample_part ''edges''). edge_from e \<noteq> ''v''" by code_simp
  have held: "unit_of ` set (sg_held_nodes g) = {''v''}" using arg_cong [OF g(2), of set] by simp
  note split_is_a_plan [OF g(1) d inside, unfolded held]
  then have "snd ?run = init_sess" "edges_inside (sg_nodes g) (sg_edges g)" using last by blast+
  with g show ?thesis by metis
qed

subsection \<open>What the revision adds\<close>

text \<open>Every VERDICT_PASS edge of the stage that is added again names the digest given and leaves the producer of the plan.\<close>

lemma moved_edge_pinned:
  assumes "upper_text (jor (dget e ''predicate'') (JStr [])) = ''VERDICT_PASS''"
  shows "dget (moved_edge any nodes fresh h e) ''artifact_hash'' = JStr h
    \<and> (producer any nodes \<noteq> [] \<longrightarrow> edge_from (moved_edge any nodes fresh h e) = producer any nodes)"
  using assms by (auto simp: moved_edge_def Let_def dget_dset edge_from_def split: option.splits)

lemma moved_edge_target:
  assumes "fresh (name_or_empty e ''to_work_unit_id'') = Some f"
  shows "edge_to (moved_edge any nodes fresh h e) = f"
  using assms by (auto simp: moved_edge_def Let_def dget_dset edge_to_def split: option.splits)

lemma revision_is_pinned:
  assumes "pinned_stage E any nodes held_nodes held_edges h v s = (Inr (added, edges), t)"
  shows "length added = length held_nodes \<and> list_all2 (\<lambda>e e2. upper_text (jor (dget e ''predicate'') (JStr [])) = ''VERDICT_PASS'' \<longrightarrow>
      dget e2 ''artifact_hash'' = JStr h \<and> (producer any nodes \<noteq> [] \<longrightarrow> edge_from e2 = producer any nodes)) held_edges edges"
proof -
  have len: "collect xs f u = (Inr ys, w) \<Longrightarrow> length ys = length xs" for xs :: "dict list" and f :: "dict \<Rightarrow> (string \<times> string \<times> dict) tx" and ys u w
    by (induction xs arbitrary: ys u) (auto simp: andthen_Inr_iff)
  from assms obtain minted s1 where minted: "collect held_nodes (mint E (if length held_nodes = 1 \<and> is_set v then v else None)) s = (Inr minted, s1)"
      and added: "added = map (\<lambda>(old, new_name, node). node) minted"
      and edges: "edges = map (moved_edge any nodes (map_of (rev (map (\<lambda>(old, new_name, node). (old, new_name)) minted))) h) held_edges"
    by (auto simp: pinned_stage_def andthen_Inr_iff Let_def)
  from len [OF minted] added have "length added = length held_nodes" by simp
  then show ?thesis using moved_edge_pinned unfolding edges list.rel_map by (auto intro!: list.rel_refl)
qed

end
