(* ===== verification/Doubles.thy ===== *)
theory Doubles
  imports Adapter Topology
begin

text \<open>
  The doubles behind the ports (\<open>runtime/fake_agent.py\<close>, \<open>fake_planner.py\<close>, \<open>fake_external.py\<close>) and the router of the
  acceptance runner (\<open>AssignmentRoutingAdapter\<close> of \<open>interfaces/m2_runner.py\<close>), which gives PLAN Runs to the planner
  double and all others to the API worker. Each provides a contract of theory \<open>Ports\<close>. A record of the agent double is a
  dict; an answer is a copy of it.
\<close>

subsection \<open>The agent double\<close>

record fake =
  fk_runs :: "(string \<times> dict) list"
  fk_started :: "string list"
  fk_stopped :: "(string \<times> string) list"
  fk_fail_start :: "string list"
  fk_keep_alive :: "string list"
  fk_revoked :: "string list"

definition init_fake :: fake where
  "init_fake = \<lparr> fk_runs = [], fk_started = [], fk_stopped = [], fk_fail_start = [], fk_keep_alive = [], fk_revoked = [] \<rparr>"

definition put_fake :: "string \<Rightarrow> dict \<Rightarrow> fake \<Rightarrow> fake" where
  "put_fake i rec A = A\<lparr> fk_runs := dset i rec (fk_runs A) \<rparr>"

definition fake_record :: "string \<Rightarrow> bool \<Rightarrow> string \<Rightarrow> bool \<Rightarrow> dict \<Rightarrow> dict" where
  "fake_record i alive status revoked run_spec = [(''run_id'', JStr i), (''alive'', JBool alive), (''writer_alive'', JBool alive),
     (''status'', JStr status), (''start_revoked'', JBool revoked), (''spec'', JObj run_spec)]"

definition fake_revoked_start :: "string \<Rightarrow> dict \<Rightarrow> fake \<Rightarrow> (string + dict) \<times> fake" where
  "fake_revoked_start i run_spec A =
    (case map_of (fk_runs A) i of
       Some existing \<Rightarrow> (let rec = dset ''start_revoked'' (JBool True) existing in (Inr rec, put_fake i rec A))
     | None \<Rightarrow> (let rec = fake_record i False ''REVOKED'' True run_spec in (Inr rec, put_fake i rec A)))"

text \<open>\<open>hook\<close> is what a test does between the two looks at the revocations.\<close>

definition fake_start :: "(fake \<Rightarrow> fake) \<Rightarrow> dict \<Rightarrow> fake \<Rightarrow> (string + dict) \<times> fake" where
  "fake_start hook run_spec A =
    (case map_of run_spec ''run_id'' of
       None \<Rightarrow> (Inl ''KeyError: run_id'', A)
     | Some v \<Rightarrow>
        (let i = py_str v
         in if i \<in> set (fk_revoked A) then fake_revoked_start i run_spec A
            else (let A1 = hook A
              in if i \<in> set (fk_revoked A1) then fake_revoked_start i run_spec A1
                 else (case map_of (fk_runs A1) i of
                    Some existing \<Rightarrow> (Inr existing, A1)
                  | None \<Rightarrow>
                     (if i \<in> set (fk_fail_start A1) then (Inl ''RuntimeError: fake_start_failed'', A1)
                      else (let rec = fake_record i True ''RUNNING'' False run_spec
                        in (Inr rec, put_fake i rec (A1\<lparr> fk_started := fk_started A1 @ [i] \<rparr>))))))))"

definition fake_send :: "string \<Rightarrow> dict \<Rightarrow> fake \<Rightarrow> (string + unit) \<times> fake" where
  "fake_send i message A =
    (case map_of (fk_runs A) i of
       None \<Rightarrow> (Inl (''KeyError: '' @ i), A)
     | Some rec \<Rightarrow> (Inr (), put_fake i (dset ''messages''
         (JList ((case dget rec ''messages'' of JList ms \<Rightarrow> ms | _ \<Rightarrow> []) @ [JObj message])) rec) A))"

definition stopped_record :: "string \<Rightarrow> dict \<Rightarrow> dict" where
  "stopped_record reason rec = dset ''start_revoked'' (JBool True) (dset ''stop_reason'' (JStr reason)
     (dset ''status'' (JStr ''STOPPED'') (dset ''writer_alive'' (JBool False) (dset ''alive'' (JBool False) rec))))"

definition fake_stop :: "string \<Rightarrow> string \<Rightarrow> fake \<Rightarrow> dict \<times> fake" where
  "fake_stop i reason A =
    (let A1 = A\<lparr> fk_stopped := fk_stopped A @ [(i, reason)],
           fk_revoked := (if i \<in> set (fk_revoked A) then fk_revoked A else fk_revoked A @ [i]) \<rparr>
     in case map_of (fk_runs A) i of
       None \<Rightarrow> (brief_state i False False ''REVOKED'' True, A1)
     | Some rec \<Rightarrow>
        (if i \<in> set (fk_keep_alive A) then
           ([(''run_id'', JStr i), (''alive'', JBool True), (''writer_alive'', JBool True), (''status'', JStr ''RUNNING''),
              (''stop_requested'', JBool True), (''start_revoked'', JBool True)],
            put_fake i (dset ''stop_requested'' (JBool True) (dset ''start_revoked'' (JBool True) rec)) A1)
         else (brief_state i False False ''STOPPED'' True, put_fake i (stopped_record reason rec) A1)))"

definition fake_inspect :: "string \<Rightarrow> fake \<Rightarrow> dict" where
  "fake_inspect i A =
    (case map_of (fk_runs A) i of
       None \<Rightarrow> [(''run_id'', JStr i), (''alive'', JBool False), (''status'', JStr ''MISSING'')]
     | Some rec \<Rightarrow> [(''run_id'', JStr i), (''alive'', JBool (truthy (dget rec ''alive''))),
         (''writer_alive'', JBool (truthy (dget rec ''writer_alive''))), (''status'', dget rec ''status''),
         (''identity'', JStr (''fake:'' @ i)), (''start_revoked'', JBool (truthy (dget rec ''start_revoked'')))])"

definition mark_dead :: "string \<Rightarrow> fake \<Rightarrow> fake" where
  "mark_dead i A =
    (case map_of (fk_runs A) i of
       None \<Rightarrow> A
     | Some rec \<Rightarrow> put_fake i (dset ''status'' (JStr ''DEAD'') (dset ''writer_alive'' (JBool False) (dset ''alive'' (JBool False) rec))) A)"

definition is_alive :: "string \<Rightarrow> fake \<Rightarrow> bool" where
  "is_alive i A \<longleftrightarrow> (case map_of (fk_runs A) i of None \<Rightarrow> False | Some rec \<Rightarrow> truthy (dget rec ''alive''))"

text \<open>Everything that can happen to it; a test may do anything in the hook.\<close>

inductive fake_step :: "fake \<Rightarrow> fake \<Rightarrow> bool" where
  start: "fake_step\<^sup>*\<^sup>* A (hook A) \<Longrightarrow> fake_step A (snd (fake_start hook run_spec A))"
| send: "fake_step A (snd (fake_send i message A))"
| stop: "fake_step A (snd (fake_stop i reason A))"
| dead: "fake_step A (mark_dead i A)"
| configure: "fake_step A (A\<lparr> fk_fail_start := xs, fk_keep_alive := ys \<rparr>)"

inductive_cases fake_stepE: "fake_step A B"

subsection \<open>The double keeps the contract\<close>

definition fake_writes :: "string \<Rightarrow> fake \<Rightarrow> bool" where
  "fake_writes i A \<longleftrightarrow> (case map_of (fk_runs A) i of None \<Rightarrow> False
     | Some rec \<Rightarrow> truthy (dget rec ''alive'') \<or> truthy (dget rec ''writer_alive''))"

text \<open>No Run is started twice, whoever was started has a record, and no record says that it is missing.\<close>

definition fake_ok :: "fake \<Rightarrow> bool" where
  "fake_ok A \<longleftrightarrow> distinct (fk_started A) \<and> (\<forall>i \<in> set (fk_started A). map_of (fk_runs A) i \<noteq> None)
    \<and> (\<forall>i rec. map_of (fk_runs A) i = Some rec \<longrightarrow> dget rec ''status'' \<noteq> JStr ''MISSING'')"

definition fake_le :: "fake \<Rightarrow> fake \<Rightarrow> bool" where
  "fake_le A B \<longleftrightarrow> (fake_ok A \<longrightarrow> fake_ok B) \<and> set (fk_revoked A) \<subseteq> set (fk_revoked B)
    \<and> (\<forall>i \<in> set (fk_revoked A). (fake_writes i B \<longrightarrow> fake_writes i A) \<and> (i \<in> set (fk_started B) \<longleftrightarrow> i \<in> set (fk_started A)))"

lemma fake_le_refl: "fake_le A A"
  by (simp add: fake_le_def)

lemma fake_le_trans: "fake_le A B \<Longrightarrow> fake_le B C \<Longrightarrow> fake_le A C"
  by (auto simp: fake_le_def)

lemma fk_put [simp]:
  "map_of (fk_runs (put_fake i rec A)) = (map_of (fk_runs A))(i |-> rec)" "fk_revoked (put_fake i rec A) = fk_revoked A"
  "fk_started (put_fake i rec A) = fk_started A"
  by (simp_all add: put_fake_def map_of_dset)

lemma fake_le_put:
  assumes "truthy (dget rec ''alive'') \<or> truthy (dget rec ''writer_alive'') \<Longrightarrow> fake_writes i A" and "dget rec ''status'' \<noteq> JStr ''MISSING''"
  shows "fake_le A (put_fake i rec A)"
  using assms by (auto simp: fake_le_def fake_ok_def fake_writes_def)

lemma fake_record_fields [simp]:
  "dget (fake_record i alive status revoked spec) ''alive'' = JBool alive"
  "dget (fake_record i alive status revoked spec) ''writer_alive'' = JBool alive"
  "dget (fake_record i alive status revoked spec) ''status'' = JStr status"
  by (simp_all add: fake_record_def dget_def)

lemma fake_le_revoked_start:
  assumes "fake_ok A" shows "fake_le A (snd (fake_revoked_start i spec A))"
proof (cases "map_of (fk_runs A) i")
  case None
  then show ?thesis by (auto simp: fake_revoked_start_def Let_def intro!: fake_le_put)
next
  case (Some rec)
  then show ?thesis using assms
    by (auto simp: fake_revoked_start_def Let_def dget_dset fake_writes_def fake_ok_def intro!: fake_le_put)
qed

lemma fake_le_start:
  assumes ok: "fake_ok A" and hook: "fake_le A (hook A)"
  shows "fake_le A (snd (fake_start hook run_spec A))"
proof (cases "map_of run_spec ''run_id''")
  case None
  then show ?thesis by (simp add: fake_start_def fake_le_refl)
next
  case (Some v)
  let ?i = "py_str v" and ?B = "hook A"
  have okB: "fake_ok ?B" using hook ok by (simp add: fake_le_def)
  have known: "?i \<in> set (fk_started ?B) \<Longrightarrow> map_of (fk_runs ?B) ?i \<noteq> None" using okB by (auto simp: fake_ok_def)
  show ?thesis
  proof (cases "?i \<in> set (fk_revoked A) \<or> ?i \<in> set (fk_revoked ?B) \<or> map_of (fk_runs ?B) ?i \<noteq> None \<or> ?i \<in> set (fk_fail_start ?B)")
    case True
    then show ?thesis using Some hook fake_le_revoked_start [OF ok] fake_le_trans [OF hook fake_le_revoked_start [OF okB]]
      by (auto simp: fake_start_def Let_def split: option.split)
  next
    case False
    then have new_one: "snd (fake_start hook run_spec A) = put_fake ?i (fake_record ?i True ''RUNNING'' False run_spec)
        (?B\<lparr> fk_started := fk_started ?B @ [?i] \<rparr>)"
      using Some by (simp add: fake_start_def Let_def)
    show ?thesis unfolding new_one
      using False known okB hook by (auto simp: fake_le_def fake_ok_def fake_writes_def put_fake_def map_of_dset)
  qed
qed

lemma fake_le_ops:
  assumes "fake_ok A"
  shows "fake_le A (snd (fake_send i message A))" "fake_le A (snd (fake_stop i reason A))" "fake_le A (mark_dead i A)"
    "fake_le A (A\<lparr> fk_fail_start := xs, fk_keep_alive := ys \<rparr>)"
proof -
  show "fake_le A (snd (fake_send i message A))" using assms
    by (auto simp: fake_send_def dget_dset fake_writes_def fake_ok_def fake_le_refl intro!: fake_le_put split: option.split)
  show "fake_le A (mark_dead i A)"
    by (auto simp: mark_dead_def dget_dset fake_le_refl intro!: fake_le_put split: option.split)
  show "fake_le A (A\<lparr> fk_fail_start := xs, fk_keep_alive := ys \<rparr>)" by (auto simp: fake_le_def fake_ok_def fake_writes_def)
  show "fake_le A (snd (fake_stop i reason A))" using assms
    by (auto simp: fake_stop_def stopped_record_def Let_def fake_le_def fake_ok_def fake_writes_def put_fake_def map_of_dset dget_dset
      split: option.split)
qed

text \<open>Steps that each keep a preorder keep it together.\<close>

lemma star_keeps:
  assumes "(\<lambda>a b. S a b \<and> (Q a \<longrightarrow> P a b))\<^sup>*\<^sup>* a b" and "Q a" and "\<And>x. P x x" and "\<And>x y z. P x y \<Longrightarrow> P y z \<Longrightarrow> P x z"
    and "\<And>x y. P x y \<Longrightarrow> Q x \<Longrightarrow> Q y"
  shows "P a b"
  using assms(1,2)
proof (induction rule: rtranclp_induct)
  case base
  show ?case by (rule assms(3))
next
  case (step y z)
  then have "P a y" "Q y" using assms(5) by blast+
  with step.hyps(2) show ?case using assms(4) by blast
qed

lemma fake_step_le: "fake_step A B \<Longrightarrow> fake_ok A \<Longrightarrow> fake_le A B"
proof (induction rule: fake_step.induct)
  case (start A hook run_spec)
  have "fake_le A (hook A)"
    by (rule star_keeps [OF start.IH start.prems fake_le_refl fake_le_trans]) (simp_all add: fake_le_def)
  then show ?case by (rule fake_le_start [OF start.prems])
qed (simp_all add: fake_le_ops)

definition fake_stops :: "string \<Rightarrow> fake \<Rightarrow> dict \<Rightarrow> fake \<Rightarrow> bool" where
  "fake_stops i A answer B \<longleftrightarrow> (\<exists>reason. fake_stop i reason A = (answer, B))"

lemma fake_stop_quiet:
  assumes "stop_confirmed (JObj (fst (fake_stop i reason A)))"
  shows "i \<in> set (fk_revoked (snd (fake_stop i reason A))) \<and> \<not> fake_writes i (snd (fake_stop i reason A))"
  using assms
  by (auto simp: fake_stop_def stopped_record_def Let_def fake_writes_def put_fake_def map_of_dset dget_dset stop_confirmed_def jget_def
    split: option.splits if_splits)

interpretation double: agent_port fake_ok fake_step "\<lambda>i A. i \<in> set (fk_revoked A)" fake_writes fake_stops
proof
  fix A B i assume ok: "fake_ok A" and step: "fake_step A B"
  note le = fake_step_le [OF step ok]
  show "fake_ok B" using le ok by (simp add: fake_le_def)
  show "i \<in> set (fk_revoked B)" if "i \<in> set (fk_revoked A)" using le that by (auto simp: fake_le_def)
  show "fake_writes i A" if "i \<in> set (fk_revoked A)" "fake_writes i B" using le that by (auto simp: fake_le_def)
next
  fix A B i answer assume ok: "fake_ok A" and stops: "fake_stops i A answer B"
  then obtain reason where stop: "fake_stop i reason A = (answer, B)" unfolding fake_stops_def by blast
  show "fake_ok B" using fake_le_ops(2) [OF ok, of i reason] stop ok by (simp add: fake_le_def)
  show "i \<in> set (fk_revoked B) \<and> \<not> fake_writes i B" if "stop_confirmed (JObj answer)"
    using fake_stop_quiet [of i reason A] stop that by simp
qed

subsection \<open>The router\<close>

text \<open>
  \<open>AssignmentRoutingAdapter\<close> over the API worker and the planner double. A start goes by the assignment kind; everything else
  goes to the adapter whose \<open>inspect\<close> knows the Run, the worker first.
\<close>

type_synonym router = "adapter \<times> fake"

definition is_plan :: "dict \<Rightarrow> bool" where
  "is_plan run_spec \<longleftrightarrow> dget run_spec ''assignment_kind'' = JStr ''PLAN''"

definition route_start :: "(fake \<Rightarrow> fake) \<Rightarrow> dict \<Rightarrow> router \<Rightarrow> (string + dict) \<times> router" where
  "route_start hook run_spec R =
    (if is_plan run_spec then (let (answer, P) = fake_start hook run_spec (snd R) in (answer, (fst R, P)))
     else (let (answer, W) = adapter_start run_spec (fst R) in (answer, (W, snd R))))"

definition route_send :: "string \<Rightarrow> dict \<Rightarrow> router \<Rightarrow> (string + unit) \<times> router" where
  "route_send i message R =
    (case adapter_send i message (fst R) of
       (Inr u, W) \<Rightarrow> (Inr u, (W, snd R))
     | (Inl e, W) \<Rightarrow> (let (answer, P) = fake_send i message (snd R) in (answer, (W, P))))"

definition known :: "dict \<Rightarrow> bool" where
  "known answer \<longleftrightarrow> dget answer ''status'' \<noteq> JStr ''MISSING''"

definition route_stop :: "(adapter \<Rightarrow> adapter) \<Rightarrow> string option \<Rightarrow> string \<Rightarrow> string \<Rightarrow> router \<Rightarrow> (string + dict) \<times> router" where
  "route_stop during current i reason R =
    (if known (adapter_inspect i (fst R)) then
       (let (answer, W) = adapter_stop during current i reason (fst R) in (answer, (W, snd R)))
     else if known (fake_inspect i (snd R)) then
       (let (answer, P) = fake_stop i reason (snd R) in (Inr answer, (fst R, P)))
     else (Inr (fake_inspect i (snd R)), R))"

definition route_inspect :: "string \<Rightarrow> router \<Rightarrow> dict" where
  "route_inspect i R =
    (if known (adapter_inspect i (fst R)) then adapter_inspect i (fst R)
     else if known (fake_inspect i (snd R)) then fake_inspect i (snd R)
     else [(''run_id'', JStr i), (''alive'', JBool False), (''status'', JStr ''MISSING'')])"

text \<open>
  The core starts a Run always with the same assignment kind, here \<open>plan\<close>. So the worker has records of other Runs only, and the
  double of PLAN Runs only. No worker record says that it is missing.
\<close>

definition own_side :: "(string \<Rightarrow> bool) \<Rightarrow> adapter \<Rightarrow> bool" where
  "own_side plan W \<longleftrightarrow> (\<forall>i r. map_of (ad_runs W) i = Some r \<longrightarrow> \<not> plan i \<and> rr_status r \<noteq> ''MISSING'')"

definition plan_side :: "(string \<Rightarrow> bool) \<Rightarrow> fake \<Rightarrow> bool" where
  "plan_side plan P \<longleftrightarrow> (\<forall>i. map_of (fk_runs P) i \<noteq> None \<longrightarrow> plan i)"

definition route_ok :: "(string \<Rightarrow> bool) \<Rightarrow> router \<Rightarrow> bool" where
  "route_ok plan R \<longleftrightarrow> adapter_ok (fst R) \<and> fake_ok (snd R) \<and> own_side plan (fst R) \<and> plan_side plan (snd R)"

inductive route_step :: "(string \<Rightarrow> bool) \<Rightarrow> router \<Rightarrow> router \<Rightarrow> bool" for plan where
  worker: "adapter_step W W1 \<Longrightarrow> own_side plan W1 \<Longrightarrow> route_step plan (W, P) (W1, P)"
| planner: "fake_step P P1 \<Longrightarrow> plan_side plan P1 \<Longrightarrow> route_step plan (W, P) (W, P1)"

definition route_revoked :: "(string \<Rightarrow> bool) \<Rightarrow> string \<Rightarrow> router \<Rightarrow> bool" where
  "route_revoked plan i R \<longleftrightarrow> (if plan i then i \<in> set (fk_revoked (snd R)) else i \<in> set (ad_revoked (fst R)))"

definition route_writes :: "string \<Rightarrow> router \<Rightarrow> bool" where
  "route_writes i R \<longleftrightarrow> thread_alive (fst R) i \<or> fake_writes i (snd R)"

definition route_stops :: "(string \<Rightarrow> bool) \<Rightarrow> string \<Rightarrow> router \<Rightarrow> dict \<Rightarrow> router \<Rightarrow> bool" where
  "route_stops plan i R answer R1 \<longleftrightarrow> (\<exists>during reason. (\<forall>A. adapter_step\<^sup>*\<^sup>* A (during A) \<and> (own_side plan A \<longrightarrow> own_side plan (during A)))
     \<and> route_stop during None i reason R = (Inr answer, R1))"

lemma worker_silent: "adapter_ok W \<Longrightarrow> own_side plan W \<Longrightarrow> plan i \<Longrightarrow> \<not> thread_alive W i"
  using adapter_okD(2,3) [of W i] by (cases "map_of (ad_runs W) i") (auto simp: own_side_def thread_alive_def)

lemma planner_silent: "plan_side plan P \<Longrightarrow> \<not> plan i \<Longrightarrow> \<not> fake_writes i P"
  by (auto simp: plan_side_def fake_writes_def split: option.split)

lemma known_worker: "own_side plan W \<Longrightarrow> known (adapter_inspect i W) \<longleftrightarrow> map_of (ad_runs W) i \<noteq> None"
  by (auto simp: own_side_def known_def adapter_inspect_def run_state_def dget_def split: option.split)

lemma known_planner: "fake_ok P \<Longrightarrow> known (fake_inspect i P) \<longleftrightarrow> map_of (fk_runs P) i \<noteq> None"
  by (auto simp: fake_ok_def known_def fake_inspect_def dget_def split: option.split)

text \<open>An operation of the router is a step of the side it goes to.\<close>

lemma route_start_step:
  assumes "route_ok plan (W, P)" and "map_of run_spec ''run_id'' = Some v" and "plan (py_str v) \<longleftrightarrow> is_plan run_spec"
    and "fake_step\<^sup>*\<^sup>* P (hook P)" and "plan_side plan (hook P)"
  shows "route_step plan (W, P) (snd (route_start hook run_spec (W, P)))"
proof (cases "is_plan run_spec")
  case True
  have "plan_side plan (snd (fake_start hook run_spec P))" using assms True
    by (auto simp: route_ok_def plan_side_def fake_start_def fake_revoked_start_def Let_def put_fake_def map_of_dset
      split: option.splits if_splits)
  then show ?thesis using True fake_step.start [where A = P and hook = hook, OF assms(4)]
    by (auto simp: route_start_def case_prod_beta intro: route_step.planner)
next
  case False
  have "own_side plan (snd (adapter_start run_spec W))" using assms False
    by (auto simp: route_ok_def own_side_def adapter_start_def revoked_start_result_def new_record_def Let_def
      split: option.splits if_splits)
  then show ?thesis using False by (auto simp: route_start_def case_prod_beta intro: route_step.worker adapter_step.start)
qed

lemma own_side_stop:
  assumes "own_side plan W" and "\<forall>A. own_side plan A \<longrightarrow> own_side plan (during A)"
  shows "own_side plan (snd (adapter_stop during None i reason W))"
proof -
  have first: "own_side plan (snd (stop_begin None i reason W))" using assms(1)
    by (auto simp: own_side_def stop_begin_def unconfirmed_record_def Let_def split: option.splits if_splits)
  have last: "own_side plan (snd (stop_end i A))" if "own_side plan A" for A using that
    by (auto simp: own_side_def stop_end_def unconfirmed_record_def Let_def split: option.splits if_splits)
  show ?thesis using first assms(2) last
    by (auto simp: adapter_stop_def case_prod_beta Let_def split: option.split)
qed

lemma plan_side_stop: "plan_side plan P \<Longrightarrow> plan_side plan (snd (fake_stop i reason P))"
  by (auto simp: plan_side_def fake_stop_def Let_def put_fake_def map_of_dset split: option.split)

lemma route_stop_cases:
  assumes "own_side plan W" and "fake_ok P" and "route_stop during current i reason (W, P) = (Inr answer, S)"
  shows "map_of (ad_runs W) i \<noteq> None \<and> (\<exists>W1. adapter_stop during current i reason W = (Inr answer, W1) \<and> S = (W1, P))
    \<or> map_of (fk_runs P) i \<noteq> None \<and> (\<exists>P1. fake_stop i reason P = (answer, P1) \<and> S = (W, P1))
    \<or> answer = fake_inspect i P \<and> map_of (fk_runs P) i = None \<and> S = (W, P)"
proof (cases "map_of (ad_runs W) i = None")
  case True
  then show ?thesis using assms(3) known_worker [OF assms(1), of i] known_planner [OF assms(2), of i]
    by (cases "fake_stop i reason P") (auto simp: route_stop_def split: if_splits)
next
  case False
  then show ?thesis using assms(3) known_worker [OF assms(1), of i]
    by (cases "adapter_stop during current i reason W") (auto simp: route_stop_def)
qed

lemma inspect_confirms_nothing: "map_of (fk_runs P) i = None \<Longrightarrow> \<not> stop_confirmed (JObj (fake_inspect i P))"
  by (simp add: fake_inspect_def stop_confirmed_def jget_def)

interpretation routed: agent_port "route_ok plan" "route_step plan" "route_revoked plan" route_writes "route_stops plan" for plan
proof
  fix R S i assume ok: "route_ok plan R" and step: "route_step plan R S"
  note ok = ok [unfolded route_ok_def]
  show "route_ok plan S" using step ok
    by cases (auto simp: route_ok_def intro: api.step_ok double.step_ok)
  show "route_revoked plan i S" if "route_revoked plan i R" using step that ok
    by cases (auto simp: route_revoked_def dest: api.revoked_stays double.revoked_stays split: if_splits)
  show "route_writes i R" if "route_revoked plan i R" "route_writes i S" using step
  proof cases
    case (worker W W1 P)
    then show ?thesis using that ok worker_silent [OF api.step_ok, of W W1 plan i] api.no_new_writer [of W W1 i]
      by (cases "plan i") (auto simp: route_revoked_def route_writes_def)
  next
    case (planner P P1 W)
    then show ?thesis using that ok planner_silent [of plan P1 i] double.no_new_writer [of P P1 i]
      by (cases "plan i") (auto simp: route_revoked_def route_writes_def)
  qed
next
  fix R S i answer assume ok: "route_ok plan R" and stops: "route_stops plan i R answer S"
  obtain W P where R: "R = (W, P)" by (cases R)
  note ok = ok [unfolded route_ok_def R fst_conv snd_conv]
  from stops obtain during reason where during: "\<forall>A. adapter_step\<^sup>*\<^sup>* A (during A)" "\<forall>A. own_side plan A \<longrightarrow> own_side plan (during A)"
    and stop: "route_stop during None i reason (W, P) = (Inr answer, S)" unfolding route_stops_def R by blast
  have "own_side plan W" "fake_ok P" using ok by simp_all
  from route_stop_cases [OF this stop] consider
      (worker) W1 where "map_of (ad_runs W) i \<noteq> None" "adapter_stop during None i reason W = (Inr answer, W1)" "S = (W1, P)"
    | (planner) P1 where "map_of (fk_runs P) i \<noteq> None" "fake_stop i reason P = (answer, P1)" "S = (W, P1)"
    | (nobody) "answer = fake_inspect i P" "map_of (fk_runs P) i = None" "S = (W, P)" by metis
  then have "route_ok plan S \<and> (stop_confirmed (JObj answer) \<longrightarrow> route_revoked plan i S \<and> \<not> route_writes i S)"
  proof cases
    case worker
    then have stops: "adapter_stops i W answer W1" using during(1) unfolding adapter_stops_def by blast
    have "\<not> plan i" using worker(1) ok by (auto simp: own_side_def)
    moreover have "adapter_ok W1" using api.stop_ok [OF _ stops] ok by simp
    moreover have "own_side plan W1" using own_side_stop [of plan W during i reason] worker(2) ok during(2) by simp
    moreover have "\<not> fake_writes i P" using planner_silent [of plan P i] ok calculation(1) by simp
    ultimately show ?thesis using worker(3) ok api.stop_quiet [OF _ stops]
      by (simp add: route_ok_def route_revoked_def route_writes_def)
  next
    case planner
    then have stops: "fake_stops i P answer P1" unfolding fake_stops_def by blast
    have "plan i" using planner(1) ok by (simp add: plan_side_def)
    moreover have "fake_ok P1" using double.stop_ok [OF _ stops] ok by simp
    moreover have "plan_side plan P1" using plan_side_stop [of plan P i reason] planner(2) ok by simp
    moreover have "\<not> thread_alive W i" using worker_silent [of W plan i] ok calculation(1) by simp
    ultimately show ?thesis using planner(3) ok double.stop_quiet [OF _ stops]
      by (simp add: route_ok_def route_revoked_def route_writes_def)
  next
    case nobody
    then show ?thesis using ok inspect_confirms_nothing by (simp add: route_ok_def)
  qed
  then show "route_ok plan S" and "stop_confirmed (JObj answer) \<Longrightarrow> route_revoked plan i S \<and> \<not> route_writes i S" by blast+
qed

text \<open>
  The router loses a stop that comes before the start. The worker alone remembers it and refuses the start; behind the router the
  stop reaches nobody, and the start that follows gets a thread.
\<close>

lemma early_stop_is_lost:
  "thread_alive (fst (snd (route_start id [(''run_id'', JStr ''r'')] (snd (route_stop id None ''r'' ''why'' (init_adapter, init_fake)))))) ''r''"
  "\<not> thread_alive (snd (adapter_start [(''run_id'', JStr ''r'')] (snd (adapter_stop id None ''r'' ''why'' init_adapter)))) ''r''"
  by code_simp+


text \<open>A worker started through the router, stopped while its thread ends.\<close>

definition sample_router :: router where
  "sample_router = snd (route_start id [(''run_id'', JStr ''r'')] (init_adapter, init_fake))"


subsection \<open>The planner double\<close>

text \<open>It starts like the agent double; a PLAN Run also moves the message cursor of the core, and whatever goes wrong there is swallowed.\<close>

record planner =
  pd_agent :: fake
  pd_started :: "string list"
  pd_consumed :: "(string \<times> int) list"

definition int_of :: "json \<Rightarrow> int tx" where
  "int_of v = the_or ValueError (py_int v)"

definition planner_auth :: "dict \<Rightarrow> AuthContext tx" where
  "planner_auth run_spec =
    (let i = py_str (dget run_spec ''run_id'') in
    andthen (int_of (jor (dget run_spec ''fencing_epoch'') (JInt 1))) (\<lambda>fencing.
    andthen (int_of (jor (dget run_spec ''grant_epoch'') (JInt 0))) (\<lambda>grant.
    ret \<lparr> principal_id = py_str (jor (dget run_spec ''principal_id'') (JStr [])),
       actor_id = py_str (jor (dget run_spec ''agent_instance_id'') (JStr (''planner:'' @ i))), actor_type = INTERNAL,
       auth_context_id = ''run:'' @ i, scopes = [], bound_task_id = Some (py_str (dget run_spec ''task_id'')), bound_run_id = Some i,
       bound_fencing_epoch = Some fencing, bound_grant_epoch = Some grant \<rparr>)))"

definition largest :: "int list \<Rightarrow> int" where
  "largest ns = (case ns of [] \<Rightarrow> 0 | n # ms \<Rightarrow> foldl max n ms)"

definition advance_payload :: "dict \<Rightarrow> int \<Rightarrow> dict" where
  "advance_payload run_spec last_seq = [(''task_id'', dget run_spec ''task_id''), (''run_id'', dget run_spec ''run_id''),
     (''generation'', dget run_spec ''generation''), (''fencing_epoch'', dget run_spec ''fencing_epoch''),
     (''last_consumed_message_seq'', JInt last_seq),
     (''checkpoint_ref'', JStr (''fake-ckpt:'' @ py_str (dget run_spec ''run_id'') @ '':'' @ show_int last_seq))]"

definition consume_messages :: "nat \<Rightarrow> env \<Rightarrow> bool \<Rightarrow> dict \<Rightarrow> int option tx" where
  "consume_messages fuel E dispatch_enabled run_spec =
    andthen (planner_auth run_spec) (\<lambda>auth.
    andthen (list_task_messages (py_str (dget run_spec ''task_id''))) (\<lambda>msgs.
    andthen (collect msgs (\<lambda>m. int_of (jor (jget m ''sequence_no'') (JInt 0)))) (\<lambda>ns.
    andthen (int_of (jor (dget run_spec ''last_consumed_message_seq'') (JInt 0))) (\<lambda>cursor.
    (if largest ns < cursor then ret None
      else andthen (execute fuel E dispatch_enabled ''advance_planner_checkpoint'' auth (advance_payload run_spec (largest ns)) None None) (\<lambda>advanced.
        ret (if cr_ok advanced then Some (largest ns) else None)))))))"

definition maybe_consume_messages :: "nat \<Rightarrow> env \<Rightarrow> bool \<Rightarrow> bool \<Rightarrow> dict \<Rightarrow> int option tx" where
  "maybe_consume_messages fuel E dispatch_enabled has_core run_spec =
    (if has_core \<and> truthy (dget run_spec ''task_id'') \<and> truthy (dget run_spec ''run_id'')
     then handle (consume_messages fuel E dispatch_enabled run_spec) (\<lambda>_. ret None) else ret None)"

definition planner_start :: "nat \<Rightarrow> env \<Rightarrow> bool \<Rightarrow> bool \<Rightarrow> (fake \<Rightarrow> fake) \<Rightarrow> dict \<Rightarrow> planner
    \<Rightarrow> ((string + dict) \<times> planner) tx" where
  "planner_start fuel E dispatch_enabled has_core hook run_spec P =
    (let (answer, A) = fake_start hook run_spec (pd_agent P); P1 = P\<lparr> pd_agent := A \<rparr>
     in case answer of
       Inl e \<Rightarrow> ret (Inl e, P1)
     | Inr result \<Rightarrow>
        (if truthy (dget result ''alive'') \<and> is_plan run_spec then andthen (maybe_consume_messages fuel E dispatch_enabled has_core run_spec) (\<lambda>consumed.
          let i = py_str (dget run_spec ''run_id'') in
          let P2 = P1\<lparr> pd_started := pd_started P1 @ [i] \<rparr> in
          ret (Inr result, (case consumed of None \<Rightarrow> P2 | Some n \<Rightarrow> P2\<lparr> pd_consumed := dset i n (pd_consumed P2) \<rparr>))) else ret (Inr result, P1)))"

text \<open>Starting a planner never fails because of the core, and leaves the core in a reachable state.\<close>

definition onward :: "sess \<Rightarrow> sess \<Rightarrow> bool" where
  "onward s t \<longleftrightarrow> (reachable s \<longrightarrow> reachable t)"

interpretation onward: frame onward
  by unfold_locales (auto simp: onward_def)

lemma onward_execute: "keeps onward (execute fuel E en op auth payload mid ikey)"
  using reachable_step service_step.command unfolding keeps_def onward_def by blast

lemma onward_messages: "keeps onward (list_task_messages task_id)"
proof -
  have "idle_step s (snd (list_task_messages task_id s))" for s unfolding list_task_messages_def
    by (intro idle_run_tx readonly.keeps_struct frame_intro)
  then show ?thesis using reachable_idle unfolding keeps_def onward_def by blast
qed

lemma onward_planner:
  "keeps onward (int_of v)" "keeps onward (planner_auth run_spec)" "keeps onward (consume_messages fuel E en run_spec)"
proof -
  show ints: "keeps onward (int_of v)" for v unfolding int_of_def by (rule onward.keeps_struct)
  show auth: "keeps onward (planner_auth run_spec)" for run_spec
    unfolding planner_auth_def Let_def by (intro onward.keeps_struct ints)
  show "keeps onward (consume_messages fuel E en run_spec)"
    unfolding consume_messages_def by (intro onward.keeps_struct ints auth onward_execute onward_messages)
qed

lemma maybe_consume_ok:
  assumes "reachable s"
  shows "\<exists>n t. maybe_consume_messages fuel E en has_core run_spec s = (Inr n, t) \<and> reachable t"
proof -
  obtain r t where run: "consume_messages fuel E en run_spec s = (r, t)" by (cases "consume_messages fuel E en run_spec s")
  have "reachable t" using onward.keepsD [OF onward_planner(3) run] assms by (simp add: onward_def)
  then show ?thesis using run assms by (cases r) (auto simp: maybe_consume_messages_def handle_def ret_def)
qed

lemma planner_start_reachable:
  assumes "reachable s"
  shows "\<exists>answer P1 t. planner_start fuel E en has_core hook run_spec P s = (Inr (answer, P1), t) \<and> reachable t
    \<and> pd_agent P1 = snd (fake_start hook run_spec (pd_agent P))"
proof -
  obtain n t where c: "maybe_consume_messages fuel E en has_core run_spec s = (Inr n, t)" "reachable t"
    using maybe_consume_ok [OF assms] by blast
  obtain answer A where f: "fake_start hook run_spec (pd_agent P) = (answer, A)" by (cases "fake_start hook run_spec (pd_agent P)")
  show ?thesis
  proof (cases answer)
    case (Inl e)
    then show ?thesis using f assms by (simp add: planner_start_def ret_def)
  next
    case (Inr result)
    then show ?thesis using f c assms
      by (simp add: planner_start_def ret_def andthen_def Let_def split: option.split)
  qed
qed

subsection \<open>The external double\<close>

record external =
  ex_supports_query :: bool
  ex_dispatched :: "(string \<times> dict) list"
  ex_counts :: "(string \<times> nat) list"
  ex_next_outcome :: string
  ex_force_unknown :: bool

definition init_external :: external where
  "init_external = \<lparr> ex_supports_query = True, ex_dispatched = [], ex_counts = [], ex_next_outcome = ''succeeded'', ex_force_unknown = False \<rparr>"

definition receipt_of :: "string \<Rightarrow> json \<Rightarrow> string \<Rightarrow> (string \<times> json) list \<Rightarrow> dict" where
  "receipt_of status effect_id key extra = [(''status'', JStr status), (''effect_id'', effect_id),
     (''external_idempotency_key'', JStr key)] @ extra"

definition apply_effect :: "string \<Rightarrow> dict \<Rightarrow> external \<Rightarrow> external" where
  "apply_effect key receipt X =
    (let counts = (if map_of (ex_counts X) key = None then dset key 0 (ex_counts X) else ex_counts X);
         fresh = (case map_of (ex_dispatched X) key of None \<Rightarrow> True | Some old \<Rightarrow> \<not> reports_success old)
     in X\<lparr> ex_counts := (if fresh then dset key (the (map_of counts key) + 1) counts else counts),
          ex_dispatched := dset key receipt (ex_dispatched X) \<rparr>)"

definition external_dispatch :: "dict \<Rightarrow> external \<Rightarrow> (exn + dict) \<times> external" where
  "external_dispatch effect X =
    (case map_of effect ''effect_id'' of None \<Rightarrow> (Inl (KeyError ''effect_id''), X)
     | Some effect_id \<Rightarrow> (case map_of effect ''external_idempotency_key'' of None \<Rightarrow> (Inl (KeyError ''external_idempotency_key''), X)
     | Some k \<Rightarrow>
        (let key = py_str k; outcome = (if ex_force_unknown X then ''unknown'' else ex_next_outcome X);
             X1 = X\<lparr> ex_force_unknown := False \<rparr>
         in if outcome = ''succeeded'' then
              (let receipt = receipt_of ''succeeded'' effect_id key [(''provider_operation_id'', JStr (''op_'' @ key))]
               in (Inr receipt, apply_effect key receipt X1))
            else if outcome = ''failed'' then (Inr (receipt_of ''failed'' effect_id key [(''error'', JStr ''fake_failed'')]), X1)
            else (Inr (receipt_of ''unknown'' effect_id key []), X1))))"

definition external_query :: "string \<Rightarrow> string \<Rightarrow> external \<Rightarrow> dict option" where
  "external_query effect_id key X = (if ex_supports_query X then map_of (ex_dispatched X) key else None)"

text \<open>A key is counted once from its first receipt on.\<close>

definition external_ok :: "external \<Rightarrow> bool" where
  "external_ok X \<longleftrightarrow> (\<forall>k. case map_of (ex_dispatched X) k of None \<Rightarrow> map_of (ex_counts X) k = None
     | Some receipt \<Rightarrow> reports_success receipt \<and> map_of (ex_counts X) k = Some 1)"

definition applied_count :: "string \<Rightarrow> external \<Rightarrow> nat" where
  "applied_count key X = (case map_of (ex_counts X) key of None \<Rightarrow> 0 | Some n \<Rightarrow> n)"

lemma reports_receipt [simp]: "reports_success (receipt_of status i k extra) \<longleftrightarrow> status = ''succeeded''"
  by (simp add: reports_success_def receipt_of_def dget_def)

lemma external_okD:
  assumes "external_ok X"
  shows "map_of (ex_dispatched X) k = None \<Longrightarrow> map_of (ex_counts X) k = None"
    "map_of (ex_dispatched X) k = Some receipt \<Longrightarrow> reports_success receipt \<and> map_of (ex_counts X) k = Some 1"
  using assms [unfolded external_ok_def, rule_format, of k] by (auto split: option.splits)

lemma apply_effect_ok:
  assumes "external_ok X" and "reports_success receipt"
  shows "external_ok (apply_effect key receipt X)" "applied_count k (apply_effect key receipt X) = (if k = key then 1 else applied_count k X)"
proof -
  show "external_ok (apply_effect key receipt X)" unfolding external_ok_def
    using external_okD [OF assms(1)] assms(2)
    by (cases "map_of (ex_dispatched X) key") (auto simp: apply_effect_def Let_def map_of_dset split: option.split)
  show "applied_count k (apply_effect key receipt X) = (if k = key then 1 else applied_count k X)"
    using external_okD [OF assms(1), of key]
    by (cases "map_of (ex_dispatched X) key") (auto simp: apply_effect_def applied_count_def Let_def map_of_dset)
qed

lemma external_ok_flag [simp]: "external_ok (X\<lparr> ex_force_unknown := b \<rparr>) \<longleftrightarrow> external_ok X"
    "applied_count k (X\<lparr> ex_force_unknown := b \<rparr>) = applied_count k X"
  by (simp_all add: external_ok_def applied_count_def cong: option.case_cong)

lemma dispatch_cases:
  assumes "external_ok X"
  shows "external_ok (snd (external_dispatch e X)) \<and> applied_count k X \<le> applied_count k (snd (external_dispatch e X))
    \<and> (external_dispatch e X = (Inr receipt, Y) \<longrightarrow> reports_success receipt \<longrightarrow> map_of e ''external_idempotency_key'' = Some v
        \<longrightarrow> applied_count (py_str v) Y = 1)"
proof -
  have le: "applied_count k X \<le> 1" for k
    using external_okD [OF assms, of k] by (cases "map_of (ex_dispatched X) k") (auto simp: applied_count_def)
  show ?thesis using apply_effect_ok [where X = "X\<lparr> ex_force_unknown := False \<rparr>"] assms le [of k]
    by (auto simp: external_dispatch_def Let_def split: option.split)
qed

interpretation fake_external: external_port external_ok external_dispatch external_query applied_count
proof
  fix A e k B receipt v i assume ok: "external_ok A"
  note d = dispatch_cases [OF ok]
  show "external_ok (snd (external_dispatch e A))" "applied_count k A \<le> applied_count k (snd (external_dispatch e A))" using d by blast+
  show "applied_count (py_str v) B = 1" if "external_dispatch e A = (Inr receipt, B)" "reports_success receipt"
    "map_of e ''external_idempotency_key'' = Some v" using d that by blast
  show "applied_count k A \<le> 1"
    using external_okD [OF ok, of k] by (cases "map_of (ex_dispatched A) k") (auto simp: applied_count_def)
  show "applied_count k A = 1" if "external_query i k A = Some receipt" "reports_success receipt"
    using that external_okD(2) [OF ok, of k receipt] by (auto simp: external_query_def applied_count_def split: if_splits)
qed

end
