(* ===== verification/Migrations.thy ===== *)
theory Migrations
  imports Prelude
begin

text \<open>
  The schema of the database and its history: the migrations under \<open>src/alembic/versions\<close>, the tables of
  \<open>persistence/models.py\<close>, and the start-up of \<open>application/bootstrap.py\<close> that inspects a database, migrates it and checks
  the outcome. A database is here its schema: tables with their columns and unique constraints, indexes, the one
  row \<open>schema_version\<close> of \<open>schema_meta\<close>, and the revision Alembic has stored. SQLite's refusals are modelled: a table
  or an index that exists or does not, a column that exists or does not, a new column without a value.
\<close>

subsection \<open>Schemas\<close>

datatype sqltype = String "nat option" | Text | Integer | Boolean | DateTime | OfReferenced

record column =
  cl_name :: string
  cl_type :: sqltype
  cl_nullable :: bool
  cl_key :: bool
  cl_references :: "string option"
  cl_default :: "string option"

definition column_of :: "bool \<Rightarrow> bool \<Rightarrow> string \<Rightarrow> sqltype \<Rightarrow> column" where
  "column_of key nullable name t = \<lparr> cl_name = name, cl_type = t, cl_nullable = nullable, cl_key = key,
     cl_references = None, cl_default = None \<rparr>"

definition required :: "string \<Rightarrow> sqltype \<Rightarrow> column" where
  "required = column_of False False"

definition optional :: "string \<Rightarrow> sqltype \<Rightarrow> column" where
  "optional = column_of False True"

definition key_column :: "string \<Rightarrow> sqltype \<Rightarrow> column" where
  "key_column = column_of True False"

definition references :: "string \<Rightarrow> column \<Rightarrow> column" where
  "references target c = c\<lparr> cl_references := Some target \<rparr>"

definition defaulting :: "string \<Rightarrow> column \<Rightarrow> column" where
  "defaulting v c = c\<lparr> cl_default := Some v \<rparr>"

record tdef =
  td_columns :: "column list"
  td_unique :: "(string \<times> string list) list"

definition table :: "column list \<Rightarrow> (string \<times> string list) list \<Rightarrow> tdef" where
  "table cs us = \<lparr> td_columns = cs, td_unique = us \<rparr>"

record database =
  db_tables :: "(string \<times> tdef) list"
  db_indexes :: "(string \<times> string \<times> string list) list"
  db_version :: "string option"
  db_revision :: "string option"

definition empty_db :: database where
  "empty_db = \<lparr> db_tables = [], db_indexes = [], db_version = None, db_revision = None \<rparr>"

subsection \<open>Operations on them\<close>

datatype ddl = CreateTable string tdef | DropTable string | AddColumn string column | DropColumn string string
  | CreateIndex string string "string list" | DropIndex string string | InsertVersion string | UpdateVersion string

datatype db_error = OperationalError | CommandError | SchemaStartupError | SchemaMismatch

definition has_table :: "string \<Rightarrow> database \<Rightarrow> bool" where
  "has_table n d \<longleftrightarrow> map_of (db_tables d) n \<noteq> None"

definition column_names :: "tdef \<Rightarrow> string list" where
  "column_names t = map cl_name (td_columns t)"

definition drop_key :: "string \<Rightarrow> (string \<times> 'a) list \<Rightarrow> (string \<times> 'a) list" where
  "drop_key k xs = filter (\<lambda>(k2, x). k2 \<noteq> k) xs"

definition in_use :: "string \<Rightarrow> string \<Rightarrow> tdef \<Rightarrow> database \<Rightarrow> bool" where
  "in_use n c t d \<longleftrightarrow> list_ex (\<lambda>x. cl_name x = c \<and> cl_key x) (td_columns t) \<or> list_ex (\<lambda>(u, cs). c \<in> set cs) (td_unique t)
     \<or> list_ex (\<lambda>(i, m, cs). m = n \<and> c \<in> set cs) (db_indexes d)"

fun apply_ddl :: "ddl \<Rightarrow> database \<Rightarrow> db_error + database" where
  "apply_ddl (CreateTable n t) d =
    (if has_table n d then Inl OperationalError else Inr (d\<lparr> db_tables := db_tables d @ [(n, t)] \<rparr>))"
| "apply_ddl (DropTable n) d =
    (if \<not> has_table n d then Inl OperationalError
     else Inr (d\<lparr> db_tables := drop_key n (db_tables d), db_indexes := filter (\<lambda>(i, m, cs). m \<noteq> n) (db_indexes d),
       db_version := (if n = ''schema_meta'' then None else db_version d) \<rparr>))"
| "apply_ddl (AddColumn n c) d =
    (case map_of (db_tables d) n of None \<Rightarrow> Inl OperationalError
     | Some t \<Rightarrow> (if cl_name c \<in> set (column_names t) \<or> \<not> cl_nullable c \<and> cl_default c = None then Inl OperationalError
         else Inr (d\<lparr> db_tables := dset n (t\<lparr> td_columns := td_columns t @ [c] \<rparr>) (db_tables d) \<rparr>)))"
| "apply_ddl (DropColumn n c) d =
    (case map_of (db_tables d) n of None \<Rightarrow> Inl OperationalError
     | Some t \<Rightarrow> (if c \<notin> set (column_names t) \<or> in_use n c t d then Inl OperationalError
         else Inr (d\<lparr> db_tables := dset n (t\<lparr> td_columns := filter (\<lambda>x. cl_name x \<noteq> c) (td_columns t) \<rparr>) (db_tables d) \<rparr>)))"
| "apply_ddl (CreateIndex i n cs) d =
    (case map_of (db_tables d) n of None \<Rightarrow> Inl OperationalError
     | Some t \<Rightarrow> (if map_of (db_indexes d) i \<noteq> None \<or> \<not> list_all (\<lambda>c. c \<in> set (column_names t)) cs then Inl OperationalError
         else Inr (d\<lparr> db_indexes := db_indexes d @ [(i, n, cs)] \<rparr>)))"
| "apply_ddl (DropIndex i n) d =
    (if map_of (db_indexes d) i = None then Inl OperationalError
     else Inr (d\<lparr> db_indexes := drop_key i (db_indexes d) \<rparr>))"
| "apply_ddl (InsertVersion v) d =
    (if \<not> has_table ''schema_meta'' d \<or> db_version d \<noteq> None then Inl OperationalError else Inr (d\<lparr> db_version := Some v \<rparr>))"
| "apply_ddl (UpdateVersion v) d =
    (if \<not> has_table ''schema_meta'' d then Inl OperationalError else Inr (d\<lparr> db_version := map_option (\<lambda>_. v) (db_version d) \<rparr>))"

fun apply_all :: "ddl list \<Rightarrow> database \<Rightarrow> db_error + database" where
  "apply_all [] d = Inr d"
| "apply_all (x # xs) d = (case apply_ddl x d of Inl e \<Rightarrow> Inl e | Inr d1 \<Rightarrow> apply_all xs d1)"

subsection \<open>The migrations\<close>

record migration =
  mg_revision :: string
  mg_parent :: "string option"
  mg_up :: "ddl list"
  mg_down :: "ddl list"

subsubsection \<open>Revision \<open>0001_m0\<close>\<close>

definition created_schema_meta :: tdef where
  "created_schema_meta = table
    [key_column ''key'' (String (Some 64)),
     required ''value'' Text]
    []"

definition created_tasks :: tdef where
  "created_tasks = table
    [key_column ''task_id'' (String (Some 64)),
     required ''principal_id'' (String (Some 64)),
     optional ''intent_ref'' Text,
     required ''title'' (String (Some 256)),
     required ''state'' (String (Some 32)),
     optional ''state_reason'' (String (Some 64)),
     defaulting ''0'' (required ''state_revision'' Integer),
     optional ''contract_version'' Integer,
     optional ''plan_version'' Integer,
     optional ''active_planner_session_id'' (String (Some 64)),
     optional ''resume_point'' Text,
     optional ''final_result_refs'' Text,
     defaulting ''false'' (required ''cancel_intent'' Boolean),
     defaulting ''false'' (required ''pause_intent'' Boolean),
     defaulting ''0'' (required ''revoke_epoch'' Integer),
     defaulting ''0'' (required ''model_calls_used'' Integer),
     defaulting ''200'' (required ''model_call_limit'' Integer),
     optional ''create_idempotency_key'' (String (Some 128)),
     required ''created_at'' DateTime,
     required ''updated_at'' DateTime]
    [(''uq_tasks_principal_create_key'', [''principal_id'', ''create_idempotency_key''])]"

definition created_contracts :: tdef where
  "created_contracts = table
    [key_column ''id'' Integer,
     references ''tasks.task_id'' (required ''task_id'' (String (Some 64))),
     required ''contract_version'' Integer,
     optional ''supersedes_version'' Integer,
     required ''content_hash'' (String (Some 64)),
     required ''content_json'' Text,
     required ''status'' (String (Some 32)),
     optional ''approved_by'' (String (Some 64)),
     optional ''approved_at'' DateTime,
     required ''created_at'' DateTime]
    [(''uq_contracts_task_version'', [''task_id'', ''contract_version''])]"

definition created_active_contract_markers :: tdef where
  "created_active_contract_markers = table
    [references ''tasks.task_id'' (key_column ''task_id'' (String (Some 64))),
     required ''contract_version'' Integer]
    []"

definition created_explanations :: tdef where
  "created_explanations = table
    [key_column ''explanation_id'' (String (Some 64)),
     references ''tasks.task_id'' (required ''task_id'' (String (Some 64))),
     required ''contract_version'' Integer,
     required ''content_hash'' (String (Some 64)),
     required ''content_json'' Text,
     required ''created_at'' DateTime]
    []"

definition created_decisions :: tdef where
  "created_decisions = table
    [key_column ''decision_id'' (String (Some 64)),
     references ''tasks.task_id'' (required ''task_id'' (String (Some 64))),
     required ''decision_kind'' (String (Some 64)),
     required ''target_ref'' (String (Some 128)),
     required ''target_version'' Integer,
     required ''target_hash'' (String (Some 64)),
     optional ''contract_version'' Integer,
     optional ''explanation_ref'' (String (Some 64)),
     optional ''explanation_hash'' (String (Some 64)),
     optional ''parameters_hash'' (String (Some 64)),
     optional ''result_snapshot_ref'' (String (Some 64)),
     required ''status'' (String (Some 32)),
     optional ''choice'' (String (Some 32)),
     optional ''decided_by_actor'' (String (Some 64)),
     optional ''decided_by_principal'' (String (Some 64)),
     optional ''decided_at'' DateTime,
     required ''created_at'' DateTime,
     required ''expires_at'' DateTime,
     defaulting ''OPEN'' (required ''gate_lifecycle'' (String (Some 32)))]
    []"

definition created_gates :: tdef where
  "created_gates = table
    [key_column ''gate_id'' (String (Some 64)),
     references ''tasks.task_id'' (required ''task_id'' (String (Some 64))),
     references ''decisions.decision_id'' (required ''decision_id'' (String (Some 64))),
     required ''reason'' (String (Some 64)),
     defaulting ''OPEN'' (required ''lifecycle'' (String (Some 32))),
     required ''created_at'' DateTime,
     optional ''resolved_at'' DateTime]
    []"

definition created_plans :: tdef where
  "created_plans = table
    [key_column ''id'' Integer,
     references ''tasks.task_id'' (required ''task_id'' (String (Some 64))),
     required ''plan_version'' Integer,
     optional ''base_plan_version'' Integer,
     required ''contract_version'' Integer,
     required ''content_hash'' (String (Some 64)),
     required ''nodes_json'' Text,
     required ''edges_json'' Text,
     required ''status'' (String (Some 32)),
     required ''created_at'' DateTime]
    [(''uq_plans_task_version'', [''task_id'', ''plan_version''])]"

definition created_active_plan_markers :: tdef where
  "created_active_plan_markers = table
    [references ''tasks.task_id'' (key_column ''task_id'' (String (Some 64))),
     required ''plan_version'' Integer]
    []"

definition created_work_unit_specs :: tdef where
  "created_work_unit_specs = table
    [key_column ''id'' Integer,
     required ''work_unit_id'' (String (Some 64)),
     required ''spec_version'' Integer,
     references ''tasks.task_id'' (required ''task_id'' (String (Some 64))),
     required ''objective'' Text,
     required ''work_type'' (String (Some 32)),
     required ''content_hash'' (String (Some 64)),
     required ''content_json'' Text,
     required ''created_at'' DateTime]
    [(''uq_wuspec_id_version'', [''work_unit_id'', ''spec_version''])]"

definition created_work_unit_executions :: tdef where
  "created_work_unit_executions = table
    [key_column ''work_unit_id'' (String (Some 64)),
     references ''tasks.task_id'' (required ''task_id'' (String (Some 64))),
     required ''spec_version'' Integer,
     required ''status'' (String (Some 32)),
     optional ''active_run_id'' (String (Some 64)),
     defaulting ''0'' (required ''attempt_count'' Integer),
     optional ''next_retry_at'' DateTime,
     optional ''selected_result_ref'' (String (Some 64)),
     optional ''blocked_reason'' (String (Some 128)),
     optional ''selected_verdict'' (String (Some 16)),
     optional ''verified_artifact_hash'' (String (Some 64))]
    []"

definition created_planner_sessions :: tdef where
  "created_planner_sessions = table
    [key_column ''planner_session_id'' (String (Some 64)),
     references ''tasks.task_id'' (required ''task_id'' (String (Some 64))),
     defaulting ''1'' (required ''generation'' Integer),
     optional ''active_run_id'' (String (Some 64)),
     optional ''checkpoint_ref'' (String (Some 64)),
     defaulting ''0'' (required ''checkpoint_version'' Integer),
     defaulting ''0'' (required ''last_consumed_message_seq'' Integer),
     defaulting ''ACTIVE'' (required ''status'' (String (Some 32)))]
    []"

definition created_agent_runs :: tdef where
  "created_agent_runs = table
    [key_column ''run_id'' (String (Some 64)),
     references ''tasks.task_id'' (required ''task_id'' (String (Some 64))),
     required ''assignment_kind'' (String (Some 16)),
     optional ''planner_session_id'' (String (Some 64)),
     optional ''work_unit_id'' (String (Some 64)),
     optional ''work_unit_spec_version'' Integer,
     defaulting ''1'' (required ''attempt_no'' Integer),
     optional ''agent_instance_id'' (String (Some 64)),
     defaulting ''fake'' (required ''profile_id'' (String (Some 64))),
     defaulting ''1'' (required ''profile_version'' Integer),
     required ''contract_version'' Integer,
     optional ''plan_version'' Integer,
     optional ''context_manifest_id'' (String (Some 64)),
     optional ''workspace_id'' (String (Some 64)),
     required ''status'' (String (Some 32)),
     optional ''terminal_reason'' (String (Some 128)),
     defaulting ''1'' (required ''fencing_epoch'' Integer),
     defaulting ''1'' (required ''grant_epoch'' Integer),
     optional ''lease_expires_at'' DateTime,
     optional ''last_heartbeat_at'' DateTime,
     optional ''started_at'' DateTime,
     optional ''finished_at'' DateTime,
     optional ''resumed_from_run_id'' (String (Some 64)),
     optional ''result_ref'' (String (Some 64)),
     optional ''result_json'' Text,
     optional ''error_class'' (String (Some 64)),
     defaulting ''false'' (required ''late_arrival'' Boolean)]
    []"

definition created_active_execute_run_markers :: tdef where
  "created_active_execute_run_markers = table
    [key_column ''work_unit_id'' (String (Some 64)),
     references ''agent_runs.run_id'' (required ''run_id'' (String (Some 64)))]
    []"

definition created_active_plan_run_markers :: tdef where
  "created_active_plan_run_markers = table
    [key_column ''planner_session_id'' (String (Some 64)),
     references ''agent_runs.run_id'' (required ''run_id'' (String (Some 64)))]
    []"

definition created_workspaces :: tdef where
  "created_workspaces = table
    [key_column ''workspace_id'' (String (Some 64)),
     references ''tasks.task_id'' (required ''task_id'' (String (Some 64))),
     required ''work_unit_id'' (String (Some 64)),
     defaulting ''local'' (required ''kind'' (String (Some 32))),
     defaulting ''READY'' (required ''state'' (String (Some 32))),
     optional ''owner_run_id'' (String (Some 64)),
     defaulting ''0'' (required ''fencing_epoch'' Integer),
     defaulting ''false'' (required ''writer_alive'' Boolean)]
    []"

definition created_context_manifests :: tdef where
  "created_context_manifests = table
    [key_column ''context_manifest_id'' (String (Some 64)),
     references ''tasks.task_id'' (required ''task_id'' (String (Some 64))),
     required ''run_id'' (String (Some 64)),
     required ''contract_version'' Integer,
     optional ''plan_version'' Integer,
     required ''content_json'' Text,
     required ''manifest_hash'' (String (Some 64)),
     required ''created_at'' DateTime]
    [(''uq_context_manifests_run_id'', [''run_id''])]"

definition created_side_effects :: tdef where
  "created_side_effects = table
    [key_column ''effect_id'' (String (Some 64)),
     references ''tasks.task_id'' (required ''task_id'' (String (Some 64))),
     required ''logical_action_key'' (String (Some 128)),
     optional ''origin_work_unit_id'' (String (Some 64)),
     optional ''request_run_id'' (String (Some 64)),
     required ''action_type'' (String (Some 64)),
     required ''target_ref'' (String (Some 256)),
     required ''parameters_hash'' (String (Some 64)),
     required ''action_digest'' (String (Some 64)),
     required ''parameters_json'' Text,
     required ''contract_version'' Integer,
     optional ''authorization_ref'' (String (Some 64)),
     optional ''expires_at'' DateTime,
     required ''external_idempotency_key'' (String (Some 128)),
     optional ''provider_operation_id'' (String (Some 128)),
     required ''state'' (String (Some 32)),
     defaulting ''0'' (required ''dispatch_attempts'' Integer),
     optional ''receipt_json'' Text,
     optional ''last_error'' (String None),
     defaulting ''true'' (required ''supports_idempotent_query'' Boolean),
     required ''created_at'' DateTime]
    [(''uq_side_effects_task_logical_key'', [''task_id'', ''logical_action_key''])]"

definition created_events :: tdef where
  "created_events = table
    [key_column ''id'' Integer,
     references ''tasks.task_id'' (required ''task_id'' (String (Some 64))),
     required ''sequence_no'' Integer,
     required ''event_type'' (String (Some 64)),
     optional ''actor_id'' (String (Some 64)),
     required ''payload_json'' Text,
     required ''occurred_at'' DateTime,
     required ''received_at'' DateTime]
    [(''uq_events_task_seq'', [''task_id'', ''sequence_no''])]"

definition created_inbox :: tdef where
  "created_inbox = table
    [key_column ''id'' Integer,
     required ''actor_id'' (String (Some 64)),
     required ''message_id'' (String (Some 128)),
     required ''principal_id'' (String (Some 64)),
     optional ''task_id'' (String (Some 64)),
     required ''operation_type'' (String (Some 64)),
     required ''idempotency_key'' (String (Some 128)),
     required ''payload_hash'' (String (Some 64)),
     required ''result_json'' Text,
     required ''created_at'' DateTime]
    [(''uq_inbox_actor_message'', [''actor_id'', ''message_id'']), (''uq_inbox_idempotency'', [''principal_id'', ''task_id'', ''operation_type'', ''idempotency_key''])]"

definition created_outbox :: tdef where
  "created_outbox = table
    [key_column ''outbox_id'' (String (Some 64)),
     references ''tasks.task_id'' (required ''task_id'' (String (Some 64))),
     required ''command_type'' (String (Some 64)),
     required ''payload_json'' Text,
     defaulting ''PENDING'' (required ''status'' (String (Some 32))),
     defaulting ''0'' (required ''revoke_epoch'' Integer),
     required ''created_at'' DateTime,
     optional ''leased_until'' DateTime,
     optional ''acked_at'' DateTime]
    []"

definition created_idempotency_keys :: tdef where
  "created_idempotency_keys = table
    [key_column ''id'' Integer,
     required ''principal_id'' (String (Some 64)),
     defaulting [] (required ''task_id'' (String (Some 64))),
     required ''operation_type'' (String (Some 64)),
     required ''idempotency_key'' (String (Some 128)),
     required ''payload_hash'' (String (Some 64)),
     required ''result_json'' Text,
     required ''created_at'' DateTime]
    [(''uq_idempotency_domain'', [''principal_id'', ''task_id'', ''operation_type'', ''idempotency_key''])]"

definition created_result_snapshots :: tdef where
  "created_result_snapshots = table
    [key_column ''result_snapshot_id'' (String (Some 64)),
     references ''tasks.task_id'' (required ''task_id'' (String (Some 64))),
     required ''contract_version'' Integer,
     optional ''plan_version'' Integer,
     required ''content_hash'' (String (Some 64)),
     required ''content_json'' Text,
     required ''created_at'' DateTime]
    []"

definition created_agent_profiles :: tdef where
  "created_agent_profiles = table
    [key_column ''profile_id'' (String (Some 64)),
     key_column ''profile_version'' Integer,
     required ''content_json'' Text,
     required ''created_at'' DateTime]
    []"

definition upgrade_0001 :: "ddl list" where
  "upgrade_0001 = [CreateTable ''schema_meta'' created_schema_meta,
    InsertVersion ''m0'',
    CreateTable ''tasks'' created_tasks,
    CreateIndex ''ix_tasks_principal_id'' ''tasks'' [''principal_id''],
    CreateIndex ''ix_tasks_state'' ''tasks'' [''state''],
    CreateTable ''contracts'' created_contracts,
    CreateIndex ''ix_contracts_task_id'' ''contracts'' [''task_id''],
    CreateIndex ''ix_contracts_status'' ''contracts'' [''status''],
    CreateTable ''active_contract_markers'' created_active_contract_markers,
    CreateTable ''explanations'' created_explanations,
    CreateTable ''decisions'' created_decisions,
    CreateIndex ''ix_decisions_task_id'' ''decisions'' [''task_id''],
    CreateIndex ''ix_decisions_status'' ''decisions'' [''status''],
    CreateTable ''gates'' created_gates,
    CreateIndex ''ix_gates_task_id'' ''gates'' [''task_id''],
    CreateTable ''plans'' created_plans,
    CreateIndex ''ix_plans_task_id'' ''plans'' [''task_id''],
    CreateIndex ''ix_plans_status'' ''plans'' [''status''],
    CreateTable ''active_plan_markers'' created_active_plan_markers,
    CreateTable ''work_unit_specs'' created_work_unit_specs,
    CreateIndex ''ix_work_unit_specs_work_unit_id'' ''work_unit_specs'' [''work_unit_id''],
    CreateIndex ''ix_work_unit_specs_task_id'' ''work_unit_specs'' [''task_id''],
    CreateTable ''work_unit_executions'' created_work_unit_executions,
    CreateIndex ''ix_work_unit_executions_task_id'' ''work_unit_executions'' [''task_id''],
    CreateIndex ''ix_work_unit_executions_status'' ''work_unit_executions'' [''status''],
    CreateTable ''planner_sessions'' created_planner_sessions,
    CreateIndex ''ix_planner_sessions_task_id'' ''planner_sessions'' [''task_id''],
    CreateTable ''agent_runs'' created_agent_runs,
    CreateIndex ''ix_agent_runs_task_id'' ''agent_runs'' [''task_id''],
    CreateIndex ''ix_agent_runs_work_unit_id'' ''agent_runs'' [''work_unit_id''],
    CreateIndex ''ix_agent_runs_status'' ''agent_runs'' [''status''],
    CreateTable ''active_execute_run_markers'' created_active_execute_run_markers,
    CreateTable ''active_plan_run_markers'' created_active_plan_run_markers,
    CreateTable ''workspaces'' created_workspaces,
    CreateIndex ''ix_workspaces_task_id'' ''workspaces'' [''task_id''],
    CreateIndex ''ix_workspaces_work_unit_id'' ''workspaces'' [''work_unit_id''],
    CreateTable ''context_manifests'' created_context_manifests,
    CreateTable ''side_effects'' created_side_effects,
    CreateIndex ''ix_side_effects_task_id'' ''side_effects'' [''task_id''],
    CreateIndex ''ix_side_effects_status'' ''side_effects'' [''state''],
    CreateTable ''events'' created_events,
    CreateIndex ''ix_events_task_id'' ''events'' [''task_id''],
    CreateTable ''inbox'' created_inbox,
    CreateTable ''outbox'' created_outbox,
    CreateIndex ''ix_outbox_task_id'' ''outbox'' [''task_id''],
    CreateIndex ''ix_outbox_status'' ''outbox'' [''status''],
    CreateTable ''idempotency_keys'' created_idempotency_keys,
    CreateTable ''result_snapshots'' created_result_snapshots,
    CreateTable ''agent_profiles'' created_agent_profiles]"

definition downgrade_0001 :: "ddl list" where
  "downgrade_0001 = [DropTable ''agent_profiles'',
    DropTable ''result_snapshots'',
    DropTable ''idempotency_keys'',
    DropTable ''outbox'',
    DropTable ''inbox'',
    DropTable ''events'',
    DropTable ''side_effects'',
    DropTable ''context_manifests'',
    DropTable ''workspaces'',
    DropTable ''active_plan_run_markers'',
    DropTable ''active_execute_run_markers'',
    DropTable ''agent_runs'',
    DropTable ''planner_sessions'',
    DropTable ''work_unit_executions'',
    DropTable ''work_unit_specs'',
    DropTable ''active_plan_markers'',
    DropTable ''plans'',
    DropTable ''gates'',
    DropTable ''decisions'',
    DropTable ''explanations'',
    DropTable ''active_contract_markers'',
    DropTable ''contracts'',
    DropTable ''tasks'',
    DropTable ''schema_meta'']"

subsubsection \<open>Revision \<open>0002_artifacts\<close>\<close>

definition created_artifacts :: tdef where
  "created_artifacts = table
    [references ''tasks.task_id'' (key_column ''task_id'' (String (Some 64))),
     key_column ''artifact_hash'' (String (Some 64)),
     optional ''work_unit_id'' (String (Some 64)),
     optional ''run_id'' (String (Some 64)),
     optional ''result_ref'' (String (Some 64)),
     optional ''verdict'' (String (Some 16)),
     required ''created_at'' DateTime]
    []"

definition upgrade_0002 :: "ddl list" where
  "upgrade_0002 = [CreateTable ''artifacts'' created_artifacts,
    CreateIndex ''ix_artifacts_work_unit_id'' ''artifacts'' [''work_unit_id'']]"

definition downgrade_0002 :: "ddl list" where
  "downgrade_0002 = [DropIndex ''ix_artifacts_work_unit_id'' ''artifacts'',
    DropTable ''artifacts'']"

subsubsection \<open>Revision \<open>0003_evidence\<close>\<close>

definition created_acceptance_evidence_records :: tdef where
  "created_acceptance_evidence_records = table
    [key_column ''evidence_id'' (String (Some 64)),
     references ''tasks.task_id'' (required ''task_id'' (String (Some 64))),
     required ''criterion_id'' (String (Some 64)),
     required ''artifact_hash'' (String (Some 64)),
     optional ''work_unit_id'' (String (Some 64)),
     optional ''run_id'' (String (Some 64)),
     optional ''result_ref'' (String (Some 64)),
     required ''verdict'' (String (Some 16)),
     required ''created_at'' DateTime]
    [(''uq_acceptance_evidence_run_criterion'', [''task_id'', ''run_id'', ''criterion_id''])]"

definition upgrade_0003 :: "ddl list" where
  "upgrade_0003 = [AddColumn ''decisions'' (optional ''payload_json'' Text),
    CreateTable ''acceptance_evidence_records'' created_acceptance_evidence_records,
    CreateIndex ''ix_acceptance_evidence_records_task_id'' ''acceptance_evidence_records'' [''task_id'']]"

definition downgrade_0003 :: "ddl list" where
  "downgrade_0003 = [DropIndex ''ix_acceptance_evidence_records_task_id'' ''acceptance_evidence_records'',
    DropTable ''acceptance_evidence_records'',
    DropColumn ''decisions'' ''payload_json'']"

subsubsection \<open>Revision \<open>0004_evidence_sequence\<close>\<close>

definition upgrade_0004 :: "ddl list" where
  "upgrade_0004 = [AddColumn ''acceptance_evidence_records'' (defaulting ''0'' (required ''sequence_no'' Integer))]"

definition downgrade_0004 :: "ddl list" where
  "downgrade_0004 = [DropColumn ''acceptance_evidence_records'' ''sequence_no'']"

subsubsection \<open>Revision \<open>0005_m1_execution\<close>\<close>

definition created_run_inputs :: tdef where
  "created_run_inputs = table
    [references ''agent_runs.run_id'' (key_column ''run_id'' (String (Some 64))),
     references ''tasks.task_id'' (required ''task_id'' (String (Some 64))),
     optional ''workspace_id'' (String (Some 64)),
     optional ''workspace_path'' (String (Some 1024)),
     required ''profile_id'' (String (Some 64)),
     required ''profile_version'' Integer,
     required ''granted_tools_json'' Text,
     required ''permission_ceiling_json'' Text,
     optional ''context_manifest_id'' (String (Some 64)),
     required ''spec_json'' Text,
     required ''spec_hash'' (String (Some 64)),
     required ''created_at'' DateTime]
    []"

definition created_tool_invocations :: tdef where
  "created_tool_invocations = table
    [key_column ''invocation_id'' (String (Some 64)),
     references ''tasks.task_id'' (required ''task_id'' (String (Some 64))),
     references ''agent_runs.run_id'' (required ''run_id'' (String (Some 64))),
     optional ''work_unit_id'' (String (Some 64)),
     required ''sequence_no'' Integer,
     required ''tool_name'' (String (Some 64)),
     required ''parameters_json'' Text,
     required ''parameters_hash'' (String (Some 64)),
     required ''decision'' (String (Some 16)),
     optional ''deny_reason'' (String (Some 256)),
     required ''grant_epoch'' Integer,
     required ''fencing_epoch'' Integer,
     optional ''outcome'' (String (Some 32)),
     optional ''result_json'' Text,
     required ''created_at'' DateTime,
     optional ''finished_at'' DateTime]
    [(''uq_tool_invocation_seq'', [''task_id'', ''run_id'', ''sequence_no''])]"

definition created_context_appends :: tdef where
  "created_context_appends = table
    [key_column ''append_id'' (String (Some 64)),
     references ''tasks.task_id'' (required ''task_id'' (String (Some 64))),
     references ''agent_runs.run_id'' (required ''run_id'' (String (Some 64))),
     required ''sequence_no'' Integer,
     required ''reason'' (String (Some 256)),
     required ''authorized_ref'' (String (Some 512)),
     optional ''version'' (String (Some 64)),
     optional ''content_hash'' (String (Some 64)),
     optional ''grant_ref'' (String (Some 128)),
     optional ''materialized_hash'' (String (Some 64)),
     required ''created_at'' DateTime]
    [(''uq_context_append_seq'', [''task_id'', ''run_id'', ''sequence_no''])]"

definition upgrade_0005 :: "ddl list" where
  "upgrade_0005 = [CreateTable ''run_inputs'' created_run_inputs,
    CreateIndex ''ix_run_inputs_task_id'' ''run_inputs'' [''task_id''],
    CreateTable ''tool_invocations'' created_tool_invocations,
    CreateIndex ''ix_tool_invocations_task_id'' ''tool_invocations'' [''task_id''],
    CreateIndex ''ix_tool_invocations_run_id'' ''tool_invocations'' [''run_id''],
    CreateTable ''context_appends'' created_context_appends,
    CreateIndex ''ix_context_appends_task_id'' ''context_appends'' [''task_id''],
    CreateIndex ''ix_context_appends_run_id'' ''context_appends'' [''run_id''],
    UpdateVersion ''m1'']"

definition downgrade_0005 :: "ddl list" where
  "downgrade_0005 = [UpdateVersion ''m0'',
    DropIndex ''ix_context_appends_run_id'' ''context_appends'',
    DropIndex ''ix_context_appends_task_id'' ''context_appends'',
    DropTable ''context_appends'',
    DropIndex ''ix_tool_invocations_run_id'' ''tool_invocations'',
    DropIndex ''ix_tool_invocations_task_id'' ''tool_invocations'',
    DropTable ''tool_invocations'',
    DropIndex ''ix_run_inputs_task_id'' ''run_inputs'',
    DropTable ''run_inputs'']"

subsubsection \<open>Revision \<open>0006_artifact_uri\<close>\<close>

definition upgrade_0006 :: "ddl list" where
  "upgrade_0006 = [AddColumn ''artifacts'' (optional ''artifact_uri'' (String (Some 512))),
    AddColumn ''artifacts'' (optional ''size_bytes'' Integer),
    AddColumn ''artifacts'' (optional ''mime_type'' (String (Some 128))),
    AddColumn ''artifacts'' (optional ''source_path'' (String (Some 1024)))]"

definition downgrade_0006 :: "ddl list" where
  "downgrade_0006 = [DropColumn ''artifacts'' ''source_path'',
    DropColumn ''artifacts'' ''mime_type'',
    DropColumn ''artifacts'' ''size_bytes'',
    DropColumn ''artifacts'' ''artifact_uri'']"

subsubsection \<open>Revision \<open>0007_sandbox_identity\<close>\<close>

definition upgrade_0007 :: "ddl list" where
  "upgrade_0007 = [AddColumn ''agent_runs'' (optional ''sandbox_container_id'' (String (Some 128))),
    AddColumn ''agent_runs'' (defaulting ''false'' (required ''sandbox_exit_unconfirmed'' Boolean))]"

definition downgrade_0007 :: "ddl list" where
  "downgrade_0007 = [DropColumn ''agent_runs'' ''sandbox_exit_unconfirmed'',
    DropColumn ''agent_runs'' ''sandbox_container_id'']"

subsubsection \<open>Revision \<open>0008_m2_messages\<close>\<close>

definition created_task_messages :: tdef where
  "created_task_messages = table
    [key_column ''id'' Integer,
     references ''tasks.task_id'' (required ''task_id'' (String (Some 64))),
     required ''sequence_no'' Integer,
     optional ''sender_run_id'' (String (Some 64)),
     optional ''sender_actor'' (String (Some 128)),
     required ''kind'' (String (Some 64)),
     required ''body_json'' Text,
     required ''created_at'' DateTime]
    [(''uq_task_messages_seq'', [''task_id'', ''sequence_no''])]"

definition upgrade_0008 :: "ddl list" where
  "upgrade_0008 = [CreateTable ''task_messages'' created_task_messages,
    CreateIndex ''ix_task_messages_task_id'' ''task_messages'' [''task_id''],
    UpdateVersion ''m2'']"

definition downgrade_0008 :: "ddl list" where
  "downgrade_0008 = [DropIndex ''ix_task_messages_task_id'' ''task_messages'',
    DropTable ''task_messages'',
    UpdateVersion ''m1'']"

definition MIGRATIONS :: "migration list" where
  "MIGRATIONS = [\<lparr> mg_revision = ''0001_m0'', mg_parent = None, mg_up = upgrade_0001, mg_down = downgrade_0001 \<rparr>,
    \<lparr> mg_revision = ''0002_artifacts'', mg_parent = Some ''0001_m0'', mg_up = upgrade_0002, mg_down = downgrade_0002 \<rparr>,
    \<lparr> mg_revision = ''0003_evidence'', mg_parent = Some ''0002_artifacts'', mg_up = upgrade_0003, mg_down = downgrade_0003 \<rparr>,
    \<lparr> mg_revision = ''0004_evidence_sequence'', mg_parent = Some ''0003_evidence'', mg_up = upgrade_0004, mg_down = downgrade_0004 \<rparr>,
    \<lparr> mg_revision = ''0005_m1_execution'', mg_parent = Some ''0004_evidence_sequence'', mg_up = upgrade_0005, mg_down = downgrade_0005 \<rparr>,
    \<lparr> mg_revision = ''0006_artifact_uri'', mg_parent = Some ''0005_m1_execution'', mg_up = upgrade_0006, mg_down = downgrade_0006 \<rparr>,
    \<lparr> mg_revision = ''0007_sandbox_identity'', mg_parent = Some ''0006_artifact_uri'', mg_up = upgrade_0007, mg_down = downgrade_0007 \<rparr>,
    \<lparr> mg_revision = ''0008_m2_messages'', mg_parent = Some ''0007_sandbox_identity'', mg_up = upgrade_0008, mg_down = downgrade_0008 \<rparr>]"

subsection \<open>Upgrade and downgrade\<close>

text \<open>One step of \<open>alembic upgrade\<close> and of \<open>alembic downgrade\<close>: the migration whose parent is the stored revision, or its own.\<close>

definition upgrade_with :: "migration \<Rightarrow> database \<Rightarrow> db_error + database" where
  "upgrade_with m d = (case apply_all (mg_up m) d of Inl e \<Rightarrow> Inl e | Inr d1 \<Rightarrow> Inr (d1\<lparr> db_revision := Some (mg_revision m) \<rparr>))"

definition upgrade_one :: "database \<Rightarrow> db_error + database" where
  "upgrade_one d = (case find (\<lambda>m. mg_parent m = db_revision d) MIGRATIONS of
       None \<Rightarrow> Inl CommandError
     | Some m \<Rightarrow> upgrade_with m d)"

definition downgrade_one :: "database \<Rightarrow> db_error + database" where
  "downgrade_one d = (case find (\<lambda>m. Some (mg_revision m) = db_revision d) MIGRATIONS of
       None \<Rightarrow> Inl CommandError
     | Some m \<Rightarrow> (case apply_all (mg_down m) d of Inl e \<Rightarrow> Inl e | Inr d1 \<Rightarrow> Inr (d1\<lparr> db_revision := mg_parent m \<rparr>)))"

fun upgrade_each :: "migration list \<Rightarrow> database \<Rightarrow> db_error + database" where
  "upgrade_each [] d = Inr d"
| "upgrade_each (m # ms) d = (case upgrade_with m d of Inl e \<Rightarrow> Inl e | Inr d1 \<Rightarrow> upgrade_each ms d1)"

definition pending :: "string option \<Rightarrow> migration list" where
  "pending revision = (case revision of None \<Rightarrow> MIGRATIONS
     | Some r \<Rightarrow> tl (dropWhile (\<lambda>m. mg_revision m \<noteq> r) MIGRATIONS))"

definition known_revision :: "string \<Rightarrow> bool" where
  "known_revision r \<longleftrightarrow> r \<in> set (map mg_revision MIGRATIONS)"

definition upgrade_head :: "database \<Rightarrow> db_error + database" where
  "upgrade_head d = (case db_revision d of
       Some r \<Rightarrow> (if known_revision r then upgrade_each (pending (Some r)) d else Inl CommandError)
     | None \<Rightarrow> upgrade_each MIGRATIONS d)"

subsection \<open>Start-up\<close>

definition SCHEMA_VERSION :: string where
  "SCHEMA_VERSION = ''m2''"

definition KNOWN_SCHEMA_VERSIONS :: "string list" where
  "KNOWN_SCHEMA_VERSIONS = [''m0'', ''m1'', SCHEMA_VERSION]"

definition inspect_existing_schema :: "database \<Rightarrow> db_error + unit" where
  "inspect_existing_schema d =
    (if has_table ''schema_meta'' d \<and> (case db_version d of None \<Rightarrow> True | Some v \<Rightarrow> v \<notin> set KNOWN_SCHEMA_VERSIONS) then Inl SchemaStartupError
     else (case db_revision d of None \<Rightarrow> Inr ()
        | Some r \<Rightarrow> (if known_revision r then Inr () else Inl SchemaStartupError)))"

definition run_migrations :: "database \<Rightarrow> db_error + database" where
  "run_migrations d = (case inspect_existing_schema d of Inl e \<Rightarrow> Inl e | Inr u \<Rightarrow> upgrade_head d)"

definition ensure_schema_version :: "string \<Rightarrow> database \<Rightarrow> db_error + unit" where
  "ensure_schema_version expected d =
    (if \<not> has_table ''schema_meta'' d \<or> db_version d \<noteq> Some expected then Inl SchemaMismatch else Inr ())"

definition open_database :: "bool \<Rightarrow> database \<Rightarrow> db_error + database" where
  "open_database run_migrate d =
    (case (if run_migrate then run_migrations d else Inr d) of Inl e \<Rightarrow> Inl e
     | Inr d1 \<Rightarrow> (case ensure_schema_version SCHEMA_VERSION d1 of Inl e \<Rightarrow> Inl e | Inr u \<Rightarrow> Inr d1))"

subsection \<open>The tables of the models\<close>

text \<open>A column of the models may be declared with an index or a unique constraint of its own; a foreign key without a type has the type it refers to.\<close>

datatype model_column = Plain column | Indexed column | Unique column

record model =
  mo_name :: string
  mo_columns :: "model_column list"
  mo_unique :: "(string \<times> string list) list"

definition model_schema_meta :: model where
  "model_schema_meta = \<lparr> mo_name = ''schema_meta'',
    mo_columns = [Plain (key_column ''key'' (String (Some 64))),
      Plain (required ''value'' Text)],
    mo_unique = [] \<rparr>"

definition model_tasks :: model where
  "model_tasks = \<lparr> mo_name = ''tasks'',
    mo_columns = [Plain (key_column ''task_id'' (String (Some 64))),
      Indexed (required ''principal_id'' (String (Some 64))),
      Plain (optional ''intent_ref'' Text),
      Plain (required ''title'' (String (Some 256))),
      Indexed (required ''state'' (String (Some 32))),
      Plain (optional ''state_reason'' (String (Some 64))),
      Plain (required ''state_revision'' Integer),
      Plain (optional ''contract_version'' Integer),
      Plain (optional ''plan_version'' Integer),
      Plain (optional ''active_planner_session_id'' (String (Some 64))),
      Plain (optional ''resume_point'' Text),
      Plain (optional ''final_result_refs'' Text),
      Plain (required ''cancel_intent'' Boolean),
      Plain (required ''pause_intent'' Boolean),
      Plain (required ''revoke_epoch'' Integer),
      Plain (required ''model_calls_used'' Integer),
      Plain (required ''model_call_limit'' Integer),
      Plain (optional ''create_idempotency_key'' (String (Some 128))),
      Plain (required ''created_at'' DateTime),
      Plain (required ''updated_at'' DateTime)],
    mo_unique = [(''uq_tasks_principal_create_key'', [''principal_id'', ''create_idempotency_key''])] \<rparr>"

definition model_contracts :: model where
  "model_contracts = \<lparr> mo_name = ''contracts'',
    mo_columns = [Plain (key_column ''id'' Integer),
      Indexed (references ''tasks.task_id'' (required ''task_id'' OfReferenced)),
      Plain (required ''contract_version'' Integer),
      Plain (optional ''supersedes_version'' Integer),
      Plain (required ''content_hash'' (String (Some 64))),
      Plain (required ''content_json'' Text),
      Indexed (required ''status'' (String (Some 32))),
      Plain (optional ''approved_by'' (String (Some 64))),
      Plain (optional ''approved_at'' DateTime),
      Plain (required ''created_at'' DateTime)],
    mo_unique = [(''uq_contracts_task_version'', [''task_id'', ''contract_version''])] \<rparr>"

definition model_active_contract_markers :: model where
  "model_active_contract_markers = \<lparr> mo_name = ''active_contract_markers'',
    mo_columns = [Plain (references ''tasks.task_id'' (key_column ''task_id'' OfReferenced)),
      Plain (required ''contract_version'' Integer)],
    mo_unique = [] \<rparr>"

definition model_explanations :: model where
  "model_explanations = \<lparr> mo_name = ''explanations'',
    mo_columns = [Plain (key_column ''explanation_id'' (String (Some 64))),
      Plain (references ''tasks.task_id'' (required ''task_id'' OfReferenced)),
      Plain (required ''contract_version'' Integer),
      Plain (required ''content_hash'' (String (Some 64))),
      Plain (required ''content_json'' Text),
      Plain (required ''created_at'' DateTime)],
    mo_unique = [] \<rparr>"

definition model_decisions :: model where
  "model_decisions = \<lparr> mo_name = ''decisions'',
    mo_columns = [Plain (key_column ''decision_id'' (String (Some 64))),
      Indexed (references ''tasks.task_id'' (required ''task_id'' OfReferenced)),
      Plain (required ''decision_kind'' (String (Some 64))),
      Plain (required ''target_ref'' (String (Some 128))),
      Plain (required ''target_version'' Integer),
      Plain (required ''target_hash'' (String (Some 64))),
      Plain (optional ''contract_version'' Integer),
      Plain (optional ''explanation_ref'' (String (Some 64))),
      Plain (optional ''explanation_hash'' (String (Some 64))),
      Plain (optional ''parameters_hash'' (String (Some 64))),
      Plain (optional ''result_snapshot_ref'' (String (Some 64))),
      Indexed (required ''status'' (String (Some 32))),
      Plain (optional ''choice'' (String (Some 32))),
      Plain (optional ''decided_by_actor'' (String (Some 64))),
      Plain (optional ''decided_by_principal'' (String (Some 64))),
      Plain (optional ''decided_at'' DateTime),
      Plain (required ''created_at'' DateTime),
      Plain (required ''expires_at'' DateTime),
      Plain (required ''gate_lifecycle'' (String (Some 32))),
      Plain (optional ''payload_json'' Text)],
    mo_unique = [] \<rparr>"

definition model_gates :: model where
  "model_gates = \<lparr> mo_name = ''gates'',
    mo_columns = [Plain (key_column ''gate_id'' (String (Some 64))),
      Indexed (references ''tasks.task_id'' (required ''task_id'' OfReferenced)),
      Plain (references ''decisions.decision_id'' (required ''decision_id'' OfReferenced)),
      Plain (required ''reason'' (String (Some 64))),
      Plain (required ''lifecycle'' (String (Some 32))),
      Plain (required ''created_at'' DateTime),
      Plain (optional ''resolved_at'' DateTime)],
    mo_unique = [] \<rparr>"

definition model_plans :: model where
  "model_plans = \<lparr> mo_name = ''plans'',
    mo_columns = [Plain (key_column ''id'' Integer),
      Indexed (references ''tasks.task_id'' (required ''task_id'' OfReferenced)),
      Plain (required ''plan_version'' Integer),
      Plain (optional ''base_plan_version'' Integer),
      Plain (required ''contract_version'' Integer),
      Plain (required ''content_hash'' (String (Some 64))),
      Plain (required ''nodes_json'' Text),
      Plain (required ''edges_json'' Text),
      Indexed (required ''status'' (String (Some 32))),
      Plain (required ''created_at'' DateTime)],
    mo_unique = [(''uq_plans_task_version'', [''task_id'', ''plan_version''])] \<rparr>"

definition model_active_plan_markers :: model where
  "model_active_plan_markers = \<lparr> mo_name = ''active_plan_markers'',
    mo_columns = [Plain (references ''tasks.task_id'' (key_column ''task_id'' OfReferenced)),
      Plain (required ''plan_version'' Integer)],
    mo_unique = [] \<rparr>"

definition model_work_unit_specs :: model where
  "model_work_unit_specs = \<lparr> mo_name = ''work_unit_specs'',
    mo_columns = [Plain (key_column ''id'' Integer),
      Indexed (required ''work_unit_id'' (String (Some 64))),
      Plain (required ''spec_version'' Integer),
      Indexed (references ''tasks.task_id'' (required ''task_id'' OfReferenced)),
      Plain (required ''objective'' Text),
      Plain (required ''work_type'' (String (Some 32))),
      Plain (required ''content_hash'' (String (Some 64))),
      Plain (required ''content_json'' Text),
      Plain (required ''created_at'' DateTime)],
    mo_unique = [(''uq_wuspec_id_version'', [''work_unit_id'', ''spec_version''])] \<rparr>"

definition model_work_unit_executions :: model where
  "model_work_unit_executions = \<lparr> mo_name = ''work_unit_executions'',
    mo_columns = [Plain (key_column ''work_unit_id'' (String (Some 64))),
      Indexed (references ''tasks.task_id'' (required ''task_id'' OfReferenced)),
      Plain (required ''spec_version'' Integer),
      Indexed (required ''status'' (String (Some 32))),
      Plain (optional ''active_run_id'' (String (Some 64))),
      Plain (required ''attempt_count'' Integer),
      Plain (optional ''next_retry_at'' DateTime),
      Plain (optional ''selected_result_ref'' (String (Some 64))),
      Plain (optional ''blocked_reason'' (String (Some 128))),
      Plain (optional ''selected_verdict'' (String (Some 16))),
      Plain (optional ''verified_artifact_hash'' (String (Some 64)))],
    mo_unique = [] \<rparr>"

definition model_planner_sessions :: model where
  "model_planner_sessions = \<lparr> mo_name = ''planner_sessions'',
    mo_columns = [Plain (key_column ''planner_session_id'' (String (Some 64))),
      Indexed (references ''tasks.task_id'' (required ''task_id'' OfReferenced)),
      Plain (required ''generation'' Integer),
      Plain (optional ''active_run_id'' (String (Some 64))),
      Plain (optional ''checkpoint_ref'' (String (Some 64))),
      Plain (required ''checkpoint_version'' Integer),
      Plain (required ''last_consumed_message_seq'' Integer),
      Plain (required ''status'' (String (Some 32)))],
    mo_unique = [] \<rparr>"

definition model_agent_runs :: model where
  "model_agent_runs = \<lparr> mo_name = ''agent_runs'',
    mo_columns = [Plain (key_column ''run_id'' (String (Some 64))),
      Indexed (references ''tasks.task_id'' (required ''task_id'' OfReferenced)),
      Plain (required ''assignment_kind'' (String (Some 16))),
      Plain (optional ''planner_session_id'' (String (Some 64))),
      Indexed (optional ''work_unit_id'' (String (Some 64))),
      Plain (optional ''work_unit_spec_version'' Integer),
      Plain (required ''attempt_no'' Integer),
      Plain (optional ''agent_instance_id'' (String (Some 64))),
      Plain (required ''profile_id'' (String (Some 64))),
      Plain (required ''profile_version'' Integer),
      Plain (required ''contract_version'' Integer),
      Plain (optional ''plan_version'' Integer),
      Plain (optional ''context_manifest_id'' (String (Some 64))),
      Plain (optional ''workspace_id'' (String (Some 64))),
      Indexed (required ''status'' (String (Some 32))),
      Plain (optional ''terminal_reason'' (String (Some 128))),
      Plain (required ''fencing_epoch'' Integer),
      Plain (required ''grant_epoch'' Integer),
      Plain (optional ''lease_expires_at'' DateTime),
      Plain (optional ''last_heartbeat_at'' DateTime),
      Plain (optional ''started_at'' DateTime),
      Plain (optional ''finished_at'' DateTime),
      Plain (optional ''resumed_from_run_id'' (String (Some 64))),
      Plain (optional ''result_ref'' (String (Some 64))),
      Plain (optional ''result_json'' Text),
      Plain (optional ''error_class'' (String (Some 64))),
      Plain (required ''late_arrival'' Boolean),
      Plain (optional ''sandbox_container_id'' (String (Some 128))),
      Plain (required ''sandbox_exit_unconfirmed'' Boolean)],
    mo_unique = [] \<rparr>"

definition model_active_execute_run_markers :: model where
  "model_active_execute_run_markers = \<lparr> mo_name = ''active_execute_run_markers'',
    mo_columns = [Plain (key_column ''work_unit_id'' (String (Some 64))),
      Plain (references ''agent_runs.run_id'' (required ''run_id'' OfReferenced))],
    mo_unique = [] \<rparr>"

definition model_active_plan_run_markers :: model where
  "model_active_plan_run_markers = \<lparr> mo_name = ''active_plan_run_markers'',
    mo_columns = [Plain (key_column ''planner_session_id'' (String (Some 64))),
      Plain (references ''agent_runs.run_id'' (required ''run_id'' OfReferenced))],
    mo_unique = [] \<rparr>"

definition model_workspaces :: model where
  "model_workspaces = \<lparr> mo_name = ''workspaces'',
    mo_columns = [Plain (key_column ''workspace_id'' (String (Some 64))),
      Indexed (references ''tasks.task_id'' (required ''task_id'' OfReferenced)),
      Indexed (required ''work_unit_id'' (String (Some 64))),
      Plain (required ''kind'' (String (Some 32))),
      Plain (required ''state'' (String (Some 32))),
      Plain (optional ''owner_run_id'' (String (Some 64))),
      Plain (required ''fencing_epoch'' Integer),
      Plain (required ''writer_alive'' Boolean)],
    mo_unique = [] \<rparr>"

definition model_context_manifests :: model where
  "model_context_manifests = \<lparr> mo_name = ''context_manifests'',
    mo_columns = [Plain (key_column ''context_manifest_id'' (String (Some 64))),
      Plain (references ''tasks.task_id'' (required ''task_id'' OfReferenced)),
      Unique (required ''run_id'' (String (Some 64))),
      Plain (required ''contract_version'' Integer),
      Plain (optional ''plan_version'' Integer),
      Plain (required ''content_json'' Text),
      Plain (required ''manifest_hash'' (String (Some 64))),
      Plain (required ''created_at'' DateTime)],
    mo_unique = [] \<rparr>"

definition model_side_effects :: model where
  "model_side_effects = \<lparr> mo_name = ''side_effects'',
    mo_columns = [Plain (key_column ''effect_id'' (String (Some 64))),
      Indexed (references ''tasks.task_id'' (required ''task_id'' OfReferenced)),
      Plain (required ''logical_action_key'' (String (Some 128))),
      Plain (optional ''origin_work_unit_id'' (String (Some 64))),
      Plain (optional ''request_run_id'' (String (Some 64))),
      Plain (required ''action_type'' (String (Some 64))),
      Plain (required ''target_ref'' (String (Some 256))),
      Plain (required ''parameters_hash'' (String (Some 64))),
      Plain (required ''action_digest'' (String (Some 64))),
      Plain (required ''parameters_json'' Text),
      Plain (required ''contract_version'' Integer),
      Plain (optional ''authorization_ref'' (String (Some 64))),
      Plain (optional ''expires_at'' DateTime),
      Plain (required ''external_idempotency_key'' (String (Some 128))),
      Plain (optional ''provider_operation_id'' (String (Some 128))),
      Indexed (required ''state'' (String (Some 32))),
      Plain (required ''dispatch_attempts'' Integer),
      Plain (optional ''receipt_json'' Text),
      Plain (optional ''last_error'' Text),
      Plain (required ''supports_idempotent_query'' Boolean),
      Plain (required ''created_at'' DateTime)],
    mo_unique = [(''uq_side_effects_task_logical_key'', [''task_id'', ''logical_action_key''])] \<rparr>"

definition model_events :: model where
  "model_events = \<lparr> mo_name = ''events'',
    mo_columns = [Plain (key_column ''id'' Integer),
      Indexed (references ''tasks.task_id'' (required ''task_id'' OfReferenced)),
      Plain (required ''sequence_no'' Integer),
      Plain (required ''event_type'' (String (Some 64))),
      Plain (optional ''actor_id'' (String (Some 64))),
      Plain (required ''payload_json'' Text),
      Plain (required ''occurred_at'' DateTime),
      Plain (required ''received_at'' DateTime)],
    mo_unique = [(''uq_events_task_seq'', [''task_id'', ''sequence_no''])] \<rparr>"

definition model_inbox :: model where
  "model_inbox = \<lparr> mo_name = ''inbox'',
    mo_columns = [Plain (key_column ''id'' Integer),
      Plain (required ''actor_id'' (String (Some 64))),
      Plain (required ''message_id'' (String (Some 128))),
      Plain (required ''principal_id'' (String (Some 64))),
      Plain (optional ''task_id'' (String (Some 64))),
      Plain (required ''operation_type'' (String (Some 64))),
      Plain (required ''idempotency_key'' (String (Some 128))),
      Plain (required ''payload_hash'' (String (Some 64))),
      Plain (required ''result_json'' Text),
      Plain (required ''created_at'' DateTime)],
    mo_unique = [(''uq_inbox_actor_message'', [''actor_id'', ''message_id'']), (''uq_inbox_idempotency'', [''principal_id'', ''task_id'', ''operation_type'', ''idempotency_key''])] \<rparr>"

definition model_outbox :: model where
  "model_outbox = \<lparr> mo_name = ''outbox'',
    mo_columns = [Plain (key_column ''outbox_id'' (String (Some 64))),
      Indexed (references ''tasks.task_id'' (required ''task_id'' OfReferenced)),
      Plain (required ''command_type'' (String (Some 64))),
      Plain (required ''payload_json'' Text),
      Indexed (required ''status'' (String (Some 32))),
      Plain (required ''revoke_epoch'' Integer),
      Plain (required ''created_at'' DateTime),
      Plain (optional ''leased_until'' DateTime),
      Plain (optional ''acked_at'' DateTime)],
    mo_unique = [] \<rparr>"

definition model_idempotency_keys :: model where
  "model_idempotency_keys = \<lparr> mo_name = ''idempotency_keys'',
    mo_columns = [Plain (key_column ''id'' Integer),
      Plain (required ''principal_id'' (String (Some 64))),
      Plain (required ''task_id'' (String (Some 64))),
      Plain (required ''operation_type'' (String (Some 64))),
      Plain (required ''idempotency_key'' (String (Some 128))),
      Plain (required ''payload_hash'' (String (Some 64))),
      Plain (required ''result_json'' Text),
      Plain (required ''created_at'' DateTime)],
    mo_unique = [(''uq_idempotency_domain'', [''principal_id'', ''task_id'', ''operation_type'', ''idempotency_key''])] \<rparr>"

definition model_result_snapshots :: model where
  "model_result_snapshots = \<lparr> mo_name = ''result_snapshots'',
    mo_columns = [Plain (key_column ''result_snapshot_id'' (String (Some 64))),
      Plain (references ''tasks.task_id'' (required ''task_id'' OfReferenced)),
      Plain (required ''contract_version'' Integer),
      Plain (optional ''plan_version'' Integer),
      Plain (required ''content_hash'' (String (Some 64))),
      Plain (required ''content_json'' Text),
      Plain (required ''created_at'' DateTime)],
    mo_unique = [] \<rparr>"

definition model_artifacts :: model where
  "model_artifacts = \<lparr> mo_name = ''artifacts'',
    mo_columns = [Plain (references ''tasks.task_id'' (key_column ''task_id'' OfReferenced)),
      Plain (key_column ''artifact_hash'' (String (Some 64))),
      Indexed (optional ''work_unit_id'' (String (Some 64))),
      Plain (optional ''run_id'' (String (Some 64))),
      Plain (optional ''result_ref'' (String (Some 64))),
      Plain (optional ''verdict'' (String (Some 16))),
      Plain (optional ''artifact_uri'' (String (Some 512))),
      Plain (optional ''size_bytes'' Integer),
      Plain (optional ''mime_type'' (String (Some 128))),
      Plain (optional ''source_path'' (String (Some 1024))),
      Plain (required ''created_at'' DateTime)],
    mo_unique = [] \<rparr>"

definition model_acceptance_evidence_records :: model where
  "model_acceptance_evidence_records = \<lparr> mo_name = ''acceptance_evidence_records'',
    mo_columns = [Plain (key_column ''evidence_id'' (String (Some 64))),
      Indexed (references ''tasks.task_id'' (required ''task_id'' OfReferenced)),
      Plain (required ''criterion_id'' (String (Some 64))),
      Plain (required ''artifact_hash'' (String (Some 64))),
      Plain (optional ''work_unit_id'' (String (Some 64))),
      Plain (optional ''run_id'' (String (Some 64))),
      Plain (optional ''result_ref'' (String (Some 64))),
      Plain (required ''verdict'' (String (Some 16))),
      Plain (required ''sequence_no'' Integer),
      Plain (required ''created_at'' DateTime)],
    mo_unique = [(''uq_acceptance_evidence_run_criterion'', [''task_id'', ''run_id'', ''criterion_id''])] \<rparr>"

definition model_agent_profiles :: model where
  "model_agent_profiles = \<lparr> mo_name = ''agent_profiles'',
    mo_columns = [Plain (key_column ''profile_id'' (String (Some 64))),
      Plain (key_column ''profile_version'' Integer),
      Plain (required ''content_json'' Text),
      Plain (required ''created_at'' DateTime)],
    mo_unique = [] \<rparr>"

definition model_run_inputs :: model where
  "model_run_inputs = \<lparr> mo_name = ''run_inputs'',
    mo_columns = [Plain (references ''agent_runs.run_id'' (key_column ''run_id'' OfReferenced)),
      Indexed (references ''tasks.task_id'' (required ''task_id'' OfReferenced)),
      Plain (optional ''workspace_id'' (String (Some 64))),
      Plain (optional ''workspace_path'' (String (Some 1024))),
      Plain (required ''profile_id'' (String (Some 64))),
      Plain (required ''profile_version'' Integer),
      Plain (required ''granted_tools_json'' Text),
      Plain (required ''permission_ceiling_json'' Text),
      Plain (optional ''context_manifest_id'' (String (Some 64))),
      Plain (required ''spec_json'' Text),
      Plain (required ''spec_hash'' (String (Some 64))),
      Plain (required ''created_at'' DateTime)],
    mo_unique = [] \<rparr>"

definition model_tool_invocations :: model where
  "model_tool_invocations = \<lparr> mo_name = ''tool_invocations'',
    mo_columns = [Plain (key_column ''invocation_id'' (String (Some 64))),
      Indexed (references ''tasks.task_id'' (required ''task_id'' OfReferenced)),
      Indexed (references ''agent_runs.run_id'' (required ''run_id'' OfReferenced)),
      Plain (optional ''work_unit_id'' (String (Some 64))),
      Plain (required ''sequence_no'' Integer),
      Plain (required ''tool_name'' (String (Some 64))),
      Plain (required ''parameters_json'' Text),
      Plain (required ''parameters_hash'' (String (Some 64))),
      Plain (required ''decision'' (String (Some 16))),
      Plain (optional ''deny_reason'' (String (Some 256))),
      Plain (required ''grant_epoch'' Integer),
      Plain (required ''fencing_epoch'' Integer),
      Plain (optional ''outcome'' (String (Some 32))),
      Plain (optional ''result_json'' Text),
      Plain (required ''created_at'' DateTime),
      Plain (optional ''finished_at'' DateTime)],
    mo_unique = [(''uq_tool_invocation_seq'', [''task_id'', ''run_id'', ''sequence_no''])] \<rparr>"

definition model_context_appends :: model where
  "model_context_appends = \<lparr> mo_name = ''context_appends'',
    mo_columns = [Plain (key_column ''append_id'' (String (Some 64))),
      Indexed (references ''tasks.task_id'' (required ''task_id'' OfReferenced)),
      Indexed (references ''agent_runs.run_id'' (required ''run_id'' OfReferenced)),
      Plain (required ''sequence_no'' Integer),
      Plain (required ''reason'' (String (Some 256))),
      Plain (required ''authorized_ref'' (String (Some 512))),
      Plain (optional ''version'' (String (Some 64))),
      Plain (optional ''content_hash'' (String (Some 64))),
      Plain (optional ''grant_ref'' (String (Some 128))),
      Plain (optional ''materialized_hash'' (String (Some 64))),
      Plain (required ''created_at'' DateTime)],
    mo_unique = [(''uq_context_append_seq'', [''task_id'', ''run_id'', ''sequence_no''])] \<rparr>"

definition model_task_messages :: model where
  "model_task_messages = \<lparr> mo_name = ''task_messages'',
    mo_columns = [Plain (key_column ''id'' Integer),
      Indexed (references ''tasks.task_id'' (required ''task_id'' OfReferenced)),
      Plain (required ''sequence_no'' Integer),
      Plain (optional ''sender_run_id'' (String (Some 64))),
      Plain (optional ''sender_actor'' (String (Some 128))),
      Plain (required ''kind'' (String (Some 64))),
      Plain (required ''body_json'' Text),
      Plain (required ''created_at'' DateTime)],
    mo_unique = [(''uq_task_messages_seq'', [''task_id'', ''sequence_no''])] \<rparr>"

definition MODELS :: "model list" where
  "MODELS = [model_schema_meta,
    model_tasks,
    model_contracts,
    model_active_contract_markers,
    model_explanations,
    model_decisions,
    model_gates,
    model_plans,
    model_active_plan_markers,
    model_work_unit_specs,
    model_work_unit_executions,
    model_planner_sessions,
    model_agent_runs,
    model_active_execute_run_markers,
    model_active_plan_run_markers,
    model_workspaces,
    model_context_manifests,
    model_side_effects,
    model_events,
    model_inbox,
    model_outbox,
    model_idempotency_keys,
    model_result_snapshots,
    model_artifacts,
    model_acceptance_evidence_records,
    model_agent_profiles,
    model_run_inputs,
    model_tool_invocations,
    model_context_appends,
    model_task_messages]"

subsection \<open>What the models ask of a database\<close>

fun base_column :: "model_column \<Rightarrow> column" where
  "base_column (Plain c) = c"
| "base_column (Indexed c) = c"
| "base_column (Unique c) = c"

text \<open>The type of the column that \<open>table.column\<close> names.\<close>

definition type_at :: "model list \<Rightarrow> string \<Rightarrow> sqltype" where
  "type_at ms target = (case find (\<lambda>m. take (Suc (length (mo_name m))) target = mo_name m @ ''.'') ms of
       None \<Rightarrow> OfReferenced
     | Some m \<Rightarrow> (case find (\<lambda>c. cl_name (base_column c) = drop (Suc (length (mo_name m))) target) (mo_columns m) of
          None \<Rightarrow> OfReferenced
        | Some c \<Rightarrow> cl_type (base_column c)))"

definition type_in :: "model list \<Rightarrow> column \<Rightarrow> sqltype" where
  "type_in ms c = (if cl_type c = OfReferenced then (case cl_references c of None \<Rightarrow> OfReferenced | Some target \<Rightarrow> type_at ms target)
     else cl_type c)"

text \<open>A string without a bound is a text.\<close>

definition stored_type :: "sqltype \<Rightarrow> sqltype" where
  "stored_type t = (if t = String None then Text else t)"

definition same_column :: "model list \<Rightarrow> column \<Rightarrow> column \<Rightarrow> bool" where
  "same_column ms c x \<longleftrightarrow> cl_name c = cl_name x \<and> stored_type (type_in ms c) = stored_type (cl_type x)
     \<and> cl_nullable c = cl_nullable x \<and> cl_key c = cl_key x \<and> cl_references c = cl_references x"

definition same_members :: "'a list \<Rightarrow> 'a list \<Rightarrow> bool" where
  "same_members xs ys \<longleftrightarrow> list_all (\<lambda>x. x \<in> set ys) xs \<and> list_all (\<lambda>y. y \<in> set xs) ys"

definition own_uniques :: "model \<Rightarrow> string list list" where
  "own_uniques m = map snd (mo_unique m) @ concat (map (\<lambda>c. case c of Unique x \<Rightarrow> [[cl_name x]] | _ \<Rightarrow> []) (mo_columns m))"

definition own_indexes :: "model \<Rightarrow> string list list" where
  "own_indexes m = concat (map (\<lambda>c. case c of Indexed x \<Rightarrow> [[cl_name x]] | _ \<Rightarrow> []) (mo_columns m))"

definition fits :: "model list \<Rightarrow> database \<Rightarrow> model \<Rightarrow> bool" where
  "fits ms d m \<longleftrightarrow> (case map_of (db_tables d) (mo_name m) of None \<Rightarrow> False
     | Some t \<Rightarrow> length (td_columns t) = length (mo_columns m)
         \<and> list_all (\<lambda>c. list_ex (same_column ms (base_column c)) (td_columns t)) (mo_columns m)
         \<and> same_members (own_uniques m) (map snd (td_unique t))
         \<and> same_members (own_indexes m) (map (\<lambda>(i, n, cs). cs) (filter (\<lambda>(i, n, cs). n = mo_name m) (db_indexes d))))"

definition is_schema_of :: "model list \<Rightarrow> database \<Rightarrow> bool" where
  "is_schema_of ms d \<longleftrightarrow> length (db_tables d) = length ms \<and> list_all (fits ms d) ms"

subsection \<open>The schema is the one of its revision\<close>

text \<open>Everything Alembic does to a database is a step up or down.\<close>

inductive history :: "database \<Rightarrow> bool" where
  fresh: "history empty_db"
| up: "history d \<Longrightarrow> upgrade_one d = Inr e \<Longrightarrow> history e"
| down: "history d \<Longrightarrow> downgrade_one d = Inr e \<Longrightarrow> history e"

inductive_cases historyE: "history d"

fun revision_db :: "nat \<Rightarrow> database" where
  "revision_db 0 = empty_db"
| "revision_db (Suc n) = (case upgrade_one (revision_db n) of Inl e \<Rightarrow> revision_db n | Inr d \<Rightarrow> d)"

lemmas created_defs = created_schema_meta_def created_tasks_def created_contracts_def created_active_contract_markers_def created_explanations_def
  created_decisions_def created_gates_def created_plans_def created_active_plan_markers_def created_work_unit_specs_def
  created_work_unit_executions_def created_planner_sessions_def created_agent_runs_def created_active_execute_run_markers_def created_active_plan_run_markers_def
  created_workspaces_def created_context_manifests_def created_side_effects_def created_events_def created_inbox_def
  created_outbox_def created_idempotency_keys_def created_result_snapshots_def created_agent_profiles_def created_artifacts_def
  created_acceptance_evidence_records_def created_run_inputs_def created_tool_invocations_def created_context_appends_def created_task_messages_def

lemmas column_defs = column_of_def required_def optional_def key_column_def references_def defaulting_def table_def

lemmas step_defs = upgrade_one_def downgrade_one_def upgrade_with_def MIGRATIONS_def has_table_def in_use_def drop_key_def

lemma created_names:
  "map cl_name (td_columns created_schema_meta) = [''key'', ''value'']"
  "map cl_name (td_columns created_tasks) = [''task_id'', ''principal_id'', ''intent_ref'', ''title'', ''state'', ''state_reason'', ''state_revision'', ''contract_version'', ''plan_version'', ''active_planner_session_id'', ''resume_point'', ''final_result_refs'', ''cancel_intent'', ''pause_intent'', ''revoke_epoch'', ''model_calls_used'', ''model_call_limit'', ''create_idempotency_key'', ''created_at'', ''updated_at'']"
  "map cl_name (td_columns created_contracts) = [''id'', ''task_id'', ''contract_version'', ''supersedes_version'', ''content_hash'', ''content_json'', ''status'', ''approved_by'', ''approved_at'', ''created_at'']"
  "map cl_name (td_columns created_active_contract_markers) = [''task_id'', ''contract_version'']"
  "map cl_name (td_columns created_explanations) = [''explanation_id'', ''task_id'', ''contract_version'', ''content_hash'', ''content_json'', ''created_at'']"
  "map cl_name (td_columns created_decisions) = [''decision_id'', ''task_id'', ''decision_kind'', ''target_ref'', ''target_version'', ''target_hash'', ''contract_version'', ''explanation_ref'', ''explanation_hash'', ''parameters_hash'', ''result_snapshot_ref'', ''status'', ''choice'', ''decided_by_actor'', ''decided_by_principal'', ''decided_at'', ''created_at'', ''expires_at'', ''gate_lifecycle'']"
  "map cl_name (td_columns created_gates) = [''gate_id'', ''task_id'', ''decision_id'', ''reason'', ''lifecycle'', ''created_at'', ''resolved_at'']"
  "map cl_name (td_columns created_plans) = [''id'', ''task_id'', ''plan_version'', ''base_plan_version'', ''contract_version'', ''content_hash'', ''nodes_json'', ''edges_json'', ''status'', ''created_at'']"
  "map cl_name (td_columns created_active_plan_markers) = [''task_id'', ''plan_version'']"
  "map cl_name (td_columns created_work_unit_specs) = [''id'', ''work_unit_id'', ''spec_version'', ''task_id'', ''objective'', ''work_type'', ''content_hash'', ''content_json'', ''created_at'']"
  "map cl_name (td_columns created_work_unit_executions) = [''work_unit_id'', ''task_id'', ''spec_version'', ''status'', ''active_run_id'', ''attempt_count'', ''next_retry_at'', ''selected_result_ref'', ''blocked_reason'', ''selected_verdict'', ''verified_artifact_hash'']"
  "map cl_name (td_columns created_planner_sessions) = [''planner_session_id'', ''task_id'', ''generation'', ''active_run_id'', ''checkpoint_ref'', ''checkpoint_version'', ''last_consumed_message_seq'', ''status'']"
  "map cl_name (td_columns created_agent_runs) = [''run_id'', ''task_id'', ''assignment_kind'', ''planner_session_id'', ''work_unit_id'', ''work_unit_spec_version'', ''attempt_no'', ''agent_instance_id'', ''profile_id'', ''profile_version'', ''contract_version'', ''plan_version'', ''context_manifest_id'', ''workspace_id'', ''status'', ''terminal_reason'', ''fencing_epoch'', ''grant_epoch'', ''lease_expires_at'', ''last_heartbeat_at'', ''started_at'', ''finished_at'', ''resumed_from_run_id'', ''result_ref'', ''result_json'', ''error_class'', ''late_arrival'']"
  "map cl_name (td_columns created_active_execute_run_markers) = [''work_unit_id'', ''run_id'']"
  "map cl_name (td_columns created_active_plan_run_markers) = [''planner_session_id'', ''run_id'']"
  "map cl_name (td_columns created_workspaces) = [''workspace_id'', ''task_id'', ''work_unit_id'', ''kind'', ''state'', ''owner_run_id'', ''fencing_epoch'', ''writer_alive'']"
  "map cl_name (td_columns created_context_manifests) = [''context_manifest_id'', ''task_id'', ''run_id'', ''contract_version'', ''plan_version'', ''content_json'', ''manifest_hash'', ''created_at'']"
  "map cl_name (td_columns created_side_effects) = [''effect_id'', ''task_id'', ''logical_action_key'', ''origin_work_unit_id'', ''request_run_id'', ''action_type'', ''target_ref'', ''parameters_hash'', ''action_digest'', ''parameters_json'', ''contract_version'', ''authorization_ref'', ''expires_at'', ''external_idempotency_key'', ''provider_operation_id'', ''state'', ''dispatch_attempts'', ''receipt_json'', ''last_error'', ''supports_idempotent_query'', ''created_at'']"
  "map cl_name (td_columns created_events) = [''id'', ''task_id'', ''sequence_no'', ''event_type'', ''actor_id'', ''payload_json'', ''occurred_at'', ''received_at'']"
  "map cl_name (td_columns created_inbox) = [''id'', ''actor_id'', ''message_id'', ''principal_id'', ''task_id'', ''operation_type'', ''idempotency_key'', ''payload_hash'', ''result_json'', ''created_at'']"
  "map cl_name (td_columns created_outbox) = [''outbox_id'', ''task_id'', ''command_type'', ''payload_json'', ''status'', ''revoke_epoch'', ''created_at'', ''leased_until'', ''acked_at'']"
  "map cl_name (td_columns created_idempotency_keys) = [''id'', ''principal_id'', ''task_id'', ''operation_type'', ''idempotency_key'', ''payload_hash'', ''result_json'', ''created_at'']"
  "map cl_name (td_columns created_result_snapshots) = [''result_snapshot_id'', ''task_id'', ''contract_version'', ''plan_version'', ''content_hash'', ''content_json'', ''created_at'']"
  "map cl_name (td_columns created_agent_profiles) = [''profile_id'', ''profile_version'', ''content_json'', ''created_at'']"
  "map cl_name (td_columns created_artifacts) = [''task_id'', ''artifact_hash'', ''work_unit_id'', ''run_id'', ''result_ref'', ''verdict'', ''created_at'']"
  "map cl_name (td_columns created_acceptance_evidence_records) = [''evidence_id'', ''task_id'', ''criterion_id'', ''artifact_hash'', ''work_unit_id'', ''run_id'', ''result_ref'', ''verdict'', ''created_at'']"
  "map cl_name (td_columns created_run_inputs) = [''run_id'', ''task_id'', ''workspace_id'', ''workspace_path'', ''profile_id'', ''profile_version'', ''granted_tools_json'', ''permission_ceiling_json'', ''context_manifest_id'', ''spec_json'', ''spec_hash'', ''created_at'']"
  "map cl_name (td_columns created_tool_invocations) = [''invocation_id'', ''task_id'', ''run_id'', ''work_unit_id'', ''sequence_no'', ''tool_name'', ''parameters_json'', ''parameters_hash'', ''decision'', ''deny_reason'', ''grant_epoch'', ''fencing_epoch'', ''outcome'', ''result_json'', ''created_at'', ''finished_at'']"
  "map cl_name (td_columns created_context_appends) = [''append_id'', ''task_id'', ''run_id'', ''sequence_no'', ''reason'', ''authorized_ref'', ''version'', ''content_hash'', ''grant_ref'', ''materialized_hash'', ''created_at'']"
  "map cl_name (td_columns created_task_messages) = [''id'', ''task_id'', ''sequence_no'', ''sender_run_id'', ''sender_actor'', ''kind'', ''body_json'', ''created_at'']"
  by (simp_all add: created_defs column_defs)

definition db_1 :: database where
  "db_1 = \<lparr> db_tables = [(''schema_meta'', created_schema_meta),
      (''tasks'', created_tasks),
      (''contracts'', created_contracts),
      (''active_contract_markers'', created_active_contract_markers),
      (''explanations'', created_explanations),
      (''decisions'', created_decisions),
      (''gates'', created_gates),
      (''plans'', created_plans),
      (''active_plan_markers'', created_active_plan_markers),
      (''work_unit_specs'', created_work_unit_specs),
      (''work_unit_executions'', created_work_unit_executions),
      (''planner_sessions'', created_planner_sessions),
      (''agent_runs'', created_agent_runs),
      (''active_execute_run_markers'', created_active_execute_run_markers),
      (''active_plan_run_markers'', created_active_plan_run_markers),
      (''workspaces'', created_workspaces),
      (''context_manifests'', created_context_manifests),
      (''side_effects'', created_side_effects),
      (''events'', created_events),
      (''inbox'', created_inbox),
      (''outbox'', created_outbox),
      (''idempotency_keys'', created_idempotency_keys),
      (''result_snapshots'', created_result_snapshots),
      (''agent_profiles'', created_agent_profiles)],
    db_indexes = [(''ix_tasks_principal_id'', ''tasks'', [''principal_id'']),
      (''ix_tasks_state'', ''tasks'', [''state'']),
      (''ix_contracts_task_id'', ''contracts'', [''task_id'']),
      (''ix_contracts_status'', ''contracts'', [''status'']),
      (''ix_decisions_task_id'', ''decisions'', [''task_id'']),
      (''ix_decisions_status'', ''decisions'', [''status'']),
      (''ix_gates_task_id'', ''gates'', [''task_id'']),
      (''ix_plans_task_id'', ''plans'', [''task_id'']),
      (''ix_plans_status'', ''plans'', [''status'']),
      (''ix_work_unit_specs_work_unit_id'', ''work_unit_specs'', [''work_unit_id'']),
      (''ix_work_unit_specs_task_id'', ''work_unit_specs'', [''task_id'']),
      (''ix_work_unit_executions_task_id'', ''work_unit_executions'', [''task_id'']),
      (''ix_work_unit_executions_status'', ''work_unit_executions'', [''status'']),
      (''ix_planner_sessions_task_id'', ''planner_sessions'', [''task_id'']),
      (''ix_agent_runs_task_id'', ''agent_runs'', [''task_id'']),
      (''ix_agent_runs_work_unit_id'', ''agent_runs'', [''work_unit_id'']),
      (''ix_agent_runs_status'', ''agent_runs'', [''status'']),
      (''ix_workspaces_task_id'', ''workspaces'', [''task_id'']),
      (''ix_workspaces_work_unit_id'', ''workspaces'', [''work_unit_id'']),
      (''ix_side_effects_task_id'', ''side_effects'', [''task_id'']),
      (''ix_side_effects_status'', ''side_effects'', [''state'']),
      (''ix_events_task_id'', ''events'', [''task_id'']),
      (''ix_outbox_task_id'', ''outbox'', [''task_id'']),
      (''ix_outbox_status'', ''outbox'', [''status''])],
    db_version = Some ''m0'', db_revision = Some ''0001_m0'' \<rparr>"

definition db_2 :: database where
  "db_2 = \<lparr> db_tables = [(''schema_meta'', created_schema_meta),
      (''tasks'', created_tasks),
      (''contracts'', created_contracts),
      (''active_contract_markers'', created_active_contract_markers),
      (''explanations'', created_explanations),
      (''decisions'', created_decisions),
      (''gates'', created_gates),
      (''plans'', created_plans),
      (''active_plan_markers'', created_active_plan_markers),
      (''work_unit_specs'', created_work_unit_specs),
      (''work_unit_executions'', created_work_unit_executions),
      (''planner_sessions'', created_planner_sessions),
      (''agent_runs'', created_agent_runs),
      (''active_execute_run_markers'', created_active_execute_run_markers),
      (''active_plan_run_markers'', created_active_plan_run_markers),
      (''workspaces'', created_workspaces),
      (''context_manifests'', created_context_manifests),
      (''side_effects'', created_side_effects),
      (''events'', created_events),
      (''inbox'', created_inbox),
      (''outbox'', created_outbox),
      (''idempotency_keys'', created_idempotency_keys),
      (''result_snapshots'', created_result_snapshots),
      (''agent_profiles'', created_agent_profiles),
      (''artifacts'', created_artifacts)],
    db_indexes = [(''ix_tasks_principal_id'', ''tasks'', [''principal_id'']),
      (''ix_tasks_state'', ''tasks'', [''state'']),
      (''ix_contracts_task_id'', ''contracts'', [''task_id'']),
      (''ix_contracts_status'', ''contracts'', [''status'']),
      (''ix_decisions_task_id'', ''decisions'', [''task_id'']),
      (''ix_decisions_status'', ''decisions'', [''status'']),
      (''ix_gates_task_id'', ''gates'', [''task_id'']),
      (''ix_plans_task_id'', ''plans'', [''task_id'']),
      (''ix_plans_status'', ''plans'', [''status'']),
      (''ix_work_unit_specs_work_unit_id'', ''work_unit_specs'', [''work_unit_id'']),
      (''ix_work_unit_specs_task_id'', ''work_unit_specs'', [''task_id'']),
      (''ix_work_unit_executions_task_id'', ''work_unit_executions'', [''task_id'']),
      (''ix_work_unit_executions_status'', ''work_unit_executions'', [''status'']),
      (''ix_planner_sessions_task_id'', ''planner_sessions'', [''task_id'']),
      (''ix_agent_runs_task_id'', ''agent_runs'', [''task_id'']),
      (''ix_agent_runs_work_unit_id'', ''agent_runs'', [''work_unit_id'']),
      (''ix_agent_runs_status'', ''agent_runs'', [''status'']),
      (''ix_workspaces_task_id'', ''workspaces'', [''task_id'']),
      (''ix_workspaces_work_unit_id'', ''workspaces'', [''work_unit_id'']),
      (''ix_side_effects_task_id'', ''side_effects'', [''task_id'']),
      (''ix_side_effects_status'', ''side_effects'', [''state'']),
      (''ix_events_task_id'', ''events'', [''task_id'']),
      (''ix_outbox_task_id'', ''outbox'', [''task_id'']),
      (''ix_outbox_status'', ''outbox'', [''status'']),
      (''ix_artifacts_work_unit_id'', ''artifacts'', [''work_unit_id''])],
    db_version = Some ''m0'', db_revision = Some ''0002_artifacts'' \<rparr>"

definition db_3 :: database where
  "db_3 = \<lparr> db_tables = [(''schema_meta'', created_schema_meta),
      (''tasks'', created_tasks),
      (''contracts'', created_contracts),
      (''active_contract_markers'', created_active_contract_markers),
      (''explanations'', created_explanations),
      (''decisions'', created_decisions\<lparr> td_columns := td_columns created_decisions @ [(optional ''payload_json'' Text)] \<rparr>),
      (''gates'', created_gates),
      (''plans'', created_plans),
      (''active_plan_markers'', created_active_plan_markers),
      (''work_unit_specs'', created_work_unit_specs),
      (''work_unit_executions'', created_work_unit_executions),
      (''planner_sessions'', created_planner_sessions),
      (''agent_runs'', created_agent_runs),
      (''active_execute_run_markers'', created_active_execute_run_markers),
      (''active_plan_run_markers'', created_active_plan_run_markers),
      (''workspaces'', created_workspaces),
      (''context_manifests'', created_context_manifests),
      (''side_effects'', created_side_effects),
      (''events'', created_events),
      (''inbox'', created_inbox),
      (''outbox'', created_outbox),
      (''idempotency_keys'', created_idempotency_keys),
      (''result_snapshots'', created_result_snapshots),
      (''agent_profiles'', created_agent_profiles),
      (''artifacts'', created_artifacts),
      (''acceptance_evidence_records'', created_acceptance_evidence_records)],
    db_indexes = [(''ix_tasks_principal_id'', ''tasks'', [''principal_id'']),
      (''ix_tasks_state'', ''tasks'', [''state'']),
      (''ix_contracts_task_id'', ''contracts'', [''task_id'']),
      (''ix_contracts_status'', ''contracts'', [''status'']),
      (''ix_decisions_task_id'', ''decisions'', [''task_id'']),
      (''ix_decisions_status'', ''decisions'', [''status'']),
      (''ix_gates_task_id'', ''gates'', [''task_id'']),
      (''ix_plans_task_id'', ''plans'', [''task_id'']),
      (''ix_plans_status'', ''plans'', [''status'']),
      (''ix_work_unit_specs_work_unit_id'', ''work_unit_specs'', [''work_unit_id'']),
      (''ix_work_unit_specs_task_id'', ''work_unit_specs'', [''task_id'']),
      (''ix_work_unit_executions_task_id'', ''work_unit_executions'', [''task_id'']),
      (''ix_work_unit_executions_status'', ''work_unit_executions'', [''status'']),
      (''ix_planner_sessions_task_id'', ''planner_sessions'', [''task_id'']),
      (''ix_agent_runs_task_id'', ''agent_runs'', [''task_id'']),
      (''ix_agent_runs_work_unit_id'', ''agent_runs'', [''work_unit_id'']),
      (''ix_agent_runs_status'', ''agent_runs'', [''status'']),
      (''ix_workspaces_task_id'', ''workspaces'', [''task_id'']),
      (''ix_workspaces_work_unit_id'', ''workspaces'', [''work_unit_id'']),
      (''ix_side_effects_task_id'', ''side_effects'', [''task_id'']),
      (''ix_side_effects_status'', ''side_effects'', [''state'']),
      (''ix_events_task_id'', ''events'', [''task_id'']),
      (''ix_outbox_task_id'', ''outbox'', [''task_id'']),
      (''ix_outbox_status'', ''outbox'', [''status'']),
      (''ix_artifacts_work_unit_id'', ''artifacts'', [''work_unit_id'']),
      (''ix_acceptance_evidence_records_task_id'', ''acceptance_evidence_records'', [''task_id''])],
    db_version = Some ''m0'', db_revision = Some ''0003_evidence'' \<rparr>"

definition db_4 :: database where
  "db_4 = \<lparr> db_tables = [(''schema_meta'', created_schema_meta),
      (''tasks'', created_tasks),
      (''contracts'', created_contracts),
      (''active_contract_markers'', created_active_contract_markers),
      (''explanations'', created_explanations),
      (''decisions'', created_decisions\<lparr> td_columns := td_columns created_decisions @ [(optional ''payload_json'' Text)] \<rparr>),
      (''gates'', created_gates),
      (''plans'', created_plans),
      (''active_plan_markers'', created_active_plan_markers),
      (''work_unit_specs'', created_work_unit_specs),
      (''work_unit_executions'', created_work_unit_executions),
      (''planner_sessions'', created_planner_sessions),
      (''agent_runs'', created_agent_runs),
      (''active_execute_run_markers'', created_active_execute_run_markers),
      (''active_plan_run_markers'', created_active_plan_run_markers),
      (''workspaces'', created_workspaces),
      (''context_manifests'', created_context_manifests),
      (''side_effects'', created_side_effects),
      (''events'', created_events),
      (''inbox'', created_inbox),
      (''outbox'', created_outbox),
      (''idempotency_keys'', created_idempotency_keys),
      (''result_snapshots'', created_result_snapshots),
      (''agent_profiles'', created_agent_profiles),
      (''artifacts'', created_artifacts),
      (''acceptance_evidence_records'', created_acceptance_evidence_records\<lparr> td_columns := td_columns created_acceptance_evidence_records @ [(defaulting ''0'' (required ''sequence_no'' Integer))] \<rparr>)],
    db_indexes = [(''ix_tasks_principal_id'', ''tasks'', [''principal_id'']),
      (''ix_tasks_state'', ''tasks'', [''state'']),
      (''ix_contracts_task_id'', ''contracts'', [''task_id'']),
      (''ix_contracts_status'', ''contracts'', [''status'']),
      (''ix_decisions_task_id'', ''decisions'', [''task_id'']),
      (''ix_decisions_status'', ''decisions'', [''status'']),
      (''ix_gates_task_id'', ''gates'', [''task_id'']),
      (''ix_plans_task_id'', ''plans'', [''task_id'']),
      (''ix_plans_status'', ''plans'', [''status'']),
      (''ix_work_unit_specs_work_unit_id'', ''work_unit_specs'', [''work_unit_id'']),
      (''ix_work_unit_specs_task_id'', ''work_unit_specs'', [''task_id'']),
      (''ix_work_unit_executions_task_id'', ''work_unit_executions'', [''task_id'']),
      (''ix_work_unit_executions_status'', ''work_unit_executions'', [''status'']),
      (''ix_planner_sessions_task_id'', ''planner_sessions'', [''task_id'']),
      (''ix_agent_runs_task_id'', ''agent_runs'', [''task_id'']),
      (''ix_agent_runs_work_unit_id'', ''agent_runs'', [''work_unit_id'']),
      (''ix_agent_runs_status'', ''agent_runs'', [''status'']),
      (''ix_workspaces_task_id'', ''workspaces'', [''task_id'']),
      (''ix_workspaces_work_unit_id'', ''workspaces'', [''work_unit_id'']),
      (''ix_side_effects_task_id'', ''side_effects'', [''task_id'']),
      (''ix_side_effects_status'', ''side_effects'', [''state'']),
      (''ix_events_task_id'', ''events'', [''task_id'']),
      (''ix_outbox_task_id'', ''outbox'', [''task_id'']),
      (''ix_outbox_status'', ''outbox'', [''status'']),
      (''ix_artifacts_work_unit_id'', ''artifacts'', [''work_unit_id'']),
      (''ix_acceptance_evidence_records_task_id'', ''acceptance_evidence_records'', [''task_id''])],
    db_version = Some ''m0'', db_revision = Some ''0004_evidence_sequence'' \<rparr>"

definition db_5 :: database where
  "db_5 = \<lparr> db_tables = [(''schema_meta'', created_schema_meta),
      (''tasks'', created_tasks),
      (''contracts'', created_contracts),
      (''active_contract_markers'', created_active_contract_markers),
      (''explanations'', created_explanations),
      (''decisions'', created_decisions\<lparr> td_columns := td_columns created_decisions @ [(optional ''payload_json'' Text)] \<rparr>),
      (''gates'', created_gates),
      (''plans'', created_plans),
      (''active_plan_markers'', created_active_plan_markers),
      (''work_unit_specs'', created_work_unit_specs),
      (''work_unit_executions'', created_work_unit_executions),
      (''planner_sessions'', created_planner_sessions),
      (''agent_runs'', created_agent_runs),
      (''active_execute_run_markers'', created_active_execute_run_markers),
      (''active_plan_run_markers'', created_active_plan_run_markers),
      (''workspaces'', created_workspaces),
      (''context_manifests'', created_context_manifests),
      (''side_effects'', created_side_effects),
      (''events'', created_events),
      (''inbox'', created_inbox),
      (''outbox'', created_outbox),
      (''idempotency_keys'', created_idempotency_keys),
      (''result_snapshots'', created_result_snapshots),
      (''agent_profiles'', created_agent_profiles),
      (''artifacts'', created_artifacts),
      (''acceptance_evidence_records'', created_acceptance_evidence_records\<lparr> td_columns := td_columns created_acceptance_evidence_records @ [(defaulting ''0'' (required ''sequence_no'' Integer))] \<rparr>),
      (''run_inputs'', created_run_inputs),
      (''tool_invocations'', created_tool_invocations),
      (''context_appends'', created_context_appends)],
    db_indexes = [(''ix_tasks_principal_id'', ''tasks'', [''principal_id'']),
      (''ix_tasks_state'', ''tasks'', [''state'']),
      (''ix_contracts_task_id'', ''contracts'', [''task_id'']),
      (''ix_contracts_status'', ''contracts'', [''status'']),
      (''ix_decisions_task_id'', ''decisions'', [''task_id'']),
      (''ix_decisions_status'', ''decisions'', [''status'']),
      (''ix_gates_task_id'', ''gates'', [''task_id'']),
      (''ix_plans_task_id'', ''plans'', [''task_id'']),
      (''ix_plans_status'', ''plans'', [''status'']),
      (''ix_work_unit_specs_work_unit_id'', ''work_unit_specs'', [''work_unit_id'']),
      (''ix_work_unit_specs_task_id'', ''work_unit_specs'', [''task_id'']),
      (''ix_work_unit_executions_task_id'', ''work_unit_executions'', [''task_id'']),
      (''ix_work_unit_executions_status'', ''work_unit_executions'', [''status'']),
      (''ix_planner_sessions_task_id'', ''planner_sessions'', [''task_id'']),
      (''ix_agent_runs_task_id'', ''agent_runs'', [''task_id'']),
      (''ix_agent_runs_work_unit_id'', ''agent_runs'', [''work_unit_id'']),
      (''ix_agent_runs_status'', ''agent_runs'', [''status'']),
      (''ix_workspaces_task_id'', ''workspaces'', [''task_id'']),
      (''ix_workspaces_work_unit_id'', ''workspaces'', [''work_unit_id'']),
      (''ix_side_effects_task_id'', ''side_effects'', [''task_id'']),
      (''ix_side_effects_status'', ''side_effects'', [''state'']),
      (''ix_events_task_id'', ''events'', [''task_id'']),
      (''ix_outbox_task_id'', ''outbox'', [''task_id'']),
      (''ix_outbox_status'', ''outbox'', [''status'']),
      (''ix_artifacts_work_unit_id'', ''artifacts'', [''work_unit_id'']),
      (''ix_acceptance_evidence_records_task_id'', ''acceptance_evidence_records'', [''task_id'']),
      (''ix_run_inputs_task_id'', ''run_inputs'', [''task_id'']),
      (''ix_tool_invocations_task_id'', ''tool_invocations'', [''task_id'']),
      (''ix_tool_invocations_run_id'', ''tool_invocations'', [''run_id'']),
      (''ix_context_appends_task_id'', ''context_appends'', [''task_id'']),
      (''ix_context_appends_run_id'', ''context_appends'', [''run_id''])],
    db_version = Some ''m1'', db_revision = Some ''0005_m1_execution'' \<rparr>"

definition db_6 :: database where
  "db_6 = \<lparr> db_tables = [(''schema_meta'', created_schema_meta),
      (''tasks'', created_tasks),
      (''contracts'', created_contracts),
      (''active_contract_markers'', created_active_contract_markers),
      (''explanations'', created_explanations),
      (''decisions'', created_decisions\<lparr> td_columns := td_columns created_decisions @ [(optional ''payload_json'' Text)] \<rparr>),
      (''gates'', created_gates),
      (''plans'', created_plans),
      (''active_plan_markers'', created_active_plan_markers),
      (''work_unit_specs'', created_work_unit_specs),
      (''work_unit_executions'', created_work_unit_executions),
      (''planner_sessions'', created_planner_sessions),
      (''agent_runs'', created_agent_runs),
      (''active_execute_run_markers'', created_active_execute_run_markers),
      (''active_plan_run_markers'', created_active_plan_run_markers),
      (''workspaces'', created_workspaces),
      (''context_manifests'', created_context_manifests),
      (''side_effects'', created_side_effects),
      (''events'', created_events),
      (''inbox'', created_inbox),
      (''outbox'', created_outbox),
      (''idempotency_keys'', created_idempotency_keys),
      (''result_snapshots'', created_result_snapshots),
      (''agent_profiles'', created_agent_profiles),
      (''artifacts'', created_artifacts\<lparr> td_columns := td_columns created_artifacts @ [(optional ''artifact_uri'' (String (Some 512))), (optional ''size_bytes'' Integer), (optional ''mime_type'' (String (Some 128))), (optional ''source_path'' (String (Some 1024)))] \<rparr>),
      (''acceptance_evidence_records'', created_acceptance_evidence_records\<lparr> td_columns := td_columns created_acceptance_evidence_records @ [(defaulting ''0'' (required ''sequence_no'' Integer))] \<rparr>),
      (''run_inputs'', created_run_inputs),
      (''tool_invocations'', created_tool_invocations),
      (''context_appends'', created_context_appends)],
    db_indexes = [(''ix_tasks_principal_id'', ''tasks'', [''principal_id'']),
      (''ix_tasks_state'', ''tasks'', [''state'']),
      (''ix_contracts_task_id'', ''contracts'', [''task_id'']),
      (''ix_contracts_status'', ''contracts'', [''status'']),
      (''ix_decisions_task_id'', ''decisions'', [''task_id'']),
      (''ix_decisions_status'', ''decisions'', [''status'']),
      (''ix_gates_task_id'', ''gates'', [''task_id'']),
      (''ix_plans_task_id'', ''plans'', [''task_id'']),
      (''ix_plans_status'', ''plans'', [''status'']),
      (''ix_work_unit_specs_work_unit_id'', ''work_unit_specs'', [''work_unit_id'']),
      (''ix_work_unit_specs_task_id'', ''work_unit_specs'', [''task_id'']),
      (''ix_work_unit_executions_task_id'', ''work_unit_executions'', [''task_id'']),
      (''ix_work_unit_executions_status'', ''work_unit_executions'', [''status'']),
      (''ix_planner_sessions_task_id'', ''planner_sessions'', [''task_id'']),
      (''ix_agent_runs_task_id'', ''agent_runs'', [''task_id'']),
      (''ix_agent_runs_work_unit_id'', ''agent_runs'', [''work_unit_id'']),
      (''ix_agent_runs_status'', ''agent_runs'', [''status'']),
      (''ix_workspaces_task_id'', ''workspaces'', [''task_id'']),
      (''ix_workspaces_work_unit_id'', ''workspaces'', [''work_unit_id'']),
      (''ix_side_effects_task_id'', ''side_effects'', [''task_id'']),
      (''ix_side_effects_status'', ''side_effects'', [''state'']),
      (''ix_events_task_id'', ''events'', [''task_id'']),
      (''ix_outbox_task_id'', ''outbox'', [''task_id'']),
      (''ix_outbox_status'', ''outbox'', [''status'']),
      (''ix_artifacts_work_unit_id'', ''artifacts'', [''work_unit_id'']),
      (''ix_acceptance_evidence_records_task_id'', ''acceptance_evidence_records'', [''task_id'']),
      (''ix_run_inputs_task_id'', ''run_inputs'', [''task_id'']),
      (''ix_tool_invocations_task_id'', ''tool_invocations'', [''task_id'']),
      (''ix_tool_invocations_run_id'', ''tool_invocations'', [''run_id'']),
      (''ix_context_appends_task_id'', ''context_appends'', [''task_id'']),
      (''ix_context_appends_run_id'', ''context_appends'', [''run_id''])],
    db_version = Some ''m1'', db_revision = Some ''0006_artifact_uri'' \<rparr>"

definition db_7 :: database where
  "db_7 = \<lparr> db_tables = [(''schema_meta'', created_schema_meta),
      (''tasks'', created_tasks),
      (''contracts'', created_contracts),
      (''active_contract_markers'', created_active_contract_markers),
      (''explanations'', created_explanations),
      (''decisions'', created_decisions\<lparr> td_columns := td_columns created_decisions @ [(optional ''payload_json'' Text)] \<rparr>),
      (''gates'', created_gates),
      (''plans'', created_plans),
      (''active_plan_markers'', created_active_plan_markers),
      (''work_unit_specs'', created_work_unit_specs),
      (''work_unit_executions'', created_work_unit_executions),
      (''planner_sessions'', created_planner_sessions),
      (''agent_runs'', created_agent_runs\<lparr> td_columns := td_columns created_agent_runs @ [(optional ''sandbox_container_id'' (String (Some 128))), (defaulting ''false'' (required ''sandbox_exit_unconfirmed'' Boolean))] \<rparr>),
      (''active_execute_run_markers'', created_active_execute_run_markers),
      (''active_plan_run_markers'', created_active_plan_run_markers),
      (''workspaces'', created_workspaces),
      (''context_manifests'', created_context_manifests),
      (''side_effects'', created_side_effects),
      (''events'', created_events),
      (''inbox'', created_inbox),
      (''outbox'', created_outbox),
      (''idempotency_keys'', created_idempotency_keys),
      (''result_snapshots'', created_result_snapshots),
      (''agent_profiles'', created_agent_profiles),
      (''artifacts'', created_artifacts\<lparr> td_columns := td_columns created_artifacts @ [(optional ''artifact_uri'' (String (Some 512))), (optional ''size_bytes'' Integer), (optional ''mime_type'' (String (Some 128))), (optional ''source_path'' (String (Some 1024)))] \<rparr>),
      (''acceptance_evidence_records'', created_acceptance_evidence_records\<lparr> td_columns := td_columns created_acceptance_evidence_records @ [(defaulting ''0'' (required ''sequence_no'' Integer))] \<rparr>),
      (''run_inputs'', created_run_inputs),
      (''tool_invocations'', created_tool_invocations),
      (''context_appends'', created_context_appends)],
    db_indexes = [(''ix_tasks_principal_id'', ''tasks'', [''principal_id'']),
      (''ix_tasks_state'', ''tasks'', [''state'']),
      (''ix_contracts_task_id'', ''contracts'', [''task_id'']),
      (''ix_contracts_status'', ''contracts'', [''status'']),
      (''ix_decisions_task_id'', ''decisions'', [''task_id'']),
      (''ix_decisions_status'', ''decisions'', [''status'']),
      (''ix_gates_task_id'', ''gates'', [''task_id'']),
      (''ix_plans_task_id'', ''plans'', [''task_id'']),
      (''ix_plans_status'', ''plans'', [''status'']),
      (''ix_work_unit_specs_work_unit_id'', ''work_unit_specs'', [''work_unit_id'']),
      (''ix_work_unit_specs_task_id'', ''work_unit_specs'', [''task_id'']),
      (''ix_work_unit_executions_task_id'', ''work_unit_executions'', [''task_id'']),
      (''ix_work_unit_executions_status'', ''work_unit_executions'', [''status'']),
      (''ix_planner_sessions_task_id'', ''planner_sessions'', [''task_id'']),
      (''ix_agent_runs_task_id'', ''agent_runs'', [''task_id'']),
      (''ix_agent_runs_work_unit_id'', ''agent_runs'', [''work_unit_id'']),
      (''ix_agent_runs_status'', ''agent_runs'', [''status'']),
      (''ix_workspaces_task_id'', ''workspaces'', [''task_id'']),
      (''ix_workspaces_work_unit_id'', ''workspaces'', [''work_unit_id'']),
      (''ix_side_effects_task_id'', ''side_effects'', [''task_id'']),
      (''ix_side_effects_status'', ''side_effects'', [''state'']),
      (''ix_events_task_id'', ''events'', [''task_id'']),
      (''ix_outbox_task_id'', ''outbox'', [''task_id'']),
      (''ix_outbox_status'', ''outbox'', [''status'']),
      (''ix_artifacts_work_unit_id'', ''artifacts'', [''work_unit_id'']),
      (''ix_acceptance_evidence_records_task_id'', ''acceptance_evidence_records'', [''task_id'']),
      (''ix_run_inputs_task_id'', ''run_inputs'', [''task_id'']),
      (''ix_tool_invocations_task_id'', ''tool_invocations'', [''task_id'']),
      (''ix_tool_invocations_run_id'', ''tool_invocations'', [''run_id'']),
      (''ix_context_appends_task_id'', ''context_appends'', [''task_id'']),
      (''ix_context_appends_run_id'', ''context_appends'', [''run_id''])],
    db_version = Some ''m1'', db_revision = Some ''0007_sandbox_identity'' \<rparr>"

definition db_8 :: database where
  "db_8 = \<lparr> db_tables = [(''schema_meta'', created_schema_meta),
      (''tasks'', created_tasks),
      (''contracts'', created_contracts),
      (''active_contract_markers'', created_active_contract_markers),
      (''explanations'', created_explanations),
      (''decisions'', created_decisions\<lparr> td_columns := td_columns created_decisions @ [(optional ''payload_json'' Text)] \<rparr>),
      (''gates'', created_gates),
      (''plans'', created_plans),
      (''active_plan_markers'', created_active_plan_markers),
      (''work_unit_specs'', created_work_unit_specs),
      (''work_unit_executions'', created_work_unit_executions),
      (''planner_sessions'', created_planner_sessions),
      (''agent_runs'', created_agent_runs\<lparr> td_columns := td_columns created_agent_runs @ [(optional ''sandbox_container_id'' (String (Some 128))), (defaulting ''false'' (required ''sandbox_exit_unconfirmed'' Boolean))] \<rparr>),
      (''active_execute_run_markers'', created_active_execute_run_markers),
      (''active_plan_run_markers'', created_active_plan_run_markers),
      (''workspaces'', created_workspaces),
      (''context_manifests'', created_context_manifests),
      (''side_effects'', created_side_effects),
      (''events'', created_events),
      (''inbox'', created_inbox),
      (''outbox'', created_outbox),
      (''idempotency_keys'', created_idempotency_keys),
      (''result_snapshots'', created_result_snapshots),
      (''agent_profiles'', created_agent_profiles),
      (''artifacts'', created_artifacts\<lparr> td_columns := td_columns created_artifacts @ [(optional ''artifact_uri'' (String (Some 512))), (optional ''size_bytes'' Integer), (optional ''mime_type'' (String (Some 128))), (optional ''source_path'' (String (Some 1024)))] \<rparr>),
      (''acceptance_evidence_records'', created_acceptance_evidence_records\<lparr> td_columns := td_columns created_acceptance_evidence_records @ [(defaulting ''0'' (required ''sequence_no'' Integer))] \<rparr>),
      (''run_inputs'', created_run_inputs),
      (''tool_invocations'', created_tool_invocations),
      (''context_appends'', created_context_appends),
      (''task_messages'', created_task_messages)],
    db_indexes = [(''ix_tasks_principal_id'', ''tasks'', [''principal_id'']),
      (''ix_tasks_state'', ''tasks'', [''state'']),
      (''ix_contracts_task_id'', ''contracts'', [''task_id'']),
      (''ix_contracts_status'', ''contracts'', [''status'']),
      (''ix_decisions_task_id'', ''decisions'', [''task_id'']),
      (''ix_decisions_status'', ''decisions'', [''status'']),
      (''ix_gates_task_id'', ''gates'', [''task_id'']),
      (''ix_plans_task_id'', ''plans'', [''task_id'']),
      (''ix_plans_status'', ''plans'', [''status'']),
      (''ix_work_unit_specs_work_unit_id'', ''work_unit_specs'', [''work_unit_id'']),
      (''ix_work_unit_specs_task_id'', ''work_unit_specs'', [''task_id'']),
      (''ix_work_unit_executions_task_id'', ''work_unit_executions'', [''task_id'']),
      (''ix_work_unit_executions_status'', ''work_unit_executions'', [''status'']),
      (''ix_planner_sessions_task_id'', ''planner_sessions'', [''task_id'']),
      (''ix_agent_runs_task_id'', ''agent_runs'', [''task_id'']),
      (''ix_agent_runs_work_unit_id'', ''agent_runs'', [''work_unit_id'']),
      (''ix_agent_runs_status'', ''agent_runs'', [''status'']),
      (''ix_workspaces_task_id'', ''workspaces'', [''task_id'']),
      (''ix_workspaces_work_unit_id'', ''workspaces'', [''work_unit_id'']),
      (''ix_side_effects_task_id'', ''side_effects'', [''task_id'']),
      (''ix_side_effects_status'', ''side_effects'', [''state'']),
      (''ix_events_task_id'', ''events'', [''task_id'']),
      (''ix_outbox_task_id'', ''outbox'', [''task_id'']),
      (''ix_outbox_status'', ''outbox'', [''status'']),
      (''ix_artifacts_work_unit_id'', ''artifacts'', [''work_unit_id'']),
      (''ix_acceptance_evidence_records_task_id'', ''acceptance_evidence_records'', [''task_id'']),
      (''ix_run_inputs_task_id'', ''run_inputs'', [''task_id'']),
      (''ix_tool_invocations_task_id'', ''tool_invocations'', [''task_id'']),
      (''ix_tool_invocations_run_id'', ''tool_invocations'', [''run_id'']),
      (''ix_context_appends_task_id'', ''context_appends'', [''task_id'']),
      (''ix_context_appends_run_id'', ''context_appends'', [''run_id'']),
      (''ix_task_messages_task_id'', ''task_messages'', [''task_id''])],
    db_version = Some ''m2'', db_revision = Some ''0008_m2_messages'' \<rparr>"

lemma db_revisions:
  "db_revision empty_db = None" "db_revision db_1 = Some ''0001_m0''" "db_revision db_2 = Some ''0002_artifacts''" "db_revision db_3 = Some ''0003_evidence''" "db_revision db_4 = Some ''0004_evidence_sequence''" "db_revision db_5 = Some ''0005_m1_execution''" "db_revision db_6 = Some ''0006_artifact_uri''" "db_revision db_7 = Some ''0007_sandbox_identity''" "db_revision db_8 = Some ''0008_m2_messages''"
  by (simp_all add: empty_db_def db_1_def db_2_def db_3_def db_4_def db_5_def db_6_def db_7_def db_8_def)

lemma db_versions:
  "map_of (db_tables empty_db) n = None" "db_version db_1 = Some ''m0''" "db_version db_2 = Some ''m0''" "db_version db_3 = Some ''m0''" "db_version db_4 = Some ''m0''" "db_version db_5 = Some ''m1''" "db_version db_6 = Some ''m1''" "db_version db_7 = Some ''m1''" "db_version db_8 = Some ''m2''"
  by (simp_all add: empty_db_def db_1_def db_2_def db_3_def db_4_def db_5_def db_6_def db_7_def db_8_def)

lemma with_1: "upgrade_with \<lparr> mg_revision = ''0001_m0'', mg_parent = None, mg_up = upgrade_0001, mg_down = downgrade_0001 \<rparr> empty_db = Inr db_1"
  by (simp add: step_defs upgrade_0001_def empty_db_def db_1_def column_names_def created_names column_defs)

lemma with_2: "upgrade_with \<lparr> mg_revision = ''0002_artifacts'', mg_parent = Some ''0001_m0'', mg_up = upgrade_0002, mg_down = downgrade_0002 \<rparr> db_1 = Inr db_2"
  by (simp add: step_defs upgrade_0002_def db_1_def db_2_def column_names_def created_names column_defs)

lemma with_3: "upgrade_with \<lparr> mg_revision = ''0003_evidence'', mg_parent = Some ''0002_artifacts'', mg_up = upgrade_0003, mg_down = downgrade_0003 \<rparr> db_2 = Inr db_3"
  by (simp add: step_defs upgrade_0003_def db_2_def db_3_def column_names_def created_names column_defs)

lemma with_4: "upgrade_with \<lparr> mg_revision = ''0004_evidence_sequence'', mg_parent = Some ''0003_evidence'', mg_up = upgrade_0004, mg_down = downgrade_0004 \<rparr> db_3 = Inr db_4"
  by (simp add: step_defs upgrade_0004_def db_3_def db_4_def column_names_def created_names column_defs)

lemma with_5: "upgrade_with \<lparr> mg_revision = ''0005_m1_execution'', mg_parent = Some ''0004_evidence_sequence'', mg_up = upgrade_0005, mg_down = downgrade_0005 \<rparr> db_4 = Inr db_5"
  by (simp add: step_defs upgrade_0005_def db_4_def db_5_def column_names_def created_names column_defs)

lemma with_6: "upgrade_with \<lparr> mg_revision = ''0006_artifact_uri'', mg_parent = Some ''0005_m1_execution'', mg_up = upgrade_0006, mg_down = downgrade_0006 \<rparr> db_5 = Inr db_6"
  by (simp add: step_defs upgrade_0006_def db_5_def db_6_def column_names_def created_names column_defs)

lemma with_7: "upgrade_with \<lparr> mg_revision = ''0007_sandbox_identity'', mg_parent = Some ''0006_artifact_uri'', mg_up = upgrade_0007, mg_down = downgrade_0007 \<rparr> db_6 = Inr db_7"
  by (simp add: step_defs upgrade_0007_def db_6_def db_7_def column_names_def created_names column_defs)

lemma with_8: "upgrade_with \<lparr> mg_revision = ''0008_m2_messages'', mg_parent = Some ''0007_sandbox_identity'', mg_up = upgrade_0008, mg_down = downgrade_0008 \<rparr> db_7 = Inr db_8"
  by (simp add: step_defs upgrade_0008_def db_7_def db_8_def column_names_def created_names column_defs)

lemma down_1: "downgrade_one db_1 = Inr empty_db"
  by (simp add: step_defs downgrade_0001_def empty_db_def db_1_def column_names_def created_names column_defs)

lemma down_2: "downgrade_one db_2 = Inr db_1"
  by (simp add: step_defs downgrade_0002_def db_1_def db_2_def column_names_def created_names column_defs)

lemma down_3: "downgrade_one db_3 = Inr db_2"
  by (simp add: step_defs downgrade_0003_def db_2_def db_3_def column_names_def created_decisions_def column_defs)

lemma down_4: "downgrade_one db_4 = Inr db_3"
  by (simp add: step_defs downgrade_0004_def db_3_def db_4_def column_names_def created_acceptance_evidence_records_def column_defs)

lemma down_5: "downgrade_one db_5 = Inr db_4"
  by (simp add: step_defs downgrade_0005_def db_4_def db_5_def column_names_def created_names column_defs)

lemma down_6: "downgrade_one db_6 = Inr db_5"
  by (simp add: step_defs downgrade_0006_def db_5_def db_6_def column_names_def created_artifacts_def column_defs)

lemma down_7: "downgrade_one db_7 = Inr db_6"
  by (simp add: step_defs downgrade_0007_def db_6_def db_7_def column_names_def created_agent_runs_def column_defs)

lemma down_8: "downgrade_one db_8 = Inr db_7"
  by (simp add: step_defs downgrade_0008_def db_7_def db_8_def column_names_def created_names column_defs)

lemmas withs = with_1 with_2 with_3 with_4 with_5 with_6 with_7 with_8

lemma ups:
  "upgrade_one empty_db = Inr db_1" "upgrade_one db_1 = Inr db_2" "upgrade_one db_2 = Inr db_3" "upgrade_one db_3 = Inr db_4" "upgrade_one db_4 = Inr db_5" "upgrade_one db_5 = Inr db_6" "upgrade_one db_6 = Inr db_7" "upgrade_one db_7 = Inr db_8"
  unfolding upgrade_one_def MIGRATIONS_def by (simp_all add: db_revisions withs)

lemmas downs = down_1 down_2 down_3 down_4 down_5 down_6 down_7 down_8

lemma no_more_steps: "upgrade_one db_8 = Inl CommandError" "downgrade_one empty_db = Inl CommandError"
  by (simp_all add: step_defs db_8_def empty_db_def)

definition REVISIONS :: "database list" where
  "REVISIONS = [empty_db, db_1, db_2, db_3, db_4, db_5, db_6, db_7, db_8]"

lemma history_revision: "history d \<Longrightarrow> d \<in> set REVISIONS"
proof (induction rule: history.induct)
  case (up d e)
  then show ?case by (auto simp: REVISIONS_def ups no_more_steps)
next
  case (down d e)
  then show ?case by (auto simp: REVISIONS_def downs no_more_steps)
qed (simp add: REVISIONS_def)



subsection \<open>The head is the schema of the models\<close>

lemma referenced_types:
  "type_at MODELS ''tasks.task_id'' = String (Some 64)" "type_at MODELS ''agent_runs.run_id'' = String (Some 64)"
  "type_at MODELS ''decisions.decision_id'' = String (Some 64)"
  by (simp_all add: type_at_def MODELS_def model_tasks_def model_schema_meta_def model_tasks_def model_contracts_def model_active_contract_markers_def model_explanations_def model_decisions_def model_gates_def model_plans_def model_active_plan_markers_def model_work_unit_specs_def model_work_unit_executions_def model_planner_sessions_def model_agent_runs_def model_active_execute_run_markers_def model_active_plan_run_markers_def model_workspaces_def model_context_manifests_def model_side_effects_def model_events_def model_inbox_def model_outbox_def model_idempotency_keys_def model_result_snapshots_def model_artifacts_def model_acceptance_evidence_records_def model_agent_profiles_def model_run_inputs_def model_tool_invocations_def model_context_appends_def model_task_messages_def column_defs)

lemmas fit_defs = fits_def same_column_def stored_type_def type_in_def referenced_types same_members_def own_uniques_def own_indexes_def

lemma fits_schema_meta: "fits MODELS db_8 model_schema_meta"
  by (simp add: fit_defs db_8_def model_schema_meta_def created_schema_meta_def column_defs)

lemma fits_tasks: "fits MODELS db_8 model_tasks"
  by (simp add: fit_defs db_8_def model_tasks_def created_tasks_def column_defs)

lemma fits_contracts: "fits MODELS db_8 model_contracts"
  by (simp add: fit_defs db_8_def model_contracts_def created_contracts_def column_defs)

lemma fits_active_contract_markers: "fits MODELS db_8 model_active_contract_markers"
  by (simp add: fit_defs db_8_def model_active_contract_markers_def created_active_contract_markers_def column_defs)

lemma fits_explanations: "fits MODELS db_8 model_explanations"
  by (simp add: fit_defs db_8_def model_explanations_def created_explanations_def column_defs)

lemma fits_decisions: "fits MODELS db_8 model_decisions"
  by (simp add: fit_defs db_8_def model_decisions_def created_decisions_def column_defs)

lemma fits_gates: "fits MODELS db_8 model_gates"
  by (simp add: fit_defs db_8_def model_gates_def created_gates_def column_defs)

lemma fits_plans: "fits MODELS db_8 model_plans"
  by (simp add: fit_defs db_8_def model_plans_def created_plans_def column_defs)

lemma fits_active_plan_markers: "fits MODELS db_8 model_active_plan_markers"
  by (simp add: fit_defs db_8_def model_active_plan_markers_def created_active_plan_markers_def column_defs)

lemma fits_work_unit_specs: "fits MODELS db_8 model_work_unit_specs"
  by (simp add: fit_defs db_8_def model_work_unit_specs_def created_work_unit_specs_def column_defs)

lemma fits_work_unit_executions: "fits MODELS db_8 model_work_unit_executions"
  by (simp add: fit_defs db_8_def model_work_unit_executions_def created_work_unit_executions_def column_defs)

lemma fits_planner_sessions: "fits MODELS db_8 model_planner_sessions"
  by (simp add: fit_defs db_8_def model_planner_sessions_def created_planner_sessions_def column_defs)

lemma fits_agent_runs: "fits MODELS db_8 model_agent_runs"
  by (simp add: fit_defs db_8_def model_agent_runs_def created_agent_runs_def column_defs)

lemma fits_active_execute_run_markers: "fits MODELS db_8 model_active_execute_run_markers"
  by (simp add: fit_defs db_8_def model_active_execute_run_markers_def created_active_execute_run_markers_def column_defs)

lemma fits_active_plan_run_markers: "fits MODELS db_8 model_active_plan_run_markers"
  by (simp add: fit_defs db_8_def model_active_plan_run_markers_def created_active_plan_run_markers_def column_defs)

lemma fits_workspaces: "fits MODELS db_8 model_workspaces"
  by (simp add: fit_defs db_8_def model_workspaces_def created_workspaces_def column_defs)

lemma fits_context_manifests: "fits MODELS db_8 model_context_manifests"
  by (simp add: fit_defs db_8_def model_context_manifests_def created_context_manifests_def column_defs)

lemma fits_side_effects: "fits MODELS db_8 model_side_effects"
  by (simp add: fit_defs db_8_def model_side_effects_def created_side_effects_def column_defs)

lemma fits_events: "fits MODELS db_8 model_events"
  by (simp add: fit_defs db_8_def model_events_def created_events_def column_defs)

lemma fits_inbox: "fits MODELS db_8 model_inbox"
  by (simp add: fit_defs db_8_def model_inbox_def created_inbox_def column_defs)

lemma fits_outbox: "fits MODELS db_8 model_outbox"
  by (simp add: fit_defs db_8_def model_outbox_def created_outbox_def column_defs)

lemma fits_idempotency_keys: "fits MODELS db_8 model_idempotency_keys"
  by (simp add: fit_defs db_8_def model_idempotency_keys_def created_idempotency_keys_def column_defs)

lemma fits_result_snapshots: "fits MODELS db_8 model_result_snapshots"
  by (simp add: fit_defs db_8_def model_result_snapshots_def created_result_snapshots_def column_defs)

lemma fits_artifacts: "fits MODELS db_8 model_artifacts"
  by (simp add: fit_defs db_8_def model_artifacts_def created_artifacts_def column_defs)

lemma fits_acceptance_evidence_records: "fits MODELS db_8 model_acceptance_evidence_records"
  by (simp add: fit_defs db_8_def model_acceptance_evidence_records_def created_acceptance_evidence_records_def column_defs)

lemma fits_agent_profiles: "fits MODELS db_8 model_agent_profiles"
  by (simp add: fit_defs db_8_def model_agent_profiles_def created_agent_profiles_def column_defs)

lemma fits_run_inputs: "fits MODELS db_8 model_run_inputs"
  by (simp add: fit_defs db_8_def model_run_inputs_def created_run_inputs_def column_defs)

lemma fits_tool_invocations: "fits MODELS db_8 model_tool_invocations"
  by (simp add: fit_defs db_8_def model_tool_invocations_def created_tool_invocations_def column_defs)

lemma fits_context_appends: "fits MODELS db_8 model_context_appends"
  by (simp add: fit_defs db_8_def model_context_appends_def created_context_appends_def column_defs)

lemma fits_task_messages: "fits MODELS db_8 model_task_messages"
  by (simp add: fit_defs db_8_def model_task_messages_def created_task_messages_def column_defs)

lemma all_fit: "list_all (fits MODELS db_8) [model_schema_meta,
      model_tasks,
      model_contracts,
      model_active_contract_markers,
      model_explanations,
      model_decisions,
      model_gates,
      model_plans,
      model_active_plan_markers,
      model_work_unit_specs,
      model_work_unit_executions,
      model_planner_sessions,
      model_agent_runs,
      model_active_execute_run_markers,
      model_active_plan_run_markers,
      model_workspaces,
      model_context_manifests,
      model_side_effects,
      model_events,
      model_inbox,
      model_outbox,
      model_idempotency_keys,
      model_result_snapshots,
      model_artifacts,
      model_acceptance_evidence_records,
      model_agent_profiles,
      model_run_inputs,
      model_tool_invocations,
      model_context_appends,
      model_task_messages]"
  by (simp add: fits_schema_meta fits_tasks fits_contracts fits_active_contract_markers fits_explanations fits_decisions
    fits_gates fits_plans fits_active_plan_markers fits_work_unit_specs fits_work_unit_executions fits_planner_sessions
    fits_agent_runs fits_active_execute_run_markers fits_active_plan_run_markers fits_workspaces fits_context_manifests fits_side_effects
    fits_events fits_inbox fits_outbox fits_idempotency_keys fits_result_snapshots fits_artifacts
    fits_acceptance_evidence_records fits_agent_profiles fits_run_inputs fits_tool_invocations fits_context_appends fits_task_messages)

lemma head_fits: "is_schema_of MODELS db_8"
  unfolding is_schema_of_def
proof
  show "length (db_tables db_8) = length MODELS" by (simp add: db_8_def MODELS_def)
  show "list_all (fits MODELS db_8) MODELS" using all_fit unfolding MODELS_def [symmetric] .
qed

lemma upgrade_head_reaches: "d \<in> set REVISIONS \<Longrightarrow> upgrade_head d = Inr db_8"
  unfolding REVISIONS_def upgrade_head_def pending_def known_revision_def MIGRATIONS_def
  by (auto simp: db_revisions withs)

lemma revision_accepted: "d \<in> set REVISIONS \<Longrightarrow> inspect_existing_schema d = Inr ()"
  unfolding REVISIONS_def inspect_existing_schema_def known_revision_def MIGRATIONS_def KNOWN_SCHEMA_VERSIONS_def SCHEMA_VERSION_def has_table_def
  by (auto simp: db_revisions db_versions)

lemma head_version: "has_table ''schema_meta'' db_8" "db_version db_8 = Some ''m2''"
  by (simp_all add: has_table_def db_8_def)

text \<open>
  C39. Every database of the past starts. Whatever steps up and down Alembic took since the database was empty, the start-up accepts it, migrates it,
  and ends with a schema that has, table by table, the columns, keys, references, unique constraints and indexes the models
  declare, and with the version this code requires.
\<close>

theorem startup_migrates:
  assumes "history d"
  shows "\<exists>e. open_database True d = Inr e \<and> is_schema_of MODELS e \<and> db_version e = Some SCHEMA_VERSION"
proof -
  have "open_database True d = Inr db_8"
    using upgrade_head_reaches [OF history_revision [OF assms]] revision_accepted [OF history_revision [OF assms]] head_version
    by (simp add: open_database_def run_migrations_def ensure_schema_version_def SCHEMA_VERSION_def)
  then show ?thesis using head_fits head_version by (simp add: SCHEMA_VERSION_def)
qed

theorem startup_migrates_witness: "\<exists>e. open_database True db_5 = Inr e \<and> is_schema_of MODELS e"
proof -
  have "history db_1" by (rule history.up [OF history.fresh]) (rule ups)
  then have "history db_2" by (rule history.up) (rule ups)
  then have "history db_3" by (rule history.up) (rule ups)
  then have "history db_4" by (rule history.up) (rule ups)
  then have "history db_5" by (rule history.up) (rule ups)
  from startup_migrates [OF this] show ?thesis by blast
qed

text \<open>What is not recognised is refused before anything is touched; what starts has the version the code requires.\<close>

lemma unknown_schema_refused:
  "has_table ''schema_meta'' d \<Longrightarrow> db_version d \<notin> Some ` set KNOWN_SCHEMA_VERSIONS \<Longrightarrow> open_database True d = Inl SchemaStartupError"
  "db_revision d = Some r \<Longrightarrow> \<not> known_revision r \<Longrightarrow> open_database True d = Inl SchemaStartupError"
  by (auto simp: open_database_def run_migrations_def inspect_existing_schema_def split: option.splits)

lemma started_version: "open_database b d = Inr e \<Longrightarrow> db_version e = Some SCHEMA_VERSION"
  by (auto simp: open_database_def ensure_schema_version_def split: sum.splits if_splits)

text \<open>
  A database with a known version but without a stored revision (its tables were made in another way) passes the inspection, and the
  migration from the start fails at the first table.
\<close>

lemma unversioned_schema_fails:
  "inspect_existing_schema (db_8\<lparr> db_revision := None \<rparr>) = Inr ()" "open_database True (db_8\<lparr> db_revision := None \<rparr>) = Inl OperationalError"
proof -
  show i: "inspect_existing_schema (db_8\<lparr> db_revision := None \<rparr>) = Inr ()"
    using head_version by (simp add: inspect_existing_schema_def has_table_def KNOWN_SCHEMA_VERSIONS_def SCHEMA_VERSION_def)
  have "upgrade_head (db_8\<lparr> db_revision := None \<rparr>) = Inl OperationalError" using head_version
    by (simp add: upgrade_head_def MIGRATIONS_def upgrade_with_def upgrade_0001_def has_table_def)
  then show "open_database True (db_8\<lparr> db_revision := None \<rparr>) = Inl OperationalError" using i
    by (simp add: open_database_def run_migrations_def)
qed

end
