(* ===== verification/Assessment.thy ===== *)
theory Assessment
  imports Topology
begin

text \<open>
  The judgement of the acceptance runners: \<open>_assess_complex_success\<close> and \<open>_g4_invariants\<close> of
  \<open>interfaces/m2_runner.py\<close>, and the part of \<open>run_once\<close> of \<open>interfaces/m1_runner.py\<close> that decides whether a
  Run counts. Both read the database through the service and never write it.
\<close>

subsection \<open>The judgement of a complex Task\<close>

definition passed :: "json \<Rightarrow> bool" where
  "passed wu \<longleftrightarrow> jget wu ''status'' = JStr ''DONE'' \<and> jget wu ''selected_verdict'' = JStr ''PASS''"

definition json_type :: "json \<Rightarrow> string" where
  "json_type j = upper_text (jor (jget j ''work_type'') (JStr []))"

definition set_aside :: "dict \<Rightarrow> string list" where
  "set_aside record = (let w = py_str (jor (dget record ''injected_fail_work_unit'') (JStr [])) in if w = [] then [] else [w])"

definition unit_id :: "json \<Rightarrow> string" where
  "unit_id wu = py_str (jget wu ''work_unit_id'')"

definition listed :: "json \<Rightarrow> string \<Rightarrow> json list" where
  "listed d k = (case py_list (jor (jget d k) (JList [])) of None \<Rightarrow> [] | Some xs \<Rightarrow> xs)"

text \<open>The units that count: those of the active plan, or, without a plan, those not cancelled; never the one set aside.\<close>

definition scoped_units :: "json \<Rightarrow> json list \<Rightarrow> string list \<Rightarrow> json list" where
  "scoped_units plan units aside =
    (let wids = map unit_id (listed plan ''nodes'') in
     if wids \<noteq> [] then
       concat (map (\<lambda>wid. case find (\<lambda>u. unit_id u = wid) units of
           None \<Rightarrow> [] | Some u \<Rightarrow> if wid \<in> set aside then [] else [u]) wids)
     else filter (\<lambda>u. jget u ''status'' \<noteq> JStr ''CANCELLED'' \<and> unit_id u \<notin> set aside) units)"

definition unconfirmed_run :: "json \<Rightarrow> bool" where
  "unconfirmed_run r \<longleftrightarrow> truthy (jget r ''sandbox_exit_unconfirmed'')
     \<or> jget r ''status'' \<in> {JStr ''RUNNING'', JStr ''CREATED''} \<and> jget r ''assignment_kind'' \<noteq> JStr ''PLAN''"

definition needs_repair :: "dict \<Rightarrow> bool" where
  "needs_repair record \<longleftrightarrow> truthy (dget record ''inject_required'') \<and> truthy (dget record ''inject_triggered'')"

definition repair_done :: "dict \<Rightarrow> json list \<Rightarrow> bool" where
  "repair_done record units \<longleftrightarrow> \<not> needs_repair record
     \<or> truthy (jget (jor (dget record ''repair'') (JObj [])) ''ok'') \<and> list_ex (\<lambda>u. json_type u = ''VERIFY'' \<and> passed u) units"

definition needs_verify :: "dict \<Rightarrow> json list \<Rightarrow> bool" where
  "needs_verify record scoped \<longleftrightarrow>
     (list_ex (\<lambda>n. json_type n = ''VERIFY'') (listed (JObj record) ''task_topology_nodes'')
      \<or> list_ex (\<lambda>u. json_type u = ''VERIFY'') scoped \<or> truthy (dget record ''verify_revision''))
     \<and> \<not> needs_repair record"

definition pinned_hashes :: "json \<Rightarrow> string list" where
  "pinned_hashes plan = filter (\<lambda>h. h \<noteq> ''None'' \<and> h \<noteq> [])
     (map (\<lambda>e. py_str (jget e ''artifact_hash''))
       (filter (\<lambda>e. upper_text (jor (jget e ''predicate'') (JStr [])) = ''VERDICT_PASS'') (listed plan ''edges'')))"

definition integrate_backed :: "string \<Rightarrow> json list \<Rightarrow> bool" where
  "integrate_backed h arts \<longleftrightarrow> h \<noteq> [] \<and> (arts = []
     \<or> list_ex (\<lambda>a. jget a ''artifact_hash'' = JStr h \<and> truthy (jget a ''artifact_uri'')) arts)"

definition binding_ok :: "json \<Rightarrow> dict \<Rightarrow> json list \<Rightarrow> json list \<Rightarrow> bool" where
  "binding_ok plan record scoped arts \<longleftrightarrow>
    (if pinned_hashes plan \<noteq> [] then
       list_ex (\<lambda>h. h \<in> set (map py_str (listed (JObj record) ''publish_hashes''))) (pinned_hashes plan)
     else (case find (\<lambda>u. json_type u = ''INTEGRATE'') scoped of
        None \<Rightarrow> False
      | Some i \<Rightarrow> passed i \<and> integrate_backed (py_str (jor (jget i ''verified_artifact_hash'') (JStr []))) arts
          \<and> list_ex (\<lambda>u. json_type u = ''VERIFY'' \<and> passed u) scoped))"

record judgement =
  jd_plan :: json
  jd_units :: "json list"
  jd_artifacts :: "json list"
  jd_unbacked :: "dict list"
  jd_checks :: "(json \<times> dict) list"
  jd_runs :: "json list"

definition only_when :: "bool \<Rightarrow> string \<Rightarrow> string list" where
  "only_when b failure_name = (if b then [failure_name] else [])"

definition unverified_hashes :: "judgement \<Rightarrow> json list" where
  "unverified_hashes J = map fst (filter (\<lambda>(h, check). \<not> truthy (dget check ''verified'')) (jd_checks J))"

definition scope_of :: "dict \<Rightarrow> judgement \<Rightarrow> json list" where
  "scope_of record J = scoped_units (jd_plan J) (jd_units J) (set_aside record)"

definition failures_of :: "dict \<Rightarrow> bool \<Rightarrow> judgement \<Rightarrow> string list" where
  "failures_of record require_artifacts J =
    (let scoped = scope_of record J;
         verify_pass = filter (\<lambda>u. json_type u = ''VERIFY'' \<and> passed u) scoped
     in only_when (list_ex (\<lambda>u. \<not> passed u) scoped) ''incomplete_work_units''
      @ only_when (require_artifacts \<and> jd_artifacts J = []) ''no_artifacts''
      @ only_when (jd_unbacked J \<noteq> []) ''unbacked_artifacts''
      @ only_when (unverified_hashes J \<noteq> []) ''unverified_artifact_content''
      @ only_when (list_ex unconfirmed_run (jd_runs J)) ''unconfirmed_runs''
      @ only_when (filter passed scoped = []) ''no_completed_work''
      @ only_when (needs_verify record scoped \<and> verify_pass = []) ''no_verify_pass''
      @ only_when (needs_repair record \<and> \<not> repair_done record (jd_units J)) ''repair_not_executed''
      @ only_when (\<not> binding_ok (jd_plan J) record scoped (jd_artifacts J)) ''artifact_binding_mismatch'')"

definition unit_brief :: "json \<Rightarrow> json" where
  "unit_brief u = JObj [(''work_unit_id'', jget u ''work_unit_id''), (''work_type'', jget u ''work_type''),
     (''status'', jget u ''status''), (''verdict'', jget u ''selected_verdict'')]"

definition sorted_set :: "string list \<Rightarrow> json" where
  "sorted_set xs = JList (map JStr (sorted_list_of_set (set xs)))"

definition binding_evidence :: "dict \<Rightarrow> judgement \<Rightarrow> dict" where
  "binding_evidence record J =
    (let scoped = scope_of record J; pins = pinned_hashes (jd_plan J) in
     (''pinned'', sorted_set pins) #
     (if pins \<noteq> [] then [(''delivered'', sorted_set (map py_str (listed (JObj record) ''publish_hashes'')))]
      else (let i = (case find (\<lambda>u. json_type u = ''INTEGRATE'') scoped of None \<Rightarrow> JObj [] | Some u \<Rightarrow> u);
                h = py_str (jor (jget i ''verified_artifact_hash'') (JStr []));
                verify = filter (\<lambda>u. json_type u = ''VERIFY'') scoped
        in [(''integrate_work_unit'', jget i ''work_unit_id''),
          (''integrate_verified_artifact_hash'', (if h = [] then JNull else JStr h)),
          (''verify_work_units'', JList (map (\<lambda>u. jget u ''work_unit_id'') verify)),
          (''verify_pass_work_units'', JList (map (\<lambda>u. jget u ''work_unit_id'') (filter passed verify))),
          (''integrate_content_backed'', JBool (integrate_backed h (jd_artifacts J)))])))"

definition judged_record :: "dict \<Rightarrow> bool \<Rightarrow> judgement \<Rightarrow> dict" where
  "judged_record record require_artifacts J =
    (let scoped = scope_of record J;
         failed = failures_of record require_artifacts J;
         ids = (\<lambda>us. JList (map (\<lambda>u. jget u ''work_unit_id'') us))
     in foldl (\<lambda>d (k, v). dset k v d) record
       [(''ok'', JBool (failed = [])), (''failures'', JList (map JStr failed)),
        (''terminal'', JStr (if failed = [] then ''COMPLETED'' else ''INCOMPLETE'')),
        (''plan_version'', jor (jget (jd_plan J) ''plan_version'') (dget record ''plan_version'')),
        (''done_work_units'', ids (filter passed scoped)),
        (''missing_work_units'', JList (map unit_brief (filter (\<lambda>u. \<not> passed u) scoped))),
        (''verify_pass_work_units'', ids (filter (\<lambda>u. json_type u = ''VERIFY'' \<and> passed u) scoped)),
        (''artifact_count'', JInt (int (length (jd_artifacts J)))),
        (''unbacked_artifacts'', JList (map JObj (jd_unbacked J))),
        (''unverified_artifact_content'', JList (unverified_hashes J)),
        (''artifact_binding_ok'', JBool (binding_ok (jd_plan J) record scoped (jd_artifacts J))),
        (''artifact_binding'', JObj (binding_evidence record J)),
        (''unconfirmed_runs'', JList (map (\<lambda>r. jget r ''run_id'') (filter unconfirmed_run (jd_runs J)))),
        (''planned_nodes'', JInt (int (length scoped)))])"

definition content_check :: "env \<Rightarrow> (exn \<Rightarrow> string) \<Rightarrow> (int \<Rightarrow> string) \<Rightarrow> string \<Rightarrow> json \<Rightarrow> (json \<times> dict) tx" where
  "content_check E describe isoformat task_id a =
    andthen (verify_artifact_content E describe isoformat task_id (py_str (jget a ''artifact_hash''))) (\<lambda>check.
    ret (jget a ''artifact_hash'', check))"

definition assess_complex_success :: "env \<Rightarrow> (exn \<Rightarrow> string) \<Rightarrow> (int \<Rightarrow> string) \<Rightarrow> string \<Rightarrow> dict \<Rightarrow> bool \<Rightarrow> dict tx" where
  "assess_complex_success E describe isoformat task_id record require_artifacts =
    andthen (get_active_plan task_id) (\<lambda>plan.
    andthen (list_work_units task_id) (\<lambda>units.
    andthen (list_task_artifacts task_id) (\<lambda>arts.
    andthen (list_unbacked_artifacts task_id) (\<lambda>unbacked.
    andthen (collect (filter (\<lambda>a. truthy (jget a ''artifact_uri'')) arts) (content_check E describe isoformat task_id)) (\<lambda>checks.
    andthen (list_runs task_id) (\<lambda>found.
    ret (judged_record record require_artifacts \<lparr> jd_plan = jor plan (JObj []), jd_units = units, jd_artifacts = arts,
       jd_unbacked = unbacked, jd_checks = checks, jd_runs = found \<rparr>)))))))"

subsection \<open>Success is earned\<close>

lemma read_back:
  assumes "run_tx m s = (Inr x, t)" "clean s" "keeps (=) m"
  shows "t = s \<and> m s = (Inr x, s)"
proof -
  obtain s1 where "m s = (Inr x, s1)" "t = flush_all s1" using run_tx_Inr [OF assms(1)] by blast
  moreover have "s1 = s" using readonlyD [OF assms(3)] calculation(1) .
  ultimately show ?thesis using flush_all_clean [OF assms(2)] by simp
qed

lemma plan_read:
  assumes "get_active_plan task_id s = (Inr p, t)" "clean s"
  shows "t = s"
  by (rule conjunct1 [OF read_back [OF assms(1) [unfolded get_active_plan_def] assms(2)]]) (intro readonly.keeps_struct frame_intro)

lemma units_read:
  assumes "list_work_units task_id s = (Inr us, t)" "clean s"
  shows "t = s \<and> us = map (unit_summary (filter (\<lambda>w. wsp_task_id w = task_id) (t_rows (wu_specs s))))
    (filter (\<lambda>w. wu_task_id w = task_id) (t_rows (wus s)))"
proof -
  note rd = read_back [OF assms(1) [unfolded list_work_units_def] assms(2)]
  have "t = s" and "(andthen (select_wu (\<lambda>w. wu_task_id w = task_id)) (\<lambda>rows.
    andthen (select_wu_spec (\<lambda>s. wsp_task_id s = task_id)) (\<lambda>specs.
    ret (map (unit_summary specs) rows)))) s = (Inr us, s)"
    by (rule conjunct1 [OF rd] conjunct2 [OF rd]; intro readonly.keeps_struct frame_intro)+
  then show ?thesis using assms(2) by (auto simp: andthen_def clean_def t_select_clean)
qed

lemma artifacts_read:
  assumes "list_task_artifacts task_id s = (Inr xs, t)" "clean s"
  shows "t = s \<and> xs = map artifact_summary (filter (\<lambda>a. af_task_id a = task_id) (t_rows (artifacts s)))"
proof -
  note rd = read_back [OF assms(1) [unfolded list_task_artifacts_def] assms(2)]
  have "t = s" and "(andthen (select_artifact (\<lambda>a. af_task_id a = task_id)) (\<lambda>rows.
    ret (map artifact_summary rows))) s = (Inr xs, s)"
    by (rule conjunct1 [OF rd] conjunct2 [OF rd]; intro readonly.keeps_struct frame_intro)+
  then show ?thesis using assms(2) by (auto simp: andthen_def clean_def t_select_clean)
qed

lemma unbacked_read:
  assumes "list_unbacked_artifacts task_id s = (Inr xs, t)" "clean s"
  shows "t = s \<and> xs = filter (\<lambda>row. \<not> truthy (dget row ''uri''))
    (map unbacked_summary (filter (\<lambda>a. af_task_id a = task_id) (t_rows (artifacts s))))"
proof -
  let ?m = "(andthen (select_artifact (\<lambda>a. af_task_id a = task_id)) (\<lambda>found.
    ret (map unbacked_summary found)))"
  from assms(1) obtain rows where rows: "run_tx ?m s = (Inr rows, t)" and xs: "xs = filter (\<lambda>row. \<not> truthy (dget row ''uri'')) rows"
    by (auto simp: list_unbacked_artifacts_def andthen_Inr_iff)
  have "t = s \<and> ?m s = (Inr rows, s)"
    by (rule read_back [OF rows assms(2)]) (intro readonly.keeps_struct frame_intro)
  then show ?thesis using assms(2) xs by (auto simp: andthen_def clean_def t_select_clean)
qed

lemma runs_read:
  assumes "list_runs task_id s = (Inr xs, t)" "clean s"
  shows "t = s \<and> xs = map run_summary (filter (\<lambda>r. ar_task_id r = task_id) (t_rows (runs s)))"
proof -
  note rd = read_back [OF assms(1) [unfolded list_runs_def] assms(2)]
  have "t = s" and "(andthen (select_run (\<lambda>r. ar_task_id r = task_id)) (\<lambda>rows.
    ret (map run_summary rows))) s = (Inr xs, s)"
    by (rule conjunct1 [OF rd] conjunct2 [OF rd]; intro readonly.keeps_struct frame_intro)+
  then show ?thesis using assms(2) by (auto simp: andthen_def clean_def t_select_clean)
qed

lemma readonly_store_get [frame_intro]: "keeps (=) (artifact_store_get E uri)"
  unfolding artifact_store_get_def by (intro readonly.keeps_struct frame_intro)

lemma verify_read:
  assumes "verify_artifact_content E describe isoformat task_id h s = (Inr r, t)" "clean s"
  shows "t = s \<and> (truthy (dget r ''verified'') \<longrightarrow> dget r ''verified'' = JBool True)"
proof -
  from assms(1) obtain meta u where meta: "read_artifact isoformat task_id h s = (Inr meta, u)"
    and rest: "(if \<not> truthy (dget meta ''uri'') then
        ret [(''verified'', JBool False), (''reason'', JStr ''no_uri''), (''artifact_hash'', JStr h)]
      else handle (andthen (artifact_store_get E (py_str (dget meta ''uri''))) (\<lambda>content.
        ret [(''verified'', JBool (sha E content = h)), (''artifact_hash'', JStr h),
            (''actual_hash'', JStr (sha E content)), (''size'', JInt (int (length content)))])) (\<lambda>e. ret [(''verified'', JBool False), (''reason'', JStr (''unreadable:'' @ describe e)),
            (''artifact_hash'', JStr h)])) u = (Inr r, t)"
    unfolding verify_artifact_content_def by (auto simp only: andthen_Inr_iff)
  have "u = s"
    by (rule conjunct1 [OF read_back [OF meta [unfolded read_artifact_def artifact_row_def] assms(2)]]) (intro readonly.keeps_struct frame_intro)
  moreover have "keeps (=) (if \<not> truthy (dget meta ''uri'') then
        ret [(''verified'', JBool False), (''reason'', JStr ''no_uri''), (''artifact_hash'', JStr h)]
      else handle (andthen (artifact_store_get E (py_str (dget meta ''uri''))) (\<lambda>content.
        ret [(''verified'', JBool (sha E content = h)), (''artifact_hash'', JStr h),
            (''actual_hash'', JStr (sha E content)), (''size'', JInt (int (length content)))])) (\<lambda>e. ret [(''verified'', JBool False), (''reason'', JStr (''unreadable:'' @ describe e)),
            (''artifact_hash'', JStr h)]))"
    by (intro readonly.keeps_struct frame_intro)
  note readonlyD [OF this rest]
  moreover have "truthy (dget r ''verified'') \<Longrightarrow> dget r ''verified'' = JBool True"
    using rest by (auto simp: handle_def andthen_def dget_def split: if_splits prod.splits sum.splits)
  ultimately show ?thesis by blast
qed

lemma checks_read:
  assumes "clean s"
  shows "collect xs (content_check E describe isoformat task_id) s = (Inr cs, t) \<Longrightarrow>
    t = s \<and> list_all2 (\<lambda>a c. fst c = jget a ''artifact_hash''
      \<and> verify_artifact_content E describe isoformat task_id (py_str (jget a ''artifact_hash'')) s = (Inr (snd c), s)) xs cs"
proof (induction xs arbitrary: cs)
  case (Cons a xs)
  then obtain p cs' s1 where p: "content_check E describe isoformat task_id a s = (Inr p, s1)"
    and rest: "collect xs (content_check E describe isoformat task_id) s1 = (Inr cs', t)" and cs: "cs = p # cs'"
    by (auto simp: andthen_Inr_iff)
  from p obtain c where one: "verify_artifact_content E describe isoformat task_id (py_str (jget a ''artifact_hash'')) s = (Inr c, s1)"
    and c: "p = (jget a ''artifact_hash'', c)" by (auto simp: content_check_def andthen_Inr_iff)
  have "s1 = s" using verify_read [OF one assms] by blast
  with Cons.IH [of cs'] one rest cs c show ?case by simp
qed simp

lemma only_when_Nil [simp]: "only_when b x = [] \<longleftrightarrow> \<not> b"
  by (simp add: only_when_def)

lemma dget_foldl: "list_all (\<lambda>kv. fst kv \<noteq> k) kvs \<Longrightarrow> dget (foldl (\<lambda>d (k, v). dset k v d) d kvs) k = dget d k"
  by (induction kvs arbitrary: d) (auto simp: dget_dset)

lemma dget_first: "list_all (\<lambda>kv. fst kv \<noteq> k) kvs \<Longrightarrow> dget (foldl (\<lambda>d (k, v). dset k v d) d ((k, v) # kvs)) k = v"
  by (simp add: dget_foldl dget_dset)

lemma judged_ok: "dget (judged_record record require_artifacts J) ''ok'' = JBool (failures_of record require_artifacts J = [])"
  unfolding judged_record_def Let_def by (rule dget_first, unfold list.pred_inject fst_conv) simp

lemma find_only: "x \<in> set xs \<Longrightarrow> P x \<Longrightarrow> (\<And>y. y \<in> set xs \<Longrightarrow> P y \<Longrightarrow> y = x) \<Longrightarrow> find P xs = Some x"
proof (induction xs)
  case (Cons a xs)
  show ?case
  proof (cases "P a")
    case True
    then have "a = x" by (intro Cons.prems(3)) simp_all
    with True show ?thesis by simp
  next
    case False
    then have "x \<in> set xs" using Cons.prems(1,2) by auto
    then have "find P xs = Some x" using Cons.prems(2,3) by (intro Cons.IH) simp_all
    with False show ?thesis by simp
  qed
qed simp

lemma clean_keys:
  assumes "clean s" "constraints_ok s"
  shows "distinct (map wu_work_unit_id (t_rows (wus s)))"
proof -
  have "list_all (\<lambda>x. \<not> dropped x) (wus s)" using assms(1) by (simp add: clean_def t_clean_kept)
  then have "map wu_work_unit_id (t_rows (wus s)) = t_keys wu_work_unit_id (wus s)"
    by (auto simp: t_keys_def t_rows_def list_all_iff intro!: arg_cong [where f = "map _"])
  then show ?thesis using assms(2) by (simp add: constraints_ok_def)
qed

lemma passed_unit: "passed (unit_summary specs wu) \<longleftrightarrow> wu_status wu = W_DONE \<and> wu_selected_verdict wu = Some ''PASS''"
  by (cases "wu_status wu") (auto simp: passed_def unit_summary_def jget_def jopt_def split: option.splits)

lemma unit_id_summary: "unit_id (unit_summary specs wu) = wu_work_unit_id wu"
  by (simp add: unit_id_def unit_summary_def jget_def)

text \<open>A unit of the plan that is not set aside counts.\<close>

lemma unit_in_scope:
  assumes "distinct (map wu_work_unit_id rows)" "wu \<in> set rows"
    and "wu_work_unit_id wu \<in> set (map unit_id (listed plan ''nodes''))" "wu_work_unit_id wu \<notin> set aside"
  shows "unit_summary specs wu \<in> set (scoped_units plan (map (unit_summary specs) rows) aside)"
proof -
  have "find (\<lambda>u. unit_id u = wu_work_unit_id wu) (map (unit_summary specs) rows) = Some (unit_summary specs wu)"
    using assms(1,2) by (intro find_only) (auto simp: unit_id_summary distinct_map inj_on_def)
  then show ?thesis using assms(3,4) by (force simp: scoped_units_def Let_def)
qed

lemma scope_is_listed: "u \<in> set (scoped_units plan units aside) \<Longrightarrow> u \<in> set units"
  by (auto simp: scoped_units_def Let_def dest: find_sat find_sat [OF sym] split: if_splits option.splits)

lemma confirmed_run:
  "unconfirmed_run (run_summary r) \<longleftrightarrow> ar_sandbox_exit_unconfirmed r
    \<or> ar_status r \<in> {R_CREATED, R_RUNNING} \<and> ar_assignment_kind r \<noteq> PLAN"
  by (cases "ar_status r"; cases "ar_assignment_kind r") (simp_all add: unconfirmed_run_def run_summary_def jget_def)

lemma no_failures:
  assumes "failures_of record require_artifacts J = []"
  shows "\<not> list_ex (\<lambda>u. \<not> passed u) (scope_of record J)" "jd_unbacked J = []" "unverified_hashes J = []"
    "\<not> list_ex unconfirmed_run (jd_runs J)" "filter passed (scope_of record J) \<noteq> []"
    "needs_verify record (scope_of record J) \<Longrightarrow> filter (\<lambda>u. json_type u = ''VERIFY'' \<and> passed u) (scope_of record J) \<noteq> []"
    "needs_repair record \<Longrightarrow> repair_done record (jd_units J)"
  using assms unfolding failures_of_def Let_def append_is_Nil_conv only_when_Nil by blast+

lemma scope_passed:
  assumes "\<not> list_ex (\<lambda>u. \<not> passed u) (scoped_units plan (map (unit_summary specs) rows) aside)"
    and "distinct (map wu_work_unit_id rows)" "wu \<in> set rows"
    and "wu_work_unit_id wu \<in> set (map unit_id (listed plan ''nodes''))" "wu_work_unit_id wu \<notin> set aside"
  shows "wu_status wu = W_DONE \<and> wu_selected_verdict wu = Some ''PASS''"
  using unit_in_scope [OF assms(2-5), of specs] assms(1) passed_unit unfolding list_ex_iff by blast

lemma some_passed:
  assumes "filter passed (scoped_units plan (map (unit_summary specs) rows) aside) \<noteq> []"
  shows "\<exists>wu \<in> set rows. wu_status wu = W_DONE \<and> wu_selected_verdict wu = Some ''PASS''"
proof -
  obtain u where u: "u \<in> set (scoped_units plan (map (unit_summary specs) rows) aside)" "passed u"
    using assms by (auto simp: filter_empty_conv)
  then obtain wu where "wu \<in> set rows" "u = unit_summary specs wu" using scope_is_listed [OF u(1)] by auto
  then show ?thesis using u(2) passed_unit by blast
qed

text \<open>Where the topology has a VERIFY node, some VERIFY unit has passed, in scope or, after a repair, anywhere.\<close>

lemma verify_passed:
  assumes "failures_of record require_artifacts J = []" "list_ex (\<lambda>n. json_type n = ''VERIFY'') (listed (JObj record) ''task_topology_nodes'')"
  shows "\<exists>u \<in> set (jd_units J). json_type u = ''VERIFY'' \<and> passed u"
proof (cases "needs_repair record")
  case True
  with no_failures(7) [OF assms(1)] show ?thesis by (auto simp: repair_done_def list_ex_iff)
next
  case False
  then have "needs_verify record (scope_of record J)" using assms(2) by (simp add: needs_verify_def)
  from no_failures(6) [OF assms(1) this] show ?thesis
    by (auto simp: filter_empty_conv scope_of_def dest: scope_is_listed)
qed

lemma type_of_unit: "json_type (unit_summary specs wu) = ''VERIFY'' \<Longrightarrow> upper_text (unit_type specs wu) = ''VERIFY''"
  by (auto simp: json_type_def unit_summary_def jget_def jor_def upper_text_def split: if_splits)

lemma uri_of: "jget (artifact_summary a) ''artifact_uri'' = jopt (af_artifact_uri a)"
    "jget (artifact_summary a) ''artifact_hash'' = JStr (af_artifact_hash a)"
    "dget (unbacked_summary a) ''uri'' = jopt (af_artifact_uri a)"
  by (simp_all add: artifact_summary_def unbacked_summary_def jget_def dget_def)

lemma list_all2_in: "list_all2 P xs ys \<Longrightarrow> x \<in> set xs \<Longrightarrow> \<exists>y \<in> set ys. P x y"
  by (induction xs ys rule: list_all2_induct) auto

text \<open>If no artifact is without an address and every check succeeded then every artifact has its bytes.\<close>

lemma artifacts_have_bytes:
  assumes clean: "clean s" and unbacked: "filter (\<lambda>row. \<not> truthy (dget row ''uri'')) (map unbacked_summary rows) = []"
    and checks: "list_all2 (\<lambda>a c. fst c = jget a ''artifact_hash''
      \<and> verify_artifact_content E describe isoformat task_id (py_str (jget a ''artifact_hash'')) s = (Inr (snd c), s))
      (filter (\<lambda>a. truthy (jget a ''artifact_uri'')) (map artifact_summary rows)) cs"
    and verified: "filter (\<lambda>(h, check). \<not> truthy (dget check ''verified'')) cs = []" and a: "a \<in> set rows"
  shows "\<exists>row uri content. t_get artifact_key (task_id, af_artifact_hash a) (artifacts s) = Some row \<and> af_artifact_uri row = Some uri
        \<and> fst (artifact_store_get E uri s) = Inr content \<and> sha E content = af_artifact_hash a"
proof -
  have "truthy (jget (artifact_summary a) ''artifact_uri'')" using unbacked a by (auto simp: filter_empty_conv uri_of)
  then have "artifact_summary a \<in> set (filter (\<lambda>a. truthy (jget a ''artifact_uri'')) (map artifact_summary rows))" using a by simp
  then obtain c where c: "c \<in> set cs"
    "verify_artifact_content E describe isoformat task_id (py_str (jget (artifact_summary a) ''artifact_hash'')) s = (Inr (snd c), s)"
    using list_all2_in [OF checks] by blast
  then have run: "verify_artifact_content E describe isoformat task_id (af_artifact_hash a) s = (Inr (snd c), s)" by (simp add: uri_of)
  have "truthy (dget (snd c) ''verified'')" using verified c(1) by (cases c) (auto simp: filter_empty_conv)
  then have "dget (snd c) ''verified'' = JBool True" using verify_read [OF run clean] by blast
  then show ?thesis using verified_iff_bytes_match [OF run] by blast
qed

text \<open>
  C36. Success is earned. If the runner judges a complex Task a success, then the database is unchanged by the judgement
  and shows: every Work Unit of the active plan, except one deliberately failed, is DONE with a PASS; some unit is;
  if the topology has a VERIFY node then a VERIFY unit is DONE with a PASS; every artifact of the Task has an address, and the bytes stored there hash to its digest; no container is
  unconfirmed, and no Run but a planner's is still open.
\<close>

theorem success_is_earned:
  assumes clean: "clean s" "constraints_ok s"
    and run: "assess_complex_success E describe isoformat task_id record require_artifacts s = (Inr r, t)"
    and ok: "dget r ''ok'' = JBool True"
  shows "t = s
    \<and> (\<exists>plan. get_active_plan task_id s = (Inr plan, s) \<and> (\<forall>wu \<in> set (t_rows (wus s)).
        wu_task_id wu = task_id \<and> wu_work_unit_id wu \<in> set (map unit_id (listed plan ''nodes'')) \<and> wu_work_unit_id wu \<notin> set (set_aside record)
        \<longrightarrow> wu_status wu = W_DONE \<and> wu_selected_verdict wu = Some ''PASS''))
    \<and> (\<exists>wu \<in> set (t_rows (wus s)). wu_task_id wu = task_id \<and> wu_status wu = W_DONE \<and> wu_selected_verdict wu = Some ''PASS'')
    \<and> (list_ex (\<lambda>n. json_type n = ''VERIFY'') (listed (JObj record) ''task_topology_nodes'') \<longrightarrow> (\<exists>wu \<in> set (t_rows (wus s)).
        wu_task_id wu = task_id \<and> wu_status wu = W_DONE \<and> wu_selected_verdict wu = Some ''PASS''
        \<and> upper_text (unit_type (filter (\<lambda>w. wsp_task_id w = task_id) (t_rows (wu_specs s))) wu) = ''VERIFY''))
    \<and> (\<forall>a \<in> set (t_rows (artifacts s)). af_task_id a = task_id \<longrightarrow> (\<exists>row uri content.
        t_get artifact_key (task_id, af_artifact_hash a) (artifacts s) = Some row \<and> af_artifact_uri row = Some uri
        \<and> fst (artifact_store_get E uri s) = Inr content \<and> sha E content = af_artifact_hash a))
    \<and> (\<forall>x \<in> set (t_rows (runs s)). ar_task_id x = task_id \<longrightarrow>
        \<not> ar_sandbox_exit_unconfirmed x \<and> (ar_status x \<in> {R_CREATED, R_RUNNING} \<longrightarrow> ar_assignment_kind x = PLAN))"
proof -
  from run obtain plan s1 units s2 arts s3 unbacked s4 checks s5 found s6 where
    steps: "get_active_plan task_id s = (Inr plan, s1)" "list_work_units task_id s1 = (Inr units, s2)"
      "list_task_artifacts task_id s2 = (Inr arts, s3)" "list_unbacked_artifacts task_id s3 = (Inr unbacked, s4)"
      "collect (filter (\<lambda>a. truthy (jget a ''artifact_uri'')) arts) (content_check E describe isoformat task_id) s4 = (Inr checks, s5)"
      "list_runs task_id s5 = (Inr found, s6)" "t = s6"
    and r: "r = judged_record record require_artifacts \<lparr> jd_plan = jor plan (JObj []), jd_units = units, jd_artifacts = arts,
       jd_unbacked = unbacked, jd_checks = checks, jd_runs = found \<rparr>"
    unfolding assess_complex_success_def andthen_Inr_iff ret_def prod.inject sum.inject by blast
  let ?J = "\<lparr> jd_plan = jor plan (JObj []), jd_units = units, jd_artifacts = arts, jd_unbacked = unbacked, jd_checks = checks, jd_runs = found \<rparr>"
  have s1: "s1 = s" using plan_read [OF steps(1) clean(1)] .
  note units = units_read [OF steps(2) [unfolded s1] clean(1)]
  note arts = artifacts_read [OF steps(3) [unfolded units [THEN conjunct1]] clean(1)]
  note unb = unbacked_read [OF steps(4) [unfolded arts [THEN conjunct1]] clean(1)]
  note chk = checks_read [OF clean(1) steps(5) [unfolded unb [THEN conjunct1]]]
  note found = runs_read [OF steps(6) [unfolded chk [THEN conjunct1]] clean(1)]
  have none: "failures_of record require_artifacts ?J = []" using ok by (simp add: r judged_ok)
  let ?scope = "scope_of record ?J"
  note fs = no_failures [OF none, unfolded scope_of_def judgement.simps]
  let ?rows = "filter (\<lambda>w. wu_task_id w = task_id) (t_rows (wus s))"
  have dist: "distinct (map wu_work_unit_id ?rows)" using clean_keys [OF clean] by (simp add: distinct_map_filter)
  have plan: "listed (jor plan (JObj [])) k = listed plan k" for k
    by (cases plan) (auto simp: listed_def jor_def jget_def)
  show ?thesis
  proof (intro conjI exI [of _ plan] ballI impI)
    show "t = s" using steps(7) found by simp
    show "get_active_plan task_id s = (Inr plan, s)" using steps(1) s1 by simp
  next
    fix wu assume "wu \<in> set (t_rows (wus s))" "wu_task_id wu = task_id \<and> wu_work_unit_id wu \<in> set (map unit_id (listed plan ''nodes''))
      \<and> wu_work_unit_id wu \<notin> set (set_aside record)"
    then show "wu_status wu = W_DONE" "wu_selected_verdict wu = Some ''PASS''"
      using scope_passed [OF fs(1) [unfolded units [THEN conjunct2]] dist, of wu] plan by simp_all
  next
    show "\<exists>wu \<in> set (t_rows (wus s)). wu_task_id wu = task_id \<and> wu_status wu = W_DONE \<and> wu_selected_verdict wu = Some ''PASS''"
      using some_passed [OF fs(5) [unfolded units [THEN conjunct2]]] by auto
  next
    assume "list_ex (\<lambda>n. json_type n = ''VERIFY'') (listed (JObj record) ''task_topology_nodes'')"
    from verify_passed [OF none this] obtain wu where "wu \<in> set ?rows"
      "json_type (unit_summary (filter (\<lambda>w. wsp_task_id w = task_id) (t_rows (wu_specs s))) wu) = ''VERIFY''"
      "passed (unit_summary (filter (\<lambda>w. wsp_task_id w = task_id) (t_rows (wu_specs s))) wu)"
      using units by auto
    then show "\<exists>wu \<in> set (t_rows (wus s)). wu_task_id wu = task_id \<and> wu_status wu = W_DONE \<and> wu_selected_verdict wu = Some ''PASS''
        \<and> upper_text (unit_type (filter (\<lambda>w. wsp_task_id w = task_id) (t_rows (wu_specs s))) wu) = ''VERIFY''"
      using type_of_unit passed_unit by (intro bexI [of _ wu]) auto
  next
    fix a assume "a \<in> set (t_rows (artifacts s))" "af_task_id a = task_id"
    then show "\<exists>row uri content. t_get artifact_key (task_id, af_artifact_hash a) (artifacts s) = Some row \<and> af_artifact_uri row = Some uri
        \<and> fst (artifact_store_get E uri s) = Inr content \<and> sha E content = af_artifact_hash a"
      using artifacts_have_bytes [OF clean(1) unb [THEN conjunct2, symmetric, unfolded fs(2)]
        chk [THEN conjunct2, unfolded arts [THEN conjunct2]] fs(3) [unfolded unverified_hashes_def judgement.simps map_is_Nil_conv], of a] by simp
  next
    fix x assume "x \<in> set (t_rows (runs s))" "ar_task_id x = task_id"
    then show "\<not> ar_sandbox_exit_unconfirmed x" "ar_status x \<in> {R_CREATED, R_RUNNING} \<Longrightarrow> ar_assignment_kind x = PLAN"
      using fs(4) found confirmed_run [of x] by (auto simp: list_ex_iff)
  qed
qed

text \<open>A finished Task: its integration and the verification of it, both passed, and the artifact between them.\<close>

definition sample_spec_row :: "string \<Rightarrow> string \<Rightarrow> WorkUnitSpecRow" where
  "sample_spec_row w work_type = \<lparr> wsp_work_unit_id = w, wsp_spec_version = 1, wsp_task_id = ''t'', wsp_objective = [],
     wsp_work_type = work_type, wsp_content_hash = ''h'', wsp_content_json = JObj [], wsp_created_at = 0 \<rparr>"

definition sample_done :: "string \<Rightarrow> string option \<Rightarrow> WorkUnitExecutionRow" where
  "sample_done w h = (sample_unit W_DONE None)\<lparr> wu_work_unit_id := w, wu_selected_verdict := Some ''PASS'', wu_verified_artifact_hash := h \<rparr>"

definition sample_node_json :: "string \<Rightarrow> string \<Rightarrow> json" where
  "sample_node_json w work_type = JObj [(''work_unit_id'', JStr w), (''work_type'', JStr work_type)]"

definition sample_finished :: sess where
  "sample_finished = (sample_db EXECUTING)\<lparr> wus := t_of [sample_done ''i'' (Some sample_digest), sample_done ''v'' None],
     wu_specs := t_of [sample_spec_row ''i'' ''INTEGRATE'', sample_spec_row ''v'' ''VERIFY''],
     artifacts := t_of [sample_artifact], plan_markers := t_of [\<lparr> apm_task_id = ''t'', apm_plan_version = 1 \<rparr>],
     plans := t_of [\<lparr> pl_task_id = ''t'', pl_plan_version = 1, pl_base_plan_version = None, pl_contract_version = 1, pl_content_hash = ''h'',
       pl_nodes_json = JList [sample_node_json ''i'' ''INTEGRATE'', sample_node_json ''v'' ''VERIFY''],
       pl_edges_json = JList [], pl_status = P_ACTIVE, pl_created_at = 0 \<rparr>] \<rparr>"

definition sample_record_dict :: dict where
  "sample_record_dict = [(''task_topology_nodes'', JList [sample_node_json ''v'' ''verify''])]"

theorem success_is_earned_witness:
  "\<exists>wu \<in> set (t_rows (wus sample_finished)). wu_status wu = W_DONE
    \<and> upper_text (unit_type (filter (\<lambda>w. wsp_task_id w = ''t'') (t_rows (wu_specs sample_finished))) wu) = ''VERIFY''"
proof -
  let ?run = "assess_complex_success sample_files (\<lambda>_. []) (\<lambda>_. []) ''t'' sample_record_dict True sample_finished"
  have ok: "case fst ?run of Inl e \<Rightarrow> False | Inr r \<Rightarrow> dget r ''ok'' = JBool True" by code_simp
  then obtain r where r: "?run = (Inr r, snd ?run)" "dget r ''ok'' = JBool True" by (cases ?run) (auto split: sum.splits)
  have c: "clean sample_finished" "constraints_ok sample_finished" by code_simp+
  have v: "list_ex (\<lambda>n. json_type n = ''VERIFY'') (listed (JObj sample_record_dict) ''task_topology_nodes'')" by code_simp
  show ?thesis using success_is_earned [OF c r] v by blast
qed

text \<open>
  After a repair the verification that counts may be an old one: the only passed VERIFY unit is not in the plan any more, and yet
  nothing is held against the Task.
\<close>

lemma old_verify_is_enough:
  "failures_of [(''inject_required'', JBool True), (''inject_triggered'', JBool True), (''repair'', JObj [(''ok'', JBool True)]),
      (''publish_hashes'', JList [JStr ''d''])] False
    \<lparr> jd_plan = JObj [(''nodes'', JList [sample_node_json ''r'' ''REPAIR'']),
         (''edges'', JList [JObj [(''predicate'', JStr ''VERDICT_PASS''), (''artifact_hash'', JStr ''d'')]])],
       jd_units = [JObj [(''work_unit_id'', JStr ''old''), (''work_type'', JStr ''VERIFY''), (''status'', JStr ''DONE''), (''selected_verdict'', JStr ''PASS'')],
         JObj [(''work_unit_id'', JStr ''r''), (''work_type'', JStr ''REPAIR''), (''status'', JStr ''DONE''), (''selected_verdict'', JStr ''PASS'')]],
       jd_artifacts = [], jd_unbacked = [], jd_checks = [], jd_runs = [] \<rparr> = []"
  by code_simp

end
