(* ===== verification/Trial.thy ===== *)
theory Trial
  imports Assessment Workspace
begin

text \<open>
  The runner of the first acceptance (\<open>interfaces/m1_runner.py\<close>): the credentials it takes from the environment and a file
  beside it, how it sets a Task up, and how it judges the one Run of the Task. The workspace is seeded between plan and
  dispatch and the Run is waited for in between; both happen outside the database.
\<close>

subsection \<open>Credentials\<close>

definition MODEL_ENV :: "string list" where
  "MODEL_ENV = [''HIBIKI_MODEL_BASE_URL'', ''HIBIKI_MODEL_API_KEY'', ''HIBIKI_MODEL'']"

definition EXPORT :: string where
  "EXPORT = ''export ''"

definition unquoted :: "string \<Rightarrow> string" where
  "unquoted v = (if 2 \<le> length v \<and> hd v = last v \<and> hd v \<in> {CHR 0x22, CHR 0x27} then butlast (tl v) else v)"

text \<open>A line that says something: a key, and the text after the first equals sign.\<close>

definition dotenv_line :: "string \<Rightarrow> (string \<times> string) option" where
  "dotenv_line raw_line =
    (let line = strip raw_line
     in if line = [] \<or> hd line = CHR ''#'' \<or> CHR ''='' \<notin> set line then None
        else (let key = strip (takeWhile (\<lambda>c. c \<noteq> CHR ''='') line);
                  name = (if starts_with EXPORT key then strip (drop (length EXPORT) key) else key)
              in if name = [] then None else Some (name, unquoted (strip (tl (dropWhile (\<lambda>c. c \<noteq> CHR ''='') line))))))"

type_synonym settings = "(string \<times> string) list"

definition apply_line :: "string \<Rightarrow> settings \<times> settings \<Rightarrow> settings \<times> settings" where
  "apply_line raw_line S = (case S of (environ, applied) \<Rightarrow>
     (case dotenv_line raw_line of
        None \<Rightarrow> (environ, applied)
      | Some (key, v) \<Rightarrow> (if map_of environ key \<noteq> None then (environ, applied) else (dset key v environ, dset key v applied))))"

text \<open>The file is \<open>None\<close> where there is none.\<close>

definition load_dotenv :: "string option \<Rightarrow> settings \<Rightarrow> settings \<times> settings" where
  "load_dotenv dotfile environ =
    (case dotfile of None \<Rightarrow> (environ, [])
     | Some text \<Rightarrow> fold apply_line (split_lines [] text) (environ, []))"

record ModelConfig =
  mc_base_url :: string
  mc_api_key :: string
  mc_model :: string

definition setting :: "settings \<Rightarrow> string \<Rightarrow> string" where
  "setting environ name = (case map_of environ name of None \<Rightarrow> [] | Some v \<Rightarrow> v)"

text \<open>The names that are missing, or the configuration.\<close>

definition config_from_env :: "string option \<Rightarrow> settings \<Rightarrow> (string list + ModelConfig) \<times> settings" where
  "config_from_env dotenv environ =
    (let (now_set, applied) = load_dotenv dotenv environ;
         missing = filter (\<lambda>name. setting now_set name = []) MODEL_ENV
     in (if missing \<noteq> [] then Inl missing
         else Inr \<lparr> mc_base_url = setting now_set ''HIBIKI_MODEL_BASE_URL'', mc_api_key = setting now_set ''HIBIKI_MODEL_API_KEY'',
           mc_model = setting now_set ''HIBIKI_MODEL'' \<rparr>, now_set))"

subsection \<open>Setting a Task up\<close>

definition approve_contract_of :: "nat \<Rightarrow> env \<Rightarrow> bool \<Rightarrow> AuthContext \<Rightarrow> dict \<Rightarrow> unit tx" where
  "approve_contract_of fuel E dispatch_enabled auth contract =
    andthen (need contract ''decision_id'') (\<lambda>did.
    andthen (need contract ''content_hash'') (\<lambda>h.
    andthen (need contract ''contract_version'') (\<lambda>v.
    andthen (execute fuel E dispatch_enabled ''approve_contract'' auth [(''decision_id'', did), (''expected_target_hash'', h),
       (''expected_target_version'', v)] None None) (\<lambda>r.
    ensure (cr_ok r) (RuntimeError ''approve failed'')))))"

definition contract_payload :: "json \<Rightarrow> dict \<Rightarrow> dict tx" where
  "contract_payload tid spec =
    andthen (need spec ''objective'') (\<lambda>objective.
    andthen (need spec ''permission_ceiling'') (\<lambda>ceiling.
    ret [(''task_id'', tid), (''objective'', objective), (''permission_ceiling'', ceiling),
       (''resource_limits'', jor (dget spec ''resource_limits'') (JObj [])), (''deliverables'', dget spec ''deliverables''),
       (''acceptance_criteria'', dget spec ''acceptance_criteria'')]))"

definition plan_payload :: "json \<Rightarrow> string \<Rightarrow> dict \<Rightarrow> dict tx" where
  "plan_payload tid task_id spec =
    andthen (need spec ''objective'') (\<lambda>objective.
    andthen (elems (jor (dget spec ''expected_artifacts'') (JList []))) (\<lambda>outputs.
    andthen (elems (jor (dget spec ''acceptance_criteria'') (JList []))) (\<lambda>criteria.
    ret [(''task_id'', tid), (''objective'', objective),
       (''nodes'', JList [JObj [(''work_unit_id'', JStr (task_id @ ''_wu1'')), (''spec_version'', JInt 1), (''work_type'', JStr ''EXECUTE''),
          (''expected_outputs'', JList outputs), (''acceptance_criteria'', JList criteria)]]),
       (''edges'', JList [])])))"

definition step_failed :: "string \<Rightarrow> CommandResult \<Rightarrow> string" where
  "step_failed step r = step @ '': '' @ py_str (jopt (cr_error_code r))"

text \<open>Why it stopped, or the Task and its Run.\<close>

definition dispatch_first :: "nat \<Rightarrow> env \<Rightarrow> bool \<Rightarrow> AuthContext \<Rightarrow> json \<Rightarrow> (string + json \<times> json) tx" where
  "dispatch_first fuel E dispatch_enabled auth tid =
    andthen (execute fuel E dispatch_enabled ''dispatch_ready_runs'' auth [(''task_id'', tid)] None None) (\<lambda>r.
    (if \<not> cr_ok r \<or> \<not> truthy (dget (cr_data r) ''created_runs'')
      then ret (Inl (''dispatch: '' @ py_str (jor (jopt (cr_error_code r)) (JStr ''no run''))))
      else andthen (elems (dget (cr_data r) ''created_runs'')) (\<lambda>created.
        ret (Inr (tid, hd created)))))"

definition plan_and_dispatch :: "nat \<Rightarrow> env \<Rightarrow> bool \<Rightarrow> AuthContext \<Rightarrow> dict \<Rightarrow> string \<Rightarrow> json \<Rightarrow> (string + json \<times> json) tx" where
  "plan_and_dispatch fuel E dispatch_enabled auth spec task_id tid =
    andthen (plan_payload tid task_id spec) (\<lambda>payload.
    andthen (execute fuel E dispatch_enabled ''activate_plan'' auth payload None None) (\<lambda>r.
    (if \<not> cr_ok r then ret (Inl (step_failed ''activate_plan'' r)) else dispatch_first fuel E dispatch_enabled auth tid)))"

definition set_up_run :: "nat \<Rightarrow> env \<Rightarrow> bool \<Rightarrow> AuthContext \<Rightarrow> dict \<Rightarrow> (string + json \<times> json) tx" where
  "set_up_run fuel E dispatch_enabled auth spec =
    andthen (need spec ''task_id'') (\<lambda>task_id.
    andthen (need spec ''title'') (\<lambda>title.
    andthen (execute fuel E dispatch_enabled ''create_task'' auth [(''title'', title), (''intent'', dget_or spec ''intent'' (JStr []))] None None) (\<lambda>made.
    (if \<not> cr_ok made then ret (Inl (step_failed ''create_task'' made))
      else andthen (need (cr_data made) ''task_id'') (\<lambda>tid.
        andthen (contract_payload tid spec) (\<lambda>payload.
        andthen (execute fuel E dispatch_enabled ''submit_contract'' auth payload None None) (\<lambda>r.
        (if \<not> cr_ok r then ret (Inl (step_failed ''submit_contract'' r))
         else seq (approve_contract_of fuel E dispatch_enabled auth (cr_data r)) (
           plan_and_dispatch fuel E dispatch_enabled auth spec (py_str task_id) tid)))))))))"

subsection \<open>The judgement of the Run\<close>

definition tool_row :: "ToolInvocationRow \<Rightarrow> dict" where
  "tool_row r = [(''sequence_no'', JInt (ti_sequence_no r)), (''tool_name'', JStr (ti_tool_name r)), (''decision'', JStr (ti_decision r)),
     (''deny_reason'', jopt (ti_deny_reason r)), (''outcome'', jopt (ti_outcome r)), (''parameters_hash'', JStr (ti_parameters_hash r))]"

definition tool_rows :: "string \<Rightarrow> dict list tx" where
  "tool_rows run_id = run_tx (andthen (select_tool_invocation (\<lambda>r. ti_run_id r = run_id)) (\<lambda>rows.
    ret (map tool_row (sort_key ti_sequence_no rows))))"

definition trial_artifact :: "ArtifactRow \<Rightarrow> dict" where
  "trial_artifact a = [(''artifact_hash'', JStr (af_artifact_hash a)), (''uri'', jopt (af_artifact_uri a)), (''size'', jint_opt (af_size_bytes a)),
     (''source_path'', jopt (af_source_path a)), (''run_id'', jopt (af_run_id a))]"

definition artifact_rows :: "string \<Rightarrow> dict list tx" where
  "artifact_rows task_id = run_tx (andthen (select_artifact (\<lambda>a. af_task_id a = task_id)) (\<lambda>rows.
    ret (map trial_artifact rows)))"

definition claims_pass :: "json \<Rightarrow> bool" where
  "claims_pass result \<longleftrightarrow> jget result ''outcome'' = JStr ''COMPLETED'' \<and> jget result ''verdict'' = JStr ''PASS''"

definition hashable :: "json \<Rightarrow> bool" where
  "hashable v \<longleftrightarrow> (case v of JList xs \<Rightarrow> False | JObj d \<Rightarrow> False | _ \<Rightarrow> True)"

text \<open>What the Run has put where: paths of its artifacts, and paths its result names.\<close>

definition missing_expected :: "dict list \<Rightarrow> json \<Rightarrow> json list \<Rightarrow> json list tx" where
  "missing_expected rows result expected =
    andthen (elems (jor (jget result ''published_paths'') (JList []))) (\<lambda>named.
    seq (ensure (list_all hashable named \<and> list_all hashable expected) ValueError) (
    let published = map (\<lambda>a. JStr (py_str (dget a ''source_path''))) (filter (\<lambda>a. truthy (dget a ''source_path'')) rows) @ filter truthy named in
    ret (filter (\<lambda>n. n \<notin> set published) expected)))"

definition is_required :: "json \<Rightarrow> bool" where
  "is_required c \<longleftrightarrow> (case c of JObj d \<Rightarrow> truthy (dget_or d ''required'' (JBool True)) | _ \<Rightarrow> False)"

definition covered_ids :: "dict list \<Rightarrow> string list" where
  "covered_ids found = map (\<lambda>d. py_str (dget d ''criterion_id'')) (filter (\<lambda>d. truthy (dget d ''criterion_id'')) found)"

definition uncovered :: "json list \<Rightarrow> json list \<Rightarrow> string list tx" where
  "uncovered required shown =
    andthen (collect shown as_obj) (\<lambda>found.
    andthen (collect required (\<lambda>c. andthen (as_obj c) (\<lambda>d.
      andthen (need d ''criterion_id'') (\<lambda>v.
      ret (py_str v))))) (\<lambda>ids.
    ret (filter (\<lambda>i. i \<notin> set (covered_ids found)) ids)))"

record facts =
  fa_result :: json
  fa_artifacts :: "dict list"
  fa_checks :: "dict list"
  fa_unbacked :: "dict list"
  fa_expected :: "json list"
  fa_missing :: "json list"
  fa_evidence :: "json list"
  fa_required :: "json list"

definition gather :: "env \<Rightarrow> (exn \<Rightarrow> string) \<Rightarrow> (int \<Rightarrow> string) \<Rightarrow> dict \<Rightarrow> string \<Rightarrow> json \<Rightarrow> facts tx" where
  "gather E describe isoformat spec task_id result =
    andthen (artifact_rows task_id) (\<lambda>rows.
    andthen (collect rows (\<lambda>a. verify_artifact_content E describe isoformat task_id (py_str (dget a ''artifact_hash'')))) (\<lambda>checks.
    andthen (list_unbacked_artifacts task_id) (\<lambda>unbacked.
    andthen (elems (jor (dget spec ''expected_artifacts'') (JList []))) (\<lambda>expected.
    andthen (missing_expected rows result expected) (\<lambda>missing.
    andthen (elems (jor (jget result ''acceptance_evidence'') (JList []))) (\<lambda>evidence.
    andthen (elems (jor (dget spec ''acceptance_criteria'') (JList []))) (\<lambda>criteria.
    ret \<lparr> fa_result = result, fa_artifacts = rows, fa_checks = checks, fa_unbacked = unbacked, fa_expected = expected,
       fa_missing = missing, fa_evidence = evidence, fa_required = filter is_required criteria \<rparr>)))))))"

definition delivered :: "facts \<Rightarrow> bool" where
  "delivered F \<longleftrightarrow> claims_pass (fa_result F) \<and> list_all (\<lambda>c. truthy (dget c ''verified'')) (fa_checks F)
     \<and> fa_unbacked F = [] \<and> fa_missing F = []"

definition facts_part :: "json list \<Rightarrow> facts \<Rightarrow> dict" where
  "facts_part tools F = [(''result'', fa_result F), (''tool_invocations'', JList tools), (''artifacts'', JList (map JObj (fa_artifacts F))),
     (''artifact_checks'', JList (map JObj (fa_checks F))), (''unbacked_artifact_refs'', JList (map JObj (fa_unbacked F))),
     (''expected_artifacts'', JList (fa_expected F)), (''missing_expected_artifacts'', JList (fa_missing F)),
     (''acceptance_evidence'', JList (fa_evidence F))]"

text \<open>The last steps: the criteria, where there are any and nothing else is wrong, and then the preparation of the acceptance.\<close>

definition criteria_missing :: "facts \<Rightarrow> string list option tx" where
  "criteria_missing F = (if fa_required F \<noteq> [] \<and> delivered F then andthen (uncovered (fa_required F) (fa_evidence F)) (\<lambda>xs.
    ret (Some xs)) else ret None)"

definition accept_or_not :: "nat \<Rightarrow> env \<Rightarrow> bool \<Rightarrow> AuthContext \<Rightarrow> string \<Rightarrow> bool \<Rightarrow> CommandResult option tx" where
  "accept_or_not fuel E dispatch_enabled auth task_id good = (if good then andthen (execute fuel E dispatch_enabled ''prepare_acceptance'' auth [(''task_id'', JStr task_id)] None None) (\<lambda>r.
    ret (Some r)) else ret None)"

definition acceptance_part :: "CommandResult option \<Rightarrow> json" where
  "acceptance_part prep = (case prep of None \<Rightarrow> JNull
     | Some r \<Rightarrow> JObj [(''ok'', JBool (cr_ok r)), (''error_code'', jopt (cr_error_code r)),
         (''data'', (if cr_ok r then JObj (cr_data r) else JNull))])"

text \<open>\<open>result\<close> is what the Run has submitted, \<open>JNull\<close> where it has submitted nothing.\<close>

definition judge_run :: "nat \<Rightarrow> env \<Rightarrow> (exn \<Rightarrow> string) \<Rightarrow> (int \<Rightarrow> string) \<Rightarrow> bool \<Rightarrow> AuthContext \<Rightarrow> dict \<Rightarrow> string \<Rightarrow> string \<Rightarrow> json \<Rightarrow> dict \<Rightarrow> dict tx" where
  "judge_run fuel E describe isoformat dispatch_enabled auth spec task_id run_id result record =
    seq (only_if (result \<noteq> JNull \<and> \<not> is_obj result) (raise ValueError)) (
    andthen (tool_rows run_id) (\<lambda>tools.
    andthen (gather E describe isoformat spec task_id result) (\<lambda>F.
    andthen (criteria_missing F) (\<lambda>missing.
    let good = delivered F \<and> (case missing of None \<Rightarrow> True | Some xs \<Rightarrow> xs = []) in
    andthen (accept_or_not fuel E dispatch_enabled auth task_id good) (\<lambda>prep.
    andthen (read_task task_id) (\<lambda>task.
    ret (foldl (\<lambda>d (k, v). dset k v d) record ((''ok'', JBool (good \<and> (case prep of None \<Rightarrow> False | Some r \<Rightarrow> cr_ok r)))
       # facts_part (map JObj tools) F
       @ (case missing of None \<Rightarrow> [] | Some xs \<Rightarrow> [(''missing_acceptance_evidence'', jstrs xs)])
       @ [(''prepare_acceptance'', acceptance_part prep), (''task_state'', dget task ''state''),
          (''model_calls_used'', dget task ''model_calls_used''), (''internal_task_id'', JStr task_id)]))))))))"

subsection \<open>The environment wins\<close>

text \<open>What is applied is what was not there, and nothing else changes.\<close>

definition adds_only :: "settings \<Rightarrow> settings \<times> settings \<Rightarrow> bool" where
  "adds_only environ S \<longleftrightarrow> (\<forall>k. map_of (fst S) k = (case map_of environ k of None \<Rightarrow> map_of (snd S) k | Some v \<Rightarrow> Some v)
     \<and> (map_of environ k \<noteq> None \<longrightarrow> map_of (snd S) k = None))"

lemma adds_only_line: "adds_only environ S \<Longrightarrow> adds_only environ (apply_line raw_line S)"
proof (cases "dotenv_line raw_line")
  case None
  then show "adds_only environ S \<Longrightarrow> ?thesis" by (simp add: apply_line_def split: prod.split)
next
  case (Some kv)
  assume S: "adds_only environ S"
  obtain k v now_set applied where eqs: "kv = (k, v)" "S = (now_set, applied)" by (cases kv; cases S)
  from S Some show ?thesis unfolding eqs adds_only_def apply_line_def
    by (auto simp: map_of_dset split: option.splits)
qed

lemma dotenv_never_overrides: "adds_only environ (load_dotenv dotfile environ)"
proof (cases dotfile)
  case None
  then show ?thesis by (simp add: load_dotenv_def adds_only_def split: option.split)
next
  case (Some body)
  have "adds_only environ S \<Longrightarrow> adds_only environ (fold apply_line xs S)" for xs S
    by (induction xs arbitrary: S) (simp_all add: adds_only_line)
  moreover have "adds_only environ (environ, [])" by (simp add: adds_only_def split: option.split)
  ultimately show ?thesis using Some by (simp add: load_dotenv_def)
qed

lemma config_keeps_environment:
  assumes "config_from_env dotenv environ = (Inr C, now_set)" and "map_of environ ''HIBIKI_MODEL_API_KEY'' = Some v"
  shows "mc_api_key C = v \<and> v \<noteq> []"
proof -
  have "map_of now_set ''HIBIKI_MODEL_API_KEY'' = Some v"
    using dotenv_never_overrides [of environ dotenv] assms
    by (auto simp: config_from_env_def adds_only_def Let_def split: prod.splits if_splits option.splits)
  with assms(1) show ?thesis by (auto simp: config_from_env_def Let_def MODEL_ENV_def setting_def split: prod.splits if_splits)
qed

subsection \<open>A passed trial is earned\<close>

lemma rows_read:
  assumes "artifact_rows task_id s = (Inr xs, t)" "clean s"
  shows "t = s \<and> xs = map trial_artifact (filter (\<lambda>a. af_task_id a = task_id) (t_rows (artifacts s)))"
proof -
  note rd = read_back [OF assms(1) [unfolded artifact_rows_def] assms(2)]
  have "t = s" and "(andthen (select_artifact (\<lambda>a. af_task_id a = task_id)) (\<lambda>rows.
    ret (map trial_artifact rows))) s = (Inr xs, s)"
    by (rule conjunct1 [OF rd] conjunct2 [OF rd]; intro readonly.keeps_struct frame_intro)+
  then show ?thesis using assms(2) by (auto simp: andthen_def clean_def t_select_clean)
qed

lemma verified_each:
  assumes "clean s"
  shows "collect rows (\<lambda>a. verify_artifact_content E describe isoformat task_id (py_str (dget a ''artifact_hash''))) s = (Inr cs, t) \<Longrightarrow>
    t = s \<and> list_all2 (\<lambda>a c. verify_artifact_content E describe isoformat task_id (py_str (dget a ''artifact_hash'')) s = (Inr c, s)) rows cs"
proof (induction rows arbitrary: cs)
  case (Cons a rows)
  then obtain c cs1 s1 where one: "verify_artifact_content E describe isoformat task_id (py_str (dget a ''artifact_hash'')) s = (Inr c, s1)"
    and rest: "collect rows (\<lambda>a. verify_artifact_content E describe isoformat task_id (py_str (dget a ''artifact_hash''))) s1 = (Inr cs1, t)"
    and cs: "cs = c # cs1"
    by (auto simp: andthen_Inr_iff)
  have "s1 = s" using verify_read [OF one assms] by blast
  with Cons.IH [of cs1] one rest cs show ?case by simp
qed simp

lemma readonly_missing: "keeps (=) (missing_expected rows result expected)"
  unfolding missing_expected_def Let_def elems_def by (intro readonly.keeps_struct frame_intro)

lemma readonly_uncovered: "keeps (=) (uncovered required shown)"
  unfolding uncovered_def by (intro readonly.keeps_struct frame_intro; simp add: readonly_fields)

lemma uncovered_Inr:
  assumes "uncovered required shown s = (Inr ids, t)"
  shows "t = s \<and> (\<exists>found. list_all2 (\<lambda>v d. v = JObj d) shown found
    \<and> ids = filter (\<lambda>i. i \<notin> set (covered_ids found)) (map (\<lambda>c. py_str (jget c ''criterion_id'')) required))"
proof -
  have objs: "collect vs as_obj u = (Inr ds, w) \<Longrightarrow> list_all2 (\<lambda>v d. v = JObj d) vs ds" for vs ds u w
    by (induction vs arbitrary: ds u) (auto simp: andthen_Inr_iff as_obj_def split: json.splits)
  have names: "collect cs (\<lambda>c. andthen (as_obj c) (\<lambda>d.
    andthen (need d ''criterion_id'') (\<lambda>v.
    ret (py_str v)))) u = (Inr xs, w)
      \<Longrightarrow> xs = map (\<lambda>c. py_str (jget c ''criterion_id'')) cs" for cs xs u w
    by (induction cs arbitrary: xs u)
      (auto simp: andthen_Inr_iff as_obj_def need_def the_or_def jget_def dget_def split: json.splits option.splits)
  have "t = s" using readonlyD [OF readonly_uncovered assms] .
  moreover obtain found u xs w where "collect shown as_obj s = (Inr found, u)"
    "collect required (\<lambda>c. andthen (as_obj c) (\<lambda>d.
      andthen (need d ''criterion_id'') (\<lambda>v.
      ret (py_str v)))) u = (Inr xs, w)"
    "ids = filter (\<lambda>i. i \<notin> set (covered_ids found)) xs"
    using assms unfolding uncovered_def by (auto simp only: andthen_Inr_iff ret_def prod.inject sum.inject)
  ultimately show ?thesis using objs names by blast
qed

lemma missing_Inr:
  assumes "missing_expected rows result expected s = (Inr xs, t)"
  shows "t = s \<and> (\<exists>named. py_list (jor (jget result ''published_paths'') (JList [])) = Some named
    \<and> (xs = [] \<longrightarrow> (\<forall>n \<in> set expected. n \<in> set (filter truthy named)
      \<or> (\<exists>a \<in> set rows. truthy (dget a ''source_path'') \<and> n = JStr (py_str (dget a ''source_path''))))))"
proof -
  have "t = s" using readonlyD [OF readonly_missing assms] .
  moreover from assms obtain named where "py_list (jor (jget result ''published_paths'') (JList [])) = Some named"
    "xs = filter (\<lambda>n. n \<notin> set (map (\<lambda>a. JStr (py_str (dget a ''source_path''))) (filter (\<lambda>a. truthy (dget a ''source_path'')) rows) @ filter truthy named)) expected"
    by (auto simp: missing_expected_def Let_def andthen_Inr_iff seq_Inr_iff elems_def the_or_def split: option.splits)
  ultimately show ?thesis by (auto simp: filter_empty_conv)
qed

lemma gather_reads:
  assumes run: "gather E describe isoformat spec task_id result s = (Inr F, t)" and clean: "clean s"
  shows "t = s" "fa_result F = result" "fa_artifacts F = map trial_artifact (filter (\<lambda>a. af_task_id a = task_id) (t_rows (artifacts s)))"
    "list_all2 (\<lambda>a c. verify_artifact_content E describe isoformat task_id (py_str (dget a ''artifact_hash'')) s = (Inr c, s)) (fa_artifacts F) (fa_checks F)"
    "missing_expected (fa_artifacts F) result (fa_expected F) s = (Inr (fa_missing F), s)"
    "py_list (jor (dget spec ''expected_artifacts'') (JList [])) = Some (fa_expected F)"
proof -
  from run obtain rows s1 cs s2 un s3 ex s4 mi s5 ev s6 cr s7 where
    steps: "artifact_rows task_id s = (Inr rows, s1)"
      "collect rows (\<lambda>a. verify_artifact_content E describe isoformat task_id (py_str (dget a ''artifact_hash''))) s1 = (Inr cs, s2)"
      "list_unbacked_artifacts task_id s2 = (Inr un, s3)" "elems (jor (dget spec ''expected_artifacts'') (JList [])) s3 = (Inr ex, s4)"
      "missing_expected rows result ex s4 = (Inr mi, s5)" "elems (jor (jget result ''acceptance_evidence'') (JList [])) s5 = (Inr ev, s6)"
      "elems (jor (dget spec ''acceptance_criteria'') (JList [])) s6 = (Inr cr, s7)" "t = s7"
    and F: "F = \<lparr> fa_result = result, fa_artifacts = rows, fa_checks = cs, fa_unbacked = un, fa_expected = ex,
       fa_missing = mi, fa_evidence = ev, fa_required = filter is_required cr \<rparr>"
    unfolding gather_def andthen_Inr_iff ret_def prod.inject sum.inject by blast
  have pure: "elems v u = (Inr x, w) \<Longrightarrow> w = u \<and> py_list v = Some x" for v u x w
    by (auto simp: elems_def the_or_def split: option.splits)
  note r = rows_read [OF steps(1) clean]
  note c = verified_each [OF clean steps(2) [unfolded r [THEN conjunct1]]]
  note u = unbacked_read [OF steps(3) [unfolded c [THEN conjunct1]] clean]
  note e = pure [OF steps(4) [unfolded u [THEN conjunct1]]]
  note m = missing_Inr [OF steps(5) [unfolded e [THEN conjunct1]]]
  show "t = s" using pure [OF steps(6)] pure [OF steps(7)] m steps(8) by simp
  show "fa_result F = result" "fa_artifacts F = map trial_artifact (filter (\<lambda>a. af_task_id a = task_id) (t_rows (artifacts s)))"
    "py_list (jor (dget spec ''expected_artifacts'') (JList [])) = Some (fa_expected F)" using r e by (simp_all add: F)
  show "list_all2 (\<lambda>a c. verify_artifact_content E describe isoformat task_id (py_str (dget a ''artifact_hash'')) s = (Inr c, s)) (fa_artifacts F) (fa_checks F)"
    using c by (simp add: F)
  show "missing_expected (fa_artifacts F) result (fa_expected F) s = (Inr (fa_missing F), s)"
    using steps(5) e m by (simp add: F)
qed

text \<open>
  A trial that passes: the Run has submitted COMPLETED with PASS, the bytes of every artifact of the Task are in the store
  and hash to its digest, every expected artifact is a source path of one or named by the result, and the core has prepared the
  acceptance. A path the result merely names counts as delivered.
\<close>

lemma trial_is_earned:
  assumes clean: "clean s"
    and run: "judge_run fuel E describe isoformat en auth spec task_id run_id result record s = (Inr r, t)"
    and ok: "dget r ''ok'' = JBool True"
  shows "claims_pass result"
    and "a \<in> set (t_rows (artifacts s)) \<Longrightarrow> af_task_id a = task_id \<Longrightarrow> \<exists>row uri content.
        t_get artifact_key (task_id, af_artifact_hash a) (artifacts s) = Some row \<and> af_artifact_uri row = Some uri
        \<and> fst (artifact_store_get E uri s) = Inr content \<and> sha E content = af_artifact_hash a"
    and "\<exists>prep. fst (execute fuel E en ''prepare_acceptance'' auth [(''task_id'', JStr task_id)] None None s) = Inr prep \<and> cr_ok prep"
    and "py_list (jor (dget spec ''expected_artifacts'') (JList [])) = Some xs \<Longrightarrow> n \<in> set xs \<Longrightarrow>
        (\<exists>a \<in> set (t_rows (artifacts s)). af_task_id a = task_id \<and> (\<exists>path. af_source_path a = Some path \<and> n = JStr path))
        \<or> (\<exists>named. py_list (jor (jget result ''published_paths'') (JList [])) = Some named \<and> n \<in> set named)"
proof -
  from run obtain s0 tools s1 F s2 missing s3 prep s4 task where
    first: "only_if (result \<noteq> JNull \<and> \<not> is_obj result) (raise ValueError) s = (Inr (), s0)"
    and steps: "tool_rows run_id s0 = (Inr tools, s1)" "gather E describe isoformat spec task_id result s1 = (Inr F, s2)"
      "criteria_missing F s2 = (Inr missing, s3)"
      "accept_or_not fuel E en auth task_id (delivered F \<and> (case missing of None \<Rightarrow> True | Some xs \<Rightarrow> xs = [])) s3 = (Inr prep, s4)"
      "read_task task_id s4 = (Inr task, t)"
    and r: "r = foldl (\<lambda>d (k, v). dset k v d) record ((''ok'', JBool ((delivered F \<and> (case missing of None \<Rightarrow> True | Some xs \<Rightarrow> xs = []))
         \<and> (case prep of None \<Rightarrow> False | Some r \<Rightarrow> cr_ok r)))
       # facts_part (map JObj tools) F
       @ (case missing of None \<Rightarrow> [] | Some xs \<Rightarrow> [(''missing_acceptance_evidence'', jstrs xs)])
       @ [(''prepare_acceptance'', acceptance_part prep), (''task_state'', dget task ''state''),
          (''model_calls_used'', dget task ''model_calls_used''), (''internal_task_id'', JStr task_id)])"
    unfolding judge_run_def Let_def seq_Inr_iff andthen_Inr_iff ret_def prod.inject sum.inject by blast
  have "s0 = s" using first by (auto simp: only_if_def raise_def ret_def split: if_splits)
  note steps = steps [unfolded this]
  have "dget r ''ok'' = JBool ((delivered F \<and> (case missing of None \<Rightarrow> True | Some xs \<Rightarrow> xs = [])) \<and> (case prep of None \<Rightarrow> False | Some r \<Rightarrow> cr_ok r))"
    unfolding r by (rule dget_first) (simp add: facts_part_def split: option.split)
  then obtain p where good: "delivered F" "case missing of None \<Rightarrow> True | Some xs \<Rightarrow> xs = []" and p: "prep = Some p" "cr_ok p"
    using ok by (auto split: option.splits)
  have "s1 = s" by (rule conjunct1 [OF read_back [OF steps(1) [unfolded tool_rows_def] clean]]) (intro readonly.keeps_struct frame_intro)
  note g = gather_reads [OF steps(2) [unfolded this] clean]
  have "s3 = s2" using steps(3) readonlyD [OF readonly_uncovered]
    by (auto simp: criteria_missing_def andthen_Inr_iff split: if_splits)
  then have "accept_or_not fuel E en auth task_id True s = (Inr (Some p), s4)" using steps(4) good g(1) p(1) by simp
  then show "\<exists>prep. fst (execute fuel E en ''prepare_acceptance'' auth [(''task_id'', JStr task_id)] None None s) = Inr prep \<and> cr_ok prep"
    using p(2) by (auto simp: accept_or_not_def andthen_Inr_iff)
  show "claims_pass result" using good(1) g(2) by (simp add: delivered_def)
  show "\<exists>row uri content. t_get artifact_key (task_id, af_artifact_hash a) (artifacts s) = Some row \<and> af_artifact_uri row = Some uri
        \<and> fst (artifact_store_get E uri s) = Inr content \<and> sha E content = af_artifact_hash a"
    if a: "a \<in> set (t_rows (artifacts s))" "af_task_id a = task_id"
  proof -
    have "trial_artifact a \<in> set (fa_artifacts F)" using a g(3) by simp
    then obtain c where c: "c \<in> set (fa_checks F)"
      "verify_artifact_content E describe isoformat task_id (py_str (dget (trial_artifact a) ''artifact_hash'')) s = (Inr c, s)"
      using list_all2_in [OF g(4)] by blast
    then have one: "verify_artifact_content E describe isoformat task_id (af_artifact_hash a) s = (Inr c, s)"
      by (simp add: trial_artifact_def dget_def)
    have "truthy (dget c ''verified'')" using c(1) good(1) by (simp add: delivered_def list_all_iff)
    then have "dget c ''verified'' = JBool True" using verify_read [OF one clean] by blast
    then show ?thesis using verified_iff_bytes_match [OF one] by blast
  qed
  show "(\<exists>a \<in> set (t_rows (artifacts s)). af_task_id a = task_id \<and> (\<exists>path. af_source_path a = Some path \<and> n = JStr path))
        \<or> (\<exists>named. py_list (jor (jget result ''published_paths'') (JList [])) = Some named \<and> n \<in> set named)"
    if "py_list (jor (dget spec ''expected_artifacts'') (JList [])) = Some xs" "n \<in> set xs"
  proof -
    have "fa_missing F = []" using good(1) by (simp add: delivered_def)
    moreover have "n \<in> set (fa_expected F)" using that g(6) by simp
    ultimately have "(\<exists>named. py_list (jor (jget result ''published_paths'') (JList [])) = Some named \<and> n \<in> set named)
        \<or> (\<exists>d \<in> set (fa_artifacts F). truthy (dget d ''source_path'') \<and> n = JStr (py_str (dget d ''source_path'')))"
      using missing_Inr [OF g(5)] by auto
    then show ?thesis unfolding g(3)
      by (auto simp: trial_artifact_def dget_def jopt_def split: option.splits)
  qed
qed

end
