(* ===== verification/Command_Line.thy ===== *)
theory Command_Line
  imports Reads Migrations
begin

text \<open>
  The command line (\<open>interfaces/cli/main.py\<close>) with what it needs to start: the lock of the data directory
  (\<open>persistence/session.py\<close>), the order of the steps of \<open>bootstrap_core\<close>, and one command over the service with
  its exit code. The parsing of the arguments is the library's and printing writes no state; both are outside the model.
\<close>

subsection \<open>The lock of a data directory\<close>

text \<open>
  The lock belongs to an open file: an instance that opens the file again drops its own lock first, so only the lock of
  another instance refuses it. Instances are numbered.
\<close>

record lock_file =
  lk_holder :: "nat option"
  lk_content :: string

definition acquire :: "nat \<Rightarrow> string \<Rightarrow> lock_file \<Rightarrow> lock_file option" where
  "acquire i holder L = (if lk_holder L = None \<or> lk_holder L = Some i
     then Some \<lparr> lk_holder = Some i, lk_content = holder \<rparr> else None)"

definition release_lock :: "nat \<Rightarrow> lock_file \<Rightarrow> lock_file" where
  "release_lock i L = (if lk_holder L = Some i then L\<lparr> lk_holder := None \<rparr> else L)"

lemma acquire_Some: "acquire i holder L = Some M \<Longrightarrow> lk_holder M = Some i \<and> (lk_holder L = None \<or> lk_holder L = Some i)"
  by (auto simp: acquire_def split: if_splits)

lemma released: "lk_holder (release_lock i L) \<noteq> Some i" "lk_holder L \<noteq> Some i \<Longrightarrow> release_lock i L = L"
  by (auto simp: release_lock_def)

subsection \<open>Start-up\<close>

record data_directory =
  dd_database :: database
  dd_lock :: lock_file

datatype start_outcome = Started | Lock_Held

text \<open>The database is migrated and checked first; then the lock is taken. A lock held by another instance leaves the migrated database.\<close>

definition bootstrap_core :: "nat \<Rightarrow> bool \<Rightarrow> bool \<Rightarrow> data_directory \<Rightarrow> db_error + start_outcome \<times> data_directory" where
  "bootstrap_core i run_migrate acquire_lock D =
    (case open_database run_migrate (dd_database D) of
       Inl e \<Rightarrow> Inl e
     | Inr d \<Rightarrow> (let D1 = D\<lparr> dd_database := d \<rparr>
         in if \<not> acquire_lock then Inr (Started, D1)
            else (case acquire i ''core'' (dd_lock D1) of
                    None \<Rightarrow> Inr (Lock_Held, D1)
                  | Some L \<Rightarrow> Inr (Started, D1\<lparr> dd_lock := L \<rparr>))))"

lemma started_holds:
  "bootstrap_core i m True D = Inr (Started, D1) \<Longrightarrow>
     lk_holder (dd_lock D1) = Some i \<and> (lk_holder (dd_lock D) = None \<or> lk_holder (dd_lock D) = Some i)"
  by (auto simp: bootstrap_core_def Let_def dest: acquire_Some split: sum.splits if_splits option.splits)

lemma refused_keeps_lock: "bootstrap_core i m b D = Inr (Lock_Held, D1) \<Longrightarrow> dd_lock D1 = dd_lock D"
  by (auto simp: bootstrap_core_def Let_def split: sum.splits if_splits option.splits)

text \<open>Instances come and go on one directory; a start the database refuses changes neither lock nor instances.\<close>

inductive lock_step :: "data_directory \<times> nat set \<Rightarrow> data_directory \<times> nat set \<Rightarrow> bool" where
  starts: "i \<notin> R \<Longrightarrow> bootstrap_core i m True D = Inr (Started, D1) \<Longrightarrow> lock_step (D, R) (D1, insert i R)"
| refused: "i \<notin> R \<Longrightarrow> bootstrap_core i m True D = Inr (Lock_Held, D1) \<Longrightarrow> lock_step (D, R) (D1, R)"
| ends: "i \<in> R \<Longrightarrow> lock_step (D, R) (D\<lparr> dd_lock := release_lock i (dd_lock D) \<rparr>, R - {i})"

definition holders_only :: "data_directory \<times> nat set \<Rightarrow> bool" where
  "holders_only S \<longleftrightarrow> (\<forall>i \<in> snd S. lk_holder (dd_lock (fst S)) = Some i)"

lemma holders_only_same: "holders_only (D, R) \<Longrightarrow> i \<in> R \<Longrightarrow> j \<in> R \<Longrightarrow> i = j"
  unfolding holders_only_def by (metis fst_conv option.inject snd_conv)

lemma holders_only_step:
  assumes "lock_step S T" and "holders_only S"
  shows "holders_only T"
  using assms(1)
proof (cases rule: lock_step.cases)
  case (starts i R D D1)
  with assms(2) started_holds [OF starts(4)] show ?thesis by (auto simp: holders_only_def)
next
  case (refused i R D D1)
  with assms(2) refused_keeps_lock [OF refused(4)] show ?thesis by (simp add: holders_only_def)
next
  case (ends i R D)
  have "R - {i} = {}" using assms(2) ends(1,3) by (blast intro: holders_only_same)
  then show ?thesis unfolding ends(2) holders_only_def by auto
qed

lemma one_core_per_directory:
  assumes "lock_step\<^sup>*\<^sup>* (D, {}) (D1, R)" and "i \<in> R" and "j \<in> R"
  shows "i = j"
proof -
  have "holders_only (D1, R)" using assms(1)
  proof (induction rule: rtranclp_induct)
    case base
    show ?case by (simp add: holders_only_def)
  next
    case (step y z)
    then show ?case by (blast intro: holders_only_step)
  qed
  with assms(2,3) show ?thesis by (auto intro: holders_only_same)
qed

text \<open>
  The lock comes too late for the schema: an instance that is refused because another one runs has already migrated the
  database under the running one, whatever revision that one started from.
\<close>

lemma refused_start_migrates:
  assumes "history (dd_database D)" and "lk_holder (dd_lock D) = Some j" and "j \<noteq> i"
  shows "bootstrap_core i True True D = Inr (Lock_Held, D\<lparr> dd_database := db_8 \<rparr>)"
proof -
  have "open_database True (dd_database D) = Inr db_8"
    using upgrade_head_reaches [OF history_revision [OF assms(1)]] revision_accepted [OF history_revision [OF assms(1)]] head_version
    by (simp add: open_database_def run_migrations_def ensure_schema_version_def SCHEMA_VERSION_def)
  then show ?thesis using assms(2,3) by (simp add: bootstrap_core_def acquire_def)
qed

subsection \<open>Commands\<close>

datatype cli_command =
    Create_Task string string "string option"
  | Submit_Contract string "string option"
  | Approve_Contract string "string option" "int option"
  | Activate_Minimal_Plan string
  | Dispatch_Ready string
  | Submit_Result string string "string option"
  | Get_Task string
  | List_Runs string
  | List_Events string
  | Pause string
  | Resume string
  | Cancel string
  | Reconcile

record arguments =
  ag_principal :: string
  ag_actor :: string
  ag_actor_type :: ActorType
  ag_auth_context :: string
  ag_scopes :: "string list"
  ag_message_id :: "string option"
  ag_idempotency_key :: "string option"

text \<open>A credential of the command line is bound to no Task and no Run.\<close>

definition auth_from_args :: "arguments \<Rightarrow> AuthContext" where
  "auth_from_args args = \<lparr> principal_id = ag_principal args, actor_id = ag_actor args, actor_type = ag_actor_type args,
     auth_context_id = ag_auth_context args, scopes = ag_scopes args, bound_task_id = None, bound_run_id = None,
     bound_fencing_epoch = None, bound_grant_epoch = None \<rparr>"

text \<open>What is printed: the answer of a command, or what was read.\<close>

datatype printed = Answer CommandResult | Shown json

definition exit_of :: "CommandResult \<Rightarrow> nat" where
  "exit_of r = (if cr_ok r then 0 else 1)"

text \<open>The operation, the payload and the identifiers a command sends; \<open>None\<close> where it reads or reconciles.\<close>

definition sent :: "arguments \<Rightarrow> cli_command \<Rightarrow> (string \<times> dict \<times> string option \<times> string option) option" where
  "sent args cmd =
    (let mid = ag_message_id args
     in (case cmd of
           Create_Task title intent task_id \<Rightarrow> Some (''create_task'',
             [(''title'', JStr title), (''intent'', JStr intent), (''task_id'', jopt task_id)], mid, ag_idempotency_key args)
         | Submit_Contract task_id objective \<Rightarrow> Some (''submit_contract'',
             (''task_id'', JStr task_id) # (if is_set objective then [(''objective'', jopt objective)] else []), mid, None)
         | Approve_Contract decision_id expected_hash expected_version \<Rightarrow> Some (''approve_contract'',
             [(''decision_id'', JStr decision_id), (''expected_target_hash'', jopt expected_hash),
              (''expected_target_version'', jint_opt expected_version)], mid, None)
         | Activate_Minimal_Plan task_id \<Rightarrow> Some (''activate_minimal_plan'', [(''task_id'', JStr task_id)], mid, None)
         | Dispatch_Ready task_id \<Rightarrow> Some (''dispatch_ready_runs'', [(''task_id'', JStr task_id)], mid, None)
         | Submit_Result run_id outcome verdict \<Rightarrow> Some (''submit_result'', [(''run_id'', JStr run_id),
             (''result'', JObj ((''outcome'', JStr outcome) # (if is_set verdict then [(''verdict'', jopt verdict)] else [])))], mid, None)
         | Pause task_id \<Rightarrow> Some (''pause_task'', [(''task_id'', JStr task_id)], None, None)
         | Resume task_id \<Rightarrow> Some (''resume_task'', [(''task_id'', JStr task_id)], None, None)
         | Cancel task_id \<Rightarrow> Some (''cancel_task'', [(''task_id'', JStr task_id)], None, None)
         | _ \<Rightarrow> None))"

definition read_command :: "env \<Rightarrow> cli_command \<Rightarrow> json tx" where
  "read_command E cmd =
    (case cmd of
       Get_Task task_id \<Rightarrow> andthen (read_task task_id) (\<lambda>d.
         ret (JObj d))
     | List_Runs task_id \<Rightarrow> andthen (list_runs task_id) (\<lambda>xs.
       ret (JList xs))
     | List_Events task_id \<Rightarrow> andthen (list_events task_id) (\<lambda>xs.
       ret (JList xs))
     | _ \<Rightarrow> andthen (reconcile E) (\<lambda>xs.
       ret (jstrs xs)))"

definition run_command :: "nat \<Rightarrow> env \<Rightarrow> AuthContext \<Rightarrow> arguments \<Rightarrow> cli_command \<Rightarrow> (nat \<times> printed) tx" where
  "run_command fuel E auth args cmd =
    (case sent args cmd of
       Some (operation, payload, message_id, idempotency_key) \<Rightarrow> andthen (execute fuel E True operation auth payload message_id idempotency_key) (\<lambda>r.
         ret (exit_of r, Answer r))
     | None \<Rightarrow> andthen (read_command E cmd) (\<lambda>j.
       ret (0, Shown j)))"

text \<open>A domain error ends the process with code one and prints nothing.\<close>

definition dispatch_command :: "nat \<Rightarrow> env \<Rightarrow> AuthContext \<Rightarrow> arguments \<Rightarrow> cli_command \<Rightarrow> (nat \<times> printed option) tx" where
  "dispatch_command fuel E auth args cmd =
    handle (andthen (run_command fuel E auth args cmd) (\<lambda>r.
      ret (fst r, Some (snd r))))
      (\<lambda>e. if is_domain_error e then ret (1, None) else raise e)"

text \<open>
  How the process ends: with a code, or with the traceback of an exception. A refused schema gives code two;
  every other refusal of the database, and a lock held elsewhere, is a traceback. The lock is released in both cases.
\<close>

datatype process_end = Exit nat "printed option" | Traceback

definition main :: "nat \<Rightarrow> env \<Rightarrow> nat \<Rightarrow> arguments \<Rightarrow> cli_command \<Rightarrow> data_directory \<Rightarrow> sess \<Rightarrow> process_end \<times> data_directory \<times> sess" where
  "main fuel E i args cmd D s =
    (case bootstrap_core i True True D of
       Inl e \<Rightarrow> ((if e = SchemaStartupError then Exit 2 None else Traceback), D, s)
     | Inr (Lock_Held, D1) \<Rightarrow> (Traceback, D1, s)
     | Inr (Started, D1) \<Rightarrow> (let D2 = D1\<lparr> dd_lock := release_lock i (dd_lock D1) \<rparr>
         in (case dispatch_command fuel E (auth_from_args args) args cmd s of
               (Inl e, t) \<Rightarrow> (Traceback, D2, t)
             | (Inr (code, shown), t) \<Rightarrow> (Exit code shown, D2, t))))"

subsection \<open>What the command line can do\<close>

lemma main_releases:
  assumes "main fuel E i args cmd D s = (Exit code shown, D1, t)" and "code \<noteq> 2"
  shows "lk_holder (dd_lock D1) = None"
proof -
  obtain D0 where D0: "bootstrap_core i True True D = Inr (Started, D0)" "D1 = D0\<lparr> dd_lock := release_lock i (dd_lock D0) \<rparr>"
    using assms by (auto simp: main_def Let_def split: sum.splits start_outcome.splits prod.splits if_splits)
  with started_holds [OF D0(1)] show ?thesis by (simp add: release_lock_def)
qed

text \<open>
  The command \<open>submit-result\<close> exists and is never accepted: it sends no fencing epoch, and its credential is bound to no
  Run, so the admission of \<open>submit_result\<close> refuses it on every database.
\<close>

lemma unbound_submit_refused:
  assumes "bound_run_id auth = None"
  shows "authorize_run_command ''submit_result'' auth payload s \<noteq> (Inr (), t)"
  using assms by (auto simp: authorize_run_command_def RUN_COMMANDS_def assert_run_write_binding_def runtime_bound_def tx_inv)

lemma run_tx_returned: "run_tx m s = (Inr x, t) \<Longrightarrow> \<exists>u. m s = (Inr x, u)"
  by (auto simp: run_tx_def split: prod.splits sum.splits if_splits)

lemma handle_InrE:
  assumes "handle m h s = (Inr x, t)"
  obtains "m s = (Inr x, t)" | e u where "m s = (Inl e, u)" and "h e u = (Inr x, t)"
  using assms by (auto simp: handle_def split: prod.splits sum.splits)

lemma unbound_submit_fails:
  assumes "bound_run_id auth = None" and answered: "execute fuel E b ''submit_result'' auth payload mid ikey s = (Inr r, t)"
  shows "\<not> cr_ok r"
proof -
  have no_entry: "run_tx (execute_in_tx E ''submit_result'' auth p m k ph) u \<noteq> (Inr x, v)" for p m k ph u x v
    using unbound_submit_refused [OF assms(1)]
    by (auto dest!: run_tx_returned simp: execute_in_tx_def tx_inv)
  have failed: "\<not> cr_ok q" if "as_failure e = Some q" for e q
    using that by (cases e) (auto simp: as_failure_def failure_def split: if_splits)
  show ?thesis
  proof (cases "guard_operation auth ''submit_result''")
    case (Inl e)
    with answered show ?thesis by (auto simp: execute_def failure_def)
  next
    case (Inr u)
    with answered obtain p m k ph ok u1 u2 where
      "handle (andthen (run_tx (execute_in_tx E ''submit_result'' auth p m k ph)) (\<lambda>r. ret (True, r)))
         (\<lambda>e. case as_failure e of None \<Rightarrow> raise e | Some r \<Rightarrow> ret (False, r)) u1 = (Inr (ok, r), u2)"
      unfolding execute_def Let_def by (auto simp: tx_inv)
    then show ?thesis
      by (cases rule: handle_InrE) (auto simp: tx_inv no_entry dest: failed split: option.splits)
  qed
qed

lemma submit_result_never_accepted:
  assumes "main fuel E i args (Submit_Result run_id outcome verdict) D s = (Exit code shown, D1, t)"
  shows "code \<noteq> 0"
proof -
  have unbound: "bound_run_id (auth_from_args args) = None" by (simp add: auth_from_args_def)
  have "run_command fuel E (auth_from_args args) args (Submit_Result run_id outcome verdict) s \<noteq> (Inr (0, p), u)" for p u
    by (auto simp: run_command_def sent_def Let_def tx_inv exit_of_def dest!: unbound_submit_fails [OF unbound] split: if_splits)
  with assms show ?thesis
    by (auto simp: main_def Let_def dispatch_command_def handle_def tx_inv
      split: sum.splits start_outcome.splits prod.splits if_splits)
qed

end
